(* ===== verification/Prelude.thy ===== *)
theory Prelude
  imports Complex_Main "HOL-Library.Product_Lexorder" "HOL-Library.List_Lexorder"
    "HOL-Library.Char_ord" "HOL-Library.Code_Target_Nat"
begin

text \<open>
  Shared vocabulary of the development: JavaScript values and the few standard-library functions
  the sources call on them, errors as values, database transactions as state-passing functions
  that either fail or return a value and a new state, tables as lists of rows, and two generic
  interfaces (a keyed table and a table of legal status transitions) that the components
  interpret.

  Conventions. A JavaScript number is \<open>Fin r\<close> for a rational \<open>r\<close>, or one of the three
  non-finite values; the rounding of double arithmetic is not modelled. A JavaScript string is
  an Isabelle \<open>string\<close>, one character per UTF-16 code unit below 256. A PostgreSQL timestamp is
  an \<open>int\<close>, a number of milliseconds, and \<open>NOW()\<close> is the argument \<open>now\<close> of the operation.
  PostgreSQL orders text by bytes (the C collation).
\<close>

named_theorems tx_simps \<open>unfolding rules for transactions\<close>
named_theorems tx_frames \<open>rules for what a transaction leaves alone\<close>
named_theorems tx_defs \<open>definitions of the transaction combinators, for evaluation\<close>

section \<open>JavaScript values\<close>

datatype jsnum = Fin rat | NaN | PosInf | NegInf

datatype jsv =
    JUndefined
  | JNull
  | JBool bool
  | JNum jsnum
  | JStr string
  | JArr "jsv list"
  | JObj "(string \<times> jsv) list"

definition js_int :: "int \<Rightarrow> jsv" where
  "js_int n = JNum (Fin (of_int n))"

definition max_safe_integer :: int where
  "max_safe_integer = 9007199254740991"

text \<open>\<open>Number.isSafeInteger\<close>, returning the integer it recognised.\<close>

fun safe_integer :: "jsv \<Rightarrow> int option" where
  "safe_integer (JNum (Fin r)) =
     (if r = of_int \<lfloor>r\<rfloor> \<and> - max_safe_integer \<le> \<lfloor>r\<rfloor> \<and> \<lfloor>r\<rfloor> \<le> max_safe_integer
      then Some \<lfloor>r\<rfloor> else None)"
| "safe_integer _ = None"

definition is_safe :: "int \<Rightarrow> bool" where
  "is_safe n \<longleftrightarrow> - max_safe_integer \<le> n \<and> n \<le> max_safe_integer"

lemma safe_integer_js_int [simp]:
  "safe_integer (js_int n) = (if is_safe n then Some n else None)"
  by (simp add: is_safe_def js_int_def)

lemma safe_integer_Some: "safe_integer v = Some n \<Longrightarrow> v = js_int n \<and> is_safe n"
  by (cases v rule: safe_integer.cases) (auto simp: is_safe_def js_int_def split: if_splits)

lemma js_int_neq [simp]: "js_int n \<noteq> JUndefined" "js_int n \<noteq> JNull"
  by (simp_all add: js_int_def)

lemma js_int_inject [simp]: "js_int m = js_int n \<longleftrightarrow> m = n"
  by (simp add: js_int_def)

text \<open>Property access on an object; an absent property reads as \<open>undefined\<close>.\<close>

definition js_get :: "(string \<times> jsv) list \<Rightarrow> string \<Rightarrow> jsv" where
  "js_get kvs k = (case map_of kvs k of None \<Rightarrow> JUndefined | Some v \<Rightarrow> v)"

text \<open>\<open>Math.round\<close>: ties go towards plus infinity.\<close>

definition js_round :: "rat \<Rightarrow> int" where
  "js_round r = \<lfloor>r + 1 / 2\<rfloor>"

lemma js_round_of_int [simp]: "js_round (of_int n) = n"
proof -
  have "\<lfloor>(of_int n :: rat) + 1 / 2\<rfloor> = n + \<lfloor>1 / 2 :: rat\<rfloor>"
    by (metis floor_add_int add.commute)
  moreover have "\<lfloor>1 / 2 :: rat\<rfloor> = 0"
    by (rule floor_unique) auto
  ultimately show ?thesis by (simp add: js_round_def)
qed

lemma js_round_mono: "r \<le> s \<Longrightarrow> js_round r \<le> js_round s"
  by (simp add: js_round_def floor_mono)

lemma js_round_bounds:
  assumes "of_int a \<le> r" "r \<le> of_int b"
  shows "a \<le> js_round r \<and> js_round r \<le> b"
  using js_round_mono[OF assms(1)] js_round_mono[OF assms(2)] by simp

section \<open>Strings\<close>

text \<open>White space of \<open>String.prototype.trim\<close> and of the class \<open>\s\<close>, below code unit 256.\<close>

definition js_space :: "char \<Rightarrow> bool" where
  "js_space c \<longleftrightarrow> (let n = (of_char c :: nat) in (9 \<le> n \<and> n \<le> 13) \<or> n = 32 \<or> n = 160)"

definition js_trim_start :: "string \<Rightarrow> string" where
  "js_trim_start s = dropWhile js_space s"

definition js_trim_end :: "string \<Rightarrow> string" where
  "js_trim_end s = rev (dropWhile js_space (rev s))"

definition js_trim :: "string \<Rightarrow> string" where
  "js_trim s = js_trim_end (js_trim_start s)"

definition is_digit :: "char \<Rightarrow> bool" where
  "is_digit c \<longleftrightarrow> (let n = (of_char c :: nat) in 48 \<le> n \<and> n \<le> 57)"

definition is_upper :: "char \<Rightarrow> bool" where
  "is_upper c \<longleftrightarrow> (let n = (of_char c :: nat) in 65 \<le> n \<and> n \<le> 90)"

definition is_lower :: "char \<Rightarrow> bool" where
  "is_lower c \<longleftrightarrow> (let n = (of_char c :: nat) in 97 \<le> n \<and> n \<le> 122)"

definition is_alnum :: "char \<Rightarrow> bool" where
  "is_alnum c \<longleftrightarrow> is_digit c \<or> is_upper c \<or> is_lower c"

definition is_control :: "char \<Rightarrow> bool" where
  "is_control c \<longleftrightarrow> (let n = (of_char c :: nat) in n \<le> 31 \<or> n = 127)"

text \<open>ASCII lower-casing of one character (the only letters the sources compare).\<close>

definition ascii_lower :: "char \<Rightarrow> char" where
  "ascii_lower c = (if is_upper c then char_of ((of_char c :: nat) + 32) else c)"

lemma js_trim_start_length: "length (js_trim_start s) \<le> length s"
  by (simp add: js_trim_start_def length_dropWhile_le)

lemma js_trim_end_length: "length (js_trim_end s) \<le> length s"
  using length_dropWhile_le[of js_space "rev s"] by (simp add: js_trim_end_def)

lemma js_trim_length: "length (js_trim s) \<le> length s"
  using js_trim_start_length[of s] js_trim_end_length[of "js_trim_start s"]
  by (simp add: js_trim_def)

lemma js_trim_set: "set (js_trim s) \<subseteq> set s"
  by (auto simp: js_trim_def js_trim_end_def js_trim_start_def dest!: set_dropWhileD)

lemma js_trim_end_last:
  "js_trim_end s \<noteq> [] \<Longrightarrow> \<not> js_space (last (js_trim_end s))"
  unfolding js_trim_end_def by (metis hd_dropWhile last_rev rev_is_Nil_conv)

lemma js_trim_start_hd:
  "js_trim_start s \<noteq> [] \<Longrightarrow> \<not> js_space (hd (js_trim_start s))"
  unfolding js_trim_start_def by (rule hd_dropWhile)

lemma dropWhile_id: "(xs \<noteq> [] \<Longrightarrow> \<not> P (hd xs)) \<Longrightarrow> dropWhile P xs = xs"
  by (cases xs) auto

lemma js_trim_end_hd:
  assumes "js_trim_end s \<noteq> []"
  shows "hd (js_trim_end s) = hd s"
proof -
  have "s = js_trim_end s @ rev (takeWhile js_space (rev s))"
    by (metis js_trim_end_def rev_append rev_rev_ident takeWhile_dropWhile_id)
  with assms show ?thesis by (metis hd_append2)
qed

lemma js_trim_idem [simp]: "js_trim (js_trim s) = js_trim s"
proof -
  let ?t = "js_trim s"
  have hd: "?t \<noteq> [] \<Longrightarrow> \<not> js_space (hd ?t)"
    unfolding js_trim_def
    by (metis js_trim_end_hd js_trim_start_hd js_trim_end_def dropWhile.simps(1) rev.simps(1))
  have last: "?t \<noteq> [] \<Longrightarrow> \<not> js_space (last ?t)"
    unfolding js_trim_def by (rule js_trim_end_last)
  have "js_trim_start ?t = ?t"
    unfolding js_trim_start_def by (rule dropWhile_id) (rule hd)
  moreover have "js_trim_end ?t = ?t"
    unfolding js_trim_end_def using last
    by (subst dropWhile_id) (auto simp: hd_rev)
  ultimately show ?thesis by (metis js_trim_def)
qed

section \<open>Errors\<close>

text \<open>
  \<open>AppError\<close> keeps the HTTP status and the code of \<open>lib/services/errors.ts\<close>; \<open>DbError\<close> is a
  constraint or range violation reported by PostgreSQL; \<open>GenericError\<close> is a plain JavaScript
  \<open>Error\<close>. Messages meant for people are left out.
\<close>

datatype app_error =
    AppError nat string
  | DbError string
  | GenericError string

definition notFound :: "string \<Rightarrow> app_error" where
  "notFound resource = AppError 404 ''NOT_FOUND''"

definition conflict :: "string \<Rightarrow> app_error" where
  "conflict code = AppError 409 code"

section \<open>Transactions\<close>

text \<open>
  The body of a transaction reads and writes the database and may throw. \<open>withTransaction\<close>
  (\<open>lib/db.ts\<close>) commits the new state of a body that returned and rolls back the others. Two
  transactions never interleave in this model: the row locks the bodies take serialise them.
\<close>

type_synonym ('s, 'a) tx = "'s \<Rightarrow> app_error + 'a \<times> 's"

definition ret :: "'a \<Rightarrow> ('s, 'a) tx" where
  "ret a s = Inr (a, s)"

definition raise :: "app_error \<Rightarrow> ('s, 'a) tx" where
  "raise e s = Inl e"

definition tbind :: "('s, 'a) tx \<Rightarrow> ('a \<Rightarrow> ('s, 'b) tx) \<Rightarrow> ('s, 'b) tx" where
  "tbind m f s = (case m s of Inl e \<Rightarrow> Inl e | Inr (a, s') \<Rightarrow> f a s')"

definition gets :: "('s \<Rightarrow> 'a) \<Rightarrow> ('s, 'a) tx" where
  "gets f s = Inr (f s, s)"

definition modify :: "('s \<Rightarrow> 's) \<Rightarrow> ('s, unit) tx" where
  "modify f s = Inr ((), f s)"

definition require :: "bool \<Rightarrow> app_error \<Rightarrow> ('s, unit) tx" where
  "require b e = (if b then ret () else raise e)"

definition lift_res :: "app_error + 'a \<Rightarrow> ('s, 'a) tx" where
  "lift_res r s = (case r of Inl e \<Rightarrow> Inl e | Inr a \<Rightarrow> Inr (a, s))"

definition from_some :: "'a option \<Rightarrow> app_error \<Rightarrow> ('s, 'a) tx" where
  "from_some x e = (case x of None \<Rightarrow> raise e | Some a \<Rightarrow> ret a)"

definition withTransaction :: "('s, 'a) tx \<Rightarrow> 's \<Rightarrow> (app_error + 'a) \<times> 's" where
  "withTransaction m s = (case m s of Inl e \<Rightarrow> (Inl e, s) | Inr (a, s') \<Rightarrow> (Inr a, s'))"

lemmas tx_core_defs [tx_defs] = ret_def raise_def tbind_def gets_def modify_def require_def lift_res_def
  from_some_def

text \<open>Sequencing of computations that may throw but touch no state.\<close>

definition ebind :: "app_error + 'a \<Rightarrow> ('a \<Rightarrow> app_error + 'b) \<Rightarrow> app_error + 'b" where
  "ebind m f = (case m of Inl e \<Rightarrow> Inl e | Inr a \<Rightarrow> f a)"

lemma ebind_Inr_iff [tx_simps]: "ebind m f = Inr b \<longleftrightarrow> (\<exists>a. m = Inr a \<and> f a = Inr b)"
  by (auto simp: ebind_def split: sum.splits)

lemma ebind_simps [simp]: "ebind (Inr a) f = f a" "ebind (Inl e) f = Inl e"
  by (simp_all add: ebind_def)

text \<open>A \<open>for\<close> loop inside a transaction, and \<open>Array.map\<close> with a callback that may throw.\<close>

fun for_each :: "('a \<Rightarrow> ('s, unit) tx) \<Rightarrow> 'a list \<Rightarrow> ('s, unit) tx" where
  "for_each f [] = ret ()"
| "for_each f (x # xs) = tbind (f x) (\<lambda>_. for_each f xs)"

fun map_res :: "('a \<Rightarrow> app_error + 'b) \<Rightarrow> 'a list \<Rightarrow> app_error + 'b list" where
  "map_res f [] = Inr []"
| "map_res f (x # xs) =
     (case f x of
        Inl e \<Rightarrow> Inl e
      | Inr y \<Rightarrow> (case map_res f xs of Inl e \<Rightarrow> Inl e | Inr ys \<Rightarrow> Inr (y # ys)))"

text \<open>The operator \<open>??\<close>, and the truthiness of a string that may be \<open>null\<close>.\<close>

definition js_default :: "jsv \<Rightarrow> jsv \<Rightarrow> jsv" where
  "js_default v d = (if v = JUndefined \<or> v = JNull then d else v)"

definition truthy :: "string option \<Rightarrow> string option" where
  "truthy x = (case x of None \<Rightarrow> None | Some s \<Rightarrow> if s = [] then None else Some s)"

lemma truthy_Some: "truthy x = Some s \<Longrightarrow> x = Some s"
  by (auto simp: truthy_def split: option.splits if_splits)

lemma for_each_inv:
  assumes "for_each f xs s = Inr (u, s')" "I s"
    and "\<And>x s u s'. x \<in> set xs \<Longrightarrow> I s \<Longrightarrow> f x s = Inr (u, s') \<Longrightarrow> I s'"
  shows "I s'"
  using assms
proof (induction xs arbitrary: s)
  case Nil
  then show ?case by (simp add: ret_def)
next
  case (Cons x xs)
  then obtain v t where "f x s = Inr (v, t)" "for_each f xs t = Inr (u, s')"
    by (auto simp: tbind_def split: sum.splits)
  with Cons show ?case by (metis list.set_intros)
qed

lemma map_res_Inr: "map_res f xs = Inr ys \<Longrightarrow> list_all2 (\<lambda>x y. f x = Inr y) xs ys"
  by (induction xs arbitrary: ys) (auto split: sum.splits)

lemma tbind_Inr_iff [tx_simps]:
  "tbind m f s = Inr r \<longleftrightarrow> (\<exists>a s'. m s = Inr (a, s') \<and> f a s' = Inr r)"
  by (auto simp: tbind_def split: sum.splits)

lemma ret_Inr_iff [tx_simps]: "ret a s = Inr (b, s') \<longleftrightarrow> b = a \<and> s' = s"
  by (auto simp: ret_def)

lemma raise_Inr_iff [tx_simps]: "raise e s = Inr r \<longleftrightarrow> False"
  by (simp add: raise_def)

lemma gets_Inr_iff [tx_simps]: "gets f s = Inr (b, s') \<longleftrightarrow> b = f s \<and> s' = s"
  by (auto simp: gets_def)

lemma modify_Inr_iff [tx_simps]: "modify f s = Inr (b, s') \<longleftrightarrow> s' = f s"
  by (auto simp: modify_def)

lemma require_Inr_iff [tx_simps]: "require b e s = Inr (u, s') \<longleftrightarrow> b \<and> s' = s"
  by (auto simp: require_def tx_simps)

lemma lift_res_Inr_iff [tx_simps]: "lift_res r s = Inr (b, s') \<longleftrightarrow> r = Inr b \<and> s' = s"
  by (auto simp: lift_res_def split: sum.splits)

lemma from_some_Inr_iff [tx_simps]: "from_some x e s = Inr (b, s') \<longleftrightarrow> x = Some b \<and> s' = s"
  by (auto simp: from_some_def tx_simps split: option.splits)

text \<open>A check that applies only under a condition.\<close>

lemma guard_Inr_iff [tx_simps]:
  "(if c then lift_res r else ret ()) s = Inr (u, s') \<longleftrightarrow> (c \<longrightarrow> r = Inr ()) \<and> s' = s"
  by (auto simp: tx_simps)

lemma if_total:
  "(b \<Longrightarrow> \<exists>s'. m s = Inr ((), s')) \<Longrightarrow> (\<not> b \<Longrightarrow> \<exists>s'. n s = Inr ((), s')) \<Longrightarrow>
   \<exists>s'. (if b then m else n) s = Inr ((), s')"
  by simp

lemma ret_total: "\<exists>s'. ret () s = Inr ((), s')"
  by (simp add: ret_def)

text \<open>The same facts as elimination rules, to take a long body apart one step at a time.\<close>

lemma tbind_liftE:
  assumes "tbind (lift_res r) f s = Inr x" obtains a where "r = Inr a" "f a s = Inr x"
  using assms by (cases x) (auto simp: tx_simps)

lemma tbind_getsE:
  assumes "tbind (gets g) f s = Inr x" obtains "f (g s) s = Inr x"
  using assms by (cases x) (auto simp: tx_simps)

lemma tbind_requireE:
  assumes "tbind (require b e) f s = Inr x" obtains "b" "f () s = Inr x"
  using assms by (cases x) (auto simp: tx_simps)

lemma tbind_someE:
  assumes "tbind (from_some v e) f s = Inr x" obtains a where "v = Some a" "f a s = Inr x"
  using assms by (cases x) (auto simp: tx_simps)

lemma tbindE:
  assumes "tbind m f s = Inr x" obtains a s' where "m s = Inr (a, s')" "f a s' = Inr x"
  using assms by (cases x) (auto simp: tx_simps)

lemmas tx_elims = tbind_liftE tbind_getsE tbind_requireE tbind_someE tbindE

lemma withTransaction_rollback:
  "fst (withTransaction m s) = Inl e \<Longrightarrow> snd (withTransaction m s) = s"
  by (auto simp: withTransaction_def split: sum.splits prod.splits)

lemma withTransaction_Inr:
  "withTransaction m s = (Inr a, s') \<longleftrightarrow> m s = Inr (a, s')"
  by (auto simp: withTransaction_def split: sum.splits prod.splits)

text \<open>A transaction leaves the view \<open>P\<close> of the state alone.\<close>

definition tx_frame :: "('s \<Rightarrow> 'x) \<Rightarrow> ('s, 'a) tx \<Rightarrow> bool" where
  "tx_frame P m \<longleftrightarrow> (\<forall>s a s'. m s = Inr (a, s') \<longrightarrow> P s' = P s)"

lemma tx_frameD: "tx_frame P m \<Longrightarrow> m s = Inr (a, s') \<Longrightarrow> P s' = P s"
  by (auto simp: tx_frame_def)

lemma tx_frame_tbind [tx_frames]:
  "tx_frame P m \<Longrightarrow> (\<And>a. tx_frame P (f a)) \<Longrightarrow> tx_frame P (tbind m f)"
  by (fastforce simp: tx_frame_def tx_simps)

lemma tx_frame_basic [tx_frames]:
  "tx_frame P (ret x)" "tx_frame P (raise e)" "tx_frame P (gets f)" "tx_frame P (require b e)"
  "tx_frame P (lift_res r)" "tx_frame P (from_some v e)"
  by (auto simp: tx_frame_def tx_simps)

lemma tx_frame_modify [tx_frames]: "(\<And>s. P (f s) = P s) \<Longrightarrow> tx_frame P (modify f)"
  by (auto simp: tx_frame_def tx_simps)

lemma tx_frame_if [tx_frames]:
  "(b \<Longrightarrow> tx_frame P m) \<Longrightarrow> (\<not> b \<Longrightarrow> tx_frame P n) \<Longrightarrow> tx_frame P (if b then m else n)"
  by simp

lemma tx_frame_option [tx_frames]:
  "tx_frame P m \<Longrightarrow> (\<And>a. tx_frame P (f a)) \<Longrightarrow>
   tx_frame P (case v of None \<Rightarrow> m | Some a \<Rightarrow> f a)"
  by (cases v) auto

lemma tx_frame_prod [tx_frames]:
  "(\<And>a b. tx_frame P (f a b)) \<Longrightarrow> tx_frame P (case v of (a, b) \<Rightarrow> f a b)"
  by (cases v) auto

lemma tx_frame_sum [tx_frames]:
  "(\<And>a. tx_frame P (f a)) \<Longrightarrow> (\<And>b. tx_frame P (g b)) \<Longrightarrow>
   tx_frame P (case v of Inl a \<Rightarrow> f a | Inr b \<Rightarrow> g b)"
  by (cases v) auto

lemma tx_frame_Let [tx_frames]: "(\<And>x. tx_frame P (f x)) \<Longrightarrow> tx_frame P (let x = v in f x)"
  by simp

lemma tx_frame_for_each [tx_frames]:
  "(\<And>x. tx_frame P (f x)) \<Longrightarrow> tx_frame P (for_each f xs)"
  by (induction xs) (auto intro: tx_frames)

text \<open>The interface of a relation between the state before and after that transactions compose.\<close>

locale tx_preorder =
  fixes R :: "'s \<Rightarrow> 's \<Rightarrow> bool"
  assumes R_refl: "R s s"
    and R_trans: "R s t \<Longrightarrow> R t u \<Longrightarrow> R s u"
begin

definition rel :: "('s, 'a) tx \<Rightarrow> bool" where
  "rel m \<longleftrightarrow> (\<forall>s a s'. m s = Inr (a, s') \<longrightarrow> R s s')"

lemma relD: "rel m \<Longrightarrow> m s = Inr (a, s') \<Longrightarrow> R s s'"
  by (auto simp: rel_def)

lemma rel_tbind: "rel m \<Longrightarrow> (\<And>a. rel (f a)) \<Longrightarrow> rel (tbind m f)"
  unfolding rel_def tx_simps by (blast intro: R_trans)

lemma rel_basic:
  "rel (ret x)" "rel (raise e)" "rel (gets f)" "rel (require b e)" "rel (lift_res r)" "rel (from_some v e)"
  by (auto simp: rel_def tx_simps R_refl)

lemma rel_if: "(b \<Longrightarrow> rel m) \<Longrightarrow> (\<not> b \<Longrightarrow> rel n) \<Longrightarrow> rel (if b then m else n)"
  by simp

lemma rel_option: "rel m \<Longrightarrow> (\<And>a. rel (f a)) \<Longrightarrow> rel (case v of None \<Rightarrow> m | Some a \<Rightarrow> f a)"
  by (cases v) auto

lemma rel_prod: "(\<And>a b. rel (f a b)) \<Longrightarrow> rel (case v of (a, b) \<Rightarrow> f a b)"
  by (cases v) auto

lemma rel_Let: "(\<And>x. rel (f x)) \<Longrightarrow> rel (let x = v in f x)"
  by simp

lemma rel_for_each: "(\<And>x. rel (f x)) \<Longrightarrow> rel (for_each f xs)"
  by (induction xs) (auto intro: rel_basic rel_tbind)

lemma rel_frame:
  assumes "tx_frame P m" "\<And>s t. P t = P s \<Longrightarrow> R s t"
  shows "rel m"
  using assms by (auto simp: rel_def tx_frame_def)

lemmas rel_rules = rel_tbind rel_basic rel_if rel_option rel_prod rel_Let rel_for_each

end

section \<open>Tables\<close>

text \<open>
  A table is the list of its rows in insertion order. \<open>SELECT ... WHERE id = k\<close> is \<open>find\<close>;
  \<open>UPDATE ... WHERE P\<close> rewrites the matching rows in place.
\<close>

definition update_where :: "('r \<Rightarrow> bool) \<Rightarrow> ('r \<Rightarrow> 'r) \<Rightarrow> 'r list \<Rightarrow> 'r list" where
  "update_where P f t = map (\<lambda>r. if P r then f r else r) t"

lemma set_update_where: "set (update_where P f t) = (\<lambda>r. if P r then f r else r) ` set t"
  by (simp add: update_where_def)

lemma length_update_where [simp]: "length (update_where P f t) = length t"
  by (simp add: update_where_def)

lemma update_where_append [simp]:
  "update_where P f (t @ u) = update_where P f t @ update_where P f u"
  by (simp add: update_where_def)

lemma update_where_None: "(\<And>r. r \<in> set t \<Longrightarrow> \<not> P r) \<Longrightarrow> update_where P f t = t"
  by (induction t) (auto simp: update_where_def)

lemma ball_update_where:
  "(\<And>r. r \<in> set t \<Longrightarrow> P r \<Longrightarrow> Q r \<Longrightarrow> Q (f r)) \<Longrightarrow> \<forall>r\<in>set t. Q r \<Longrightarrow>
   \<forall>r\<in>set (update_where P f t). Q r"
  by (auto simp: set_update_where)

text \<open>The interface of a table with a primary key.\<close>

locale keyed_table =
  fixes key :: "'r \<Rightarrow> 'k"
begin

definition lookup :: "'k \<Rightarrow> 'r list \<Rightarrow> 'r option" where
  "lookup k t = find (\<lambda>r. key r = k) t"

definition keys_distinct :: "'r list \<Rightarrow> bool" where
  "keys_distinct t \<longleftrightarrow> distinct (map key t)"

lemma lookup_Some: "lookup k t = Some r \<Longrightarrow> r \<in> set t \<and> key r = k"
  by (auto simp: lookup_def find_Some_iff)

lemma lookup_None: "lookup k t = None \<longleftrightarrow> k \<notin> key ` set t"
  by (auto simp: lookup_def find_None_iff)

lemma lookup_mem:
  assumes "keys_distinct t" "r \<in> set t"
  shows "lookup (key r) t = Some r"
  using assms unfolding lookup_def keys_distinct_def by (induction t) auto

lemma keys_update_where:
  assumes "\<And>r. P r \<Longrightarrow> key (f r) = key r"
  shows "map key (update_where P f t) = map key t"
  using assms by (simp add: update_where_def)

lemma keys_distinct_update_where:
  assumes "\<And>r. P r \<Longrightarrow> key (f r) = key r"
  shows "keys_distinct (update_where P f t) = keys_distinct t"
  by (simp add: keys_distinct_def keys_update_where[OF assms])

lemma lookup_update_where:
  assumes "\<And>r. P r \<Longrightarrow> key (f r) = key r"
  shows "lookup k (update_where P f t) =
           map_option (\<lambda>r. if P r then f r else r) (lookup k t)"
  unfolding lookup_def update_where_def using assms by (induction t) auto

lemma lookup_update_key:
  assumes "\<And>r. key (f r) = key r"
  shows "lookup k (update_where (\<lambda>r. key r = k') f t) =
           (if k = k' then map_option f (lookup k t) else lookup k t)"
  using lookup_Some[of k t]
  by (subst lookup_update_where) (auto simp: assms option.map_comp map_option_case split: option.splits)

lemma lookup_append:
  "lookup k (t @ [r]) = (case lookup k t of Some x \<Rightarrow> Some x | None \<Rightarrow> if key r = k then Some r else None)"
  by (induction t) (auto simp: lookup_def)

lemma keys_distinct_append:
  "keys_distinct (t @ [r]) \<longleftrightarrow> keys_distinct t \<and> key r \<notin> key ` set t"
  by (auto simp: keys_distinct_def)

end

section \<open>Status machines\<close>

text \<open>
  The interface of a lifecycle declared by a table \<open>next\<close> of the statuses a status may move to.
  A run of the machine is a chain of such moves.
\<close>

locale status_machine =
  fixes "next" :: "'s \<Rightarrow> 's list"
    and can :: "'s \<Rightarrow> 's \<Rightarrow> bool"
  assumes can_next: "can a b \<longleftrightarrow> b \<in> set (next a)"
begin

definition moves :: "'s \<Rightarrow> 's \<Rightarrow> bool" where
  "moves a b \<longleftrightarrow> a = b \<or> can a b"

lemma moves_refl [simp]: "moves a a"
  by (simp add: moves_def)

lemma moves_can: "can a b \<Longrightarrow> moves a b"
  by (simp add: moves_def)

lemma moves_run: "moves a b \<Longrightarrow> can\<^sup>*\<^sup>* a b"
  by (auto simp: moves_def)

lemma can_closed_run:
  assumes "can\<^sup>*\<^sup>* a b" "a \<in> S" "\<And>x y. x \<in> S \<Longrightarrow> y \<in> set (next x) \<Longrightarrow> y \<in> S"
  shows "b \<in> S"
  using assms(1,2) by (induction rule: rtranclp_induct) (auto simp: can_next assms(3))

lemma final_stuck:
  assumes "next a = []" "can\<^sup>*\<^sup>* a b"
  shows "b = a"
  using can_closed_run[of a b "{a}"] assms by auto

end

section \<open>Lists\<close>

lemma find_SomeD: "find P xs = Some x \<Longrightarrow> x \<in> set xs \<and> P x"
  by (auto simp: find_Some_iff)

lemma sorted_key_take_drop:
  assumes "sorted (map f xs)" "x \<in> set (take n xs)" "y \<in> set (drop n xs)"
  shows "f x \<le> f y"
proof -
  have "sorted (map f (take n xs) @ map f (drop n xs))"
    using assms(1) by (metis append_take_drop_id map_append)
  with assms(2,3) show ?thesis by (auto simp: sorted_append)
qed

lemma set_sort_key_filter [simp]: "set (sort_key f (filter P xs)) = {x \<in> set xs. P x}"
  by auto

section \<open>Step relations and invariants\<close>

text \<open>The interface of an inductive invariant: a predicate every step keeps.\<close>

locale step_invariant =
  fixes step :: "'a \<Rightarrow> 'a \<Rightarrow> bool"
    and I :: "'a \<Rightarrow> bool"
  assumes step_keeps: "step s t \<Longrightarrow> I s \<Longrightarrow> I t"
begin

lemma run_keeps: "step\<^sup>*\<^sup>* s t \<Longrightarrow> I s \<Longrightarrow> I t"
  by (induction rule: rtranclp_induct) (auto intro: step_keeps)

end

text \<open>A relation between the two ends of a step that composes along runs.\<close>

locale step_preorder =
  fixes step :: "'a \<Rightarrow> 'a \<Rightarrow> bool"
    and R :: "'a \<Rightarrow> 'a \<Rightarrow> bool"
  assumes step_rel: "step s t \<Longrightarrow> R s t"
    and rel_refl: "R s s"
    and rel_trans: "R s t \<Longrightarrow> R t u \<Longrightarrow> R s u"
begin

lemma run_rel: "step\<^sup>*\<^sup>* s t \<Longrightarrow> R s t"
  by (induction rule: rtranclp_induct) (auto intro: step_rel rel_refl rel_trans)

end

end
