(* ===== verification/Job_Domain.thy ===== *)
theory Job_Domain
  imports Prelude
begin

text \<open>
  The job domain of \<open>lib/domain/jobs.ts\<close>: statuses and their transition table, error classes,
  the retry policy and its delay, the status a failed attempt leads to, and the sanitiser of
  error messages.
\<close>

section \<open>Statuses and error classes\<close>

datatype job_status =
    J_QUEUED | J_CLAIMED | J_RUNNING | J_RETRY_WAIT | J_CANCELLATION_REQUESTED
  | J_CANCELLED | J_SUCCEEDED | J_FAILED | J_DEAD_LETTER

datatype job_error_class =
    RETRYABLE_PROVIDER_RATE_LIMIT | RETRYABLE_PROVIDER_SERVER_ERROR | RETRYABLE_NETWORK
  | RETRYABLE_STORAGE | RETRYABLE_TIMEOUT | NON_RETRYABLE_VALIDATION | NON_RETRYABLE_SECURITY
  | NON_RETRYABLE_BUDGET | NON_RETRYABLE_USER_INPUT | EC_CANCELLED | EC_UNKNOWN

fun job_transitions :: "job_status \<Rightarrow> job_status list" where
  "job_transitions J_QUEUED = [J_CLAIMED, J_CANCELLED]"
| "job_transitions J_CLAIMED =
     [J_RUNNING, J_RETRY_WAIT, J_CANCELLATION_REQUESTED, J_CANCELLED, J_FAILED, J_DEAD_LETTER]"
| "job_transitions J_RUNNING =
     [J_SUCCEEDED, J_RETRY_WAIT, J_CANCELLATION_REQUESTED, J_CANCELLED, J_FAILED, J_DEAD_LETTER]"
| "job_transitions J_RETRY_WAIT = [J_CLAIMED, J_QUEUED, J_CANCELLED]"
| "job_transitions J_CANCELLATION_REQUESTED = [J_CANCELLED]"
| "job_transitions J_CANCELLED = []"
| "job_transitions J_SUCCEEDED = []"
| "job_transitions J_FAILED = [J_QUEUED]"
| "job_transitions J_DEAD_LETTER = [J_QUEUED]"

definition canTransitionJob :: "job_status \<Rightarrow> job_status \<Rightarrow> bool" where
  "canTransitionJob from to \<longleftrightarrow> to \<in> set (job_transitions from)"

definition assertJobTransition :: "job_status \<Rightarrow> job_status \<Rightarrow> app_error + unit" where
  "assertJobTransition from to =
     (if \<not> canTransitionJob from to then Inl (GenericError ''InvalidJobTransitionError'')
      else Inr ())"

definition isTerminalJobStatus :: "job_status \<Rightarrow> bool" where
  "isTerminalJobStatus s \<longleftrightarrow> s \<in> set [J_CANCELLED, J_SUCCEEDED, J_FAILED, J_DEAD_LETTER]"

definition retryableErrors :: "job_error_class list" where
  "retryableErrors = [RETRYABLE_PROVIDER_RATE_LIMIT, RETRYABLE_PROVIDER_SERVER_ERROR,
     RETRYABLE_NETWORK, RETRYABLE_STORAGE, RETRYABLE_TIMEOUT, EC_UNKNOWN]"

definition isRetryableJobError :: "job_error_class \<Rightarrow> bool" where
  "isRetryableJobError c \<longleftrightarrow> c \<in> set retryableErrors"

interpretation job_machine: status_machine job_transitions canTransitionJob
  by unfold_locales (simp add: canTransitionJob_def)

lemma assertJobTransition_Inr [tx_simps]:
  "assertJobTransition a b = Inr u \<longleftrightarrow> canTransitionJob a b"
  by (simp add: assertJobTransition_def)

section \<open>Retry policy\<close>

record job_retry_policy =
  baseDelayMs :: int
  maxDelayMs :: int
  jitterRatio :: rat

definition DEFAULT_JOB_RETRY_POLICY :: job_retry_policy where
  "DEFAULT_JOB_RETRY_POLICY = \<lparr>baseDelayMs = 1000, maxDelayMs = 60000, jitterRatio = 1 / 5\<rparr>"

definition finiteInteger :: "jsv \<Rightarrow> string \<Rightarrow> int \<Rightarrow> app_error + int" where
  "finiteInteger v name minimum =
     (case safe_integer v of
        None \<Rightarrow> Inl (GenericError name)
      | Some n \<Rightarrow> if n < minimum then Inl (GenericError name) else Inr n)"

definition parseJobRetryPolicy :: "jsv \<Rightarrow> app_error + job_retry_policy" where
  "parseJobRetryPolicy v =
     (case v of
        JObj candidate \<Rightarrow>
          (case finiteInteger (js_get candidate ''baseDelayMs'') ''baseDelayMs'' 1 of
             Inl e \<Rightarrow> Inl e
           | Inr base \<Rightarrow>
          (case finiteInteger (js_get candidate ''maxDelayMs'') ''maxDelayMs'' base of
             Inl e \<Rightarrow> Inl e
           | Inr mx \<Rightarrow>
          (case js_get candidate ''jitterRatio'' of
             JNum (Fin r) \<Rightarrow>
               if r < 0 \<or> r > 1 then Inl (GenericError ''jitterRatio'')
               else Inr \<lparr>baseDelayMs = base, maxDelayMs = mx, jitterRatio = r\<rparr>
           | _ \<Rightarrow> Inl (GenericError ''jitterRatio''))))
      | _ \<Rightarrow> Inl (GenericError ''retryPolicy''))"

text \<open>A policy as the object the code stores and reads back.\<close>

definition policy_value :: "job_retry_policy \<Rightarrow> jsv" where
  "policy_value p = JObj [(''baseDelayMs'', js_int (baseDelayMs p)),
     (''maxDelayMs'', js_int (maxDelayMs p)), (''jitterRatio'', JNum (Fin (jitterRatio p)))]"

definition valid_policy :: "job_retry_policy \<Rightarrow> bool" where
  "valid_policy p \<longleftrightarrow> 1 \<le> baseDelayMs p \<and> baseDelayMs p \<le> maxDelayMs p \<and>
     maxDelayMs p \<le> max_safe_integer \<and> 0 \<le> jitterRatio p \<and> jitterRatio p \<le> 1"

definition calculateRetryDelayMs ::
  "jsv \<Rightarrow> jsv \<Rightarrow> jsv \<Rightarrow> jsv \<Rightarrow> app_error + int" where
  "calculateRetryDelayMs attempt policy retryAfterMs random =
     (case finiteInteger attempt ''attempt'' 1 of
        Inl e \<Rightarrow> Inl e
      | Inr att \<Rightarrow>
     (case parseJobRetryPolicy policy of
        Inl e \<Rightarrow> Inl e
      | Inr p \<Rightarrow>
     (case random of
        JNum (Fin rnd) \<Rightarrow>
          if rnd < 0 \<or> rnd > 1 then Inl (GenericError ''random'')
          else if retryAfterMs \<noteq> JUndefined \<and>
                  (case safe_integer retryAfterMs of None \<Rightarrow> True | Some n \<Rightarrow> n < 0)
          then Inl (GenericError ''retryAfterMs'')
          else
            (let exponent = nat (min (att - 1) 30);
                 exponential = min (maxDelayMs p) (baseDelayMs p * 2 ^ exponent);
                 jitterMultiplier = 1 - jitterRatio p + rnd * jitterRatio p * 2;
                 jittered = max 0 (js_round (of_int exponential * jitterMultiplier))
             in Inr (max jittered
                  (case safe_integer retryAfterMs of None \<Rightarrow> 0 | Some n \<Rightarrow> n)))
      | _ \<Rightarrow> Inl (GenericError ''random''))))"

definition failureJobStatus :: "job_error_class \<Rightarrow> jsv \<Rightarrow> jsv \<Rightarrow> app_error + job_status" where
  "failureJobStatus errorClass attempts maxAttempts =
     (case finiteInteger attempts ''attempts'' 1 of
        Inl e \<Rightarrow> Inl e
      | Inr att \<Rightarrow>
     (case finiteInteger maxAttempts ''maxAttempts'' 1 of
        Inl e \<Rightarrow> Inl e
      | Inr mx \<Rightarrow>
          if \<not> isRetryableJobError errorClass then Inr J_FAILED
          else if att < mx then Inr J_RETRY_WAIT else Inr J_DEAD_LETTER))"

lemma finiteInteger_Inr:
  "finiteInteger v nm m = Inr n \<longleftrightarrow> safe_integer v = Some n \<and> m \<le> n"
  by (auto simp: finiteInteger_def split: option.splits)

lemma finiteInteger_js_int [simp]:
  "finiteInteger (js_int k) nm m = (if is_safe k \<and> m \<le> k then Inr k else Inl (GenericError nm))"
  by (simp add: finiteInteger_def)

lemma parseJobRetryPolicy_valid: "parseJobRetryPolicy v = Inr p \<Longrightarrow> valid_policy p"
  by (auto simp: parseJobRetryPolicy_def valid_policy_def finiteInteger_Inr is_safe_def
      dest!: safe_integer_Some split: jsv.splits sum.splits jsnum.splits if_splits)

lemma parse_policy_value: "valid_policy p \<Longrightarrow> parseJobRetryPolicy (policy_value p) = Inr p"
  by (simp add: parseJobRetryPolicy_def policy_value_def valid_policy_def js_get_def is_safe_def
      max_safe_integer_def)

lemma failureJobStatus_Inr:
  "failureJobStatus c a m = Inr s \<Longrightarrow> s \<in> {J_FAILED, J_RETRY_WAIT, J_DEAD_LETTER}"
  by (auto simp: failureJobStatus_def split: sum.splits if_splits)

lemma failureJobStatus_ints:
  "failureJobStatus c (js_int a) (js_int m) = Inr s \<Longrightarrow>
   s = (if \<not> isRetryableJobError c then J_FAILED else if a < m then J_RETRY_WAIT else J_DEAD_LETTER)"
  by (auto simp: failureJobStatus_def split: sum.splits if_splits)

section \<open>The delay stays within the policy\<close>

text \<open>The exponential part grows from \<open>baseDelayMs\<close> to \<open>maxDelayMs\<close> and never leaves that range.\<close>

lemma exponential_bounds:
  assumes "valid_policy p"
  shows "1 \<le> min (maxDelayMs p) (baseDelayMs p * 2 ^ k)"
    and "min (maxDelayMs p) (baseDelayMs p * 2 ^ k) \<le> maxDelayMs p"
proof -
  have "1 * 1 \<le> baseDelayMs p * (2::int) ^ k"
    using assms by (intro mult_mono) (auto simp: valid_policy_def)
  then show "1 \<le> min (maxDelayMs p) (baseDelayMs p * 2 ^ k)"
    using assms by (auto simp: valid_policy_def)
qed simp

lemma jitter_range:
  assumes "0 \<le> j" "j \<le> 1" "0 \<le> r" "r \<le> (1::rat)"
  shows "1 - j \<le> 1 - j + r * j * 2" "1 - j + r * j * 2 \<le> 1 + j" "0 \<le> 1 - j"
proof -
  have "0 \<le> r * j" using assms by simp
  then show "1 - j \<le> 1 - j + r * j * 2" by simp
  have "r * j \<le> 1 * j" using assms by (intro mult_right_mono) auto
  then show "1 - j + r * j * 2 \<le> 1 + j" by linarith
  show "0 \<le> 1 - j" using assms by simp
qed

lemma calculateRetryDelayMs_nonneg:
  assumes "calculateRetryDelayMs a pv ra rv = Inr d"
  shows "0 \<le> d"
proof -
  have "\<exists>x y. d = max (max 0 x) y"
    using assms unfolding calculateRetryDelayMs_def Let_def
    by (simp split: sum.splits jsv.splits jsnum.splits if_splits) blast+
  then show ?thesis by auto
qed

lemma calculateRetryDelayMs_total:
  assumes "valid_policy p" "is_safe a" "1 \<le> a" "0 \<le> rnd" "rnd \<le> 1"
    "ra = JUndefined \<or> (\<exists>n. ra = js_int n \<and> is_safe n \<and> 0 \<le> n)"
  shows "\<exists>d. calculateRetryDelayMs (js_int a) (policy_value p) ra (JNum (Fin rnd)) = Inr d"
  using assms by (auto simp: calculateRetryDelayMs_def parse_policy_value Let_def)

section \<open>Sanitising error messages\<close>

text \<open>
  Each regular expression of \<open>sanitizeJobError\<close> is a left-to-right scan: at every position the
  pattern is tried, a match is replaced and the scan continues after it. The character classes of
  each pattern are disjoint where they meet, so the greedy match needs no backtracking.
\<close>

definition bearer_char :: "char \<Rightarrow> bool" where
  "bearer_char c \<longleftrightarrow> is_alnum c \<or> c \<in> set ''._~+/-''"

text \<open>The rest of the input after a match of \<open>lit\<close>, ignoring case.\<close>

fun match_ci :: "string \<Rightarrow> string \<Rightarrow> string option" where
  "match_ci [] s = Some s"
| "match_ci (p # ps) [] = None"
| "match_ci (p # ps) (c # s) = (if ascii_lower c = p then match_ci ps s else None)"

text \<open>\<open>Bearer\s+[A-Za-z0-9._~+\/-]+\<close>\<close>

definition match_bearer :: "string \<Rightarrow> string option" where
  "match_bearer s =
     (case match_ci ''bearer'' s of
        None \<Rightarrow> None
      | Some r1 \<Rightarrow>
          (let r2 = dropWhile js_space r1; r3 = dropWhile bearer_char r2
           in if r1 = [] \<or> \<not> js_space (hd r1) \<or> r2 = [] \<or> \<not> bearer_char (hd r2)
              then None else Some r3))"

lemma match_ci_length: "match_ci p s = Some r \<Longrightarrow> length r + length p = length s"
  by (induction p s rule: match_ci.induct) (auto split: if_splits)

lemma match_bearer_length: "match_bearer s = Some r \<Longrightarrow> length r < length s"
proof -
  assume "match_bearer s = Some r"
  then obtain r1 where "match_ci ''bearer'' s = Some r1"
    "r = dropWhile bearer_char (dropWhile js_space r1)"
    by (auto simp: match_bearer_def Let_def split: option.splits if_splits)
  moreover have "length (dropWhile bearer_char (dropWhile js_space r1)) \<le> length r1"
    by (meson le_trans length_dropWhile_le)
  ultimately show ?thesis using match_ci_length by fastforce
qed

function redact_bearer :: "string \<Rightarrow> string" where
  "redact_bearer s =
     (case s of
        [] \<Rightarrow> []
      | c # cs \<Rightarrow>
          (case match_bearer s of
             Some r \<Rightarrow> ''Bearer [REDACTED]'' @ redact_bearer r
           | None \<Rightarrow> c # redact_bearer cs))"
  by pat_completeness auto
termination
  by (relation "measure length") (auto dest: match_bearer_length)

definition word_char :: "char \<Rightarrow> bool" where
  "word_char c \<longleftrightarrow> is_alnum c \<or> c = CHR ''_''"

text \<open>\<open>api[_-]?key|password|secret|token\<close>, returning the matched text and the rest.\<close>

definition match_secret_name :: "string \<Rightarrow> (string \<times> string) option" where
  "match_secret_name s =
     (let try = (\<lambda>lit. map_option (\<lambda>r. (take (length lit) s, r)) (match_ci lit s)) in
      case try ''api_key'' of Some x \<Rightarrow> Some x | None \<Rightarrow>
      case try ''api-key'' of Some x \<Rightarrow> Some x | None \<Rightarrow>
      case try ''apikey'' of Some x \<Rightarrow> Some x | None \<Rightarrow>
      case try ''password'' of Some x \<Rightarrow> Some x | None \<Rightarrow>
      case try ''secret'' of Some x \<Rightarrow> Some x | None \<Rightarrow>
      try ''token'')"

text \<open>\<open>(name)\s*[:=]\s*\S+\<close>\<close>

definition match_secret :: "string \<Rightarrow> (string \<times> string) option" where
  "match_secret s =
     (case match_secret_name s of
        None \<Rightarrow> None
      | Some (name, r1) \<Rightarrow>
          (case dropWhile js_space r1 of
             [] \<Rightarrow> None
           | c # r2 \<Rightarrow>
               if c \<noteq> CHR '':'' \<and> c \<noteq> CHR ''='' then None
               else (case dropWhile js_space r2 of
                       [] \<Rightarrow> None
                     | r3 \<Rightarrow> Some (name, dropWhile (\<lambda>x. \<not> js_space x) r3))))"

lemma match_secret_name_length:
  "match_secret_name s = Some (n, r) \<Longrightarrow> length r < length s"
  by (auto simp: match_secret_name_def Let_def dest!: match_ci_length split: option.splits)

lemma match_secret_length: "match_secret s = Some (n, r) \<Longrightarrow> length r < length s"
proof -
  assume "match_secret s = Some (n, r)"
  then obtain r1 c r2 where r1: "match_secret_name s = Some (n, r1)"
    and r2: "dropWhile js_space r1 = c # r2"
    and r: "r = dropWhile (\<lambda>x. \<not> js_space x) (dropWhile js_space r2)"
    by (auto simp: match_secret_def split: option.splits list.splits if_splits)
  have "length r \<le> length r2"
    unfolding r by (meson le_trans length_dropWhile_le)
  moreover have "length r2 < length r1"
    using length_dropWhile_le[of js_space r1] r2 by simp
  ultimately show ?thesis using match_secret_name_length[OF r1] by simp
qed

text \<open>The argument \<open>prev\<close> tells whether the preceding character is a word character (\<open>\b\<close>).\<close>

function redact_secret :: "bool \<Rightarrow> string \<Rightarrow> string" where
  "redact_secret prev s =
     (case s of
        [] \<Rightarrow> []
      | c # cs \<Rightarrow>
          (case (if prev then None else match_secret s) of
             Some (name, r) \<Rightarrow>
               name @ ''=[REDACTED]'' @
               redact_secret (word_char (last (take (length s - length r) s))) r
           | None \<Rightarrow> c # redact_secret (word_char c) cs))"
  by pat_completeness auto
termination
  by (relation "measure (\<lambda>(_, s). length s)")
    (auto dest: match_secret_length split: if_splits)

text \<open>\<open>[\u0000-\u001f\u007f]+\<close>, each maximal run replaced by one space.\<close>

fun squash_control :: "string \<Rightarrow> string" where
  "squash_control [] = []"
| "squash_control [c] = (if is_control c then '' '' else [c])"
| "squash_control (c # d # s) =
     (if is_control c then (if is_control d then squash_control (d # s)
                            else CHR '' '' # squash_control (d # s))
      else c # squash_control (d # s))"

definition sanitizeJobError :: "string \<Rightarrow> string" where
  "sanitizeJobError message =
     (let t = take 2000 (js_trim (squash_control (redact_secret False (redact_bearer message))))
      in if t = [] then ''Unspecified job error'' else t)"

declare redact_bearer.simps [simp del] redact_secret.simps [simp del]

lemma squash_control_clean: "c \<in> set (squash_control s) \<Longrightarrow> \<not> is_control c"
  by (induction s rule: squash_control.induct)
    (auto simp: is_control_def split: if_splits)

text \<open>
  A sanitised error message is never empty, is at most 2000 characters long and contains
  no control character, whatever the message was.
\<close>

theorem sanitizeJobError_shape:
  "sanitizeJobError m \<noteq> [] \<and> length (sanitizeJobError m) \<le> 2000 \<and>
   \<not> list_ex is_control (sanitizeJobError m)"
proof -
  let ?t = "take 2000 (js_trim (squash_control (redact_secret False (redact_bearer m))))"
  have sub: "set ?t \<subseteq> set (squash_control (redact_secret False (redact_bearer m)))"
    by (rule subset_trans[OF set_take_subset js_trim_set])
  then have clean: "\<forall>c \<in> set ?t. \<not> is_control c"
    by (blast dest: squash_control_clean)
  show ?thesis
  proof (cases "?t = []")
    case True
    then have "sanitizeJobError m = ''Unspecified job error''"
      by (simp only: sanitizeJobError_def Let_def if_True refl)
    then show ?thesis by (simp add: is_control_def)
  next
    case False
    then have "sanitizeJobError m = ?t"
      by (simp only: sanitizeJobError_def Let_def if_False)
    moreover have "length ?t \<le> 2000" by (simp only: length_take min.cobounded2)
    ultimately show ?thesis using clean False by (simp only: list_ex_iff) blast
  qed
qed

text \<open>
  The redaction runs before control characters become spaces, so a token separated from
  \<open>Bearer\<close> by a control character that is not white space survives: the sanitised message
  shows it as an ordinary bearer token.
\<close>

theorem sanitizeJobError_control_leak:
  "sanitizeJobError (''Bearer'' @ char_of (1::nat) # ''sk-abc'') = ''Bearer sk-abc'' \<and>
   sanitizeJobError ''Bearer sk-abc'' = ''Bearer [REDACTED]''"
  by code_simp

section \<open>Retry delay\<close>

lemma retry_delay_bounds:
  assumes p: "valid_policy p" and a: "is_safe a" "1 \<le> a" and r: "0 \<le> rnd" "rnd \<le> 1"
    and h: "is_safe h" "0 \<le> h" "ra = js_int h \<or> ra = JUndefined \<and> h = 0"
  shows "\<exists>d. calculateRetryDelayMs (js_int a) (policy_value p) ra (JNum (Fin rnd)) = Inr d \<and>
           h \<le> d \<and> 0 \<le> d \<and>
           (h < d \<longrightarrow> of_int d \<le> of_int (maxDelayMs p) * (1 + jitterRatio p) + 1 / 2) \<and>
           (jitterRatio p = 0 \<longrightarrow>
              d = max h (min (maxDelayMs p) (baseDelayMs p * 2 ^ nat (min (a - 1) 30))))"
proof -
  let ?e = "min (maxDelayMs p) (baseDelayMs p * 2 ^ nat (min (a - 1) 30))"
  let ?m = "1 - jitterRatio p + rnd * jitterRatio p * 2"
  let ?d = "max (max 0 (js_round (of_int ?e * ?m))) h"
  have j: "0 \<le> jitterRatio p" "jitterRatio p \<le> 1" using p by (auto simp: valid_policy_def)
  have eq: "calculateRetryDelayMs (js_int a) (policy_value p) ra (JNum (Fin rnd)) = Inr ?d"
    using h(3)
  proof
    assume "ra = js_int h"
    then show ?thesis
      using p a r h by (simp add: calculateRetryDelayMs_def parse_policy_value Let_def)
  next
    assume "ra = JUndefined \<and> h = 0"
    then show ?thesis
      using p a r by (simp add: calculateRetryDelayMs_def parse_policy_value Let_def)
  qed
  have "of_int ?e * ?m \<le> of_int (maxDelayMs p) * (1 + jitterRatio p)"
    using exponential_bounds[OF p] jitter_range[OF j r] p
    by (intro mult_mono) (auto simp: valid_policy_def)
  moreover have "of_int (js_round (of_int ?e * ?m)) \<le> of_int ?e * ?m + 1 / 2"
    by (simp add: js_round_def)
  ultimately have up: "of_int (js_round (of_int ?e * ?m)) \<le>
      of_int (maxDelayMs p) * (1 + jitterRatio p) + 1 / 2"
    by linarith
  have pick: "h < max (max 0 x) h \<Longrightarrow> max (max 0 x) h = x" for x
    using h by (simp add: max_def split: if_splits)
  have "h < ?d \<longrightarrow> of_int ?d \<le> of_int (maxDelayMs p) * (1 + jitterRatio p) + 1 / 2"
  proof
    assume "h < ?d"
    then have "?d = js_round (of_int ?e * ?m)" by (rule pick)
    then show "of_int ?d \<le> of_int (maxDelayMs p) * (1 + jitterRatio p) + 1 / 2"
      using up by simp
  qed
  moreover have "jitterRatio p = 0 \<longrightarrow> ?d = max h ?e"
  proof
    assume "jitterRatio p = 0"
    then have "js_round (of_int ?e * ?m) = ?e"
      by (simp only: mult_zero_right mult_zero_left diff_zero add_0_right mult_1_right js_round_of_int)
    moreover have "max 0 ?e = ?e"
      using exponential_bounds(1)[OF p, of "nat (min (a - 1) 30)"] by linarith
    ultimately show "?d = max h ?e" by (simp only: max.commute)
  qed
  moreover have "h \<le> ?d" "0 \<le> ?d" by (simp_all only: le_max_iff_disj order_refl simp_thms)
  ultimately show ?thesis using eq by blast
qed

text \<open>
  For a valid policy, an attempt number from 1, a random value in the unit interval and a
  non-negative provider hint (none counts as zero), the retry delay is computed (no error), is at least the provider
  hint, and exceeds neither the hint nor the maximal delay widened by the jitter ratio; without
  jitter and without a hint it is exactly the capped exponential.
\<close>

theorem calculateRetryDelayMs_spec:
  assumes "valid_policy p" "is_safe a" "1 \<le> a" "0 \<le> rnd" "rnd \<le> 1"
    and "is_safe h" "0 \<le> h" "ra = js_int h \<or> ra = JUndefined \<and> h = 0"
  shows "\<exists>d. calculateRetryDelayMs (js_int a) (policy_value p) ra (JNum (Fin rnd)) = Inr d \<and>
           h \<le> d \<and> 0 \<le> d \<and>
           (h < d \<longrightarrow> of_int d \<le> of_int (maxDelayMs p) * (1 + jitterRatio p) + 1 / 2) \<and>
           (jitterRatio p = 0 \<longrightarrow>
              d = max h (min (maxDelayMs p) (baseDelayMs p * 2 ^ nat (min (a - 1) 30))))"
  by (rule retry_delay_bounds[OF assms])

theorem calculateRetryDelayMs_spec_witness:
  "\<exists>d. calculateRetryDelayMs (js_int 4) (policy_value DEFAULT_JOB_RETRY_POLICY) (js_int 250)
         (JNum (Fin (1 / 2))) = Inr d \<and> 250 \<le> d"
  using calculateRetryDelayMs_spec[of DEFAULT_JOB_RETRY_POLICY 4 "1 / 2" 250 "js_int 250"]
  by (auto simp: valid_policy_def DEFAULT_JOB_RETRY_POLICY_def is_safe_def max_safe_integer_def)

end
