(* ===== verification/Run_Domain.thy ===== *)
theory Run_Domain
  imports Prelude
begin

text \<open>
  Research runs and their stages: the lifecycles of \<open>lib/domain/research-runs.ts\<close> and the
  eleven-stage pipeline catalogue of \<open>lib/execution/stages.ts\<close> with its validator.
\<close>

section \<open>Run and stage lifecycles\<close>

datatype research_run_status =
    R_CREATED | R_WAITING_FOR_PLAN_APPROVAL | R_QUEUED | R_RUNNING | R_PAUSED | R_CANCELLING
  | R_CANCELLED | R_FAILED | R_QA_REQUIRED | R_APPROVAL_REQUIRED | R_COMPLETED | R_BLOCKED

datatype run_stage_status =
    S_PENDING | S_QUEUED | S_RUNNING | S_SUCCEEDED | S_FAILED | S_CANCELLED | S_BLOCKED | S_STALE

fun run_transitions :: "research_run_status \<Rightarrow> research_run_status list" where
  "run_transitions R_CREATED = [R_WAITING_FOR_PLAN_APPROVAL, R_QUEUED, R_CANCELLED]"
| "run_transitions R_WAITING_FOR_PLAN_APPROVAL = [R_QUEUED, R_CANCELLED]"
| "run_transitions R_QUEUED =
     [R_RUNNING, R_PAUSED, R_CANCELLING, R_CANCELLED, R_FAILED, R_BLOCKED]"
| "run_transitions R_RUNNING =
     [R_PAUSED, R_CANCELLING, R_CANCELLED, R_FAILED, R_QA_REQUIRED, R_APPROVAL_REQUIRED,
      R_COMPLETED, R_BLOCKED]"
| "run_transitions R_PAUSED = [R_QUEUED, R_CANCELLING, R_CANCELLED]"
| "run_transitions R_CANCELLING = [R_CANCELLED, R_FAILED]"
| "run_transitions R_CANCELLED = [R_QUEUED]"
| "run_transitions R_FAILED = [R_QUEUED]"
| "run_transitions R_QA_REQUIRED =
     [R_QUEUED, R_RUNNING, R_APPROVAL_REQUIRED, R_CANCELLING, R_CANCELLED, R_BLOCKED]"
| "run_transitions R_APPROVAL_REQUIRED =
     [R_QUEUED, R_RUNNING, R_COMPLETED, R_CANCELLING, R_CANCELLED, R_BLOCKED]"
| "run_transitions R_COMPLETED = [R_QUEUED]"
| "run_transitions R_BLOCKED = [R_QUEUED, R_CANCELLING, R_CANCELLED, R_FAILED]"

fun stage_transitions :: "run_stage_status \<Rightarrow> run_stage_status list" where
  "stage_transitions S_PENDING = [S_QUEUED, S_CANCELLED, S_BLOCKED]"
| "stage_transitions S_QUEUED = [S_RUNNING, S_FAILED, S_CANCELLED, S_BLOCKED]"
| "stage_transitions S_RUNNING = [S_SUCCEEDED, S_FAILED, S_CANCELLED, S_BLOCKED]"
| "stage_transitions S_SUCCEEDED = [S_STALE]"
| "stage_transitions S_FAILED = [S_QUEUED, S_CANCELLED]"
| "stage_transitions S_CANCELLED = [S_QUEUED]"
| "stage_transitions S_BLOCKED = [S_QUEUED, S_CANCELLED]"
| "stage_transitions S_STALE = [S_QUEUED, S_CANCELLED]"

definition canTransitionResearchRun :: "research_run_status \<Rightarrow> research_run_status \<Rightarrow> bool" where
  "canTransitionResearchRun from to \<longleftrightarrow> to \<in> set (run_transitions from)"

definition assertResearchRunTransition ::
  "research_run_status \<Rightarrow> research_run_status \<Rightarrow> app_error + unit" where
  "assertResearchRunTransition from to =
     (if \<not> canTransitionResearchRun from to then Inl (GenericError ''ResearchRunTransition'')
      else Inr ())"

definition canTransitionRunStage :: "run_stage_status \<Rightarrow> run_stage_status \<Rightarrow> bool" where
  "canTransitionRunStage from to \<longleftrightarrow> to \<in> set (stage_transitions from)"

definition assertRunStageTransition ::
  "run_stage_status \<Rightarrow> run_stage_status \<Rightarrow> app_error + unit" where
  "assertRunStageTransition from to =
     (if \<not> canTransitionRunStage from to then Inl (GenericError ''RunStageTransition'')
      else Inr ())"

interpretation run_machine: status_machine run_transitions canTransitionResearchRun
  by unfold_locales (simp add: canTransitionResearchRun_def)

interpretation stage_machine: status_machine stage_transitions canTransitionRunStage
  by unfold_locales (simp add: canTransitionRunStage_def)

lemma assertResearchRunTransition_Inr [tx_simps]:
  "assertResearchRunTransition a b = Inr u \<longleftrightarrow> canTransitionResearchRun a b"
  by (simp add: assertResearchRunTransition_def)

lemma assertRunStageTransition_Inr [tx_simps]:
  "assertRunStageTransition a b = Inr u \<longleftrightarrow> canTransitionRunStage a b"
  by (simp add: assertRunStageTransition_def)

section \<open>The pipeline catalogue\<close>

datatype ai_stage =
    intake_analysis | question_decomposition | research_plan | source_summary
  | evidence_extraction | claim_generation | gap_detection | conflict_detection
  | report_outline | draft_generation | qa_revision

definition AI_STAGES :: "ai_stage list" where
  "AI_STAGES = [intake_analysis, question_decomposition, research_plan, source_summary,
     evidence_extraction, claim_generation, gap_detection, conflict_detection,
     report_outline, draft_generation, qa_revision]"

definition RESEARCH_PIPELINE_VERSION :: string where
  "RESEARCH_PIPELINE_VERSION = ''research-pipeline.v2''"

record pipeline_stage_definition =
  sd_id :: ai_stage
  sd_ordinal :: int
  sd_dependencies :: "ai_stage list"
  sd_promptTemplateVersion :: string
  sd_structuredSchemaVersion :: string
  sd_timeoutMs :: int
  sd_maxAttempts :: int

fun stage_definitions :: "ai_stage \<Rightarrow> pipeline_stage_definition" where
  "stage_definitions intake_analysis =
     \<lparr>sd_id = intake_analysis, sd_ordinal = 1, sd_dependencies = [],
      sd_promptTemplateVersion = ''intake-analysis.v2'',
      sd_structuredSchemaVersion = ''intake-analysis.schema.v1'',
      sd_timeoutMs = 60000, sd_maxAttempts = 3\<rparr>"
| "stage_definitions question_decomposition =
     \<lparr>sd_id = question_decomposition, sd_ordinal = 2, sd_dependencies = [intake_analysis],
      sd_promptTemplateVersion = ''question-decomposition.v2'',
      sd_structuredSchemaVersion = ''question-decomposition.schema.v1'',
      sd_timeoutMs = 60000, sd_maxAttempts = 3\<rparr>"
| "stage_definitions research_plan =
     \<lparr>sd_id = research_plan, sd_ordinal = 3, sd_dependencies = [question_decomposition],
      sd_promptTemplateVersion = ''research-plan.v2'',
      sd_structuredSchemaVersion = ''research-plan.schema.v1'',
      sd_timeoutMs = 90000, sd_maxAttempts = 3\<rparr>"
| "stage_definitions source_summary =
     \<lparr>sd_id = source_summary, sd_ordinal = 4, sd_dependencies = [research_plan],
      sd_promptTemplateVersion = ''source-summary.v2'',
      sd_structuredSchemaVersion = ''source-summary.schema.v1'',
      sd_timeoutMs = 90000, sd_maxAttempts = 3\<rparr>"
| "stage_definitions evidence_extraction =
     \<lparr>sd_id = evidence_extraction, sd_ordinal = 5, sd_dependencies = [source_summary],
      sd_promptTemplateVersion = ''evidence-extraction.v2'',
      sd_structuredSchemaVersion = ''evidence-extraction.schema.v1'',
      sd_timeoutMs = 120000, sd_maxAttempts = 3\<rparr>"
| "stage_definitions claim_generation =
     \<lparr>sd_id = claim_generation, sd_ordinal = 6, sd_dependencies = [evidence_extraction],
      sd_promptTemplateVersion = ''claim-generation.v2'',
      sd_structuredSchemaVersion = ''claim-generation.schema.v1'',
      sd_timeoutMs = 90000, sd_maxAttempts = 3\<rparr>"
| "stage_definitions gap_detection =
     \<lparr>sd_id = gap_detection, sd_ordinal = 7, sd_dependencies = [claim_generation],
      sd_promptTemplateVersion = ''gap-detection.v2'',
      sd_structuredSchemaVersion = ''gap-detection.schema.v1'',
      sd_timeoutMs = 60000, sd_maxAttempts = 2\<rparr>"
| "stage_definitions conflict_detection =
     \<lparr>sd_id = conflict_detection, sd_ordinal = 8, sd_dependencies = [gap_detection],
      sd_promptTemplateVersion = ''conflict-detection.v2'',
      sd_structuredSchemaVersion = ''conflict-detection.schema.v1'',
      sd_timeoutMs = 60000, sd_maxAttempts = 2\<rparr>"
| "stage_definitions report_outline =
     \<lparr>sd_id = report_outline, sd_ordinal = 9, sd_dependencies = [conflict_detection],
      sd_promptTemplateVersion = ''report-outline.v2'',
      sd_structuredSchemaVersion = ''report-outline.schema.v1'',
      sd_timeoutMs = 60000, sd_maxAttempts = 3\<rparr>"
| "stage_definitions draft_generation =
     \<lparr>sd_id = draft_generation, sd_ordinal = 10, sd_dependencies = [report_outline],
      sd_promptTemplateVersion = ''draft-generation.v2'',
      sd_structuredSchemaVersion = ''draft-generation.schema.v1'',
      sd_timeoutMs = 120000, sd_maxAttempts = 3\<rparr>"
| "stage_definitions qa_revision =
     \<lparr>sd_id = qa_revision, sd_ordinal = 11, sd_dependencies = [draft_generation],
      sd_promptTemplateVersion = ''qa-revision.v2'',
      sd_structuredSchemaVersion = ''qa-revision.schema.v1'',
      sd_timeoutMs = 90000, sd_maxAttempts = 2\<rparr>"

definition PIPELINE_STAGE_CATALOG :: "pipeline_stage_definition list" where
  "PIPELINE_STAGE_CATALOG = map stage_definitions AI_STAGES"

definition getPipelineStageDefinition :: "ai_stage \<Rightarrow> pipeline_stage_definition" where
  "getPipelineStageDefinition stage = stage_definitions stage"

definition dependency_ok ::
  "pipeline_stage_definition list \<Rightarrow> pipeline_stage_definition \<Rightarrow> ai_stage \<Rightarrow> bool" where
  "dependency_ok catalog stage d =
     (case find (\<lambda>item. sd_id item = d) catalog of
        None \<Rightarrow> False
      | Some dd \<Rightarrow> \<not> sd_ordinal dd \<ge> sd_ordinal stage)"

fun validate_stages ::
  "pipeline_stage_definition list \<Rightarrow> pipeline_stage_definition list \<Rightarrow> app_error + unit" where
  "validate_stages catalog [] = Inr ()"
| "validate_stages catalog (stage # rest) =
     (if sd_id stage \<notin> set AI_STAGES then Inl (GenericError ''unknown stage'')
      else if sd_ordinal stage < 1 \<or> sd_ordinal stage > int (length AI_STAGES)
      then Inl (GenericError ''invalid ordinal'')
      else if \<not> list_all (dependency_ok catalog stage) (sd_dependencies stage)
      then Inl (GenericError ''invalid dependency'')
      else validate_stages catalog rest)"

definition validatePipelineStageCatalog :: "pipeline_stage_definition list \<Rightarrow> app_error + unit" where
  "validatePipelineStageCatalog catalog =
     (if length catalog \<noteq> length AI_STAGES then Inl (GenericError ''every stage exactly once'')
      else if card (set (map sd_id catalog)) \<noteq> length AI_STAGES \<or>
              card (set (map sd_ordinal catalog)) \<noteq> length AI_STAGES
      then Inl (GenericError ''unique ids and ordinals'')
      else validate_stages catalog catalog)"

lemma validate_stages_Inr:
  "validate_stages catalog xs = Inr () \<longleftrightarrow>
     (\<forall>s\<in>set xs. sd_id s \<in> set AI_STAGES \<and> 1 \<le> sd_ordinal s \<and>
        sd_ordinal s \<le> int (length AI_STAGES) \<and>
        (\<forall>d\<in>set (sd_dependencies s). dependency_ok catalog s d))"
  by (induction xs) (auto simp: list_all_iff)

lemma AI_STAGES_UNIV: "set AI_STAGES = UNIV"
proof -
  have "s \<in> set AI_STAGES" for s by (cases s) (simp_all add: AI_STAGES_def)
  then show ?thesis by blast
qed

lemma length_AI_STAGES [simp]: "length AI_STAGES = 11"
  by (simp add: AI_STAGES_def)

lemma distinct_AI_STAGES: "distinct AI_STAGES"
  by (simp add: AI_STAGES_def)

lemma sd_id_stage_definitions [simp]: "sd_id (stage_definitions s) = s"
  by (cases s) simp_all

lemma distinct_of_card: "card (set xs) = length xs \<Longrightarrow> distinct xs"
  by (simp add: card_distinct)

lemma find_distinct:
  assumes "distinct (map f xs)" "x \<in> set xs"
  shows "find (\<lambda>y. f y = f x) xs = Some x"
  using assms by (induction xs) auto

text \<open>
  A catalogue that passes the validator lists every stage exactly once, uses every ordinal
  from 1 to 11 exactly once, and every dependency of a stage is another stage of the catalogue
  with a smaller ordinal, so that dependencies are acyclic.
\<close>

theorem validatePipelineStageCatalog_sound:
  assumes "validatePipelineStageCatalog cat = Inr ()"
  shows "distinct (map sd_id cat) \<and> set (map sd_id cat) = UNIV \<and>
         distinct (map sd_ordinal cat) \<and> set (map sd_ordinal cat) = {1..11} \<and>
         (\<forall>s\<in>set cat. \<forall>d\<in>set (sd_dependencies s).
            \<exists>t\<in>set cat. sd_id t = d \<and> sd_ordinal t < sd_ordinal s)"
proof -
  have len: "length cat = 11" and ids: "card (set (map sd_id cat)) = 11"
    and ords: "card (set (map sd_ordinal cat)) = 11"
    and st: "validate_stages cat cat = Inr ()"
    using assms by (auto simp: validatePipelineStageCatalog_def split: if_splits)
  have d: "distinct (map sd_id cat)" "distinct (map sd_ordinal cat)"
    using len ids ords by (auto intro!: distinct_of_card simp del: set_map)
  have "card (UNIV :: ai_stage set) = 11"
    using distinct_card[of AI_STAGES] by (simp add: AI_STAGES_UNIV distinct_AI_STAGES)
  then have U: "set (map sd_id cat) = UNIV"
    using ids card_subset_eq[of UNIV "set (map sd_id cat)"]
    by (metis AI_STAGES_UNIV List.finite_set subset_UNIV)
  have "set (map sd_ordinal cat) \<subseteq> {1..11}"
    using st by (auto simp: validate_stages_Inr)
  then have O: "set (map sd_ordinal cat) = {1..11}"
    using ords by (intro card_subset_eq) auto
  have "\<exists>t\<in>set cat. sd_id t = dd \<and> sd_ordinal t < sd_ordinal s"
    if "s \<in> set cat" "dd \<in> set (sd_dependencies s)" for s dd
    using st that
    by (fastforce simp: validate_stages_Inr dependency_ok_def dest: find_SomeD split: option.splits)
  with d U O show ?thesis by blast
qed

lemma catalog_valid: "validatePipelineStageCatalog PIPELINE_STAGE_CATALOG = Inr ()"
  by code_simp

theorem validatePipelineStageCatalog_sound_witness:
  "distinct (map sd_id PIPELINE_STAGE_CATALOG) \<and>
   set (map sd_ordinal PIPELINE_STAGE_CATALOG) = {1..11}"
  using validatePipelineStageCatalog_sound[OF catalog_valid] by blast

text \<open>The facts of the built-in catalogue that the services rely on.\<close>

lemma catalog_ordinal_inj: "sd_ordinal (stage_definitions a) = sd_ordinal (stage_definitions b) \<longleftrightarrow> a = b"
  by (cases a; cases b) simp_all

lemma catalog_ordinal_range: "1 \<le> sd_ordinal (stage_definitions s) \<and> sd_ordinal (stage_definitions s) \<le> 11"
  by (cases s) simp_all

lemma catalog_dependency_smaller:
  "d \<in> set (sd_dependencies (stage_definitions s)) \<Longrightarrow>
   sd_ordinal (stage_definitions d) < sd_ordinal (stage_definitions s)"
  by (cases s) simp_all

lemma catalog_max_attempts: "1 \<le> sd_maxAttempts (stage_definitions s)"
  by (cases s) simp_all

lemma catalog_timeout: "1 \<le> sd_timeoutMs (stage_definitions s) \<and> sd_timeoutMs (stage_definitions s) \<le> 86400000"
  by (cases s) simp_all

end
