(* ===== verification/Database.thy ===== *)
theory Database
  imports Job_Domain Run_Domain
begin

text \<open>
  The durable state the services share: one record per row type (the columns the services read or
  write), one list of rows per table, and the table accesses used by several services. The
  surrogate keys and creation times of the append-only tables (job attempts, job events, audit
  events, stage commits) are left out: no modelled operation reads them.
\<close>

section \<open>Names of the literals stored as text\<close>

fun job_status_name :: "job_status \<Rightarrow> string" where
  "job_status_name J_QUEUED = ''QUEUED''"
| "job_status_name J_CLAIMED = ''CLAIMED''"
| "job_status_name J_RUNNING = ''RUNNING''"
| "job_status_name J_RETRY_WAIT = ''RETRY_WAIT''"
| "job_status_name J_CANCELLATION_REQUESTED = ''CANCELLATION_REQUESTED''"
| "job_status_name J_CANCELLED = ''CANCELLED''"
| "job_status_name J_SUCCEEDED = ''SUCCEEDED''"
| "job_status_name J_FAILED = ''FAILED''"
| "job_status_name J_DEAD_LETTER = ''DEAD_LETTER''"

fun job_error_class_name :: "job_error_class \<Rightarrow> string" where
  "job_error_class_name RETRYABLE_PROVIDER_RATE_LIMIT = ''RETRYABLE_PROVIDER_RATE_LIMIT''"
| "job_error_class_name RETRYABLE_PROVIDER_SERVER_ERROR = ''RETRYABLE_PROVIDER_SERVER_ERROR''"
| "job_error_class_name RETRYABLE_NETWORK = ''RETRYABLE_NETWORK''"
| "job_error_class_name RETRYABLE_STORAGE = ''RETRYABLE_STORAGE''"
| "job_error_class_name RETRYABLE_TIMEOUT = ''RETRYABLE_TIMEOUT''"
| "job_error_class_name NON_RETRYABLE_VALIDATION = ''NON_RETRYABLE_VALIDATION''"
| "job_error_class_name NON_RETRYABLE_SECURITY = ''NON_RETRYABLE_SECURITY''"
| "job_error_class_name NON_RETRYABLE_BUDGET = ''NON_RETRYABLE_BUDGET''"
| "job_error_class_name NON_RETRYABLE_USER_INPUT = ''NON_RETRYABLE_USER_INPUT''"
| "job_error_class_name EC_CANCELLED = ''CANCELLED''"
| "job_error_class_name EC_UNKNOWN = ''UNKNOWN''"

fun run_status_name :: "research_run_status \<Rightarrow> string" where
  "run_status_name R_CREATED = ''CREATED''"
| "run_status_name R_WAITING_FOR_PLAN_APPROVAL = ''WAITING_FOR_PLAN_APPROVAL''"
| "run_status_name R_QUEUED = ''QUEUED''"
| "run_status_name R_RUNNING = ''RUNNING''"
| "run_status_name R_PAUSED = ''PAUSED''"
| "run_status_name R_CANCELLING = ''CANCELLING''"
| "run_status_name R_CANCELLED = ''CANCELLED''"
| "run_status_name R_FAILED = ''FAILED''"
| "run_status_name R_QA_REQUIRED = ''QA_REQUIRED''"
| "run_status_name R_APPROVAL_REQUIRED = ''APPROVAL_REQUIRED''"
| "run_status_name R_COMPLETED = ''COMPLETED''"
| "run_status_name R_BLOCKED = ''BLOCKED''"

fun stage_status_name :: "run_stage_status \<Rightarrow> string" where
  "stage_status_name S_PENDING = ''PENDING''"
| "stage_status_name S_QUEUED = ''QUEUED''"
| "stage_status_name S_RUNNING = ''RUNNING''"
| "stage_status_name S_SUCCEEDED = ''SUCCEEDED''"
| "stage_status_name S_FAILED = ''FAILED''"
| "stage_status_name S_CANCELLED = ''CANCELLED''"
| "stage_status_name S_BLOCKED = ''BLOCKED''"
| "stage_status_name S_STALE = ''STALE''"

fun ai_stage_name :: "ai_stage \<Rightarrow> string" where
  "ai_stage_name intake_analysis = ''intake_analysis''"
| "ai_stage_name question_decomposition = ''question_decomposition''"
| "ai_stage_name research_plan = ''research_plan''"
| "ai_stage_name source_summary = ''source_summary''"
| "ai_stage_name evidence_extraction = ''evidence_extraction''"
| "ai_stage_name claim_generation = ''claim_generation''"
| "ai_stage_name gap_detection = ''gap_detection''"
| "ai_stage_name conflict_detection = ''conflict_detection''"
| "ai_stage_name report_outline = ''report_outline''"
| "ai_stage_name draft_generation = ''draft_generation''"
| "ai_stage_name qa_revision = ''qa_revision''"

section \<open>Rows\<close>

record job_row =
  j_id :: string
  j_project_id :: "string option"
  j_run_id :: "string option"
  j_run_stage_id :: "string option"
  j_stage :: "string option"
  j_job_type :: string
  j_payload :: jsv
  j_status :: job_status
  j_priority :: int
  j_idempotency_key :: string
  j_input_reference :: jsv
  j_input_hash :: string
  j_output_reference :: "jsv option"
  j_output_hash :: "string option"
  j_attempts :: int
  j_max_attempts :: int
  j_scheduled_at :: int
  j_claimed_at :: "int option"
  j_started_at :: "int option"
  j_completed_at :: "int option"
  j_lease_owner :: "string option"
  j_lease_expires_at :: "int option"
  j_heartbeat_at :: "int option"
  j_timeout_ms :: int
  j_retry_policy :: jsv
  j_error_class :: "job_error_class option"
  j_sanitized_error :: "string option"
  j_cancellation_requested_at :: "int option"
  j_parent_job_id :: "string option"
  j_correlation_id :: string
  j_created_at :: int
  j_updated_at :: int
  j_version :: int

text \<open>The status of an attempt: a job status, or the mark of an expired lease.\<close>

datatype attempt_status = AT job_status | LEASE_EXPIRED

record job_attempt =
  a_job_id :: string
  a_attempt_number :: int
  a_worker_id :: string
  a_status :: attempt_status
  a_error_class :: "job_error_class option"
  a_sanitized_error :: "string option"
  a_retry_after_ms :: "int option"
  a_completed_at :: "int option"

record job_event =
  e_job_id :: string
  e_type :: string
  e_from :: "job_status option"
  e_to :: "job_status option"
  e_worker_id :: "string option"
  e_details :: jsv

datatype research_run_mode = ASSISTED | ORCHESTRATED | DRAFT_ONLY

datatype cost_status = COST_KNOWN | COST_ESTIMATED | COST_UNKNOWN

text \<open>\<open>BudgetSnapshot\<close> of \<open>lib/budgets/index.ts\<close>.\<close>

record budget_snapshot =
  maxProviderRequests :: int
  maxSearchRequests :: int
  maxInputTokens :: int
  maxOutputTokens :: int
  maxEstimatedCostUsd :: rat
  maxElapsedMs :: int
  maxStageAttempts :: int
  maxSources :: int
  maxDocumentChunks :: int

record research_run_row =
  r_id :: string
  r_project_id :: string
  r_mode :: research_run_mode
  r_status :: research_run_status
  r_scope_revision_id :: "string option"
  r_plan_revision_id :: "string option"
  r_scope_snapshot :: jsv
  r_plan_snapshot :: jsv
  r_pipeline_version :: string
  r_provider_config_snapshot :: jsv
  r_model_config_snapshot :: jsv
  r_search_config_snapshot :: jsv
  r_budget_snapshot :: budget_snapshot
  r_request_hash :: string
  r_idempotency_key :: string
  r_current_stage :: "ai_stage option"
  r_progress :: int
  r_total_attempts :: int
  r_total_provider_requests :: int
  r_total_search_requests :: int
  r_total_input_tokens :: int
  r_total_output_tokens :: int
  r_estimated_cost :: "rat option"
  r_cost_status :: cost_status
  r_failure_reason :: "string option"
  r_block_reason :: "string option"
  r_created_by :: string
  r_cancelled_by :: "string option"
  r_started_at :: "int option"
  r_completed_at :: "int option"
  r_updated_at :: int
  r_version :: int

record research_run_stage_row =
  s_id :: string
  s_run_id :: string
  s_stage_id :: ai_stage
  s_ordinal :: int
  s_generation :: int
  s_status :: run_stage_status
  s_pipeline_version :: string
  s_prompt_template_version :: string
  s_structured_schema_version :: string
  s_provider :: "string option"
  s_model :: "string option"
  s_input_reference :: "jsv option"
  s_input_hash :: "string option"
  s_output_reference :: "jsv option"
  s_output_hash :: "string option"
  s_attempt_count :: int
  s_usage :: "(string \<times> jsv) list"
  s_cost_status :: cost_status
  s_estimated_cost :: "rat option"
  s_duration_ms :: "int option"
  s_error_class :: "job_error_class option"
  s_sanitized_error :: "string option"
  s_started_at :: "int option"
  s_completed_at :: "int option"
  s_stale_at :: "int option"
  s_updated_at :: int
  s_version :: int

record stage_domain_commit =
  c_run_stage_id :: string
  c_generation :: int
  c_idempotency_key :: string
  c_output_hash :: string

datatype actor_type = USER | AI | SYSTEM

record audit_event =
  au_project_id :: "string option"
  au_actor_type :: actor_type
  au_actor_label :: string
  au_action :: string
  au_resource_type :: string
  au_resource_id :: "string option"
  au_before_state :: "jsv option"
  au_after_state :: "jsv option"

text \<open>
  The columns \<open>evidence\<close>, \<open>claims\<close>, \<open>findings\<close> and \<open>qa_findings\<close> share: which stage generated the row, and whether
  it is current. Enumerated text columns are datatypes where a modelled function distinguishes the values, and text where
  they are only stored.
\<close>

record generated_row =
  g_id :: string
  g_generated_by :: "string option"
  g_is_current :: bool
  g_updated_at :: int

datatype verification_status = V_PENDING | V_VERIFIED | V_REJECTED

record evidence_row = generated_row +
  ev_source_id :: string
  ev_summary :: string
  ev_minimal_quote :: "string option"
  ev_original_location :: "string option"
  ev_page_or_section :: "string option"
  ev_confidence :: string
  ev_verification_status :: verification_status
  ev_document_id :: "string option"
  ev_chunk_id :: "string option"
  ev_citation_anchor_id :: "string option"
  ev_citation_status :: string
  ev_created_at :: int

datatype support_status = SUP_SUPPORTED | SUP_PARTIALLY_SUPPORTED | SUP_CONTESTED | SUP_UNSUPPORTED | SUP_OUTDATED | SUP_NOT_VERIFIABLE

record claim_row = generated_row +
  cl_project_id :: string
  cl_question_id :: "string option"
  cl_content :: string
  cl_claim_type :: string
  cl_importance :: string
  cl_support_status :: support_status
  cl_fact_or_inference :: string
  cl_include_in_report :: bool
  cl_verification_possible :: bool
  cl_within_scope :: bool
  cl_created_at :: int

record claim_evidence_row =
  ce_claim_id :: string
  ce_evidence_id :: string
  ce_relationship :: string
  ce_notes :: "string option"

record finding_row = generated_row +
  fi_project_id :: string
  fi_finding :: string
  fi_created_at :: int

datatype finding_severity = SEV_BLOCKER | SEV_HIGH | SEV_MEDIUM | SEV_LOW

datatype resolution_status = RES_OPEN | RES_RESOLVED | RES_ACCEPTED_RISK

record qa_finding_row = generated_row +
  qf_project_id :: string
  qf_deliverable_id :: "string option"
  qf_rule_code :: string
  qf_severity :: finding_severity
  qf_location :: string
  qf_problem :: string
  qf_remediation :: string
  qf_resolution_status :: resolution_status
  qf_metadata :: jsv
  qf_created_at :: int

record source_row =
  so_id :: string
  so_project_id :: string
  so_title :: string
  so_publisher :: "string option"
  so_author :: "string option"
  so_published_at :: "string option"
  so_source_type :: string
  so_language :: string
  so_ingestion_method :: string
  so_content_hash :: "string option"
  so_content_summary :: "string option"
  so_sanitized_content :: "string option"
  so_prompt_injection_flag :: bool
  so_created_at :: int

datatype document_status =
    DOC_UPLOADING | DOC_QUARANTINED | DOC_SCANNING | DOC_REJECTED | DOC_CLEAN | DOC_EXTRACTING | DOC_READY
  | DOC_EXTRACTION_FAILED | DOC_OCR_REQUIRED_UNSUPPORTED | DOC_BLOCKED_SCANNER_UNAVAILABLE | DOC_DELETED

record document_row =
  do_id :: string
  do_project_id :: string
  do_source_id :: "string option"
  do_status :: document_status
  do_current_extraction_id :: "string option"
  do_deleted_at :: "int option"

record chunk_row =
  ch_id :: string
  ch_extraction_id :: string
  ch_ordinal :: int
  ch_text :: string
  ch_prompt_injection_flag :: bool
  ch_security_signals :: jsv

record anchor_row =
  an_id :: string
  an_source_id :: string
  an_chunk_id :: string
  an_status :: string
  an_created_at :: int

text \<open>The sections of a deliverable are a JSON object of texts, the list of its members in order.\<close>

record deliverable_row =
  de_id :: string
  de_project_id :: string
  de_version :: int
  de_title :: string
  de_sections :: "(string \<times> string) list"
  de_generated_at :: "int option"
  de_approval_status :: string
  de_updated_at :: int

record deliverable_revision_row =
  dr_id :: string
  dr_deliverable_id :: string
  dr_actor_type :: actor_type
  dr_changed_sections :: "string list"
  dr_previous_sections :: "(string \<times> string) list"
  dr_new_sections :: "(string \<times> string) list"

datatype research_gap_status = GAP_NONE | GAP_OPEN | GAP_ACCEPTED | GAP_RESOLVED

record question_row =
  q_id :: string
  q_project_id :: string
  q_parent_id :: "string option"
  q_question :: string
  q_priority :: string
  q_completion_criteria :: string
  q_created_at :: int
  q_research_gap :: "string option"
  q_gap_status :: research_gap_status
  q_gap_generated_by :: "string option"
  q_updated_at :: int

record plan_row =
  pl_id :: string
  pl_project_id :: string
  pl_question_id :: string
  pl_search_strategy :: string
  pl_search_queries :: "string list"
  pl_primary_source_types :: "string list"
  pl_secondary_source_types :: "string list"
  pl_comparison_targets :: "string list"
  pl_expected_output :: string
  pl_assigned_stage :: string
  pl_completion_condition :: string
  pl_expected_risks :: "string list"
  pl_research_gap :: "string option"
  pl_human_approved :: bool
  pl_approved_at :: "string option"

datatype approval_revision_kind = SCOPE | PLAN

record approval_revision_row =
  ar_id :: string
  ar_project_id :: string
  ar_kind :: approval_revision_kind
  ar_revision_number :: int
  ar_snapshot :: jsv
  ar_content_hash :: string
  ar_approved_at :: string
  ar_created_by :: string
  ar_created_at :: int

text \<open>
  A row of \<open>research_projects\<close>: the columns of \<open>ProjectApprovalRow\<close>. Dates and the approval
  times are in the text form the queries ask for.
\<close>

record project_row =
  p_id :: string
  p_core_question :: string
  p_background :: "string option"
  p_purpose :: string
  p_audience :: string
  p_scope :: string
  p_exclusions :: "string option"
  p_jurisdiction :: "string option"
  p_research_date :: string
  p_source_max_age_days :: int
  p_deadline :: "string option"
  p_deliverable_formats :: "string list"
  p_special_requirements :: "string option"
  p_scope_approved_at :: "string option"
  p_plan_approved_at :: "string option"
  p_scope_approved_revision_id :: "string option"
  p_plan_approved_revision_id :: "string option"
  p_updated_at :: int

record database =
  projects :: "project_row list"
  jobs :: "job_row list"
  job_attempts :: "job_attempt list"
  job_events :: "job_event list"
  research_runs :: "research_run_row list"
  research_run_stages :: "research_run_stage_row list"
  stage_domain_commits :: "stage_domain_commit list"
  audit_events :: "audit_event list"
  evidence_rows :: "evidence_row list"
  claim_rows :: "claim_row list"
  claim_evidence_rows :: "claim_evidence_row list"
  finding_rows :: "finding_row list"
  finding_claims :: "(string \<times> string) list"
  qa_finding_rows :: "qa_finding_row list"
  research_questions :: "question_row list"
  research_plans :: "plan_row list"
  approval_revisions :: "approval_revision_row list"
  source_rows :: "source_row list"
  document_rows :: "document_row list"
  chunk_rows :: "chunk_row list"
  anchor_rows :: "anchor_row list"
  deliverables :: "deliverable_row list"
  deliverable_revisions :: "deliverable_revision_row list"

definition empty_database :: database where
  "empty_database =
     \<lparr>projects = [], jobs = [], job_attempts = [], job_events = [], research_runs = [], research_run_stages = [],
      stage_domain_commits = [], audit_events = [], evidence_rows = [], claim_rows = [], claim_evidence_rows = [],
      finding_rows = [], finding_claims = [], qa_finding_rows = [], research_questions = [], research_plans = [],
      approval_revisions = [], source_rows = [], document_rows = [], chunk_rows = [], anchor_rows = [],
      deliverables = [], deliverable_revisions = []\<rparr>"

lemma empty_database_fields [simp]:
  "projects empty_database = []" "jobs empty_database = []" "job_attempts empty_database = []" "job_events empty_database = []"
  "research_runs empty_database = []" "research_run_stages empty_database = []" "stage_domain_commits empty_database = []"
  "audit_events empty_database = []" "evidence_rows empty_database = []" "claim_rows empty_database = []"
  "claim_evidence_rows empty_database = []" "finding_rows empty_database = []" "finding_claims empty_database = []"
  "qa_finding_rows empty_database = []" "research_questions empty_database = []" "research_plans empty_database = []"
  "approval_revisions empty_database = []" "source_rows empty_database = []" "document_rows empty_database = []"
  "chunk_rows empty_database = []" "anchor_rows empty_database = []" "deliverables empty_database = []"
  "deliverable_revisions empty_database = []"
  by (simp_all add: empty_database_def)

type_synonym 'a db_tx = "(database, 'a) tx"

section \<open>Primary keys\<close>

interpretation projects_tbl: keyed_table p_id .

interpretation jobs_tbl: keyed_table j_id .

interpretation runs_tbl: keyed_table r_id .

interpretation stages_tbl: keyed_table s_id .

text \<open>\<open>SELECT * ... WHERE id = $1\<close> on the four tables locked by primary key.\<close>

definition find_project :: "string \<Rightarrow> database \<Rightarrow> project_row option" where
  "find_project k db = find (\<lambda>r. p_id r = k) (projects db)"

definition find_job :: "string \<Rightarrow> database \<Rightarrow> job_row option" where
  "find_job k db = find (\<lambda>r. j_id r = k) (jobs db)"

definition find_run :: "string \<Rightarrow> database \<Rightarrow> research_run_row option" where
  "find_run k db = find (\<lambda>r. r_id r = k) (research_runs db)"

definition find_stage :: "string \<Rightarrow> database \<Rightarrow> research_run_stage_row option" where
  "find_stage k db = find (\<lambda>r. s_id r = k) (research_run_stages db)"

text \<open>\<open>UPDATE ... SET ... WHERE id = $1\<close>.\<close>

definition upd_job :: "string \<Rightarrow> (job_row \<Rightarrow> job_row) \<Rightarrow> database \<Rightarrow> database" where
  "upd_job k f db = db\<lparr>jobs := update_where (\<lambda>r. j_id r = k) f (jobs db)\<rparr>"

definition upd_run :: "string \<Rightarrow> (research_run_row \<Rightarrow> research_run_row) \<Rightarrow> database \<Rightarrow> database" where
  "upd_run k f db = db\<lparr>research_runs := update_where (\<lambda>r. r_id r = k) f (research_runs db)\<rparr>"

definition upd_stages ::
  "(research_run_stage_row \<Rightarrow> bool) \<Rightarrow> (research_run_stage_row \<Rightarrow> research_run_stage_row) \<Rightarrow>
   database \<Rightarrow> database" where
  "upd_stages P f db = db\<lparr>research_run_stages := update_where P f (research_run_stages db)\<rparr>"

definition upd_attempt :: "string \<Rightarrow> int \<Rightarrow> (job_attempt \<Rightarrow> job_attempt) \<Rightarrow> database \<Rightarrow> database" where
  "upd_attempt k n f db =
     db\<lparr>job_attempts := update_where (\<lambda>a. a_job_id a = k \<and> a_attempt_number a = n) f
                          (job_attempts db)\<rparr>"

text \<open>\<open>UPDATE ... RETURNING *\<close> on a row the transaction holds.\<close>

definition update_job_returning :: "string \<Rightarrow> (job_row \<Rightarrow> job_row) \<Rightarrow> job_row db_tx" where
  "update_job_returning k f =
     tbind (gets (find_job k)) (\<lambda>r.
     tbind (from_some r (GenericError ''TypeError'')) (\<lambda>j.
     tbind (modify (upd_job k f)) (\<lambda>_. ret (f j))))"

definition update_run_returning ::
  "string \<Rightarrow> (research_run_row \<Rightarrow> research_run_row) \<Rightarrow> research_run_row db_tx" where
  "update_run_returning k f =
     tbind (gets (find_run k)) (\<lambda>r.
     tbind (from_some r (GenericError ''TypeError'')) (\<lambda>x.
     tbind (modify (upd_run k f)) (\<lambda>_. ret (f x))))"

definition update_stage_returning ::
  "string \<Rightarrow> (research_run_stage_row \<Rightarrow> research_run_stage_row) \<Rightarrow> research_run_stage_row db_tx" where
  "update_stage_returning k f =
     tbind (gets (find_stage k)) (\<lambda>r.
     tbind (from_some r (GenericError ''TypeError'')) (\<lambda>x.
     tbind (modify (upd_stages (\<lambda>s. s_id s = k) f)) (\<lambda>_. ret (f x))))"

text \<open>\<open>SELECT id FROM research_projects WHERE id = $1 FOR UPDATE\<close>, failing when there is none.\<close>

definition lock_project :: "string \<Rightarrow> unit db_tx" where
  "lock_project k =
     tbind (gets (find_project k)) (\<lambda>p. require (p \<noteq> None) (notFound ''Project''))"

text \<open>\<open>writeAuditEvent\<close> of \<open>lib/services/audit.ts\<close>.\<close>

definition writeAuditEvent :: "audit_event \<Rightarrow> unit db_tx" where
  "writeAuditEvent e = modify (\<lambda>db. db\<lparr>audit_events := audit_events db @ [e]\<rparr>)"

section \<open>Facts about the accesses\<close>

lemma find_job_tbl: "find_job k db = jobs_tbl.lookup k (jobs db)"
  by (simp add: find_job_def jobs_tbl.lookup_def)

lemma find_run_tbl: "find_run k db = runs_tbl.lookup k (research_runs db)"
  by (simp add: find_run_def runs_tbl.lookup_def)

lemma find_stage_tbl: "find_stage k db = stages_tbl.lookup k (research_run_stages db)"
  by (simp add: find_stage_def stages_tbl.lookup_def)

lemma find_job_SomeD: "find_job k db = Some j \<Longrightarrow> j \<in> set (jobs db) \<and> j_id j = k"
  unfolding find_job_tbl by (rule jobs_tbl.lookup_Some)

lemma find_run_SomeD: "find_run k db = Some r \<Longrightarrow> r \<in> set (research_runs db) \<and> r_id r = k"
  unfolding find_run_tbl by (rule runs_tbl.lookup_Some)

lemma find_stage_SomeD: "find_stage k db = Some s \<Longrightarrow> s \<in> set (research_run_stages db) \<and> s_id s = k"
  unfolding find_stage_tbl by (rule stages_tbl.lookup_Some)

lemma find_job_upd_job:
  assumes "\<And>r. j_id (f r) = j_id r"
  shows "find_job k (upd_job k' f db) =
           (if k = k' then map_option f (find_job k db) else find_job k db)"
  unfolding find_job_tbl upd_job_def by (simp add: jobs_tbl.lookup_update_key[OF assms])

lemma find_run_upd_run:
  assumes "\<And>r. r_id (f r) = r_id r"
  shows "find_run k (upd_run k' f db) =
           (if k = k' then map_option f (find_run k db) else find_run k db)"
  unfolding find_run_tbl upd_run_def by (simp add: runs_tbl.lookup_update_key[OF assms])

lemma find_stage_upd_stages:
  assumes "\<And>r. P r \<Longrightarrow> s_id (f r) = s_id r"
  shows "find_stage k (upd_stages P f db) =
           map_option (\<lambda>s. if P s then f s else s) (find_stage k db)"
  unfolding find_stage_tbl upd_stages_def by (simp add: stages_tbl.lookup_update_where[OF assms])

text \<open>An update of one table leaves the others alone.\<close>

lemma upd_job_frame [simp]:
  "research_runs (upd_job k f db) = research_runs db"
  "research_run_stages (upd_job k f db) = research_run_stages db"
  "job_attempts (upd_job k f db) = job_attempts db"
  "job_events (upd_job k f db) = job_events db"
  "audit_events (upd_job k f db) = audit_events db"
  "stage_domain_commits (upd_job k f db) = stage_domain_commits db"
  "projects (upd_job k f db) = projects db"
  by (simp_all add: upd_job_def)

lemma upd_run_frame [simp]:
  "jobs (upd_run k f db) = jobs db"
  "research_run_stages (upd_run k f db) = research_run_stages db"
  "job_attempts (upd_run k f db) = job_attempts db"
  "job_events (upd_run k f db) = job_events db"
  "audit_events (upd_run k f db) = audit_events db"
  "stage_domain_commits (upd_run k f db) = stage_domain_commits db"
  "projects (upd_run k f db) = projects db"
  by (simp_all add: upd_run_def)

lemma upd_stages_frame [simp]:
  "jobs (upd_stages P g db) = jobs db"
  "research_runs (upd_stages P g db) = research_runs db"
  "job_attempts (upd_stages P g db) = job_attempts db"
  "job_events (upd_stages P g db) = job_events db"
  "audit_events (upd_stages P g db) = audit_events db"
  "stage_domain_commits (upd_stages P g db) = stage_domain_commits db"
  "projects (upd_stages P g db) = projects db"
  by (simp_all add: upd_stages_def)

lemma upd_attempt_frame [simp]:
  "jobs (upd_attempt k n h db) = jobs db"
  "research_runs (upd_attempt k n h db) = research_runs db"
  "research_run_stages (upd_attempt k n h db) = research_run_stages db"
  "job_events (upd_attempt k n h db) = job_events db"
  "audit_events (upd_attempt k n h db) = audit_events db"
  "stage_domain_commits (upd_attempt k n h db) = stage_domain_commits db"
  "projects (upd_attempt k n h db) = projects db"
  by (simp_all add: upd_attempt_def)

lemma find_frame [simp]:
  "find_run k (upd_job i f db) = find_run k db"
  "find_stage k (upd_job i f db) = find_stage k db"
  "find_job k (upd_run i g db) = find_job k db"
  "find_stage k (upd_run i g db) = find_stage k db"
  "find_job k (upd_stages P h db) = find_job k db"
  "find_run k (upd_stages P h db) = find_run k db"
  "find_job k (upd_attempt i n u db) = find_job k db"
  "find_run k (upd_attempt i n u db) = find_run k db"
  "find_stage k (upd_attempt i n u db) = find_stage k db"
  by (simp_all add: find_job_def find_run_def find_stage_def)

lemma update_job_returning_Inr [tx_simps]:
  "update_job_returning k f db = Inr (j', db') \<longleftrightarrow>
     (\<exists>j. find_job k db = Some j \<and> j' = f j \<and> db' = upd_job k f db)"
  by (auto simp: update_job_returning_def tx_simps)

lemma update_run_returning_Inr [tx_simps]:
  "update_run_returning k f db = Inr (r', db') \<longleftrightarrow>
     (\<exists>r. find_run k db = Some r \<and> r' = f r \<and> db' = upd_run k f db)"
  by (auto simp: update_run_returning_def tx_simps)

lemma update_stage_returning_Inr [tx_simps]:
  "update_stage_returning k f db = Inr (s', db') \<longleftrightarrow>
     (\<exists>s. find_stage k db = Some s \<and> s' = f s \<and> db' = upd_stages (\<lambda>s. s_id s = k) f db)"
  by (auto simp: update_stage_returning_def tx_simps)

lemma lock_project_Inr [tx_simps]:
  "lock_project k db = Inr (u, db') \<longleftrightarrow> find_project k db \<noteq> None \<and> db' = db"
  by (auto simp: lock_project_def tx_simps)

lemma writeAuditEvent_Inr [tx_simps]:
  "writeAuditEvent e db = Inr (u, db') \<longleftrightarrow> db' = db\<lparr>audit_events := audit_events db @ [e]\<rparr>"
  by (simp add: writeAuditEvent_def tx_simps)

lemma find_audit_frame [simp]:
  "find_job k (db\<lparr>audit_events := x\<rparr>) = find_job k db"
  "find_run k (db\<lparr>audit_events := x\<rparr>) = find_run k db"
  "find_stage k (db\<lparr>audit_events := x\<rparr>) = find_stage k db"
  "find_job k (db\<lparr>job_events := y\<rparr>) = find_job k db"
  "find_run k (db\<lparr>job_events := y\<rparr>) = find_run k db"
  "find_stage k (db\<lparr>job_events := y\<rparr>) = find_stage k db"
  by (simp_all add: find_job_def find_run_def find_stage_def)

lemmas update_returning_defs [tx_defs] =
  update_job_returning_def update_run_returning_def update_stage_returning_def
  lock_project_def writeAuditEvent_def

end
