(* ===== verification/Stable_Json.thy ===== *)
theory Stable_Json
  imports Prelude "HOL-Library.Multiset"
begin

text \<open>
  Canonical JSON and the input hash of \<open>lib/providers/ai-shared.ts\<close>, with the parts of
  \<open>JSON.stringify\<close> and \<open>JSON.parse\<close> they use. Three things are parameters, the fields of
  \<open>js_env\<close>: the decimal notation of numbers (the engine's \<open>Number::toString\<close>), the collation of
  \<open>String.prototype.localeCompare\<close> (ICU), and SHA-256 (\<open>node:crypto\<close>).
\<close>

record js_env =
  num_text :: "rat \<Rightarrow> string"
  locale_le :: "string \<Rightarrow> string \<Rightarrow> bool"
  sha256_hex :: "string \<Rightarrow> string"

section \<open>JSON.stringify and JSON.parse\<close>

definition hex_digit :: "nat \<Rightarrow> char" where
  "hex_digit n = (if n < 10 then char_of (48 + n) else char_of (87 + n))"

definition json_escape :: "char \<Rightarrow> string" where
  "json_escape c =
     (let n = (of_char c :: nat) in
      if n = 34 then [char_of (92::nat), c]
      else if n = 92 then [c, c]
      else if n = 8 then [char_of (92::nat), CHR ''b'']
      else if n = 9 then [char_of (92::nat), CHR ''t'']
      else if n = 10 then [char_of (92::nat), CHR ''n'']
      else if n = 12 then [char_of (92::nat), CHR ''f'']
      else if n = 13 then [char_of (92::nat), CHR ''r'']
      else if n < 32 then char_of (92::nat) # ''u00'' @ [hex_digit (n div 16), hex_digit (n mod 16)]
      else [c])"

text \<open>The same test on the bits of a character, which evaluates faster.\<close>

lemma char_less_32: "((of_char c :: nat) < 32) = (\<not> (digit5 c \<or> digit6 c \<or> digit7 c))"
  by (cases c) (simp add: of_char_def)

lemma char_less_128: "((of_char c :: nat) < 128) = (\<not> digit7 c)"
  by (cases c) (simp add: of_char_def)

lemma json_escape_code [code]:
  "json_escape c =
     (if digit5 c \<or> digit6 c \<or> digit7 c
      then (if c = CHR 0x22 then [CHR 0x5C, c] else if c = CHR 0x5C then [c, c] else [c])
      else
       (let n = (of_char c :: nat) in
        if n = 8 then [CHR 0x5C, CHR ''b'']
        else if n = 9 then [CHR 0x5C, CHR ''t'']
        else if n = 10 then [CHR 0x5C, CHR ''n'']
        else if n = 12 then [CHR 0x5C, CHR ''f'']
        else if n = 13 then [CHR 0x5C, CHR ''r'']
        else CHR 0x5C # ''u00'' @ [hex_digit (n div 16), hex_digit (n mod 16)]))"
proof -
  have eq: "(of_char c = (34::nat)) = (c = CHR 0x22)" "(of_char c = (92::nat)) = (c = CHR 0x5C)"
    using of_char_eq_iff[of c "CHR 0x22", where 'a = nat] of_char_eq_iff[of c "CHR 0x5C", where 'a = nat]
    by (simp_all del: of_char_eq_iff)
  have c92: "char_of (92::nat) = CHR 0x5C" by code_simp
  show ?thesis
  proof (cases "(of_char c :: nat) < 32")
    case True
    then show ?thesis using char_less_32[of c] by (simp add: json_escape_def Let_def c92)
  next
    case False
    then show ?thesis using char_less_32[of c] eq by (auto simp: json_escape_def Let_def c92)
  qed
qed

definition json_quote :: "string \<Rightarrow> string" where
  "json_quote s = CHR 0x22 # concat (map json_escape s) @ [CHR 0x22]"

fun join :: "string \<Rightarrow> string list \<Rightarrow> string" where
  "join sep [] = []"
| "join sep [x] = x"
| "join sep (x # y # xs) = x @ sep @ join sep (y # xs)"

text \<open>\<open>None\<close> is the value \<open>undefined\<close>, which has no JSON text.\<close>

fun json_text :: "js_env \<Rightarrow> jsv \<Rightarrow> string option" where
  "json_text E JUndefined = None"
| "json_text E JNull = Some ''null''"
| "json_text E (JBool b) = Some (if b then ''true'' else ''false'')"
| "json_text E (JNum (Fin r)) = Some (num_text E r)"
| "json_text E (JNum NaN) = Some ''null''"
| "json_text E (JNum PosInf) = Some ''null''"
| "json_text E (JNum NegInf) = Some ''null''"
| "json_text E (JStr s) = Some (json_quote s)"
| "json_text E (JArr vs) =
     Some (''['' @ join '','' (map (\<lambda>v. case json_text E v of None \<Rightarrow> ''null'' | Some t \<Rightarrow> t) vs) @ '']'')"
| "json_text E (JObj kvs) =
     Some (''{'' @ join '','' (concat (map (\<lambda>(k, v).
        case json_text E v of None \<Rightarrow> [] | Some t \<Rightarrow> [json_quote k @ '':'' @ t]) kvs)) @ ''}'')"

text \<open>The value \<open>JSON.parse\<close> reads back from the text of a value; \<open>None\<close> for \<open>undefined\<close>.\<close>

fun json_normal :: "jsv \<Rightarrow> jsv option" where
  "json_normal JUndefined = None"
| "json_normal (JNum NaN) = Some JNull"
| "json_normal (JNum PosInf) = Some JNull"
| "json_normal (JNum NegInf) = Some JNull"
| "json_normal (JArr vs) =
     Some (JArr (map (\<lambda>v. case json_normal v of None \<Rightarrow> JNull | Some w \<Rightarrow> w) vs))"
| "json_normal (JObj kvs) =
     Some (JObj (concat (map (\<lambda>(k, v).
        case json_normal v of None \<Rightarrow> [] | Some w \<Rightarrow> [(k, w)]) kvs)))"
| "json_normal v = Some v"

text \<open>\<open>Buffer.byteLength(text, "utf8")\<close> for code units below 256.\<close>

definition utf8_length :: "string \<Rightarrow> nat" where
  "utf8_length s = sum_list (map (\<lambda>c. if (of_char c :: nat) < 128 then 1 else 2) s)"

lemma utf8_length_code [code]: "utf8_length s = sum_list (map (\<lambda>c. if digit7 c then 2 else 1) s)"
  by (simp add: utf8_length_def char_less_128 if_distrib cong: if_cong) (metis (mono_tags, lifting))

section \<open>stableValue, stableJson, inputHash\<close>

fun insert_by :: "('k \<Rightarrow> 'k \<Rightarrow> bool) \<Rightarrow> ('k \<times> 'v) \<Rightarrow> ('k \<times> 'v) list \<Rightarrow> ('k \<times> 'v) list" where
  "insert_by le x [] = [x]"
| "insert_by le x (y # ys) = (if le (fst x) (fst y) then x # y # ys else y # insert_by le x ys)"

definition sort_by :: "('k \<Rightarrow> 'k \<Rightarrow> bool) \<Rightarrow> ('k \<times> 'v) list \<Rightarrow> ('k \<times> 'v) list" where
  "sort_by le xs = foldr (insert_by le) xs []"

text \<open>
  Property order of an object made by \<open>Object.fromEntries\<close>: array indices ascending, then the
  other keys in insertion order.
\<close>

fun digits_value :: "nat \<Rightarrow> string \<Rightarrow> nat" where
  "digits_value acc [] = acc"
| "digits_value acc (c # cs) = digits_value (acc * 10 + ((of_char c :: nat) - 48)) cs"

definition array_index :: "string \<Rightarrow> bool" where
  "array_index k \<longleftrightarrow> k \<noteq> [] \<and> list_all is_digit k \<and> (hd k = CHR ''0'' \<longrightarrow> length k = 1) \<and>
     digits_value 0 k < 4294967295"

definition own_order :: "(string \<times> 'v) list \<Rightarrow> (string \<times> 'v) list" where
  "own_order kvs =
     sort_key (\<lambda>kv. digits_value 0 (fst kv)) (filter (\<lambda>kv. array_index (fst kv)) kvs) @
     filter (\<lambda>kv. \<not> array_index (fst kv)) kvs"

lemma mset_insert_by [simp]: "mset (insert_by le x xs) = add_mset x (mset xs)"
  by (induction xs) auto

lemma mset_sort_by [simp]: "mset (sort_by le xs) = mset xs"
  by (induction xs) (auto simp: sort_by_def)

lemma set_sort_by [simp]: "set (sort_by le xs) = set xs"
  by (metis mset_sort_by set_mset_mset)

function stableValue :: "js_env \<Rightarrow> jsv \<Rightarrow> jsv" where
  "stableValue E JUndefined = JUndefined"
| "stableValue E JNull = JNull"
| "stableValue E (JBool b) = JBool b"
| "stableValue E (JNum n) = JNum n"
| "stableValue E (JStr s) = JStr s"
| "stableValue E (JArr vs) = JArr (map (stableValue E) vs)"
| "stableValue E (JObj kvs) =
     JObj (own_order (map (\<lambda>kv. (fst kv, stableValue E (snd kv))) (sort_by (locale_le E) kvs)))"
  by pat_completeness auto
termination
proof (relation "measure (\<lambda>(E, v). size v)", goal_cases)
  case (2 E vs x)
  then show ?case using size_list_estimation'[of x vs "size x" size] by simp
next
  case (3 E kvs x)
  then have "size (snd x) \<le> size_list (size_prod (\<lambda>x. 0) size) kvs"
    by (intro size_list_estimation'[of x]) (auto, cases x, simp)
  then show ?case by simp
qed simp

definition stableJson :: "js_env \<Rightarrow> jsv \<Rightarrow> string option" where
  "stableJson E v = json_text E (stableValue E v)"

text \<open>Hashing the text of \<open>undefined\<close> throws.\<close>

definition inputHash :: "js_env \<Rightarrow> jsv \<Rightarrow> app_error + string" where
  "inputHash E v =
     (case stableJson E v of
        None \<Rightarrow> Inl (GenericError ''TypeError'')
      | Some t \<Rightarrow> Inr (sha256_hex E t))"

section \<open>Sorting by a linear order of keys\<close>

text \<open>The interface of a collation that tells any two keys apart.\<close>

locale key_order =
  fixes le :: "'k \<Rightarrow> 'k \<Rightarrow> bool"
  assumes le_total: "le a b \<or> le b a"
    and le_trans: "le a b \<Longrightarrow> le b c \<Longrightarrow> le a c"
    and le_antisym: "le a b \<Longrightarrow> le b a \<Longrightarrow> a = b"
begin

lemma insert_by_commute:
  "fst x \<noteq> fst y \<Longrightarrow> insert_by le x (insert_by le y zs) = insert_by le y (insert_by le x zs)"
proof (induction zs)
  case Nil
  then show ?case using le_total le_antisym by auto
next
  case (Cons z zs)
  then show ?case
    using le_total[of "fst x" "fst y"] le_antisym[of "fst x" "fst y"]
      le_trans[of "fst x" "fst y" "fst z"] le_trans[of "fst y" "fst x" "fst z"]
    by auto
qed

lemma sort_by_perm:
  assumes "mset xs = mset ys" "distinct (map fst xs)"
  shows "sort_by le xs = sort_by le ys"
proof -
  have inj: "inj_on fst (set xs)" using assms(2) by (simp add: distinct_map)
  have "fold (insert_by le) (rev xs) = fold (insert_by le) (rev ys)"
  proof (rule fold_multiset_equiv)
    fix x y assume "x \<in> set (rev xs)" "y \<in> set (rev xs)"
    then show "insert_by le x \<circ> insert_by le y = insert_by le y \<circ> insert_by le x"
      using inj insert_by_commute[of x y] by (cases "x = y") (auto simp: fun_eq_iff inj_on_def)
  qed (simp add: assms(1))
  then show ?thesis by (simp add: sort_by_def foldr_conv_fold)
qed

end

lemma insert_by_map:
  "insert_by le (fst x, f (snd x)) (map (\<lambda>kv. (fst kv, f (snd kv))) xs) =
   map (\<lambda>kv. (fst kv, f (snd kv))) (insert_by le x xs)"
  by (induction xs) auto

lemma sort_by_map:
  "sort_by le (map (\<lambda>kv. (fst kv, f (snd kv))) xs) = map (\<lambda>kv. (fst kv, f (snd kv))) (sort_by le xs)"
  by (induction xs) (simp_all add: sort_by_def insert_by_map)

lemma stableValue_JObj:
  "stableValue E (JObj kvs) =
     JObj (own_order (sort_by (locale_le E) (map (\<lambda>kv. (fst kv, stableValue E (snd kv))) kvs)))"
  by (simp add: sort_by_map)

section \<open>The hash ignores the order of object keys\<close>

text \<open>Two values that differ only in the order of the keys of their objects, at any depth.\<close>

inductive same_json :: "jsv \<Rightarrow> jsv \<Rightarrow> bool" where
  same_refl: "same_json v v"
| same_arr: "list_all2 same_json vs ws \<Longrightarrow> same_json (JArr vs) (JArr ws)"
| same_obj: "distinct (map fst kvs) \<Longrightarrow>
     list_all2 (\<lambda>a b. fst a = fst b \<and> same_json (snd a) (snd b)) kvs kvs' \<Longrightarrow>
     mset kvs' = mset kvs'' \<Longrightarrow> same_json (JObj kvs) (JObj kvs'')"

lemma stable_pairs_eq:
  assumes "list_all2 (\<lambda>a b. fst a = fst b \<and> f (snd a) = f (snd b)) xs ys"
  shows "map (\<lambda>kv. (fst kv, f (snd kv))) xs = map (\<lambda>kv. (fst kv, f (snd kv))) ys"
  using assms by (induction rule: list_all2_induct) auto

lemma stableValue_same:
  assumes ord: "key_order (locale_le E)" and "same_json v w"
  shows "stableValue E v = stableValue E w"
  using assms(2)
proof (induction rule: same_json.induct)
  case (same_arr vs ws)
  then have "list_all2 (\<lambda>v w. stableValue E v = stableValue E w) vs ws"
    by (auto elim: list_all2_mono)
  then have "map (stableValue E) vs = map (stableValue E) ws"
    by (induction rule: list_all2_induct) auto
  then show ?case by simp
next
  case (same_obj kvs kvs' kvs'')
  let ?g = "\<lambda>kv. (fst kv, stableValue E (snd kv))"
  have "list_all2 (\<lambda>a b. fst a = fst b \<and> stableValue E (snd a) = stableValue E (snd b)) kvs kvs'"
    using same_obj.IH by (auto elim: list_all2_mono)
  then have eq: "map ?g kvs = map ?g kvs'" by (rule stable_pairs_eq)
  have "mset (map ?g kvs) = mset (map ?g kvs'')"
    by (simp only: eq mset_map same_obj.hyps(2))
  moreover have "distinct (map fst (map ?g kvs))"
    using same_obj.hyps(1) by (simp add: comp_def)
  ultimately have "sort_by (locale_le E) (map ?g kvs) = sort_by (locale_le E) (map ?g kvs'')"
    by (rule key_order.sort_by_perm[OF ord])
  then show ?case by (simp only: stableValue_JObj)
qed simp

text \<open>
  The input hash does not depend on the order in which object keys were written, at any
  depth, when the collation tells distinct keys apart.
\<close>

theorem inputHash_key_order:
  assumes "key_order (locale_le E)" "same_json v w"
  shows "inputHash E v = inputHash E w"
  using stableValue_same[OF assms] by (simp add: inputHash_def stableJson_def)

text \<open>A concrete environment: byte-wise collation, integers in decimal, and the identity as digest.\<close>

fun nat_text :: "nat \<Rightarrow> string" where
  "nat_text n = (if n < 10 then [char_of (48 + n)] else nat_text (n div 10) @ [char_of (48 + n mod 10)])"

declare nat_text.simps [simp del]

definition demo_env :: js_env where
  "demo_env = \<lparr>num_text = (\<lambda>r. nat_text (nat \<lfloor>r\<rfloor>)), locale_le = (\<le>), sha256_hex = id\<rparr>"

interpretation byte_order: key_order "(\<le>) :: string \<Rightarrow> string \<Rightarrow> bool"
  by unfold_locales auto

theorem inputHash_key_order_witness:
  "inputHash demo_env (JObj [(''b'', JNull), (''a'', JBool True)]) =
   inputHash demo_env (JObj [(''a'', JBool True), (''b'', JNull)])"
proof (rule inputHash_key_order)
  show "key_order (locale_le demo_env)"
    using byte_order.key_order_axioms by (simp add: demo_env_def)
  have "list_all2 (\<lambda>a b. fst a = fst b \<and> same_json (snd a) (snd b))
      [(''b'', JNull), (''a'', JBool True)] [(''b'', JNull), (''a'', JBool True)]"
    by (auto intro: same_refl)
  then show "same_json (JObj [(''b'', JNull), (''a'', JBool True)])
      (JObj [(''a'', JBool True), (''b'', JNull)])"
    by (rule same_obj[rotated]) auto
qed

end
