(* ===== verification/Job_Queue.thy ===== *)
theory Job_Queue
  imports Database Stable_Json
begin

text \<open>
  The durable job queue, \<open>lib/services/jobs.ts\<close>. Each exported function of the source is a
  definition with the body of its transaction; where the source validates its arguments before
  the transaction the validation is the first part of the body, which changes nothing because a
  failing body leaves the database as it was. \<open>now\<close> is \<open>NOW()\<close> of the transaction, \<open>uuid\<close> the
  identifier drawn by \<open>randomUUID()\<close>, \<open>random\<close> the number drawn by \<open>Math.random()\<close>.
\<close>

section \<open>Argument checks\<close>

definition invalid_job_configuration :: app_error where
  "invalid_job_configuration = AppError 400 ''INVALID_JOB_CONFIGURATION''"

definition JOB_INPUT_MAX_BYTES :: nat where
  "JOB_INPUT_MAX_BYTES = 4194304"

definition JOB_OUTPUT_MAX_BYTES :: nat where
  "JOB_OUTPUT_MAX_BYTES = 4194304"

definition boundedInteger :: "jsv \<Rightarrow> int \<Rightarrow> int \<Rightarrow> app_error + int" where
  "boundedInteger v minimum maximum =
     (case safe_integer v of
        None \<Rightarrow> Inl invalid_job_configuration
      | Some n \<Rightarrow>
          if n < minimum \<or> n > maximum then Inl invalid_job_configuration else Inr n)"

definition boundedText :: "string \<Rightarrow> nat \<Rightarrow> app_error + string" where
  "boundedText v maximum =
     (let normalized = js_trim v in
      if normalized = [] \<or> length normalized > maximum then Inl invalid_job_configuration
      else Inr normalized)"

definition boundedRunIds :: "string list option \<Rightarrow> app_error + string list option" where
  "boundedRunIds vals =
     (case vals of
        None \<Rightarrow> Inr None
      | Some vs \<Rightarrow>
          if length vs > 1000 then Inl invalid_job_configuration
          else (case map_res (\<lambda>v. boundedText v 500) vs of
                  Inl e \<Rightarrow> Inl e
                | Inr runIds \<Rightarrow>
                    if \<not> distinct runIds then Inl invalid_job_configuration
                    else Inr (Some runIds)))"

datatype job_reference_kind = InputRef | OutputRef

definition serializeJobReference :: "js_env \<Rightarrow> jsv \<Rightarrow> job_reference_kind \<Rightarrow> app_error + string" where
  "serializeJobReference E v kind =
     (let maximumBytes = (if kind = InputRef then JOB_INPUT_MAX_BYTES else JOB_OUTPUT_MAX_BYTES) in
      case json_text E v of
        None \<Rightarrow> Inl (AppError 400
                   (if kind = InputRef then ''INVALID_JOB_INPUT'' else ''INVALID_JOB_OUTPUT''))
      | Some serialized \<Rightarrow>
          if utf8_length serialized > maximumBytes
          then Inl (AppError 413
                 (if kind = InputRef then ''JOB_INPUT_TOO_LARGE'' else ''JOB_OUTPUT_TOO_LARGE''))
          else Inr serialized)"

section \<open>Events and locks\<close>

definition recordJobEvent ::
  "string \<Rightarrow> string \<Rightarrow> job_status option \<Rightarrow> job_status option \<Rightarrow> string option \<Rightarrow> jsv \<Rightarrow> unit db_tx" where
  "recordJobEvent jobId eventType fromStatus toStatus workerId details =
     modify (\<lambda>db. db\<lparr>job_events := job_events db @
       [\<lparr>e_job_id = jobId, e_type = eventType, e_from = fromStatus, e_to = toStatus,
         e_worker_id = workerId, e_details = details\<rparr>]\<rparr>)"

definition lockJobProjectFirst :: "string \<Rightarrow> job_row db_tx" where
  "lockJobProjectFirst jobId =
     tbind (gets (find_job jobId)) (\<lambda>r.
     tbind (from_some r (notFound ''Job'')) (\<lambda>identity.
     tbind (case truthy (j_project_id identity) of
              None \<Rightarrow> ret ()
            | Some p \<Rightarrow> lock_project p) (\<lambda>_.
     tbind (gets (find_job jobId)) (\<lambda>job.
     from_some job (notFound ''Job'')))))"

definition lease_current :: "int \<Rightarrow> job_row \<Rightarrow> bool" where
  "lease_current now j = (case j_lease_expires_at j of None \<Rightarrow> False | Some t \<Rightarrow> t > now)"

definition lease_expired :: "int \<Rightarrow> job_row \<Rightarrow> bool" where
  "lease_expired now j = (case j_lease_expires_at j of None \<Rightarrow> False | Some t \<Rightarrow> t \<le> now)"

definition lockOwnedJob ::
  "int \<Rightarrow> string \<Rightarrow> string \<Rightarrow> job_status list \<Rightarrow> int option \<Rightarrow> job_row db_tx" where
  "lockOwnedJob now jobId workerId allowedStatuses expectedVersion =
     tbind (lockJobProjectFirst jobId) (\<lambda>job.
     tbind (require (j_lease_owner job = Some workerId \<and> lease_current now job \<and>
                     j_status job \<in> set allowedStatuses) (conflict ''JOB_LEASE_LOST'')) (\<lambda>_.
     tbind (require (case expectedVersion of None \<Rightarrow> True | Some v \<Rightarrow> j_version job = v)
              (conflict ''STALE_JOB_VERSION'')) (\<lambda>_.
     ret job)))"

definition lockLinkedResearchState ::
  "job_row \<Rightarrow> (research_run_row \<times> research_run_stage_row option) option db_tx" where
  "lockLinkedResearchState job =
     (case truthy (j_run_id job) of
        None \<Rightarrow> ret None
      | Some runId \<Rightarrow>
          tbind (gets (find_run runId)) (\<lambda>r.
          tbind (from_some r (conflict ''JOB_RUN_LINK_BROKEN'')) (\<lambda>run.
          (case truthy (j_run_stage_id job) of
             None \<Rightarrow> ret (Some (run, None))
           | Some stageId \<Rightarrow>
               tbind (gets (\<lambda>db. find (\<lambda>s. s_id s = stageId \<and> s_run_id s = runId)
                                  (research_run_stages db))) (\<lambda>s.
               tbind (from_some s (conflict ''JOB_RUN_LINK_BROKEN'')) (\<lambda>stage.
               ret (Some (run, Some stage))))))))"

definition active_job_statuses :: "job_status list" where
  "active_job_statuses = [J_CLAIMED, J_RUNNING, J_CANCELLATION_REQUESTED]"

text \<open>\<open>SELECT COUNT(*) FROM jobs WHERE run_id = $1 AND status IN (...)\<close>\<close>

definition active_run_jobs :: "string \<Rightarrow> database \<Rightarrow> nat" where
  "active_run_jobs runId db =
     length (filter (\<lambda>j. j_run_id j = Some runId \<and> j_status j \<in> set active_job_statuses) (jobs db))"

section \<open>Reconciling the linked run and stage\<close>

definition job_status_value :: "job_status \<Rightarrow> jsv" where
  "job_status_value s = JStr (job_status_name s)"

definition fail_stage_row ::
  "int \<Rightarrow> job_error_class \<Rightarrow> string \<Rightarrow> research_run_stage_row \<Rightarrow> research_run_stage_row" where
  "fail_stage_row now errorClass sanitizedError s =
     s\<lparr>s_status := S_FAILED, s_error_class := Some errorClass,
       s_sanitized_error := Some sanitizedError, s_completed_at := Some now,
       s_updated_at := now, s_version := s_version s + 1\<rparr>"

definition fail_run_row :: "int \<Rightarrow> string \<Rightarrow> research_run_row \<Rightarrow> research_run_row" where
  "fail_run_row now reason r =
     r\<lparr>r_status := R_FAILED, r_failure_reason := Some reason, r_completed_at := Some now,
       r_updated_at := now, r_version := r_version r + 1\<rparr>"

definition reconcileLinkedJobFailure ::
  "int \<Rightarrow> job_row \<Rightarrow> job_error_class \<Rightarrow> string \<Rightarrow> unit db_tx" where
  "reconcileLinkedJobFailure now job errorClass sanitizedError =
     tbind (lockLinkedResearchState job) (\<lambda>linked.
     (case linked of
        Some (run, Some stage) \<Rightarrow>
          if \<not> (s_status stage = S_QUEUED \<or> s_status stage = S_RUNNING) \<or>
             \<not> canTransitionRunStage (s_status stage) S_FAILED
          then ret ()
          else
            tbind (modify (upd_stages (\<lambda>s. s_id s = s_id stage)
                     (fail_stage_row now errorClass sanitizedError))) (\<lambda>_.
            tbind (if r_status run \<noteq> R_FAILED \<and> canTransitionResearchRun (r_status run) R_FAILED
                   then tbind (modify (upd_run (r_id run) (fail_run_row now sanitizedError)))
                          (\<lambda>_. ret R_FAILED)
                   else ret (r_status run)) (\<lambda>runStatus.
            writeAuditEvent \<lparr>au_project_id = Some (r_project_id run), au_actor_type = SYSTEM,
              au_actor_label = ''Durable job reconciler'', au_action = ''RUN_STAGE_JOB_FAILED'',
              au_resource_type = ''research_run_stage'', au_resource_id = Some (s_id stage),
              au_before_state = Some (JObj [(''jobStatus'', job_status_value (j_status job)),
                (''stageStatus'', JStr (stage_status_name (s_status stage))),
                (''runStatus'', JStr (run_status_name (r_status run)))]),
              au_after_state = Some (JObj [(''jobStatus'', job_status_value (j_status job)),
                (''stageStatus'', JStr ''FAILED''),
                (''runStatus'', JStr (run_status_name runStatus)),
                (''errorClass'', JStr (job_error_class_name errorClass))])\<rparr>))
      | _ \<Rightarrow> ret ()))"

definition cancelling_run_row :: "int \<Rightarrow> string \<Rightarrow> research_run_row \<Rightarrow> research_run_row" where
  "cancelling_run_row now requestedBy r =
     r\<lparr>r_status := R_CANCELLING,
       r_cancelled_by := (case r_cancelled_by r of None \<Rightarrow> Some requestedBy | Some b \<Rightarrow> Some b),
       r_completed_at := None, r_updated_at := now, r_version := r_version r + 1\<rparr>"

definition cancel_linked_stage_row :: "int \<Rightarrow> research_run_stage_row \<Rightarrow> research_run_stage_row" where
  "cancel_linked_stage_row now s =
     s\<lparr>s_status := S_CANCELLED, s_completed_at := Some now, s_error_class := Some EC_CANCELLED,
       s_sanitized_error := Some ''The linked durable job was cancelled.'',
       s_updated_at := now, s_version := s_version s + 1\<rparr>"

definition cancel_stage_row :: "int \<Rightarrow> research_run_stage_row \<Rightarrow> research_run_stage_row" where
  "cancel_stage_row now s =
     s\<lparr>s_status := S_CANCELLED, s_completed_at := Some now, s_updated_at := now,
       s_version := s_version s + 1\<rparr>"

definition cancelled_run_row :: "int \<Rightarrow> research_run_row \<Rightarrow> research_run_row" where
  "cancelled_run_row now r =
     r\<lparr>r_status := R_CANCELLED, r_completed_at := Some now, r_updated_at := now,
       r_version := r_version r + 1\<rparr>"

definition open_stage_statuses :: "run_stage_status list" where
  "open_stage_statuses = [S_PENDING, S_QUEUED, S_RUNNING]"

text \<open>The run moves to \<open>CANCELLING\<close> where its status allows it; the status it then has.\<close>

definition mark_cancelling :: "int \<Rightarrow> research_run_row \<Rightarrow> string \<Rightarrow> research_run_status db_tx" where
  "mark_cancelling now run requestedBy =
     (if r_status run \<noteq> R_CANCELLING \<and> canTransitionResearchRun (r_status run) R_CANCELLING
      then tbind (modify (upd_run (r_id run) (cancelling_run_row now requestedBy))) (\<lambda>_. ret R_CANCELLING)
      else ret (r_status run))"

definition cancel_linked :: "int \<Rightarrow> research_run_stage_row option \<Rightarrow> unit db_tx" where
  "cancel_linked now stage =
     (case stage of
        None \<Rightarrow> ret ()
      | Some st \<Rightarrow>
          if s_status st \<in> set open_stage_statuses \<and> canTransitionRunStage (s_status st) S_CANCELLED
          then modify (upd_stages (\<lambda>s. s_id s = s_id st) (cancel_linked_stage_row now))
          else ret ())"

text \<open>Once no job of the run is active, its open stages and the run itself are cancelled.\<close>

definition close_cancelled_run ::
  "int \<Rightarrow> job_row \<Rightarrow> research_run_row \<Rightarrow> research_run_status \<Rightarrow> unit db_tx" where
  "close_cancelled_run now job run runStatus =
     tbind (gets (active_run_jobs (r_id run))) (\<lambda>active.
     if active > 0 \<or> runStatus \<noteq> R_CANCELLING then ret ()
     else
       tbind (modify (upd_stages (\<lambda>s. s_run_id s = r_id run \<and>
                s_status s \<in> set open_stage_statuses) (cancel_stage_row now))) (\<lambda>_.
       tbind (modify (upd_run (r_id run) (cancelled_run_row now))) (\<lambda>_.
       writeAuditEvent \<lparr>au_project_id = Some (r_project_id run), au_actor_type = SYSTEM,
         au_actor_label = ''Durable job reconciler'',
         au_action = ''RESEARCH_RUN_CANCELLATION_ACKNOWLEDGED'',
         au_resource_type = ''research_run'', au_resource_id = Some (r_id run),
         au_before_state = Some (JObj [(''status'', JStr (run_status_name (r_status run)))]),
         au_after_state = Some (JObj [(''status'', JStr ''CANCELLED''),
           (''acknowledgedJobId'', JStr (j_id job))])\<rparr>)))"

definition reconcileLinkedJobCancellation :: "int \<Rightarrow> job_row \<Rightarrow> string \<Rightarrow> unit db_tx" where
  "reconcileLinkedJobCancellation now job requestedBy =
     tbind (lockLinkedResearchState job) (\<lambda>linked.
     (case linked of
        None \<Rightarrow> ret ()
      | Some (run, stage) \<Rightarrow>
          if r_status run \<in> set [R_COMPLETED, R_FAILED, R_CANCELLED] then ret ()
          else
            tbind (mark_cancelling now run requestedBy) (\<lambda>runStatus.
            if j_status job \<noteq> J_CANCELLED then ret ()
            else
              tbind (cancel_linked now stage) (\<lambda>_.
              close_cancelled_run now job run runStatus))))"

lemmas reconcile_cancellation_defs = reconcileLinkedJobCancellation_def mark_cancelling_def
  cancel_linked_def close_cancelled_run_def

section \<open>Submission\<close>

record submit_job_input =
  sj_projectId :: "string option"
  sj_runId :: "string option"
  sj_runStageId :: "string option"
  sj_stage :: "string option"
  sj_jobType :: string
  sj_inputReference :: jsv
  sj_idempotencyKey :: string
  sj_correlationId :: "string option"
  sj_parentJobId :: "string option"
  sj_priority :: jsv
  sj_maxAttempts :: jsv
  sj_timeoutMs :: jsv
  sj_retryPolicy :: jsv
  sj_scheduledAt :: "int option option" \<comment> \<open>\<open>Some None\<close>: an invalid \<open>Date\<close>\<close>

text \<open>
  The unique index on \<open>(COALESCE(project_id, ''), idempotency_key)\<close>, the primary key, and the
  foreign keys of \<open>jobs\<close> (composite keys are not enforced when a column is \<open>NULL\<close>).
\<close>

definition job_unique_conflict :: "job_row \<Rightarrow> database \<Rightarrow> bool" where
  "job_unique_conflict row db \<longleftrightarrow>
     list_ex (\<lambda>j. j_id j = j_id row \<or>
       (case_option [] id (j_project_id j) = case_option [] id (j_project_id row) \<and>
        j_idempotency_key j = j_idempotency_key row)) (jobs db)"

definition job_foreign_keys_ok :: "job_row \<Rightarrow> database \<Rightarrow> bool" where
  "job_foreign_keys_ok row db \<longleftrightarrow>
     (case j_project_id row of None \<Rightarrow> True | Some p \<Rightarrow> find_project p db \<noteq> None) \<and>
     (case (j_project_id row, j_run_id row) of
        (Some p, Some r) \<Rightarrow> list_ex (\<lambda>x. r_id x = r \<and> r_project_id x = p) (research_runs db)
      | _ \<Rightarrow> True) \<and>
     (case (j_run_id row, j_run_stage_id row) of
        (Some r, Some s) \<Rightarrow> list_ex (\<lambda>x. s_id x = s \<and> s_run_id x = r) (research_run_stages db)
      | _ \<Rightarrow> True) \<and>
     (case j_parent_job_id row of None \<Rightarrow> True | Some k \<Rightarrow> find_job k db \<noteq> None)"

definition new_job_row ::
  "int \<Rightarrow> string \<Rightarrow> string option \<Rightarrow> submit_job_input \<Rightarrow> string \<Rightarrow> jsv \<Rightarrow> int \<Rightarrow> string \<Rightarrow> string \<Rightarrow>
   int \<Rightarrow> int \<Rightarrow> job_retry_policy \<Rightarrow> string \<Rightarrow> job_row" where
  "new_job_row now uuid projectId input jobType normalizedInput priority idempotencyKey hash
     maxAttempts timeoutMs policy correlationId =
     \<lparr>j_id = uuid, j_project_id = projectId, j_run_id = sj_runId input,
      j_run_stage_id = sj_runStageId input, j_stage = sj_stage input, j_job_type = jobType,
      j_payload = normalizedInput, j_status = J_QUEUED, j_priority = priority,
      j_idempotency_key = idempotencyKey, j_input_reference = normalizedInput,
      j_input_hash = hash, j_output_reference = None, j_output_hash = None,
      j_attempts = 0, j_max_attempts = maxAttempts,
      j_scheduled_at = (case sj_scheduledAt input of Some (Some t) \<Rightarrow> t | _ \<Rightarrow> now),
      j_claimed_at = None, j_started_at = None, j_completed_at = None, j_lease_owner = None,
      j_lease_expires_at = None, j_heartbeat_at = None, j_timeout_ms = timeoutMs,
      j_retry_policy = policy_value policy, j_error_class = None, j_sanitized_error = None,
      j_cancellation_requested_at = None, j_parent_job_id = sj_parentJobId input,
      j_correlation_id = correlationId, j_created_at = now, j_updated_at = now, j_version = 0\<rparr>"

text \<open>The checked arguments, as the row the transaction tries to insert.\<close>

definition submitted_row :: "js_env \<Rightarrow> int \<Rightarrow> string \<Rightarrow> submit_job_input \<Rightarrow> app_error + job_row" where
  "submitted_row E now uuid input =
     (let projectId = truthy (map_option js_trim (sj_projectId input)) in
      ebind (boundedText (sj_jobType input) 200) (\<lambda>jobType.
      ebind (boundedText (sj_idempotencyKey input) 500) (\<lambda>idempotencyKey.
      ebind (boundedText (case sj_correlationId input of None \<Rightarrow> uuid | Some c \<Rightarrow> c) 500)
        (\<lambda>correlationId.
      ebind (boundedInteger (js_default (sj_priority input) (js_int 0)) (-1000) 1000) (\<lambda>priority.
      ebind (boundedInteger (js_default (sj_maxAttempts input) (js_int 3)) 1 100) (\<lambda>maxAttempts.
      ebind (boundedInteger (js_default (sj_timeoutMs input) (js_int 300000)) 1 86400000) (\<lambda>timeoutMs.
      ebind (parseJobRetryPolicy
               (js_default (sj_retryPolicy input) (policy_value DEFAULT_JOB_RETRY_POLICY)))
        (\<lambda>retryPolicy.
      ebind (serializeJobReference E (sj_inputReference input) InputRef) (\<lambda>inputJson.
      ebind (case json_normal (sj_inputReference input) of
               None \<Rightarrow> Inl (GenericError ''SyntaxError'') | Some v \<Rightarrow> Inr v) (\<lambda>normalizedInput.
      ebind (inputHash E normalizedInput) (\<lambda>calculatedInputHash.
      if sj_scheduledAt input = Some None then Inl invalid_job_configuration
      else Inr (new_job_row now uuid projectId input jobType normalizedInput priority idempotencyKey
             calculatedInputHash maxAttempts timeoutMs retryPolicy correlationId))))))))))))"

definition submitJobInTransaction ::
  "js_env \<Rightarrow> int \<Rightarrow> string \<Rightarrow> submit_job_input \<Rightarrow> (job_row \<times> bool) db_tx" where
  "submitJobInTransaction E now uuid input =
     tbind (lift_res (submitted_row E now uuid input)) (\<lambda>row.
     tbind (gets (job_unique_conflict row)) (\<lambda>clash.
     if \<not> clash then
       tbind (gets (job_foreign_keys_ok row)) (\<lambda>ok.
       tbind (require ok (DbError ''foreign_key_violation'')) (\<lambda>_.
       tbind (modify (\<lambda>db. db\<lparr>jobs := jobs db @ [row]\<rparr>)) (\<lambda>_.
       tbind (recordJobEvent uuid ''JOB_SUBMITTED'' None (Some J_QUEUED) None
                (JObj [(''idempotencyKey'', JStr (j_idempotency_key row)),
                       (''correlationId'', JStr (j_correlation_id row))])) (\<lambda>_.
       ret (row, True)))))
     else
       tbind (gets (\<lambda>db. find (\<lambda>j. j_project_id j = j_project_id row \<and>
                                    j_idempotency_key j = j_idempotency_key row) (jobs db))) (\<lambda>existing.
       tbind (from_some existing (conflict ''JOB_SUBMISSION_CONFLICT'')) (\<lambda>job.
       tbind (require (j_job_type job = j_job_type row \<and> j_input_hash job = j_input_hash row \<and>
                       j_run_id job = j_run_id row \<and> j_run_stage_id job = j_run_stage_id row)
                (conflict ''IDEMPOTENCY_KEY_REUSED'')) (\<lambda>_.
       ret (job, False))))))"

definition submitJob ::
  "js_env \<Rightarrow> int \<Rightarrow> string \<Rightarrow> submit_job_input \<Rightarrow> (job_row \<times> bool) db_tx" where
  "submitJob E now uuid input =
     tbind (case truthy (sj_projectId input) of None \<Rightarrow> ret () | Some p \<Rightarrow> lock_project p) (\<lambda>_.
     submitJobInTransaction E now uuid input)"

definition getJob :: "string \<Rightarrow> job_row db_tx" where
  "getJob jobId = tbind (gets (find_job jobId)) (\<lambda>r. from_some r (notFound ''Job''))"

section \<open>Claiming\<close>

definition claimable ::
  "int \<Rightarrow> string list option \<Rightarrow> string list option \<Rightarrow> job_row \<Rightarrow> bool" where
  "claimable now jobTypes runIds j \<longleftrightarrow>
     j_status j \<in> set [J_QUEUED, J_RETRY_WAIT] \<and> j_scheduled_at j \<le> now \<and>
     j_attempts j < j_max_attempts j \<and>
     (case jobTypes of None \<Rightarrow> True | Some ts \<Rightarrow> j_job_type j \<in> set ts) \<and>
     (case runIds of
        None \<Rightarrow> True
      | Some rs \<Rightarrow> (case j_run_id j of None \<Rightarrow> False | Some r \<Rightarrow> r \<in> set rs))"

text \<open>\<open>ORDER BY priority DESC, scheduled_at, id\<close>\<close>

definition claim_rank :: "job_row \<Rightarrow> int \<times> int \<times> string" where
  "claim_rank j = (- j_priority j, j_scheduled_at j, j_id j)"

definition claim_candidates ::
  "int \<Rightarrow> int \<Rightarrow> string list option \<Rightarrow> string list option \<Rightarrow> database \<Rightarrow> job_row list" where
  "claim_candidates now limit jobTypes runIds db =
     take (nat limit) (sort_key claim_rank (filter (claimable now jobTypes runIds) (jobs db)))"

definition claim_row :: "int \<Rightarrow> string \<Rightarrow> int \<Rightarrow> job_row \<Rightarrow> job_row" where
  "claim_row now workerId leaseDurationMs j =
     j\<lparr>j_status := J_CLAIMED, j_attempts := j_attempts j + 1, j_claimed_at := Some now,
       j_lease_owner := Some workerId, j_lease_expires_at := Some (now + leaseDurationMs),
       j_heartbeat_at := Some now, j_error_class := None, j_sanitized_error := None,
       j_updated_at := now, j_version := j_version j + 1\<rparr>"

text \<open>The attempt and event rows of one claimed job; \<open>(job_id, attempt_number)\<close> is unique.\<close>

definition log_claim :: "string \<Rightarrow> int \<Rightarrow> job_row \<Rightarrow> unit db_tx" where
  "log_claim workerId leaseDurationMs candidate =
     tbind (lift_res (assertJobTransition (j_status candidate) J_CLAIMED)) (\<lambda>_.
     tbind (gets (\<lambda>db. list_ex (\<lambda>a. a_job_id a = j_id candidate \<and>
              a_attempt_number a = j_attempts candidate + 1) (job_attempts db))) (\<lambda>clash.
     tbind (require (\<not> clash) (DbError ''unique_violation'')) (\<lambda>_.
     tbind (modify (\<lambda>db. db\<lparr>job_attempts := job_attempts db @
              [\<lparr>a_job_id = j_id candidate, a_attempt_number = j_attempts candidate + 1,
                a_worker_id = workerId, a_status = AT J_CLAIMED, a_error_class = None,
                a_sanitized_error = None, a_retry_after_ms = None, a_completed_at = None\<rparr>]\<rparr>)) (\<lambda>_.
     recordJobEvent (j_id candidate) ''JOB_CLAIMED'' (Some (j_status candidate)) (Some J_CLAIMED)
       (Some workerId) (JObj [(''attempt'', js_int (j_attempts candidate + 1)),
                              (''leaseDurationMs'', js_int leaseDurationMs)])))))"

definition boundedJobTypes :: "string list option \<Rightarrow> app_error + string list option" where
  "boundedJobTypes jobTypes =
     (case jobTypes of
        None \<Rightarrow> Inr None
      | Some ts \<Rightarrow> ebind (map_res (\<lambda>t. boundedText t 200) ts) (\<lambda>us. Inr (Some us)))"

definition claimJobs ::
  "int \<Rightarrow> string \<Rightarrow> jsv \<Rightarrow> jsv \<Rightarrow> string list option \<Rightarrow> string list option \<Rightarrow> job_row list db_tx" where
  "claimJobs now workerId0 limit0 leaseDurationMs0 jobTypes0 runIds0 =
     tbind (lift_res (boundedText workerId0 500)) (\<lambda>workerId.
     tbind (lift_res (boundedInteger (js_default limit0 (js_int 1)) 1 100)) (\<lambda>limit.
     tbind (lift_res (boundedInteger leaseDurationMs0 1 86400000)) (\<lambda>leaseDurationMs.
     tbind (lift_res (boundedJobTypes jobTypes0)) (\<lambda>jobTypes.
     tbind (lift_res (boundedRunIds runIds0)) (\<lambda>runIds.
     tbind (require (case jobTypes of None \<Rightarrow> True | Some ts \<Rightarrow> distinct ts)
              invalid_job_configuration) (\<lambda>_.
     if jobTypes = Some [] \<or> runIds = Some [] then ret []
     else
       tbind (gets (claim_candidates now limit jobTypes runIds)) (\<lambda>candidates.
       tbind (modify (\<lambda>db. db\<lparr>jobs := update_where (\<lambda>j. j_id j \<in> set (map j_id candidates))
                (claim_row now workerId leaseDurationMs) (jobs db)\<rparr>)) (\<lambda>_.
       tbind (for_each (log_claim workerId leaseDurationMs) candidates) (\<lambda>_.
       ret (map (claim_row now workerId leaseDurationMs) candidates))))))))))"

section \<open>Execution under a lease\<close>

definition start_row :: "int \<Rightarrow> job_row \<Rightarrow> job_row" where
  "start_row now j =
     j\<lparr>j_status := J_RUNNING,
       j_started_at := (case j_started_at j of None \<Rightarrow> Some now | Some t \<Rightarrow> Some t),
       j_heartbeat_at := Some now, j_updated_at := now, j_version := j_version j + 1\<rparr>"

definition startJob :: "int \<Rightarrow> string \<Rightarrow> string \<Rightarrow> int option \<Rightarrow> job_row db_tx" where
  "startJob now jobId workerId expectedVersion =
     tbind (lift_res (boundedText workerId 500)) (\<lambda>owner.
     tbind (lockOwnedJob now jobId owner [J_CLAIMED] expectedVersion) (\<lambda>job.
     tbind (lift_res (assertJobTransition (j_status job) J_RUNNING)) (\<lambda>_.
     tbind (update_job_returning (j_id job) (start_row now)) (\<lambda>updated.
     tbind (modify (upd_attempt (j_id job) (j_attempts job) (\<lambda>a. a\<lparr>a_status := AT J_RUNNING\<rparr>))) (\<lambda>_.
     tbind (recordJobEvent (j_id job) ''JOB_STARTED'' (Some (j_status job)) (Some J_RUNNING)
              (Some workerId) (JObj [])) (\<lambda>_.
     ret updated))))))"

definition heartbeat_row :: "int \<Rightarrow> int \<Rightarrow> job_row \<Rightarrow> job_row" where
  "heartbeat_row now leaseDurationMs j =
     j\<lparr>j_heartbeat_at := Some now, j_lease_expires_at := Some (now + leaseDurationMs),
       j_updated_at := now, j_version := j_version j + 1\<rparr>"

definition heartbeatJob :: "int \<Rightarrow> string \<Rightarrow> string \<Rightarrow> jsv \<Rightarrow> job_row db_tx" where
  "heartbeatJob now jobId workerId0 leaseDurationMs0 =
     tbind (lift_res (boundedText workerId0 500)) (\<lambda>workerId.
     tbind (lift_res (boundedInteger leaseDurationMs0 1 86400000)) (\<lambda>leaseDurationMs.
     tbind (lockOwnedJob now jobId workerId
              [J_CLAIMED, J_RUNNING, J_CANCELLATION_REQUESTED] None) (\<lambda>job.
     update_job_returning (j_id job) (heartbeat_row now leaseDurationMs))))"

definition complete_row :: "int \<Rightarrow> jsv \<Rightarrow> string \<Rightarrow> job_row \<Rightarrow> job_row" where
  "complete_row now output outputHash j =
     j\<lparr>j_status := J_SUCCEEDED, j_output_reference := Some output, j_output_hash := Some outputHash,
       j_completed_at := Some now, j_lease_owner := None, j_lease_expires_at := None,
       j_heartbeat_at := None, j_updated_at := now, j_version := j_version j + 1\<rparr>"

definition completeJob :: "js_env \<Rightarrow> int \<Rightarrow> string \<Rightarrow> string \<Rightarrow> jsv \<Rightarrow> job_row db_tx" where
  "completeJob E now jobId workerId0 outputReference =
     tbind (lift_res (boundedText workerId0 500)) (\<lambda>workerId.
     tbind (lift_res (serializeJobReference E outputReference OutputRef)) (\<lambda>outputJson.
     tbind (from_some (json_normal outputReference) (GenericError ''SyntaxError'')) (\<lambda>normalizedOutput.
     tbind (lift_res (inputHash E normalizedOutput)) (\<lambda>outputHash.
     tbind (lockOwnedJob now jobId workerId [J_RUNNING] None) (\<lambda>job.
     tbind (lift_res (assertJobTransition (j_status job) J_SUCCEEDED)) (\<lambda>_.
     tbind (update_job_returning (j_id job) (complete_row now normalizedOutput outputHash)) (\<lambda>updated.
     tbind (modify (upd_attempt (j_id job) (j_attempts job)
              (\<lambda>a. a\<lparr>a_status := AT J_SUCCEEDED, a_completed_at := Some now\<rparr>))) (\<lambda>_.
     tbind (recordJobEvent (j_id job) ''JOB_SUCCEEDED'' (Some (j_status job)) (Some J_SUCCEEDED)
              (Some workerId) (JObj [(''outputHash'', JStr outputHash)])) (\<lambda>_.
     ret updated)))))))))"

section \<open>Failure\<close>

text \<open>\<open>retry_after_ms\<close> is a PostgreSQL \<open>INTEGER\<close>: a larger value is refused by the database.\<close>

definition int4_ok :: "int option \<Rightarrow> bool" where
  "int4_ok d = (case d of None \<Rightarrow> True | Some n \<Rightarrow> n \<le> 2147483647)"

definition delay_value :: "int option \<Rightarrow> jsv" where
  "delay_value d = (case d of None \<Rightarrow> JNull | Some n \<Rightarrow> js_int n)"

definition retry_delay :: "job_status \<Rightarrow> int \<Rightarrow> jsv \<Rightarrow> jsv \<Rightarrow> jsv \<Rightarrow> app_error + int option" where
  "retry_delay target attempt policy retryAfterMs random =
     (if target = J_RETRY_WAIT then
        (case parseJobRetryPolicy policy of
           Inl e \<Rightarrow> Inl e
         | Inr p \<Rightarrow>
             (case calculateRetryDelayMs (js_int attempt) (policy_value p) retryAfterMs random of
                Inl e \<Rightarrow> Inl e | Inr d \<Rightarrow> Inr (Some d)))
      else Inr None)"

definition fail_row ::
  "int \<Rightarrow> job_status \<Rightarrow> int option \<Rightarrow> job_error_class \<Rightarrow> string \<Rightarrow> job_row \<Rightarrow> job_row" where
  "fail_row now target retryDelayMs errorClass sanitizedError j =
     j\<lparr>j_status := target,
       j_scheduled_at := (if target = J_RETRY_WAIT then now + case_option 0 id retryDelayMs
                          else j_scheduled_at j),
       j_completed_at := (if target \<in> set [J_FAILED, J_DEAD_LETTER] then Some now else None),
       j_lease_owner := None, j_lease_expires_at := None, j_heartbeat_at := None,
       j_error_class := Some errorClass, j_sanitized_error := Some sanitizedError,
       j_updated_at := now, j_version := j_version j + 1\<rparr>"

definition failJob ::
  "int \<Rightarrow> string \<Rightarrow> string \<Rightarrow> job_error_class \<Rightarrow> string \<Rightarrow> jsv \<Rightarrow> jsv \<Rightarrow> job_row db_tx" where
  "failJob now jobId workerId0 errorClass error retryAfterMs random =
     tbind (lift_res (boundedText workerId0 500)) (\<lambda>workerId.
     tbind (lockOwnedJob now jobId workerId [J_CLAIMED, J_RUNNING] None) (\<lambda>job.
     tbind (lift_res (failureJobStatus errorClass (js_int (j_attempts job))
                        (js_int (j_max_attempts job)))) (\<lambda>target.
     tbind (lift_res (assertJobTransition (j_status job) target)) (\<lambda>_.
     tbind (lift_res (retry_delay target (j_attempts job) (j_retry_policy job) retryAfterMs random))
       (\<lambda>retryDelayMs.
     (let sanitizedError = sanitizeJobError error in
      tbind (update_job_returning (j_id job)
               (fail_row now target retryDelayMs errorClass sanitizedError)) (\<lambda>updated.
      tbind (require (int4_ok retryDelayMs) (DbError ''integer out of range'')) (\<lambda>_.
      tbind (modify (upd_attempt (j_id job) (j_attempts job)
               (\<lambda>a. a\<lparr>a_status := AT target, a_error_class := Some errorClass,
                      a_sanitized_error := Some sanitizedError, a_retry_after_ms := retryDelayMs,
                      a_completed_at := Some now\<rparr>))) (\<lambda>_.
      tbind (recordJobEvent (j_id job)
               (if target = J_RETRY_WAIT then ''JOB_RETRY_SCHEDULED'' else ''JOB_FAILED'')
               (Some (j_status job)) (Some target) (Some workerId)
               (JObj [(''errorClass'', JStr (job_error_class_name errorClass)),
                      (''retryDelayMs'', delay_value retryDelayMs)])) (\<lambda>_.
      tbind (if target = J_FAILED \<or> target = J_DEAD_LETTER
             then reconcileLinkedJobFailure now updated errorClass sanitizedError
             else ret ()) (\<lambda>_.
      ret updated)))))))))))"

section \<open>Cancellation\<close>

record job_operator_audit =
  oa_actor_type :: actor_type
  oa_actor_label :: string
  oa_idempotencyKey :: string

definition operator_details :: "string \<Rightarrow> job_operator_audit option \<Rightarrow> jsv" where
  "operator_details requestedBy audit =
     JObj ((''requestedBy'', JStr requestedBy) #
       (case audit of None \<Rightarrow> [] | Some a \<Rightarrow> [(''idempotencyKey'', JStr (oa_idempotencyKey a))]))"

definition operator_audit_event ::
  "string \<Rightarrow> job_row \<Rightarrow> job_status \<Rightarrow> job_operator_audit \<Rightarrow> audit_event" where
  "operator_audit_event action job target a =
     \<lparr>au_project_id = j_project_id job, au_actor_type = oa_actor_type a,
      au_actor_label = oa_actor_label a, au_action = action, au_resource_type = ''job'',
      au_resource_id = Some (j_id job),
      au_before_state = Some (JObj [(''status'', job_status_value (j_status job))]),
      au_after_state = Some (JObj [(''status'', job_status_value target),
        (''idempotencyKey'', JStr (oa_idempotencyKey a))])\<rparr>"

definition request_cancel_row :: "int \<Rightarrow> job_status \<Rightarrow> job_row \<Rightarrow> job_row" where
  "request_cancel_row now target j =
     j\<lparr>j_status := target, j_cancellation_requested_at := Some now,
       j_completed_at := (if target = J_CANCELLED then Some now else j_completed_at j),
       j_lease_owner := (if target = J_CANCELLED then None else j_lease_owner j),
       j_lease_expires_at := (if target = J_CANCELLED then None else j_lease_expires_at j),
       j_heartbeat_at := (if target = J_CANCELLED then None else j_heartbeat_at j),
       j_updated_at := now, j_version := j_version j + 1\<rparr>"

definition cancel_target :: "job_status \<Rightarrow> job_status" where
  "cancel_target s =
     (if s \<in> set [J_QUEUED, J_RETRY_WAIT] then J_CANCELLED else J_CANCELLATION_REQUESTED)"

definition requestJobCancellationInTransaction ::
  "int \<Rightarrow> string \<Rightarrow> string \<Rightarrow> job_operator_audit option \<Rightarrow> bool \<Rightarrow> job_row db_tx" where
  "requestJobCancellationInTransaction now jobId requestedBy audit reconcileLinked =
     tbind (lockJobProjectFirst jobId) (\<lambda>job.
     if isTerminalJobStatus (j_status job) \<or> j_status job = J_CANCELLATION_REQUESTED then ret job
     else
       (let target = cancel_target (j_status job) in
        tbind (lift_res (assertJobTransition (j_status job) target)) (\<lambda>_.
        tbind (update_job_returning (j_id job) (request_cancel_row now target)) (\<lambda>updated.
        tbind (recordJobEvent (j_id job) ''JOB_CANCELLATION_REQUESTED'' (Some (j_status job))
                 (Some target) None (operator_details requestedBy audit)) (\<lambda>_.
        tbind (case audit of
                 None \<Rightarrow> ret ()
               | Some a \<Rightarrow> writeAuditEvent
                   (operator_audit_event ''JOB_CANCELLATION_REQUESTED'' job target a)) (\<lambda>_.
        tbind (if reconcileLinked then reconcileLinkedJobCancellation now updated requestedBy
               else ret ()) (\<lambda>_.
        ret updated)))))))"

definition requestJobCancellation ::
  "int \<Rightarrow> string \<Rightarrow> string \<Rightarrow> job_operator_audit option \<Rightarrow> job_row db_tx" where
  "requestJobCancellation now jobId requestedBy audit =
     requestJobCancellationInTransaction now jobId requestedBy audit True"

definition acknowledge_row :: "int \<Rightarrow> job_row \<Rightarrow> job_row" where
  "acknowledge_row now j =
     j\<lparr>j_status := J_CANCELLED, j_completed_at := Some now, j_lease_owner := None,
       j_lease_expires_at := None, j_heartbeat_at := None, j_error_class := Some EC_CANCELLED,
       j_sanitized_error := Some ''Cancellation acknowledged by worker.'',
       j_updated_at := now, j_version := j_version j + 1\<rparr>"

definition acknowledgeJobCancellation :: "int \<Rightarrow> string \<Rightarrow> string \<Rightarrow> job_row db_tx" where
  "acknowledgeJobCancellation now jobId workerId0 =
     tbind (lift_res (boundedText workerId0 500)) (\<lambda>workerId.
     tbind (lockOwnedJob now jobId workerId [J_CANCELLATION_REQUESTED] None) (\<lambda>job.
     tbind (lift_res (assertJobTransition (j_status job) J_CANCELLED)) (\<lambda>_.
     tbind (update_job_returning (j_id job) (acknowledge_row now)) (\<lambda>updated.
     tbind (modify (upd_attempt (j_id job) (j_attempts job)
              (\<lambda>a. a\<lparr>a_status := AT J_CANCELLED, a_error_class := Some EC_CANCELLED,
                     a_completed_at := Some now\<rparr>))) (\<lambda>_.
     tbind (recordJobEvent (j_id job) ''JOB_CANCELLED'' (Some (j_status job)) (Some J_CANCELLED)
              (Some workerId) (JObj [])) (\<lambda>_.
     tbind (reconcileLinkedJobCancellation now updated ''Cancellation acknowledged by worker'') (\<lambda>_.
     ret updated)))))))"

definition release_row :: "int \<Rightarrow> job_status \<Rightarrow> job_row \<Rightarrow> job_row" where
  "release_row now target j =
     j\<lparr>j_status := target,
       j_scheduled_at := (if target = J_RETRY_WAIT then now else j_scheduled_at j),
       j_completed_at := (if target = J_CANCELLED then Some now else None),
       j_lease_owner := None, j_lease_expires_at := None, j_heartbeat_at := None,
       j_error_class := (if target = J_CANCELLED then Some EC_CANCELLED else j_error_class j),
       j_updated_at := now, j_version := j_version j + 1\<rparr>"

definition releaseJobLease :: "int \<Rightarrow> string \<Rightarrow> string \<Rightarrow> job_row db_tx" where
  "releaseJobLease now jobId workerId0 =
     tbind (lift_res (boundedText workerId0 500)) (\<lambda>workerId.
     tbind (lockOwnedJob now jobId workerId
              [J_CLAIMED, J_RUNNING, J_CANCELLATION_REQUESTED] None) (\<lambda>job.
     (let target = (if j_status job = J_CANCELLATION_REQUESTED then J_CANCELLED
                    else J_RETRY_WAIT) in
      tbind (lift_res (assertJobTransition (j_status job) target)) (\<lambda>_.
      tbind (update_job_returning (j_id job) (release_row now target)) (\<lambda>updated.
      tbind (modify (upd_attempt (j_id job) (j_attempts job)
               (\<lambda>a. a\<lparr>a_status := AT target, a_completed_at := Some now\<rparr>))) (\<lambda>_.
      tbind (recordJobEvent (j_id job)
               (if target = J_CANCELLED then ''JOB_CANCELLED'' else ''JOB_LEASE_RELEASED'')
               (Some (j_status job)) (Some target) (Some workerId) (JObj [])) (\<lambda>_.
      tbind (if target = J_CANCELLED
             then reconcileLinkedJobCancellation now updated
                    ''Cancellation completed during worker shutdown''
             else ret ()) (\<lambda>_.
      ret updated))))))))"

section \<open>Recovery of expired leases\<close>

definition run_filter :: "string list option \<Rightarrow> job_row \<Rightarrow> bool" where
  "run_filter runIds j =
     (case runIds of
        None \<Rightarrow> True
      | Some rs \<Rightarrow> (case truthy (j_run_id j) of None \<Rightarrow> False | Some r \<Rightarrow> r \<in> set rs))"

definition expired_candidates :: "int \<Rightarrow> int \<Rightarrow> string list option \<Rightarrow> database \<Rightarrow> string list" where
  "expired_candidates now limit runIds db =
     map j_id (take (nat limit) (sort_key (\<lambda>j. (case_option 0 id (j_lease_expires_at j), j_id j))
       (filter (\<lambda>j. j_status j \<in> set active_job_statuses \<and> lease_expired now j \<and>
          (case runIds of
             None \<Rightarrow> True
           | Some rs \<Rightarrow> (case j_run_id j of None \<Rightarrow> False | Some r \<Rightarrow> r \<in> set rs))) (jobs db))))"

definition recover_row :: "int \<Rightarrow> job_status \<Rightarrow> int option \<Rightarrow> job_row \<Rightarrow> job_row" where
  "recover_row now target retryDelayMs j =
     j\<lparr>j_status := target,
       j_scheduled_at := (if target = J_RETRY_WAIT then now + case_option 0 id retryDelayMs
                          else j_scheduled_at j),
       j_completed_at := (if target \<in> set [J_CANCELLED, J_DEAD_LETTER] then Some now else None),
       j_lease_owner := None, j_lease_expires_at := None, j_heartbeat_at := None,
       j_error_class := Some (if target = J_CANCELLED then EC_CANCELLED else EC_UNKNOWN),
       j_sanitized_error := Some (if target = J_CANCELLED
         then ''Cancellation completed after the worker lease expired.''
         else ''Worker lease expired before completion.''),
       j_updated_at := now, j_version := j_version j + 1\<rparr>"

definition recover_target :: "job_row \<Rightarrow> job_status" where
  "recover_target job =
     (if j_status job = J_CANCELLATION_REQUESTED then J_CANCELLED
      else if j_attempts job < j_max_attempts job then J_RETRY_WAIT else J_DEAD_LETTER)"

text \<open>The transaction for one candidate of \<open>recoverExpiredJobs\<close>.\<close>

definition recover_one :: "int \<Rightarrow> jsv \<Rightarrow> string list option \<Rightarrow> string \<Rightarrow> job_row option db_tx" where
  "recover_one now random runIds jobId =
     tbind (lockJobProjectFirst jobId) (\<lambda>job.
     if \<not> lease_expired now job \<or> \<not> run_filter runIds job \<or>
        j_status job \<notin> set active_job_statuses
     then ret None
     else
       (let target = recover_target job in
        tbind (lift_res (assertJobTransition (j_status job) target)) (\<lambda>_.
        tbind (lift_res (retry_delay target (max 1 (j_attempts job)) (j_retry_policy job)
                           JUndefined random)) (\<lambda>retryDelayMs.
        tbind (update_job_returning (j_id job) (recover_row now target retryDelayMs)) (\<lambda>updated.
        tbind (require (int4_ok retryDelayMs) (DbError ''integer out of range'')) (\<lambda>_.
        tbind (modify (upd_attempt (j_id job) (j_attempts job)
                 (\<lambda>a. a\<lparr>a_status := LEASE_EXPIRED,
                        a_error_class := Some (if target = J_CANCELLED then EC_CANCELLED else EC_UNKNOWN),
                        a_sanitized_error := Some ''Worker lease expired before completion.'',
                        a_retry_after_ms := retryDelayMs, a_completed_at := Some now\<rparr>))) (\<lambda>_.
        tbind (recordJobEvent (j_id job) ''JOB_LEASE_EXPIRED'' (Some (j_status job)) (Some target)
                 (j_lease_owner job) (JObj [(''retryDelayMs'', delay_value retryDelayMs)])) (\<lambda>_.
        tbind (if target = J_DEAD_LETTER
               then reconcileLinkedJobFailure now updated EC_UNKNOWN
                      ''Worker lease expired before completion.''
               else if target = J_CANCELLED
               then reconcileLinkedJobCancellation now updated
                      ''Cancellation completed after worker lease expiry''
               else ret ()) (\<lambda>_.
        ret (Some updated))))))))))"

text \<open>
  One transaction per candidate: the \<open>i\<close>-th runs at \<open>clock i\<close> and draws \<open>random i\<close>. A job that is
  gone is skipped; any other error ends the loop, and what was committed before it stays.
\<close>

fun recover_loop ::
  "(nat \<Rightarrow> int) \<Rightarrow> (nat \<Rightarrow> jsv) \<Rightarrow> string list option \<Rightarrow> nat \<Rightarrow> string list \<Rightarrow> job_row list \<Rightarrow>
   database \<Rightarrow> (app_error + job_row list) \<times> database" where
  "recover_loop clock random runIds i [] recovered db = (Inr recovered, db)"
| "recover_loop clock random runIds i (k # ks) recovered db =
     (case withTransaction (recover_one (clock i) (random i) runIds k) db of
        (Inr (Some j), db') \<Rightarrow> recover_loop clock random runIds (Suc i) ks (recovered @ [j]) db'
      | (Inr None, db') \<Rightarrow> recover_loop clock random runIds (Suc i) ks recovered db'
      | (Inl (AppError st code), db') \<Rightarrow>
          if code = ''NOT_FOUND'' then recover_loop clock random runIds (Suc i) ks recovered db'
          else (Inl (AppError st code), db')
      | (Inl e, db') \<Rightarrow> (Inl e, db'))"

definition recoverExpiredJobs ::
  "(nat \<Rightarrow> int) \<Rightarrow> (nat \<Rightarrow> jsv) \<Rightarrow> jsv \<Rightarrow> string list option \<Rightarrow> database \<Rightarrow>
   (app_error + job_row list) \<times> database" where
  "recoverExpiredJobs clock random limit0 runIds0 db =
     (case boundedInteger (js_default limit0 (js_int 100)) 1 1000 of
        Inl e \<Rightarrow> (Inl e, db)
      | Inr limit \<Rightarrow>
     (case boundedRunIds runIds0 of
        Inl e \<Rightarrow> (Inl e, db)
      | Inr runIds \<Rightarrow>
          if runIds = Some [] then (Inr [], db)
          else recover_loop clock random runIds 1
                 (expired_candidates (clock 0) limit runIds db) [] db))"

section \<open>Manual retry\<close>

definition manual_retry_row :: "int \<Rightarrow> job_row \<Rightarrow> job_row" where
  "manual_retry_row now j =
     j\<lparr>j_status := J_QUEUED, j_max_attempts := j_attempts j + 1, j_scheduled_at := now,
       j_claimed_at := None, j_started_at := None, j_completed_at := None, j_lease_owner := None,
       j_lease_expires_at := None, j_heartbeat_at := None, j_error_class := None,
       j_sanitized_error := None, j_cancellation_requested_at := None,
       j_updated_at := now, j_version := j_version j + 1\<rparr>"

definition manualRetryJob ::
  "int \<Rightarrow> string \<Rightarrow> string \<Rightarrow> job_operator_audit option \<Rightarrow> job_row db_tx" where
  "manualRetryJob now jobId requestedBy audit =
     tbind (lockJobProjectFirst jobId) (\<lambda>job.
     tbind (require (\<not> (truthy (j_run_stage_id job) \<noteq> None \<or>
                        j_job_type job = ''RESEARCH_PIPELINE_STAGE''))
              (conflict ''PIPELINE_STAGE_RESTART_REQUIRED'')) (\<lambda>_.
     tbind (require (j_status job \<in> set [J_FAILED, J_DEAD_LETTER])
              (conflict ''JOB_NOT_RETRYABLE'')) (\<lambda>_.
     tbind (lift_res (assertJobTransition (j_status job) J_QUEUED)) (\<lambda>_.
     tbind (update_job_returning (j_id job) (manual_retry_row now)) (\<lambda>updated.
     tbind (recordJobEvent (j_id job) ''JOB_MANUAL_RETRY'' (Some (j_status job)) (Some J_QUEUED)
              None (operator_details requestedBy audit)) (\<lambda>_.
     tbind (case audit of
              None \<Rightarrow> ret ()
            | Some a \<Rightarrow> writeAuditEvent (operator_audit_event ''JOB_MANUAL_RETRY'' job J_QUEUED a)) (\<lambda>_.
     ret updated)))))))"

end
