(* ===== verification/Run_Stages.thy ===== *)
theory Run_Stages
  imports Job_Queue
begin

text \<open>
  The stages of a research run, \<open>lib/services/run-stages.ts\<close>, with the helper of
  \<open>lib/services/research-domain-effects.ts\<close>. An operation that works for a worker carries a
  fence: the job, the stage, the attempt number and the worker that must still be current.
\<close>

section \<open>Locks and fences\<close>

record run_stage_job_fence =
  f_jobId :: string
  f_runStageId :: string
  f_attempt :: int
  f_workerId :: string

definition fence_current :: "int \<Rightarrow> string \<Rightarrow> run_stage_job_fence \<Rightarrow> job_row \<Rightarrow> bool" where
  "fence_current now runId fence j \<longleftrightarrow>
     j_id j = f_jobId fence \<and> j_run_id j = Some runId \<and> j_run_stage_id j = Some (f_runStageId fence) \<and>
     j_attempts j = f_attempt fence \<and> j_lease_owner j = Some (f_workerId fence) \<and>
     j_status j = J_RUNNING \<and> lease_current now j"

definition assertCurrentRunStageJob :: "int \<Rightarrow> string \<Rightarrow> run_stage_job_fence \<Rightarrow> unit db_tx" where
  "assertCurrentRunStageJob now runId fence =
     tbind (gets (\<lambda>db. list_ex (fence_current now runId fence) (jobs db))) (\<lambda>current.
     require current (conflict ''JOB_LEASE_LOST''))"

definition lockStageProjectFirst ::
  "int \<Rightarrow> string \<Rightarrow> run_stage_job_fence option \<Rightarrow> bool \<Rightarrow>
   (research_run_row \<times> research_run_stage_row) db_tx" where
  "lockStageProjectFirst now runStageId fence allowDifferentFenceStage =
     tbind (gets (find_stage runStageId)) (\<lambda>s0.
     tbind (from_some s0 (notFound ''Research run stage'')) (\<lambda>identity.
     tbind (gets (find_run (s_run_id identity))) (\<lambda>r0.
     tbind (from_some r0 (notFound ''Research run stage'')) (\<lambda>owner.
     tbind (lock_project (r_project_id owner)) (\<lambda>_.
     tbind (case fence of
              None \<Rightarrow> ret ()
            | Some f \<Rightarrow>
                tbind (require (allowDifferentFenceStage \<or> f_runStageId f = runStageId)
                         (conflict ''JOB_LEASE_LOST'')) (\<lambda>_.
                assertCurrentRunStageJob now (s_run_id identity) f)) (\<lambda>_.
     tbind (gets (find_run (s_run_id identity))) (\<lambda>r.
     tbind (gets (find_stage runStageId)) (\<lambda>s.
     tbind (from_some r (notFound ''Research run stage'')) (\<lambda>run.
     tbind (from_some s (notFound ''Research run stage'')) (\<lambda>stage.
     ret (run, stage)))))))))))"

definition assertRunStageJobFence :: "int \<Rightarrow> string \<Rightarrow> run_stage_job_fence \<Rightarrow> unit db_tx" where
  "assertRunStageJobFence now runStageId fence =
     tbind (lockStageProjectFirst now runStageId (Some fence) False) (\<lambda>_. ret ())"

section \<open>Latest generations and dependencies\<close>

text \<open>\<open>DISTINCT ON (stage_id) ... ORDER BY stage_id, generation DESC\<close>\<close>

definition latest_of :: "research_run_stage_row list \<Rightarrow> research_run_stage_row list" where
  "latest_of rows =
     filter (\<lambda>s. list_all (\<lambda>t. s_stage_id t = s_stage_id s \<longrightarrow> s_generation t \<le> s_generation s) rows) rows"

definition run_rows :: "string \<Rightarrow> database \<Rightarrow> research_run_stage_row list" where
  "run_rows runId db = filter (\<lambda>s. s_run_id s = runId) (research_run_stages db)"

definition assertDependenciesSucceeded :: "research_run_stage_row \<Rightarrow> unit db_tx" where
  "assertDependenciesSucceeded stage =
     (let deps = sd_dependencies (getPipelineStageDefinition (s_stage_id stage)) in
      if deps = [] then ret ()
      else
        tbind (gets (\<lambda>db. latest_of (filter (\<lambda>s. s_stage_id s \<in> set deps)
                                       (run_rows (s_run_id stage) db)))) (\<lambda>rows.
        (let succeeded = map s_stage_id (filter (\<lambda>s. s_status s = S_SUCCEEDED) rows);
             missing = filter (\<lambda>d. d \<notin> set succeeded) deps
         in require (missing = []) (conflict ''STAGE_DEPENDENCY_INCOMPLETE''))))"

text \<open>Percentage of the rows that succeeded, rounded half up.\<close>

definition percent_succeeded :: "research_run_stage_row list \<Rightarrow> int" where
  "percent_succeeded rows =
     js_round (of_nat (length (filter (\<lambda>s. s_status s = S_SUCCEEDED) rows)) / of_nat (length rows) * 100)"

section \<open>Starting a stage and recording provider attempts\<close>

definition stage_label :: "research_run_stage_row \<Rightarrow> jsv" where
  "stage_label s = JStr (ai_stage_name (s_stage_id s))"

definition orchestrator_event ::
  "research_run_row \<Rightarrow> string \<Rightarrow> string \<Rightarrow> string \<Rightarrow> jsv option \<Rightarrow> jsv \<Rightarrow> audit_event" where
  "orchestrator_event run action resourceType resourceId before after =
     \<lparr>au_project_id = Some (r_project_id run), au_actor_type = SYSTEM,
      au_actor_label = ''Pipeline orchestrator'', au_action = action,
      au_resource_type = resourceType, au_resource_id = Some resourceId,
      au_before_state = before, au_after_state = Some after\<rparr>"

definition start_stage_row :: "int \<Rightarrow> research_run_stage_row \<Rightarrow> research_run_stage_row" where
  "start_stage_row now s =
     s\<lparr>s_status := S_RUNNING, s_attempt_count := s_attempt_count s + 1,
       s_started_at := (case s_started_at s of None \<Rightarrow> Some now | Some t \<Rightarrow> Some t),
       s_completed_at := None, s_updated_at := now, s_version := s_version s + 1\<rparr>"

definition start_run_row :: "int \<Rightarrow> ai_stage \<Rightarrow> research_run_row \<Rightarrow> research_run_row" where
  "start_run_row now stageId r =
     r\<lparr>r_status := R_RUNNING, r_current_stage := Some stageId,
       r_started_at := (case r_started_at r of None \<Rightarrow> Some now | Some t \<Rightarrow> Some t),
       r_completed_at := None, r_updated_at := now, r_version := r_version r + 1\<rparr>"

definition count_attempt_row :: "int \<Rightarrow> research_run_row \<Rightarrow> research_run_row" where
  "count_attempt_row now r =
     r\<lparr>r_total_attempts := r_total_attempts r + 1, r_updated_at := now, r_version := r_version r + 1\<rparr>"

definition ensure_run_running :: "int \<Rightarrow> research_run_row \<Rightarrow> ai_stage \<Rightarrow> unit db_tx" where
  "ensure_run_running now run stageId =
     (if r_status run = R_QUEUED then
        tbind (lift_res (assertResearchRunTransition (r_status run) R_RUNNING)) (\<lambda>_.
        tbind (update_run_returning (r_id run) (start_run_row now stageId)) (\<lambda>_.
        ret ()))
      else require (r_status run = R_RUNNING) (conflict ''RUN_NOT_EXECUTABLE''))"

definition startRunStage ::
  "int \<Rightarrow> string \<Rightarrow> run_stage_job_fence \<Rightarrow> (research_run_row \<times> research_run_stage_row) db_tx" where
  "startRunStage now runStageId fence =
     tbind (lockStageProjectFirst now runStageId (Some fence) False) (\<lambda>(run, stage0).
     tbind (assertDependenciesSucceeded stage0) (\<lambda>_.
     tbind (if s_status stage0 \<noteq> S_RUNNING
            then lift_res (assertRunStageTransition (s_status stage0) S_RUNNING) else ret ()) (\<lambda>_.
     tbind (update_stage_returning runStageId (start_stage_row now)) (\<lambda>stage.
     tbind (ensure_run_running now run (s_stage_id stage0)) (\<lambda>_.
     tbind (update_run_returning (r_id run) (count_attempt_row now)) (\<lambda>counted.
     tbind (writeAuditEvent (orchestrator_event counted ''RUN_STAGE_STARTED'' ''research_run_stage''
              runStageId None (JObj [(''stage'', stage_label stage0),
                                     (''attempt'', js_int (s_attempt_count stage))]))) (\<lambda>_.
     ret (counted, stage))))))))"

record provider_attempt =
  pa_providerExecutionId :: string
  pa_inputHash :: string
  pa_provider :: string
  pa_model :: string
  pa_inputTokens :: "int option"
  pa_outputTokens :: "int option"
  pa_totalTokens :: "int option"
  pa_costStatus :: cost_status
  pa_estimatedCostUsd :: "rat option"
  pa_durationMs :: int
  pa_outputReference :: jsv
  pa_errorClass :: "job_error_class option"
  pa_error :: "string option"

definition attempt_usage :: "provider_attempt \<Rightarrow> (string \<times> jsv) list" where
  "attempt_usage i =
     (let inputTokens = case_option 0 id (pa_inputTokens i);
          outputTokens = case_option 0 id (pa_outputTokens i)
      in [(''inputTokens'', js_int inputTokens), (''outputTokens'', js_int outputTokens),
          (''totalTokens'', js_int (case pa_totalTokens i of
             None \<Rightarrow> inputTokens + outputTokens | Some t \<Rightarrow> t)),
          (''providerExecutionId'', JStr (pa_providerExecutionId i))])"

definition attempt_stage_row ::
  "int \<Rightarrow> provider_attempt \<Rightarrow> string option \<Rightarrow> research_run_stage_row \<Rightarrow> research_run_stage_row" where
  "attempt_stage_row now i outputHash s =
     s\<lparr>s_provider := Some (pa_provider i), s_model := Some (pa_model i), s_usage := attempt_usage i,
       s_cost_status := pa_costStatus i, s_estimated_cost := pa_estimatedCostUsd i,
       s_duration_ms := Some (pa_durationMs i),
       s_output_reference := (case json_normal (pa_outputReference i) of
          None \<Rightarrow> s_output_reference s | Some v \<Rightarrow> Some v),
       s_output_hash := (case outputHash of None \<Rightarrow> s_output_hash s | Some h \<Rightarrow> Some h),
       s_error_class := pa_errorClass i,
       s_sanitized_error := map_option sanitizeJobError (pa_error i),
       s_input_hash := Some (pa_inputHash i), s_updated_at := now, s_version := s_version s + 1\<rparr>"

definition merge_cost_status :: "int \<Rightarrow> cost_status \<Rightarrow> cost_status \<Rightarrow> cost_status" where
  "merge_cost_status requests old new =
     (if requests = 0 then new
      else if old = COST_UNKNOWN \<or> new = COST_UNKNOWN then COST_UNKNOWN
      else if old = COST_ESTIMATED \<or> new = COST_ESTIMATED then COST_ESTIMATED
      else COST_KNOWN)"

definition attempt_run_row :: "int \<Rightarrow> provider_attempt \<Rightarrow> research_run_row \<Rightarrow> research_run_row" where
  "attempt_run_row now i r =
     r\<lparr>r_total_provider_requests := r_total_provider_requests r + 1,
       r_total_input_tokens := r_total_input_tokens r + case_option 0 id (pa_inputTokens i),
       r_total_output_tokens := r_total_output_tokens r + case_option 0 id (pa_outputTokens i),
       r_estimated_cost := (case pa_estimatedCostUsd i of
          None \<Rightarrow> r_estimated_cost r
        | Some c \<Rightarrow> Some (case_option 0 id (r_estimated_cost r) + c)),
       r_cost_status := merge_cost_status (r_total_provider_requests r) (r_cost_status r) (pa_costStatus i),
       r_updated_at := now, r_version := r_version r + 1\<rparr>"

definition recordRunStageProviderAttempt ::
  "js_env \<Rightarrow> int \<Rightarrow> string \<Rightarrow> run_stage_job_fence \<Rightarrow> provider_attempt \<Rightarrow>
   (research_run_row \<times> research_run_stage_row) db_tx" where
  "recordRunStageProviderAttempt E now runStageId fence i =
     tbind (lockStageProjectFirst now runStageId (Some fence) False) (\<lambda>(run0, stage0).
     tbind (require (s_status stage0 = S_RUNNING) (conflict ''STAGE_NOT_RUNNING'')) (\<lambda>_.
     if js_get (s_usage stage0) ''providerExecutionId'' = JStr (pa_providerExecutionId i)
     then ret (run0, stage0)
     else
       tbind (lift_res (if pa_outputReference i = JUndefined then Inr None
                        else ebind (inputHash E (pa_outputReference i)) (\<lambda>h. Inr (Some h)))) (\<lambda>outputHash.
       tbind (update_stage_returning (s_id stage0) (attempt_stage_row now i outputHash)) (\<lambda>stage.
       tbind (update_run_returning (r_id run0) (attempt_run_row now i)) (\<lambda>run.
       ret (run, stage))))))"

section \<open>Queueing a stage\<close>

text \<open>A new generation of a stage; the columns left out of the \<open>INSERT\<close> take their defaults.\<close>

definition next_generation_row ::
  "int \<Rightarrow> string \<Rightarrow> jsv \<Rightarrow> string \<Rightarrow> research_run_stage_row \<Rightarrow> research_run_stage_row" where
  "next_generation_row now uuid inputReference hash s =
     \<lparr>s_id = uuid, s_run_id = s_run_id s, s_stage_id = s_stage_id s, s_ordinal = s_ordinal s,
      s_generation = s_generation s + 1, s_status = S_QUEUED, s_pipeline_version = s_pipeline_version s,
      s_prompt_template_version = s_prompt_template_version s,
      s_structured_schema_version = s_structured_schema_version s, s_provider = None, s_model = None,
      s_input_reference = json_normal inputReference, s_input_hash = Some hash,
      s_output_reference = None, s_output_hash = None, s_attempt_count = 0, s_usage = [],
      s_cost_status = COST_UNKNOWN, s_estimated_cost = None, s_duration_ms = None,
      s_error_class = None, s_sanitized_error = None, s_started_at = None, s_completed_at = None,
      s_stale_at = None, s_updated_at = now, s_version = 0\<rparr>"

text \<open>\<open>INSERT INTO research_run_stages\<close>, with the primary key and \<open>UNIQUE (run_id, stage_id, generation)\<close>.\<close>

definition insert_stage :: "research_run_stage_row \<Rightarrow> research_run_stage_row db_tx" where
  "insert_stage row =
     tbind (gets (\<lambda>db. list_ex (\<lambda>s. s_id s = s_id row \<or> (s_run_id s = s_run_id row \<and>
              s_stage_id s = s_stage_id row \<and> s_generation s = s_generation row))
              (research_run_stages db))) (\<lambda>clash.
     tbind (require (\<not> clash) (DbError ''unique_violation'')) (\<lambda>_.
     tbind (modify (\<lambda>db. db\<lparr>research_run_stages := research_run_stages db @ [row]\<rparr>)) (\<lambda>_.
     ret row)))"

definition requeue_stage_row ::
  "int \<Rightarrow> jsv \<Rightarrow> string \<Rightarrow> research_run_stage_row \<Rightarrow> research_run_stage_row" where
  "requeue_stage_row now inputReference hash s =
     s\<lparr>s_status := S_QUEUED, s_input_reference := json_normal inputReference, s_input_hash := Some hash,
       s_output_reference := None, s_output_hash := None, s_error_class := None,
       s_sanitized_error := None, s_started_at := None, s_completed_at := None,
       s_updated_at := now, s_version := s_version s + 1\<rparr>"

definition stage_job_input ::
  "research_run_row \<Rightarrow> research_run_stage_row \<Rightarrow> string \<Rightarrow> jsv \<Rightarrow> string \<Rightarrow> submit_job_input" where
  "stage_job_input run stage runStageId inputReference idempotencyKey =
     (let definition = getPipelineStageDefinition (s_stage_id stage) in
      \<lparr>sj_projectId = Some (r_project_id run), sj_runId = Some (r_id run),
       sj_runStageId = Some runStageId, sj_stage = Some (ai_stage_name (s_stage_id stage)),
       sj_jobType = ''RESEARCH_PIPELINE_STAGE'', sj_inputReference = inputReference,
       sj_idempotencyKey = idempotencyKey, sj_correlationId = Some (r_id run), sj_parentJobId = None,
       sj_priority = JUndefined,
       sj_maxAttempts = js_int (min (sd_maxAttempts definition) (maxStageAttempts (r_budget_snapshot run))),
       sj_timeoutMs = js_int (sd_timeoutMs definition), sj_retryPolicy = JUndefined,
       sj_scheduledAt = None\<rparr>)"

text \<open>\<open>stageUuid\<close> and \<open>jobUuid\<close> are the identifiers drawn for a new generation and a new job.\<close>

definition queueRunStage ::
  "js_env \<Rightarrow> int \<Rightarrow> string \<Rightarrow> string \<Rightarrow> string \<Rightarrow> run_stage_job_fence \<Rightarrow> jsv \<Rightarrow> string \<Rightarrow>
   (research_run_stage_row \<times> job_row \<times> bool) db_tx" where
  "queueRunStage E now stageUuid jobUuid runStageId fence inputReference idempotencyKey =
     tbind (lockStageProjectFirst now runStageId (Some fence) True) (\<lambda>(run, stage0).
     tbind (require (r_status run = R_QUEUED \<or> r_status run = R_RUNNING)
              (conflict ''RUN_NOT_EXECUTABLE'')) (\<lambda>_.
     tbind (assertDependenciesSucceeded stage0) (\<lambda>_.
     tbind (if s_status stage0 \<noteq> S_QUEUED
            then lift_res (assertRunStageTransition (s_status stage0) S_QUEUED) else ret ()) (\<lambda>_.
     tbind (lift_res (inputHash E inputReference)) (\<lambda>calculatedInputHash.
     tbind (if s_status stage0 = S_STALE
            then insert_stage (next_generation_row now stageUuid inputReference calculatedInputHash stage0)
            else update_stage_returning runStageId
                   (requeue_stage_row now inputReference calculatedInputHash)) (\<lambda>queuedStage.
     tbind (submitJobInTransaction E now jobUuid
              (stage_job_input run stage0 (s_id queuedStage) inputReference idempotencyKey))
       (\<lambda>(job, created).
     ret (queuedStage, job, created))))))))"

section \<open>Committing the output of a stage\<close>

definition commit_stage_row ::
  "int \<Rightarrow> jsv \<Rightarrow> string \<Rightarrow> research_run_stage_row \<Rightarrow> research_run_stage_row" where
  "commit_stage_row now outputReference outputHash s =
     s\<lparr>s_status := S_SUCCEEDED, s_output_reference := json_normal outputReference,
       s_output_hash := Some outputHash, s_completed_at := Some now, s_error_class := None,
       s_sanitized_error := None, s_updated_at := now, s_version := s_version s + 1\<rparr>"

definition commit_run_row ::
  "int \<Rightarrow> research_run_status \<Rightarrow> ai_stage \<Rightarrow> int \<Rightarrow> research_run_row \<Rightarrow> research_run_row" where
  "commit_run_row now targetStatus currentStage progress r =
     r\<lparr>r_status := targetStatus, r_current_stage := Some currentStage, r_progress := progress,
       r_updated_at := now, r_version := r_version r + 1\<rparr>"

definition next_stage :: "research_run_stage_row \<Rightarrow> pipeline_stage_definition option" where
  "next_stage s = find (\<lambda>candidate. sd_ordinal candidate = s_ordinal s + 1) PIPELINE_STAGE_CATALOG"

definition commit_of :: "research_run_stage_row \<Rightarrow> string \<Rightarrow> stage_domain_commit \<Rightarrow> bool" where
  "commit_of stage idempotencyKey c \<longleftrightarrow> c_run_stage_id c = s_id stage \<and>
     c_generation c = s_generation stage \<and> c_idempotency_key c = idempotencyKey"

text \<open>The run moves on to the next stage of the catalogue, or to \<open>QA_REQUIRED\<close> after the last.\<close>

definition advance_run ::
  "int \<Rightarrow> research_run_row \<Rightarrow> research_run_stage_row \<Rightarrow> string \<Rightarrow> research_run_row db_tx" where
  "advance_run now run0 stage0 outputHash =
     tbind (gets (\<lambda>db. percent_succeeded (latest_of (run_rows (r_id run0) db)))) (\<lambda>progress.
     (let next = next_stage stage0;
          targetStatus = (if next \<noteq> None then R_RUNNING else R_QA_REQUIRED)
      in
      tbind (if r_status run0 \<noteq> targetStatus
             then lift_res (assertResearchRunTransition (r_status run0) targetStatus)
             else ret ()) (\<lambda>_.
      tbind (update_run_returning (r_id run0) (commit_run_row now targetStatus
               (case next of None \<Rightarrow> s_stage_id stage0 | Some n \<Rightarrow> sd_id n) progress)) (\<lambda>run.
      tbind (writeAuditEvent (orchestrator_event run0 ''RUN_STAGE_COMMITTED'' ''research_run_stage''
               (s_id stage0) None (JObj [(''stage'', stage_label stage0),
                 (''generation'', js_int (s_generation stage0)), (''outputHash'', JStr outputHash),
                 (''progress'', js_int progress)]))) (\<lambda>_.
      ret run)))))"

text \<open>
  The first commit of a generation under a key. \<open>domainCommit\<close> is the caller's callback: it runs
  inside the transaction, may write the domain tables and may throw. The columns
  \<open>(run_stage_id, generation, idempotency_key)\<close> of \<open>stage_domain_commits\<close> are unique.
\<close>

definition commit_output ::
  "int \<Rightarrow> research_run_row \<Rightarrow> research_run_stage_row \<Rightarrow> string \<Rightarrow> jsv \<Rightarrow> string \<Rightarrow> unit db_tx \<Rightarrow>
   (research_run_row \<times> research_run_stage_row \<times> bool) db_tx" where
  "commit_output now run0 stage0 idempotencyKey outputReference outputHash domainCommit =
     tbind (require (s_status stage0 = S_RUNNING) (conflict ''STAGE_NOT_RUNNING'')) (\<lambda>_.
     tbind (assertDependenciesSucceeded stage0) (\<lambda>_.
     tbind domainCommit (\<lambda>_.
     tbind (gets (\<lambda>db. list_ex (commit_of stage0 idempotencyKey) (stage_domain_commits db))) (\<lambda>clash.
     tbind (require (\<not> clash) (DbError ''unique_violation'')) (\<lambda>_.
     tbind (modify (\<lambda>db. db\<lparr>stage_domain_commits := stage_domain_commits db @
              [\<lparr>c_run_stage_id = s_id stage0, c_generation = s_generation stage0,
                c_idempotency_key = idempotencyKey, c_output_hash = outputHash\<rparr>]\<rparr>)) (\<lambda>_.
     tbind (lift_res (assertRunStageTransition (s_status stage0) S_SUCCEEDED)) (\<lambda>_.
     tbind (update_stage_returning (s_id stage0) (commit_stage_row now outputReference outputHash))
       (\<lambda>stage.
     tbind (advance_run now run0 stage0 outputHash) (\<lambda>run.
     ret (run, stage, True))))))))))"

definition commitRunStage ::
  "js_env \<Rightarrow> int \<Rightarrow> string \<Rightarrow> run_stage_job_fence \<Rightarrow> string \<Rightarrow> jsv \<Rightarrow> unit db_tx \<Rightarrow>
   (research_run_row \<times> research_run_stage_row \<times> bool) db_tx" where
  "commitRunStage E now runStageId fence idempotencyKey outputReference domainCommit =
     tbind (lift_res (inputHash E outputReference)) (\<lambda>outputHash.
     tbind (lockStageProjectFirst now runStageId (Some fence) False) (\<lambda>(run0, stage0).
     tbind (gets (\<lambda>db. find (commit_of stage0 idempotencyKey) (stage_domain_commits db))) (\<lambda>existing.
     (case existing of
        Some c \<Rightarrow>
          tbind (require (c_output_hash c = outputHash) (conflict ''IDEMPOTENCY_KEY_REUSED'')) (\<lambda>_.
          ret (run0, stage0, False))
      | None \<Rightarrow>
          commit_output now run0 stage0 idempotencyKey outputReference outputHash domainCommit))))"

section \<open>Blocking, boundaries and failure\<close>

definition block_stage_row ::
  "int \<Rightarrow> job_error_class \<Rightarrow> string \<Rightarrow> research_run_stage_row \<Rightarrow> research_run_stage_row" where
  "block_stage_row now errorClass sanitized s =
     s\<lparr>s_status := S_BLOCKED, s_error_class := Some errorClass, s_sanitized_error := Some sanitized,
       s_completed_at := Some now, s_updated_at := now, s_version := s_version s + 1\<rparr>"

definition block_run_row :: "int \<Rightarrow> string \<Rightarrow> research_run_row \<Rightarrow> research_run_row" where
  "block_run_row now sanitized r =
     r\<lparr>r_status := R_BLOCKED, r_block_reason := Some sanitized, r_completed_at := None,
       r_updated_at := now, r_version := r_version r + 1\<rparr>"

definition blockRunStage ::
  "int \<Rightarrow> string \<Rightarrow> run_stage_job_fence \<Rightarrow> job_error_class \<Rightarrow> string \<Rightarrow>
   (research_run_row \<times> research_run_stage_row) db_tx" where
  "blockRunStage now runStageId fence errorClass reason =
     tbind (lockStageProjectFirst now runStageId (Some fence) False) (\<lambda>(run0, stage0).
     if s_status stage0 = S_BLOCKED \<and> r_status run0 = R_BLOCKED then ret (run0, stage0)
     else
       tbind (if s_status stage0 \<noteq> S_BLOCKED
              then lift_res (assertRunStageTransition (s_status stage0) S_BLOCKED) else ret ()) (\<lambda>_.
       (let sanitized = sanitizeJobError reason in
        tbind (update_stage_returning (s_id stage0) (block_stage_row now errorClass sanitized)) (\<lambda>stage.
        tbind (if r_status run0 \<noteq> R_BLOCKED
               then lift_res (assertResearchRunTransition (r_status run0) R_BLOCKED) else ret ()) (\<lambda>_.
        tbind (update_run_returning (r_id run0) (block_run_row now sanitized)) (\<lambda>run.
        tbind (writeAuditEvent (orchestrator_event run0 ''RUN_STAGE_BLOCKED'' ''research_run_stage''
                 (s_id stage0) None (JObj [(''stage'', stage_label stage0),
                   (''errorClass'', JStr (job_error_class_name errorClass)),
                   (''reason'', JStr sanitized)]))) (\<lambda>_.
        ret (run, stage))))))))"

definition boundary_statuses :: "research_run_status list" where
  "boundary_statuses = [R_PAUSED, R_QA_REQUIRED, R_APPROVAL_REQUIRED, R_BLOCKED]"

definition boundary_run_row ::
  "int \<Rightarrow> research_run_status \<Rightarrow> string option \<Rightarrow> research_run_row \<Rightarrow> research_run_row" where
  "boundary_run_row now status reason r =
     r\<lparr>r_status := status, r_block_reason := (if status = R_BLOCKED then reason else None),
       r_failure_reason := None, r_updated_at := now, r_version := r_version r + 1\<rparr>"

definition setResearchRunBoundary ::
  "int \<Rightarrow> string \<Rightarrow> run_stage_job_fence \<Rightarrow> research_run_status \<Rightarrow> string option \<Rightarrow> research_run_row db_tx" where
  "setResearchRunBoundary now runStageId fence status reason =
     tbind (lockStageProjectFirst now runStageId (Some fence) False) (\<lambda>(run0, stage0).
     tbind (require (s_status stage0 = S_SUCCEEDED) (conflict ''STAGE_NOT_SUCCEEDED'')) (\<lambda>_.
     if r_status run0 = status then ret run0
     else
       tbind (lift_res (assertResearchRunTransition (r_status run0) status)) (\<lambda>_.
       tbind (update_run_returning (r_id run0) (boundary_run_row now status reason)) (\<lambda>run.
       tbind (writeAuditEvent (orchestrator_event run0 ''RESEARCH_RUN_BOUNDARY_REACHED'' ''research_run''
                (r_id run0) (Some (JObj [(''status'', JStr (run_status_name (r_status run0)))]))
                (JObj [(''status'', JStr (run_status_name status)), (''stage'', stage_label stage0),
                       (''reason'', case reason of None \<Rightarrow> JNull | Some x \<Rightarrow> JStr x)]))) (\<lambda>_.
       ret run)))))"

definition failRunStage ::
  "int \<Rightarrow> string \<Rightarrow> run_stage_job_fence \<Rightarrow> job_error_class \<Rightarrow> string \<Rightarrow>
   (research_run_row \<times> research_run_stage_row) db_tx" where
  "failRunStage now runStageId fence errorClass error =
     tbind (lockStageProjectFirst now runStageId (Some fence) False) (\<lambda>(run0, stage0).
     tbind (lift_res (assertRunStageTransition (s_status stage0) S_FAILED)) (\<lambda>_.
     (let sanitized = sanitizeJobError error in
      tbind (update_stage_returning (s_id stage0) (fail_stage_row now errorClass sanitized)) (\<lambda>stage.
      tbind (if r_status run0 \<noteq> R_FAILED
             then lift_res (assertResearchRunTransition (r_status run0) R_FAILED) else ret ()) (\<lambda>_.
      tbind (update_run_returning (r_id run0) (fail_run_row now sanitized)) (\<lambda>run.
      tbind (writeAuditEvent (orchestrator_event run0 ''RUN_STAGE_FAILED'' ''research_run_stage''
               (s_id stage0) None (JObj [(''stage'', stage_label stage0),
                 (''errorClass'', JStr (job_error_class_name errorClass)),
                 (''error'', JStr sanitized)]))) (\<lambda>_.
      ret (run, stage))))))))"

section \<open>Generated rows of superseded stages\<close>

definition retire_row :: "int \<Rightarrow> 'a generated_row_scheme \<Rightarrow> 'a generated_row_scheme" where
  "retire_row now g = g\<lparr>g_is_current := False, g_updated_at := now\<rparr>"

definition generated_by :: "string list \<Rightarrow> 'a generated_row_scheme \<Rightarrow> bool" where
  "generated_by ids g \<longleftrightarrow>
     (case g_generated_by g of None \<Rightarrow> False | Some i \<Rightarrow> i \<in> set ids) \<and> g_is_current g"

definition open_gap_of :: "string list \<Rightarrow> question_row \<Rightarrow> bool" where
  "open_gap_of ids q \<longleftrightarrow>
     (case q_gap_generated_by q of None \<Rightarrow> False | Some i \<Rightarrow> i \<in> set ids) \<and> q_gap_status q = GAP_OPEN"

definition clear_gap_row :: "int \<Rightarrow> question_row \<Rightarrow> question_row" where
  "clear_gap_row now q =
     q\<lparr>q_research_gap := None, q_gap_status := GAP_NONE, q_gap_generated_by := None, q_updated_at := now\<rparr>"

definition retire_generated :: "int \<Rightarrow> string list \<Rightarrow> database \<Rightarrow> database" where
  "retire_generated now ids db =
     db\<lparr>evidence_rows := update_where (generated_by ids) (retire_row now) (evidence_rows db),
        claim_rows := update_where (generated_by ids) (retire_row now) (claim_rows db),
        finding_rows := update_where (generated_by ids) (retire_row now) (finding_rows db),
        qa_finding_rows := update_where (generated_by ids) (retire_row now) (qa_finding_rows db),
        research_questions := update_where (open_gap_of ids) (clear_gap_row now) (research_questions db)\<rparr>"

definition markGeneratedDomainEffectsNonCurrent :: "int \<Rightarrow> string list \<Rightarrow> unit db_tx" where
  "markGeneratedDomainEffectsNonCurrent now runStageIds =
     (if runStageIds = [] then ret () else modify (retire_generated now runStageIds))"

definition supersedeCurrentGeneratedDomainEffects ::
  "int \<Rightarrow> string \<Rightarrow> ai_stage \<Rightarrow> string \<Rightarrow> unit db_tx" where
  "supersedeCurrentGeneratedDomainEffects now projectId stage currentRunStageId =
     tbind (gets (\<lambda>db. filter (\<lambda>s. s_stage_id s = stage \<and> s_id s \<noteq> currentRunStageId \<and>
              list_ex (\<lambda>r. r_id r = s_run_id s \<and> r_project_id r = projectId) (research_runs db))
              (research_run_stages db))) (\<lambda>prior.
     markGeneratedDomainEffectsNonCurrent now (map s_id prior))"

section \<open>Staleness and restart\<close>

text \<open>The latest generations after \<open>ordinal\<close> that succeeded, in pipeline order.\<close>

definition downstream_succeeded :: "string \<Rightarrow> int \<Rightarrow> database \<Rightarrow> research_run_stage_row list" where
  "downstream_succeeded runId ordinal db =
     sort_key s_ordinal (filter (\<lambda>s. s_status s = S_SUCCEEDED)
       (latest_of (filter (\<lambda>s. s_ordinal s > ordinal) (run_rows runId db))))"

definition stale_stage_row :: "int \<Rightarrow> research_run_stage_row \<Rightarrow> research_run_stage_row" where
  "stale_stage_row now s =
     s\<lparr>s_status := S_STALE, s_stale_at := Some now, s_updated_at := now, s_version := s_version s + 1\<rparr>"

definition rewind_run_row :: "int \<Rightarrow> int \<Rightarrow> ai_stage \<Rightarrow> research_run_row \<Rightarrow> research_run_row" where
  "rewind_run_row now progress stageId r =
     r\<lparr>r_progress := progress, r_current_stage := Some stageId, r_updated_at := now,
       r_version := r_version r + 1\<rparr>"

definition markDownstreamStagesStale :: "int \<Rightarrow> string \<Rightarrow> research_run_stage_row list db_tx" where
  "markDownstreamStagesStale now runStageId =
     tbind (lockStageProjectFirst now runStageId None False) (\<lambda>(run, stage).
     tbind (gets (downstream_succeeded (r_id run) (s_ordinal stage))) (\<lambda>downstream.
     tbind (for_each (\<lambda>s. lift_res (assertRunStageTransition (s_status s) S_STALE)) downstream) (\<lambda>_.
     if downstream = [] then ret []
     else
       (let ids = map s_id downstream in
        tbind (modify (upd_stages (\<lambda>s. s_id s \<in> set ids) (stale_stage_row now))) (\<lambda>_.
        tbind (markGeneratedDomainEffectsNonCurrent now ids) (\<lambda>_.
        tbind (gets (\<lambda>db. percent_succeeded (run_rows (r_id run) db))) (\<lambda>progress.
        tbind (modify (upd_run (r_id run) (rewind_run_row now progress (s_stage_id stage)))) (\<lambda>_.
        ret (map (stale_stage_row now) downstream)))))))))"

definition restartable_statuses :: "run_stage_status list" where
  "restartable_statuses = [S_SUCCEEDED, S_FAILED, S_BLOCKED, S_STALE, S_CANCELLED]"

definition restart_run_row :: "int \<Rightarrow> ai_stage \<Rightarrow> int \<Rightarrow> research_run_row \<Rightarrow> research_run_row" where
  "restart_run_row now stageId progress r =
     r\<lparr>r_status := R_QUEUED, r_current_stage := Some stageId, r_progress := progress,
       r_failure_reason := None, r_block_reason := None, r_completed_at := None,
       r_updated_at := now, r_version := r_version r + 1\<rparr>"

text \<open>The job already submitted under the restart key, with the stage it points to.\<close>

definition restart_lookup :: "string \<Rightarrow> string \<Rightarrow> database \<Rightarrow> (job_row \<times> research_run_stage_row) option" where
  "restart_lookup projectId idempotencyKey db =
     (case find (\<lambda>j. j_project_id j = Some projectId \<and> j_idempotency_key j = idempotencyKey \<and>
             (case j_run_stage_id j of None \<Rightarrow> False | Some s \<Rightarrow> find_stage s db \<noteq> None)) (jobs db) of
        None \<Rightarrow> None
      | Some j \<Rightarrow>
          (case j_run_stage_id j of
             None \<Rightarrow> None
           | Some s \<Rightarrow> (case find_stage s db of None \<Rightarrow> None | Some st \<Rightarrow> Some (j, st))))"

text \<open>The new generation of \<open>stage0\<close> and its job, with everything after it made stale.\<close>

definition open_generation ::
  "js_env \<Rightarrow> int \<Rightarrow> string \<Rightarrow> string \<Rightarrow> research_run_row \<Rightarrow> research_run_stage_row \<Rightarrow> string \<Rightarrow> jsv \<Rightarrow>
   string \<Rightarrow> (research_run_row \<times> research_run_stage_row \<times> job_row \<times> bool) db_tx" where
  "open_generation E now stageUuid jobUuid run0 stage0 idempotencyKey inputReference requestedBy =
     tbind (gets (downstream_succeeded (r_id run0) (s_ordinal stage0))) (\<lambda>downstream.
     tbind (for_each (\<lambda>s. lift_res (assertRunStageTransition (s_status s) S_STALE)) downstream) (\<lambda>_.
     tbind (modify (upd_stages (\<lambda>s. s_id s \<in> set (map s_id downstream)) (stale_stage_row now))) (\<lambda>_.
     tbind (markGeneratedDomainEffectsNonCurrent now (s_id stage0 # map s_id downstream)) (\<lambda>_.
     tbind (lift_res (inputHash E inputReference)) (\<lambda>hash.
     tbind (insert_stage (next_generation_row now stageUuid inputReference hash stage0)) (\<lambda>stage.
     tbind (if r_status run0 \<noteq> R_QUEUED
            then lift_res (assertResearchRunTransition (r_status run0) R_QUEUED) else ret ()) (\<lambda>_.
     tbind (gets (\<lambda>db. percent_succeeded (latest_of (run_rows (r_id run0) db)))) (\<lambda>progress.
     tbind (update_run_returning (r_id run0) (restart_run_row now (s_stage_id stage0) progress)) (\<lambda>run.
     tbind (submitJobInTransaction E now jobUuid
              (stage_job_input run0 stage0 (s_id stage) inputReference idempotencyKey))
       (\<lambda>(job, created).
     tbind (writeAuditEvent \<lparr>au_project_id = Some (r_project_id run0), au_actor_type = USER,
              au_actor_label = requestedBy, au_action = ''RUN_STAGE_RESTARTED'',
              au_resource_type = ''research_run_stage'', au_resource_id = Some (s_id stage),
              au_before_state = Some (JObj [(''stage'', stage_label stage0),
                (''generation'', js_int (s_generation stage0))]),
              au_after_state = Some (JObj [(''stage'', stage_label stage0),
                (''generation'', js_int (s_generation stage0 + 1)),
                (''staleDownstreamCount'', js_int (int (length downstream))),
                (''idempotencyKey'', JStr idempotencyKey)])\<rparr>) (\<lambda>_.
     ret (run, stage, job, True))))))))))))"

definition restartRunStage ::
  "js_env \<Rightarrow> int \<Rightarrow> string \<Rightarrow> string \<Rightarrow> string \<Rightarrow> string \<Rightarrow> jsv \<Rightarrow> string \<Rightarrow>
   (research_run_row \<times> research_run_stage_row \<times> job_row \<times> bool) db_tx" where
  "restartRunStage E now stageUuid jobUuid runStageId idempotencyKey inputReference requestedBy =
     tbind (lockStageProjectFirst now runStageId None False) (\<lambda>(run0, stage0).
     tbind (gets (restart_lookup (r_project_id run0) idempotencyKey)) (\<lambda>existing.
     (case existing of
        Some (job, stage) \<Rightarrow>
          tbind (require (j_run_id job = Some (r_id run0) \<and> s_stage_id stage = s_stage_id stage0)
                   (conflict ''IDEMPOTENCY_KEY_REUSED'')) (\<lambda>_.
          ret (run0, stage, job, False))
      | None \<Rightarrow>
          tbind (gets (\<lambda>db. find (\<lambda>s. s_id s = s_id stage0) (latest_of (filter
                   (\<lambda>s. s_stage_id s = s_stage_id stage0) (run_rows (r_id run0) db))))) (\<lambda>latest.
          tbind (require (latest \<noteq> None) (conflict ''STALE_STAGE_GENERATION'')) (\<lambda>_.
          tbind (require (s_status stage0 \<in> set restartable_statuses)
                   (conflict ''STAGE_NOT_RESTARTABLE'')) (\<lambda>_.
          tbind (gets (active_run_jobs (r_id run0))) (\<lambda>active.
          tbind (require (active = 0) (conflict ''RUN_HAS_ACTIVE_JOB'')) (\<lambda>_.
          open_generation E now stageUuid jobUuid run0 stage0 idempotencyKey inputReference
            requestedBy))))))))"

end
