(* ===== verification/Stage_Ledger.thy ===== *)
theory Stage_Ledger
  imports Run_Stages
begin

text \<open>
  The contract of the pipeline: how the rows of \<open>research_run_stages\<close> may change, and the
  invariant that the latest generation of a stage is \<open>SUCCEEDED\<close> only while the latest
  generations of its dependencies are.
\<close>

section \<open>The table of stages and its steps\<close>

definition stage_key :: "research_run_stage_row \<Rightarrow> string \<times> string \<times> ai_stage \<times> int \<times> int" where
  "stage_key s = (s_id s, s_run_id s, s_stage_id s, s_ordinal s, s_generation s)"

definition same_stage :: "research_run_stage_row \<Rightarrow> research_run_stage_row \<Rightarrow> bool" where
  "same_stage s t \<longleftrightarrow> s_run_id s = s_run_id t \<and> s_stage_id s = s_stage_id t"

definition is_latest :: "research_run_stage_row list \<Rightarrow> research_run_stage_row \<Rightarrow> bool" where
  "is_latest S s \<longleftrightarrow> s \<in> set S \<and> (\<forall>t\<in>set S. same_stage t s \<longrightarrow> s_generation t \<le> s_generation s)"

definition done_latest :: "research_run_stage_row list \<Rightarrow> string \<Rightarrow> ai_stage \<Rightarrow> bool" where
  "done_latest S r x \<longleftrightarrow> (\<exists>t. is_latest S t \<and> s_run_id t = r \<and> s_stage_id t = x \<and> s_status t = S_SUCCEEDED)"

abbreviation deps_of :: "ai_stage \<Rightarrow> ai_stage list" where
  "deps_of x \<equiv> sd_dependencies (stage_definitions x)"

inductive stage_step :: "research_run_stage_row list \<Rightarrow> research_run_stage_row list \<Rightarrow> bool" where
  ss_calm: "(\<And>s. s \<in> set S \<Longrightarrow> P s \<Longrightarrow> stage_key (f s) = stage_key s \<and>
       s_status s \<noteq> S_SUCCEEDED \<and> s_status (f s) \<noteq> S_SUCCEEDED \<and>
       stage_machine.moves (s_status s) (s_status (f s))) \<Longrightarrow>
     stage_step S (update_where P f S)"
| ss_commit: "stages_tbl.lookup k S = Some s \<Longrightarrow> s_status s = S_RUNNING \<Longrightarrow>
     (\<And>d. d \<in> set (deps_of (s_stage_id s)) \<Longrightarrow> done_latest S (s_run_id s) d) \<Longrightarrow>
     (\<And>x. stage_key (f x) = stage_key x) \<Longrightarrow> s_status (f s) = S_SUCCEEDED \<Longrightarrow>
     stage_step S (update_where (\<lambda>x. s_id x = k) f S)"
| ss_stale: "(\<And>s. s \<in> set S \<Longrightarrow> P s \<longleftrightarrow> is_latest S s \<and> s_run_id s = r \<and> n < s_ordinal s \<and> s_status s = S_SUCCEEDED) \<Longrightarrow>
     (\<And>s. stage_key (f s) = stage_key s) \<Longrightarrow> (\<And>s. s_status (f s) = S_STALE) \<Longrightarrow>
     stage_step S (update_where P f S)"
| ss_insert: "s_status r \<in> {S_PENDING, S_QUEUED} \<Longrightarrow>
     s_ordinal r = sd_ordinal (stage_definitions (s_stage_id r)) \<Longrightarrow> 1 \<le> s_generation r \<Longrightarrow>
     \<not> list_ex (\<lambda>s. s_id s = s_id r \<or> (s_run_id s = s_run_id r \<and> s_stage_id s = s_stage_id r \<and>
                    s_generation s = s_generation r)) S \<Longrightarrow>
     (\<exists>t\<in>set S. same_stage t r \<and> s_generation r < s_generation t) \<or>
     (\<forall>x. s_stage_id r \<in> set (deps_of x) \<longrightarrow> \<not> done_latest S (s_run_id r) x) \<Longrightarrow>
     stage_step S (S @ [r])"

section \<open>The invariant\<close>

definition stages_ok :: "research_run_stage_row list \<Rightarrow> bool" where
  "stages_ok S \<longleftrightarrow> stages_tbl.keys_distinct S \<and>
     distinct (map (\<lambda>s. (s_run_id s, s_stage_id s, s_generation s)) S) \<and>
     (\<forall>s\<in>set S. s_ordinal s = sd_ordinal (stage_definitions (s_stage_id s)) \<and> 1 \<le> s_generation s)"

definition pipeline_ok :: "research_run_stage_row list \<Rightarrow> bool" where
  "pipeline_ok S \<longleftrightarrow> (\<forall>r x. done_latest S r x \<longrightarrow> (\<forall>d\<in>set (deps_of x). done_latest S r d))"

lemma stage_key_eqs:
  assumes "stage_key a = stage_key b"
  shows "s_id a = s_id b" "s_run_id a = s_run_id b" "s_stage_id a = s_stage_id b"
    "s_ordinal a = s_ordinal b" "s_generation a = s_generation b"
  using assms by (simp_all add: stage_key_def)

text \<open>An update that keeps the keys keeps which rows are latest.\<close>

lemma stages_ok_map:
  assumes "\<And>s. s \<in> set S \<Longrightarrow> stage_key (g s) = stage_key s"
  shows "stages_ok (map g S) = stages_ok S"
proof -
  note eqs = stage_key_eqs[OF assms]
  have 1: "map (s_id \<circ> g) S = map s_id S"
    and 2: "map ((\<lambda>s. (s_run_id s, s_stage_id s, s_generation s)) \<circ> g) S =
     map (\<lambda>s. (s_run_id s, s_stage_id s, s_generation s)) S"
    and 3: "(\<forall>s\<in>set (map g S). s_ordinal s = sd_ordinal (stage_definitions (s_stage_id s)) \<and> 1 \<le> s_generation s) =
     (\<forall>s\<in>set S. s_ordinal s = sd_ordinal (stage_definitions (s_stage_id s)) \<and> 1 \<le> s_generation s)"
    using eqs by simp_all
  show ?thesis
    unfolding stages_ok_def stages_tbl.keys_distinct_def 3 map_map 1 2 ..
qed

lemma is_latest_map:
  assumes "\<And>s. s \<in> set S \<Longrightarrow> stage_key (g s) = stage_key s"
  shows "is_latest (map g S) t \<longleftrightarrow> (\<exists>s. is_latest S s \<and> t = g s)"
proof -
  note eqs = stage_key_eqs[OF assms]
  have "is_latest (map g S) (g s) \<longleftrightarrow> is_latest S s" if "s \<in> set S" for s
    using that eqs by (simp add: is_latest_def same_stage_def)
  then show ?thesis by (auto simp: is_latest_def)
qed

lemma done_latest_map:
  assumes "\<And>s. s \<in> set S \<Longrightarrow> stage_key (g s) = stage_key s"
  shows "done_latest (map g S) r x \<longleftrightarrow>
     (\<exists>s. is_latest S s \<and> s_run_id s = r \<and> s_stage_id s = x \<and> s_status (g s) = S_SUCCEEDED)"
proof -
  have "is_latest S s \<Longrightarrow> s_run_id (g s) = s_run_id s \<and> s_stage_id (g s) = s_stage_id s" for s
    using stage_key_eqs[OF assms] by (simp add: is_latest_def)
  then show ?thesis
    unfolding done_latest_def using is_latest_map[of S g, OF assms] by auto
qed

lemma is_latest_unique:
  assumes "stages_ok S" "is_latest S s" "is_latest S t" "same_stage s t"
  shows "s = t"
proof -
  have "s_generation s = s_generation t"
    using assms(2-4) by (fastforce simp: is_latest_def same_stage_def)
  then show ?thesis
    using assms unfolding stages_ok_def distinct_map inj_on_def is_latest_def same_stage_def by blast
qed

lemma pipeline_ok_calm:
  assumes "pipeline_ok S"
    and key: "\<And>s. s \<in> set S \<Longrightarrow> stage_key (g s) = stage_key s"
    and calm: "\<And>s. s \<in> set S \<Longrightarrow> s_status (g s) = S_SUCCEEDED \<longleftrightarrow> s_status s = S_SUCCEEDED"
  shows "pipeline_ok (map g S)"
proof -
  have "done_latest (map g S) r x = done_latest S r x" for r x
    using calm by (subst done_latest_map[of S g, OF key]) (auto simp: done_latest_def is_latest_def)
  then show ?thesis using assms(1) by (simp add: pipeline_ok_def)
qed

lemma pipeline_ok_commit:
  assumes "pipeline_ok S" "stages_ok S" "s \<in> set S"
    and key: "\<And>x. x \<in> set S \<Longrightarrow> stage_key (g x) = stage_key x"
    and succ: "s_status (g s) = S_SUCCEEDED" and other: "\<And>x. x \<noteq> s \<Longrightarrow> g x = x"
    and deps: "\<And>d. d \<in> set (deps_of (s_stage_id s)) \<Longrightarrow> done_latest S (s_run_id s) d"
  shows "pipeline_ok (map g S)"
proof -
  have keep: "done_latest (map g S) r x" if d: "done_latest S r x" for r x
  proof -
    obtain y where y: "is_latest S y" "s_run_id y = r" "s_stage_id y = x" "s_status y = S_SUCCEEDED"
      using d by (auto simp: done_latest_def)
    then have "s_status (g y) = S_SUCCEEDED" using succ other by (cases "y = s") auto
    with y show ?thesis by (subst done_latest_map[of S g, OF key]) auto
  qed
  have new: "done_latest S r x \<or> (r = s_run_id s \<and> x = s_stage_id s)" if d: "done_latest (map g S) r x" for r x
  proof -
    obtain y where y: "is_latest S y" "s_run_id y = r" "s_stage_id y = x" "s_status (g y) = S_SUCCEEDED"
      using d done_latest_map[of S g, OF key] by auto
    then show ?thesis using other by (cases "y = s") (auto simp: done_latest_def)
  qed
  show ?thesis
    unfolding pipeline_ok_def
  proof (intro allI impI ballI)
    fix r x d assume "done_latest (map g S) r x" and d: "d \<in> set (deps_of x)"
    then have "done_latest S r d" using new assms(1) deps unfolding pipeline_ok_def by blast
    then show "done_latest (map g S) r d" by (rule keep)
  qed
qed

lemma pipeline_ok_stale:
  assumes "pipeline_ok S" "stages_ok S"
    and key: "\<And>x. x \<in> set S \<Longrightarrow> stage_key (g x) = stage_key x"
    and stale: "\<And>s. is_latest S s \<Longrightarrow> s_status s = S_SUCCEEDED \<Longrightarrow>
        s_status (g s) = (if s_run_id s = r \<and> n < s_ordinal s then S_STALE else S_SUCCEEDED)"
    and other: "\<And>s. s \<in> set S \<Longrightarrow> s_status s \<noteq> S_SUCCEEDED \<Longrightarrow> s_status (g s) \<noteq> S_SUCCEEDED"
  shows "pipeline_ok (map g S)"
proof -
  have iff: "done_latest (map g S) q x \<longleftrightarrow>
      done_latest S q x \<and> \<not> (q = r \<and> n < sd_ordinal (stage_definitions x))" for q x
  proof -
    have ord: "is_latest S s \<Longrightarrow> s_ordinal s = sd_ordinal (stage_definitions (s_stage_id s))" for s
      using assms(2) by (simp add: stages_ok_def is_latest_def)
    have "s_status (g s) = S_SUCCEEDED \<longleftrightarrow>
        s_status s = S_SUCCEEDED \<and> \<not> (s_run_id s = r \<and> n < sd_ordinal (stage_definitions (s_stage_id s)))"
      if l: "is_latest S s" for s
      using stale[OF l] other[of s] ord[OF l] l by (cases "s_status s = S_SUCCEEDED") (auto simp: is_latest_def)
    then show ?thesis
      by (subst done_latest_map[of S g, OF key]) (auto simp: done_latest_def)
  qed
  show ?thesis
    using assms(1) catalog_dependency_smaller unfolding pipeline_ok_def iff by fastforce
qed

lemma is_latest_append:
  assumes "\<not> list_ex (\<lambda>s. s_run_id s = s_run_id r \<and> s_stage_id s = s_stage_id r \<and> s_generation s = s_generation r) S"
  shows "is_latest (S @ [r]) t \<longleftrightarrow>
     (is_latest S t \<and> \<not> (same_stage r t \<and> s_generation t < s_generation r)) \<or>
     (t = r \<and> (\<forall>s\<in>set S. same_stage s r \<longrightarrow> s_generation s < s_generation r))"
proof -
  have ne: "s \<in> set S \<Longrightarrow> same_stage s r \<Longrightarrow> s_generation s \<noteq> s_generation r" for s
    using assms by (auto simp: list_ex_iff same_stage_def)
  show ?thesis
  proof (cases "t = r")
    case True
    then have "t \<notin> set S" using ne by (auto simp: same_stage_def)
    then show ?thesis using True ne by (fastforce simp: is_latest_def)
  next
    case False
    then show ?thesis by (auto simp: is_latest_def not_less)
  qed
qed

lemma pipeline_ok_insert:
  assumes ok: "pipeline_ok S" "stages_ok S" and st: "s_status r \<noteq> S_SUCCEEDED"
    and fresh: "\<not> list_ex (\<lambda>s. s_run_id s = s_run_id r \<and> s_stage_id s = s_stage_id r \<and> s_generation s = s_generation r) S"
    and safe: "(\<exists>t\<in>set S. same_stage t r \<and> s_generation r < s_generation t) \<or>
     (\<forall>x. s_stage_id r \<in> set (deps_of x) \<longrightarrow> \<not> done_latest S (s_run_id r) x)"
  shows "pipeline_ok (S @ [r])"
proof -
  have down: "done_latest S q x" if "done_latest (S @ [r]) q x" for q x
    using that st by (auto simp: done_latest_def is_latest_append[OF fresh])
  have keep: "done_latest (S @ [r]) q x"
    if d: "done_latest S q x" and n: "(q, x) \<noteq> (s_run_id r, s_stage_id r) \<or>
      (\<exists>t\<in>set S. same_stage t r \<and> s_generation r < s_generation t)" for q x
  proof -
    obtain s where s: "is_latest S s" "s_run_id s = q" "s_stage_id s = x" "s_status s = S_SUCCEEDED"
      using d by (auto simp: done_latest_def)
    have "\<not> (same_stage r s \<and> s_generation s < s_generation r)"
      using n s by (fastforce simp: is_latest_def same_stage_def)
    then show ?thesis using s by (auto simp: done_latest_def is_latest_append[OF fresh])
  qed
  show ?thesis
    unfolding pipeline_ok_def
  proof (intro allI impI ballI)
    fix q x d assume a: "done_latest (S @ [r]) q x" "d \<in> set (deps_of x)"
    then have x: "done_latest S q x" using down by blast
    then have "done_latest S q d" using a(2) ok(1) unfolding pipeline_ok_def by blast
    with x show "done_latest (S @ [r]) q d" using safe a(2) by (intro keep) auto
  qed
qed

lemma update_where_map: "update_where P f S = map (\<lambda>s. if P s then f s else s) S"
  by (simp add: update_where_def)

lemma stage_step_keeps:
  "stage_step S S' \<Longrightarrow> stages_ok S \<and> pipeline_ok S \<Longrightarrow> stages_ok S' \<and> pipeline_ok S'"
proof (induction rule: stage_step.induct)
  case (ss_calm S P f)
  let ?g = "\<lambda>s. if P s then f s else s"
  have keep: "stage_key (?g s) = stage_key s \<and> (s_status (?g s) = S_SUCCEEDED \<longleftrightarrow> s_status s = S_SUCCEEDED)"
    if "s \<in> set S" for s
    using ss_calm.hyps[OF that] by simp
  have "stages_ok (map ?g S) = stages_ok S"
    by (rule stages_ok_map) (use keep in blast)
  moreover have "pipeline_ok (map ?g S)"
    by (rule pipeline_ok_calm) (use keep ss_calm.prems in blast)+
  ultimately show ?case using ss_calm.prems unfolding update_where_map by blast
next
  case (ss_commit k S s f)
  let ?g = "\<lambda>x. if s_id x = k then f x else x"
  have s: "s \<in> set S" "s_id s = k" using stages_tbl.lookup_Some[OF ss_commit.hyps(1)] by auto
  have uniq: "x \<in> set S \<Longrightarrow> s_id x = k \<Longrightarrow> x = s" for x
    using ss_commit.prems stages_tbl.lookup_mem[of S x] ss_commit.hyps(1) by (simp add: stages_ok_def)
  have eq: "map ?g S = map (\<lambda>x. if x = s then f s else x) S"
    by (rule map_cong[OF refl]) (metis uniq s(2))
  have key: "stage_key (if x = s then f s else x) = stage_key x" for x
    using ss_commit.hyps(4) by simp
  have "pipeline_ok (map (\<lambda>x. if x = s then f s else x) S)"
    by (rule pipeline_ok_commit[of S s]) (use ss_commit.hyps ss_commit.prems s key in simp_all)
  moreover have "stages_ok (map (\<lambda>x. if x = s then f s else x) S) = stages_ok S"
    by (rule stages_ok_map) (rule key)
  ultimately show ?case
    using ss_commit.prems unfolding update_where_map eq by blast
next
  case (ss_stale S P r n f)
  let ?g = "\<lambda>s. if P s then f s else s"
  have "pipeline_ok (map ?g S)"
  proof (rule pipeline_ok_stale[of S ?g r n])
    fix s assume "is_latest S s" "s_status s = S_SUCCEEDED"
    then show "s_status (?g s) = (if s_run_id s = r \<and> n < s_ordinal s then S_STALE else S_SUCCEEDED)"
      using ss_stale.hyps(1)[of s] ss_stale.hyps(3) by (auto simp: is_latest_def)
  qed (use ss_stale in auto)
  moreover have "stages_ok (map ?g S) = stages_ok S"
    by (rule stages_ok_map) (use ss_stale.hyps(2) in simp)
  ultimately show ?case
    using ss_stale.prems unfolding update_where_map by blast
next
  case (ss_insert r S)
  then have "stages_ok (S @ [r])"
    by (auto simp: stages_ok_def stages_tbl.keys_distinct_append list_ex_iff)
  moreover have "pipeline_ok (S @ [r])"
    by (rule pipeline_ok_insert) (use ss_insert in \<open>auto simp: list_ex_iff\<close>)
  ultimately show ?case ..
qed

interpretation pipeline: step_invariant stage_step "\<lambda>S. stages_ok S \<and> pipeline_ok S"
  by unfold_locales (rule stage_step_keeps)

section \<open>What a step can never undo\<close>

text \<open>A stage row keeps its key and its status moves along the transition table.\<close>

definition stages_later :: "research_run_stage_row list \<Rightarrow> research_run_stage_row list \<Rightarrow> bool" where
  "stages_later S S' \<longleftrightarrow> (\<forall>k s. stages_tbl.lookup k S = Some s \<longrightarrow>
     (\<exists>s'. stages_tbl.lookup k S' = Some s' \<and> stage_key s' = stage_key s \<and>
           canTransitionRunStage\<^sup>*\<^sup>* (s_status s) (s_status s')))"

lemma stages_later_refl: "stages_later S S"
  by (simp add: stages_later_def)

lemma stages_later_trans:
  assumes "stages_later S T" "stages_later T U"
  shows "stages_later S U"
  unfolding stages_later_def
proof (intro allI impI)
  fix k s assume "stages_tbl.lookup k S = Some s"
  then obtain t where t: "stages_tbl.lookup k T = Some t" "stage_key t = stage_key s"
    "canTransitionRunStage\<^sup>*\<^sup>* (s_status s) (s_status t)"
    using assms(1) unfolding stages_later_def by blast
  then obtain u where "stages_tbl.lookup k U = Some u" "stage_key u = stage_key t"
    "canTransitionRunStage\<^sup>*\<^sup>* (s_status t) (s_status u)"
    using assms(2) unfolding stages_later_def by blast
  with t show "\<exists>u. stages_tbl.lookup k U = Some u \<and> stage_key u = stage_key s \<and>
      canTransitionRunStage\<^sup>*\<^sup>* (s_status s) (s_status u)"
    by (metis rtranclp_trans)
qed

lemma stages_later_update:
  assumes "\<And>s. s \<in> set S \<Longrightarrow> P s \<Longrightarrow> stage_key (f s) = stage_key s \<and>
     canTransitionRunStage\<^sup>*\<^sup>* (s_status s) (s_status (f s))"
  shows "stages_later S (update_where P f S)"
  unfolding stages_later_def
proof (intro allI impI)
  fix k s assume l: "stages_tbl.lookup k S = Some s"
  let ?g = "\<lambda>s. if s \<in> set S \<and> P s then f s else s"
  have "update_where P f S = update_where (\<lambda>s. s \<in> set S \<and> P s) f S"
    by (simp add: update_where_def)
  moreover have "stages_tbl.lookup k (update_where (\<lambda>s. s \<in> set S \<and> P s) f S) = Some (?g s)"
    by (subst stages_tbl.lookup_update_where) (use assms l in \<open>auto simp: stage_key_def\<close>)
  moreover have "stage_key (?g s) = stage_key s \<and> canTransitionRunStage\<^sup>*\<^sup>* (s_status s) (s_status (?g s))"
    using assms by auto
  ultimately show "\<exists>s'. stages_tbl.lookup k (update_where P f S) = Some s' \<and> stage_key s' = stage_key s \<and>
      canTransitionRunStage\<^sup>*\<^sup>* (s_status s) (s_status s')"
    by (intro exI[of _ "?g s"]) (simp only: simp_thms)
qed

lemma stage_step_later: "stage_step S S' \<Longrightarrow> stages_ok S \<Longrightarrow> stages_later S S'"
proof (induction rule: stage_step.induct)
  case (ss_calm S P f)
  then show ?case
    by (intro stages_later_update) (blast intro: stage_machine.moves_run)
next
  case (ss_commit k S s f)
  have "x = s" if "x \<in> set S" "s_id x = k" for x
    using that ss_commit.prems stages_tbl.lookup_mem[of S x] ss_commit.hyps(1) by (auto simp: stages_ok_def)
  then show ?case
    using ss_commit.hyps by (intro stages_later_update) (auto simp: canTransitionRunStage_def)
next
  case (ss_stale S P r n f)
  then show ?case by (intro stages_later_update) (auto simp: canTransitionRunStage_def)
next
  case (ss_insert r S)
  then show ?case by (auto simp: stages_later_def stages_tbl.lookup_append)
qed

end
