(* ===== verification/Job_Ledger.thy ===== *)
theory Job_Ledger
  imports Job_Queue
begin

text \<open>
  The contract of the durable job queue. The ledger is the part of the database the queue owns:
  the tables \<open>jobs\<close>, \<open>job_attempts\<close> and \<open>job_events\<close>. An abstract step relation says how the
  ledger may change (a job is submitted, claimed, moved along the transition table with an event,
  or touched by a heartbeat), and every operation of \<open>Job_Queue\<close> is shown to be a sequence of
  such steps. The invariants of the queue are proved on the abstract steps.
\<close>

section \<open>The ledger and its steps\<close>

type_synonym ledger = "job_row list \<times> job_attempt list \<times> job_event list"

definition ledger_of :: "database \<Rightarrow> ledger" where
  "ledger_of db = (jobs db, job_attempts db, job_events db)"

text \<open>The row invariant of a job.\<close>

definition job_ok :: "job_row \<Rightarrow> bool" where
  "job_ok j \<longleftrightarrow>
     (j_lease_owner j = None \<longleftrightarrow> j_status j \<notin> set active_job_statuses) \<and>
     (j_lease_expires_at j = None \<longleftrightarrow> j_status j \<notin> set active_job_statuses) \<and>
     (j_heartbeat_at j = None \<longleftrightarrow> j_status j \<notin> set active_job_statuses) \<and>
     0 \<le> j_attempts j \<and> j_attempts j \<le> j_max_attempts j \<and> 1 \<le> j_max_attempts j \<and>
     (j_status j \<in> set active_job_statuses \<longrightarrow> 1 \<le> j_attempts j) \<and>
     (j_status j = J_QUEUED \<longrightarrow> j_attempts j < j_max_attempts j) \<and>
     (j_completed_at j = None \<longleftrightarrow> \<not> isTerminalJobStatus (j_status j)) \<and>
     (j_output_hash j = None \<longleftrightarrow> j_status j \<noteq> J_SUCCEEDED) \<and>
     (j_cancellation_requested_at j = None \<longrightarrow> j_status j \<noteq> J_CANCELLATION_REQUESTED) \<and>
     \<not> isl (parseJobRetryPolicy (j_retry_policy j))"

text \<open>The columns no operation of the queue changes after the submission.\<close>

definition job_identity ::
  "job_row \<Rightarrow> string \<times> string option \<times> string option \<times> string option \<times> string option \<times> string \<times>
   string \<times> string \<times> jsv \<times> jsv \<times> string" where
  "job_identity j = (j_id j, j_project_id j, j_run_id j, j_run_stage_id j, j_stage j, j_job_type j,
     j_idempotency_key j, j_input_hash j, j_input_reference j, j_retry_policy j, j_correlation_id j)"

text \<open>A change of one row: identity kept, version counted, no attempt given back, the invariant kept.\<close>

definition row_change :: "job_row \<Rightarrow> job_row \<Rightarrow> bool" where
  "row_change j j' \<longleftrightarrow> job_identity j' = job_identity j \<and> j_version j' = j_version j + 1 \<and>
     j_attempts j \<le> j_attempts j' \<and>
     (job_ok j \<longrightarrow> job_ok j')"

abbreviation upd_key :: "string \<Rightarrow> (job_row \<Rightarrow> job_row) \<Rightarrow> job_row list \<Rightarrow> job_row list" where
  "upd_key k f \<equiv> update_where (\<lambda>r. j_id r = k) f"

definition upd_try ::
  "string \<Rightarrow> int \<Rightarrow> (job_attempt \<Rightarrow> job_attempt) \<Rightarrow> job_attempt list \<Rightarrow> job_attempt list" where
  "upd_try k n f = update_where (\<lambda>a. a_job_id a = k \<and> a_attempt_number a = n) f"

definition keeps_try :: "(job_attempt \<Rightarrow> job_attempt) \<Rightarrow> bool" where
  "keeps_try h \<longleftrightarrow> (\<forall>a. a_job_id (h a) = a_job_id a \<and>
     a_attempt_number (h a) = a_attempt_number a \<and> a_worker_id (h a) = a_worker_id a)"

text \<open>The label of a step: the worker it gives a lease to, or else the job it touches.\<close>

datatype ledger_label = Leased string | Touched string

inductive ledger_step :: "ledger_label \<Rightarrow> ledger \<Rightarrow> ledger \<Rightarrow> bool" where
  ls_submit: "job_ok r \<Longrightarrow> j_status r = J_QUEUED \<Longrightarrow> j_attempts r = 0 \<Longrightarrow> j_version r = 0 \<Longrightarrow>
     \<not> list_ex (\<lambda>j. j_id j = j_id r \<or>
       (case_option [] id (j_project_id j) = case_option [] id (j_project_id r) \<and>
        j_idempotency_key j = j_idempotency_key r)) J \<Longrightarrow>
     e_job_id e = j_id r \<Longrightarrow> e_from e = None \<Longrightarrow> e_to e = Some J_QUEUED \<Longrightarrow>
     ledger_step (Touched (j_id r)) (J, A, E) (J @ [r], A, E @ [e])"
| ls_claim: "jobs_tbl.lookup k J = Some j \<Longrightarrow> j_status j \<in> {J_QUEUED, J_RETRY_WAIT} \<Longrightarrow>
     j_attempts j < j_max_attempts j \<Longrightarrow>
     row_change j (f j) \<Longrightarrow> (\<And>r. j_id (f r) = j_id r) \<Longrightarrow> j_status (f j) = J_CLAIMED \<Longrightarrow>
     j_attempts (f j) = j_attempts j + 1 \<Longrightarrow>
     j_output_hash (f j) = j_output_hash j \<Longrightarrow>
     a_job_id a = k \<Longrightarrow> a_attempt_number a = j_attempts j + 1 \<Longrightarrow>
     j_lease_owner (f j) = Some w \<Longrightarrow> a_worker_id a = w \<Longrightarrow>
     e_job_id e = k \<Longrightarrow> e_from e = Some (j_status j) \<Longrightarrow> e_to e = Some J_CLAIMED \<Longrightarrow>
     ledger_step (Leased w) (J, A, E) (upd_key k f J, A @ [a], E @ [e])"
| ls_move: "jobs_tbl.lookup k J = Some j \<Longrightarrow> canTransitionJob (j_status j) (j_status (f j)) \<Longrightarrow>
     j_status (f j) \<noteq> J_CLAIMED \<Longrightarrow>
     row_change j (f j) \<Longrightarrow> (\<And>r. j_id (f r) = j_id r) \<Longrightarrow> j_attempts (f j) = j_attempts j \<Longrightarrow>
     j_lease_owner (f j) = j_lease_owner j \<or> j_lease_owner (f j) = None \<Longrightarrow> keeps_try h \<Longrightarrow>
     e_job_id e = k \<Longrightarrow> e_from e = Some (j_status j) \<Longrightarrow> e_to e = Some (j_status (f j)) \<Longrightarrow>
     ledger_step (Touched k) (J, A, E) (upd_key k f J, upd_try k (j_attempts j) h A, E @ [e])"
| ls_touch: "jobs_tbl.lookup k J = Some j \<Longrightarrow> j_status j \<in> set active_job_statuses \<Longrightarrow>
     row_change j (f j) \<Longrightarrow> (\<And>r. j_id (f r) = j_id r) \<Longrightarrow> j_status (f j) = j_status j \<Longrightarrow>
     j_attempts (f j) = j_attempts j \<Longrightarrow> j_lease_owner (f j) = j_lease_owner j \<Longrightarrow>
     ledger_step (Touched k) (J, A, E) (upd_key k f J, A, E)"

section \<open>What each operation does to the ledger\<close>

lemma lockJobProjectFirst_Inr [tx_simps]:
  "lockJobProjectFirst k db = Inr (j, db') \<longleftrightarrow>
     find_job k db = Some j \<and> j_id j = k \<and> db' = db \<and>
     (case truthy (j_project_id j) of None \<Rightarrow> True | Some p \<Rightarrow> find_project p db \<noteq> None)"
  by (auto simp: lockJobProjectFirst_def tx_simps dest: find_job_SomeD split: option.splits)

lemma lockOwnedJob_Inr [tx_simps]:
  "lockOwnedJob now k w sts v db = Inr (j, db') \<longleftrightarrow>
     find_job k db = Some j \<and> j_id j = k \<and> db' = db \<and>
     (case truthy (j_project_id j) of None \<Rightarrow> True | Some p \<Rightarrow> find_project p db \<noteq> None) \<and>
     j_lease_owner j = Some w \<and> lease_current now j \<and> j_status j \<in> set sts \<and>
     (case v of None \<Rightarrow> True | Some n \<Rightarrow> j_version j = n)"
  by (auto simp: lockOwnedJob_def tx_simps)

lemma recordJobEvent_Inr [tx_simps]:
  "recordJobEvent k ty f t w d db = Inr (u, db') \<longleftrightarrow>
     db' = db\<lparr>job_events := job_events db @
       [\<lparr>e_job_id = k, e_type = ty, e_from = f, e_to = t, e_worker_id = w, e_details = d\<rparr>]\<rparr>"
  by (simp add: recordJobEvent_def tx_simps)

lemma lockLinkedResearchState_frame:
  "lockLinkedResearchState job db = Inr (r, db') \<Longrightarrow> db' = db"
  by (auto simp: lockLinkedResearchState_def tx_simps split: option.splits)

lemma ledger_of_simps [simp]:
  "ledger_of (upd_run i g db) = ledger_of db"
  "ledger_of (upd_stages P h db) = ledger_of db"
  "ledger_of (db\<lparr>audit_events := x\<rparr>) = ledger_of db"
  by (simp_all add: ledger_of_def)

text \<open>Reconciling the linked run and stage leaves the ledger alone.\<close>

lemma reconcileLinkedJobFailure_ledger:
  "tx_frame ledger_of (reconcileLinkedJobFailure now job c s)"
  unfolding reconcileLinkedJobFailure_def lockLinkedResearchState_def writeAuditEvent_def
  by (intro tx_frames) simp_all

lemma reconcileLinkedJobCancellation_ledger:
  "tx_frame ledger_of (reconcileLinkedJobCancellation now job by)"
  unfolding reconcile_cancellation_defs lockLinkedResearchState_def writeAuditEvent_def
  by (intro tx_frames) simp_all

text \<open>The rewritten rows: identity, version, attempts and the row invariant.\<close>

lemmas job_row_defs = job_ok_def row_change_def job_identity_def active_job_statuses_def
  isTerminalJobStatus_def

lemma claim_row_change:
  "j_status j \<in> {J_QUEUED, J_RETRY_WAIT} \<Longrightarrow> j_attempts j < j_max_attempts j \<Longrightarrow>
   row_change j (claim_row now w d j)"
  by (elim insertE emptyE disjE conjE) (simp_all add: job_row_defs claim_row_def)

lemma start_row_change: "j_status j = J_CLAIMED \<Longrightarrow> row_change j (start_row now j)"
  by (simp add: job_row_defs start_row_def)

lemma heartbeat_row_change:
  "j_status j \<in> set active_job_statuses \<Longrightarrow> row_change j (heartbeat_row now d j)"
  by (cases "j_status j") (simp_all add: job_row_defs heartbeat_row_def)

lemma complete_row_change: "j_status j = J_RUNNING \<Longrightarrow> row_change j (complete_row now v h j)"
  by (simp add: job_row_defs complete_row_def)

lemma fail_row_change:
  "j_status j \<in> {J_CLAIMED, J_RUNNING} \<Longrightarrow> t \<in> {J_FAILED, J_RETRY_WAIT, J_DEAD_LETTER} \<Longrightarrow>
   row_change j (fail_row now t d c s j)"
  by (elim insertE emptyE disjE conjE) (simp_all add: job_row_defs fail_row_def)

lemma request_cancel_row_change:
  "j_status j \<in> {J_QUEUED, J_RETRY_WAIT} \<and> t = J_CANCELLED \<or>
   j_status j \<in> {J_CLAIMED, J_RUNNING} \<and> t = J_CANCELLATION_REQUESTED \<Longrightarrow>
   row_change j (request_cancel_row now t j)"
  by (elim insertE emptyE disjE conjE) (simp_all add: job_row_defs request_cancel_row_def)

lemma acknowledge_row_change:
  "j_status j = J_CANCELLATION_REQUESTED \<Longrightarrow> row_change j (acknowledge_row now j)"
  by (simp add: job_row_defs acknowledge_row_def)

lemma release_row_change:
  "j_status j = J_CANCELLATION_REQUESTED \<and> t = J_CANCELLED \<or>
   j_status j \<in> {J_CLAIMED, J_RUNNING} \<and> t = J_RETRY_WAIT \<Longrightarrow>
   row_change j (release_row now t j)"
  by (elim insertE emptyE disjE conjE) (simp_all add: job_row_defs release_row_def)

lemma recover_row_change:
  "j_status j = J_CANCELLATION_REQUESTED \<and> t = J_CANCELLED \<or>
   j_status j \<in> {J_CLAIMED, J_RUNNING} \<and> t \<in> {J_RETRY_WAIT, J_DEAD_LETTER} \<Longrightarrow>
   row_change j (recover_row now t d j)"
  by (elim insertE emptyE disjE conjE) (simp_all add: job_row_defs recover_row_def)

lemma manual_retry_row_change:
  "j_status j \<in> {J_FAILED, J_DEAD_LETTER} \<Longrightarrow> row_change j (manual_retry_row now j)"
  by (elim insertE emptyE disjE conjE) (simp_all add: job_row_defs manual_retry_row_def)

lemma row_fields [simp]:
  "j_id (claim_row now w d j) = j_id j" "j_status (claim_row now w d j) = J_CLAIMED" "j_attempts (claim_row now w d j) = j_attempts j + 1"
  "j_lease_owner (claim_row now w d j) = Some w"
  "j_id (start_row now j) = j_id j" "j_status (start_row now j) = J_RUNNING" "j_attempts (start_row now j) = j_attempts j"
  "j_lease_owner (start_row now j) = j_lease_owner j"
  "j_id (heartbeat_row now d j) = j_id j" "j_status (heartbeat_row now d j) = j_status j" "j_attempts (heartbeat_row now d j) = j_attempts j"
  "j_lease_owner (heartbeat_row now d j) = j_lease_owner j"
  "j_id (complete_row now v hsh j) = j_id j" "j_status (complete_row now v hsh j) = J_SUCCEEDED" "j_attempts (complete_row now v hsh j) = j_attempts j"
  "j_lease_owner (complete_row now v hsh j) = None"
  "j_id (fail_row now t dl c s j) = j_id j" "j_status (fail_row now t dl c s j) = t" "j_attempts (fail_row now t dl c s j) = j_attempts j"
  "j_lease_owner (fail_row now t dl c s j) = None"
  "j_id (request_cancel_row now t j) = j_id j" "j_status (request_cancel_row now t j) = t" "j_attempts (request_cancel_row now t j) = j_attempts j"
  "j_lease_owner (request_cancel_row now t j) = (if t = J_CANCELLED then None else j_lease_owner j)"
  "j_id (acknowledge_row now j) = j_id j" "j_status (acknowledge_row now j) = J_CANCELLED" "j_attempts (acknowledge_row now j) = j_attempts j"
  "j_lease_owner (acknowledge_row now j) = None"
  "j_id (release_row now t j) = j_id j" "j_status (release_row now t j) = t" "j_attempts (release_row now t j) = j_attempts j"
  "j_lease_owner (release_row now t j) = None"
  "j_id (recover_row now t dl j) = j_id j" "j_status (recover_row now t dl j) = t" "j_attempts (recover_row now t dl j) = j_attempts j"
  "j_lease_owner (recover_row now t dl j) = None"
  "j_id (manual_retry_row now j) = j_id j" "j_status (manual_retry_row now j) = J_QUEUED" "j_attempts (manual_retry_row now j) = j_attempts j"
  "j_lease_owner (manual_retry_row now j) = None"
  by (simp_all add: claim_row_def start_row_def heartbeat_row_def complete_row_def fail_row_def
      request_cancel_row_def acknowledge_row_def release_row_def recover_row_def manual_retry_row_def)

text \<open>A move of the ledger, read off a final database.\<close>

lemma ledger_moveI:
  assumes "find_job k db = Some j" "canTransitionJob (j_status j) (j_status (f j))"
    "j_status (f j) \<noteq> J_CLAIMED" "row_change j (f j)" "\<And>r. j_id (f r) = j_id r"
    "j_attempts (f j) = j_attempts j"
    "j_lease_owner (f j) = j_lease_owner j \<or> j_lease_owner (f j) = None" "keeps_try h"
    "e_job_id e = k" "e_from e = Some (j_status j)" "e_to e = Some (j_status (f j))"
    "L = (upd_key k f (jobs db), upd_try k (j_attempts j) h (job_attempts db), job_events db @ [e])"
  shows "ledger_step (Touched k) (ledger_of db) L"
  unfolding assms(12) ledger_of_def
  by (rule ls_move[of k _ j f h e]) (use assms(1-11) in \<open>simp_all add: find_job_tbl\<close>)

lemma upd_try_id [simp]: "upd_try k n (\<lambda>a. a) A = A"
  by (simp add: upd_try_def update_where_def)

lemma keeps_tryI:
  "(\<And>a. a_job_id (h a) = a_job_id a) \<Longrightarrow> (\<And>a. a_attempt_number (h a) = a_attempt_number a) \<Longrightarrow>
   (\<And>a. a_worker_id (h a) = a_worker_id a) \<Longrightarrow> keeps_try h"
  by (simp add: keeps_try_def)

lemma ledger_of_writes:
  "ledger_of (upd_job k f db) = (upd_key k f (jobs db), job_attempts db, job_events db)"
  "ledger_of (upd_attempt k n h db) = (jobs db, upd_try k n h (job_attempts db), job_events db)"
  "ledger_of (db\<lparr>job_events := es\<rparr>) = (jobs db, job_attempts db, es)"
  by (simp_all add: ledger_of_def upd_job_def upd_attempt_def upd_try_def)

lemma upd_writes [simp]:
  "jobs (upd_job k f db) = upd_key k f (jobs db)"
  "job_attempts (upd_attempt k n h db) = upd_try k n h (job_attempts db)"
  by (simp_all add: upd_job_def upd_attempt_def upd_try_def)

lemma startJob_step:
  assumes "startJob now k w v db = Inr (r, db')"
  shows "ledger_step (Touched k) (ledger_of db) (ledger_of db')"
proof -
  obtain j where "find_job k db = Some j" "j_status j = J_CLAIMED" "j_id j = k"
    and "db' = (upd_attempt k (j_attempts j) (\<lambda>a. a\<lparr>a_status := AT J_RUNNING\<rparr>)
       (upd_job k (start_row now) db))\<lparr>job_events := job_events db @
         [\<lparr>e_job_id = k, e_type = ''JOB_STARTED'', e_from = Some J_CLAIMED, e_to = Some J_RUNNING,
           e_worker_id = Some w, e_details = JObj []\<rparr>]\<rparr>"
    using assms by (auto simp: startJob_def tx_simps)
  then show ?thesis
    by (intro ledger_moveI[where f = "start_row now" and h = "\<lambda>a. a\<lparr>a_status := AT J_RUNNING\<rparr>"])
      (auto intro!: start_row_change keeps_tryI simp: ledger_of_writes canTransitionJob_def)
qed

lemma heartbeatJob_step:
  assumes "heartbeatJob now k w d db = Inr (r, db')"
  shows "ledger_step (Touched k) (ledger_of db) (ledger_of db')"
proof -
  obtain j d' where "find_job k db = Some j" "j_status j \<in> set active_job_statuses" "j_id j = k"
    and "db' = upd_job k (heartbeat_row now d') db"
    using assms by (auto simp: heartbeatJob_def tx_simps active_job_statuses_def)
  then show ?thesis
    unfolding ledger_of_def
    by (auto simp: find_job_tbl intro!: ls_touch[where f = "heartbeat_row now d'"] heartbeat_row_change)
qed

lemma completeJob_step:
  assumes "completeJob env now k w v db = Inr (r, db')"
  shows "ledger_step (Touched k) (ledger_of db) (ledger_of db')"
proof -
  let ?h = "\<lambda>a. a\<lparr>a_status := AT J_SUCCEEDED, a_completed_at := Some now\<rparr>"
  obtain j v' hsh e where "find_job k db = Some j" "j_status j = J_RUNNING" "j_id j = k"
    and "db' = (upd_attempt k (j_attempts j) ?h (upd_job k (complete_row now v' hsh) db))
               \<lparr>job_events := job_events db @ [e]\<rparr>"
    and "e_job_id e = k" "e_from e = Some J_RUNNING" "e_to e = Some J_SUCCEEDED"
    using assms by (auto simp: completeJob_def tx_simps)
  then show ?thesis
    by (intro ledger_moveI[where f = "complete_row now v' hsh" and h = ?h])
      (auto intro!: complete_row_change keeps_tryI simp: ledger_of_writes canTransitionJob_def)
qed

text \<open>A move followed by a transaction that leaves the ledger alone (a reconciliation).\<close>

lemma ledger_moveE:
  assumes "m ((upd_attempt k (j_attempts j) h (upd_job k f db))\<lparr>job_events := job_events db @ [e]\<rparr>) =
       Inr (u, db')"
    and "find_job k db = Some j" "tx_frame ledger_of m"
    and "canTransitionJob (j_status j) (j_status (f j))" "row_change j (f j)"
    and "j_status (f j) \<noteq> J_CLAIMED" "\<And>r. j_id (f r) = j_id r"
    and "j_attempts (f j) = j_attempts j"
    and "j_lease_owner (f j) = j_lease_owner j \<or> j_lease_owner (f j) = None" "keeps_try h"
    and "e_job_id e = k" "e_from e = Some (j_status j)" "e_to e = Some (j_status (f j))"
  shows "ledger_step (Touched k) (ledger_of db) (ledger_of db')"
proof (rule ledger_moveI)
  show "ledger_of db' =
      (upd_key k f (jobs db), upd_try k (j_attempts j) h (job_attempts db), job_events db @ [e])"
    using tx_frameD[OF assms(3,1)] by (simp add: ledger_of_writes)
qed (use assms in auto)

lemma upd_attempt_id: "upd_attempt k n (\<lambda>a. a) db = db"
  by (simp add: upd_attempt_def update_where_def)

lemma ledger_moveE0:
  assumes "m ((upd_job k f db)\<lparr>job_events := job_events db @ [e]\<rparr>) = Inr (u, db')"
    and "find_job k db = Some j" "tx_frame ledger_of m"
    and "canTransitionJob (j_status j) (j_status (f j))" "row_change j (f j)"
    and "j_status (f j) \<noteq> J_CLAIMED" "\<And>r. j_id (f r) = j_id r"
    and "j_attempts (f j) = j_attempts j"
    and "j_lease_owner (f j) = j_lease_owner j \<or> j_lease_owner (f j) = None"
    and "e_job_id e = k" "e_from e = Some (j_status j)" "e_to e = Some (j_status (f j))"
  shows "ledger_step (Touched k) (ledger_of db) (ledger_of db')"
  by (rule ledger_moveE[where h = "\<lambda>a. a" and m = m and f = f and j = j and e = e])
    (use assms in \<open>simp_all add: upd_attempt_id keeps_try_def\<close>)

lemmas reconcile_frames [tx_frames] =
  reconcileLinkedJobFailure_ledger reconcileLinkedJobCancellation_ledger

lemma failJob_step:
  "failJob now k w c err ra rnd db = Inr (r, db') \<Longrightarrow>
   ledger_step (Touched k) (ledger_of db) (ledger_of db')"
  unfolding failJob_def Let_def
  by (clarsimp simp: tx_simps simp del: row_fields list.set)
    (erule ledger_moveE; auto intro!: tx_frames fail_row_change keeps_tryI dest: failureJobStatus_Inr)

lemma acknowledgeJobCancellation_step:
  "acknowledgeJobCancellation now k w db = Inr (r, db') \<Longrightarrow>
   ledger_step (Touched k) (ledger_of db) (ledger_of db')"
  unfolding acknowledgeJobCancellation_def
  by (clarsimp simp: tx_simps simp del: row_fields)
    (erule ledger_moveE; auto intro!: tx_frames acknowledge_row_change keeps_tryI)

lemma releaseJobLease_step:
  "releaseJobLease now k w db = Inr (r, db') \<Longrightarrow>
   ledger_step (Touched k) (ledger_of db) (ledger_of db')"
  unfolding releaseJobLease_def Let_def
  by (clarsimp simp: tx_simps simp del: row_fields list.set split del: if_split)
    (erule ledger_moveE; auto intro!: tx_frames release_row_change keeps_tryI)

lemma manualRetryJob_step:
  "manualRetryJob now k by audit db = Inr (r, db') \<Longrightarrow>
   ledger_step (Touched k) (ledger_of db) (ledger_of db')"
  unfolding manualRetryJob_def writeAuditEvent_def
  by (clarsimp simp: tx_simps simp del: row_fields list.set)
    (erule ledger_moveE0; auto intro!: tx_frames manual_retry_row_change)

lemma operator_audit_frame [tx_frames]:
  "tx_frame ledger_of (case audit of None \<Rightarrow> ret () | Some a \<Rightarrow> writeAuditEvent (g a))"
  by (auto simp: writeAuditEvent_def intro!: tx_frames split: option.splits)

lemma cancel_target_change:
  "\<not> isTerminalJobStatus (j_status j) \<Longrightarrow> j_status j \<noteq> J_CANCELLATION_REQUESTED \<Longrightarrow>
   row_change j (request_cancel_row now (cancel_target (j_status j)) j)"
  by (rule request_cancel_row_change, cases "j_status j")
    (simp_all add: isTerminalJobStatus_def cancel_target_def)

lemma cancel_target_not_claimed [simp]: "cancel_target s \<noteq> J_CLAIMED"
  by (simp add: cancel_target_def)

lemma requestJobCancellationInTransaction_step:
  assumes "requestJobCancellationInTransaction now k by audit rl db = Inr (r, db')"
  shows "ledger_of db' = ledger_of db \<or> ledger_step (Touched k) (ledger_of db) (ledger_of db')"
proof -
  obtain j where j: "find_job k db = Some j" "j_id j = k"
    using assms unfolding requestJobCancellationInTransaction_def by (auto simp: tx_simps)
  show ?thesis
  proof (cases "isTerminalJobStatus (j_status j) \<or> j_status j = J_CANCELLATION_REQUESTED")
    case True
    then show ?thesis
      using assms j unfolding requestJobCancellationInTransaction_def by (auto simp: tx_simps)
  next
    case False
    let ?t = "cancel_target (j_status j)"
    define m where "m = tbind (case audit of None \<Rightarrow> ret () | Some a \<Rightarrow> writeAuditEvent
        (operator_audit_event ''JOB_CANCELLATION_REQUESTED'' j ?t a))
      (\<lambda>_. if rl then reconcileLinkedJobCancellation now (request_cancel_row now ?t j) by else ret ())"
    have can: "canTransitionJob (j_status j) ?t"
      and m: "m ((upd_job k (request_cancel_row now ?t) db)\<lparr>job_events := job_events db @
          [\<lparr>e_job_id = k, e_type = ''JOB_CANCELLATION_REQUESTED'', e_from = Some (j_status j),
            e_to = Some ?t, e_worker_id = None, e_details = operator_details by audit\<rparr>]\<rparr>) =
          Inr ((), db')"
      using assms j False
      unfolding requestJobCancellationInTransaction_def Let_def
      by (auto simp: tx_simps m_def simp del: row_fields)
    have "tx_frame ledger_of m" unfolding m_def by (intro tx_frames)
    with False j can have "ledger_step (Touched k) (ledger_of db) (ledger_of db')"
      by (intro ledger_moveE0[where m = m and j = j and f = "request_cancel_row now ?t", OF m])
        (auto intro: cancel_target_change)
    then show ?thesis ..
  qed
qed

lemma recover_target_cases:
  "j_status j \<in> set active_job_statuses \<Longrightarrow>
   j_status j = J_CANCELLATION_REQUESTED \<and> recover_target j = J_CANCELLED \<or>
   j_status j \<in> {J_CLAIMED, J_RUNNING} \<and> recover_target j \<in> {J_RETRY_WAIT, J_DEAD_LETTER}"
  by (auto simp: recover_target_def active_job_statuses_def)

lemma recover_target_not_claimed [simp]: "recover_target j \<noteq> J_CLAIMED"
  by (simp add: recover_target_def)

lemma recover_one_step:
  assumes "recover_one now rnd runIds k db = Inr (r, db')"
  shows "(r = None \<and> ledger_of db' = ledger_of db) \<or> ledger_step (Touched k) (ledger_of db) (ledger_of db')"
proof -
  obtain j where j: "find_job k db = Some j" "j_id j = k"
    using assms unfolding recover_one_def by (auto simp: tx_simps)
  show ?thesis
  proof (cases "\<not> lease_expired now j \<or> \<not> run_filter runIds j \<or>
                j_status j \<notin> set active_job_statuses")
    case True
    then show ?thesis using assms j unfolding recover_one_def by (auto simp: tx_simps)
  next
    case False
    then have "row_change j (recover_row now (recover_target j) dl j)" for dl
      by (intro recover_row_change recover_target_cases) simp
    then show ?thesis
      using assms j False unfolding recover_one_def Let_def
      by (intro disjI2) (clarsimp simp: tx_simps simp del: row_fields split del: if_split,
          erule ledger_moveE; auto intro!: tx_frames keeps_tryI)
  qed
qed

lemma parse_default_policy: "parseJobRetryPolicy (policy_value DEFAULT_JOB_RETRY_POLICY) =
   Inr DEFAULT_JOB_RETRY_POLICY"
  by (rule parse_policy_value) (simp add: valid_policy_def DEFAULT_JOB_RETRY_POLICY_def max_safe_integer_def)

lemma boundedInteger_Inr: "boundedInteger v lo hi = Inr n \<Longrightarrow> lo \<le> n \<and> n \<le> hi \<and> v = js_int n"
  by (auto simp: boundedInteger_def dest: safe_integer_Some split: option.splits if_splits)

lemma boundedText_Inr: "boundedText v m = Inr w \<Longrightarrow> w = js_trim v"
  by (auto simp: boundedText_def Let_def split: if_splits)

lemma new_job_row_fields [simp]:
  "j_id (new_job_row now uuid p i ty ni pr ik hs mx tm pol cid) = uuid"
  "j_status (new_job_row now uuid p i ty ni pr ik hs mx tm pol cid) = J_QUEUED"
  "j_attempts (new_job_row now uuid p i ty ni pr ik hs mx tm pol cid) = 0"
  "j_version (new_job_row now uuid p i ty ni pr ik hs mx tm pol cid) = 0"
  "j_project_id (new_job_row now uuid p i ty ni pr ik hs mx tm pol cid) = p"
  "j_idempotency_key (new_job_row now uuid p i ty ni pr ik hs mx tm pol cid) = ik"
  "j_job_type (new_job_row now uuid p i ty ni pr ik hs mx tm pol cid) = ty"
  "j_input_hash (new_job_row now uuid p i ty ni pr ik hs mx tm pol cid) = hs"
  "j_run_id (new_job_row now uuid p i ty ni pr ik hs mx tm pol cid) = sj_runId i"
  "j_run_stage_id (new_job_row now uuid p i ty ni pr ik hs mx tm pol cid) = sj_runStageId i"
  by (simp_all add: new_job_row_def)

lemma new_job_row_ok:
  "1 \<le> mx \<Longrightarrow> valid_policy pol \<Longrightarrow> job_ok (new_job_row now uuid p i ty ni pr ik hs mx tm pol cid)"
  by (simp add: job_ok_def new_job_row_def active_job_statuses_def isTerminalJobStatus_def parse_policy_value)

lemma submitted_row_Inr:
  assumes "submitted_row env now uuid i = Inr r"
  shows "job_ok r \<and> j_id r = uuid \<and> j_status r = J_QUEUED \<and> j_attempts r = 0 \<and> j_version r = 0 \<and>
         j_run_id r = sj_runId i \<and> j_run_stage_id r = sj_runStageId i \<and>
         1 \<le> j_max_attempts r \<and> j_max_attempts r \<le> 100 \<and> 1 \<le> j_timeout_ms r"
proof -
  obtain p ty ni pr ik hs mx tm pol cid where r: "r = new_job_row now uuid p i ty ni pr ik hs mx tm pol cid"
    and "1 \<le> mx" "mx \<le> 100" "1 \<le> tm" "valid_policy pol"
    using assms unfolding submitted_row_def Let_def
    by (clarsimp simp: tx_simps dest!: boundedInteger_Inr parseJobRetryPolicy_valid split: if_splits)
  then show ?thesis by (simp add: new_job_row_ok) (simp add: new_job_row_def)
qed

lemma submitJobInTransaction_Inr:
  assumes "submitJobInTransaction env now uuid i db = Inr ((r, created), db')"
  shows "if created
         then submitted_row env now uuid i = Inr r \<and> \<not> job_unique_conflict r db \<and>
              job_foreign_keys_ok r db \<and>
              (\<exists>d. db' = db\<lparr>jobs := jobs db @ [r], job_events := job_events db @
                 [\<lparr>e_job_id = uuid, e_type = ''JOB_SUBMITTED'', e_from = None, e_to = Some J_QUEUED,
                   e_worker_id = None, e_details = d\<rparr>]\<rparr>)
         else db' = db \<and> (\<exists>row. submitted_row env now uuid i = Inr row \<and> r \<in> set (jobs db) \<and>
              j_project_id r = j_project_id row \<and> j_idempotency_key r = j_idempotency_key row \<and>
              j_job_type r = j_job_type row \<and> j_input_hash r = j_input_hash row \<and>
              j_run_id r = j_run_id row \<and> j_run_stage_id r = j_run_stage_id row)"
  using assms unfolding submitJobInTransaction_def
  by (auto simp: tx_simps dest: find_SomeD split: if_splits)

lemma submitJobInTransaction_step:
  assumes "submitJobInTransaction env now uuid i db = Inr ((r, created), db')"
  shows "ledger_of db' = ledger_of db \<or> ledger_step (Touched uuid) (ledger_of db) (ledger_of db')"
proof (cases created)
  case True
  then have row: "submitted_row env now uuid i = Inr r" "\<not> job_unique_conflict r db"
    and db': "\<exists>d. db' = db\<lparr>jobs := jobs db @ [r], job_events := job_events db @
                 [\<lparr>e_job_id = uuid, e_type = ''JOB_SUBMITTED'', e_from = None, e_to = Some J_QUEUED,
                   e_worker_id = None, e_details = d\<rparr>]\<rparr>"
    using submitJobInTransaction_Inr[OF assms] by simp_all
  then show ?thesis
    using submitted_row_Inr[OF row(1)]
    by (auto simp: ledger_of_def job_unique_conflict_def intro!: ls_submit[of r, simplified])
next
  case False
  then show ?thesis using submitJobInTransaction_Inr[OF assms] by simp
qed

section \<open>Claiming in bulk is claiming one by one\<close>

definition claim_attempt :: "string \<Rightarrow> job_row \<Rightarrow> job_attempt" where
  "claim_attempt w c = \<lparr>a_job_id = j_id c, a_attempt_number = j_attempts c + 1, a_worker_id = w,
     a_status = AT J_CLAIMED, a_error_class = None, a_sanitized_error = None,
     a_retry_after_ms = None, a_completed_at = None\<rparr>"

definition claim_event :: "string \<Rightarrow> int \<Rightarrow> job_row \<Rightarrow> job_event" where
  "claim_event w d c = \<lparr>e_job_id = j_id c, e_type = ''JOB_CLAIMED'', e_from = Some (j_status c),
     e_to = Some J_CLAIMED, e_worker_id = Some w,
     e_details = JObj [(''attempt'', js_int (j_attempts c + 1)), (''leaseDurationMs'', js_int d)]\<rparr>"

lemma log_claim_Inr:
  "log_claim w d c db = Inr (u, db') \<Longrightarrow>
     db' = db\<lparr>job_attempts := job_attempts db @ [claim_attempt w c],
              job_events := job_events db @ [claim_event w d c]\<rparr>"
  by (auto simp: log_claim_def tx_simps claim_attempt_def claim_event_def)

lemma log_claims_Inr:
  "for_each (log_claim w d) cs db = Inr (u, db') \<Longrightarrow>
     db' = db\<lparr>job_attempts := job_attempts db @ map (claim_attempt w) cs,
              job_events := job_events db @ map (claim_event w d) cs\<rparr>"
proof (induction cs arbitrary: db)
  case Nil
  then show ?case by (simp add: tx_simps)
next
  case (Cons c cs)
  then obtain v mid where mid: "log_claim w d c db = Inr (v, mid)"
    "for_each (log_claim w d) cs mid = Inr (u, db')"
    by (auto simp: tx_simps)
  show ?case using Cons.IH[OF mid(2)] log_claim_Inr[OF mid(1)] by simp
qed

lemma update_where_split:
  assumes "\<And>r. j_id (f r) = j_id r" "k \<notin> K"
  shows "update_where (\<lambda>r. j_id r \<in> insert k K) f J =
         update_where (\<lambda>r. j_id r \<in> K) f (upd_key k f J)"
  using assms by (auto simp: update_where_def)

lemma claim_run:
  assumes "distinct (map j_id cs)"
    and "\<And>c. c \<in> set cs \<Longrightarrow> jobs_tbl.lookup (j_id c) J = Some c \<and>
           j_status c \<in> {J_QUEUED, J_RETRY_WAIT} \<and> j_attempts c < j_max_attempts c"
  shows "(ledger_step (Leased w))\<^sup>*\<^sup>* (J, A, E)
           (update_where (\<lambda>r. j_id r \<in> set (map j_id cs)) (claim_row now w d) J,
            A @ map (claim_attempt w) cs, E @ map (claim_event w d) cs)"
  using assms
proof (induction cs arbitrary: J A E)
  case Nil
  have "update_where (\<lambda>r. j_id r \<in> set (map j_id [])) (claim_row now w d) J = J"
    by (rule update_where_None) simp
  then show ?case by simp
next
  case (Cons c cs)
  let ?f = "claim_row now w d" and ?k = "j_id c"
  let ?J = "upd_key ?k ?f J" and ?A = "A @ [claim_attempt w c]" and ?E = "E @ [claim_event w d c]"
  have c: "jobs_tbl.lookup ?k J = Some c" "j_status c \<in> {J_QUEUED, J_RETRY_WAIT}"
    "j_attempts c < j_max_attempts c"
    using Cons.prems(2)[of c] by auto
  then have "ledger_step (Leased w) (J, A, E) (?J, ?A, ?E)"
    by (intro ls_claim[of ?k J c ?f])
      (auto simp: claim_attempt_def claim_event_def claim_row_def intro: claim_row_change[unfolded claim_row_def])
  moreover have "(ledger_step (Leased w))\<^sup>*\<^sup>* (?J, ?A, ?E)
      (update_where (\<lambda>r. j_id r \<in> set (map j_id cs)) ?f ?J,
       ?A @ map (claim_attempt w) cs, ?E @ map (claim_event w d) cs)"
  proof (rule Cons.IH)
    fix x assume x: "x \<in> set cs"
    then have "j_id x \<in> set (map j_id cs)" by simp
    then have "j_id x \<noteq> ?k" using Cons.prems(1) by (metis distinct.simps(2) list.simps(9))
    then have "jobs_tbl.lookup (j_id x) ?J = jobs_tbl.lookup (j_id x) J"
      using jobs_tbl.lookup_update_key[of ?f "j_id x" ?k J] by simp
    with x Cons.prems(2)[of x] show "jobs_tbl.lookup (j_id x) ?J = Some x \<and>
        j_status x \<in> {J_QUEUED, J_RETRY_WAIT} \<and> j_attempts x < j_max_attempts x"
      by simp
  qed (use Cons.prems(1) in simp)
  moreover have "update_where (\<lambda>r. j_id r \<in> set (map j_id (c # cs))) ?f J =
      update_where (\<lambda>r. j_id r \<in> set (map j_id cs)) ?f ?J"
    unfolding list.map list.set by (rule update_where_split) (use Cons.prems(1) in auto)
  ultimately show ?case
    by (simp only: list.map append.assoc append_Cons append_Nil converse_rtranclp_into_rtranclp)
qed

lemma claim_candidates_mem:
  "c \<in> set (claim_candidates now n ts rs db) \<Longrightarrow> c \<in> set (jobs db) \<and> claimable now ts rs c"
  unfolding claim_candidates_def by (auto dest: in_set_takeD)

lemma claim_candidates_distinct:
  assumes "jobs_tbl.keys_distinct (jobs db)"
  shows "distinct (map j_id (claim_candidates now n ts rs db))"
proof -
  have "distinct (map j_id (filter (claimable now ts rs) (jobs db)))"
    using assms by (simp add: jobs_tbl.keys_distinct_def distinct_map_filter)
  then have "distinct (map j_id (sort_key claim_rank (filter (claimable now ts rs) (jobs db))))"
    by (simp add: distinct_map)
  then show ?thesis
    unfolding claim_candidates_def by (simp only: take_map[symmetric] distinct_take)
qed

text \<open>A successful claim, on the checked arguments.\<close>

definition claimed_db :: "int \<Rightarrow> string \<Rightarrow> int \<Rightarrow> job_row list \<Rightarrow> database \<Rightarrow> database" where
  "claimed_db now w d cs db =
     db\<lparr>jobs := update_where (\<lambda>j. j_id j \<in> set (map j_id cs)) (claim_row now w d) (jobs db),
        job_attempts := job_attempts db @ map (claim_attempt w) cs,
        job_events := job_events db @ map (claim_event w d) cs\<rparr>"

lemma claimJobs_Inr:
  assumes "claimJobs now w0 n0 d0 ts0 rs0 db = Inr (out, db')"
  shows "\<exists>w n d ts rs. boundedText w0 500 = Inr w \<and>
       boundedInteger (js_default n0 (js_int 1)) 1 100 = Inr n \<and>
       boundedInteger d0 1 86400000 = Inr d \<and> boundedRunIds rs0 = Inr rs \<and>
       boundedJobTypes ts0 = Inr ts \<and>
       (if ts = Some [] \<or> rs = Some [] then out = [] \<and> db' = db
        else out = map (claim_row now w d) (claim_candidates now n ts rs db) \<and>
          db' = claimed_db now w d (claim_candidates now n ts rs db) db)"
proof -
  obtain w n d ts rs where args: "boundedText w0 500 = Inr w"
    "boundedInteger (js_default n0 (js_int 1)) 1 100 = Inr n" "boundedInteger d0 1 86400000 = Inr d"
    "boundedRunIds rs0 = Inr rs" "boundedJobTypes ts0 = Inr ts"
    and body: "(if ts = Some [] \<or> rs = Some [] then ret []
     else
       tbind (gets (claim_candidates now n ts rs)) (\<lambda>candidates.
       tbind (modify (\<lambda>db. db\<lparr>jobs := update_where (\<lambda>j. j_id j \<in> set (map j_id candidates))
                (claim_row now w d) (jobs db)\<rparr>)) (\<lambda>_.
       tbind (for_each (log_claim w d) candidates) (\<lambda>_.
       ret (map (claim_row now w d) candidates))))) db = Inr (out, db')"
    using assms unfolding claimJobs_def by (clarsimp simp only: tx_simps)
  have "if ts = Some [] \<or> rs = Some [] then out = [] \<and> db' = db
        else out = map (claim_row now w d) (claim_candidates now n ts rs db) \<and>
          db' = claimed_db now w d (claim_candidates now n ts rs db) db"
    using body by (auto simp: tx_simps claimed_db_def dest!: log_claims_Inr split: if_splits)
  with args show ?thesis by blast
qed

lemma claimJobs_step:
  assumes "claimJobs now w0 n0 d0 ts0 rs0 db = Inr (out, db')" "jobs_tbl.keys_distinct (jobs db)"
  shows "(ledger_step (Leased (js_trim w0)))\<^sup>*\<^sup>* (ledger_of db) (ledger_of db')"
proof -
  obtain w n d ts rs where w: "w = js_trim w0" and c: "if ts = Some [] \<or> rs = Some [] then out = [] \<and> db' = db
        else out = map (claim_row now w d) (claim_candidates now n ts rs db) \<and>
          db' = claimed_db now w d (claim_candidates now n ts rs db) db"
    using claimJobs_Inr[OF assms(1)] boundedText_Inr by blast
  have "jobs_tbl.lookup (j_id x) (jobs db) = Some x \<and> j_status x \<in> {J_QUEUED, J_RETRY_WAIT} \<and>
        j_attempts x < j_max_attempts x"
    if "x \<in> set (claim_candidates now n ts rs db)" for x
    using claim_candidates_mem[OF that] jobs_tbl.lookup_mem[OF assms(2)] by (auto simp: claimable_def)
  from claim_run[OF claim_candidates_distinct[OF assms(2)] this] c w show ?thesis
    by (auto simp: ledger_of_def claimed_db_def split: if_splits)
qed

end
