(* ===== verification/Job_Invariants.thy ===== *)
theory Job_Invariants
  imports Job_Ledger
begin

text \<open>
  The invariants of the job queue: well-formed rows, unique identifiers and idempotency keys,
  attempts numbered without gaps, and an event log that replays to the job table. They are proved
  for the abstract ledger steps and carried over to every interleaving of the operations of
  \<open>lib/services/jobs.ts\<close>.
\<close>

section \<open>Replaying the event log\<close>

fun legal_event :: "job_status option \<Rightarrow> job_status option \<Rightarrow> bool" where
  "legal_event None (Some t) = (t = J_QUEUED)"
| "legal_event (Some a) (Some b) = canTransitionJob a b"
| "legal_event _ None = False"

text \<open>Each event starts where the previous one ended and follows the transition table.\<close>

fun event_chain :: "job_status option \<Rightarrow> job_event list \<Rightarrow> bool" where
  "event_chain s [] = True"
| "event_chain s (e # es) = (e_from e = s \<and> legal_event s (e_to e) \<and> event_chain (e_to e) es)"

fun replay :: "job_status option \<Rightarrow> job_event list \<Rightarrow> job_status option" where
  "replay s [] = s"
| "replay s (e # es) = replay (e_to e) es"

lemma replay_append: "replay s (es @ fs) = replay (replay s es) fs"
  by (induction es arbitrary: s) auto

lemma event_chain_append:
  "event_chain s (es @ fs) \<longleftrightarrow> event_chain s es \<and> event_chain (replay s es) fs"
  by (induction es arbitrary: s) auto

definition events_of :: "string \<Rightarrow> job_event list \<Rightarrow> job_event list" where
  "events_of k E = filter (\<lambda>e. e_job_id e = k) E"

definition tries_of :: "string \<Rightarrow> job_attempt list \<Rightarrow> int list" where
  "tries_of k A = map a_attempt_number (filter (\<lambda>a. a_job_id a = k) A)"

definition workers_of :: "string \<Rightarrow> job_attempt list \<Rightarrow> string list" where
  "workers_of k A = map a_worker_id (filter (\<lambda>a. a_job_id a = k) A)"

section \<open>The invariant\<close>

definition idempotency_scope :: "job_row \<Rightarrow> string \<times> string" where
  "idempotency_scope j = (case_option [] id (j_project_id j), j_idempotency_key j)"

definition rows_ok :: "job_row list \<Rightarrow> bool" where
  "rows_ok J \<longleftrightarrow> jobs_tbl.keys_distinct J \<and> distinct (map idempotency_scope J) \<and> (\<forall>j\<in>set J. job_ok j)"

definition tries_ok :: "job_row list \<Rightarrow> job_attempt list \<Rightarrow> bool" where
  "tries_ok J A \<longleftrightarrow> (\<forall>k. tries_of k A =
     (case jobs_tbl.lookup k J of None \<Rightarrow> [] | Some j \<Rightarrow> [1..j_attempts j]))"

definition trail_ok :: "job_row list \<Rightarrow> job_event list \<Rightarrow> bool" where
  "trail_ok J E \<longleftrightarrow> (\<forall>k. event_chain None (events_of k E) \<and>
     replay None (events_of k E) = map_option j_status (jobs_tbl.lookup k J))"

text \<open>A leased job is leased to the worker of its last attempt.\<close>

definition owners_ok :: "job_row list \<Rightarrow> job_attempt list \<Rightarrow> bool" where
  "owners_ok J A \<longleftrightarrow> (\<forall>k j w. jobs_tbl.lookup k J = Some j \<longrightarrow> j_lease_owner j = Some w \<longrightarrow>
     workers_of k A \<noteq> [] \<and> last (workers_of k A) = w)"

fun ledger_ok :: "ledger \<Rightarrow> bool" where
  "ledger_ok (J, A, E) = (rows_ok J \<and> tries_ok J A \<and> owners_ok J A \<and> trail_ok J E)"

lemma tries_of_append: "tries_of k (A @ [a]) =
   tries_of k A @ (if a_job_id a = k then [a_attempt_number a] else [])"
  by (simp add: tries_of_def)

lemma tries_of_upd_try: "keeps_try h \<Longrightarrow> tries_of k (upd_try i n h A) = tries_of k A"
  by (induction A) (auto simp: tries_of_def upd_try_def update_where_def keeps_try_def)

lemma workers_of_append: "workers_of k (A @ [a]) =
   workers_of k A @ (if a_job_id a = k then [a_worker_id a] else [])"
  by (simp add: workers_of_def)

lemma workers_of_upd_try: "keeps_try h \<Longrightarrow> workers_of k (upd_try i n h A) = workers_of k A"
  by (induction A) (auto simp: workers_of_def upd_try_def update_where_def keeps_try_def)

lemma events_of_append: "events_of k (E @ [e]) =
   events_of k E @ (if e_job_id e = k then [e] else [])"
  by (simp add: events_of_def)

lemma row_change_ids: "row_change j j' \<Longrightarrow> j_id j' = j_id j \<and> idempotency_scope j' = idempotency_scope j"
  by (simp add: row_change_def job_identity_def idempotency_scope_def)

lemma rows_ok_change:
  assumes "rows_ok J" "jobs_tbl.lookup k J = Some j" "row_change j (f j)"
  shows "rows_ok (upd_key k f J)"
proof -
  have at: "r \<in> set J \<Longrightarrow> j_id r = k \<Longrightarrow> r = j" for r
    using assms(1,2) jobs_tbl.lookup_mem[of J r] by (simp add: rows_ok_def)
  have eq: "upd_key k f J = map (\<lambda>r. if r = j then f j else r) J"
    unfolding update_where_def
    by (rule map_cong[OF refl]) (metis at jobs_tbl.lookup_Some[OF assms(2)])
  have "map j_id (upd_key k f J) = map j_id J" "map idempotency_scope (upd_key k f J) = map idempotency_scope J"
    unfolding eq using row_change_ids[OF assms(3)] by simp_all
  moreover have "\<forall>r\<in>set (upd_key k f J). job_ok r"
    unfolding eq using assms by (auto simp: rows_ok_def row_change_def)
  ultimately show ?thesis using assms(1) by (simp add: rows_ok_def jobs_tbl.keys_distinct_def)
qed

lemma rows_ok_append:
  assumes "rows_ok J" "job_ok r"
    "\<not> list_ex (\<lambda>j. j_id j = j_id r \<or>
       (case_option [] id (j_project_id j) = case_option [] id (j_project_id r) \<and>
        j_idempotency_key j = j_idempotency_key r)) J"
  shows "rows_ok (J @ [r])"
  using assms by (auto simp: rows_ok_def jobs_tbl.keys_distinct_append list_ex_iff idempotency_scope_def)

lemma lookup_fresh: "\<not> list_ex (\<lambda>j. j_id j = k \<or> Q j) J \<Longrightarrow> jobs_tbl.lookup k J = None"
  by (auto simp: jobs_tbl.lookup_None list_ex_iff)

lemma ledger_step_keeps_ok:
  assumes "ledger_step l L L'" "ledger_ok L"
  shows "ledger_ok L'"
  using assms
proof (induction rule: ledger_step.induct)
  case (ls_submit r J e A E)
  have new: "jobs_tbl.lookup (j_id r) J = None" using ls_submit.hyps(5) by (rule lookup_fresh)
  have "rows_ok (J @ [r])" using ls_submit by (intro rows_ok_append) auto
  moreover have "tries_ok (J @ [r]) A"
    using ls_submit new
    by (auto simp: tries_ok_def jobs_tbl.lookup_append split: option.splits)
  moreover have "owners_ok (J @ [r]) A"
    using ls_submit new
    by (auto simp: owners_ok_def jobs_tbl.lookup_append job_ok_def active_job_statuses_def
        split: option.splits if_splits)
  moreover have "trail_ok (J @ [r]) (E @ [e])"
    using ls_submit new
    by (auto simp: trail_ok_def jobs_tbl.lookup_append events_of_append event_chain_append replay_append
        split: option.splits)
  ultimately show ?case by simp
next
  case (ls_claim k J j f a w e A E)
  note lk = jobs_tbl.lookup_update_key[of f, OF ls_claim.hyps(5)]
  have pos: "0 \<le> j_attempts j"
    using ls_claim jobs_tbl.lookup_Some[OF ls_claim.hyps(1)] by (auto simp: rows_ok_def job_ok_def)
  have "rows_ok (upd_key k f J)" using ls_claim by (intro rows_ok_change) auto
  moreover have "tries_ok (upd_key k f J) (A @ [a])"
    using ls_claim pos by (auto simp: tries_ok_def lk tries_of_append upto_rec2)
  moreover have "owners_ok (upd_key k f J) (A @ [a])"
    using ls_claim by (auto simp: owners_ok_def lk workers_of_append)
  moreover have "trail_ok (upd_key k f J) (E @ [e])"
    using ls_claim by (auto simp: trail_ok_def lk events_of_append event_chain_append replay_append canTransitionJob_def)
  ultimately show ?case by simp
next
  case (ls_move k J j f h e A E)
  note lk = jobs_tbl.lookup_update_key[of f, OF ls_move.hyps(5)]
  have "rows_ok (upd_key k f J)" using ls_move by (intro rows_ok_change) auto
  moreover have "tries_ok (upd_key k f J) (upd_try k (j_attempts j) h A)"
    using ls_move by (auto simp: tries_ok_def lk tries_of_upd_try)
  moreover have "owners_ok (upd_key k f J) (upd_try k (j_attempts j) h A)"
    using ls_move by (auto simp: owners_ok_def lk workers_of_upd_try split: if_splits)
  moreover have "trail_ok (upd_key k f J) (E @ [e])"
    using ls_move by (auto simp: trail_ok_def lk events_of_append event_chain_append replay_append)
  ultimately show ?case by simp
next
  case (ls_touch k J j f A E)
  note lk = jobs_tbl.lookup_update_key[of f, OF ls_touch.hyps(4)]
  have "rows_ok (upd_key k f J)" using ls_touch by (intro rows_ok_change) auto
  moreover have "tries_ok (upd_key k f J) A"
    using ls_touch by (auto simp: tries_ok_def lk)
  moreover have "owners_ok (upd_key k f J) A"
    using ls_touch by (auto simp: owners_ok_def lk split: if_splits)
  moreover have "trail_ok (upd_key k f J) E"
    using ls_touch by (auto simp: trail_ok_def lk)
  ultimately show ?case by simp
qed

interpretation ledger_inv: step_invariant "ledger_step l" ledger_ok for l
  by unfold_locales (rule ledger_step_keeps_ok)

section \<open>What a step can never undo\<close>

text \<open>
  A later state of a job: the same identity, no smaller version or attempt count, a status reached
  along the transition table; a succeeded or cancelled job is not touched again.
\<close>

definition job_later :: "job_row \<Rightarrow> job_row \<Rightarrow> bool" where
  "job_later j j' \<longleftrightarrow> job_identity j' = job_identity j \<and> j_version j \<le> j_version j' \<and>
     j_attempts j \<le> j_attempts j' \<and> canTransitionJob\<^sup>*\<^sup>* (j_status j) (j_status j') \<and>
     (j_status j \<in> {J_SUCCEEDED, J_CANCELLED} \<longrightarrow> j' = j)"

definition rows_later :: "ledger \<Rightarrow> ledger \<Rightarrow> bool" where
  "rows_later L L' \<longleftrightarrow> (\<forall>k j. jobs_tbl.lookup k (fst L) = Some j \<longrightarrow>
     (\<exists>j'. jobs_tbl.lookup k (fst L') = Some j' \<and> job_later j j'))"

lemma job_later_refl [simp]: "job_later j j"
  by (simp add: job_later_def)

lemma job_later_trans: "job_later a b \<Longrightarrow> job_later b c \<Longrightarrow> job_later a c"
  by (auto simp: job_later_def)

lemma job_later_change:
  "row_change j j' \<Longrightarrow> j_status j \<notin> {J_SUCCEEDED, J_CANCELLED} \<Longrightarrow>
   j_status j' = j_status j \<or> canTransitionJob (j_status j) (j_status j') \<Longrightarrow> job_later j j'"
  by (auto simp: job_later_def row_change_def)

lemma rows_later_update:
  assumes "jobs_tbl.lookup k J = Some j" "\<And>r. j_id (f r) = j_id r" "job_later j (f j)"
  shows "rows_later (J, X) (upd_key k f J, Y)"
  using assms by (auto simp: rows_later_def jobs_tbl.lookup_update_key[of f, OF assms(2)])

lemma canTransitionJob_not_final: "canTransitionJob a b \<Longrightarrow> a \<notin> {J_SUCCEEDED, J_CANCELLED}"
  by (auto simp: canTransitionJob_def)

lemma ledger_step_later: "ledger_step l L L' \<Longrightarrow> rows_later L L'"
proof (induction rule: ledger_step.induct)
  case (ls_submit r J e A E)
  then show ?case by (auto simp: rows_later_def jobs_tbl.lookup_append)
next
  case (ls_claim k J j f a w e A E)
  then show ?case
    by (intro rows_later_update job_later_change) (auto simp: canTransitionJob_def)
next
  case (ls_move k J j f h e A E)
  then show ?case
    by (intro rows_later_update job_later_change) (auto dest: canTransitionJob_not_final)
next
  case (ls_touch k J j f A E)
  then show ?case
    by (intro rows_later_update job_later_change) (auto simp: active_job_statuses_def)
qed

lemma rows_later_trans: "rows_later L M \<Longrightarrow> rows_later M N \<Longrightarrow> rows_later L N"
  unfolding rows_later_def by (meson job_later_trans)

lemma rows_later_refl: "rows_later L L"
  by (simp add: rows_later_def)

interpretation ledger_later: step_preorder "ledger_step l" rows_later for l
  by unfold_locales (blast intro: ledger_step_later rows_later_refl rows_later_trans)+

section \<open>All interleavings of the operations\<close>

datatype queue_op =
    Submit js_env string submit_job_input
  | SubmitWithin js_env string submit_job_input
  | Claim string jsv jsv "string list option" "string list option"
  | Start string string "int option"
  | Heartbeat string string jsv
  | Complete js_env string string jsv
  | Fail string string job_error_class string jsv jsv
  | RequestCancel string string "job_operator_audit option" bool
  | AcknowledgeCancel string string
  | Release string string
  | RecoverOne jsv "string list option" string
  | ManualRetry string string "job_operator_audit option"

definition done_tx :: "'a db_tx \<Rightarrow> unit db_tx" where
  "done_tx m = tbind m (\<lambda>_. ret ())"

fun perform :: "int \<Rightarrow> queue_op \<Rightarrow> unit db_tx" where
  "perform now (Submit env uuid i) = done_tx (submitJob env now uuid i)"
| "perform now (SubmitWithin env uuid i) = done_tx (submitJobInTransaction env now uuid i)"
| "perform now (Claim w n d ts rs) = done_tx (claimJobs now w n d ts rs)"
| "perform now (Start k w v) = done_tx (startJob now k w v)"
| "perform now (Heartbeat k w d) = done_tx (heartbeatJob now k w d)"
| "perform now (Complete env k w v) = done_tx (completeJob env now k w v)"
| "perform now (Fail k w c err ra rnd) = done_tx (failJob now k w c err ra rnd)"
| "perform now (RequestCancel k by audit rl) =
     done_tx (requestJobCancellationInTransaction now k by audit rl)"
| "perform now (AcknowledgeCancel k w) = done_tx (acknowledgeJobCancellation now k w)"
| "perform now (Release k w) = done_tx (releaseJobLease now k w)"
| "perform now (RecoverOne rnd rs k) = done_tx (recover_one now rnd rs k)"
| "perform now (ManualRetry k by audit) = done_tx (manualRetryJob now k by audit)"

text \<open>
  A step of the system: an operation of the queue commits, or another service commits a change
  outside the ledger. Operations that fail leave the database as it was.
\<close>

inductive queue_step :: "database \<Rightarrow> database \<Rightarrow> bool" where
  qs_op: "perform now op db = Inr ((), db') \<Longrightarrow> queue_step db db'"
| qs_other: "ledger_of db' = ledger_of db \<Longrightarrow> queue_step db db'"

text \<open>The worker an operation asks a lease for, or the job it may change.\<close>

fun op_label :: "queue_op \<Rightarrow> ledger_label" where
  "op_label (Submit env uuid i) = Touched uuid"
| "op_label (SubmitWithin env uuid i) = Touched uuid"
| "op_label (Claim w n d ts rs) = Leased (js_trim w)"
| "op_label (Start k w v) = Touched k"
| "op_label (Heartbeat k w d) = Touched k"
| "op_label (Complete env k w v) = Touched k"
| "op_label (Fail k w c err ra rnd) = Touched k"
| "op_label (RequestCancel k by audit rl) = Touched k"
| "op_label (AcknowledgeCancel k w) = Touched k"
| "op_label (Release k w) = Touched k"
| "op_label (RecoverOne rnd rs k) = Touched k"
| "op_label (ManualRetry k by audit) = Touched k"

lemma done_tx_Inr [tx_simps]: "done_tx m s = Inr (u, s') \<longleftrightarrow> (\<exists>a. m s = Inr (a, s'))"
  by (auto simp: done_tx_def tx_simps)

lemma submitJob_Inr:
  "submitJob env now uuid i db = Inr (r, db') \<Longrightarrow> submitJobInTransaction env now uuid i db = Inr (r, db')"
  by (auto simp: submitJob_def tx_simps split: option.splits)

lemma perform_refines:
  assumes "perform now op db = Inr (u, db')" "jobs_tbl.keys_distinct (jobs db)"
  shows "(ledger_step (op_label op))\<^sup>*\<^sup>* (ledger_of db) (ledger_of db')"
proof (cases op)
  case (Submit env uuid i)
  then obtain r c where "submitJobInTransaction env now uuid i db = Inr ((r, c), db')"
    using assms by (auto simp: tx_simps dest: submitJob_Inr)
  from submitJobInTransaction_step[OF this] show ?thesis using Submit by auto
next
  case (SubmitWithin env uuid i)
  then show ?thesis using assms by (auto simp: tx_simps dest!: submitJobInTransaction_step)
next
  case (Claim w n d ts rs)
  then show ?thesis using assms claimJobs_step by (auto simp: tx_simps)
next
  case (Start k w v)
  then show ?thesis using assms by (auto simp: tx_simps dest: startJob_step)
next
  case (Heartbeat k w d)
  then show ?thesis using assms by (auto simp: tx_simps dest: heartbeatJob_step)
next
  case (Complete env k w v)
  then show ?thesis using assms by (auto simp: tx_simps dest: completeJob_step)
next
  case (Fail k w c err ra rnd)
  then show ?thesis using assms by (auto simp: tx_simps dest: failJob_step)
next
  case (RequestCancel k by' audit rl)
  then show ?thesis
    using assms by (auto simp: tx_simps dest!: requestJobCancellationInTransaction_step)
next
  case (AcknowledgeCancel k w)
  then show ?thesis using assms by (auto simp: tx_simps dest: acknowledgeJobCancellation_step)
next
  case (Release k w)
  then show ?thesis using assms by (auto simp: tx_simps dest: releaseJobLease_step)
next
  case (RecoverOne rnd rs k)
  then show ?thesis using assms by (auto simp: tx_simps dest!: recover_one_step)
next
  case (ManualRetry k by' audit)
  then show ?thesis using assms by (auto simp: tx_simps dest: manualRetryJob_step)
qed

lemma ledger_ok_keys: "ledger_ok (ledger_of db) \<Longrightarrow> jobs_tbl.keys_distinct (jobs db)"
  by (simp add: ledger_of_def rows_ok_def)

lemma queue_step_keeps_ok:
  "queue_step db db' \<Longrightarrow> ledger_ok (ledger_of db) \<Longrightarrow> ledger_ok (ledger_of db')"
  by (induction rule: queue_step.induct)
    (auto dest: ledger_inv.run_keeps[OF perform_refines] ledger_ok_keys)

lemma queue_step_later:
  "queue_step db db' \<Longrightarrow> ledger_ok (ledger_of db) \<Longrightarrow> rows_later (ledger_of db) (ledger_of db')"
  by (induction rule: queue_step.induct)
    (auto dest: ledger_later.run_rel[OF perform_refines] ledger_ok_keys simp: rows_later_refl)

interpretation queue_inv: step_invariant queue_step "\<lambda>db. ledger_ok (ledger_of db)"
  by unfold_locales (rule queue_step_keeps_ok)

end
