(* ===== verification/Job_Properties.thy ===== *)
theory Job_Properties
  imports Job_Invariants
begin

text \<open>
  The properties of the durable job queue: what holds in every state reached by any interleaving
  of its operations, and what each operation promises to its caller.
\<close>

section \<open>A concrete queue\<close>

definition demo_project :: project_row where
  "demo_project = \<lparr>p_id = ''p'', p_core_question = ''why'', p_background = None, p_purpose = ''use'',
     p_audience = ''team'', p_scope = ''all'', p_exclusions = None, p_jurisdiction = None,
     p_research_date = ''2026-01-01'', p_source_max_age_days = 365, p_deadline = None,
     p_deliverable_formats = [''MARKDOWN''], p_special_requirements = None,
     p_scope_approved_at = Some ''2026-01-02'', p_plan_approved_at = Some ''2026-01-03'',
     p_scope_approved_revision_id = None, p_plan_approved_revision_id = None, p_updated_at = 0\<rparr>"

definition demo_db :: database where
  "demo_db = empty_database\<lparr>projects := [demo_project]\<rparr>"

definition demo_input :: submit_job_input where
  "demo_input = \<lparr>sj_projectId = Some ''p'', sj_runId = None, sj_runStageId = None, sj_stage = None,
     sj_jobType = ''EXPORT'', sj_inputReference = JObj [(''n'', JBool True)],
     sj_idempotencyKey = ''key'', sj_correlationId = None, sj_parentJobId = None,
     sj_priority = JUndefined, sj_maxAttempts = js_int 2, sj_timeoutMs = JUndefined,
     sj_retryPolicy = JUndefined, sj_scheduledAt = None\<rparr>"

definition after_tx :: "'a db_tx \<Rightarrow> database \<Rightarrow> database" where
  "after_tx m db = snd (withTransaction m db)"

lemma queue_step_after: "queue_step db (after_tx (perform now op) db)"
  by (cases "perform now op db")
    (auto simp: after_tx_def withTransaction_def intro: qs_op qs_other)

lemma queue_run_after:
  assumes "queue_step\<^sup>*\<^sup>* a b"
  shows "queue_step\<^sup>*\<^sup>* a (after_tx (perform now op) b)"
  using assms queue_step_after[of b now op] by (rule rtranclp.rtrancl_into_rtrancl)

definition demo_submitted :: database where
  "demo_submitted = after_tx (perform 0 (Submit demo_env ''j1'' demo_input)) demo_db"

definition demo_claimed :: database where
  "demo_claimed = after_tx (perform 5 (Claim ''w'' JUndefined (js_int 100) None None)) demo_submitted"

lemma demo_ledger: "ledger_of demo_db = ([], [], [])"
  by (simp add: ledger_of_def demo_db_def)

lemma demo_run: "queue_step\<^sup>*\<^sup>* demo_db demo_claimed" "queue_step\<^sup>*\<^sup>* demo_db demo_submitted"
  "queue_step\<^sup>*\<^sup>* demo_submitted demo_claimed"
  unfolding demo_claimed_def demo_submitted_def by (intro queue_run_after rtranclp.rtrancl_refl)+

lemma reachable_ok: "queue_step\<^sup>*\<^sup>* db0 db \<Longrightarrow> ledger_of db0 = ([], [], []) \<Longrightarrow> ledger_ok (ledger_of db)"
  by (erule queue_inv.run_keeps)
    (simp add: rows_ok_def jobs_tbl.keys_distinct_def tries_ok_def tries_of_def owners_ok_def
      jobs_tbl.lookup_def trail_ok_def events_of_def)

section \<open>Every reachable state\<close>

text \<open>
  \<^bold>\<open>C1.\<close> In every state reached from an empty queue by any interleaving of the queue's
  operations: job identifiers and idempotency keys are unique; a job holds a lease, an expiry and
  a heartbeat exactly while it is claimed, running or being cancelled; it never uses more attempts
  than it is allowed; it has a completion time exactly in a terminal status and an output hash
  exactly when it succeeded; its attempts are numbered 1, 2, ... up to its attempt counter without
  gaps; and its lease belongs to the worker of its last attempt.
\<close>

theorem queue_invariant:
  assumes "queue_step\<^sup>*\<^sup>* db0 db" "ledger_of db0 = ([], [], [])"
  shows "distinct (map j_id (jobs db)) \<and> distinct (map idempotency_scope (jobs db)) \<and>
         (\<forall>j \<in> set (jobs db). job_ok j \<and>
            tries_of (j_id j) (job_attempts db) = [1..j_attempts j] \<and>
            (\<forall>w. j_lease_owner j = Some w \<longrightarrow> last (workers_of (j_id j) (job_attempts db)) = w))"
proof -
  have ok: "ledger_ok (ledger_of db)" by (rule reachable_ok[OF assms])
  then have d: "jobs_tbl.keys_distinct (jobs db)" by (rule ledger_ok_keys)
  have "tries_of (j_id j) (job_attempts db) = [1..j_attempts j] \<and>
        (\<forall>w. j_lease_owner j = Some w \<longrightarrow> last (workers_of (j_id j) (job_attempts db)) = w)"
    if "j \<in> set (jobs db)" for j
    using ok jobs_tbl.lookup_mem[OF d that] by (simp add: ledger_of_def tries_ok_def owners_ok_def)
  with ok d show ?thesis
    by (simp add: ledger_of_def rows_ok_def jobs_tbl.keys_distinct_def)
qed

theorem queue_invariant_witness:
  "distinct (map j_id (jobs demo_claimed)) \<and>
   map (\<lambda>j. (j_status j, j_lease_owner j, j_attempts j)) (jobs demo_claimed) =
     [(J_CLAIMED, Some ''w'', 1)]"
proof
  show "distinct (map j_id (jobs demo_claimed))"
    using queue_invariant[OF demo_run(1) demo_ledger] by blast
qed code_simp

text \<open>
  \<^bold>\<open>C2.\<close> The event log is a faithful history: in every reachable state the events of a job start
  with its submission, each event starts in the status the previous one ended in and follows the
  transition table, and replaying them gives the status stored in the job's row; an identifier
  with no job has no events.
\<close>

theorem event_log_replays:
  assumes "queue_step\<^sup>*\<^sup>* db0 db" "ledger_of db0 = ([], [], [])"
  shows "event_chain None (events_of k (job_events db)) \<and>
         replay None (events_of k (job_events db)) = map_option j_status (find_job k db)"
  using reachable_ok[OF assms] by (simp add: ledger_of_def trail_ok_def find_job_tbl)

theorem event_log_replays_witness:
  "replay None (events_of ''j1'' (job_events demo_claimed)) = Some J_CLAIMED \<and>
   map e_type (job_events demo_claimed) = [''JOB_SUBMITTED'', ''JOB_CLAIMED'']"
proof
  have "map_option j_status (find_job ''j1'' demo_claimed) = Some J_CLAIMED" by code_simp
  then show "replay None (events_of ''j1'' (job_events demo_claimed)) = Some J_CLAIMED"
    using event_log_replays[OF demo_run(1) demo_ledger, of "''j1''"] by simp
qed code_simp

lemma queue_later:
  assumes "queue_step\<^sup>*\<^sup>* db db'" "ledger_ok (ledger_of db)"
  shows "rows_later (ledger_of db) (ledger_of db')"
  using assms
proof (induction rule: rtranclp_induct)
  case (step a b)
  then have "rows_later (ledger_of a) (ledger_of b)"
    by (blast intro: queue_step_later queue_inv.run_keeps)
  with step show ?case by (blast intro: rows_later_trans)
qed (simp add: rows_later_refl)

text \<open>
  History is never rewritten: along any run, a job keeps its identity (project, run, stage,
  type, input, idempotency key, retry policy), its version and attempt counter never decrease, its
  status moves only along the transition table, and once it succeeded or was cancelled its row
  never changes again.
\<close>

theorem queue_history:
  assumes "queue_step\<^sup>*\<^sup>* db db'" "ledger_ok (ledger_of db)" "find_job k db = Some j"
  shows "\<exists>j'. find_job k db' = Some j' \<and> job_identity j' = job_identity j \<and>
           j_version j \<le> j_version j' \<and> j_attempts j \<le> j_attempts j' \<and>
           canTransitionJob\<^sup>*\<^sup>* (j_status j) (j_status j') \<and>
           (j_status j \<in> {J_SUCCEEDED, J_CANCELLED} \<longrightarrow> j' = j)"
proof -
  have "\<exists>j'. find_job k db' = Some j' \<and> job_later j j'"
    using queue_later[OF assms(1,2)] assms(3) by (simp add: rows_later_def ledger_of_def find_job_tbl)
  then show ?thesis by (simp only: job_later_def)
qed

theorem queue_history_witness:
  "\<exists>j'. find_job ''j1'' demo_claimed = Some j' \<and> j_version j' \<ge> 0 \<and>
     canTransitionJob\<^sup>*\<^sup>* J_QUEUED (j_status j')"
proof -
  have "map_option (\<lambda>j. (j_status j, j_version j)) (find_job ''j1'' demo_submitted) = Some (J_QUEUED, 0)"
    by code_simp
  then obtain j where j: "find_job ''j1'' demo_submitted = Some j" "j_status j = J_QUEUED" "j_version j = 0"
    by auto
  from queue_history[OF demo_run(3) reachable_ok[OF demo_run(2) demo_ledger] j(1)] j(2,3) show ?thesis by auto
qed

section \<open>Claiming\<close>

lemma claim_row_rank [simp]: "claim_rank (claim_row now w d j) = claim_rank j"
  by (simp add: claim_rank_def claim_row_def)

lemma claim_row_lease [simp]:
  "j_lease_expires_at (claim_row now w d j) = Some (now + d)"
  "j_max_attempts (claim_row now w d j) = j_max_attempts j"
  by (simp_all add: claim_row_def)

lemma find_claimed:
  "find_job k (claimed_db now w d cs db) =
     map_option (\<lambda>j. if j_id j \<in> set (map j_id cs) then claim_row now w d j else j) (find_job k db)"
  unfolding find_job_tbl claimed_db_def by (simp add: jobs_tbl.lookup_update_where)

lemma candidates_best:
  assumes "c \<in> set (jobs db)" "claimable now ts rs c" "c \<notin> set (claim_candidates now n ts rs db)"
  shows "length (claim_candidates now n ts rs db) = nat n \<and>
         (\<forall>x \<in> set (claim_candidates now n ts rs db). claim_rank x \<le> claim_rank c)"
proof -
  let ?s = "sort_key claim_rank (filter (claimable now ts rs) (jobs db))"
  have "c \<in> set ?s" using assms(1,2) by simp
  then have drop: "c \<in> set (drop (nat n) ?s)"
    using assms(3) unfolding claim_candidates_def
    by (metis Un_iff append_take_drop_id set_append)
  then have "nat n \<le> length ?s"
    by (metis drop_all empty_iff list.set(1) nat_le_linear)
  moreover have "sorted (map claim_rank ?s)" by (rule sorted_sort_key)
  ultimately show ?thesis
    unfolding claim_candidates_def using sorted_key_take_drop[OF _ _ drop]
    by (simp only: length_take min_absorb2) blast
qed

text \<open>
  \<^bold>\<open>C36.\<close> A successful claim hands out at most \<open>limit\<close> jobs. Each was waiting, due, and had an attempt
  left; it is now leased to the caller until \<open>now + lease\<close> with its attempt counter advanced by
  one, within its maximum. Every other job is untouched, and a due job that was passed over ranks
  (by priority, then schedule, then identifier) after every job handed out, and was passed over
  only because the limit was reached.
\<close>

theorem claimJobs_correct:
  assumes run: "claimJobs now w n d ts rs db = Inr (out, db')" and keys: "distinct (map j_id (jobs db))"
    and n: "boundedInteger (js_default n (js_int 1)) 1 100 = Inr limit"
    and d: "boundedInteger d 1 86400000 = Inr lease"
    and ts: "boundedJobTypes ts = Inr types" and rs: "boundedRunIds rs = Inr runs"
  shows "length out \<le> nat limit \<and>
    (\<forall>j \<in> set out. find_job (j_id j) db' = Some j \<and> j_status j = J_CLAIMED \<and>
       j_lease_owner j = Some (js_trim w) \<and> j_lease_expires_at j = Some (now + lease) \<and>
       (\<exists>c. find_job (j_id j) db = Some c \<and> claimable now types runs c \<and>
            j_attempts j = j_attempts c + 1 \<and> j_attempts j \<le> j_max_attempts j)) \<and>
    (\<forall>k. k \<notin> j_id ` set out \<longrightarrow> find_job k db' = find_job k db) \<and>
    (\<forall>c \<in> set (jobs db). claimable now types runs c \<longrightarrow> j_id c \<notin> j_id ` set out \<longrightarrow>
       length out = nat limit \<and> (\<forall>j \<in> set out. claim_rank j \<le> claim_rank c))"
proof (cases "types = Some [] \<or> runs = Some []")
  case True
  then have "out = [] \<and> db' = db" and no: "\<not> claimable now types runs c" for c
    using claimJobs_Inr[OF run] ts rs by (auto simp: claimable_def split: option.splits)
  then show ?thesis by simp
next
  case False
  define cs where "cs = claim_candidates now limit types runs db"
  let ?f = "claim_row now (js_trim w) lease"
  have out: "out = map ?f cs" and db': "db' = claimed_db now (js_trim w) lease cs db"
    using claimJobs_Inr[OF run] n d ts rs False by (auto simp: cs_def dest: boundedText_Inr)
  have keys': "jobs_tbl.keys_distinct (jobs db)" using keys by (simp add: jobs_tbl.keys_distinct_def)
  have c: "find_job (j_id c) db = Some c \<and> claimable now types runs c" if "c \<in> set cs" for c
    using claim_candidates_mem that jobs_tbl.lookup_mem[OF keys']
    unfolding cs_def find_job_tbl by blast
  have ids: "j_id ` set out = set (map j_id cs)" by (simp add: out image_image)
  have 1: "length out \<le> nat limit" by (simp add: out cs_def claim_candidates_def)
  have 2: "find_job (j_id j) db' = Some j \<and> j_status j = J_CLAIMED \<and>
       j_lease_owner j = Some (js_trim w) \<and> j_lease_expires_at j = Some (now + lease) \<and>
       (\<exists>c. find_job (j_id j) db = Some c \<and> claimable now types runs c \<and>
            j_attempts j = j_attempts c + 1 \<and> j_attempts j \<le> j_max_attempts j)"
    if j: "j \<in> set out" for j
  proof -
    obtain x where x: "x \<in> set cs" "j = ?f x" using j by (auto simp: out)
    from c[OF x(1)] x show ?thesis by (auto simp: db' find_claimed claimable_def)
  qed
  have 3: "find_job k db' = find_job k db" if "k \<notin> j_id ` set out" for k
    using that by (auto simp: db' find_claimed ids dest: find_job_SomeD split: option.splits
        simp: map_option_case)
  have 4: "length out = nat limit \<and> (\<forall>j \<in> set out. claim_rank j \<le> claim_rank c)"
    if "c \<in> set (jobs db)" "claimable now types runs c" "j_id c \<notin> j_id ` set out" for c
  proof -
    have "c \<notin> set cs" using that(3) by (auto simp: ids)
    with candidates_best[OF that(1,2)] show ?thesis by (auto simp: out cs_def)
  qed
  show ?thesis using 1 2 3 4 by blast
qed

theorem claimJobs_correct_witness:
  "\<exists>out db'. claimJobs 5 ''w'' JUndefined (js_int 100) None None demo_submitted = Inr (out, db') \<and>
     length out = 1 \<and> (\<forall>j \<in> set out. find_job (j_id j) db' = Some j \<and> j_lease_expires_at j = Some 105)"
proof -
  let ?r = "claimJobs 5 ''w'' JUndefined (js_int 100) None None demo_submitted"
  have "\<not> isl ?r" "length (fst (projr ?r)) = 1" "distinct (map j_id (jobs demo_submitted))" by code_simp+
  then obtain out db' where r: "?r = Inr (out, db')" "length out = 1" by (cases ?r) auto
  have "boundedInteger (js_default JUndefined (js_int 1)) 1 100 = Inr 1"
    "boundedInteger (js_int 100) 1 86400000 = Inr 100" "boundedJobTypes None = Inr None"
    "boundedRunIds None = Inr None"
    by code_simp+
  from claimJobs_correct[OF r(1) _ this] r(2) show ?thesis
    using \<open>distinct (map j_id (jobs demo_submitted))\<close> by (intro exI[of _ out] exI[of _ db']) (auto simp: r(1))
qed

lemma log_claims_total:
  assumes "distinct (map j_id cs)"
    and "\<forall>c\<in>set cs. canTransitionJob (j_status c) J_CLAIMED \<and>
           (\<forall>a\<in>set (job_attempts db). a_job_id a = j_id c \<longrightarrow> a_attempt_number a \<noteq> j_attempts c + 1)"
  shows "\<exists>db'. for_each (log_claim w d) cs db = Inr ((), db')"
  using assms
proof (induction cs arbitrary: db)
  case Nil
  then show ?case by (simp add: ret_def)
next
  case (Cons c cs)
  let ?mid = "db\<lparr>job_attempts := job_attempts db @ [claim_attempt w c],
                 job_events := job_events db @ [claim_event w d c]\<rparr>"
  have "\<not> list_ex (\<lambda>a. a_job_id a = j_id c \<and> a_attempt_number a = j_attempts c + 1) (job_attempts db)"
    using Cons.prems(2) by (auto simp: list_ex_iff)
  then have c: "log_claim w d c db = Inr ((), ?mid)"
    using Cons.prems(2)
    by (simp add: log_claim_def tx_defs recordJobEvent_def assertJobTransition_def claim_attempt_def
        claim_event_def)
  have "\<exists>db'. for_each (log_claim w d) cs ?mid = Inr ((), db')"
    using Cons.prems by (intro Cons.IH) (auto simp: claim_attempt_def)
  with c show ?case by (auto simp: tbind_def)
qed

text \<open>
  In every reachable state a claim with well-formed arguments goes through: no combination
  of earlier submissions, failures, releases, recoveries and retries makes it collide with an
  attempt row that already exists.
\<close>

theorem claimJobs_succeeds:
  assumes "queue_step\<^sup>*\<^sup>* db0 db" "ledger_of db0 = ([], [], [])"
    and w: "boundedText w 500 = Inr owner" and n: "boundedInteger (js_default n (js_int 1)) 1 100 = Inr limit"
    and d: "boundedInteger d 1 86400000 = Inr lease"
    and ts: "boundedJobTypes ts = Inr types" "case types of None \<Rightarrow> True | Some us \<Rightarrow> distinct us"
    and rs: "boundedRunIds rs = Inr runs"
  shows "\<exists>out db'. claimJobs now w n d ts rs db = Inr (out, db')"
proof -
  let ?cs = "claim_candidates now limit types runs db"
  have ok: "ledger_ok (ledger_of db)" by (rule reachable_ok[OF assms(1,2)])
  have keys: "jobs_tbl.keys_distinct (jobs db)" by (rule ledger_ok_keys[OF ok])
  have "a_attempt_number a \<noteq> j_attempts c + 1"
    if "c \<in> set ?cs" "a \<in> set (job_attempts db)" "a_job_id a = j_id c" for a c
  proof -
    have "jobs_tbl.lookup (j_id c) (jobs db) = Some c"
      using claim_candidates_mem[OF that(1)] jobs_tbl.lookup_mem[OF keys] by blast
    then have "tries_of (j_id c) (job_attempts db) = [1..j_attempts c]"
      using ok by (simp add: ledger_of_def tries_ok_def)
    moreover have "a_attempt_number a \<in> set (tries_of (j_id c) (job_attempts db))"
      using that(2,3) by (auto simp: tries_of_def)
    ultimately show ?thesis by simp
  qed
  moreover have "canTransitionJob (j_status c) J_CLAIMED" if "c \<in> set ?cs" for c
    using claim_candidates_mem[OF that] by (auto simp: claimable_def canTransitionJob_def)
  ultimately have "\<exists>db'. for_each (log_claim owner lease) ?cs
      (db\<lparr>jobs := update_where (\<lambda>j. j_id j \<in> set (map j_id ?cs)) (claim_row now owner lease) (jobs db)\<rparr>) =
      Inr ((), db')"
    by (intro log_claims_total claim_candidates_distinct[OF keys]) simp
  then show ?thesis
    using w n d ts rs by (auto simp: claimJobs_def tx_defs split: sum.splits)
qed

theorem claimJobs_succeeds_witness:
  "\<exists>out db'. claimJobs 5 ''w'' JUndefined (js_int 100) None None demo_claimed = Inr (out, db')"
proof -
  have "boundedText ''w'' 500 = Inr ''w''"
    "boundedInteger (js_default JUndefined (js_int 1)) 1 100 = Inr 1"
    "boundedInteger (js_int 100) 1 86400000 = Inr 100" "boundedJobTypes None = Inr None"
    "boundedRunIds None = Inr None"
    by code_simp+
  from claimJobs_succeeds[OF demo_run(1) demo_ledger this(1-4) _ this(5)] show ?thesis by simp
qed

section \<open>Leases\<close>

text \<open>The job and the worker of an operation that runs under a lease.\<close>

fun op_fence :: "queue_op \<Rightarrow> (string \<times> string) option" where
  "op_fence (Start k w v) = Some (k, w)"
| "op_fence (Heartbeat k w d) = Some (k, w)"
| "op_fence (Complete env k w v) = Some (k, w)"
| "op_fence (Fail k w c err ra rnd) = Some (k, w)"
| "op_fence (AcknowledgeCancel k w) = Some (k, w)"
| "op_fence (Release k w) = Some (k, w)"
| "op_fence _ = None"

definition holds_lease :: "string \<Rightarrow> string \<Rightarrow> ledger \<Rightarrow> bool" where
  "holds_lease w k L \<longleftrightarrow> (\<exists>j. jobs_tbl.lookup k (fst L) = Some j \<and> j_lease_owner j = Some w)"

lemma lease_current_Some: "lease_current now j \<Longrightarrow> \<exists>t. j_lease_expires_at j = Some t \<and> now < t"
  by (auto simp: lease_current_def split: option.splits)

lemma fence_lease:
  assumes "perform now op db = Inr (u, db')" "op_fence op = Some (k, w)"
  shows "\<exists>j. find_job k db = Some j \<and> j_lease_owner j = Some (js_trim w) \<and> lease_current now j"
  using assms
  by (cases op) (auto simp: tx_simps startJob_def heartbeatJob_def completeJob_def failJob_def
      acknowledgeJobCancellation_def releaseJobLease_def Let_def dest!: boundedText_Inr)

lemma find_job_ledger: "find_job k db = jobs_tbl.lookup k (fst (ledger_of db))"
  by (simp add: ledger_of_def find_job_tbl)

text \<open>Nobody but a claim by \<open>w\<close> itself gives \<open>w\<close> a lease.\<close>

lemma holds_lease_update:
  assumes "jobs_tbl.lookup i J = Some j" "\<And>r. j_id (f r) = j_id r"
    "j_lease_owner (f j) = j_lease_owner j \<or> j_lease_owner (f j) \<noteq> Some w"
    "holds_lease w k (upd_key i f J, Y)"
  shows "holds_lease w k (J, X)"
  using assms by (auto simp: holds_lease_def jobs_tbl.lookup_update_key[of f, OF assms(2)] split: if_splits)

lemma ledger_step_lease:
  "ledger_step l L L' \<Longrightarrow> l \<noteq> Leased w \<Longrightarrow> holds_lease w k L' \<Longrightarrow> holds_lease w k L"
proof (induction rule: ledger_step.induct)
  case (ls_submit r J e A E)
  then show ?case
    by (auto simp: holds_lease_def jobs_tbl.lookup_append job_ok_def active_job_statuses_def
        split: option.splits if_splits)
next
  case (ls_claim i J j f a v e A E)
  show ?case
    by (rule holds_lease_update[OF ls_claim.hyps(1) ls_claim.hyps(5) _ ls_claim.prems(2)])
      (use ls_claim.hyps ls_claim.prems(1) in auto)
next
  case (ls_move i J j f h e A E)
  show ?case
    by (rule holds_lease_update[OF ls_move.hyps(1) ls_move.hyps(5) _ ls_move.prems(2)])
      (use ls_move.hyps ls_move.prems(1) in auto)
next
  case (ls_touch i J j f A E)
  show ?case
    by (rule holds_lease_update[OF ls_touch.hyps(1) ls_touch.hyps(4) _ ls_touch.prems(2)])
      (use ls_touch.hyps ls_touch.prems(1) in auto)
qed

text \<open>A step in which \<open>w\<close> claims nothing.\<close>

definition quiet_step :: "string \<Rightarrow> database \<Rightarrow> database \<Rightarrow> bool" where
  "quiet_step w db db' \<longleftrightarrow>
     (\<exists>now op. perform now op db = Inr ((), db') \<and> op_label op \<noteq> Leased w) \<or> ledger_of db' = ledger_of db"

interpretation lease_gone: step_invariant "ledger_step l" "\<lambda>L. l \<noteq> Leased w \<longrightarrow> \<not> holds_lease w k L" for l w k
  by unfold_locales (blast dest: ledger_step_lease)

lemma quiet_step_queue: "quiet_step w db db' \<Longrightarrow> queue_step db db'"
  by (auto simp: quiet_step_def intro: queue_step.intros)

lemma quiet_step_lease:
  assumes "quiet_step w db db'" "ledger_ok (ledger_of db)" "\<not> holds_lease w k (ledger_of db)"
  shows "\<not> holds_lease w k (ledger_of db')"
proof (cases "ledger_of db' = ledger_of db")
  case False
  then obtain now op where "perform now op db = Inr ((), db')" "op_label op \<noteq> Leased w"
    using assms(1) by (auto simp: quiet_step_def)
  then show ?thesis
    using lease_gone.run_keeps[OF perform_refines] ledger_ok_keys[OF assms(2)] assms(3) by blast
qed (use assms in simp)

interpretation quiet: step_invariant "quiet_step w"
  "\<lambda>db. ledger_ok (ledger_of db) \<and> \<not> holds_lease w k (ledger_of db)" for w k
  by unfold_locales (auto dest: quiet_step_queue queue_step_keeps_ok quiet_step_lease)

text \<open>
  Starting, heartbeating, completing, failing, acknowledging a cancellation and releasing
  a job succeed only for the worker that holds an unexpired lease on it; that worker is the one
  recorded in the attempt row whose number is the job's attempt counter.
\<close>

theorem fenced_operations:
  assumes "queue_step\<^sup>*\<^sup>* db0 db" "ledger_of db0 = ([], [], [])"
    and "perform now op db = Inr (u, db')" "op_fence op = Some (k, w)"
  shows "\<exists>j t. find_job k db = Some j \<and> j_lease_owner j = Some (js_trim w) \<and>
           j_lease_expires_at j = Some t \<and> now < t \<and>
           last (tries_of k (job_attempts db)) = j_attempts j \<and>
           last (workers_of k (job_attempts db)) = js_trim w"
proof -
  have ok: "ledger_ok (ledger_of db)" by (rule reachable_ok[OF assms(1,2)])
  obtain j t where j: "find_job k db = Some j" "j_lease_owner j = Some (js_trim w)"
    "j_lease_expires_at j = Some t" "now < t"
    using fence_lease[OF assms(3,4)] lease_current_Some by blast
  have "job_ok j" using ok find_job_SomeD[OF j(1)] by (simp add: ledger_of_def rows_ok_def)
  then have "1 \<le> j_attempts j" using j(2) by (simp add: job_ok_def)
  then have "last (tries_of k (job_attempts db)) = j_attempts j"
    using ok j(1) by (simp add: ledger_of_def tries_ok_def find_job_tbl upto_rec2)
  moreover have "last (workers_of k (job_attempts db)) = js_trim w"
    using ok j(1,2) by (simp add: ledger_of_def owners_ok_def find_job_tbl)
  ultimately show ?thesis using j by blast
qed

theorem fenced_operations_witness:
  "\<exists>j t. find_job ''j1'' demo_claimed = Some j \<and> j_lease_expires_at j = Some t \<and> 6 < t"
proof -
  have "\<not> isl (perform 6 (Start ''j1'' ''w'' None) demo_claimed)" by code_simp
  then obtain u db' where "perform 6 (Start ''j1'' ''w'' None) demo_claimed = Inr (u, db')"
    by (cases "perform 6 (Start ''j1'' ''w'' None) demo_claimed") auto
  from fenced_operations[OF demo_run(1) demo_ledger this] show ?thesis by auto
qed

text \<open>
  \<^bold>\<open>C3.\<close> A lost lease stays lost: if a worker does not hold the lease of a job, then after any run
  in which that worker claims nothing, every operation of that worker on the job still fails and
  leaves the database unchanged, whatever the other workers, operators and services did.
\<close>

theorem lost_lease_stays_lost:
  assumes ok: "ledger_ok (ledger_of db)" and lost: "\<not> holds_lease (js_trim w) k (ledger_of db)"
    and run: "(quiet_step (js_trim w))\<^sup>*\<^sup>* db db'" and op: "op_fence op = Some (k, w)"
  shows "\<exists>e. withTransaction (perform now op) db' = (Inl e, db')"
proof -
  have "\<not> holds_lease (js_trim w) k (ledger_of db')"
    using quiet.run_keeps[OF run] ok lost by blast
  then have "perform now op db' \<noteq> Inr (u, db'')" for u db''
    using fence_lease[OF _ op, of now db' u db''] by (auto simp: holds_lease_def find_job_ledger)
  then show ?thesis
    by (cases "perform now op db'") (auto simp: withTransaction_def)
qed

theorem lost_lease_stays_lost_witness:
  "\<exists>e. withTransaction (perform 6 (Complete demo_env ''j1'' ''other'' JNull)) demo_claimed =
         (Inl e, demo_claimed)"
proof -
  have eq: "js_trim ''other'' = ''other''" by code_simp
  have "map_option j_lease_owner (find_job ''j1'' demo_claimed) = Some (Some ''w'')" by code_simp
  then have "\<not> holds_lease (js_trim ''other'') ''j1'' (ledger_of demo_claimed)"
    by (auto simp: eq holds_lease_def find_job_ledger)
  from lost_lease_stays_lost[OF reachable_ok[OF demo_run(1) demo_ledger] this rtranclp.rtrancl_refl, of "Complete demo_env ''j1'' ''other'' JNull"]
  show ?thesis by simp
qed

section \<open>Releasing the last attempt\<close>














section \<open>Submission\<close>

text \<open>Submitting under a key that is in use: the stored job, or a conflict, and no change.\<close>

lemma submit_same_key:
  assumes ok: "ledger_ok (ledger_of db)" and j: "find_job k db = Some j"
    and row: "submitted_row env now uuid i = Inr row"
    and key: "j_project_id row = j_project_id j" "j_idempotency_key row = j_idempotency_key j"
  shows "submitJobInTransaction env now uuid i db =
     (if j_job_type j = j_job_type row \<and> j_input_hash j = j_input_hash row \<and>
         j_run_id j = j_run_id row \<and> j_run_stage_id j = j_run_stage_id row
      then Inr ((j, False), db) else Inl (conflict ''IDEMPOTENCY_KEY_REUSED''))"
proof -
  have mem: "j \<in> set (jobs db)" using find_job_SomeD[OF j] by simp
  have scopes: "distinct (map idempotency_scope (jobs db))" using ok by (simp add: ledger_of_def rows_ok_def)
  let ?P = "\<lambda>x. j_project_id x = j_project_id row \<and> j_idempotency_key x = j_idempotency_key row"
  obtain x where x: "find ?P (jobs db) = Some x"
    using mem key by (metis (mono_tags, lifting) find_None_iff not_None_eq)
  have "idempotency_scope x = idempotency_scope j" using find_SomeD[OF x] key by (simp add: idempotency_scope_def)
  then have "x = j" using scopes mem find_SomeD[OF x] by (auto simp: distinct_map inj_on_def)
  moreover have "job_unique_conflict row db"
    using mem key by (auto simp: job_unique_conflict_def list_ex_iff)
  ultimately show ?thesis
    using x row by (simp add: submitJobInTransaction_def tx_defs)
qed

lemma submitted_row_again:
  assumes "submitted_row env now uuid i = Inr r" "boundedText uuid' 500 = Inr c'"
  shows "\<exists>r'. submitted_row env now' uuid' i = Inr r' \<and> j_project_id r' = j_project_id r \<and>
    j_idempotency_key r' = j_idempotency_key r \<and> j_job_type r' = j_job_type r \<and>
    j_input_hash r' = j_input_hash r \<and> j_run_id r' = j_run_id r \<and> j_run_stage_id r' = j_run_stage_id r"
  using assms unfolding submitted_row_def Let_def
  by (auto simp: ebind_def split: sum.splits if_splits option.splits)

text \<open>
  \<^bold>\<open>C37.\<close> A submission takes effect exactly once. After a submission created a job, repeating it
  with the same input, at any later time, under a new random identifier and whatever the queue did
  in between, returns the same job (same identity) with \<open>created = false\<close> and changes nothing.
\<close>

theorem submitJob_exactly_once:
  assumes ok: "ledger_ok (ledger_of db)" and first: "submitJob env now uuid i db = Inr ((j, True), db1)"
    and run: "queue_step\<^sup>*\<^sup>* db1 db2" and uuid': "boundedText uuid' 500 = Inr c"
    and project: "case truthy (sj_projectId i) of None \<Rightarrow> True | Some p \<Rightarrow> find_project p db2 \<noteq> None"
  shows "\<exists>j'. submitJob env now' uuid' i db2 = Inr ((j', False), db2) \<and>
           find_job uuid db2 = Some j' \<and> job_identity j' = job_identity j"
proof -
  have sub: "submitJobInTransaction env now uuid i db = Inr ((j, True), db1)"
    by (rule submitJob_Inr[OF first])
  then have row: "submitted_row env now uuid i = Inr j" and new: "\<not> job_unique_conflict j db"
    and jobs: "jobs db1 = jobs db @ [j]"
    using submitJobInTransaction_Inr[OF sub] by auto
  have id: "j_id j = uuid" using submitted_row_Inr[OF row] by simp
  have ok1: "ledger_ok (ledger_of db1)"
    using submitJobInTransaction_step[OF sub] ledger_step_keeps_ok ok by (metis (no_types))
  have "jobs_tbl.lookup uuid (jobs db) = None"
    using new id by (auto simp: job_unique_conflict_def list_ex_iff jobs_tbl.lookup_None)
  then have "find_job uuid db1 = Some j"
    by (simp add: find_job_tbl jobs jobs_tbl.lookup_append id)
  then obtain j' where j': "find_job uuid db2 = Some j'" "job_later j j'"
    using queue_later[OF run ok1] by (auto simp: rows_later_def find_job_ledger)
  have same: "job_identity j' = job_identity j" using j'(2) by (simp add: job_later_def)
  obtain r' where "submitted_row env now' uuid' i = Inr r'" "j_project_id r' = j_project_id j"
    "j_idempotency_key r' = j_idempotency_key j" "j_job_type r' = j_job_type j"
    "j_input_hash r' = j_input_hash j" "j_run_id r' = j_run_id j" "j_run_stage_id r' = j_run_stage_id j"
    using submitted_row_again[OF row uuid'] by blast
  with submit_same_key[OF queue_inv.run_keeps[OF run ok1] j'(1)] same
  have "submitJobInTransaction env now' uuid' i db2 = Inr ((j', False), db2)"
    by (simp add: job_identity_def)
  then have "submitJob env now' uuid' i db2 = Inr ((j', False), db2)"
    using project by (auto simp: submitJob_def tx_defs split: option.splits)
  with j'(1) same show ?thesis by blast
qed

theorem submitJob_exactly_once_witness:
  "\<exists>j'. submitJob demo_env 9 ''j2'' demo_input demo_claimed = Inr ((j', False), demo_claimed) \<and>
     find_job ''j1'' demo_claimed = Some j'"
proof -
  let ?r = "submitJob demo_env 0 ''j1'' demo_input demo_db"
  have "\<not> isl ?r" "snd (fst (projr ?r))" by code_simp+
  then obtain j db1 where r: "?r = Inr ((j, True), db1)" by (cases ?r) auto
  have "demo_submitted = db1"
    unfolding demo_submitted_def by (simp add: after_tx_def withTransaction_def done_tx_def tbind_def r ret_def)
  then have run: "queue_step\<^sup>*\<^sup>* db1 demo_claimed" using demo_run(3) by simp
  have "boundedText ''j2'' 500 = Inr ''j2''"
    "case truthy (sj_projectId demo_input) of None \<Rightarrow> True | Some p \<Rightarrow> find_project p demo_claimed \<noteq> None"
    by code_simp+
  from submitJob_exactly_once[OF reachable_ok[OF rtranclp.rtrancl_refl demo_ledger] r run this]
  show ?thesis by blast
qed

section \<open>Failure, recovery and manual retry\<close>















text \<open>What the locks look at: which projects, runs and stages exist.\<close>

definition link_view :: "database \<Rightarrow> string list \<times> string list \<times> (string \<times> string) list" where
  "link_view db = (map p_id (projects db), map r_id (research_runs db),
     map (\<lambda>s. (s_id s, s_run_id s)) (research_run_stages db))"







lemma link_view_writes [simp]:
  "link_view (upd_job k f db) = link_view db" "link_view (upd_attempt k n h db) = link_view db"
  "link_view (db\<lparr>job_events := es\<rparr>) = link_view db" "link_view (db\<lparr>audit_events := as\<rparr>) = link_view db"
  by (simp_all add: link_view_def upd_attempt_def)














end
