(* ===== verification/Stage_Refinement.thy ===== *)
theory Stage_Refinement
  imports Stage_Ledger Job_Properties
begin

text \<open>
  Every operation on stages, and every operation of the job queue through its reconciliation of
  the linked run and stage, is a sequence of the abstract steps of \<open>Stage_Ledger\<close>.
\<close>

section \<open>Locks and dependencies\<close>

lemma list_ex_fence: "list_ex (fence_current now r fc) J \<longleftrightarrow> (\<exists>j\<in>set J. fence_current now r fc j)"
  by (simp add: list_ex_iff)

lemma lockStageProjectFirst_Inr:
  "lockStageProjectFirst now k fo allow db = Inr (x, db') \<longleftrightarrow>
     (\<exists>run stage. x = (run, stage) \<and> db' = db \<and> find_stage k db = Some stage \<and> s_id stage = k \<and>
        find_run (s_run_id stage) db = Some run \<and> r_id run = s_run_id stage \<and>
        find_project (r_project_id run) db \<noteq> None \<and>
        (case fo of None \<Rightarrow> True
         | Some fc \<Rightarrow> (allow \<or> f_runStageId fc = k) \<and> (\<exists>j\<in>set (jobs db). fence_current now (s_run_id stage) fc j)))"
  by (cases fo)
    (auto simp: lockStageProjectFirst_def assertCurrentRunStageJob_def tx_simps list_ex_fence
      dest: find_stage_SomeD find_run_SomeD)

lemma lock_stageD:
  "lockStageProjectFirst now k fo allow db = Inr ((run, stage), db') \<Longrightarrow>
     db' = db \<and> find_stage k db = Some stage \<and> s_id stage = k \<and>
     find_run (s_run_id stage) db = Some run \<and> r_id run = s_run_id stage"
  by (auto simp: lockStageProjectFirst_Inr)

lemma lock_stageE:
  assumes "tbind (lockStageProjectFirst now k fo allow) (\<lambda>(run, stage). f run stage) db = Inr (r, db')"
  obtains run s where "find_stage k db = Some s" "s_id s = k" "find_run (s_run_id s) db = Some run"
    "r_id run = s_run_id s" "f run s db = Inr (r, db')"
  using assms by (auto simp: tx_simps dest!: lock_stageD)

lemma latest_of_is_latest:
  assumes "\<And>s t. s \<in> set (run_rows r db) \<Longrightarrow> t \<in> set (run_rows r db) \<Longrightarrow> s_stage_id s = s_stage_id t \<Longrightarrow> Q s = Q t"
  shows "s \<in> set (latest_of (filter Q (run_rows r db))) \<longleftrightarrow>
     is_latest (research_run_stages db) s \<and> s_run_id s = r \<and> Q s"
proof -
  have rows: "t \<in> set (run_rows r db) \<longleftrightarrow> t \<in> set (research_run_stages db) \<and> s_run_id t = r" for t
    by (auto simp: run_rows_def)
  have "s \<in> set (latest_of (filter Q (run_rows r db))) \<longleftrightarrow> s \<in> set (run_rows r db) \<and> Q s \<and>
      (\<forall>t\<in>set (run_rows r db). Q t \<longrightarrow> s_stage_id t = s_stage_id s \<longrightarrow> s_generation t \<le> s_generation s)"
    by (simp add: latest_of_def list_all_iff conj_assoc) blast
  also have "\<dots> \<longleftrightarrow> s \<in> set (run_rows r db) \<and> Q s \<and>
      (\<forall>t\<in>set (run_rows r db). s_stage_id t = s_stage_id s \<longrightarrow> s_generation t \<le> s_generation s)"
    using assms by blast
  also have "\<dots> \<longleftrightarrow> is_latest (research_run_stages db) s \<and> s_run_id s = r \<and> Q s"
    unfolding is_latest_def same_stage_def rows by (metis rows)
  finally show ?thesis .
qed

lemma assertDependenciesSucceeded_Inr:
  assumes "assertDependenciesSucceeded s db = Inr (u, db')"
  shows "db' = db \<and> (\<forall>d\<in>set (deps_of (s_stage_id s)). done_latest (research_run_stages db) (s_run_id s) d)"
proof (cases "deps_of (s_stage_id s) = []")
  case True
  then show ?thesis
    using assms by (simp add: assertDependenciesSucceeded_def getPipelineStageDefinition_def tx_simps)
next
  case False
  let ?Q = "\<lambda>t. s_stage_id t \<in> set (deps_of (s_stage_id s))"
  let ?L = "latest_of (filter ?Q (run_rows (s_run_id s) db))"
  have "db' = db" and all: "\<forall>d\<in>set (deps_of (s_stage_id s)). d \<in> s_stage_id ` {t \<in> set ?L. s_status t = S_SUCCEEDED}"
    using assms False
    by (auto simp: assertDependenciesSucceeded_def getPipelineStageDefinition_def tx_simps Let_def filter_empty_conv)
  have L: "t \<in> set ?L \<longleftrightarrow> is_latest (research_run_stages db) t \<and> s_run_id t = s_run_id s \<and> ?Q t" for t
    by (rule latest_of_is_latest) simp
  have "done_latest (research_run_stages db) (s_run_id s) d" if d: "d \<in> set (deps_of (s_stage_id s))" for d
  proof -
    obtain t where "t \<in> set ?L" "s_status t = S_SUCCEEDED" "d = s_stage_id t" using all d by auto
    then show ?thesis using L[of t] unfolding done_latest_def by auto
  qed
  with \<open>db' = db\<close> show ?thesis by blast
qed

section \<open>Composing steps\<close>

abbreviation rows_good :: "database \<Rightarrow> bool" where
  "rows_good db \<equiv> stages_ok (research_run_stages db) \<and> pipeline_ok (research_run_stages db)"

definition stages_run :: "database \<Rightarrow> database \<Rightarrow> bool" where
  "stages_run db db' \<longleftrightarrow>
     (rows_good db \<longrightarrow> stage_step\<^sup>*\<^sup>* (research_run_stages db) (research_run_stages db'))"

lemma stages_run_trans: "stages_run a b \<Longrightarrow> stages_run b c \<Longrightarrow> stages_run a c"
  unfolding stages_run_def using pipeline.run_keeps by (metis rtranclp_trans)

interpretation stage_tx: tx_preorder stages_run
  by unfold_locales (simp add: stages_run_def, rule stages_run_trans)

lemma stages_run_same: "research_run_stages db' = research_run_stages db \<Longrightarrow> stages_run db db'"
  by (simp add: stages_run_def)

lemma stages_runI:
  "(rows_good db \<Longrightarrow> stage_step (research_run_stages db) (research_run_stages db')) \<Longrightarrow> stages_run db db'"
  by (auto simp: stages_run_def)

lemma research_run_stages_upd [simp]:
  "research_run_stages (upd_stages P f db) = update_where P f (research_run_stages db)"
  by (simp add: upd_stages_def)

text \<open>A calm update of one stage.\<close>

lemma calm_one:
  assumes "find_stage k db = Some s" "\<And>x. stage_key (f x) = stage_key x"
    and "s_status s \<noteq> S_SUCCEEDED" "s_status (f s) \<noteq> S_SUCCEEDED"
    and "stage_machine.moves (s_status s) (s_status (f s))" "rows_good db"
  shows "stage_step (research_run_stages db) (update_where (\<lambda>x. s_id x = k) f (research_run_stages db))"
proof (rule ss_calm)
  fix x assume "x \<in> set (research_run_stages db)" "s_id x = k"
  then have "x = s"
    using assms(1,6) stages_tbl.lookup_mem[of "research_run_stages db" x] by (simp add: stages_ok_def find_stage_tbl)
  then show "stage_key (f x) = stage_key x \<and> s_status x \<noteq> S_SUCCEEDED \<and> s_status (f x) \<noteq> S_SUCCEEDED \<and>
      stage_machine.moves (s_status x) (s_status (f x))"
    using assms by simp
qed

section \<open>The operations on stages\<close>

lemma stage_row_fields [simp]:
  "stage_key (start_stage_row now s) = stage_key s" "s_status (start_stage_row now s) = S_RUNNING"
  "stage_key (attempt_stage_row now i h s) = stage_key s" "s_status (attempt_stage_row now i h s) = s_status s"
  "stage_key (requeue_stage_row now v h' s) = stage_key s" "s_status (requeue_stage_row now v h' s) = S_QUEUED"
  "stage_key (commit_stage_row now v h' s) = stage_key s" "s_status (commit_stage_row now v h' s) = S_SUCCEEDED"
  "stage_key (block_stage_row now c m s) = stage_key s" "s_status (block_stage_row now c m s) = S_BLOCKED"
  "stage_key (fail_stage_row now c m s) = stage_key s" "s_status (fail_stage_row now c m s) = S_FAILED"
  "stage_key (cancel_linked_stage_row now s) = stage_key s" "s_status (cancel_linked_stage_row now s) = S_CANCELLED"
  "stage_key (cancel_stage_row now s) = stage_key s" "s_status (cancel_stage_row now s) = S_CANCELLED"
  "stage_key (stale_stage_row now s) = stage_key s" "s_status (stale_stage_row now s) = S_STALE"
  by (simp_all add: stage_key_def start_stage_row_def attempt_stage_row_def requeue_stage_row_def
      commit_stage_row_def block_stage_row_def fail_stage_row_def cancel_linked_stage_row_def
      cancel_stage_row_def stale_stage_row_def)

lemma can_not_succeeded:
  "canTransitionRunStage a b \<Longrightarrow> b \<noteq> S_STALE \<Longrightarrow> a \<noteq> S_SUCCEEDED"
  by (auto simp: canTransitionRunStage_def)

lemma calm_run:
  assumes "find_stage k db = Some s"
    and "research_run_stages db' = update_where (\<lambda>x. s_id x = k) f (research_run_stages db)"
    and "\<And>x. stage_key (f x) = stage_key x" "s_status s \<noteq> S_SUCCEEDED" "s_status (f s) \<noteq> S_SUCCEEDED"
    and "stage_machine.moves (s_status s) (s_status (f s))"
  shows "stages_run db db'"
  by (rule stages_runI) (use calm_one[OF assms(1,3-6)] assms(2) in simp)

lemma guard_not_succeeded:
  "(s_status s \<noteq> b \<longrightarrow> canTransitionRunStage (s_status s) b) \<Longrightarrow> b \<notin> {S_STALE, S_SUCCEEDED} \<Longrightarrow>
   s_status s \<noteq> S_SUCCEEDED \<and> stage_machine.moves (s_status s) b"
  by (auto simp: stage_machine.moves_def dest: can_not_succeeded)

lemma ensure_run_running_stages: "tx_frame research_run_stages (ensure_run_running now run x)"
  unfolding ensure_run_running_def update_run_returning_def by (intro tx_frames) simp_all

lemma startRunStage_stages:
  "startRunStage now k fc db = Inr (r, db') \<Longrightarrow> stages_run db db'"
  unfolding startRunStage_def
  by (clarsimp simp: tx_simps simp del: stage_row_fields
      dest!: lock_stageD assertDependenciesSucceeded_Inr tx_frameD[OF ensure_run_running_stages])
    (erule calm_run[where f = "start_stage_row now"]; simp add: guard_not_succeeded)

lemma recordRunStageProviderAttempt_stages:
  assumes "recordRunStageProviderAttempt env now k fc i db = Inr (r, db')"
  shows "stages_run db db'"
  using assms unfolding recordRunStageProviderAttempt_def
proof (rule lock_stageE, goal_cases)
  case (1 run s)
  show ?case
  proof (cases "js_get (s_usage s) ''providerExecutionId'' = JStr (pa_providerExecutionId i)")
    case True
    with 1(5) show ?thesis by (auto simp: tx_simps intro: stages_run_same)
  next
    case False
    with 1(5) obtain h where "s_status s = S_RUNNING"
      "research_run_stages db' = update_where (\<lambda>x. s_id x = k) (attempt_stage_row now i h) (research_run_stages db)"
      using 1(2) by (auto simp: tx_simps)
    with 1(1) show ?thesis by (intro calm_run[of k db s db' "attempt_stage_row now i h"]) simp_all
  qed
qed

lemma blockRunStage_stages:
  assumes "blockRunStage now k fc c m db = Inr (r, db')"
  shows "stages_run db db'"
  using assms unfolding blockRunStage_def Let_def
proof (rule lock_stageE, goal_cases)
  case (1 run s)
  show ?case
  proof (cases "s_status s = S_BLOCKED \<and> r_status run = R_BLOCKED")
    case True
    with 1(5) show ?thesis by (auto simp: tx_simps intro: stages_run_same)
  next
    case False
    then have "s_status s \<noteq> S_BLOCKED \<longrightarrow> canTransitionRunStage (s_status s) S_BLOCKED"
      "research_run_stages db' = update_where (\<lambda>x. s_id x = k) (block_stage_row now c (sanitizeJobError m)) (research_run_stages db)"
      using 1(2,5) by (auto simp: tx_simps simp del: stage_row_fields)
    with 1(1) guard_not_succeeded[of s S_BLOCKED] show ?thesis
      by (intro calm_run[of k db s db' "block_stage_row now c (sanitizeJobError m)"]) simp_all
  qed
qed

lemma failRunStage_stages:
  assumes "failRunStage now k fc c m db = Inr (r, db')"
  shows "stages_run db db'"
  using assms unfolding failRunStage_def Let_def
proof (rule lock_stageE, goal_cases)
  case (1 run s)
  then have "canTransitionRunStage (s_status s) S_FAILED"
    "research_run_stages db' = update_where (\<lambda>x. s_id x = k) (fail_stage_row now c (sanitizeJobError m)) (research_run_stages db)"
    by (auto simp: tx_simps simp del: stage_row_fields)
  with 1(1) guard_not_succeeded[of s S_FAILED] show ?case
    by (intro calm_run[of k db s db' "fail_stage_row now c (sanitizeJobError m)"]) simp_all
qed

lemma setResearchRunBoundary_stages:
  "tx_frame research_run_stages (setResearchRunBoundary now k fc st m)"
  unfolding setResearchRunBoundary_def lockStageProjectFirst_def lock_project_def assertCurrentRunStageJob_def
    update_run_returning_def writeAuditEvent_def
  by (intro tx_frames) simp_all

lemma insert_stage_Inr [tx_simps]:
  "insert_stage row db = Inr (x, db') \<longleftrightarrow>
     \<not> list_ex (\<lambda>s. s_id s = s_id row \<or> (s_run_id s = s_run_id row \<and>
        s_stage_id s = s_stage_id row \<and> s_generation s = s_generation row)) (research_run_stages db) \<and>
     x = row \<and> db' = db\<lparr>research_run_stages := research_run_stages db @ [row]\<rparr>"
  by (auto simp: insert_stage_def tx_simps)

lemma submitJobInTransaction_stages: "tx_frame research_run_stages (submitJobInTransaction env now uuid i)"
  unfolding submitJobInTransaction_def recordJobEvent_def by (intro tx_frames) simp_all

text \<open>Opening the next generation of a stage nothing succeeded depends on.\<close>

lemma next_generation_safe:
  assumes ok: "stages_ok S" and s: "s \<in> set S"
    and r: "same_stage r s" "s_generation r = s_generation s + 1"
    and fresh: "\<not> list_ex (\<lambda>x. s_id x = s_id r \<or> (s_run_id x = s_run_id r \<and>
        s_stage_id x = s_stage_id r \<and> s_generation x = s_generation r)) S"
    and top: "is_latest S s \<Longrightarrow> (\<forall>x. s_stage_id s \<in> set (deps_of x) \<longrightarrow> \<not> done_latest S (s_run_id s) x)"
  shows "(\<exists>t\<in>set S. same_stage t r \<and> s_generation r < s_generation t) \<or>
     (\<forall>x. s_stage_id r \<in> set (deps_of x) \<longrightarrow> \<not> done_latest S (s_run_id r) x)"
proof (cases "is_latest S s")
  case True
  then show ?thesis using top r(1) by (simp add: same_stage_def)
next
  case False
  then obtain t where t: "t \<in> set S" "same_stage t s" "s_generation s < s_generation t"
    using s by (auto simp: is_latest_def not_le)
  then have "s_generation t \<noteq> s_generation r"
    using fresh r(1) by (auto simp: list_ex_iff same_stage_def)
  then have "same_stage t r \<and> s_generation r < s_generation t" using t r by (simp add: same_stage_def)
  with t(1) show ?thesis by blast
qed

lemma stale_not_needed:
  assumes "stages_ok S" "pipeline_ok S" "is_latest S s" "s_status s \<noteq> S_SUCCEEDED" "s_stage_id s \<in> set (deps_of x)"
  shows "\<not> done_latest S (s_run_id s) x"
proof
  assume "done_latest S (s_run_id s) x"
  then have "done_latest S (s_run_id s) (s_stage_id s)" using assms(2,5) unfolding pipeline_ok_def by blast
  then obtain t where t: "is_latest S t" "same_stage t s" "s_status t = S_SUCCEEDED"
    by (auto simp: done_latest_def same_stage_def)
  then have "t = s" using is_latest_unique assms(1,3) by blast
  with t assms(4) show False by simp
qed

lemma next_generation_fields [simp]:
  "s_status (next_generation_row now u v h s) = S_QUEUED" "same_stage (next_generation_row now u v h s) s"
  "s_ordinal (next_generation_row now u v h s) = s_ordinal s"
  "s_stage_id (next_generation_row now u v h s) = s_stage_id s"
  "s_run_id (next_generation_row now u v h s) = s_run_id s" "s_id (next_generation_row now u v h s) = u"
  "s_generation (next_generation_row now u v h s) = s_generation s + 1"
  by (simp_all add: next_generation_row_def same_stage_def)

lemma insert_next_generation:
  assumes "stages_ok S" "s \<in> set S"
    and "\<not> list_ex (\<lambda>x. s_id x = u \<or> (s_run_id x = s_run_id s \<and> s_stage_id x = s_stage_id s \<and>
            s_generation x = s_generation s + 1)) S"
    and "is_latest S s \<Longrightarrow> (\<forall>x. s_stage_id s \<in> set (deps_of x) \<longrightarrow> \<not> done_latest S (s_run_id s) x)"
  shows "stage_step S (S @ [next_generation_row now u v h s])"
proof (rule ss_insert)
  let ?r = "next_generation_row now u v h s"
  show "(\<exists>t\<in>set S. same_stage t ?r \<and> s_generation ?r < s_generation t) \<or>
     (\<forall>x. s_stage_id ?r \<in> set (deps_of x) \<longrightarrow> \<not> done_latest S (s_run_id ?r) x)"
    by (rule next_generation_safe[OF assms(1,2)]) (use assms(3,4) in simp_all)
  have "1 \<le> s_generation s" using assms(1,2) by (simp add: stages_ok_def)
  then show "1 \<le> s_generation ?r" by simp
qed (use assms(1-3) in \<open>simp_all add: stages_ok_def\<close>)

lemma queueRunStage_stages:
  assumes "queueRunStage env now u1 u2 k fc v key db = Inr (r, db')"
  shows "stages_run db db'"
  using assms unfolding queueRunStage_def
proof (rule lock_stageE, goal_cases)
  case (1 run s)
  then obtain h x mid where guard: "s_status s \<noteq> S_QUEUED \<longrightarrow> canTransitionRunStage (s_status s) S_QUEUED"
    and ins: "(if s_status s = S_STALE then insert_stage (next_generation_row now u1 v h s)
         else update_stage_returning k (requeue_stage_row now v h)) db = Inr (x, mid)"
    and rest: "research_run_stages db' = research_run_stages mid"
    by (clarsimp simp: tx_simps dest!: assertDependenciesSucceeded_Inr tx_frameD[OF submitJobInTransaction_stages])
  show ?case
  proof (cases "s_status s = S_STALE")
    case True
    with ins have new: "\<not> list_ex (\<lambda>x. s_id x = u1 \<or> (s_run_id x = s_run_id s \<and> s_stage_id x = s_stage_id s \<and>
            s_generation x = s_generation s + 1)) (research_run_stages db)"
      "research_run_stages db' = research_run_stages db @ [next_generation_row now u1 v h s]"
      using rest by (auto simp: tx_simps)
    have s: "s \<in> set (research_run_stages db)" using find_stage_SomeD[OF 1(1)] by simp
    show ?thesis
    proof (rule stages_runI)
      assume "rows_good db"
      then show "stage_step (research_run_stages db) (research_run_stages db')"
        unfolding new(2) using stale_not_needed[of "research_run_stages db" s] True
        by (intro insert_next_generation s new(1)) auto
    qed
  next
    case False
    with ins have "research_run_stages db' = update_where (\<lambda>x. s_id x = k) (requeue_stage_row now v h) (research_run_stages db)"
      using rest by (auto simp: tx_simps)
    with 1(1) guard guard_not_succeeded[of s S_QUEUED] show ?thesis
      by (intro calm_run[of k db s db' "requeue_stage_row now v h"]) simp_all
  qed
qed

lemma advance_run_stages: "tx_frame research_run_stages (advance_run now run s h)"
  unfolding advance_run_def update_run_returning_def writeAuditEvent_def Let_def
  by (intro tx_frames) simp_all

lemma commit_output_stages:
  assumes s: "find_stage k db = Some s" "s_id s = k" and dom: "tx_frame research_run_stages dc"
    and run: "commit_output now run s key v h dc db = Inr (r, db')"
  shows "stages_run db db'"
proof -
  obtain mid where st: "s_status s = S_RUNNING"
    and deps: "\<forall>d\<in>set (deps_of (s_stage_id s)). done_latest (research_run_stages db) (s_run_id s) d"
    and mid: "dc db = Inr ((), mid)"
    and S: "research_run_stages db' = update_where (\<lambda>x. s_id x = k) (commit_stage_row now v h) (research_run_stages mid)"
    using run s(2) unfolding commit_output_def
    by (clarsimp simp: tx_simps simp del: stage_row_fields
        dest!: assertDependenciesSucceeded_Inr tx_frameD[OF advance_run_stages])
  have same: "research_run_stages mid = research_run_stages db" by (rule tx_frameD[OF dom mid])
  show ?thesis
  proof (rule stages_runI)
    show "stage_step (research_run_stages db) (research_run_stages db')"
      unfolding S same
      by (rule ss_commit[of k _ s]) (use s st deps in \<open>simp_all add: find_stage_tbl\<close>)
  qed
qed

lemma commitRunStage_stages:
  assumes run: "commitRunStage env now k fc key v dc db = Inr (r, db')" and dom: "tx_frame research_run_stages dc"
  shows "stages_run db db'"
proof -
  obtain h where "tbind (lockStageProjectFirst now k (Some fc) False) (\<lambda>(run0, stage0).
     tbind (gets (\<lambda>db. find (commit_of stage0 key) (stage_domain_commits db))) (\<lambda>existing.
     (case existing of
        Some c \<Rightarrow> tbind (require (c_output_hash c = h) (conflict ''IDEMPOTENCY_KEY_REUSED'')) (\<lambda>_.
          ret (run0, stage0, False))
      | None \<Rightarrow> commit_output now run0 stage0 key v h dc))) db = Inr (r, db')"
    using run unfolding commitRunStage_def by (subst (asm) tbind_Inr_iff) (auto simp: lift_res_Inr_iff)
  then show ?thesis
  proof (rule lock_stageE, goal_cases)
    case (1 run0 s)
    then show ?case
      by (cases "find (commit_of s key) (stage_domain_commits db)")
        (auto simp: tx_simps intro: stages_run_same commit_output_stages[OF _ _ dom])
  qed
qed

lemma downstream_succeeded_set:
  assumes "stages_ok (research_run_stages db)"
  shows "s \<in> set (downstream_succeeded r n db) \<longleftrightarrow>
     is_latest (research_run_stages db) s \<and> s_run_id s = r \<and> n < s_ordinal s \<and> s_status s = S_SUCCEEDED"
proof -
  have "x \<in> set (run_rows r db) \<Longrightarrow> y \<in> set (run_rows r db) \<Longrightarrow> s_stage_id x = s_stage_id y \<Longrightarrow>
      (s_ordinal x > n) = (s_ordinal y > n)" for x y
    using assms by (simp add: stages_ok_def run_rows_def)
  then have "s \<in> set (latest_of (filter (\<lambda>x. s_ordinal x > n) (run_rows r db))) \<longleftrightarrow>
      is_latest (research_run_stages db) s \<and> s_run_id s = r \<and> n < s_ordinal s"
    by (rule latest_of_is_latest)
  then show ?thesis by (simp add: downstream_succeeded_def conj_comms)
qed

lemma stale_run:
  assumes "research_run_stages db' =
      update_where (\<lambda>s. s_id s \<in> set (map s_id (downstream_succeeded r n db))) (stale_stage_row now) (research_run_stages db)"
  shows "stages_run db db'"
proof (rule stages_runI)
  assume good: "rows_good db"
  note down = downstream_succeeded_set[OF conjunct1[OF good]]
  have inj: "x \<in> set (research_run_stages db) \<Longrightarrow> y \<in> set (research_run_stages db) \<Longrightarrow> s_id x = s_id y \<Longrightarrow> x = y" for x y
    using good by (auto simp: stages_ok_def stages_tbl.keys_distinct_def distinct_map inj_on_def)
  show "stage_step (research_run_stages db) (research_run_stages db')"
    unfolding assms
  proof (rule ss_stale[where r = r and n = n])
    fix s assume s: "s \<in> set (research_run_stages db)"
    show "(s_id s \<in> set (map s_id (downstream_succeeded r n db))) =
        (is_latest (research_run_stages db) s \<and> s_run_id s = r \<and> n < s_ordinal s \<and> s_status s = S_SUCCEEDED)"
      using inj[OF s] down by (auto simp: is_latest_def)
  qed simp_all
qed

lemma stale_checks_Inr:
  "for_each (\<lambda>s. lift_res (assertRunStageTransition (s_status s) S_STALE)) xs db = Inr (u, db') \<Longrightarrow> db' = db"
  by (rule for_each_inv[where I = "\<lambda>d. d = db"]) (auto simp: tx_simps)

lemma mark_noncurrent_stages: "tx_frame research_run_stages (markGeneratedDomainEffectsNonCurrent now ids)"
  unfolding markGeneratedDomainEffectsNonCurrent_def retire_generated_def Let_def
  by (intro tx_frames) simp

lemma markDownstreamStagesStale_stages:
  assumes "markDownstreamStagesStale now k db = Inr (r, db')"
  shows "stages_run db db'"
  using assms unfolding markDownstreamStagesStale_def
proof (rule lock_stageE, goal_cases)
  case (1 run s)
  show ?case
  proof (cases "downstream_succeeded (r_id run) (s_ordinal s) db = []")
    case True
    with 1(5) show ?thesis by (auto simp: tx_simps dest!: stale_checks_Inr intro: stages_run_same)
  next
    case False
    with 1(5) show ?thesis
      by (intro stale_run[of db' "r_id run" "s_ordinal s" db now])
        (clarsimp simp: tx_simps Let_def dest!: stale_checks_Inr tx_frameD[OF mark_noncurrent_stages])
  qed
qed

lemma stale_clears:
  assumes "stages_ok (research_run_stages db)" "n < sd_ordinal (stage_definitions x)"
  shows "\<not> done_latest (update_where (\<lambda>s. s_id s \<in> set (map s_id (downstream_succeeded r n db)))
      (stale_stage_row now) (research_run_stages db)) r x"
proof
  let ?P = "\<lambda>s. s_id s \<in> set (map s_id (downstream_succeeded r n db))"
  let ?g = "\<lambda>s. if ?P s then stale_stage_row now s else s"
  have key: "stage_key (?g s) = stage_key s" for s by simp
  assume "done_latest (update_where ?P (stale_stage_row now) (research_run_stages db)) r x"
  then obtain s where s: "is_latest (research_run_stages db) s" "s_run_id s = r" "s_stage_id s = x"
    "s_status (?g s) = S_SUCCEEDED"
    unfolding update_where_map using done_latest_map[of _ ?g, OF key] by blast
  then have not: "\<not> ?P s" "s_status s = S_SUCCEEDED" by (auto split: if_splits)
  have "s_ordinal s = sd_ordinal (stage_definitions x)"
    using s(1,3) assms(1) by (simp add: is_latest_def stages_ok_def)
  then have "s \<in> set (downstream_succeeded r n db)"
    using downstream_succeeded_set[OF assms(1)] s(1,2) not(2) assms(2) by simp
  with not(1) show False by simp
qed

lemma open_generation_stages:
  assumes s: "find_stage k db = Some s" "s_id s = k" "r_id run = s_run_id s"
    and go: "open_generation env now u1 u2 run s key v who db = Inr (r, db')"
  shows "stages_run db db'"
  unfolding stages_run_def
proof
  assume good: "rows_good db"
  define S1 where "S1 = update_where (\<lambda>x. s_id x \<in> set (map s_id (downstream_succeeded (r_id run) (s_ordinal s) db)))
      (stale_stage_row now) (research_run_stages db)"
  define mid where "mid = db\<lparr>research_run_stages := S1\<rparr>"
  obtain h where fresh: "\<not> list_ex (\<lambda>x. s_id x = u1 \<or> (s_run_id x = s_run_id s \<and> s_stage_id x = s_stage_id s \<and>
            s_generation x = s_generation s + 1)) S1"
    and S': "research_run_stages db' = S1 @ [next_generation_row now u1 v h s]"
    using go unfolding open_generation_def
    by (clarsimp simp: tx_simps S1_def simp del: set_map dest!: stale_checks_Inr tx_frameD[OF mark_noncurrent_stages]
        tx_frameD[OF submitJobInTransaction_stages])
  have step: "stage_step\<^sup>*\<^sup>* (research_run_stages db) S1"
    using stale_run[of mid "r_id run" "s_ordinal s" db now] good by (simp add: mid_def S1_def stages_run_def)
  then have ok: "stages_ok S1" "pipeline_ok S1" using pipeline.run_keeps good by blast+
  have s_in: "s \<in> set (research_run_stages db)" using find_stage_SomeD[OF s(1)] by simp
  have "s_id s \<notin> set (map s_id (downstream_succeeded (r_id run) (s_ordinal s) db))"
  proof
    assume "s_id s \<in> set (map s_id (downstream_succeeded (r_id run) (s_ordinal s) db))"
    then obtain t where t: "t \<in> set (downstream_succeeded (r_id run) (s_ordinal s) db)" "s_id t = s_id s" by auto
    note d = t(1)[unfolded downstream_succeeded_set[OF conjunct1[OF good]]]
    then have "t = s"
      using t(2) s_in good by (auto simp: is_latest_def stages_ok_def stages_tbl.keys_distinct_def distinct_map inj_on_def)
    with d show False by simp
  qed
  then have s1: "s \<in> set S1" using s_in by (force simp: S1_def update_where_def)
  have "stage_step S1 (S1 @ [next_generation_row now u1 v h s])"
  proof (intro insert_next_generation ok s1 fresh allI impI)
    fix x assume "s_stage_id s \<in> set (deps_of x)"
    then have "s_ordinal s < sd_ordinal (stage_definitions x)"
      using catalog_dependency_smaller s_in good by (auto simp: stages_ok_def)
    then show "\<not> done_latest S1 (s_run_id s) x"
      unfolding S1_def s(3)[symmetric] by (rule stale_clears[OF conjunct1[OF good]])
  qed
  with step S' show "stage_step\<^sup>*\<^sup>* (research_run_stages db) (research_run_stages db')" by simp
qed

lemma restartRunStage_stages:
  assumes "restartRunStage env now u1 u2 k key v who db = Inr (r, db')"
  shows "stages_run db db'"
  using assms unfolding restartRunStage_def
proof (rule lock_stageE, goal_cases)
  case (1 run s)
  show ?case
  proof (cases "restart_lookup (r_project_id run) key db")
    case None
    with 1(5) have "open_generation env now u1 u2 run s key v who db = Inr (r, db')"
      by (simp add: tx_simps del: not_None_eq)
    with 1 show ?thesis by (intro open_generation_stages[of k db s]) simp_all
  next
    case (Some js)
    with 1(5) show ?thesis by (cases js) (auto simp: tx_simps intro: stages_run_same)
  qed
qed

end
