(* ===== verification/Stage_Queue.thy ===== *)
theory Stage_Queue
  imports Stage_Refinement
begin

text \<open>
  The job queue reconciles the run and the stage a job is linked to. Its operations, too, change
  the stage table only by the abstract steps of \<open>Stage_Ledger\<close>; together with the stage operations
  this gives the step relation of the whole pipeline.
\<close>

section \<open>Reconciliation\<close>

text \<open>A locked stage is a row of the table.\<close>

lemma locked_stage:
  assumes "lockLinkedResearchState job db = Inr (Some (run, Some st), db')" "stages_ok (research_run_stages db)"
  shows "db' = db \<and> find_stage (s_id st) db = Some st"
proof -
  have "db' = db \<and> st \<in> set (research_run_stages db)"
    using assms(1) by (auto simp: lockLinkedResearchState_def tx_simps find_Some_iff split: option.splits)
  then show ?thesis
    using assms(2) stages_tbl.lookup_mem[of "research_run_stages db" st] by (simp add: stages_ok_def find_stage_tbl)
qed

lemma stages_run_cond: "(stages_ok (research_run_stages db) \<Longrightarrow> stages_run db db') \<Longrightarrow> stages_run db db'"
  by (auto simp: stages_run_def)

lemma reconcileLinkedJobFailure_stages:
  assumes "reconcileLinkedJobFailure now job c m db = Inr (u, db')"
  shows "stages_run db db'"
proof (rule stages_run_cond)
  assume ok: "stages_ok (research_run_stages db)"
  obtain linked where l: "lockLinkedResearchState job db = Inr (linked, db)"
    using assms by (auto simp: reconcileLinkedJobFailure_def tx_simps dest: lockLinkedResearchState_frame)
  show "stages_run db db'"
  proof (cases "\<exists>run st. linked = Some (run, Some st) \<and> s_status st \<in> {S_QUEUED, S_RUNNING} \<and>
      canTransitionRunStage (s_status st) S_FAILED")
    case True
    then obtain run st where eq: "linked = Some (run, Some st)" "s_status st \<in> {S_QUEUED, S_RUNNING}"
      "canTransitionRunStage (s_status st) S_FAILED" by blast
    then have "research_run_stages db' =
        update_where (\<lambda>s. s_id s = s_id st) (fail_stage_row now c m) (research_run_stages db)"
      using assms l by (auto simp: reconcileLinkedJobFailure_def tx_simps split: if_splits)
    with locked_stage[OF _ ok] l eq show ?thesis
      by (intro calm_run[of "s_id st" db st db' "fail_stage_row now c m"]) (auto simp: stage_machine.moves_def)
  next
    case False
    with assms l have "db' = db"
      by (auto simp: reconcileLinkedJobFailure_def tx_simps split: option.splits prod.splits if_splits)
    then show ?thesis by (simp add: stages_run_same)
  qed
qed

lemma open_cancel:
  "x \<in> set open_stage_statuses \<Longrightarrow> x \<noteq> S_SUCCEEDED \<and> stage_machine.moves x S_CANCELLED"
  by (auto simp: open_stage_statuses_def stage_machine.moves_def canTransitionRunStage_def)

lemma bulk_cancel_run:
  assumes "research_run_stages db' = update_where (\<lambda>s. s_run_id s = r \<and> s_status s \<in> set open_stage_statuses)
      (cancel_stage_row now) (research_run_stages db)"
  shows "stages_run db db'"
proof (rule stages_runI)
  show "stage_step (research_run_stages db) (research_run_stages db')"
    unfolding assms by (rule ss_calm) (use open_cancel in \<open>auto simp del: stage_machine.moves_def\<close>)
qed

lemma linked_cancel_run:
  assumes "find_stage (s_id st) db = Some st" "s_status st \<in> set open_stage_statuses"
    and "research_run_stages db' = update_where (\<lambda>s. s_id s = s_id st) (cancel_linked_stage_row now) (research_run_stages db)"
  shows "stages_run db db'"
  by (rule calm_run[OF assms(1,3)]) (use open_cancel[OF assms(2)] in simp_all)

lemma cancel_linked_run:
  assumes "cancel_linked now stage db = Inr (u, db')" "\<And>st. stage = Some st \<Longrightarrow> find_stage (s_id st) db = Some st"
  shows "stages_run db db'"
  using assms
  by (auto simp: cancel_linked_def tx_simps intro: stages_run_same linked_cancel_run split: option.splits if_splits)

lemma close_cancelled_run_stages:
  assumes "close_cancelled_run now job run rs db = Inr (u, db')"
  shows "stages_run db db'"
proof (cases "active_run_jobs (r_id run) db > 0 \<or> rs \<noteq> R_CANCELLING")
  case True
  with assms have "db' = db" by (auto simp: close_cancelled_run_def tx_simps)
  then show ?thesis by (simp add: stages_run_same)
next
  case False
  with assms have "research_run_stages db' = update_where
      (\<lambda>s. s_run_id s = r_id run \<and> s_status s \<in> set open_stage_statuses) (cancel_stage_row now) (research_run_stages db)"
    by (auto simp: close_cancelled_run_def tx_simps)
  then show ?thesis by (rule bulk_cancel_run)
qed

lemma mark_cancelling_stages: "tx_frame research_run_stages (mark_cancelling now run who)"
  unfolding mark_cancelling_def by (intro tx_frames) simp

lemma reconcileLinkedJobCancellation_stages:
  assumes "reconcileLinkedJobCancellation now job who db = Inr (u, db')"
  shows "stages_run db db'"
proof (rule stages_run_cond)
  assume ok: "stages_ok (research_run_stages db)"
  obtain linked where l: "lockLinkedResearchState job db = Inr (linked, db)"
    using assms by (auto simp: reconcileLinkedJobCancellation_def tx_simps dest: lockLinkedResearchState_frame)
  show "stages_run db db'"
  proof (cases "\<exists>run stage. linked = Some (run, stage) \<and> r_status run \<notin> set [R_COMPLETED, R_FAILED, R_CANCELLED]")
    case False
    with assms l have "db' = db"
      by (auto simp: reconcileLinkedJobCancellation_def tx_simps split: option.splits prod.splits if_splits)
    then show ?thesis by (simp add: stages_run_same)
  next
    case True
    then obtain run stage where p: "linked = Some (run, stage)" "r_status run \<notin> set [R_COMPLETED, R_FAILED, R_CANCELLED]"
      by blast
    then obtain rs mid where m: "mark_cancelling now run who db = Inr (rs, mid)"
      and rest: "(if j_status job \<noteq> J_CANCELLED then ret ()
          else tbind (cancel_linked now stage) (\<lambda>_. close_cancelled_run now job run rs)) mid = Inr (u, db')"
      using assms l by (auto simp only: reconcileLinkedJobCancellation_def tbind_Inr_iff option.case prod.case
          if_False sum.inject prod.inject)
    have same: "research_run_stages mid = research_run_stages db" by (rule tx_frameD[OF mark_cancelling_stages m])
    have find: "find_stage (s_id st) mid = Some st" if "stage = Some st" for st
      using locked_stage[OF _ ok] l p that same by (auto simp: find_stage_def)
    have "stages_run mid db'"
    proof (cases "j_status job = J_CANCELLED")
      case True
      with rest obtain v mid2 where c: "cancel_linked now stage mid = Inr (v, mid2)"
        "close_cancelled_run now job run rs mid2 = Inr (u, db')" by (auto simp: tx_simps)
      show ?thesis
        by (rule stages_run_trans[OF cancel_linked_run[OF c(1) find] close_cancelled_run_stages[OF c(2)]])
    qed (use rest in \<open>auto simp: tx_simps intro: stages_run_same\<close>)
    then show ?thesis by (rule stages_run_trans[OF stages_run_same[OF same]])
  qed
qed

section \<open>The operations of the queue\<close>

lemma rel_same: "tx_frame research_run_stages m \<Longrightarrow> stage_tx.rel m"
  by (erule stage_tx.rel_frame) (rule stages_run_same)

lemma queue_leaves:
  "stage_tx.rel (lockJobProjectFirst k)" "stage_tx.rel (lockOwnedJob now k w sts v)"
  "stage_tx.rel (update_job_returning k f)" "stage_tx.rel (modify (upd_attempt k n g))"
  "stage_tx.rel (recordJobEvent k ty a b wk det)" "stage_tx.rel (writeAuditEvent e)"
  unfolding lockJobProjectFirst_def lockOwnedJob_def lock_project_def update_job_returning_def
    recordJobEvent_def writeAuditEvent_def
  by (rule rel_same, intro tx_frames; simp)+

lemma log_claim_stages: "stage_tx.rel (log_claim w d c)"
  unfolding log_claim_def recordJobEvent_def by (rule rel_same, intro tx_frames; simp)

lemma reconcile_leaves:
  "stage_tx.rel (reconcileLinkedJobFailure now job c m)" "stage_tx.rel (reconcileLinkedJobCancellation now job who)"
  by (auto simp: stage_tx.rel_def intro: reconcileLinkedJobFailure_stages reconcileLinkedJobCancellation_stages)

lemmas stage_rel_rules = stage_tx.rel_rules queue_leaves reconcile_leaves

lemma perform_stages: "stage_tx.rel (perform now op)"
proof (cases op)
  case (Submit env uuid i)
  have "stage_tx.rel (submitJob env now uuid i)"
    unfolding submitJob_def lock_project_def
    by (intro stage_rel_rules rel_same[OF submitJobInTransaction_stages])
  then show ?thesis by (simp add: Submit done_tx_def) (intro stage_rel_rules)
next
  case (SubmitWithin env uuid i)
  then show ?thesis
    by (simp add: done_tx_def) (intro stage_rel_rules rel_same[OF submitJobInTransaction_stages])
next
  case (Claim w n d ts rs)
  then show ?thesis
    by (simp add: done_tx_def claimJobs_def) (intro stage_rel_rules log_claim_stages rel_same[OF tx_frame_modify]; simp)
next
  case (RecoverOne rnd rs k)
  then show ?thesis by (simp add: done_tx_def recover_one_def Let_def) (intro stage_rel_rules)
qed (simp_all add: done_tx_def startJob_def heartbeatJob_def completeJob_def failJob_def
    requestJobCancellationInTransaction_def acknowledgeJobCancellation_def releaseJobLease_def
    manualRetryJob_def Let_def, (intro stage_rel_rules)+)

end
