(* ===== verification/Approval_Revisions.thy ===== *)
theory Approval_Revisions
  imports Job_Queue
begin

text \<open>
  Approval revisions, \<open>lib/services/approval-revisions.ts\<close>: a numbered, content-addressed snapshot
  of the approved scope or plan of a project.
\<close>

section \<open>Snapshots\<close>

definition js_text :: "string option \<Rightarrow> jsv" where
  "js_text v = (case v of None \<Rightarrow> JNull | Some s \<Rightarrow> JStr s)"

definition js_texts :: "string list \<Rightarrow> jsv" where
  "js_texts xs = JArr (map JStr xs)"

definition scopeSnapshot :: "project_row \<Rightarrow> jsv" where
  "scopeSnapshot project =
     JObj [(''coreQuestion'', JStr (p_core_question project)),
       (''background'', js_text (p_background project)),
       (''purpose'', JStr (p_purpose project)),
       (''audience'', JStr (p_audience project)),
       (''scope'', JStr (p_scope project)),
       (''exclusions'', js_text (p_exclusions project)),
       (''jurisdiction'', js_text (p_jurisdiction project)),
       (''researchDate'', JStr (p_research_date project)),
       (''sourceMaxAgeDays'', js_int (p_source_max_age_days project)),
       (''deadline'', js_text (p_deadline project)),
       (''deliverableFormats'', js_texts (p_deliverable_formats project)),
       (''specialRequirements'', js_text (p_special_requirements project))]"

text \<open>The plan joined to a question; \<open>research_plans.question_id\<close> is unique.\<close>

definition plan_of :: "question_row \<Rightarrow> database \<Rightarrow> plan_row option" where
  "plan_of q db =
     find (\<lambda>p. pl_question_id p = q_id q \<and> pl_project_id p = q_project_id q) (research_plans db)"

definition project_questions :: "string \<Rightarrow> database \<Rightarrow> question_row list" where
  "project_questions projectId db = filter (\<lambda>q. q_project_id q = projectId) (research_questions db)"

definition plan_json :: "plan_row \<Rightarrow> jsv" where
  "plan_json p =
     JObj [(''id'', JStr (pl_id p)),
       (''searchStrategy'', JStr (pl_search_strategy p)),
       (''searchQueries'', js_texts (pl_search_queries p)),
       (''primarySourceTypes'', js_texts (pl_primary_source_types p)),
       (''secondarySourceTypes'', js_texts (pl_secondary_source_types p)),
       (''comparisonTargets'', js_texts (pl_comparison_targets p)),
       (''expectedOutput'', JStr (pl_expected_output p)),
       (''assignedStage'', JStr (pl_assigned_stage p)),
       (''completionCondition'', JStr (pl_completion_condition p)),
       (''expectedRisks'', js_texts (pl_expected_risks p)),
       (''researchGap'', js_text (pl_research_gap p)),
       (''humanApproved'', JBool (pl_human_approved p)),
       (''approvedAt'', js_text (pl_approved_at p))]"

definition question_json :: "database \<Rightarrow> question_row \<Rightarrow> jsv" where
  "question_json db q =
     JObj [(''id'', JStr (q_id q)), (''parentId'', js_text (q_parent_id q)),
       (''question'', JStr (q_question q)), (''priority'', JStr (q_priority q)),
       (''completionCriteria'', JStr (q_completion_criteria q)),
       (''plan'', case plan_of q db of
          None \<Rightarrow> JNull
        | Some p \<Rightarrow> if pl_id p = [] then JNull else plan_json p)]"

definition planSnapshot :: "string \<Rightarrow> database \<Rightarrow> jsv" where
  "planSnapshot projectId db =
     JObj [(''questions'', JArr (map (question_json db)
       (sort_key (\<lambda>q. (q_created_at q, q_id q)) (project_questions projectId db))))]"

section \<open>Capturing a revision\<close>

fun kind_name :: "approval_revision_kind \<Rightarrow> string" where
  "kind_name SCOPE = ''SCOPE''"
| "kind_name PLAN = ''PLAN''"

definition approved_at_of :: "approval_revision_kind \<Rightarrow> project_row \<Rightarrow> string option" where
  "approved_at_of kind project =
     (case kind of SCOPE \<Rightarrow> p_scope_approved_at project | PLAN \<Rightarrow> p_plan_approved_at project)"

definition revision_of ::
  "string \<Rightarrow> approval_revision_kind \<Rightarrow> string \<Rightarrow> database \<Rightarrow> approval_revision_row option" where
  "revision_of projectId kind hash db =
     find (\<lambda>a. ar_project_id a = projectId \<and> ar_kind a = kind \<and> ar_content_hash a = hash)
       (approval_revisions db)"

text \<open>\<open>COALESCE(MAX(revision_number), 0) + 1\<close>\<close>

definition next_revision_number :: "string \<Rightarrow> approval_revision_kind \<Rightarrow> database \<Rightarrow> int" where
  "next_revision_number projectId kind db =
     foldr max (map ar_revision_number (filter (\<lambda>a. ar_project_id a = projectId \<and> ar_kind a = kind)
       (approval_revisions db))) 0 + 1"

text \<open>The table's keys: \<open>id\<close>, and number and content per project and kind.\<close>

definition revision_clash :: "approval_revision_row \<Rightarrow> approval_revision_row \<Rightarrow> bool" where
  "revision_clash row a \<longleftrightarrow> ar_id a = ar_id row \<or>
     (ar_project_id a = ar_project_id row \<and> ar_kind a = ar_kind row \<and>
      (ar_revision_number a = ar_revision_number row \<or> ar_content_hash a = ar_content_hash row))"

definition capture_revision ::
  "int \<Rightarrow> string \<Rightarrow> string \<Rightarrow> approval_revision_kind \<Rightarrow> string \<Rightarrow> jsv \<Rightarrow> string \<Rightarrow> string \<Rightarrow>
   approval_revision_row db_tx" where
  "capture_revision now uuid projectId kind approvedAt snapshot contentHash createdBy =
     tbind (gets (next_revision_number projectId kind)) (\<lambda>number.
     (let row = \<lparr>ar_id = uuid, ar_project_id = projectId, ar_kind = kind, ar_revision_number = number,
                 ar_snapshot = case_option JNull id (json_normal snapshot), ar_content_hash = contentHash,
                 ar_approved_at = approvedAt, ar_created_by = createdBy, ar_created_at = now\<rparr> in
      tbind (gets (\<lambda>db. list_ex (revision_clash row) (approval_revisions db))) (\<lambda>clash.
      tbind (require (\<not> clash) (DbError ''unique_violation'')) (\<lambda>_.
      tbind (modify (\<lambda>db. db\<lparr>approval_revisions := approval_revisions db @ [row]\<rparr>)) (\<lambda>_.
      tbind (writeAuditEvent \<lparr>au_project_id = Some projectId, au_actor_type = SYSTEM,
               au_actor_label = ''Approval revision service'',
               au_action = kind_name kind @ ''_APPROVAL_REVISION_CAPTURED'',
               au_resource_type = ''approval_revision'', au_resource_id = Some uuid,
               au_before_state = None,
               au_after_state = Some (JObj [(''kind'', JStr (kind_name kind)),
                 (''revisionNumber'', js_int number), (''contentHash'', JStr contentHash)])\<rparr>) (\<lambda>_.
      ret row))))))"

definition point_revision ::
  "int \<Rightarrow> approval_revision_kind \<Rightarrow> string \<Rightarrow> project_row \<Rightarrow> project_row" where
  "point_revision now kind revisionId p =
     (case kind of
        SCOPE \<Rightarrow> p\<lparr>p_scope_approved_revision_id := Some revisionId, p_updated_at := now\<rparr>
      | PLAN \<Rightarrow> p\<lparr>p_plan_approved_revision_id := Some revisionId, p_updated_at := now\<rparr>)"

definition upd_project :: "string \<Rightarrow> (project_row \<Rightarrow> project_row) \<Rightarrow> database \<Rightarrow> database" where
  "upd_project k f db = db\<lparr>projects := update_where (\<lambda>p. p_id p = k) f (projects db)\<rparr>"

definition ensureApprovalRevision ::
  "js_env \<Rightarrow> int \<Rightarrow> string \<Rightarrow> project_row \<Rightarrow> approval_revision_kind \<Rightarrow> string \<Rightarrow>
   approval_revision_row db_tx" where
  "ensureApprovalRevision E now uuid project kind createdBy =
     tbind (from_some (truthy (approved_at_of kind project))
              (conflict (kind_name kind @ ''_APPROVAL_REQUIRED''))) (\<lambda>approvedAt.
     tbind (case kind of
              SCOPE \<Rightarrow> ret (scopeSnapshot project)
            | PLAN \<Rightarrow> gets (planSnapshot (p_id project))) (\<lambda>snapshot.
     tbind (lift_res (inputHash E snapshot)) (\<lambda>contentHash.
     tbind (gets (revision_of (p_id project) kind contentHash)) (\<lambda>existing.
     tbind (case existing of
              Some r \<Rightarrow> ret r
            | None \<Rightarrow> capture_revision now uuid (p_id project) kind approvedAt snapshot contentHash
                        createdBy) (\<lambda>revision.
     tbind (modify (upd_project (p_id project) (point_revision now kind (ar_id revision)))) (\<lambda>_.
     ret revision))))))"

definition captureApprovalRevision ::
  "js_env \<Rightarrow> int \<Rightarrow> string \<Rightarrow> string \<Rightarrow> approval_revision_kind \<Rightarrow> string \<Rightarrow>
   approval_revision_row db_tx" where
  "captureApprovalRevision E now uuid projectId kind createdBy =
     tbind (gets (find_project projectId)) (\<lambda>p.
     tbind (from_some p (notFound ''Project'')) (\<lambda>project.
     ensureApprovalRevision E now uuid project kind createdBy))"

section \<open>What a capture leaves alone\<close>

lemma tx_frame_kind [tx_frames]:
  "tx_frame P m \<Longrightarrow> tx_frame P n \<Longrightarrow> tx_frame P (case kd of SCOPE \<Rightarrow> m | PLAN \<Rightarrow> n)"
  by (cases kd) auto

lemma ensureApprovalRevision_frame:
  assumes "\<And>db x. P (db\<lparr>projects := x\<rparr>) = P db" "\<And>db x. P (db\<lparr>approval_revisions := x\<rparr>) = P db"
    "\<And>db x. P (db\<lparr>audit_events := x\<rparr>) = P db"
  shows "tx_frame P (ensureApprovalRevision env now u prj kd who)"
  unfolding ensureApprovalRevision_def capture_revision_def writeAuditEvent_def Let_def
  by (intro tx_frames) (simp_all add: assms upd_project_def)

end
