(* ===== verification/Budgets.thy ===== *)
theory Budgets
  imports Database
begin

text \<open>
  Run budgets, \<open>lib/budgets/index.ts\<close>, and the validation of a requested budget of
  \<open>lib/services/research-runs.ts\<close>. Numbers are exact rationals.
\<close>

definition DEFAULT_RUN_BUDGET :: budget_snapshot where
  "DEFAULT_RUN_BUDGET =
     \<lparr>maxProviderRequests = 40, maxSearchRequests = 30, maxInputTokens = 500000,
      maxOutputTokens = 100000, maxEstimatedCostUsd = 25, maxElapsedMs = 60 * 60 * 1000,
      maxStageAttempts = 3, maxSources = 100, maxDocumentChunks = 2000\<rparr>"

section \<open>Validation of a requested budget\<close>

text \<open>The numbers of a request are arbitrary JavaScript values.\<close>

record budget_request =
  bq_maxProviderRequests :: jsv
  bq_maxSearchRequests :: jsv
  bq_maxInputTokens :: jsv
  bq_maxOutputTokens :: jsv
  bq_maxEstimatedCostUsd :: jsv
  bq_maxElapsedMs :: jsv
  bq_maxStageAttempts :: jsv
  bq_maxSources :: jsv
  bq_maxDocumentChunks :: jsv

definition positiveBudgetInteger :: "jsv \<Rightarrow> app_error + int" where
  "positiveBudgetInteger v =
     (case safe_integer v of
        None \<Rightarrow> Inl (GenericError ''Error'')
      | Some n \<Rightarrow> if n < 1 then Inl (GenericError ''Error'') else Inr n)"

definition nonNegativeBudgetInteger :: "jsv \<Rightarrow> app_error + int" where
  "nonNegativeBudgetInteger v =
     (case safe_integer v of
        None \<Rightarrow> Inl (GenericError ''Error'')
      | Some n \<Rightarrow> if n < 0 then Inl (GenericError ''Error'') else Inr n)"

definition finite_number :: "jsv \<Rightarrow> rat option" where
  "finite_number v = (case v of JNum (Fin r) \<Rightarrow> Some r | _ \<Rightarrow> None)"

definition validateBudget :: "budget_request \<Rightarrow> app_error + budget_snapshot" where
  "validateBudget q =
     ebind (nonNegativeBudgetInteger (bq_maxProviderRequests q)) (\<lambda>providerRequests.
     ebind (nonNegativeBudgetInteger (bq_maxSearchRequests q)) (\<lambda>searchRequests.
     ebind (nonNegativeBudgetInteger (bq_maxInputTokens q)) (\<lambda>inputTokens.
     ebind (nonNegativeBudgetInteger (bq_maxOutputTokens q)) (\<lambda>outputTokens.
     ebind (positiveBudgetInteger (bq_maxElapsedMs q)) (\<lambda>elapsedMs.
     ebind (positiveBudgetInteger (bq_maxStageAttempts q)) (\<lambda>stageAttempts.
     ebind (nonNegativeBudgetInteger (bq_maxSources q)) (\<lambda>sources.
     ebind (nonNegativeBudgetInteger (bq_maxDocumentChunks q)) (\<lambda>documentChunks.
     (case finite_number (bq_maxEstimatedCostUsd q) of
        None \<Rightarrow> Inl (GenericError ''Error'')
      | Some cost \<Rightarrow>
          if cost < 0 then Inl (GenericError ''Error'')
          else Inr \<lparr>maxProviderRequests = providerRequests, maxSearchRequests = searchRequests,
                    maxInputTokens = inputTokens, maxOutputTokens = outputTokens,
                    maxEstimatedCostUsd = cost, maxElapsedMs = elapsedMs,
                    maxStageAttempts = stageAttempts, maxSources = sources,
                    maxDocumentChunks = documentChunks\<rparr>)))))))))"

text \<open>A budget in the form of a request.\<close>

definition budget_as_request :: "budget_snapshot \<Rightarrow> budget_request" where
  "budget_as_request b =
     \<lparr>bq_maxProviderRequests = js_int (maxProviderRequests b),
      bq_maxSearchRequests = js_int (maxSearchRequests b),
      bq_maxInputTokens = js_int (maxInputTokens b), bq_maxOutputTokens = js_int (maxOutputTokens b),
      bq_maxEstimatedCostUsd = JNum (Fin (maxEstimatedCostUsd b)),
      bq_maxElapsedMs = js_int (maxElapsedMs b), bq_maxStageAttempts = js_int (maxStageAttempts b),
      bq_maxSources = js_int (maxSources b), bq_maxDocumentChunks = js_int (maxDocumentChunks b)\<rparr>"

section \<open>Prices\<close>

record model_price =
  mp_provider :: string
  mp_model :: string
  mp_inputUsdPerMillionTokens :: rat
  mp_outputUsdPerMillionTokens :: rat
  mp_status :: cost_status
  mp_effectiveAt :: string
  mp_source :: string

definition BUILT_IN_PRICES :: "model_price list" where
  "BUILT_IN_PRICES =
     [\<lparr>mp_provider = ''mock-ai'', mp_model = ''deterministic-fixture-v1'',
       mp_inputUsdPerMillionTokens = 0, mp_outputUsdPerMillionTokens = 0, mp_status = COST_KNOWN,
       mp_effectiveAt = ''2026-08-30'',
       mp_source = ''deterministic local provider; no external API call''\<rparr>]"

definition estimateProviderCost ::
  "string \<Rightarrow> string \<Rightarrow> int option \<Rightarrow> int option \<Rightarrow> model_price list \<Rightarrow> cost_status \<times> rat option" where
  "estimateProviderCost provider model inputTokens outputTokens prices =
     (case find (\<lambda>c. mp_provider c = provider \<and> mp_model c = model) prices of
        None \<Rightarrow> (COST_UNKNOWN, None)
      | Some price \<Rightarrow>
          (case (inputTokens, outputTokens) of
             (Some i, Some out) \<Rightarrow>
               (mp_status price,
                Some ((of_int i * mp_inputUsdPerMillionTokens price +
                       of_int out * mp_outputUsdPerMillionTokens price) / 1000000))
           | _ \<Rightarrow> (COST_UNKNOWN, None)))"

section \<open>The budget check\<close>

record run_usage =
  ru_providerRequests :: int
  ru_searchRequests :: int
  ru_inputTokens :: int
  ru_outputTokens :: int
  ru_estimatedCostUsd :: rat
  ru_costStatus :: cost_status
  ru_elapsedMs :: int
  ru_stageAttempts :: int
  ru_sources :: int
  ru_documentChunks :: int

text \<open>\<open>Partial<RunUsage>\<close>\<close>

record next_usage =
  nx_providerRequests :: "int option"
  nx_searchRequests :: "int option"
  nx_inputTokens :: "int option"
  nx_outputTokens :: "int option"
  nx_estimatedCostUsd :: "rat option"
  nx_costStatus :: "cost_status option"
  nx_elapsedMs :: "int option"
  nx_stageAttempts :: "int option"
  nx_sources :: "int option"
  nx_documentChunks :: "int option"

definition no_next :: next_usage where
  "no_next =
     \<lparr>nx_providerRequests = None, nx_searchRequests = None, nx_inputTokens = None,
      nx_outputTokens = None, nx_estimatedCostUsd = None, nx_costStatus = None, nx_elapsedMs = None,
      nx_stageAttempts = None, nx_sources = None, nx_documentChunks = None\<rparr>"

definition projected_usage :: "run_usage \<Rightarrow> next_usage \<Rightarrow> run_usage" where
  "projected_usage u n =
     \<lparr>ru_providerRequests = ru_providerRequests u + case_option 0 id (nx_providerRequests n),
      ru_searchRequests = ru_searchRequests u + case_option 0 id (nx_searchRequests n),
      ru_inputTokens = ru_inputTokens u + case_option 0 id (nx_inputTokens n),
      ru_outputTokens = ru_outputTokens u + case_option 0 id (nx_outputTokens n),
      ru_estimatedCostUsd = ru_estimatedCostUsd u + case_option 0 id (nx_estimatedCostUsd n),
      ru_costStatus = case_option (ru_costStatus u) id (nx_costStatus n),
      ru_elapsedMs = ru_elapsedMs u + case_option 0 id (nx_elapsedMs n),
      ru_stageAttempts = ru_stageAttempts u + case_option 0 id (nx_stageAttempts n),
      ru_sources = ru_sources u + case_option 0 id (nx_sources n),
      ru_documentChunks = ru_documentChunks u + case_option 0 id (nx_documentChunks n)\<rparr>"

definition budget_checks :: "budget_snapshot \<Rightarrow> run_usage \<Rightarrow> (rat \<times> rat \<times> string) list" where
  "budget_checks b p =
     [(of_int (ru_providerRequests p), of_int (maxProviderRequests b), ''MAX_PROVIDER_REQUESTS''),
      (of_int (ru_searchRequests p), of_int (maxSearchRequests b), ''MAX_SEARCH_REQUESTS''),
      (of_int (ru_inputTokens p), of_int (maxInputTokens b), ''MAX_INPUT_TOKENS''),
      (of_int (ru_outputTokens p), of_int (maxOutputTokens b), ''MAX_OUTPUT_TOKENS''),
      (ru_estimatedCostUsd p, maxEstimatedCostUsd b, ''MAX_ESTIMATED_COST''),
      (of_int (ru_elapsedMs p), of_int (maxElapsedMs b), ''MAX_ELAPSED_TIME''),
      (of_int (ru_stageAttempts p), of_int (maxStageAttempts b), ''MAX_STAGE_ATTEMPTS''),
      (of_int (ru_sources p), of_int (maxSources b), ''MAX_SOURCES''),
      (of_int (ru_documentChunks p), of_int (maxDocumentChunks b), ''MAX_DOCUMENT_CHUNKS'')]"

text \<open>The maximum cost of a validated budget is finite, so the last guard's third test holds.\<close>

definition checkRunBudget :: "budget_snapshot \<Rightarrow> run_usage \<Rightarrow> next_usage \<Rightarrow> bool \<times> string list" where
  "checkRunBudget budget usage n =
     (let projected = projected_usage usage n;
          over = map (\<lambda>(_, _, code). code) (filter (\<lambda>(v, m, _). v > m) (budget_checks budget projected));
          costStatus = case_option (ru_costStatus usage) id (nx_costStatus n);
          violations = over @
            (if ru_providerRequests projected > ru_providerRequests usage \<and> costStatus = COST_UNKNOWN
             then [''UNKNOWN_MODEL_COST''] else [])
      in (violations = [], violations))"

end
