(* ===== verification/Research_Runs.thy ===== *)
theory Research_Runs
  imports Run_Stages Approval_Revisions Budgets
begin

text \<open>
  Research runs, \<open>lib/services/research-runs.ts\<close>: creation from an approved scope and plan,
  cancellation, its completion, and resumption.
\<close>

section \<open>Inputs\<close>

fun research_run_mode_name :: "research_run_mode \<Rightarrow> string" where
  "research_run_mode_name ASSISTED = ''ASSISTED''"
| "research_run_mode_name ORCHESTRATED = ''ORCHESTRATED''"
| "research_run_mode_name DRAFT_ONLY = ''DRAFT_ONLY''"

record create_research_run_input =
  cr_projectId :: string
  cr_mode :: research_run_mode
  cr_idempotencyKey :: string
  cr_createdBy :: string
  cr_providerConfigSnapshot :: "jsv option"
  cr_modelConfigSnapshot :: "jsv option"
  cr_searchConfigSnapshot :: "jsv option"
  cr_budget :: "budget_request option"
  cr_pipelineVersion :: "string option"

text \<open>
  The providers the process selects from its configuration (\<open>getConfig\<close>, \<open>selectProviders\<close>), as
  far as a run records them.
\<close>

record provider_selection =
  ps_ai_id :: string
  ps_ai_model :: string
  ps_search_id :: string

text \<open>The identifiers \<open>randomUUID\<close> draws while a run is created.\<close>

record run_uuids =
  uu_scope :: string
  uu_plan :: string
  uu_run :: string
  uu_stage :: "ai_stage \<Rightarrow> string"
  uu_job :: string

definition run_boundedText :: "string \<Rightarrow> nat \<Rightarrow> app_error + string" where
  "run_boundedText v maximum =
     (let normalized = js_trim v in
      if normalized = [] \<or> length normalized > maximum then Inl (GenericError ''Error'')
      else Inr normalized)"

definition budget_json :: "budget_snapshot \<Rightarrow> jsv" where
  "budget_json b =
     JObj [(''maxProviderRequests'', js_int (maxProviderRequests b)),
       (''maxSearchRequests'', js_int (maxSearchRequests b)),
       (''maxInputTokens'', js_int (maxInputTokens b)),
       (''maxOutputTokens'', js_int (maxOutputTokens b)),
       (''maxElapsedMs'', js_int (maxElapsedMs b)),
       (''maxStageAttempts'', js_int (maxStageAttempts b)),
       (''maxSources'', js_int (maxSources b)),
       (''maxDocumentChunks'', js_int (maxDocumentChunks b)),
       (''maxEstimatedCostUsd'', JNum (Fin (maxEstimatedCostUsd b)))]"

section \<open>Creation\<close>

text \<open>The three counts of the readiness query.\<close>

definition plan_ready :: "string \<Rightarrow> database \<Rightarrow> bool" where
  "plan_ready projectId db \<longleftrightarrow>
     (let qs = project_questions projectId db in
      length qs \<noteq> 0 \<and>
      length (filter (\<lambda>q. plan_of q db = None) qs) = 0 \<and>
      length (filter (\<lambda>q. case plan_of q db of None \<Rightarrow> False | Some p \<Rightarrow> \<not> pl_human_approved p) qs) = 0)"

definition load_stages :: "string \<Rightarrow> database \<Rightarrow> research_run_stage_row list" where
  "load_stages runId db = sort_key (\<lambda>s. (s_ordinal s, s_generation s)) (run_rows runId db)"

definition run_jobs :: "string \<Rightarrow> database \<Rightarrow> job_row list" where
  "run_jobs runId db = sort_key j_created_at (filter (\<lambda>j. j_run_id j = Some runId) (jobs db))"

definition latest_job :: "string \<Rightarrow> database \<Rightarrow> job_row option" where
  "latest_job runId db =
     (case sort_key (\<lambda>j. - j_created_at j) (filter (\<lambda>j. j_run_id j = Some runId) (jobs db)) of
        [] \<Rightarrow> None | j # _ \<Rightarrow> Some j)"

type_synonym run_bundle = "research_run_row \<times> research_run_stage_row list \<times> job_row option \<times> bool"

definition loadRunBundle :: "research_run_row \<Rightarrow> bool \<Rightarrow> run_bundle db_tx" where
  "loadRunBundle run created =
     tbind (gets (load_stages (r_id run))) (\<lambda>stages.
     tbind (gets (latest_job (r_id run))) (\<lambda>job.
     ret (run, stages, job, created)))"

definition request_snapshot ::
  "create_research_run_input \<Rightarrow> string \<Rightarrow> string \<Rightarrow> string \<Rightarrow> jsv \<Rightarrow> jsv \<Rightarrow> jsv \<Rightarrow> budget_snapshot \<Rightarrow> jsv" where
  "request_snapshot i pipelineVersion scopeRevisionId planRevisionId providerConfig modelConfig searchConfig budget =
     JObj [(''mode'', JStr (research_run_mode_name (cr_mode i))),
       (''pipelineVersion'', JStr pipelineVersion),
       (''scopeRevisionId'', JStr scopeRevisionId),
       (''planRevisionId'', JStr planRevisionId),
       (''providerConfigSnapshot'', providerConfig),
       (''modelConfigSnapshot'', modelConfig),
       (''searchConfigSnapshot'', searchConfig),
       (''budget'', budget_json budget)]"

text \<open>The columns the \<open>INSERT INTO research_runs\<close> leaves out take their defaults.\<close>

definition new_run_row ::
  "int \<Rightarrow> run_uuids \<Rightarrow> string \<Rightarrow> create_research_run_input \<Rightarrow> approval_revision_row \<Rightarrow>
   approval_revision_row \<Rightarrow> string \<Rightarrow> jsv \<Rightarrow> jsv \<Rightarrow> jsv \<Rightarrow> budget_snapshot \<Rightarrow> string \<Rightarrow> string \<Rightarrow> string \<Rightarrow>
   research_run_row" where
  "new_run_row now U projectId i scopeRevision planRevision pipelineVersion providerConfig modelConfig
     searchConfig budget requestHash idempotencyKey createdBy =
     \<lparr>r_id = uu_run U, r_project_id = projectId, r_mode = cr_mode i, r_status = R_QUEUED,
      r_scope_revision_id = Some (ar_id scopeRevision), r_plan_revision_id = Some (ar_id planRevision),
      r_scope_snapshot = ar_snapshot scopeRevision, r_plan_snapshot = ar_snapshot planRevision,
      r_pipeline_version = pipelineVersion,
      r_provider_config_snapshot = case_option JNull id (json_normal providerConfig),
      r_model_config_snapshot = case_option JNull id (json_normal modelConfig),
      r_search_config_snapshot = case_option JNull id (json_normal searchConfig),
      r_budget_snapshot = budget, r_request_hash = requestHash, r_idempotency_key = idempotencyKey,
      r_current_stage = Some (sd_id (hd PIPELINE_STAGE_CATALOG)), r_progress = 0,
      r_total_attempts = 0, r_total_provider_requests = 0, r_total_search_requests = 0,
      r_total_input_tokens = 0, r_total_output_tokens = 0, r_estimated_cost = None,
      r_cost_status = COST_UNKNOWN, r_failure_reason = None, r_block_reason = None,
      r_created_by = createdBy, r_cancelled_by = None, r_started_at = None, r_completed_at = None,
      r_updated_at = now, r_version = 0\<rparr>"

definition insert_run :: "research_run_row \<Rightarrow> unit db_tx" where
  "insert_run row =
     tbind (gets (\<lambda>db. list_ex (\<lambda>r. r_id r = r_id row \<or> (r_project_id r = r_project_id row \<and>
              r_idempotency_key r = r_idempotency_key row)) (research_runs db))) (\<lambda>clash.
     tbind (require (\<not> clash) (DbError ''unique_violation'')) (\<lambda>_.
     modify (\<lambda>db. db\<lparr>research_runs := research_runs db @ [row]\<rparr>)))"

definition initial_input ::
  "string \<Rightarrow> string \<Rightarrow> approval_revision_row \<Rightarrow> approval_revision_row \<Rightarrow> jsv" where
  "initial_input projectId runId scopeRevision planRevision =
     JObj [(''projectId'', JStr projectId), (''runId'', JStr runId),
       (''stage'', JStr (ai_stage_name (sd_id (hd PIPELINE_STAGE_CATALOG)))),
       (''scopeRevisionId'', JStr (ar_id scopeRevision)), (''planRevisionId'', JStr (ar_id planRevision)),
       (''scope'', ar_snapshot scopeRevision), (''plan'', ar_snapshot planRevision)]"

definition new_stage_row ::
  "int \<Rightarrow> run_uuids \<Rightarrow> string \<Rightarrow> jsv \<Rightarrow> string \<Rightarrow> pipeline_stage_definition \<Rightarrow> research_run_stage_row" where
  "new_stage_row now U pipelineVersion initialInput hash stage =
     (let isFirst = sd_id stage = sd_id (hd PIPELINE_STAGE_CATALOG) in
      \<lparr>s_id = uu_stage U (sd_id stage), s_run_id = uu_run U, s_stage_id = sd_id stage,
       s_ordinal = sd_ordinal stage, s_generation = 1,
       s_status = (if isFirst then S_QUEUED else S_PENDING), s_pipeline_version = pipelineVersion,
       s_prompt_template_version = sd_promptTemplateVersion stage,
       s_structured_schema_version = sd_structuredSchemaVersion stage, s_provider = None,
       s_model = None, s_input_reference = (if isFirst then json_normal initialInput else None),
       s_input_hash = (if isFirst then Some hash else None), s_output_reference = None,
       s_output_hash = None, s_attempt_count = 0, s_usage = [], s_cost_status = COST_UNKNOWN,
       s_estimated_cost = None, s_duration_ms = None, s_error_class = None, s_sanitized_error = None,
       s_started_at = None, s_completed_at = None, s_stale_at = None, s_updated_at = now, s_version = 0\<rparr>)"

definition insert_stages ::
  "int \<Rightarrow> run_uuids \<Rightarrow> string \<Rightarrow> jsv \<Rightarrow> string \<Rightarrow> pipeline_stage_definition list \<Rightarrow> unit db_tx" where
  "insert_stages now U pipelineVersion initialInput hash =
     for_each (\<lambda>stage. tbind (insert_stage (new_stage_row now U pipelineVersion initialInput hash stage))
       (\<lambda>_. ret ()))"

text \<open>\<open>Math.min\<close> of the attempts the catalogue and the budget allow.\<close>

definition run_job_input ::
  "string \<Rightarrow> string \<Rightarrow> string \<Rightarrow> pipeline_stage_definition \<Rightarrow> budget_snapshot \<Rightarrow> jsv \<Rightarrow> string \<Rightarrow>
   submit_job_input" where
  "run_job_input projectId runId stageRowId stage budget inputReference idempotencyKey =
     \<lparr>sj_projectId = Some projectId, sj_runId = Some runId, sj_runStageId = Some stageRowId,
      sj_stage = Some (ai_stage_name (sd_id stage)), sj_jobType = ''RESEARCH_PIPELINE_STAGE'',
      sj_inputReference = inputReference, sj_idempotencyKey = idempotencyKey,
      sj_correlationId = Some runId, sj_parentJobId = None, sj_priority = JUndefined,
      sj_maxAttempts = js_int (min (sd_maxAttempts stage) (maxStageAttempts budget)),
      sj_timeoutMs = js_int (sd_timeoutMs stage), sj_retryPolicy = JUndefined, sj_scheduledAt = None\<rparr>"

definition stage_job_key :: "string \<Rightarrow> ai_stage \<Rightarrow> string \<Rightarrow> string" where
  "stage_job_key runId stage generation =
     ''run:'' @ runId @ '':stage:'' @ ai_stage_name stage @ '':generation:'' @ generation"

text \<open>The run, its eleven stages and the first job, once the request is known to be new.\<close>

definition open_run ::
  "js_env \<Rightarrow> int \<Rightarrow> run_uuids \<Rightarrow> research_run_row \<Rightarrow> approval_revision_row \<Rightarrow> approval_revision_row \<Rightarrow>
   run_bundle db_tx" where
  "open_run E now U row scopeRevision planRevision =
     tbind (insert_run row) (\<lambda>_.
     (let first = hd PIPELINE_STAGE_CATALOG;
          initialInput = initial_input (r_project_id row) (r_id row) scopeRevision planRevision
      in
      tbind (lift_res (inputHash E initialInput)) (\<lambda>hash.
      tbind (insert_stages now U (r_pipeline_version row) initialInput hash PIPELINE_STAGE_CATALOG) (\<lambda>_.
      tbind (submitJobInTransaction E now (uu_job U)
               (run_job_input (r_project_id row) (r_id row) (uu_stage U (sd_id first)) first
                  (r_budget_snapshot row) initialInput
                  (stage_job_key (r_id row) (sd_id first) ''1''))) (\<lambda>(job, _).
      tbind (writeAuditEvent \<lparr>au_project_id = Some (r_project_id row), au_actor_type = USER,
               au_actor_label = r_created_by row, au_action = ''RESEARCH_RUN_CREATED'',
               au_resource_type = ''research_run'', au_resource_id = Some (r_id row),
               au_before_state = None,
               au_after_state = Some (JObj [(''mode'', JStr (research_run_mode_name (r_mode row))),
                 (''pipelineVersion'', JStr (r_pipeline_version row)),
                 (''scopeRevisionId'', JStr (ar_id scopeRevision)),
                 (''planRevisionId'', JStr (ar_id planRevision)),
                 (''requestHash'', JStr (r_request_hash row)),
                 (''idempotencyKey'', JStr (r_idempotency_key row))])\<rparr>) (\<lambda>_.
      ret (row, map (new_stage_row now U (r_pipeline_version row) initialInput hash) PIPELINE_STAGE_CATALOG,
           Some job, True)))))))"

definition run_of_key :: "string \<Rightarrow> string \<Rightarrow> database \<Rightarrow> research_run_row option" where
  "run_of_key projectId idempotencyKey db =
     find (\<lambda>r. r_project_id r = projectId \<and> r_idempotency_key r = idempotencyKey) (research_runs db)"

definition approved_project :: "string \<Rightarrow> project_row db_tx" where
  "approved_project projectId =
     tbind (gets (find_project projectId)) (\<lambda>p.
     tbind (from_some p (notFound ''Project'')) (\<lambda>project.
     tbind (require (truthy (p_scope_approved_at project) \<noteq> None)
              (conflict ''SCOPE_APPROVAL_REQUIRED'')) (\<lambda>_.
     tbind (require (truthy (p_plan_approved_at project) \<noteq> None)
              (conflict ''PLAN_APPROVAL_REQUIRED'')) (\<lambda>_.
     tbind (gets (plan_ready projectId)) (\<lambda>ready.
     tbind (require ready (conflict ''PLAN_INCOMPLETE'')) (\<lambda>_.
     ret project))))))"

text \<open>The configuration a run records: the request's, or what the selected providers imply.\<close>

definition provider_config :: "provider_selection \<Rightarrow> create_research_run_input \<Rightarrow> jsv" where
  "provider_config selected i =
     case_option (JObj [(''aiProvider'', JStr (ps_ai_id selected))]) id (cr_providerConfigSnapshot i)"

definition model_config :: "provider_selection \<Rightarrow> create_research_run_input \<Rightarrow> jsv" where
  "model_config selected i =
     case_option (JObj [(''aiModel'', JStr (ps_ai_model selected))]) id (cr_modelConfigSnapshot i)"

definition requested_search_config :: "create_research_run_input \<Rightarrow> jsv" where
  "requested_search_config i = case_option (JObj []) id (cr_searchConfigSnapshot i)"

definition search_config :: "provider_selection \<Rightarrow> create_research_run_input \<Rightarrow> jsv" where
  "search_config selected i =
     case_option (JObj [(''searchProvider'', JStr (ps_search_id selected))]) id (cr_searchConfigSnapshot i)"

definition createResearchRun ::
  "js_env \<Rightarrow> int \<Rightarrow> run_uuids \<Rightarrow> provider_selection \<Rightarrow> create_research_run_input \<Rightarrow> run_bundle db_tx" where
  "createResearchRun E now U selected i =
     tbind (lift_res (run_boundedText (cr_projectId i) 500)) (\<lambda>projectId.
     tbind (lift_res (run_boundedText (cr_idempotencyKey i) 500)) (\<lambda>idempotencyKey.
     tbind (lift_res (run_boundedText (cr_createdBy i) 500)) (\<lambda>createdBy.
     tbind (lift_res (run_boundedText (case_option RESEARCH_PIPELINE_VERSION id (cr_pipelineVersion i)) 200))
       (\<lambda>pipelineVersion.
     tbind (lift_res (validateBudget (case_option (budget_as_request DEFAULT_RUN_BUDGET) id
                        (cr_budget i)))) (\<lambda>budget.
     tbind (approved_project projectId) (\<lambda>project.
     tbind (ensureApprovalRevision E now (uu_scope U) project SCOPE createdBy) (\<lambda>scopeRevision.
     tbind (ensureApprovalRevision E now (uu_plan U) project PLAN createdBy) (\<lambda>planRevision.
     tbind (lift_res (inputHash E (request_snapshot i pipelineVersion (ar_id scopeRevision)
              (ar_id planRevision) (provider_config selected i) (model_config selected i)
              (requested_search_config i) budget))) (\<lambda>requestHash.
     tbind (gets (run_of_key projectId idempotencyKey)) (\<lambda>existing.
     (case existing of
        Some run \<Rightarrow>
          tbind (require (r_request_hash run = requestHash) (conflict ''IDEMPOTENCY_KEY_REUSED'')) (\<lambda>_.
          loadRunBundle run False)
      | None \<Rightarrow>
          open_run E now U (new_run_row now U projectId i scopeRevision planRevision pipelineVersion
            (provider_config selected i) (model_config selected i) (search_config selected i) budget
            requestHash idempotencyKey createdBy)
            scopeRevision planRevision)))))))))))"

text \<open>What a successful call went through: validation, approvals, the two revisions, the hash.\<close>

lemma createResearchRun_Inr:
  assumes "createResearchRun E now U selected i db = Inr (r, db')"
  obtains projectId key createdBy pv budget project scope plan hash mid0 mid where
    "run_boundedText (cr_projectId i) 500 = Inr projectId" "run_boundedText (cr_idempotencyKey i) 500 = Inr key"
    "run_boundedText (cr_createdBy i) 500 = Inr createdBy"
    "validateBudget (case_option (budget_as_request DEFAULT_RUN_BUDGET) id (cr_budget i)) = Inr budget"
    "approved_project projectId db = Inr (project, db)"
    "ensureApprovalRevision E now (uu_scope U) project SCOPE createdBy db = Inr (scope, mid0)"
    "ensureApprovalRevision E now (uu_plan U) project PLAN createdBy mid0 = Inr (plan, mid)"
    "inputHash E (request_snapshot i pv (ar_id scope) (ar_id plan) (provider_config selected i)
       (model_config selected i) (requested_search_config i) budget) = Inr hash"
    "(case run_of_key projectId key mid of
        Some run \<Rightarrow>
          tbind (require (r_request_hash run = hash) (conflict ''IDEMPOTENCY_KEY_REUSED'')) (\<lambda>_.
          loadRunBundle run False)
      | None \<Rightarrow>
          open_run E now U (new_run_row now U projectId i scope plan pv (provider_config selected i)
            (model_config selected i) (search_config selected i) budget hash key createdBy) scope plan) mid =
     Inr (r, db')"
proof -
  have locked: "approved_project p d = Inr (x, d') \<Longrightarrow> d' = d" for p d x d'
    by (auto simp: approved_project_def tx_simps)
  show thesis
    using assms unfolding createResearchRun_def
    by (elim tx_elims) (frule locked, hypsubst, rule that; assumption)
qed

definition getResearchRun ::
  "string \<Rightarrow> (research_run_row \<times> research_run_stage_row list \<times> job_row list) db_tx" where
  "getResearchRun runId =
     tbind (gets (find_run runId)) (\<lambda>r.
     tbind (from_some r (notFound ''Research run'')) (\<lambda>run.
     tbind (gets (load_stages runId)) (\<lambda>stages.
     tbind (gets (run_jobs runId)) (\<lambda>js.
     ret (run, stages, js)))))"

section \<open>Cancellation\<close>

definition cancel_final_statuses :: "research_run_status list" where
  "cancel_final_statuses = [R_CANCELLING, R_CANCELLED, R_COMPLETED, R_FAILED]"

text \<open>
  The loop over the jobs of the run: whether some worker still has to cooperate, and the stages of
  the jobs that were cancelled at once.
\<close>

fun cancel_jobs :: "int \<Rightarrow> string \<Rightarrow> job_row list \<Rightarrow> bool \<Rightarrow> string list \<Rightarrow> (bool \<times> string list) db_tx" where
  "cancel_jobs now cancelledBy [] cooperative stages = ret (cooperative, stages)"
| "cancel_jobs now cancelledBy (job # rest) cooperative stages =
     tbind (requestJobCancellationInTransaction now (j_id job) cancelledBy None False) (\<lambda>cancelled.
     if j_status cancelled = J_CANCELLATION_REQUESTED then cancel_jobs now cancelledBy rest True stages
     else
       (case (j_status cancelled = J_CANCELLED, truthy (j_run_stage_id job)) of
          (True, Some s) \<Rightarrow> cancel_jobs now cancelledBy rest cooperative (stages @ [s])
        | _ \<Rightarrow> cancel_jobs now cancelledBy rest cooperative stages))"

definition cancel_request_run_row ::
  "int \<Rightarrow> research_run_status \<Rightarrow> string \<Rightarrow> research_run_row \<Rightarrow> research_run_row" where
  "cancel_request_run_row now target cancelledBy r =
     r\<lparr>r_status := target, r_cancelled_by := Some cancelledBy,
       r_completed_at := (if target = R_CANCELLED then Some now else None),
       r_updated_at := now, r_version := r_version r + 1\<rparr>"

definition key_field :: "string option \<Rightarrow> (string \<times> jsv) list" where
  "key_field k = (case k of None \<Rightarrow> [] | Some x \<Rightarrow> [(''idempotencyKey'', JStr x)])"

definition lock_run :: "string \<Rightarrow> research_run_row db_tx" where
  "lock_run runId =
     tbind (gets (find_run runId)) (\<lambda>r. from_some r (notFound ''Research run''))"

definition cancel_open_run ::
  "int \<Rightarrow> research_run_row \<Rightarrow> string \<Rightarrow> string option \<Rightarrow> research_run_row db_tx" where
  "cancel_open_run now run cancelledBy idempotencyKey =
     tbind (gets (run_jobs (r_id run))) (\<lambda>js.
     tbind (cancel_jobs now cancelledBy js False []) (\<lambda>(cooperative, immediate).
     tbind (if immediate \<noteq> []
            then modify (upd_stages (\<lambda>s. s_id s \<in> set immediate \<and> s_status s \<in> set [S_PENDING, S_QUEUED])
                   (cancel_stage_row now))
            else ret ()) (\<lambda>_.
     (let target = (if cooperative then R_CANCELLING else R_CANCELLED) in
      tbind (lift_res (assertResearchRunTransition (r_status run) target)) (\<lambda>_.
      tbind (if target = R_CANCELLED
             then modify (upd_stages (\<lambda>s. s_run_id s = r_id run \<and> s_status s \<in> set open_stage_statuses)
                    (cancel_stage_row now))
             else ret ()) (\<lambda>_.
      tbind (update_run_returning (r_id run) (cancel_request_run_row now target cancelledBy)) (\<lambda>updated.
      tbind (writeAuditEvent \<lparr>au_project_id = Some (r_project_id run), au_actor_type = USER,
               au_actor_label = cancelledBy, au_action = ''RESEARCH_RUN_CANCELLATION_REQUESTED'',
               au_resource_type = ''research_run'', au_resource_id = Some (r_id run),
               au_before_state = Some (JObj [(''status'', JStr (run_status_name (r_status run)))]),
               au_after_state = Some (JObj ((''status'', JStr (run_status_name target)) #
                 key_field idempotencyKey))\<rparr>) (\<lambda>_.
      ret updated))))))))"

definition requestResearchRunCancellation ::
  "int \<Rightarrow> string \<Rightarrow> string \<Rightarrow> string option \<Rightarrow> research_run_row db_tx" where
  "requestResearchRunCancellation now runId cancelledBy idempotencyKey =
     tbind (lock_run runId) (\<lambda>identity.
     tbind (lock_project (r_project_id identity)) (\<lambda>_.
     tbind (lock_run runId) (\<lambda>run.
     if r_status run \<in> set cancel_final_statuses then ret run
     else cancel_open_run now run cancelledBy idempotencyKey)))"

definition finalizeResearchRunCancellation :: "int \<Rightarrow> string \<Rightarrow> research_run_row db_tx" where
  "finalizeResearchRunCancellation now runId =
     tbind (lock_run runId) (\<lambda>run.
     if r_status run = R_CANCELLED then ret run
     else
       tbind (require (r_status run = R_CANCELLING) (conflict ''RUN_NOT_CANCELLING'')) (\<lambda>_.
       tbind (gets (active_run_jobs runId)) (\<lambda>active.
       tbind (require (active = 0) (conflict ''RUN_CANCELLATION_PENDING'')) (\<lambda>_.
       tbind (lift_res (assertResearchRunTransition (r_status run) R_CANCELLED)) (\<lambda>_.
       tbind (modify (upd_stages (\<lambda>s. s_run_id s = runId \<and> s_status s \<in> set open_stage_statuses)
                (cancel_stage_row now))) (\<lambda>_.
       update_run_returning runId (cancelled_run_row now)))))))"

section \<open>Resumption\<close>

definition resumable_statuses :: "research_run_status list" where
  "resumable_statuses = [R_CANCELLED, R_FAILED, R_PAUSED, R_BLOCKED]"

text \<open>The first stage, in pipeline order, whose latest generation did not succeed.\<close>

definition next_open_stage :: "string \<Rightarrow> database \<Rightarrow> research_run_stage_row option" where
  "next_open_stage runId db =
     (case sort_key s_ordinal (filter (\<lambda>s. s_status s \<noteq> S_SUCCEEDED) (latest_of (run_rows runId db))) of
        [] \<Rightarrow> None | s # _ \<Rightarrow> Some s)"

definition resume_input :: "string \<Rightarrow> research_run_stage_row \<Rightarrow> jsv" where
  "resume_input runId stage =
     (let fallback = JObj [(''runId'', JStr runId), (''stage'', stage_label stage), (''resume'', JBool True)] in
      case s_input_reference stage of
        None \<Rightarrow> fallback
      | Some v \<Rightarrow> if v = JNull then fallback else v)"

definition resume_stage_row ::
  "int \<Rightarrow> jsv \<Rightarrow> string \<Rightarrow> research_run_stage_row \<Rightarrow> research_run_stage_row" where
  "resume_stage_row now stageInput hash s =
     s\<lparr>s_status := S_QUEUED,
       s_input_reference := (case s_input_reference s of None \<Rightarrow> json_normal stageInput | Some v \<Rightarrow> Some v),
       s_input_hash := (case s_input_hash s of None \<Rightarrow> Some hash | Some h \<Rightarrow> Some h),
       s_error_class := None, s_sanitized_error := None, s_started_at := None, s_completed_at := None,
       s_updated_at := now, s_version := s_version s + 1\<rparr>"

definition resume_run_row :: "int \<Rightarrow> ai_stage \<Rightarrow> research_run_row \<Rightarrow> research_run_row" where
  "resume_run_row now stageId r =
     r\<lparr>r_status := R_QUEUED, r_current_stage := Some stageId, r_failure_reason := None,
       r_block_reason := None, r_cancelled_by := None, r_completed_at := None, r_updated_at := now,
       r_version := r_version r + 1\<rparr>"

definition resume_key :: "js_env \<Rightarrow> research_run_row \<Rightarrow> research_run_stage_row \<Rightarrow> string" where
  "resume_key E run stage =
     stage_job_key (r_id run) (s_stage_id stage) (num_text E (of_int (s_generation stage))) @
     '':resume:'' @ num_text E (of_int (r_version run + 1))"

definition resumeResearchRun ::
  "js_env \<Rightarrow> int \<Rightarrow> string \<Rightarrow> string \<Rightarrow> string \<Rightarrow> string option \<Rightarrow>
   (research_run_row \<times> research_run_stage_row \<times> job_row) db_tx" where
  "resumeResearchRun E now jobUuid runId requestedBy idempotencyKey =
     tbind (lock_run runId) (\<lambda>run.
     tbind (require (r_status run \<in> set resumable_statuses) (conflict ''RUN_NOT_RESUMABLE'')) (\<lambda>_.
     tbind (gets (next_open_stage runId)) (\<lambda>s.
     tbind (from_some s (conflict ''RUN_ALREADY_COMPLETE'')) (\<lambda>stage.
     tbind (if s_status stage \<noteq> S_QUEUED
            then lift_res (assertRunStageTransition (s_status stage) S_QUEUED) else ret ()) (\<lambda>_.
     (let stageInput = resume_input runId stage in
      tbind (lift_res (inputHash E stageInput)) (\<lambda>hash.
      tbind (update_stage_returning (s_id stage) (resume_stage_row now stageInput hash)) (\<lambda>updatedStage.
      tbind (lift_res (assertResearchRunTransition (r_status run) R_QUEUED)) (\<lambda>_.
      tbind (update_run_returning runId (resume_run_row now (s_stage_id stage))) (\<lambda>updatedRun.
      tbind (from_some (find (\<lambda>item. sd_id item = s_stage_id stage) PIPELINE_STAGE_CATALOG)
               (conflict ''UNKNOWN_RUN_STAGE'')) (\<lambda>definition.
      tbind (submitJobInTransaction E now jobUuid
               (run_job_input (r_project_id run) runId (s_id stage) definition (r_budget_snapshot run)
                  stageInput (resume_key E run stage))) (\<lambda>(job, _).
      tbind (writeAuditEvent \<lparr>au_project_id = Some (r_project_id run), au_actor_type = USER,
               au_actor_label = requestedBy, au_action = ''RESEARCH_RUN_RESUMED'',
               au_resource_type = ''research_run'', au_resource_id = Some runId,
               au_before_state = Some (JObj [(''status'', JStr (run_status_name (r_status run)))]),
               au_after_state = Some (JObj ([(''status'', JStr ''QUEUED''), (''stage'', stage_label stage)] @
                 key_field idempotencyKey))\<rparr>) (\<lambda>_.
      ret (updatedRun, updatedStage, job))))))))))))))"

end
