(* ===== verification/Pipeline.thy ===== *)
theory Pipeline
  imports Stage_Queue Research_Runs
begin

text \<open>
  The pipeline as a whole: the operations of the job queue, of the runs and of the stages, in any
  order. Each of them is a sequence of queue steps on the job ledger and of stage steps on the
  stage table.
\<close>

section \<open>Runs and the stage table\<close>

lemma cancel_rows_rel:
  assumes "\<And>s. P s \<Longrightarrow> s_status s \<in> set open_stage_statuses"
  shows "stage_tx.rel (modify (upd_stages P (cancel_stage_row now)))"
  unfolding stage_tx.rel_def
proof (intro allI impI)
  fix db a db' assume "modify (upd_stages P (cancel_stage_row now)) db = Inr (a, db')"
  then have "research_run_stages db' = update_where P (cancel_stage_row now) (research_run_stages db)"
    by (auto simp: tx_simps)
  moreover have "stage_step (research_run_stages db) (update_where P (cancel_stage_row now) (research_run_stages db))"
    by (rule ss_calm) (use open_cancel assms in simp)
  ultimately show "stages_run db db'" by (intro stages_runI) simp
qed

lemma request_cancel_stages: "stage_tx.rel (requestJobCancellationInTransaction now k who audit rl)"
  unfolding requestJobCancellationInTransaction_def Let_def by (intro stage_rel_rules)

lemma cancel_jobs_stages: "stage_tx.rel (cancel_jobs now who js b ss)"
  by (induction js arbitrary: b ss)
    (auto intro!: stage_rel_rules request_cancel_stages split: option.split bool.split)

lemma run_leaves:
  "stage_tx.rel (lock_run k)" "stage_tx.rel (lock_project p)" "stage_tx.rel (update_run_returning k g)"
  "stage_tx.rel (approved_project p)" "stage_tx.rel (insert_run row)" "stage_tx.rel (loadRunBundle row c)"
  unfolding lock_run_def lock_project_def update_run_returning_def approved_project_def
    insert_run_def loadRunBundle_def
  by (rule rel_same, intro tx_frames; simp)+

lemma ensureApprovalRevision_stages: "stage_tx.rel (ensureApprovalRevision env now u prj kd who)"
  by (rule rel_same, rule ensureApprovalRevision_frame) simp_all

lemma requestResearchRunCancellation_stages: "stage_tx.rel (requestResearchRunCancellation now k who key)"
  unfolding requestResearchRunCancellation_def cancel_open_run_def Let_def
  by (intro stage_rel_rules run_leaves cancel_jobs_stages cancel_rows_rel)
    (auto simp: open_stage_statuses_def)

lemma finalizeResearchRunCancellation_stages: "stage_tx.rel (finalizeResearchRunCancellation now k)"
  unfolding finalizeResearchRunCancellation_def
  by (intro stage_rel_rules run_leaves cancel_rows_rel) auto

lemma next_open_stageD:
  assumes "next_open_stage k db = Some s"
  shows "is_latest (research_run_stages db) s \<and> s_run_id s = k \<and> s_status s \<noteq> S_SUCCEEDED"
proof -
  let ?L = "filter (\<lambda>s. s_status s \<noteq> S_SUCCEEDED) (latest_of (run_rows k db))"
  obtain rest where "sort_key s_ordinal ?L = s # rest"
    using assms by (auto simp: next_open_stage_def split: list.splits)
  then have "s \<in> set ?L" by (metis list.set_intros(1) set_sort)
  then show ?thesis using latest_of_is_latest[of k db "\<lambda>_. True" s] by simp
qed

lemma resumeResearchRun_stages:
  assumes "resumeResearchRun env now u k who key db = Inr (r, db')"
  shows "stages_run db db'"
proof (rule stages_run_cond)
  assume ok: "stages_ok (research_run_stages db)"
  obtain s h v where s: "next_open_stage k db = Some s"
    and guard: "s_status s \<noteq> S_QUEUED \<longrightarrow> canTransitionRunStage (s_status s) S_QUEUED"
    and upd: "research_run_stages db' =
      update_where (\<lambda>x. s_id x = s_id s) (resume_stage_row now v h) (research_run_stages db)"
    using assms unfolding resumeResearchRun_def lock_run_def Let_def
    by (clarsimp simp: tx_simps dest!: tx_frameD[OF submitJobInTransaction_stages])
  have "s \<in> set (research_run_stages db)" using next_open_stageD[OF s] by (simp add: is_latest_def)
  then have "find_stage (s_id s) db = Some s"
    using ok stages_tbl.lookup_mem[of "research_run_stages db" s] by (simp add: stages_ok_def find_stage_tbl)
  with upd guard_not_succeeded[OF guard] show "stages_run db db'"
    by (intro calm_run[of "s_id s" db s db' "resume_stage_row now v h"])
      (simp_all add: resume_stage_row_def stage_key_def)
qed

text \<open>The stages of a new run: nothing of the run has succeeded while they are inserted.\<close>

definition none_done :: "string \<Rightarrow> database \<Rightarrow> bool" where
  "none_done r db \<longleftrightarrow> (\<forall>s\<in>set (research_run_stages db). s_run_id s = r \<longrightarrow> s_status s \<noteq> S_SUCCEEDED)"

lemma new_stage_fields [simp]:
  "s_id (new_stage_row now U pv v h d) = uu_stage U (sd_id d)" "s_run_id (new_stage_row now U pv v h d) = uu_run U"
  "s_stage_id (new_stage_row now U pv v h d) = sd_id d" "s_ordinal (new_stage_row now U pv v h d) = sd_ordinal d"
  "s_generation (new_stage_row now U pv v h d) = 1"
  "s_status (new_stage_row now U pv v h d) =
     (if sd_id d = sd_id (hd PIPELINE_STAGE_CATALOG) then S_QUEUED else S_PENDING)"
  by (simp_all add: new_stage_row_def Let_def)

lemma insert_stages_run:
  assumes "insert_stages now U pv v h ds db = Inr (u, db')" "none_done (uu_run U) db"
    and "\<And>d. d \<in> set ds \<Longrightarrow> d = stage_definitions (sd_id d)"
  shows "stages_run db db'"
  using assms
proof (induction ds arbitrary: db)
  case Nil
  then show ?case by (auto simp: insert_stages_def tx_simps intro: stages_run_same)
next
  case (Cons d ds)
  let ?r = "new_stage_row now U pv v h d"
  define mid where "mid = db\<lparr>research_run_stages := research_run_stages db @ [?r]\<rparr>"
  have fresh: "\<not> list_ex (\<lambda>s. s_id s = s_id ?r \<or> (s_run_id s = s_run_id ?r \<and> s_stage_id s = s_stage_id ?r \<and>
      s_generation s = s_generation ?r)) (research_run_stages db)"
    and rest: "insert_stages now U pv v h ds mid = Inr (u, db')"
    using Cons.prems(1) by (auto simp: insert_stages_def tx_simps mid_def)
  have "stage_step (research_run_stages db) (research_run_stages db @ [?r])"
  proof (rule ss_insert[OF _ _ _ fresh])
    have "\<not> done_latest (research_run_stages db) (s_run_id ?r) x" for x
      using Cons.prems(2) by (auto simp: done_latest_def is_latest_def none_done_def)
    then show "(\<exists>t\<in>set (research_run_stages db). same_stage t ?r \<and> s_generation ?r < s_generation t) \<or>
        (\<forall>x. s_stage_id ?r \<in> set (deps_of x) \<longrightarrow> \<not> done_latest (research_run_stages db) (s_run_id ?r) x)"
      by blast
    show "s_ordinal ?r = sd_ordinal (stage_definitions (s_stage_id ?r))"
      using Cons.prems(3)[of d] by simp
  qed simp_all
  then have "stages_run db mid" by (intro stages_runI) (simp add: mid_def)
  moreover have "none_done (uu_run U) mid"
    using Cons.prems(2) by (auto simp: none_done_def mid_def)
  ultimately show ?case
    using Cons.IH[OF rest] Cons.prems(3) by (auto intro: stages_run_trans)
qed

lemma open_run_stages:
  assumes "open_run env now U row a b db = Inr (r, db')" "none_done (uu_run U) db"
  shows "stages_run db db'"
proof -
  obtain mid h v u mid' where m: "research_run_stages mid = research_run_stages db"
    and ins: "insert_stages now U (r_pipeline_version row) v h PIPELINE_STAGE_CATALOG mid = Inr (u, mid')"
    and rest: "research_run_stages db' = research_run_stages mid'"
    using assms(1) unfolding open_run_def insert_run_def Let_def
    by (clarsimp simp: tx_simps dest!: tx_frameD[OF submitJobInTransaction_stages])
      (erule that[rotated]; simp)
  have "stages_run mid mid'"
  proof (rule insert_stages_run[OF ins])
    show "none_done (uu_run U) mid" using assms(2) m by (simp add: none_done_def)
    show "d = stage_definitions (sd_id d)" if "d \<in> set PIPELINE_STAGE_CATALOG" for d
      using that by (auto simp: PIPELINE_STAGE_CATALOG_def AI_STAGES_def)
  qed
  then show ?thesis using stages_run_trans[OF stages_run_same[OF m]] stages_run_trans[OF _ stages_run_same[OF rest]]
    by blast
qed

lemma createResearchRun_stages:
  assumes run: "createResearchRun env now U sel i db = Inr (r, db')"
    and fresh: "\<And>s. s \<in> set (research_run_stages db) \<Longrightarrow> s_run_id s \<noteq> uu_run U"
  shows "stages_run db db'"
  using run
proof (rule createResearchRun_Inr, goal_cases)
  case (1 p key who pv budget prj scope plan hash mid0 mid)
  have frame: "tx_frame research_run_stages (ensureApprovalRevision env now u prj kd who)" for u kd
    by (rule ensureApprovalRevision_frame) simp_all
  have m: "research_run_stages mid = research_run_stages db"
    using tx_frameD[OF frame 1(6)] tx_frameD[OF frame 1(7)] by simp
  have "stages_run mid db'"
  proof (cases "run_of_key p key mid")
    case None
    have "none_done (uu_run U) mid" using fresh m by (simp add: none_done_def)
    then show ?thesis using 1(9) None by (auto intro: open_run_stages)
  next
    case (Some x)
    then show ?thesis using 1(9) by (auto simp: loadRunBundle_def tx_simps intro: stages_run_same)
  qed
  then show ?case by (rule stages_run_trans[OF stages_run_same[OF m]])
qed

section \<open>Every operation is a sequence of queue steps\<close>

interpretation queue_tx: tx_preorder "queue_step\<^sup>*\<^sup>*"
  by unfold_locales auto

lemma queue_same: "tx_frame ledger_of m \<Longrightarrow> queue_tx.rel m"
  by (erule queue_tx.rel_frame) (blast intro: qs_other)

lemma queue_perform: "queue_tx.rel (perform now op)"
  by (auto simp: queue_tx.rel_def intro: qs_op)

lemma queue_inner:
  "queue_tx.rel (submitJobInTransaction env now uuid i)"
  "queue_tx.rel (requestJobCancellationInTransaction now k who audit rl)"
  using queue_perform[of now "SubmitWithin env uuid i"] queue_perform[of now "RequestCancel k who audit rl"]
  by (simp_all add: queue_tx.rel_def tx_simps)

lemma ledger_frames [simp]:
  "ledger_of (db\<lparr>projects := a\<rparr>) = ledger_of db" "ledger_of (db\<lparr>approval_revisions := b\<rparr>) = ledger_of db"
  "ledger_of (db\<lparr>research_runs := c\<rparr>) = ledger_of db" "ledger_of (db\<lparr>research_run_stages := d\<rparr>) = ledger_of db"
  "ledger_of (db\<lparr>stage_domain_commits := e\<rparr>) = ledger_of db" "ledger_of (retire_generated now ids db) = ledger_of db"
  by (simp_all add: ledger_of_def retire_generated_def Let_def)

lemma queue_run_leaves:
  "queue_tx.rel (lockStageProjectFirst now k fo al)" "queue_tx.rel (assertDependenciesSucceeded s)"
  "queue_tx.rel (update_stage_returning k f)" "queue_tx.rel (update_run_returning k g)"
  "queue_tx.rel (writeAuditEvent e)" "queue_tx.rel (modify (upd_stages P f))" "queue_tx.rel (modify (upd_run k g))"
  "queue_tx.rel (insert_stage row)" "queue_tx.rel (markGeneratedDomainEffectsNonCurrent now ids)"
  "queue_tx.rel (lock_run k)" "queue_tx.rel (lock_project p)" "queue_tx.rel (approved_project p)"
  "queue_tx.rel (insert_run rr)" "queue_tx.rel (loadRunBundle rr c)"
  unfolding lockStageProjectFirst_def assertCurrentRunStageJob_def assertDependenciesSucceeded_def
    update_stage_returning_def update_run_returning_def writeAuditEvent_def insert_stage_def
    markGeneratedDomainEffectsNonCurrent_def lock_run_def lock_project_def approved_project_def
    insert_run_def loadRunBundle_def Let_def
  by (rule queue_same, intro tx_frames; simp)+

lemmas queue_rel_rules = queue_tx.rel_rules queue_inner queue_run_leaves

lemma queue_stage_ops:
  "queue_tx.rel (startRunStage now k fc)" "queue_tx.rel (recordRunStageProviderAttempt env now k fc i)"
  "queue_tx.rel (queueRunStage env now u1 u2 k fc v key)" "queue_tx.rel (blockRunStage now k fc c m)"
  "queue_tx.rel (setResearchRunBoundary now k fc st mr)" "queue_tx.rel (failRunStage now k fc c m)"
  "queue_tx.rel (markDownstreamStagesStale now k)" "queue_tx.rel (restartRunStage env now u1 u2 k key v who)"
  unfolding startRunStage_def ensure_run_running_def recordRunStageProviderAttempt_def queueRunStage_def
    blockRunStage_def setResearchRunBoundary_def failRunStage_def markDownstreamStagesStale_def
    restartRunStage_def open_generation_def Let_def
  by (intro queue_rel_rules)+

lemma queue_commit:
  "tx_frame ledger_of dc \<Longrightarrow> queue_tx.rel (commitRunStage env now k fc key v dc)"
  unfolding commitRunStage_def commit_output_def advance_run_def Let_def
  by (intro queue_rel_rules queue_same[OF tx_frame_modify] queue_same[of dc]) simp_all

lemma queue_cancel_jobs: "queue_tx.rel (cancel_jobs now who js b ss)"
  by (induction js arbitrary: b ss) (auto intro!: queue_rel_rules split: option.split bool.split)

lemma queue_insert_stages: "queue_tx.rel (insert_stages now U pv v h ds)"
  unfolding insert_stages_def by (intro queue_rel_rules)

lemma queue_ensure: "queue_tx.rel (ensureApprovalRevision env now u prj kd who)"
  by (rule queue_same, rule ensureApprovalRevision_frame) simp_all

lemma queue_run_ops:
  "queue_tx.rel (requestResearchRunCancellation now k who ko)" "queue_tx.rel (finalizeResearchRunCancellation now k)"
  "queue_tx.rel (resumeResearchRun env now u k who ko)" "queue_tx.rel (createResearchRun env now U sel i)"
  unfolding requestResearchRunCancellation_def cancel_open_run_def finalizeResearchRunCancellation_def
    resumeResearchRun_def createResearchRun_def open_run_def Let_def
  by (intro queue_rel_rules queue_cancel_jobs queue_insert_stages queue_ensure)+

section \<open>All interleavings of the pipeline\<close>

datatype pipeline_op =
    QueueOp queue_op
  | CreateRun js_env run_uuids provider_selection create_research_run_input
  | CancelRun string string "string option"
  | FinalizeCancel string
  | ResumeRun js_env string string string "string option"
  | StartStage string run_stage_job_fence
  | RecordAttempt js_env string run_stage_job_fence provider_attempt
  | QueueStage js_env string string string run_stage_job_fence jsv string
  | CommitStage js_env string run_stage_job_fence string jsv "unit db_tx"
  | BlockStage string run_stage_job_fence job_error_class string
  | StageBoundary string run_stage_job_fence research_run_status "string option"
  | FailStage string run_stage_job_fence job_error_class string
  | MarkStale string
  | RestartStage js_env string string string string jsv string

fun pipeline_tx :: "int \<Rightarrow> pipeline_op \<Rightarrow> unit db_tx" where
  "pipeline_tx now (QueueOp op) = perform now op"
| "pipeline_tx now (CreateRun env U sel i) = done_tx (createResearchRun env now U sel i)"
| "pipeline_tx now (CancelRun k who key) = done_tx (requestResearchRunCancellation now k who key)"
| "pipeline_tx now (FinalizeCancel k) = done_tx (finalizeResearchRunCancellation now k)"
| "pipeline_tx now (ResumeRun env u k who key) = done_tx (resumeResearchRun env now u k who key)"
| "pipeline_tx now (StartStage k fc) = done_tx (startRunStage now k fc)"
| "pipeline_tx now (RecordAttempt env k fc i) = done_tx (recordRunStageProviderAttempt env now k fc i)"
| "pipeline_tx now (QueueStage env u1 u2 k fc v key) = done_tx (queueRunStage env now u1 u2 k fc v key)"
| "pipeline_tx now (CommitStage env k fc key v dc) = done_tx (commitRunStage env now k fc key v dc)"
| "pipeline_tx now (BlockStage k fc c m) = done_tx (blockRunStage now k fc c m)"
| "pipeline_tx now (StageBoundary k fc st m) = done_tx (setResearchRunBoundary now k fc st m)"
| "pipeline_tx now (FailStage k fc c m) = done_tx (failRunStage now k fc c m)"
| "pipeline_tx now (MarkStale k) = done_tx (markDownstreamStagesStale now k)"
| "pipeline_tx now (RestartStage env u1 u2 k key v who) = done_tx (restartRunStage env now u1 u2 k key v who)"

text \<open>
  What the operations rely on: \<open>randomUUID\<close> gives a new run an identifier no stage row refers to,
  and the callback of a commit writes domain tables only.
\<close>

definition domain_callback :: "unit db_tx \<Rightarrow> bool" where
  "domain_callback dc \<longleftrightarrow>
     tx_frame (\<lambda>db. (ledger_of db, research_run_stages db, research_runs db, stage_domain_commits db)) dc"

fun relies_on :: "pipeline_op \<Rightarrow> database \<Rightarrow> bool" where
  "relies_on (CreateRun env U sel i) db = (\<forall>s\<in>set (research_run_stages db). s_run_id s \<noteq> uu_run U)"
| "relies_on (CommitStage env k fc key v dc) db = domain_callback dc"
| "relies_on _ db = True"

inductive pipeline_step :: "database \<Rightarrow> database \<Rightarrow> bool" where
  ps_op: "pipeline_tx now op db = Inr ((), db') \<Longrightarrow> relies_on op db \<Longrightarrow> pipeline_step db db'"
| ps_other: "ledger_of db' = ledger_of db \<Longrightarrow> research_run_stages db' = research_run_stages db \<Longrightarrow>
     stage_domain_commits db' = stage_domain_commits db \<Longrightarrow> pipeline_step db db'"

lemma domain_callback_frames:
  assumes "domain_callback dc"
  shows "tx_frame ledger_of dc" "tx_frame research_run_stages dc" "tx_frame research_runs dc"
    "tx_frame stage_domain_commits dc"
  using assms by (auto simp: domain_callback_def tx_frame_def)

lemma pipeline_tx_queue:
  assumes "pipeline_tx now op db = Inr (u, db')" "relies_on op db"
  shows "queue_step\<^sup>*\<^sup>* db db'"
proof (cases op)
  case (CommitStage env k fc key v dc)
  then have "queue_tx.rel (commitRunStage env now k fc key v dc)"
    using assms(2) by (simp add: queue_commit domain_callback_frames)
  then show ?thesis using assms(1) CommitStage by (auto simp: tx_simps dest: queue_tx.relD)
qed (use assms(1) in \<open>auto simp: tx_simps dest: queue_tx.relD[OF queue_perform]
    queue_stage_ops[THEN queue_tx.relD] queue_run_ops[THEN queue_tx.relD]\<close>)

lemma pipeline_tx_stages:
  assumes "pipeline_tx now op db = Inr (u, db')" "relies_on op db"
  shows "stages_run db db'"
proof (cases op)
  case (StageBoundary k fc st m)
  then show ?thesis
    using assms(1) by (auto simp: tx_simps intro: stages_run_same tx_frameD[OF setResearchRunBoundary_stages])
qed (use assms in \<open>auto simp: tx_simps dest: stage_tx.relD[OF perform_stages]
    stage_tx.relD[OF requestResearchRunCancellation_stages] stage_tx.relD[OF finalizeResearchRunCancellation_stages]
    resumeResearchRun_stages startRunStage_stages recordRunStageProviderAttempt_stages queueRunStage_stages
    blockRunStage_stages failRunStage_stages markDownstreamStagesStale_stages restartRunStage_stages
    createResearchRun_stages commitRunStage_stages domain_callback_frames\<close>)

lemma pipeline_step_queue: "pipeline_step db db' \<Longrightarrow> queue_step\<^sup>*\<^sup>* db db'"
  by (induction rule: pipeline_step.induct) (auto intro: pipeline_tx_queue qs_other)

lemma pipeline_step_stages: "pipeline_step db db' \<Longrightarrow> stages_run db db'"
  by (induction rule: pipeline_step.induct) (auto intro: pipeline_tx_stages stages_run_same)

lemma pipeline_run_queue: "pipeline_step\<^sup>*\<^sup>* db db' \<Longrightarrow> queue_step\<^sup>*\<^sup>* db db'"
  by (induction rule: rtranclp_induct) (auto dest: pipeline_step_queue)

interpretation stage_history: step_preorder pipeline_step stages_run
  by unfold_locales (auto intro: pipeline_step_stages stages_run_same stages_run_trans)

lemma pipeline_reachable:
  assumes "pipeline_step\<^sup>*\<^sup>* db0 db" "research_run_stages db0 = []"
  shows "rows_good db"
proof -
  have "rows_good db0" using assms(2)
    by (simp add: stages_ok_def pipeline_ok_def stages_tbl.keys_distinct_def done_latest_def is_latest_def)
  moreover from this have "stage_step\<^sup>*\<^sup>* (research_run_stages db0) (research_run_stages db)"
    using stage_history.run_rel[OF assms(1)] by (simp add: stages_run_def)
  ultimately show ?thesis using pipeline.run_keeps by blast
qed

section \<open>Commit records are never lost\<close>

definition commits_grow :: "database \<Rightarrow> database \<Rightarrow> bool" where
  "commits_grow db db' \<longleftrightarrow> (\<exists>cs. stage_domain_commits db' = stage_domain_commits db @ cs)"

interpretation commit_tx: tx_preorder commits_grow
  by unfold_locales (auto simp: commits_grow_def)

lemma commit_same: "tx_frame stage_domain_commits m \<Longrightarrow> commit_tx.rel m"
  by (erule commit_tx.rel_frame) (simp add: commits_grow_def)

lemma commit_leaves:
  "commit_tx.rel (lockStageProjectFirst now k fo al)" "commit_tx.rel (assertDependenciesSucceeded s)"
  "commit_tx.rel (update_stage_returning k f)" "commit_tx.rel (update_run_returning k g)"
  "commit_tx.rel (writeAuditEvent e)" "commit_tx.rel (modify (upd_stages P f))" "commit_tx.rel (modify (upd_run k g))"
  "commit_tx.rel (insert_stage row)" "commit_tx.rel (markGeneratedDomainEffectsNonCurrent now ids)"
  "commit_tx.rel (lock_run k)" "commit_tx.rel (lock_project p)" "commit_tx.rel (approved_project p)"
  "commit_tx.rel (insert_run rr)" "commit_tx.rel (loadRunBundle rr c)"
  unfolding lockStageProjectFirst_def assertCurrentRunStageJob_def assertDependenciesSucceeded_def
    update_stage_returning_def update_run_returning_def writeAuditEvent_def insert_stage_def
    markGeneratedDomainEffectsNonCurrent_def retire_generated_def lock_run_def lock_project_def approved_project_def
    insert_run_def loadRunBundle_def Let_def
  by (rule commit_same, intro tx_frames; simp)+

lemma commit_queue_leaves:
  "commit_tx.rel (lockJobProjectFirst k)" "commit_tx.rel (lockOwnedJob now k w sts v)"
  "commit_tx.rel (update_job_returning k h)" "commit_tx.rel (modify (upd_attempt k n tf))"
  "commit_tx.rel (recordJobEvent k ty a b wk det)" "commit_tx.rel (lockLinkedResearchState job)"
  "commit_tx.rel (log_claim wk' d c)" "commit_tx.rel (submitJobInTransaction env now uuid i)"
  unfolding lockJobProjectFirst_def lockOwnedJob_def lock_project_def update_job_returning_def
    recordJobEvent_def lockLinkedResearchState_def log_claim_def submitJobInTransaction_def
  by (rule commit_same, intro tx_frames; simp)+

lemmas commit_rel_rules = commit_tx.rel_rules commit_leaves commit_queue_leaves

lemma commit_reconcile:
  "commit_tx.rel (reconcileLinkedJobFailure now job c m)" "commit_tx.rel (reconcileLinkedJobCancellation now job who)"
  unfolding reconcileLinkedJobFailure_def reconcile_cancellation_defs
  by (intro commit_rel_rules)+

lemma commit_perform: "commit_tx.rel (perform now op)"
proof (cases op)
  case (Claim w n d ts rs)
  then show ?thesis
    by (simp add: done_tx_def claimJobs_def) (intro commit_rel_rules commit_same[OF tx_frame_modify]; simp)
qed (simp_all add: done_tx_def submitJob_def startJob_def heartbeatJob_def completeJob_def failJob_def
    requestJobCancellationInTransaction_def acknowledgeJobCancellation_def releaseJobLease_def
    recover_one_def manualRetryJob_def Let_def, (intro commit_rel_rules commit_reconcile)+)

lemma commit_ensure: "commit_tx.rel (ensureApprovalRevision env now u prj kd who)"
  by (rule commit_same, rule ensureApprovalRevision_frame) simp_all

lemma commit_request: "commit_tx.rel (requestJobCancellationInTransaction now k who audit rl)"
  using commit_perform[of now "RequestCancel k who audit rl"] by (simp add: commit_tx.rel_def tx_simps)

lemma commit_cancel_jobs: "commit_tx.rel (cancel_jobs now who js b ss)"
  by (induction js arbitrary: b ss) (auto intro!: commit_rel_rules commit_request split: option.split bool.split)

lemma commit_insert: "commit_tx.rel (modify (\<lambda>db. db\<lparr>stage_domain_commits := stage_domain_commits db @ [c]\<rparr>))"
  by (auto simp: commit_tx.rel_def commits_grow_def tx_simps)

lemma commit_ops:
  "commit_tx.rel (startRunStage now k fc)" "commit_tx.rel (recordRunStageProviderAttempt env now k fc i)"
  "commit_tx.rel (queueRunStage env now u1 u2 k fc v key)" "commit_tx.rel (blockRunStage now k fc c m)"
  "commit_tx.rel (setResearchRunBoundary now k fc st mr)" "commit_tx.rel (failRunStage now k fc c m)"
  "commit_tx.rel (markDownstreamStagesStale now k)" "commit_tx.rel (restartRunStage env now u1 u2 k key v who)"
  "commit_tx.rel (requestResearchRunCancellation now k who ko)" "commit_tx.rel (finalizeResearchRunCancellation now k)"
  "commit_tx.rel (resumeResearchRun env now u1 k who ko)" "commit_tx.rel (createResearchRun env now U sel ci)"
  unfolding startRunStage_def ensure_run_running_def recordRunStageProviderAttempt_def queueRunStage_def
    blockRunStage_def setResearchRunBoundary_def failRunStage_def markDownstreamStagesStale_def
    restartRunStage_def open_generation_def requestResearchRunCancellation_def cancel_open_run_def
    finalizeResearchRunCancellation_def resumeResearchRun_def createResearchRun_def open_run_def
    insert_stages_def Let_def
  by (intro commit_rel_rules commit_ensure commit_cancel_jobs)+

lemma commit_pipeline:
  assumes "relies_on op db" "pipeline_tx now op db = Inr (u, db')"
  shows "commits_grow db db'"
proof (cases op)
  case (CommitStage env k fc key v dc)
  then have "commit_tx.rel dc" using assms(1) by (simp add: commit_same domain_callback_frames)
  then have "commit_tx.rel (commitRunStage env now k fc key v dc)"
    unfolding commitRunStage_def commit_output_def advance_run_def Let_def
    by (intro commit_rel_rules commit_insert)
  then show ?thesis using assms(2) CommitStage by (auto simp: tx_simps dest: commit_tx.relD)
qed (use assms(2) in \<open>auto simp: tx_simps dest: commit_tx.relD[OF commit_perform] commit_ops[THEN commit_tx.relD]\<close>)

interpretation commit_history: step_preorder pipeline_step commits_grow
proof
  show "commits_grow db db'" if "pipeline_step db db'" for db db'
    using that
  proof (cases rule: pipeline_step.cases)
    case ps_other
    then show ?thesis by (simp add: commits_grow_def)
  qed (blast intro: commit_pipeline)
qed (auto simp: commits_grow_def)

end
