(* ===== verification/Pipeline_Properties.thy ===== *)
theory Pipeline_Properties
  imports Pipeline
begin

text \<open>
  The properties of runs and stages: what holds whatever the order in which workers, operators and
  services run their operations, and what each operation promises.
\<close>

section \<open>A concrete pipeline\<close>

definition plain_env :: js_env where
  "plain_env = \<lparr>num_text = (\<lambda>r. nat_text (nat \<lfloor>r\<rfloor>)), locale_le = (\<lambda>_ _. True), sha256_hex = (\<lambda>_. ''h'')\<rparr>"

definition demo_question :: question_row where
  "demo_question = \<lparr>q_id = ''q1'', q_project_id = ''p'', q_parent_id = None, q_question = ''why'',
     q_priority = ''HIGH'', q_completion_criteria = ''done'', q_created_at = 0, q_research_gap = None,
     q_gap_status = GAP_NONE, q_gap_generated_by = None, q_updated_at = 0\<rparr>"

definition demo_plan :: plan_row where
  "demo_plan = \<lparr>pl_id = ''pl1'', pl_project_id = ''p'', pl_question_id = ''q1'', pl_search_strategy = ''web'',
     pl_search_queries = [], pl_primary_source_types = [], pl_secondary_source_types = [],
     pl_comparison_targets = [], pl_expected_output = ''table'', pl_assigned_stage = ''RESEARCHING'',
     pl_completion_condition = ''done'', pl_expected_risks = [], pl_research_gap = None,
     pl_human_approved = True, pl_approved_at = Some ''2026-01-03''\<rparr>"

definition demo_project_db :: database where
  "demo_project_db = demo_db\<lparr>research_questions := [demo_question], research_plans := [demo_plan]\<rparr>"

definition demo_uuids :: run_uuids where
  "demo_uuids = \<lparr>uu_scope = ''ar1'', uu_plan = ''ar2'', uu_run = ''r1'', uu_stage = ai_stage_name, uu_job = ''job1''\<rparr>"

definition demo_selection :: provider_selection where
  "demo_selection = \<lparr>ps_ai_id = ''mock-ai'', ps_ai_model = ''m'', ps_search_id = ''mock-search''\<rparr>"

definition demo_run_input :: create_research_run_input where
  "demo_run_input = \<lparr>cr_projectId = ''p'', cr_mode = ASSISTED, cr_idempotencyKey = ''k'', cr_createdBy = ''op'',
     cr_providerConfigSnapshot = None, cr_modelConfigSnapshot = None, cr_searchConfigSnapshot = None,
     cr_budget = None, cr_pipelineVersion = None\<rparr>"

definition after_op :: "int \<Rightarrow> pipeline_op \<Rightarrow> database \<Rightarrow> database" where
  "after_op now op db = after_tx (pipeline_tx now op) db"

lemma pipeline_step_after: "relies_on op db \<Longrightarrow> pipeline_step db (after_op now op db)"
  by (cases "pipeline_tx now op db")
    (auto simp: after_op_def after_tx_def withTransaction_def intro: ps_op ps_other)

lemma pipeline_run_after:
  "pipeline_step\<^sup>*\<^sup>* a b \<Longrightarrow> relies_on op b \<Longrightarrow> pipeline_step\<^sup>*\<^sup>* a (after_op now op b)"
  by (meson pipeline_step_after rtranclp.rtrancl_into_rtrancl)

definition demo_created :: database where
  "demo_created = after_op 0 (CreateRun plain_env demo_uuids demo_selection demo_run_input) demo_project_db"

lemma demo_created_run: "pipeline_step\<^sup>*\<^sup>* demo_project_db demo_created" "research_run_stages demo_project_db = []"
  unfolding demo_created_def
  by (rule pipeline_run_after) (simp_all add: demo_project_db_def demo_db_def)

text \<open>A run with three stages, the first done, the second being worked on under a lease.\<close>

definition demo_run :: research_run_row where
  "demo_run = \<lparr>r_id = ''r1'', r_project_id = ''p'', r_mode = ASSISTED, r_status = R_RUNNING,
     r_scope_revision_id = None, r_plan_revision_id = None, r_scope_snapshot = JObj [], r_plan_snapshot = JObj [],
     r_pipeline_version = ''v'', r_provider_config_snapshot = JObj [], r_model_config_snapshot = JObj [],
     r_search_config_snapshot = JObj [], r_budget_snapshot = DEFAULT_RUN_BUDGET, r_request_hash = ''h'',
     r_idempotency_key = ''k'', r_current_stage = None, r_progress = 0, r_total_attempts = 0,
     r_total_provider_requests = 0, r_total_search_requests = 0, r_total_input_tokens = 0,
     r_total_output_tokens = 0, r_estimated_cost = None, r_cost_status = COST_UNKNOWN, r_failure_reason = None,
     r_block_reason = None, r_created_by = ''op'', r_cancelled_by = None, r_started_at = None,
     r_completed_at = None, r_updated_at = 0, r_version = 0\<rparr>"

definition demo_stage :: "ai_stage \<Rightarrow> run_stage_status \<Rightarrow> research_run_stage_row" where
  "demo_stage x st = (new_stage_row 0 demo_uuids ''v'' JNull ''h'' (stage_definitions x))\<lparr>s_status := st\<rparr>"

definition demo_job :: submit_job_input where
  "demo_job = run_job_input ''p'' ''r1'' (ai_stage_name question_decomposition)
     (stage_definitions question_decomposition) DEFAULT_RUN_BUDGET JNull ''key''"

definition demo_stages_db :: database where
  "demo_stages_db = demo_db\<lparr>research_runs := [demo_run], research_run_stages :=
     [demo_stage intake_analysis S_SUCCEEDED, demo_stage question_decomposition S_QUEUED,
      demo_stage research_plan S_PENDING]\<rparr>"

definition demo_working :: database where
  "demo_working = after_op 2 (QueueOp (Start ''job1'' ''w'' None))
     (after_op 1 (QueueOp (Claim ''w'' JUndefined (js_int 100) None None))
       (after_op 0 (QueueOp (SubmitWithin plain_env ''job1'' demo_job)) demo_stages_db))"

definition demo_fence :: run_stage_job_fence where
  "demo_fence = \<lparr>f_jobId = ''job1'', f_runStageId = ai_stage_name question_decomposition, f_attempt = 1, f_workerId = ''w''\<rparr>"

definition demo_started :: database where
  "demo_started = after_op 3 (StartStage (ai_stage_name question_decomposition) demo_fence) demo_working"

definition demo_committed :: database where
  "demo_committed = after_op 4 (CommitStage plain_env (ai_stage_name question_decomposition) demo_fence ''c1'' JNull (ret ()))
     demo_started"

lemma demo_runs:
  "pipeline_step\<^sup>*\<^sup>* demo_stages_db demo_working" "pipeline_step\<^sup>*\<^sup>* demo_stages_db demo_started"
  "pipeline_step\<^sup>*\<^sup>* demo_stages_db demo_committed"
  unfolding demo_committed_def demo_started_def demo_working_def
  by (intro pipeline_run_after rtranclp.rtrancl_refl; simp add: domain_callback_def tx_frames)+

lemma demo_stage_fields [simp]:
  "s_status (demo_stage x st) = st" "s_stage_id (demo_stage x st) = x" "s_run_id (demo_stage x st) = ''r1''"
  "s_id (demo_stage x st) = ai_stage_name x" "s_ordinal (demo_stage x st) = sd_ordinal (stage_definitions x)"
  "s_generation (demo_stage x st) = 1"
  by (cases x; simp add: demo_stage_def demo_uuids_def)+

lemma demo_stages_good: "rows_good demo_stages_db"
proof
  show "stages_ok (research_run_stages demo_stages_db)"
    by (simp add: stages_ok_def demo_stages_db_def stages_tbl.keys_distinct_def)
  have "x = intake_analysis" if "done_latest (research_run_stages demo_stages_db) r x" for r x
    using that by (simp add: done_latest_def is_latest_def demo_stages_db_def) force
  then show "pipeline_ok (research_run_stages demo_stages_db)"
    by (force simp: pipeline_ok_def)
qed

section \<open>Every reachable state\<close>

text \<open>
  \<^bold>\<open>C4.\<close> In every state reached from a database without stages by any interleaving of the operations
  on jobs, runs and stages: stage identifiers are unique, a run has at most one row per stage and
  generation, ordinals are those of the catalogue, and whenever the latest generation of a stage is
  \<open>SUCCEEDED\<close>, so are the latest generations of all the stages it depends on.
\<close>

theorem pipeline_invariant:
  assumes "pipeline_step\<^sup>*\<^sup>* db0 db" "research_run_stages db0 = []"
  shows "distinct (map s_id (research_run_stages db)) \<and>
     distinct (map (\<lambda>s. (s_run_id s, s_stage_id s, s_generation s)) (research_run_stages db)) \<and>
     (\<forall>s\<in>set (research_run_stages db). s_ordinal s = sd_ordinal (getPipelineStageDefinition (s_stage_id s))) \<and>
     (\<forall>s. is_latest (research_run_stages db) s \<and> s_status s = S_SUCCEEDED \<longrightarrow>
        (\<forall>d\<in>set (sd_dependencies (getPipelineStageDefinition (s_stage_id s))).
           \<exists>t. is_latest (research_run_stages db) t \<and> s_run_id t = s_run_id s \<and> s_stage_id t = d \<and>
               s_status t = S_SUCCEEDED))"
proof -
  have good: "stages_ok (research_run_stages db)" "pipeline_ok (research_run_stages db)"
    using pipeline_reachable[OF assms] by auto
  have "done_latest (research_run_stages db) (s_run_id s) d"
    if "is_latest (research_run_stages db) s" "s_status s = S_SUCCEEDED" "d \<in> set (deps_of (s_stage_id s))" for s d
    using good(2) that unfolding pipeline_ok_def done_latest_def by blast
  with good(1) show ?thesis
    unfolding stages_ok_def stages_tbl.keys_distinct_def done_latest_def getPipelineStageDefinition_def by blast
qed

theorem pipeline_invariant_witness:
  "distinct (map s_id (research_run_stages demo_created)) \<and> length (research_run_stages demo_created) = 11"
proof
  show "distinct (map s_id (research_run_stages demo_created))"
    using pipeline_invariant[OF demo_created_run] by blast
qed code_simp

lemma stage_run_later:
  "stage_step\<^sup>*\<^sup>* S S' \<Longrightarrow> stages_ok S \<and> pipeline_ok S \<Longrightarrow> stages_later S S'"
proof (induction rule: rtranclp_induct)
  case base
  then show ?case by (simp add: stages_later_refl)
next
  case (step T U)
  then have "stages_ok T" using pipeline.run_keeps by blast
  with step show ?case by (blast intro: stages_later_trans stage_step_later)
qed

lemma pipeline_stage_later:
  assumes "pipeline_step\<^sup>*\<^sup>* db db'" "rows_good db" "find_stage k db = Some s"
  obtains s' where "find_stage k db' = Some s'" "stage_key s' = stage_key s"
    "canTransitionRunStage\<^sup>*\<^sup>* (s_status s) (s_status s')"
proof -
  have "stages_later (research_run_stages db) (research_run_stages db')"
    using stage_history.run_rel[OF assms(1)] assms(2) stage_run_later by (simp add: stages_run_def)
  then show thesis using assms(3) that by (auto simp: stages_later_def find_stage_tbl)
qed

text \<open>
  \<^bold>\<open>C5.\<close> The detailed operations refine the two abstract machines: a run of the whole system, from a
  consistent stage table, is at the same time a run of the job queue and a sequence of abstract
  stage steps (calm updates, dependency-checked commits, staleness of everything downstream, new
  generations), and it never loses a commit record.
\<close>

theorem pipeline_refines:
  assumes "pipeline_step\<^sup>*\<^sup>* db db'" "stages_ok (research_run_stages db)" "pipeline_ok (research_run_stages db)"
  shows "queue_step\<^sup>*\<^sup>* db db' \<and> stage_step\<^sup>*\<^sup>* (research_run_stages db) (research_run_stages db') \<and>
     (\<exists>cs. stage_domain_commits db' = stage_domain_commits db @ cs)"
  using pipeline_run_queue[OF assms(1)] stage_history.run_rel[OF assms(1)] commit_history.run_rel[OF assms(1)] assms(2,3)
  by (simp add: stages_run_def commits_grow_def)

theorem pipeline_refines_witness:
  "queue_step\<^sup>*\<^sup>* demo_stages_db demo_committed \<and>
   stage_step\<^sup>*\<^sup>* (research_run_stages demo_stages_db) (research_run_stages demo_committed) \<and>
   map s_status (research_run_stages demo_committed) = [S_SUCCEEDED, S_SUCCEEDED, S_PENDING]"
proof (intro conjI)
  show "queue_step\<^sup>*\<^sup>* demo_stages_db demo_committed"
    "stage_step\<^sup>*\<^sup>* (research_run_stages demo_stages_db) (research_run_stages demo_committed)"
    using pipeline_refines[OF demo_runs(3)] demo_stages_good by blast+
qed code_simp

text \<open>
  A stage row is never lost or renamed: along any run it keeps its identifier, run, stage,
  ordinal and generation, and its status moves only along the stage transition table. In
  particular a committed stage can only become stale and then be queued or cancelled.
\<close>

theorem stage_rows_persist:
  assumes "pipeline_step\<^sup>*\<^sup>* db db'" "stages_ok (research_run_stages db)" "pipeline_ok (research_run_stages db)"
    and "find_stage k db = Some s"
  shows "\<exists>s'. find_stage k db' = Some s' \<and>
     (s_id s', s_run_id s', s_stage_id s', s_ordinal s', s_generation s') =
       (s_id s, s_run_id s, s_stage_id s, s_ordinal s, s_generation s) \<and>
     canTransitionRunStage\<^sup>*\<^sup>* (s_status s) (s_status s')"
  using pipeline_stage_later[OF assms(1) _ assms(4)] assms(2,3) by (metis stage_key_def)

theorem stage_rows_persist_witness:
  "\<exists>s'. find_stage (ai_stage_name question_decomposition) demo_committed = Some s' \<and>
     s_generation s' = 1 \<and> canTransitionRunStage\<^sup>*\<^sup>* S_QUEUED (s_status s')"
proof -
  have "find_stage (ai_stage_name question_decomposition) demo_stages_db = Some (demo_stage question_decomposition S_QUEUED)"
    by (simp add: find_stage_def demo_stages_db_def)
  from stage_rows_persist[OF demo_runs(3) _ _ this] demo_stages_good show ?thesis by auto
qed

section \<open>Committing\<close>

lemma find_append_hit: "find P xs = None \<Longrightarrow> P c \<Longrightarrow> find P (xs @ c # ys) = Some c"
  by (induction xs) (auto split: if_splits)

text \<open>An accepted commit, taken apart.\<close>

lemma commit_acceptedE:
  assumes run: "commitRunStage env now k fc key v dc db = Inr ((r, s, True), db1)" and dc: "domain_callback dc"
  obtains h run0 s0 mid where "inputHash env v = Inr h" "find_stage k db = Some s0" "s_id s0 = k"
    "find_run (s_run_id s0) db = Some run0" "r_id run0 = s_run_id s0"
    "find (commit_of s0 key) (stage_domain_commits db) = None" "s = commit_stage_row now v h s0"
    "research_run_stages mid = update_where (\<lambda>x. s_id x = k) (commit_stage_row now v h) (research_run_stages db)"
    "stage_domain_commits mid = stage_domain_commits db @ [\<lparr>c_run_stage_id = s_id s0,
       c_generation = s_generation s0, c_idempotency_key = key, c_output_hash = h\<rparr>]"
    "research_runs mid = research_runs db" "advance_run now run0 s0 h mid = Inr (r, db1)"
proof -
  obtain h where h: "inputHash env v = Inr h" and body: "tbind (lockStageProjectFirst now k (Some fc) False) (\<lambda>(run0, stage0).
     tbind (gets (\<lambda>db. find (commit_of stage0 key) (stage_domain_commits db))) (\<lambda>existing.
     (case existing of
        Some c \<Rightarrow> tbind (require (c_output_hash c = h) (conflict ''IDEMPOTENCY_KEY_REUSED'')) (\<lambda>_.
          ret (run0, stage0, False))
      | None \<Rightarrow> commit_output now run0 stage0 key v h dc))) db = Inr ((r, s, True), db1)"
    using run unfolding commitRunStage_def by (erule tbind_liftE)
  from body show thesis
  proof (rule lock_stageE, goal_cases)
    case (1 run0 s0)
    have none: "find (commit_of s0 key) (stage_domain_commits db) = None"
      and out: "commit_output now run0 s0 key v h dc db = Inr ((r, s, True), db1)"
      using 1(5) by (auto simp: tx_simps split: option.splits)
    from out obtain u mid where "dc db = Inr (u, mid)"
      and mid: "find_stage (s_id s0) mid = Some x \<Longrightarrow> s = commit_stage_row now v h x"
      "find_stage (s_id s0) mid \<noteq> None"
      "advance_run now run0 s0 h (upd_stages (\<lambda>x. s_id x = s_id s0) (commit_stage_row now v h)
         (mid\<lparr>stage_domain_commits := stage_domain_commits mid @ [\<lparr>c_run_stage_id = s_id s0,
            c_generation = s_generation s0, c_idempotency_key = key, c_output_hash = h\<rparr>]\<rparr>)) = Inr (r, db1)" for x
      unfolding commit_output_def
      by (clarsimp simp: tx_simps find_stage_def dest!: assertDependenciesSucceeded_Inr)
    then have same: "research_run_stages mid = research_run_stages db" "research_runs mid = research_runs db"
      "stage_domain_commits mid = stage_domain_commits db"
      using domain_callback_frames[OF dc] tx_frameD by metis+
    then have "s = commit_stage_row now v h s0" using mid(1)[of s0] 1(1,2) by (simp add: find_stage_def)
    then show thesis
      by (rule that[OF h 1(1-4) none _ _ _ _ mid(3)]) (simp_all add: same 1(2))
  qed
qed

lemma commit_record:
  assumes "commitRunStage env now k fc key v dc db = Inr ((r, s, True), db1)" "domain_callback dc"
  obtains s0 h where "find_stage k db = Some s0" "inputHash env v = Inr h"
    "\<forall>x cs. s_id x = s_id s0 \<and> s_generation x = s_generation s0 \<longrightarrow>
       (\<exists>c. find (commit_of x key) (stage_domain_commits db1 @ cs) = Some c \<and> c_output_hash c = h)"
  using assms
proof (rule commit_acceptedE, goal_cases)
  case (1 h run0 s0 mid)
  let ?c = "\<lparr>c_run_stage_id = s_id s0, c_generation = s_generation s0, c_idempotency_key = key, c_output_hash = h\<rparr>"
  have "tx_frame stage_domain_commits (advance_run now run0 s0 h)"
    unfolding advance_run_def update_run_returning_def writeAuditEvent_def Let_def by (intro tx_frames) simp_all
  then have cs: "stage_domain_commits db1 = stage_domain_commits db @ [?c]"
    using 1(12) 1(10) tx_frameD by metis
  have "find (commit_of s0 key) (stage_domain_commits db1 @ xs) = Some ?c" for xs
    using find_append_hit[OF 1(7), of ?c xs] by (simp add: cs commit_of_def)
  moreover have "commit_of x key = commit_of s0 key"
    if "s_id x = s_id s0" "s_generation x = s_generation s0" for x
    using that by (simp add: commit_of_def fun_eq_iff)
  ultimately have "\<forall>x xs. s_id x = s_id s0 \<and> s_generation x = s_generation s0 \<longrightarrow>
     (\<exists>c. find (commit_of x key) (stage_domain_commits db1 @ xs) = Some c \<and> c_output_hash c = h)"
    by (metis stage_domain_commit.select_convs(4))
  then show thesis by (rule 1(1)[OF 1(3) 1(2)])
qed

text \<open>
  \<^bold>\<open>C18.\<close> A stage commit takes effect exactly once. After a commit was accepted, whatever the system
  does in between, a second commit of that stage under the same key by a worker whose fence is
  current changes nothing: with the same output it reports the commit as already made, with a
  different output it is refused.
\<close>

theorem commitRunStage_exactly_once:
  assumes first: "commitRunStage env now k fc key v dc db = Inr ((run, s, True), db1)" and dc: "domain_callback dc"
    and good: "stages_ok (research_run_stages db)" "pipeline_ok (research_run_stages db)"
    and later: "pipeline_step\<^sup>*\<^sup>* db1 db2"
    and fence: "lockStageProjectFirst now' k (Some fc') False db2 = Inr ((run', s'), db2)"
    and h: "inputHash env v = Inr h" and h': "inputHash env v' = Inr h'"
  shows "commitRunStage env now' k fc' key v' dc' db2 =
     (if h' = h then Inr ((run', s', False), db2) else Inl (conflict ''IDEMPOTENCY_KEY_REUSED''))"
proof -
  have "pipeline_tx now (CommitStage env k fc key v dc) db = Inr ((), db1)" using first by (auto simp: tx_simps)
  then have "pipeline_step db db1" by (rule ps_op) (simp add: dc)
  then have run: "pipeline_step\<^sup>*\<^sup>* db db2" using later by simp
  obtain s0 h0 where s0: "find_stage k db = Some s0" "inputHash env v = Inr h0"
    and c: "\<forall>x cs. s_id x = s_id s0 \<and> s_generation x = s_generation s0 \<longrightarrow>
       (\<exists>c. find (commit_of x key) (stage_domain_commits db1 @ cs) = Some c \<and> c_output_hash c = h0)"
    by (rule commit_record[OF first dc])
  obtain s2 where "find_stage k db2 = Some s2" "stage_key s2 = stage_key s0"
    using pipeline_stage_later[OF run _ s0(1)] good by blast
  then have "s_id s' = s_id s0" "s_generation s' = s_generation s0"
    using lock_stageD[OF fence] by (auto simp: stage_key_def)
  moreover obtain cs where "stage_domain_commits db2 = stage_domain_commits db1 @ cs"
    using commit_history.run_rel[OF later] by (auto simp: commits_grow_def)
  ultimately obtain r where "find (commit_of s' key) (stage_domain_commits db2) = Some r" "c_output_hash r = h"
    using c s0(2) h by (metis sum.inject(2))
  then show ?thesis
    using fence h' by (simp add: commitRunStage_def tx_core_defs)
qed

lemma percent_bounds:
  assumes "rows \<noteq> []" "length rows \<le> 11"
  shows "0 \<le> percent_succeeded rows \<and> percent_succeeded rows \<le> 100 \<and>
     (percent_succeeded rows = 100 \<longleftrightarrow> (\<forall>s\<in>set rows. s_status s = S_SUCCEEDED))"
proof -
  let ?m = "length (filter (\<lambda>s. s_status s = S_SUCCEEDED) rows)" and ?n = "length rows"
  let ?q = "of_nat ?m / of_nat ?n * 100 :: rat"
  have le: "?m \<le> ?n" and n: "0 < ?n" using assms(1) by auto
  have "0 \<le> ?q" "?q \<le> 100" using le n by (simp_all add: divide_le_eq)
  then have range: "0 \<le> js_round ?q \<and> js_round ?q \<le> 100" using js_round_bounds[of 0 ?q 100] by simp
  have all: "?m = ?n \<longleftrightarrow> (\<forall>s\<in>set rows. s_status s = S_SUCCEEDED)"
    by (metis (mono_tags, lifting) filter_True length_filter_less order_less_irrefl)
  have "js_round ?q = 100 \<longleftrightarrow> ?m = ?n"
  proof
    assume "?m = ?n"
    then have "?q = of_int 100" using n by simp
    then show "js_round ?q = 100" by (simp only: js_round_of_int)
  next
    assume r: "js_round ?q = 100"
    show "?m = ?n"
    proof (rule ccontr)
      assume "?m \<noteq> ?n"
      then have m: "?m + 1 \<le> ?n" using le by linarith
      have "?q * of_nat ?n = of_nat ?m * 100" using n by simp
      also have "\<dots> \<le> (of_nat ?n - 1) * 100" using m by (simp add: algebra_simps flip: of_nat_Suc)
      also have "\<dots> \<le> 91 * of_nat ?n"
      proof -
        have "(of_nat ?n :: rat) \<le> 11" using of_nat_mono[OF assms(2), where 'a = rat] by simp
        then show ?thesis by (simp add: algebra_simps)
      qed
      finally have "?q \<le> of_int 91" using n by (simp add: divide_le_eq)
      then have "js_round ?q \<le> 91" using js_round_bounds[of 0 ?q 91] \<open>0 \<le> ?q\<close> by simp
      with r show False by simp
    qed
  qed
  with range all show ?thesis by (simp add: percent_succeeded_def)
qed

lemma latest_of_nonempty: "rows \<noteq> [] \<Longrightarrow> latest_of rows \<noteq> []"
proof -
  assume "rows \<noteq> []"
  then obtain s where "s \<in> set rows" by (cases rows) auto
  let ?G = "s_generation ` {t \<in> set rows. s_stage_id t = s_stage_id s}"
  have "Max ?G \<in> ?G" using \<open>s \<in> set rows\<close> by (intro Max_in) auto
  then obtain t where t: "t \<in> set rows" "s_stage_id t = s_stage_id s" "s_generation t = Max ?G" by auto
  have "s_generation u \<le> s_generation t" if "u \<in> set rows" "s_stage_id u = s_stage_id t" for u
    unfolding t(3) using that t(2) by (intro Max_ge) auto
  then have "t \<in> set (latest_of rows)" using t(1) by (simp add: latest_of_def list_all_iff)
  then show ?thesis by auto
qed

lemma UNIV_ai_stage: "(UNIV :: ai_stage set) = set AI_STAGES"
proof -
  have "x \<in> set AI_STAGES" for x by (cases x) (simp_all add: AI_STAGES_def)
  then show ?thesis by blast
qed

lemma latest_rows:
  assumes ok: "stages_ok (research_run_stages db)"
  shows "set (latest_of (run_rows r db)) = {s. is_latest (research_run_stages db) s \<and> s_run_id s = r}"
    and "length (latest_of (run_rows r db)) \<le> 11"
proof -
  let ?L = "latest_of (run_rows r db)"
  show set: "set ?L = {s. is_latest (research_run_stages db) s \<and> s_run_id s = r}"
    using latest_of_is_latest[of r db "\<lambda>_. True"] by auto
  have "distinct (research_run_stages db)"
    using ok by (auto simp: stages_ok_def stages_tbl.keys_distinct_def distinct_map)
  then have d: "distinct ?L" by (simp add: latest_of_def run_rows_def)
  have "inj_on s_stage_id (set ?L)"
    using is_latest_unique[OF ok] by (auto simp: set inj_on_def same_stage_def)
  then have "length ?L = card (s_stage_id ` set ?L)" using d by (simp add: card_image distinct_card)
  also have "\<dots> \<le> card (set AI_STAGES)" by (rule card_mono[OF finite_set]) (metis UNIV_ai_stage subset_UNIV)
  also have "\<dots> \<le> 11" using card_length[of AI_STAGES] by (simp add: AI_STAGES_def)
  finally show "length ?L \<le> 11" .
qed

text \<open>
  Accepting a commit moves the run forward consistently: its progress is a percentage, it
  reads 100 exactly when the latest generation of every stage of the run has succeeded, and the run
  goes to \<open>QA_REQUIRED\<close> exactly after the last stage of the catalogue and stays \<open>RUNNING\<close> otherwise.
\<close>

theorem commit_progress:
  assumes run: "commitRunStage env now k fc key v dc db = Inr ((r, s, True), db1)" and dc: "domain_callback dc"
    and good: "stages_ok (research_run_stages db)" "pipeline_ok (research_run_stages db)"
  shows "0 \<le> r_progress r \<and> r_progress r \<le> 100 \<and>
     (r_progress r = 100 \<longleftrightarrow> (\<forall>t. is_latest (research_run_stages db1) t \<and> s_run_id t = r_id r \<longrightarrow> s_status t = S_SUCCEEDED)) \<and>
     r_status r = (if s_ordinal s = 11 then R_QA_REQUIRED else R_RUNNING)"
proof -
  have next_iff: "next_stage x = None \<longleftrightarrow> s_ordinal x = 11"
    if "s_ordinal x = sd_ordinal (stage_definitions (s_stage_id x))" for x
    using that by (cases "s_stage_id x") (simp_all add: next_stage_def PIPELINE_STAGE_CATALOG_def AI_STAGES_def)
  from run dc show ?thesis
  proof (rule commit_acceptedE, goal_cases)
    case (1 h run0 s0 mid)
    let ?L = "latest_of (run_rows (r_id run0) mid)"
    have mid: "stages_ok (research_run_stages mid)"
      unfolding 1(8) update_where_map using good(1) by (subst stages_ok_map) simp_all
    have s0: "s0 \<in> set (research_run_stages db)" "s_ordinal s0 = sd_ordinal (stage_definitions (s_stage_id s0))"
      using find_stage_SomeD[OF 1(2)] good(1) by (auto simp: stages_ok_def)
    have "s \<in> set (run_rows (r_id run0) mid)"
      using s0(1) 1(3,5,7) by (auto simp: run_rows_def 1(8) set_update_where commit_stage_row_def image_iff intro!: bexI[of _ s0])
    then have ne: "?L \<noteq> []" by (intro latest_of_nonempty) auto
    have r: "r_id r = r_id run0" "r_progress r = percent_succeeded ?L"
      "r_status r = (if next_stage s0 \<noteq> None then R_RUNNING else R_QA_REQUIRED)"
      and same: "research_run_stages db1 = research_run_stages mid"
      using 1(11) unfolding advance_run_def Let_def
      by (auto simp: tx_simps commit_run_row_def dest!: find_run_SomeD)
    have "s_ordinal s = s_ordinal s0" by (simp add: 1(7) commit_stage_row_def)
    then show ?case
      using percent_bounds[OF ne latest_rows(2)[OF mid]] latest_rows(1)[OF mid] next_iff[OF s0(2)]
      by (auto simp: r same)
  qed
qed

text \<open>The accepted commit of the concrete pipeline.\<close>

lemma demo_commit:
  obtains r s where "commitRunStage plain_env 4 (ai_stage_name question_decomposition) demo_fence ''c1'' JNull (ret ())
    demo_started = Inr ((r, s, True), demo_committed)" "r_progress r = 67" "s_ordinal s = 2"
proof -
  let ?c = "commitRunStage plain_env 4 (ai_stage_name question_decomposition) demo_fence ''c1'' JNull (ret ()) demo_started"
  have "\<not> isl ?c" "(\<lambda>(r, s, b). (r_progress r, s_ordinal s, b)) (fst (projr ?c)) = (67, 2, True)" by code_simp+
  then obtain r s db1 where c: "?c = Inr ((r, s, True), db1)" "r_progress r = 67" "s_ordinal s = 2" by (cases ?c) auto
  have "demo_committed = db1"
    using c(1) by (simp add: demo_committed_def after_op_def after_tx_def withTransaction_def done_tx_def tbind_def ret_def
        del: ai_stage_name.simps)
  with c that show thesis by blast
qed

lemma demo_started_good: "stages_ok (research_run_stages demo_started)" "pipeline_ok (research_run_stages demo_started)"
  using stage_history.run_rel[OF demo_runs(2)] demo_stages_good pipeline.run_keeps by (auto simp: stages_run_def)

theorem commitRunStage_exactly_once_witness:
  "\<exists>r s. commitRunStage plain_env 5 (ai_stage_name question_decomposition) demo_fence ''c1'' JNull (raise (GenericError ''x''))
     demo_committed = Inr ((r, s, False), demo_committed)"
proof -
  let ?k = "ai_stage_name question_decomposition"
  let ?l = "lockStageProjectFirst 5 ?k (Some demo_fence) False demo_committed"
  obtain r s where c: "commitRunStage plain_env 4 ?k demo_fence ''c1'' JNull (ret ()) demo_started = Inr ((r, s, True), demo_committed)"
    by (rule demo_commit)
  have "\<not> isl ?l" by code_simp
  then obtain run' s' d where l: "?l = Inr ((run', s'), d)" by (cases ?l) auto
  then have d: "d = demo_committed" using lock_stageD by blast
  have h: "inputHash plain_env JNull = Inr ''h''" by code_simp
  show ?thesis
    using commitRunStage_exactly_once[OF c _ demo_started_good rtranclp.rtrancl_refl l[unfolded d] h h, of "raise (GenericError ''x'')"]
    by (simp add: domain_callback_def tx_frames)
qed

theorem commit_progress_witness:
  "\<exists>r :: research_run_row. r_progress r = 67 \<and> r_status r = R_RUNNING"
proof -
  obtain r s where c: "commitRunStage plain_env 4 (ai_stage_name question_decomposition) demo_fence ''c1'' JNull (ret ())
    demo_started = Inr ((r, s, True), demo_committed)" "r_progress r = 67" "s_ordinal s = 2" by (rule demo_commit)
  have "r_status r = R_RUNNING"
    using commit_progress[OF c(1) _ demo_started_good] c(3) by (simp add: domain_callback_def tx_frames)
  with c(2) show ?thesis by blast
qed

end
