(* ===== verification/Run_Properties.thy ===== *)
theory Run_Properties
  imports Pipeline_Properties
begin

text \<open>
  Properties of fencing, restarting, resuming, creating and cancelling runs.
\<close>

section \<open>Stale workers\<close>











section \<open>Resuming a run\<close>

text \<open>The key under which the worker commits a stage (\<open>worker/research-pipeline-handler.ts\<close>).\<close>

definition commit_key :: "js_env \<Rightarrow> research_run_stage_row \<Rightarrow> string" where
  "commit_key E stage =
     stage_job_key (s_run_id stage) (s_stage_id stage) (num_text E (of_int (s_generation stage))) @ '':commit''"

lemma resumeResearchRun_Inr:
  assumes "resumeResearchRun env now u k who ko db = Inr ((run, s, job), db')"
  obtains s0 h where "next_open_stage k db = Some s0"
    "s_status s0 \<noteq> S_QUEUED \<longrightarrow> canTransitionRunStage (s_status s0) S_QUEUED"
    "\<exists>x. find_stage (s_id s0) db = Some x \<and> s = resume_stage_row now (resume_input k s0) h x"
    "r_status run = R_QUEUED" "r_current_stage run = Some (s_stage_id s0)"
    "stage_domain_commits db' = stage_domain_commits db"
proof -
  have frame: "tx_frame stage_domain_commits (submitJobInTransaction env now u i)" for i
    unfolding submitJobInTransaction_def recordJobEvent_def by (intro tx_frames) simp_all
  show thesis
    using assms unfolding resumeResearchRun_def lock_run_def Let_def
    by (clarsimp simp: tx_simps dest!: tx_frameD[OF frame]) (erule that; auto simp: resume_run_row_def)
qed

text \<open>
  \<^bold>\<open>C34.\<close> Resuming a run whose next stage is stale is a dead end. \<open>resumeResearchRun\<close> queues the stale
  row again under its old generation instead of opening a new one, but the commit of that generation
  is already recorded under the worker's commit key. From then on no commit of the worker takes
  effect, ever: each one fails or reports an old commit and leaves the database as it is.
\<close>

theorem resume_stale_dead_end:
  assumes resume: "resumeResearchRun env now u k who ko db = Inr ((run, s, job), db1)"
    and stale: "next_open_stage k db = Some s0" "s_status s0 = S_STALE"
    and committed: "list_ex (commit_of s0 (commit_key env s0)) (stage_domain_commits db)"
    and good: "stages_ok (research_run_stages db)" "pipeline_ok (research_run_stages db)"
    and later: "pipeline_step\<^sup>*\<^sup>* db1 db2"
  shows "s_id s = s_id s0 \<and> s_generation s = s_generation s0 \<and> s_status s = S_QUEUED \<and>
     (case commitRunStage env now' (s_id s) fc (commit_key env s0) v dc db2 of
        Inl e \<Rightarrow> True
      | Inr ((_, _, created), db3) \<Rightarrow> \<not> created \<and> db3 = db2)"
proof -
  have s0: "find_stage (s_id s0) db = Some s0"
    using next_open_stageD[OF stale(1)] good(1) stages_tbl.lookup_mem[of "research_run_stages db" s0]
    by (simp add: is_latest_def stages_ok_def find_stage_tbl)
  obtain h where s: "s = resume_stage_row now (resume_input k s0) h s0"
    and commits: "stage_domain_commits db1 = stage_domain_commits db"
    using resumeResearchRun_Inr[OF resume] stale(1) s0 by (metis option.inject)
  have eq: "s_id s = s_id s0 \<and> s_generation s = s_generation s0 \<and> s_status s = S_QUEUED"
    by (simp add: s resume_stage_row_def)
  have "pipeline_tx now (ResumeRun env u k who ko) db = Inr ((), db1)" using resume by (auto simp: tx_simps)
  then have "pipeline_step db db1" by (rule ps_op) simp
  then have run: "pipeline_step\<^sup>*\<^sup>* db db2" using later by simp
  obtain s2 where s2: "find_stage (s_id s0) db2 = Some s2" "stage_key s2 = stage_key s0"
    using pipeline_stage_later[OF run _ s0] good by blast
  obtain cs where "stage_domain_commits db2 = stage_domain_commits db @ cs"
    using commit_history.run_rel[OF later] commits by (auto simp: commits_grow_def)
  moreover have "commit_of s2 key = commit_of s0 key" for key
    using s2(2) by (simp add: commit_of_def stage_key_def fun_eq_iff)
  ultimately have "find (commit_of s2 (commit_key env s0)) (stage_domain_commits db2) \<noteq> None"
    using committed by (auto simp: find_None_iff list_ex_iff)
  then obtain c where c: "find (commit_of s2 (commit_key env s0)) (stage_domain_commits db2) = Some c" by blast
  have "\<not> created \<and> db3 = db2"
    if "commitRunStage env now' (s_id s0) fc (commit_key env s0) v dc db2 = Inr ((r, x, created), db3)" for r x created db3
    using that unfolding commitRunStage_def
  proof (elim tbind_liftE lock_stageE, goal_cases)
    case (1 h' run0 x0)
    then have "x0 = s2" using s2(1) by simp
    with 1(6) c show ?case by (simp add: tx_simps)
  qed
  then show ?thesis using eq by (auto split: sum.split)
qed

text \<open>A paused run whose second stage was committed once and has become stale since.\<close>

definition demo_stale :: research_run_stage_row where
  "demo_stale = demo_stage question_decomposition S_STALE"

definition demo_paused :: database where
  "demo_paused = demo_db\<lparr>research_runs := [demo_run\<lparr>r_status := R_PAUSED\<rparr>],
     research_run_stages := [demo_stage intake_analysis S_SUCCEEDED, demo_stale],
     stage_domain_commits := [\<lparr>c_run_stage_id = s_id demo_stale, c_generation = 1,
       c_idempotency_key = commit_key plain_env demo_stale, c_output_hash = ''old''\<rparr>]\<rparr>"

lemma demo_paused_good: "stages_ok (research_run_stages demo_paused)" "pipeline_ok (research_run_stages demo_paused)"
proof -
  show "stages_ok (research_run_stages demo_paused)"
    by (simp add: stages_ok_def demo_paused_def demo_stale_def stages_tbl.keys_distinct_def)
  have "x = intake_analysis" if "done_latest (research_run_stages demo_paused) r x" for r x
    using that by (simp add: done_latest_def is_latest_def demo_paused_def demo_stale_def) force
  then show "pipeline_ok (research_run_stages demo_paused)" by (force simp: pipeline_ok_def)
qed

theorem resume_stale_dead_end_witness:
  "\<exists>run s job db1. resumeResearchRun plain_env 5 ''j9'' ''r1'' ''op'' None demo_paused = Inr ((run, s, job), db1) \<and>
     s_generation s = 1 \<and> s_status s = S_QUEUED \<and>
     (case commitRunStage plain_env 8 (s_id s) demo_fence (commit_key plain_env demo_stale) JNull (ret ()) db1 of
        Inl e \<Rightarrow> True | Inr ((_, _, created), db3) \<Rightarrow> \<not> created \<and> db3 = db1)"
proof -
  let ?r = "resumeResearchRun plain_env 5 ''j9'' ''r1'' ''op'' None demo_paused"
  have "\<not> isl ?r" by code_simp
  then obtain run s job db1 where r: "?r = Inr ((run, s, job), db1)" by (cases ?r) auto
  have "next_open_stage ''r1'' demo_paused = Some demo_stale"
    "list_ex (commit_of demo_stale (commit_key plain_env demo_stale)) (stage_domain_commits demo_paused)" by code_simp+
  from resume_stale_dead_end[OF r this(1) _ this(2) demo_paused_good rtranclp.rtrancl_refl, where now' = 8 and fc = demo_fence
      and v = JNull and dc = "ret ()"] r
  show ?thesis by (auto simp: demo_stale_def)
qed

section \<open>Restarting a stage\<close>

lemma restart_opens:
  assumes "restartRunStage env now u1 u2 k key v who db = Inr ((run, s', job, True), db')"
    and ok: "stages_ok (research_run_stages db)"
  obtains s run0 where "find_stage k db = Some s" "s_id s = k" "r_id run0 = s_run_id s"
    "s_status s \<in> set restartable_statuses" "active_run_jobs (s_run_id s) db = 0" "is_latest (research_run_stages db) s"
    "open_generation env now u1 u2 run0 s key v who db = Inr ((run, s', job, True), db')"
  using assms(1) unfolding restartRunStage_def
proof (elim lock_stageE tbind_getsE, goal_cases)
  case (1 run0 s)
  then have none: "restart_lookup (r_project_id run0) key db = None"
    by (auto simp: tx_simps split: option.splits)
  let ?Q = "\<lambda>t. s_stage_id t = s_stage_id s"
  have "find (\<lambda>t. s_id t = s_id s) (latest_of (filter ?Q (run_rows (r_id run0) db))) \<noteq> None"
    and st: "s_status s \<in> set restartable_statuses" "active_run_jobs (r_id run0) db = 0"
    and go: "open_generation env now u1 u2 run0 s key v who db = Inr ((run, s', job, True), db')"
    using 1(6) none by (simp_all add: tx_simps del: not_None_eq)
  then obtain t where t: "t \<in> set (latest_of (filter ?Q (run_rows (r_id run0) db)))" "s_id t = s_id s"
    by (auto simp: find_None_iff)
  then have latest: "is_latest (research_run_stages db) t" using latest_of_is_latest[of "r_id run0" db ?Q t] by simp
  moreover have "t = s"
    using latest t(2) find_stage_SomeD[OF 1(2)] ok
    by (auto simp: is_latest_def stages_ok_def stages_tbl.keys_distinct_def distinct_map inj_on_def)
  ultimately show thesis using 1(1)[OF 1(2,3,5) st(1) _ _ go] st(2) 1(5) by simp
qed

definition generated_tables :: "database \<Rightarrow> generated_row list" where
  "generated_tables db = map generated_row.truncate (evidence_rows db) @ map generated_row.truncate (claim_rows db) @
     map generated_row.truncate (finding_rows db) @ map generated_row.truncate (qa_finding_rows db)"

lemma truncate_update:
  "map generated_row.truncate (update_where (generated_by ids) (retire_row now) rows) =
   update_where (generated_by ids) (retire_row now) (map generated_row.truncate rows)"
  by (induction rows) (auto simp: update_where_def generated_by_def retire_row_def generated_row.defs)

lemma generated_tables_retire:
  "generated_tables (retire_generated now ids db) = update_where (generated_by ids) (retire_row now) (generated_tables db)"
  by (simp add: generated_tables_def retire_generated_def truncate_update)

lemma generated_tables_upd: "generated_tables (db\<lparr>research_run_stages := x\<rparr>) = generated_tables db"
  by (simp add: generated_tables_def)

lemma research_run_stages_retire: "research_run_stages (retire_generated now ids db) = research_run_stages db"
  by (simp add: retire_generated_def)

lemma generated_frame:
  "tx_frame generated_tables (insert_stage row)" "tx_frame generated_tables (update_run_returning k g)"
  "tx_frame generated_tables (submitJobInTransaction env now u i)" "tx_frame generated_tables (writeAuditEvent e)"
  unfolding insert_stage_def update_run_returning_def submitJobInTransaction_def recordJobEvent_def writeAuditEvent_def
  by (intro tx_frames; simp add: generated_tables_def upd_run_def)+

lemma open_generationE:
  assumes "open_generation env now u1 u2 run0 s key v who db = Inr ((run, s', job, b), db')"
  obtains h where "s' = next_generation_row now u1 v h s"
    "research_run_stages db' = update_where (\<lambda>x. s_id x \<in> set (map s_id (downstream_succeeded (r_id run0) (s_ordinal s) db)))
       (stale_stage_row now) (research_run_stages db) @ [s']"
    "\<not> list_ex (\<lambda>x. s_id x = u1 \<or> (s_run_id x = s_run_id s \<and> s_stage_id x = s_stage_id s \<and> s_generation x = s_generation s + 1))
       (update_where (\<lambda>x. s_id x \<in> set (map s_id (downstream_succeeded (r_id run0) (s_ordinal s) db)))
       (stale_stage_row now) (research_run_stages db))"
    "generated_tables db' = generated_tables (retire_generated now
       (s_id s # map s_id (downstream_succeeded (r_id run0) (s_ordinal s) db)) db)"
    "r_status run = R_QUEUED" "r_current_stage run = Some (s_stage_id s)"
  using assms unfolding open_generation_def markGeneratedDomainEffectsNonCurrent_def
proof (elim tx_elims, goal_cases)
  case (1 u1' mid1 u2' mid2 u3' mid3 h row mid4 u4' mid5 run1 mid6 sub mid7)
  have mid1: "mid1 = db" using 1(2) by (rule stale_checks_Inr)
  have mid: "mid3 = retire_generated now (s_id s # map s_id (downstream_succeeded (r_id run0) (s_ordinal s) db))
      (upd_stages (\<lambda>x. s_id x \<in> set (map s_id (downstream_succeeded (r_id run0) (s_ordinal s) db))) (stale_stage_row now) db)"
    using 1(3,4) by (simp add: tx_simps mid1)
  have row: "row = next_generation_row now u1 v h s" and stages4: "research_run_stages mid4 = research_run_stages mid3 @ [row]"
    and fresh: "\<not> list_ex (\<lambda>x. s_id x = u1 \<or> (s_run_id x = s_run_id s \<and> s_stage_id x = s_stage_id s \<and>
       s_generation x = s_generation s + 1)) (research_run_stages mid3)"
    using 1(6) unfolding insert_stage_def by (clarsimp simp: tx_simps)+
  have mid5: "mid5 = mid4" using 1(7) by (auto simp: tx_simps split: if_splits)
  have ends: "run = run1" "s' = row" using 1(10) by (auto simp: tx_simps split: prod.splits)
  have "research_run_stages db' = research_run_stages mid4 \<and> generated_tables db' = generated_tables mid4"
    using tx_frameD[OF submitJobInTransaction_stages 1(9)] tx_frameD[OF generated_frame(3) 1(9)]
      tx_frameD[OF generated_frame(2) 1(8)] 1(8,10) mid5
    by (auto simp: tx_simps generated_tables_def split: prod.splits)
  moreover have "generated_tables mid4 = generated_tables mid3" using tx_frameD[OF generated_frame(1) 1(6)] .
  moreover have "r_status run1 = R_QUEUED" "r_current_stage run1 = Some (s_stage_id s)"
    using 1(8) by (auto simp: tx_simps restart_run_row_def)
  ultimately show thesis
    using stages4 fresh ends row by (intro 1(1)[of h]) (simp_all add: mid generated_tables_retire generated_tables_upd research_run_stages_retire upd_stages_def)
qed

text \<open>
  \<^bold>\<open>C28.\<close> A successful restart opens the next generation of the chosen stage, queued and the latest of
  its run; no stage after it counts as succeeded any more, whatever the chosen stage and they had generated
  is not current any more, and the run is queued at that stage.
\<close>

theorem restartRunStage_correct:
  assumes restart: "restartRunStage env now u1 u2 k key v who db = Inr ((run, s', job, True), db')"
    and ok: "stages_ok (research_run_stages db)"
  shows "\<exists>s. find_stage k db = Some s \<and> is_latest (research_run_stages db) s \<and>
      s_run_id s' = s_run_id s \<and> s_stage_id s' = s_stage_id s \<and> s_generation s' = s_generation s + 1 \<and>
      s_status s' = S_QUEUED \<and> is_latest (research_run_stages db') s' \<and>
      (\<forall>x. s_ordinal s < sd_ordinal (stage_definitions x) \<longrightarrow> \<not> done_latest (research_run_stages db') (s_run_id s) x) \<and>
      (\<forall>g\<in>set (generated_tables db'). g_generated_by g = Some k \<or>
         (\<exists>t\<in>set (downstream_succeeded (s_run_id s) (s_ordinal s) db). g_generated_by g = Some (s_id t)) \<longrightarrow> \<not> g_is_current g) \<and>
      r_status run = R_QUEUED \<and> r_current_stage run = Some (s_stage_id s)"
proof -
  obtain s run0 where s: "find_stage k db = Some s" "s_id s = k" "r_id run0 = s_run_id s"
      "is_latest (research_run_stages db) s"
    and go: "open_generation env now u1 u2 run0 s key v who db = Inr ((run, s', job, True), db')"
    using restart ok by (rule restart_opens)
  let ?down = "downstream_succeeded (s_run_id s) (s_ordinal s) db"
  let ?S = "update_where (\<lambda>x. s_id x \<in> set (map s_id ?down)) (stale_stage_row now) (research_run_stages db)"
  obtain h where row: "s' = next_generation_row now u1 v h s" and S': "research_run_stages db' = ?S @ [s']"
    and fresh: "\<not> list_ex (\<lambda>x. s_id x = u1 \<or> (s_run_id x = s_run_id s \<and> s_stage_id x = s_stage_id s \<and>
       s_generation x = s_generation s + 1)) ?S"
    and gen: "generated_tables db' = generated_tables (retire_generated now (k # map s_id ?down) db)"
    and run: "r_status run = R_QUEUED" "r_current_stage run = Some (s_stage_id s)"
    using open_generationE[OF go] unfolding s(2,3) by blast
  have eqs: "s_run_id s' = s_run_id s" "s_stage_id s' = s_stage_id s" "s_generation s' = s_generation s + 1"
    "s_status s' = S_QUEUED" "s_id s' = u1" by (simp_all add: row next_generation_row_def)
  have append: "is_latest (?S @ [s']) t \<longleftrightarrow> (is_latest ?S t \<and> \<not> (same_stage s' t \<and> s_generation t < s_generation s')) \<or>
     (t = s' \<and> (\<forall>s\<in>set ?S. same_stage s s' \<longrightarrow> s_generation s < s_generation s'))" for t
    using fresh by (intro is_latest_append) (auto simp: list_ex_iff eqs simp del: set_map)
  have "\<forall>t\<in>set ?S. same_stage t s' \<longrightarrow> s_generation t < s_generation s'"
    using s(4) by (force simp: update_where_def is_latest_def same_stage_def eqs stale_stage_row_def)
  then have latest: "is_latest (research_run_stages db') s'" unfolding S' append by simp
  have gone: "\<not> done_latest (research_run_stages db') (s_run_id s) x"
    if "s_ordinal s < sd_ordinal (stage_definitions x)" for x
  proof
    assume "done_latest (research_run_stages db') (s_run_id s) x"
    then have "done_latest ?S (s_run_id s) x" by (auto simp: done_latest_def S' append eqs(4) simp del: set_map)
    with stale_clears[OF ok that] show False by blast
  qed
  have "\<not> g_is_current g"
    if "g \<in> set (generated_tables db')" "g_generated_by g = Some k \<or> (\<exists>t\<in>set ?down. g_generated_by g = Some (s_id t))" for g
    using that unfolding gen
    by (auto simp: generated_tables_retire update_where_def generated_by_def retire_row_def split: if_splits)
  with s eqs latest gone run show ?thesis by blast
qed

text \<open>A run whose first three stages are done, with a claim of the third one.\<close>

definition demo_finished :: database where
  "demo_finished = demo_db\<lparr>research_runs := [demo_run\<lparr>r_status := R_PAUSED\<rparr>],
     research_run_stages := [demo_stage intake_analysis S_SUCCEEDED, demo_stage question_decomposition S_SUCCEEDED,
       demo_stage research_plan S_SUCCEEDED],
     claim_rows := [\<lparr>g_id = ''c'', g_generated_by = Some (ai_stage_name research_plan), g_is_current = True, g_updated_at = 0,
       cl_project_id = ''p'', cl_question_id = None, cl_content = ''text'', cl_claim_type = ''FACT'', cl_importance = ''LOW'',
       cl_support_status = SUP_UNSUPPORTED, cl_fact_or_inference = ''FACT'', cl_include_in_report = False,
       cl_verification_possible = True, cl_within_scope = True, cl_created_at = 0\<rparr>]\<rparr>"

theorem restartRunStage_correct_witness:
  "\<exists>run s' job db'. restartRunStage plain_env 5 ''s9'' ''j9'' (ai_stage_name question_decomposition) ''k9'' JNull ''op'' demo_finished
       = Inr ((run, s', job, True), db') \<and>
     s_generation s' = 2 \<and> is_latest (research_run_stages db') s' \<and>
     \<not> done_latest (research_run_stages db') ''r1'' research_plan"
proof -
  let ?k = "ai_stage_name question_decomposition"
  let ?r = "restartRunStage plain_env 5 ''s9'' ''j9'' ?k ''k9'' JNull ''op'' demo_finished"
  have "case ?r of Inl _ \<Rightarrow> False | Inr ((_, _, _, new), _) \<Rightarrow> new" by code_simp
  then obtain run s' job db' where r: "?r = Inr ((run, s', job, True), db')" by (auto split: sum.splits)
  have ok: "stages_ok (research_run_stages demo_finished)"
    by (simp add: stages_ok_def demo_finished_def stages_tbl.keys_distinct_def)
  have s: "find_stage ?k demo_finished = Some (demo_stage question_decomposition S_SUCCEEDED)" by code_simp
  from restartRunStage_correct[OF r ok] have "s_generation s' = 2" "is_latest (research_run_stages db') s'"
    "\<not> done_latest (research_run_stages db') ''r1'' research_plan"
    unfolding s by (auto simp del: ai_stage_name.simps)
  with r show ?thesis by blast
qed

end
