(* ===== verification/Js_Text.thy ===== *)
theory Js_Text
  imports Stable_Json
begin

text \<open>
  The string functions of the JavaScript library that the document, storage and network components
  call, and the regular expressions they test with \<open>RegExp.prototype.test\<close>. A byte sequence
  (\<open>Uint8Array\<close>) is a string too, one character per byte.
\<close>

section \<open>Substrings\<close>

text \<open>\<open>value.slice(from, to)\<close> for \<open>0 \<le> from\<close>, \<open>0 \<le> to\<close>.\<close>

definition js_slice :: "nat \<Rightarrow> nat \<Rightarrow> 'a list \<Rightarrow> 'a list" where
  "js_slice from to s = drop from (take to s)"

lemma js_slice_length [simp]: "length (js_slice a b s) = min b (length s) - a"
  by (simp add: js_slice_def min.commute)

lemma js_slice_nth: "i < min b (length s) - a \<Longrightarrow> js_slice a b s ! i = s ! (a + i)"
  unfolding js_slice_def by (subst nth_drop) auto

lemma js_slice_slice: "a + d \<le> b \<Longrightarrow> js_slice c d (js_slice a b s) = js_slice (a + c) (a + d) s"
  unfolding js_slice_def by (simp add: take_drop min_absorb1 ac_simps)

lemma js_slice_append [simp]: "js_slice (length u) (length u + length v) (u @ v @ w) = v"
  by (simp add: js_slice_def)

definition starts_with :: "string \<Rightarrow> string \<Rightarrow> bool" where
  "starts_with p s \<longleftrightarrow> take (length p) s = p"

definition ends_with :: "string \<Rightarrow> string \<Rightarrow> bool" where
  "ends_with p s \<longleftrightarrow> length p \<le> length s \<and> drop (length s - length p) s = p"

fun has_infix :: "string \<Rightarrow> string \<Rightarrow> bool" where
  "has_infix p [] = (p = [])"
| "has_infix p (c # cs) = (starts_with p (c # cs) \<or> has_infix p cs)"

definition js_lower :: "string \<Rightarrow> string" where
  "js_lower s = map ascii_lower s"

text \<open>\<open>value.split(separator)\<close> for a one-character separator; there is always at least one piece.\<close>

fun split_on :: "char \<Rightarrow> string \<Rightarrow> string list" where
  "split_on d [] = [[]]"
| "split_on d (c # cs) =
     (if c = d then [] # split_on d cs
      else (case split_on d cs of [] \<Rightarrow> [[c]] | x # xs \<Rightarrow> (c # x) # xs))"

lemma split_on_nonempty [simp]: "split_on d s \<noteq> []"
  by (induction s) (auto split: list.splits)

lemma split_on_plain: "d \<notin> set s \<Longrightarrow> split_on d s = [s]"
  by (induction s) auto

lemma split_on_append: "d \<notin> set s \<Longrightarrow> split_on d (s @ d # t) = s # split_on d t"
  by (induction s) auto

lemma split_on_join:
  "xs \<noteq> [] \<Longrightarrow> \<forall>x\<in>set xs. d \<notin> set x \<Longrightarrow> split_on d (join [d] xs) = xs"
proof (induction xs rule: induct_list012)
  case (3 x y zs)
  then show ?case by (simp add: split_on_append)
qed (simp_all add: split_on_plain)

lemma split_on_pieces: "x \<in> set (split_on d s) \<Longrightarrow> d \<notin> set x"
proof (induction s arbitrary: x)
  case (Cons c cs)
  show ?case
  proof (cases "c = d")
    case True
    then show ?thesis using Cons by auto
  next
    case False
    obtain y ys where s: "split_on d cs = y # ys" by (cases "split_on d cs") auto
    then show ?thesis using Cons False by auto
  qed
qed simp

lemma join_split_on [simp]: "join [d] (split_on d s) = s"
proof (induction s)
  case (Cons c cs)
  obtain y ys where s: "split_on d cs = y # ys" by (cases "split_on d cs") auto
  then show ?case using Cons by (cases ys) auto
qed simp

text \<open>\<open>value.lastIndexOf(c, from)\<close>; \<open>None\<close> is the result \<open>-1\<close>.\<close>

fun last_index :: "char \<Rightarrow> nat \<Rightarrow> string \<Rightarrow> nat option" where
  "last_index c i s =
     (if i < length s \<and> s ! i = c then Some i
      else (case i of 0 \<Rightarrow> None | Suc k \<Rightarrow> last_index c k s))"

declare last_index.simps [simp del]

lemma last_index_Some: "last_index c i s = Some k \<Longrightarrow> k \<le> i \<and> k < length s \<and> s ! k = c"
proof (induction i)
  case 0
  then show ?case by (subst (asm) last_index.simps) (auto split: if_splits)
next
  case (Suc i)
  from Suc.prems show ?case
    by (subst (asm) last_index.simps) (auto split: if_splits dest: Suc.IH)
qed

text \<open>\<open>TextEncoder.encode\<close>: UTF-8, for code units below 256.\<close>

definition utf8_encode :: "string \<Rightarrow> string" where
  "utf8_encode s = concat (map (\<lambda>c. let n = (of_char c :: nat) in
     if n < 128 then [c] else [char_of (192 + n div 64), char_of (128 + n mod 64)]) s)"

text \<open>\<open>String(n)\<close> of an integer.\<close>

definition int_text :: "int \<Rightarrow> string" where
  "int_text n = (if n < 0 then CHR ''-'' # nat_text (nat (- n)) else nat_text (nat n))"

section \<open>Regular expressions\<close>

text \<open>
  The operators the sources use. \<open>RClass\<close> is one character of a class, \<open>RRep\<close> a bounded and \<open>RMany\<close>
  an unbounded repetition (at least one character per round), \<open>RBound\<close> is the word boundary,
  \<open>RStart\<close> and \<open>REnd\<close> the anchors. Since only \<open>test\<close> is called, a match is a set of end positions and
  the order of backtracking does not matter.
\<close>

datatype rx =
    RClass "char \<Rightarrow> bool"
  | RSeq "rx list"
  | RAlt "rx list"
  | RRep nat nat rx
  | RMany rx
  | RBound
  | RStart
  | REnd

definition word_character :: "char \<Rightarrow> bool" where
  "word_character c \<longleftrightarrow> is_alnum c \<or> c = CHR ''_''"

definition word_boundary :: "string \<Rightarrow> nat \<Rightarrow> bool" where
  "word_boundary s i \<longleftrightarrow>
     (0 < i \<and> i \<le> length s \<and> word_character (s ! (i - 1))) \<noteq> (i < length s \<and> word_character (s ! i))"

fun rep_from :: "(nat \<Rightarrow> nat list) \<Rightarrow> nat \<Rightarrow> nat list \<Rightarrow> nat list" where
  "rep_from step 0 is = is"
| "rep_from step (Suc n) is = remdups (is @ rep_from step n (remdups (concat (map step is))))"

fun rep_exact :: "(nat \<Rightarrow> nat list) \<Rightarrow> nat \<Rightarrow> nat list \<Rightarrow> nat list" where
  "rep_exact step 0 is = is"
| "rep_exact step (Suc n) is = rep_exact step n (remdups (concat (map step is)))"

fun rx_ends :: "rx \<Rightarrow> string \<Rightarrow> nat \<Rightarrow> nat list" where
  "rx_ends (RClass P) s i = (if i < length s \<and> P (s ! i) then [Suc i] else [])"
| "rx_ends (RSeq []) s i = [i]"
| "rx_ends (RSeq (r # rs)) s i = remdups (concat (map (rx_ends (RSeq rs) s) (rx_ends r s i)))"
| "rx_ends (RAlt []) s i = []"
| "rx_ends (RAlt (r # rs)) s i = remdups (rx_ends r s i @ rx_ends (RAlt rs) s i)"
| "rx_ends (RRep m n r) s i = rep_from (rx_ends r s) (n - m) (rep_exact (rx_ends r s) m [i])"
| "rx_ends (RMany r) s i = rep_from (rx_ends r s) (length s - i) [i]"
| "rx_ends RBound s i = (if word_boundary s i then [i] else [])"
| "rx_ends RStart s i = (if i = 0 then [i] else [])"
| "rx_ends REnd s i = (if i = length s then [i] else [])"

definition rx_test :: "rx \<Rightarrow> string \<Rightarrow> bool" where
  "rx_test r s \<longleftrightarrow> list_ex (\<lambda>i. rx_ends r s i \<noteq> []) [0..<Suc (length s)]"

definition rx_char :: "char \<Rightarrow> rx" where
  "rx_char c = RClass (\<lambda>d. d = c)"

text \<open>A literal, exact or with the flag \<open>i\<close> (its letters are ASCII).\<close>

definition rx_lit :: "string \<Rightarrow> rx" where
  "rx_lit t = RSeq (map rx_char t)"

definition rx_lit_ci :: "string \<Rightarrow> rx" where
  "rx_lit_ci t = RSeq (map (\<lambda>c. RClass (\<lambda>d. ascii_lower d = ascii_lower c)) t)"

definition rx_opt :: "rx \<Rightarrow> rx" where
  "rx_opt r = RRep 0 1 r"

text \<open>The dot under the flag \<open>s\<close>.\<close>

definition rx_any :: rx where
  "rx_any = RClass (\<lambda>_. True)"

end
