(* ===== verification/Content_Security.thy ===== *)
theory Content_Security
  imports Js_Text
begin

text \<open>
  The prompt-injection heuristics of \<open>lib/security/content.ts\<close>. The HTML sanitiser of the same file
  is a call of the package \<open>sanitize-html\<close> and stays a parameter of its callers.
\<close>

record prompt_injection_assessment =
  pi_flagged :: bool
  pi_score :: nat
  pi_indicators :: "string list"

record injection_pattern =
  ip_id :: string
  ip_weight :: nat
  ip_pattern :: rx

definition rx_words :: "string list \<Rightarrow> rx" where
  "rx_words ws = RAlt (map rx_lit_ci ws)"

definition rx_plural :: "string \<Rightarrow> rx" where
  "rx_plural w = RSeq [rx_lit_ci w, rx_opt (rx_lit_ci ''s'')]"

definition PROMPT_INJECTION_PATTERNS :: "injection_pattern list" where
  "PROMPT_INJECTION_PATTERNS =
     [\<lparr>ip_id = ''instruction_override'', ip_weight = 3, ip_pattern = RSeq
        [RBound, rx_words [''ignore'', ''disregard'', ''forget'', ''override''], RBound, RRep 0 48 rx_any,
         RBound, RAlt [rx_words [''previous'', ''prior'', ''system'', ''developer''], rx_plural ''instruction'',
           rx_plural ''rule'', rx_lit_ci ''prompt''], RBound]\<rparr>,
      \<lparr>ip_id = ''role_reassignment'', ip_weight = 2, ip_pattern = RSeq
        [RBound, RAlt [rx_words [''you are now'', ''act as'', ''new role''], rx_plural ''switch role''], RBound]\<rparr>,
      \<lparr>ip_id = ''secret_exfiltration'', ip_weight = 3, ip_pattern = RSeq
        [RBound, rx_words [''reveal'', ''print'', ''return'', ''send'', ''exfiltrate'', ''show''], RBound,
         RRep 0 48 rx_any, RBound, RAlt [rx_words [''secret'', ''token'', ''password''],
           RSeq [rx_lit_ci ''api'', rx_opt (RClass (\<lambda>c. c \<in> set '' _-'')), rx_lit_ci ''key''],
           rx_words [''credential'', ''system prompt'']], RBound]\<rparr>,
      \<lparr>ip_id = ''system_prompt_probe'', ip_weight = 2, ip_pattern = RSeq
        [RBound, rx_words [''system'', ''developer''], RClass js_space, RMany (RClass js_space),
         RAlt [rx_words [''message'', ''prompt''], rx_plural ''instruction''], RBound]\<rparr>,
      \<lparr>ip_id = ''tool_execution'', ip_weight = 2, ip_pattern = RSeq
        [RBound, rx_words [''call'', ''invoke'', ''execute'', ''run''], RBound, RRep 0 32 rx_any,
         RBound, rx_words [''tool'', ''function'', ''shell'', ''command'', ''browser''], RBound]\<rparr>,
      \<lparr>ip_id = ''jailbreak_marker'', ip_weight = 2, ip_pattern = RSeq
        [RBound, rx_words [''jailbreak'', ''do anything now'', ''DAN mode'', ''bypass safety''], RBound]\<rparr>,
      \<lparr>ip_id = ''model_control_token'', ip_weight = 3, ip_pattern = RSeq
        [rx_lit ''<|'', rx_words [''system'', ''assistant'', ''developer'', ''im_start'', ''im_end''],
         RMany (RClass (\<lambda>c. c \<noteq> CHR ''>'')), rx_lit ''|>'']\<rparr>]"

definition assessPromptInjection :: "string \<Rightarrow> prompt_injection_assessment" where
  "assessPromptInjection v =
     (let indicators = filter (\<lambda>p. rx_test (ip_pattern p) v) PROMPT_INJECTION_PATTERNS;
          score = sum_list (map ip_weight indicators)
      in \<lparr>pi_flagged = (score \<ge> 2), pi_score = score, pi_indicators = map ip_id indicators\<rparr>)"

text \<open>Every weight reaches the threshold, so one matching pattern is enough.\<close>

lemma assess_flagged_iff:
  "pi_flagged (assessPromptInjection v) \<longleftrightarrow> (\<exists>p\<in>set PROMPT_INJECTION_PATTERNS. rx_test (ip_pattern p) v)"
proof -
  let ?hit = "filter (\<lambda>p. rx_test (ip_pattern p) v) PROMPT_INJECTION_PATTERNS"
  have weights: "p \<in> set PROMPT_INJECTION_PATTERNS \<Longrightarrow> 2 \<le> ip_weight p" for p
    by (auto simp: PROMPT_INJECTION_PATTERNS_def)
  have "2 \<le> sum_list (map ip_weight ?hit)" if "p \<in> set ?hit" for p
    using that weights[of p] member_le_sum_list[of "ip_weight p" "map ip_weight ?hit"] by fastforce
  moreover have "sum_list (map ip_weight ?hit) = 0" if "?hit = []" unfolding that by simp
  ultimately have "2 \<le> sum_list (map ip_weight ?hit) \<longleftrightarrow> ?hit \<noteq> []"
    by (metis list.set_intros(1) neq_Nil_conv not_numeral_le_zero)
  then show ?thesis by (simp add: assessPromptInjection_def Let_def filter_empty_conv)
qed

end
