(* ===== verification/Document_Extraction.thy ===== *)
theory Document_Extraction
  imports Content_Security
begin

text \<open>
  The common end of every document extractor, \<open>lib/documents/extraction/types.ts\<close>: limits, and the
  assembly of the extracted blocks into one text with stable offsets and identifiers. The digest of a
  byte sequence (\<open>node:crypto\<close>) is the parameter \<open>sha\<close>.
\<close>

datatype document_format = PDF | DOCX | TXT | HTML
datatype block_kind = HEADING | PARAGRAPH | TABLE | FOOTNOTE | PAGE
datatype extraction_confidence = CONF_HIGH | CONF_MEDIUM | CONF_LOW | CONF_UNKNOWN
datatype extraction_status = EX_READY | EX_OCR_REQUIRED_UNSUPPORTED

datatype extraction_error =
    DOCUMENT_TOO_LARGE
  | DOCUMENT_MALFORMED
  | DOCUMENT_ENCRYPTED
  | UNSUPPORTED_ACTIVE_CONTENT
  | UNSAFE_ARCHIVE
  | UNSAFE_XML
  | INVALID_TEXT_ENCODING
  | BINARY_TEXT
  | EXTRACTION_LIMIT_EXCEEDED

record extraction_limits =
  lim_maxBytes :: int
  lim_maxPages :: int
  lim_maxBlocks :: int
  lim_maxTextChars :: int
  lim_maxZipEntries :: int
  lim_maxExpandedBytes :: int
  lim_maxCompressionRatio :: int
  lim_maxXmlBytes :: int
  lim_maxXmlNodes :: int

definition DEFAULT_EXTRACTION_LIMITS :: extraction_limits where
  "DEFAULT_EXTRACTION_LIMITS =
     \<lparr>lim_maxBytes = 25000000, lim_maxPages = 500, lim_maxBlocks = 20000, lim_maxTextChars = 2000000,
      lim_maxZipEntries = 2500, lim_maxExpandedBytes = 100000000, lim_maxCompressionRatio = 100,
      lim_maxXmlBytes = 20000000, lim_maxXmlNodes = 500000\<rparr>"

type_synonym json_object = "(string \<times> jsv) list"

record extraction_block =
  eb_id :: string
  eb_ordinal :: nat
  eb_kind :: block_kind
  eb_pageNumber :: "int option"
  eb_sectionPath :: "string option"
  eb_paragraphIndex :: "int option"
  eb_text :: string
  eb_startOffset :: nat
  eb_endOffset :: nat
  eb_stableAnchor :: string
  eb_language :: "string option"
  eb_contentHash :: string
  eb_confidence :: extraction_confidence
  eb_metadata :: json_object

record extraction_result =
  er_format :: document_format
  er_status :: extraction_status
  er_extractorName :: string
  er_extractorVersion :: string
  er_documentHash :: string
  er_contentHash :: "string option"
  er_text :: string
  er_blocks :: "extraction_block list"
  er_pageCount :: "int option"
  er_language :: "string option"
  er_confidence :: extraction_confidence
  er_warnings :: "string list"
  er_securitySignals :: prompt_injection_assessment
  er_metadata :: json_object

record block_draft =
  bd_kind :: block_kind
  bd_text :: string
  bd_pageNumber :: "int option"
  bd_sectionPath :: "string option"
  bd_paragraphIndex :: "int option"
  bd_language :: "string option"
  bd_confidence :: "extraction_confidence option"
  bd_metadata :: "json_object option"

record finalize_input =
  fi_format :: document_format
  fi_bytes :: string
  fi_extractorName :: string
  fi_extractorVersion :: string
  fi_drafts :: "block_draft list"
  fi_limits :: extraction_limits
  fi_pageCount :: "int option"
  fi_language :: "string option"
  fi_confidence :: "extraction_confidence option"
  fi_warnings :: "string list option"
  fi_metadata :: "json_object option"

section \<open>Limits\<close>

text \<open>The fields of a \<open>Partial<ExtractionLimits>\<close>; \<open>None\<close> is an absent field.\<close>

record limits_request =
  lr_maxBytes :: "jsv option"
  lr_maxPages :: "jsv option"
  lr_maxBlocks :: "jsv option"
  lr_maxTextChars :: "jsv option"
  lr_maxZipEntries :: "jsv option"
  lr_maxExpandedBytes :: "jsv option"
  lr_maxCompressionRatio :: "jsv option"
  lr_maxXmlBytes :: "jsv option"
  lr_maxXmlNodes :: "jsv option"

text \<open>A field of the merged object, checked to be a positive safe integer.\<close>

definition merged_limit :: "int \<Rightarrow> jsv option \<Rightarrow> extraction_error + int" where
  "merged_limit standard v =
     (case safe_integer (case_option (js_int standard) id v) of
        None \<Rightarrow> Inl EXTRACTION_LIMIT_EXCEEDED
      | Some n \<Rightarrow> if n \<le> 0 then Inl EXTRACTION_LIMIT_EXCEEDED else Inr n)"

definition xbind :: "'e + 'a \<Rightarrow> ('a \<Rightarrow> 'e + 'b) \<Rightarrow> 'e + 'b" where
  "xbind m f = (case m of Inl e \<Rightarrow> Inl e | Inr a \<Rightarrow> f a)"

lemma xbind_Inr: "xbind m f = Inr b \<longleftrightarrow> (\<exists>a. m = Inr a \<and> f a = Inr b)"
  by (auto simp: xbind_def split: sum.splits)

definition mergeExtractionLimits :: "limits_request \<Rightarrow> extraction_error + extraction_limits" where
  "mergeExtractionLimits q =
     (let D = DEFAULT_EXTRACTION_LIMITS in
      xbind (merged_limit (lim_maxBytes D) (lr_maxBytes q)) (\<lambda>maxBytes.
      xbind (merged_limit (lim_maxPages D) (lr_maxPages q)) (\<lambda>maxPages.
      xbind (merged_limit (lim_maxBlocks D) (lr_maxBlocks q)) (\<lambda>maxBlocks.
      xbind (merged_limit (lim_maxTextChars D) (lr_maxTextChars q)) (\<lambda>maxTextChars.
      xbind (merged_limit (lim_maxZipEntries D) (lr_maxZipEntries q)) (\<lambda>maxZipEntries.
      xbind (merged_limit (lim_maxExpandedBytes D) (lr_maxExpandedBytes q)) (\<lambda>maxExpandedBytes.
      xbind (merged_limit (lim_maxCompressionRatio D) (lr_maxCompressionRatio q)) (\<lambda>maxCompressionRatio.
      xbind (merged_limit (lim_maxXmlBytes D) (lr_maxXmlBytes q)) (\<lambda>maxXmlBytes.
      xbind (merged_limit (lim_maxXmlNodes D) (lr_maxXmlNodes q)) (\<lambda>maxXmlNodes.
      Inr \<lparr>lim_maxBytes = maxBytes, lim_maxPages = maxPages, lim_maxBlocks = maxBlocks,
           lim_maxTextChars = maxTextChars, lim_maxZipEntries = maxZipEntries,
           lim_maxExpandedBytes = maxExpandedBytes, lim_maxCompressionRatio = maxCompressionRatio,
           lim_maxXmlBytes = maxXmlBytes, lim_maxXmlNodes = maxXmlNodes\<rparr>))))))))))"

definition assertDocumentByteLimit :: "string \<Rightarrow> extraction_limits \<Rightarrow> extraction_error + unit" where
  "assertDocumentByteLimit bytes limits =
     (if length bytes = 0 then Inl DOCUMENT_MALFORMED
      else if int (length bytes) > lim_maxBytes limits then Inl DOCUMENT_TOO_LARGE
      else Inr ())"

section \<open>Assembly\<close>

definition part_text :: "string option \<Rightarrow> string" where
  "part_text p = case_option [] id p"

definition part_int :: "int option \<Rightarrow> string" where
  "part_int p = case_option [] int_text p"

definition stableId :: "(string \<Rightarrow> string) \<Rightarrow> string list \<Rightarrow> string" where
  "stableId sha parts = take 40 (sha (utf8_encode (join [CHR 0x00] parts)))"

text \<open>\<open>replace(/[\t ]+\n/g, "\n")\<close>: tabs and spaces that end a line.\<close>

definition line_blank :: "char \<Rightarrow> bool" where
  "line_blank c \<longleftrightarrow> c = CHR 0x09 \<or> c = CHR 0x20"

lemma dropWhile_shorter: "dropWhile P xs = y # ys \<Longrightarrow> length ys < length xs"
  by (metis length_dropWhile_le length_Cons Suc_le_eq)

function strip_line_ends :: "string \<Rightarrow> string" where
  "strip_line_ends [] = []"
| "strip_line_ends (c # cs) =
     (if line_blank c then
        (case dropWhile line_blank cs of
           [] \<Rightarrow> c # strip_line_ends cs
         | d # rest \<Rightarrow> if d = CHR 0x0A then d # strip_line_ends rest else c # strip_line_ends cs)
      else c # strip_line_ends cs)"
  by pat_completeness auto
termination by (relation "measure length") (auto dest: dropWhile_shorter)

definition draft_text :: "block_draft \<Rightarrow> string" where
  "draft_text d = js_trim (strip_line_ends (bd_text d))"

definition block_of_draft ::
  "(string \<Rightarrow> string) \<Rightarrow> finalize_input \<Rightarrow> string \<Rightarrow> block_draft \<Rightarrow> nat \<Rightarrow> nat \<Rightarrow> extraction_block" where
  "block_of_draft sha i documentHash draft ordinal startOffset =
     (let text = draft_text draft;
          contentHash = sha (utf8_encode text);
          stableAnchor = stableId sha [documentHash, fi_extractorVersion i, int_text (int ordinal),
            part_int (bd_pageNumber draft), part_text (bd_sectionPath draft), contentHash]
      in \<lparr>eb_id = ''block-'' @ stableAnchor, eb_ordinal = ordinal, eb_kind = bd_kind draft,
          eb_pageNumber = bd_pageNumber draft, eb_sectionPath = bd_sectionPath draft,
          eb_paragraphIndex = bd_paragraphIndex draft, eb_text = text, eb_startOffset = startOffset,
          eb_endOffset = startOffset + length text, eb_stableAnchor = stableAnchor,
          eb_language = (case bd_language draft of None \<Rightarrow> fi_language i | Some l \<Rightarrow> Some l),
          eb_contentHash = contentHash,
          eb_confidence = (case bd_confidence draft of Some c \<Rightarrow> c
             | None \<Rightarrow> case_option CONF_HIGH id (fi_confidence i)),
          eb_metadata = case_option [] id (bd_metadata draft)\<rparr>)"

fun finalize_blocks ::
  "(string \<Rightarrow> string) \<Rightarrow> finalize_input \<Rightarrow> string \<Rightarrow> block_draft list \<Rightarrow> nat \<Rightarrow> extraction_block list \<Rightarrow>
   extraction_error + extraction_block list" where
  "finalize_blocks sha i documentHash [] offset blocks = Inr blocks"
| "finalize_blocks sha i documentHash (draft # rest) offset blocks =
     (let text = draft_text draft in
      if text = [] then finalize_blocks sha i documentHash rest offset blocks
      else
        (let startOffset = (if length blocks > 0 then offset + 2 else offset);
             endOffset = startOffset + length text
         in if int endOffset > lim_maxTextChars (fi_limits i) then Inl EXTRACTION_LIMIT_EXCEEDED
            else finalize_blocks sha i documentHash rest endOffset
                   (blocks @ [block_of_draft sha i documentHash draft (length blocks) startOffset])))"

definition blank_line :: string where
  "blank_line = [CHR 0x0A, CHR 0x0A]"

definition finalizeExtraction ::
  "(string \<Rightarrow> string) \<Rightarrow> finalize_input \<Rightarrow> extraction_error + extraction_result" where
  "finalizeExtraction sha i =
     xbind (assertDocumentByteLimit (fi_bytes i) (fi_limits i)) (\<lambda>_.
     if int (length (fi_drafts i)) > lim_maxBlocks (fi_limits i) then Inl EXTRACTION_LIMIT_EXCEEDED
     else
       (let documentHash = sha (fi_bytes i) in
        xbind (finalize_blocks sha i documentHash (fi_drafts i) 0 []) (\<lambda>blocks.
        let text = join blank_line (map eb_text blocks) in
        Inr \<lparr>er_format = fi_format i, er_status = EX_READY, er_extractorName = fi_extractorName i,
             er_extractorVersion = fi_extractorVersion i, er_documentHash = documentHash,
             er_contentHash = Some (sha (utf8_encode text)), er_text = text, er_blocks = blocks,
             er_pageCount = fi_pageCount i, er_language = fi_language i,
             er_confidence = case_option CONF_HIGH id (fi_confidence i),
             er_warnings = case_option [] id (fi_warnings i),
             er_securitySignals = assessPromptInjection text,
             er_metadata = case_option [] id (fi_metadata i)\<rparr>)))"

definition ocrRequiredResult ::
  "(string \<Rightarrow> string) \<Rightarrow> string \<Rightarrow> string \<Rightarrow> string \<Rightarrow> int \<Rightarrow> string list option \<Rightarrow> json_object option \<Rightarrow>
   extraction_result" where
  "ocrRequiredResult sha bytes extractorName extractorVersion pageCount warnings metadata =
     \<lparr>er_format = PDF, er_status = EX_OCR_REQUIRED_UNSUPPORTED, er_extractorName = extractorName,
      er_extractorVersion = extractorVersion, er_documentHash = sha bytes, er_contentHash = None,
      er_text = [], er_blocks = [], er_pageCount = Some pageCount, er_language = None,
      er_confidence = CONF_UNKNOWN,
      er_warnings = ''OCR_REQUIRED_UNSUPPORTED'' # case_option [] id warnings,
      er_securitySignals = assessPromptInjection [], er_metadata = case_option [] id metadata\<rparr>"

section \<open>Offsets\<close>

lemma join_snoc: "join sep (xs @ [y]) = (if xs = [] then y else join sep xs @ sep @ y)"
  by (induction xs rule: induct_list012) auto

lemma js_slice_prefix: "b \<le> length u \<Longrightarrow> js_slice a b (u @ v) = js_slice a b u"
  by (simp add: js_slice_def)

text \<open>
  What the loop keeps: the text assembled so far ends at the running offset, every block is the slice of
  it that its offsets name, every visible character lies in a block, and two blocks in a row are separated by the two characters of a blank line.
\<close>

definition assembled :: "int \<Rightarrow> nat \<Rightarrow> extraction_block list \<Rightarrow> bool" where
  "assembled limit offset blocks \<longleftrightarrow>
     (let text = join blank_line (map eb_text blocks) in
      length text = offset \<and> (blocks \<noteq> [] \<longrightarrow> int offset \<le> limit) \<and>
      map eb_ordinal blocks = [0..<length blocks] \<and>
      (\<forall>b\<in>set blocks. eb_text b \<noteq> [] \<and> js_trim (eb_text b) = eb_text b \<and>
         eb_endOffset b = eb_startOffset b + length (eb_text b) \<and> eb_endOffset b \<le> offset \<and>
         js_slice (eb_startOffset b) (eb_endOffset b) text = eb_text b) \<and>
      (\<forall>p < offset. js_space (text ! p) \<or> (\<exists>b\<in>set blocks. eb_startOffset b \<le> p \<and> p < eb_endOffset b)) \<and>
      sorted_wrt (\<lambda>b c. eb_endOffset b + 2 \<le> eb_startOffset c) blocks)"

lemma assembled_Nil: "assembled limit 0 []"
  by (simp add: assembled_def)

lemma assembled_snoc:
  assumes ok: "assembled limit offset blocks" and ne: "draft_text draft \<noteq> []"
    and start: "startOffset = (if length blocks > 0 then offset + 2 else offset)"
    and fits: "int (startOffset + length (draft_text draft)) \<le> limit"
  shows "assembled limit (startOffset + length (draft_text draft))
           (blocks @ [block_of_draft sha i h draft (length blocks) startOffset])"
proof -
  let ?b = "block_of_draft sha i h draft (length blocks) startOffset"
  let ?old = "join blank_line (map eb_text blocks)"
  let ?text = "join blank_line (map eb_text (blocks @ [?b]))"
  have b: "eb_text ?b = draft_text draft" "eb_startOffset ?b = startOffset" "eb_ordinal ?b = length blocks"
    "eb_endOffset ?b = startOffset + length (draft_text draft)"
    by (simp_all add: block_of_draft_def Let_def)
  obtain pre where full: "?text = pre @ draft_text draft" "length pre = startOffset" 
      "\<exists>x. pre = ?old @ x \<and> (\<forall>c\<in>set x. js_space c)"
  proof (cases "blocks = []")
    case True
    then show thesis using that[of "[]"] start ok b(1) by (simp add: assembled_def Let_def)
  next
    case False
    have "length ?old = offset" using ok by (simp add: assembled_def Let_def)
    then show thesis
      using that[of "?old @ blank_line"] False start b(1) by (simp add: join_snoc blank_line_def js_space_def)
  qed
  have olen: "length ?old = offset" using ok by (simp add: assembled_def Let_def)
  have stay: "js_slice a c ?text = js_slice a c ?old" if "c \<le> offset" for a c
    using full(1,3) that olen by (auto simp: js_slice_prefix)
  have new: "js_slice startOffset (startOffset + length (draft_text draft)) ?text = draft_text draft"
    using js_slice_append[of pre "draft_text draft" "[]"] full(1,2) by simp
  have le: "offset \<le> startOffset" "blocks \<noteq> [] \<Longrightarrow> offset + 2 \<le> startOffset" using start by auto
  have trim: "js_trim (draft_text draft) = draft_text draft" by (simp add: draft_text_def)
  have gaps: "js_space (?text ! p) \<or> (\<exists>c\<in>set (blocks @ [?b]). eb_startOffset c \<le> p \<and> p < eb_endOffset c)"
    if p: "p < startOffset + length (draft_text draft)" for p
  proof -
    obtain x where x: "pre = ?old @ x" "\<forall>c\<in>set x. js_space c" using full(3) by blast
    consider "p < offset" | "offset \<le> p" "p < startOffset" | "startOffset \<le> p" by linarith
    then show ?thesis
    proof cases
      case 1
      moreover have "?text ! p = ?old ! p" using 1 full(1) x(1) olen by (simp add: nth_append)
      ultimately show ?thesis using ok by (fastforce simp: assembled_def Let_def)
    next
      case 2
      then have "?text ! p = x ! (p - offset)" "p - offset < length x"
        using full(1,2) x(1) olen by (auto simp: nth_append)
      then show ?thesis using x(2) nth_mem by metis
    next
      case 3
      then show ?thesis using p b by force
    qed
  qed
  show ?thesis
    unfolding assembled_def Let_def
  proof (intro conjI ballI impI allI)
    show "length ?text = startOffset + length (draft_text draft)" using full by simp
    show "int (startOffset + length (draft_text draft)) \<le> limit" by (rule fits)
    show "map eb_ordinal (blocks @ [?b]) = [0..<length (blocks @ [?b])]"
      using ok by (simp add: assembled_def Let_def b)
    show "sorted_wrt (\<lambda>b c. eb_endOffset b + 2 \<le> eb_startOffset c) (blocks @ [?b])"
      using ok le by (force simp: assembled_def Let_def b sorted_wrt_append)
    fix p assume p: "p < startOffset + length (draft_text draft)"
    show "js_space (?text ! p) \<or> (\<exists>c\<in>set (blocks @ [?b]). eb_startOffset c \<le> p \<and> p < eb_endOffset c)"
      using gaps[OF p] .
  qed (use ok ne b stay new le trim in \<open>force simp: assembled_def Let_def\<close>)+
qed

lemma finalize_blocks_assembled:
  assumes "finalize_blocks sha i h drafts offset blocks = Inr out" "assembled (lim_maxTextChars (fi_limits i)) offset blocks"
  shows "\<exists>n. assembled (lim_maxTextChars (fi_limits i)) n out"
  using assms
proof (induction sha i h drafts offset blocks rule: finalize_blocks.induct)
  case (2 sha i h draft rest offset blocks)
  show ?case
  proof (cases "draft_text draft = []")
    case True
    then show ?thesis using 2 by simp
  next
    case False
    note step = assembled_snoc[OF 2(4) False refl, of sha i h]
    show ?thesis
      using 2(2)[OF refl False refl refl _ _ step] 2(3) False by (auto simp: Let_def split: if_splits)
  qed
qed auto

lemma finalizeExtraction_Inr:
  assumes "finalizeExtraction sha i = Inr r"
  obtains n where "assembled (lim_maxTextChars (fi_limits i)) n (er_blocks r)"
    "er_text r = join blank_line (map eb_text (er_blocks r))" "er_status r = EX_READY"
    "fi_bytes i \<noteq> []" "int (length (fi_bytes i)) \<le> lim_maxBytes (fi_limits i)"
    "int (length (fi_drafts i)) \<le> lim_maxBlocks (fi_limits i)"
proof -
  have limits: "fi_bytes i \<noteq> []" "int (length (fi_bytes i)) \<le> lim_maxBytes (fi_limits i)"
    "int (length (fi_drafts i)) \<le> lim_maxBlocks (fi_limits i)"
    using assms by (auto simp: finalizeExtraction_def xbind_Inr assertDocumentByteLimit_def Let_def split: if_splits)
  have loop: "finalize_blocks sha i (sha (fi_bytes i)) (fi_drafts i) 0 [] = Inr (er_blocks r)"
    "er_text r = join blank_line (map eb_text (er_blocks r))" "er_status r = EX_READY"
    using assms by (auto simp: finalizeExtraction_def xbind_Inr Let_def split: if_splits)
  obtain n where "assembled (lim_maxTextChars (fi_limits i)) n (er_blocks r)"
    using finalize_blocks_assembled[OF loop(1) assembled_Nil] by blast
  with limits loop that show thesis by blast
qed

text \<open>
  \<^bold>\<open>C33.\<close> The offsets of an extraction are right: slicing the extracted text at the offsets of a block
  returns exactly the block's trimmed, non-empty text; blocks are numbered in order, do not overlap and
  are two characters apart, and the text stays within the configured limit.
\<close>

theorem finalizeExtraction_slices:
  assumes "finalizeExtraction sha i = Inr r"
  shows "map eb_ordinal (er_blocks r) = [0..<length (er_blocks r)] \<and>
     (\<forall>b\<in>set (er_blocks r). eb_text b \<noteq> [] \<and> js_trim (eb_text b) = eb_text b \<and>
        js_slice (eb_startOffset b) (eb_endOffset b) (er_text r) = eb_text b) \<and>
     sorted_wrt (\<lambda>b c. eb_endOffset b + 2 \<le> eb_startOffset c) (er_blocks r) \<and>
     (er_blocks r \<noteq> [] \<longrightarrow> int (length (er_text r)) \<le> lim_maxTextChars (fi_limits i))"
  using assms by (rule finalizeExtraction_Inr) (auto simp: assembled_def Let_def)

definition demo_draft :: "string \<Rightarrow> block_draft" where
  "demo_draft t = \<lparr>bd_kind = PARAGRAPH, bd_text = t, bd_pageNumber = None, bd_sectionPath = None,
     bd_paragraphIndex = None, bd_language = None, bd_confidence = None, bd_metadata = None\<rparr>"

definition demo_finalize :: "string list \<Rightarrow> finalize_input" where
  "demo_finalize ts = \<lparr>fi_format = TXT, fi_bytes = ''x'', fi_extractorName = ''t'', fi_extractorVersion = ''1'',
     fi_drafts = map demo_draft ts, fi_limits = DEFAULT_EXTRACTION_LIMITS, fi_pageCount = None, fi_language = None,
     fi_confidence = None, fi_warnings = None, fi_metadata = None\<rparr>"

theorem finalizeExtraction_slices_witness:
  "\<exists>r. finalizeExtraction (\<lambda>_. ''h'') (demo_finalize ['' ab '', '' '', ''cd'']) = Inr r \<and>
     map eb_ordinal (er_blocks r) = [0, 1] \<and>
     (\<forall>b\<in>set (er_blocks r). js_slice (eb_startOffset b) (eb_endOffset b) (er_text r) = eb_text b)"
proof -
  let ?r = "finalizeExtraction (\<lambda>_. ''h'') (demo_finalize ['' ab '', '' '', ''cd''])"
  have "case ?r of Inl _ \<Rightarrow> False | Inr r \<Rightarrow> length (er_blocks r) = 2" by code_simp
  then obtain r where r: "?r = Inr r" "length (er_blocks r) = 2" by (auto split: sum.splits)
  with finalizeExtraction_slices[OF r(1)] show ?thesis by (auto simp: upt_rec)
qed

end
