(* ===== verification/Document_Chunks.thy ===== *)
theory Document_Chunks
  imports Document_Extraction
begin

text \<open>
  Chunks and citation anchors of an extraction, \<open>lib/documents/chunking.ts\<close>. The loop that splits a
  long block is a partial function: \<open>None\<close> is a call that does not return.
\<close>

definition CHUNKER_VERSION :: string where
  "CHUNKER_VERSION = ''structure-char-v1''"

record chunking_options =
  co_maxChars :: "jsv option"
  co_overlapChars :: "jsv option"
  co_maxChunks :: "jsv option"

record document_chunk =
  dc_id :: string
  dc_ordinal :: nat
  dc_extractionId :: string
  dc_text :: string
  dc_startOffset :: nat
  dc_endOffset :: nat
  dc_startBlockId :: string
  dc_endBlockId :: string
  dc_pageNumber :: "int option"
  dc_sectionPath :: "string option"
  dc_charCount :: nat
  dc_contentHash :: string
  dc_chunkerVersion :: string
  dc_securitySignals :: prompt_injection_assessment

datatype anchor_status = ANCHOR_CURRENT | ANCHOR_STALE | ANCHOR_NEEDS_REVIEW

record citation_anchor =
  ca_id :: string
  ca_sourceId :: string
  ca_documentId :: string
  ca_extractionId :: string
  ca_chunkId :: string
  ca_pageNumber :: "int option"
  ca_sectionPath :: "string option"
  ca_startOffset :: nat
  ca_endOffset :: nat
  ca_contentHash :: string
  ca_status :: anchor_status

record chunk_unit =
  cu_text :: string
  cu_startOffset :: nat
  cu_endOffset :: nat
  cu_block :: extraction_block

datatype chunk_error = CHUNK_NOT_READY | CHUNK_BAD_OPTIONS | CHUNK_TOO_MANY

definition digest :: "(string \<Rightarrow> string) \<Rightarrow> string list \<Rightarrow> string" where
  "digest sha parts = take 40 (sha (utf8_encode (join [CHR 0x00] parts)))"

section \<open>Splitting a block\<close>

definition trimSegment :: "string \<Rightarrow> nat \<Rightarrow> nat \<Rightarrow> (string \<times> nat \<times> nat) option" where
  "trimSegment v rawStart rawEnd =
     (let raw = js_slice rawStart rawEnd v;
          left = length raw - length (js_trim_start raw);
          right = length raw - length (js_trim_end raw);
          start = rawStart + left;
          stop = rawEnd - right
      in if stop \<le> start then None else Some (js_slice start stop v, start, stop))"

definition whole_unit :: "extraction_block \<Rightarrow> chunk_unit" where
  "whole_unit block =
     \<lparr>cu_text = eb_text block, cu_startOffset = eb_startOffset block, cu_endOffset = eb_endOffset block,
      cu_block = block\<rparr>"

definition segment_units :: "extraction_block \<Rightarrow> nat \<Rightarrow> nat \<Rightarrow> chunk_unit list" where
  "segment_units block start stop =
     (case trimSegment (eb_text block) start stop of
        None \<Rightarrow> []
      | Some (text, s, e) \<Rightarrow>
          [\<lparr>cu_text = text, cu_startOffset = eb_startOffset block + s,
            cu_endOffset = eb_startOffset block + e, cu_block = block\<rparr>])"

text \<open>The end of the segment that starts at \<open>start\<close>: at a space in its second half if there is one.\<close>

definition segment_end :: "string \<Rightarrow> nat \<Rightarrow> nat \<Rightarrow> nat" where
  "segment_end text maxChars start =
     (let stop = min (length text) (start + maxChars) in
      if stop < length text then
        (case last_index CHR 0x20 stop text of
           None \<Rightarrow> stop
         | Some boundary \<Rightarrow> if boundary > start + maxChars div 2 then boundary else stop)
      else stop)"

partial_function (option) split_from ::
  "extraction_block \<Rightarrow> nat \<Rightarrow> nat \<Rightarrow> nat \<Rightarrow> chunk_unit list option" where
  [code]: "split_from block maxChars overlapChars start =
     (if start < length (eb_text block) then
        (let stop = segment_end (eb_text block) maxChars start;
             here = segment_units block start stop
         in if stop \<ge> length (eb_text block) then Some here
            else Option.bind (split_from block maxChars overlapChars (max (start + 1) (stop - overlapChars)))
                   (\<lambda>rest. Some (here @ rest)))
      else Some [])"

definition splitBlock :: "extraction_block \<Rightarrow> nat \<Rightarrow> nat \<Rightarrow> chunk_unit list option" where
  "splitBlock block maxChars overlapChars =
     (if length (eb_text block) \<le> maxChars then Some [whole_unit block]
      else split_from block maxChars overlapChars 0)"

section \<open>Options\<close>

definition validateOptions :: "chunking_options \<Rightarrow> chunk_error + nat \<times> nat \<times> nat" where
  "validateOptions options =
     (case (safe_integer (case_option (js_int 4000) id (co_maxChars options)),
            safe_integer (case_option (js_int 300) id (co_overlapChars options)),
            safe_integer (case_option (js_int 2000) id (co_maxChunks options))) of
        (Some maxChars, Some overlapChars, Some maxChunks) \<Rightarrow>
          if maxChars < 100 then Inl CHUNK_BAD_OPTIONS
          else if overlapChars < 0 \<or> 2 * overlapChars \<ge> maxChars then Inl CHUNK_BAD_OPTIONS
          else if maxChunks < 1 then Inl CHUNK_BAD_OPTIONS
          else Inr (nat maxChars, nat overlapChars, nat maxChunks)
      | _ \<Rightarrow> Inl CHUNK_BAD_OPTIONS)"

section \<open>Grouping\<close>

definition sameStructure :: "chunk_unit \<Rightarrow> chunk_unit \<Rightarrow> bool" where
  "sameStructure left right \<longleftrightarrow>
     eb_pageNumber (cu_block left) = eb_pageNumber (cu_block right) \<and>
     eb_sectionPath (cu_block left) = eb_sectionPath (cu_block right) \<and>
     eb_kind (cu_block right) \<noteq> HEADING"

fun group_units ::
  "nat \<Rightarrow> chunk_unit list \<Rightarrow> chunk_unit list list \<Rightarrow> chunk_unit list \<Rightarrow> nat \<Rightarrow> chunk_unit list list" where
  "group_units maxChars [] grouped current currentChars =
     (if length current > 0 then grouped @ [current] else grouped)"
| "group_units maxChars (unit # rest) grouped current currentChars =
     (let separatorChars = (if length current > 0 then 2 else 0);
          fits = currentChars + separatorChars + length (cu_text unit) \<le> maxChars
      in if length current > 0 \<and> (\<not> fits \<or> \<not> sameStructure (last current) unit)
         then group_units maxChars rest (grouped @ [current]) [unit] (length (cu_text unit))
         else group_units maxChars rest grouped (current @ [unit])
                (currentChars + (if length (current @ [unit]) > 1 then 2 else 0) + length (cu_text unit)))"

definition chunk_of_group ::
  "(string \<Rightarrow> string) \<Rightarrow> string \<Rightarrow> extraction_result \<Rightarrow> nat \<Rightarrow> chunk_unit list \<Rightarrow> document_chunk" where
  "chunk_of_group sha extractionId ex ordinal grp =
     (let first = hd grp; final = last grp;
          text = join blank_line (map cu_text grp);
          contentHash = sha (utf8_encode text);
          k = ''chunk-'' @ digest sha [er_documentHash ex, er_extractorVersion ex, CHUNKER_VERSION,
            int_text (int ordinal), int_text (int (cu_startOffset first)), int_text (int (cu_endOffset final)), contentHash]
      in \<lparr>dc_id = k, dc_ordinal = ordinal, dc_extractionId = extractionId, dc_text = text,
          dc_startOffset = cu_startOffset first, dc_endOffset = cu_endOffset final,
          dc_startBlockId = eb_id (cu_block first), dc_endBlockId = eb_id (cu_block final),
          dc_pageNumber = eb_pageNumber (cu_block first), dc_sectionPath = eb_sectionPath (cu_block first),
          dc_charCount = length text, dc_contentHash = contentHash, dc_chunkerVersion = CHUNKER_VERSION,
          dc_securitySignals = assessPromptInjection text\<rparr>)"

definition anchor_of_chunk ::
  "(string \<Rightarrow> string) \<Rightarrow> string \<Rightarrow> string \<Rightarrow> string \<Rightarrow> document_chunk \<Rightarrow> citation_anchor" where
  "anchor_of_chunk sha sourceId documentId extractionId chunk =
     \<lparr>ca_id = ''anchor-'' @ digest sha [sourceId, documentId, extractionId, dc_id chunk,
        int_text (int (dc_startOffset chunk)), int_text (int (dc_endOffset chunk)), dc_contentHash chunk],
      ca_sourceId = sourceId, ca_documentId = documentId, ca_extractionId = extractionId,
      ca_chunkId = dc_id chunk, ca_pageNumber = dc_pageNumber chunk, ca_sectionPath = dc_sectionPath chunk,
      ca_startOffset = dc_startOffset chunk, ca_endOffset = dc_endOffset chunk,
      ca_contentHash = dc_contentHash chunk, ca_status = ANCHOR_CURRENT\<rparr>"

text \<open>\<open>flatMap\<close> over the blocks; it does not return if the split of one block does not.\<close>

fun split_blocks :: "nat \<Rightarrow> nat \<Rightarrow> extraction_block list \<Rightarrow> chunk_unit list option" where
  "split_blocks maxChars overlapChars [] = Some []"
| "split_blocks maxChars overlapChars (b # bs) =
     Option.bind (splitBlock b maxChars overlapChars) (\<lambda>us.
     Option.bind (split_blocks maxChars overlapChars bs) (\<lambda>rest. Some (us @ rest)))"

definition chunkExtraction ::
  "(string \<Rightarrow> string) \<Rightarrow> string \<Rightarrow> string \<Rightarrow> string \<Rightarrow> extraction_result \<Rightarrow> chunking_options \<Rightarrow>
   (chunk_error + document_chunk list \<times> citation_anchor list) option" where
  "chunkExtraction sha sourceId documentId extractionId ex options =
     (if er_status ex \<noteq> EX_READY then Some (Inl CHUNK_NOT_READY)
      else
        (case validateOptions options of
           Inl e \<Rightarrow> Some (Inl e)
         | Inr (maxChars, overlapChars, maxChunks) \<Rightarrow>
             Option.bind (split_blocks maxChars overlapChars (er_blocks ex)) (\<lambda>units.
             let grouped = group_units maxChars units [] [] 0 in
             if length grouped > maxChunks then Some (Inl CHUNK_TOO_MANY)
             else
               (let chunks = map (\<lambda>(ordinal, grp). chunk_of_group sha extractionId ex ordinal grp)
                               (zip [0..<length grouped] grouped)
                in Some (Inr (chunks, map (anchor_of_chunk sha sourceId documentId extractionId) chunks))))))"

definition markSupersededAnchors :: "citation_anchor list \<Rightarrow> string \<Rightarrow> citation_anchor list" where
  "markSupersededAnchors anchors currentExtractionId =
     map (\<lambda>anchor. if ca_extractionId anchor = currentExtractionId then anchor
                   else anchor\<lparr>ca_status := ANCHOR_NEEDS_REVIEW\<rparr>) anchors"

section \<open>The split loop\<close>

lemma segment_end_bounds:
  assumes "start < length t" "0 < m"
  shows "start < segment_end t m start" "segment_end t m start \<le> length t" "segment_end t m start \<le> start + m"
  using assms by (auto simp: segment_end_def Let_def min_def split: option.splits dest: last_index_Some)

lemma segment_end_far:
  assumes "start < length t" "0 < m"
  shows "start + m div 2 < segment_end t m start \<or> segment_end t m start = length t"
  using assms by (auto simp: segment_end_def Let_def min_def split: option.splits)

text \<open>Consecutive segments overlap by less than half of a segment, so their ends never move back.\<close>

lemma segment_end_mono:
  assumes "start < length t" "2 * v < m" "segment_end t m start < length t"
  defines "next \<equiv> max (start + 1) (segment_end t m start - v)"
  shows "start < next" "next \<le> segment_end t m start" "next < length t" "segment_end t m start \<le> segment_end t m next"
proof -
  have m: "0 < m" using assms(2) by simp
  note b = segment_end_bounds[OF assms(1) m]
  show n: "start < next" "next \<le> segment_end t m start" "next < length t" using b assms(3) by (auto simp: next_def)
  show "segment_end t m start \<le> segment_end t m next"
    using segment_end_far[OF n(3) m] b(2) assms(2) by (auto simp: next_def)
qed

text \<open>The raw segments of a block, and what the loop guarantees about them.\<close>

definition raw_segments :: "string \<Rightarrow> nat \<Rightarrow> nat \<Rightarrow> (nat \<times> nat) list \<Rightarrow> bool" where
  "raw_segments t m start raws \<longleftrightarrow>
     sorted_wrt (\<lambda>(a, b) (c, d). a < c \<and> b \<le> d) raws \<and>
     (\<forall>(a, b)\<in>set raws. start \<le> a \<and> segment_end t m start \<le> b \<and> a < b \<and> b \<le> length t \<and> b \<le> a + m) \<and>
     (\<forall>p. start \<le> p \<and> p < length t \<longrightarrow> (\<exists>(a, b)\<in>set raws. a \<le> p \<and> p < b))"

lemma split_from_raws:
  assumes "2 * v < m" "start < length (eb_text blk)"
  shows "\<exists>raws. split_from blk m v start = Some (concat (map (\<lambda>(a, b). segment_units blk a b) raws)) \<and>
     raw_segments (eb_text blk) m start raws"
  using assms(2)
proof (induction "length (eb_text blk) - start" arbitrary: start rule: less_induct)
  case less
  let ?t = "eb_text blk" let ?stop = "segment_end (eb_text blk) m start"
  let ?next = "max (start + 1) (?stop - v)"
  have m: "0 < m" using assms(1) by simp
  note b = segment_end_bounds[OF less.prems m]
  show ?case
  proof (cases "?stop \<ge> length ?t")
    case True
    then have "split_from blk m v start = Some (concat (map (\<lambda>(a, b). segment_units blk a b) [(start, ?stop)]))"
      using less.prems by (simp add: split_from.simps Let_def)
    moreover have "raw_segments ?t m start [(start, ?stop)]" using True b by (auto simp: raw_segments_def)
    ultimately show ?thesis by blast
  next
    case False
    then have stop: "?stop < length ?t" by simp
    note n = segment_end_mono[OF less.prems assms(1) stop]
    have "length ?t - ?next < length ?t - start" using n(1) less.prems by linarith
    then obtain raws where IH: "split_from blk m v ?next = Some (concat (map (\<lambda>(a, b). segment_units blk a b) raws))"
      "raw_segments ?t m ?next raws"
      using less.hyps n(3) by blast
    have "split_from blk m v start = Some (concat (map (\<lambda>(a, b). segment_units blk a b) ((start, ?stop) # raws)))"
      using less.prems False IH(1) by (subst split_from.simps) (simp add: Let_def)
    moreover have "raw_segments ?t m start ((start, ?stop) # raws)"
      unfolding raw_segments_def
    proof (intro conjI allI impI)
      show "sorted_wrt (\<lambda>(a, b) (c, d). a < c \<and> b \<le> d) ((start, ?stop) # raws)"
        using IH(2) n(1,4) by (fastforce simp: raw_segments_def)
      show "\<forall>(a, e)\<in>set ((start, ?stop) # raws). start \<le> a \<and> ?stop \<le> e \<and> a < e \<and> e \<le> length ?t \<and> e \<le> a + m"
        using IH(2) n(1,4) b by (fastforce simp: raw_segments_def)
      fix p assume p: "start \<le> p \<and> p < length ?t"
      show "\<exists>(a, e)\<in>set ((start, ?stop) # raws). a \<le> p \<and> p < e"
      proof (cases "p < ?stop")
        case True then show ?thesis using p by auto
      next
        case False
        then have "?next \<le> p" using n(2) by linarith
        then show ?thesis using IH(2) p by (auto simp: raw_segments_def)
      qed
    qed
    ultimately show ?thesis by blast
  qed
qed

section \<open>Trimming a segment\<close>

lemma trim_start_length: "length s - length (js_trim_start s) = length (takeWhile js_space s)"
proof -
  have "length (takeWhile js_space s) + length (dropWhile js_space s) = length s"
    by (metis length_append takeWhile_dropWhile_id)
  then show ?thesis by (simp add: js_trim_start_def)
qed

lemma trim_start_keeps:
  assumes "i < length s" "\<not> js_space (s ! i)"
  shows "length s - length (js_trim_start s) \<le> i"
proof (rule ccontr)
  assume "\<not> ?thesis"
  then have i: "i < length (takeWhile js_space s)" by (simp add: trim_start_length)
  have "js_space (takeWhile js_space s ! i)" using nth_mem[OF i] set_takeWhileD by metis
  with assms(2) show False using takeWhile_nth[OF i] by simp
qed

lemma trim_end_keeps:
  assumes "i < length s" "\<not> js_space (s ! i)"
  shows "i < length (js_trim_end s)"
proof -
  have "length (rev s) - length (js_trim_start (rev s)) \<le> length s - Suc i"
    using assms by (intro trim_start_keeps) (auto simp: rev_nth)
  then show ?thesis using assms(1) by (simp add: js_trim_end_def js_trim_start_def)
qed

lemma trim_start_hd_nonspace:
  assumes "js_trim_start s \<noteq> []"
  shows "\<not> js_space (s ! (length s - length (js_trim_start s)))" "length s - length (js_trim_start s) < length s"
proof -
  have eq: "s = takeWhile js_space s @ js_trim_start s" by (simp add: js_trim_start_def)
  have "s ! length (takeWhile js_space s) = hd (js_trim_start s)"
    using assms by (subst eq) (simp add: nth_append hd_conv_nth)
  then show "\<not> js_space (s ! (length s - length (js_trim_start s)))"
    using js_trim_start_hd[OF assms] by (simp add: trim_start_length)
  have "0 < length (js_trim_start s)" using assms by simp
  then show "length s - length (js_trim_start s) < length s" using js_trim_start_length[of s] by linarith
qed

text \<open>
  The segment without its surrounding white space: its bounds lie within the raw ones, begin and end with
  a visible character, and enclose every visible character of the raw segment.
\<close>

lemma trimSegment_Some:
  assumes "trimSegment t a b = Some (x, s, e)" "a < b" "b \<le> length t"
  shows "a \<le> s \<and> s < e \<and> e \<le> b \<and> x = js_slice s e t \<and> \<not> js_space (t ! s) \<and> \<not> js_space (t ! (e - 1))"
proof -
  let ?raw = "js_slice a b t"
  have len: "length ?raw = b - a" using assms by simp
  have s: "s = a + (length ?raw - length (js_trim_start ?raw))" and e: "e = b - (length ?raw - length (js_trim_end ?raw))"
    and se: "s < e" and x: "x = js_slice s e t"
    using assms(1) by (auto simp: trimSegment_def Let_def split: if_splits)
  have eb: "e \<le> b" "a \<le> s" "s < b" using s e se by linarith+
  have nth: "?raw ! i = t ! (a + i)" if "i < b - a" for i using that assms by (intro js_slice_nth) simp
  have "js_trim_start ?raw \<noteq> []" using s se eb len by auto
  from trim_start_hd_nonspace[OF this] have first: "\<not> js_space (t ! s)" using nth s len by simp
  have "\<not> js_space (t ! (e - 1))"
  proof -
    have "0 < length (js_trim_end ?raw)" using e se eb len by linarith
    then have ne: "js_trim_start (rev ?raw) \<noteq> []" by (auto simp: js_trim_end_def js_trim_start_def)
    let ?d = "length (rev ?raw) - length (js_trim_start (rev ?raw))"
    have d: "?d = length ?raw - length (js_trim_end ?raw)" by (simp add: js_trim_end_def js_trim_start_def)
    have "rev ?raw ! ?d = ?raw ! (length ?raw - Suc ?d)" using trim_start_hd_nonspace(2)[OF ne] by (simp add: rev_nth)
    moreover have "a + (length ?raw - Suc ?d) = e - 1" using d e se eb len js_trim_end_length[of ?raw] by linarith
    moreover have "length ?raw - Suc ?d < b - a" using len assms(2) by simp
    ultimately show ?thesis using trim_start_hd_nonspace(1)[OF ne] nth by metis
  qed
  with first eb se x show ?thesis by blast
qed

lemma trimSegment_covers:
  assumes "a \<le> p" "p < b" "b \<le> length t" "\<not> js_space (t ! p)"
  shows "\<exists>x s e. trimSegment t a b = Some (x, s, e) \<and> s \<le> p \<and> p < e"
proof -
  let ?raw = "js_slice a b t"
  have len: "length ?raw = b - a" using assms by simp
  have i: "p - a < length ?raw" "\<not> js_space (?raw ! (p - a))" using assms by (simp_all add: js_slice_nth)
  have "a + (length ?raw - length (js_trim_start ?raw)) \<le> p" "p < b - (length ?raw - length (js_trim_end ?raw))"
    using trim_start_keeps[OF i] trim_end_keeps[OF i] js_trim_end_length[of ?raw] len assms(1,2) by linarith+
  then show ?thesis by (auto simp: trimSegment_def Let_def)
qed

section \<open>The units of a block\<close>

definition block_offsets_ok :: "extraction_block \<Rightarrow> bool" where
  "block_offsets_ok b \<longleftrightarrow> eb_text b \<noteq> [] \<and> eb_endOffset b = eb_startOffset b + length (eb_text b)"

definition unit_ok :: "nat \<Rightarrow> extraction_block \<Rightarrow> chunk_unit \<Rightarrow> bool" where
  "unit_ok m b u \<longleftrightarrow> cu_block u = b \<and> eb_startOffset b \<le> cu_startOffset u \<and> cu_startOffset u < cu_endOffset u \<and>
     cu_endOffset u \<le> eb_endOffset b \<and> length (cu_text u) \<le> m \<and> length (cu_text u) = cu_endOffset u - cu_startOffset u \<and>
     cu_text u = js_slice (cu_startOffset u - eb_startOffset b) (cu_endOffset u - eb_startOffset b) (eb_text b)"

definition unit_before :: "chunk_unit \<Rightarrow> chunk_unit \<Rightarrow> bool" where
  "unit_before u w \<longleftrightarrow> cu_startOffset u \<le> cu_startOffset w \<and> cu_endOffset u \<le> cu_endOffset w"

lemma unit_before_refl: "unit_before u u"
  by (simp add: unit_before_def)

lemma segment_units_mem:
  assumes "u \<in> set (segment_units b x y)" "x < y" "y \<le> length (eb_text b)"
  obtains s e where "x \<le> s" "s < e" "e \<le> y" "\<not> js_space (eb_text b ! s)" "\<not> js_space (eb_text b ! (e - 1))"
    "trimSegment (eb_text b) x y = Some (js_slice s e (eb_text b), s, e)"
    "u = \<lparr>cu_text = js_slice s e (eb_text b), cu_startOffset = eb_startOffset b + s, cu_endOffset = eb_startOffset b + e, cu_block = b\<rparr>"
proof (cases "trimSegment (eb_text b) x y")
  case None
  then show thesis using assms(1) by (simp add: segment_units_def)
next
  case (Some z)
  obtain t s e where z: "z = (t, s, e)" by (cases z)
  note tr = trimSegment_Some[OF Some[unfolded z] assms(2,3)]
  show thesis using that[of s e] tr Some z assms(1) by (auto simp: segment_units_def)
qed

lemma segment_units_ordered:
  assumes seg: "a < b" "b \<le> length (eb_text blk)" "c < d" "d \<le> length (eb_text blk)" "a \<le> c" "b \<le> d"
    and u: "u \<in> set (segment_units blk a b)" and w: "w \<in> set (segment_units blk c d)"
  shows "unit_before u w"
proof -
  obtain s e where s: "a \<le> s" "s < e" "e \<le> b" "\<not> js_space (eb_text blk ! (e - 1))"
      "trimSegment (eb_text blk) a b = Some (js_slice s e (eb_text blk), s, e)"
      "cu_startOffset u = eb_startOffset blk + s" "cu_endOffset u = eb_startOffset blk + e"
    using segment_units_mem[OF u seg(1,2)] by (metis chunk_unit.select_convs(2,3))
  obtain s' e' where s': "c \<le> s'" "s' < e'" "e' \<le> d" "\<not> js_space (eb_text blk ! s')"
      "trimSegment (eb_text blk) c d = Some (js_slice s' e' (eb_text blk), s', e')"
      "cu_startOffset w = eb_startOffset blk + s'" "cu_endOffset w = eb_startOffset blk + e'"
    using segment_units_mem[OF w seg(3,4)] by (metis chunk_unit.select_convs(2,3))
  have "s \<le> s'"
  proof (cases "s' < b")
    case True
    then show ?thesis using trimSegment_covers[of a s' b "eb_text blk"] s'(1,4) s(5) seg by auto
  next
    case False then show ?thesis using s by simp
  qed
  moreover have "e \<le> e'"
  proof (cases "c \<le> e - 1")
    case True
    moreover have "e - 1 < d" using s(2,3) seg(6) by linarith
    ultimately show ?thesis using trimSegment_covers[of c "e - 1" d "eb_text blk"] s(4) s'(5) seg(4) by auto
  next
    case False then show ?thesis using s' by simp
  qed
  ultimately show ?thesis using s s' by (simp add: unit_before_def)
qed

lemma sorted_wrt_concat:
  assumes "sorted_wrt Q xs" "\<And>x. x \<in> set xs \<Longrightarrow> sorted_wrt R (f x)"
    "\<And>x y u w. x \<in> set xs \<Longrightarrow> y \<in> set xs \<Longrightarrow> Q x y \<Longrightarrow> u \<in> set (f x) \<Longrightarrow> w \<in> set (f y) \<Longrightarrow> R u w"
  shows "sorted_wrt R (concat (map f xs))"
  using assms
proof (induction xs)
  case (Cons x xs)
  have "sorted_wrt R (concat (map f xs))"
    by (rule Cons.IH) (use Cons.prems(1) in simp, rule Cons.prems(2), simp, rule Cons.prems(3), auto)
  moreover have "R u w" if "u \<in> set (f x)" "w \<in> set (concat (map f xs))" for u w
    using that Cons.prems by fastforce
  ultimately show ?case using Cons.prems(2) by (simp add: sorted_wrt_append)
qed simp

lemma segment_units_short: "length (segment_units b x y) \<le> 1"
  by (auto simp: segment_units_def split: option.splits prod.splits)

lemma splitBlock_units:
  assumes v: "2 * v < m" and blk: "block_offsets_ok b"
  shows "\<exists>us. splitBlock b m v = Some us \<and> (\<forall>u\<in>set us. unit_ok m b u) \<and> sorted_wrt unit_before us \<and>
     (\<forall>p < length (eb_text b). \<not> js_space (eb_text b ! p) \<longrightarrow>
        (\<exists>u\<in>set us. cu_startOffset u \<le> eb_startOffset b + p \<and> eb_startOffset b + p < cu_endOffset u))"
proof (cases "length (eb_text b) \<le> m")
  case True
  then show ?thesis
    using blk by (auto simp: splitBlock_def whole_unit_def unit_ok_def block_offsets_ok_def js_slice_def)
next
  case False
  then obtain raws where us: "splitBlock b m v = Some (concat (map (\<lambda>(x, y). segment_units b x y) raws))"
    and raws: "raw_segments (eb_text b) m 0 raws"
    using split_from_raws[OF v, of 0 b] blk by (auto simp: splitBlock_def block_offsets_ok_def)
  let ?us = "concat (map (\<lambda>(x, y). segment_units b x y) raws)"
  have seg: "x < y \<and> y \<le> length (eb_text b) \<and> y \<le> x + m" if "(x, y) \<in> set raws" for x y
    using raws that by (auto simp: raw_segments_def)
  have "unit_ok m b u" if mem: "u \<in> set ?us" for u
  proof -
    obtain x y where xy: "(x, y) \<in> set raws" "u \<in> set (segment_units b x y)" using mem by auto
    show ?thesis
      by (rule segment_units_mem[OF xy(2)])
        (use seg[OF xy(1)] blk in \<open>auto simp: unit_ok_def block_offsets_ok_def\<close>)
  qed
  moreover have "sorted_wrt unit_before ?us"
  proof (rule sorted_wrt_concat)
    show "sorted_wrt (\<lambda>(a, b) (c, d). a < c \<and> b \<le> d) raws" using raws by (simp add: raw_segments_def)
    show "sorted_wrt unit_before (case x of (x, y) \<Rightarrow> segment_units b x y)" for x
      using segment_units_short[of b "fst x" "snd x"] by (cases "segment_units b (fst x) (snd x)") (auto simp: split_def)
    fix x y u w
    assume xy: "x \<in> set raws" "y \<in> set raws" "(case x of (a, b) \<Rightarrow> \<lambda>(c, d). a < c \<and> b \<le> d) y"
      and u: "u \<in> set (case x of (x, y) \<Rightarrow> segment_units b x y)" and w: "w \<in> set (case y of (x, y) \<Rightarrow> segment_units b x y)"
    obtain x1 x2 y1 y2 where [simp]: "x = (x1, x2)" "y = (y1, y2)" by (cases x, cases y)
    show "unit_before u w"
      by (rule segment_units_ordered[of x1 x2 b y1 y2]) (use xy u w seg in auto)
  qed
  moreover have "\<exists>u\<in>set ?us. cu_startOffset u \<le> eb_startOffset b + p \<and> eb_startOffset b + p < cu_endOffset u"
    if p: "p < length (eb_text b)" "\<not> js_space (eb_text b ! p)" for p
  proof -
    obtain x y where xy: "(x, y) \<in> set raws" "x \<le> p" "p < y" using raws p by (auto simp: raw_segments_def)
    then obtain t s e where "trimSegment (eb_text b) x y = Some (t, s, e)" "s \<le> p" "p < e"
      using trimSegment_covers[of x p y "eb_text b"] seg p by blast
    then have "\<exists>u\<in>set (segment_units b x y). cu_startOffset u \<le> eb_startOffset b + p \<and> eb_startOffset b + p < cu_endOffset u"
      by (simp add: segment_units_def)
    with xy(1) show ?thesis by force
  qed
  ultimately show ?thesis using us by blast
qed

section \<open>All blocks, and the groups\<close>

text \<open>Blocks as an extraction delivers them: in order, each after the end of the one before.\<close>

definition blocks_ordered :: "extraction_block list \<Rightarrow> bool" where
  "blocks_ordered bs \<longleftrightarrow> (\<forall>b\<in>set bs. block_offsets_ok b) \<and>
     sorted_wrt (\<lambda>b c. eb_endOffset b + 2 \<le> eb_startOffset c) bs"

lemma unit_ok_order:
  "unit_ok m b u \<Longrightarrow> unit_ok m c w \<Longrightarrow> eb_endOffset b + 2 \<le> eb_startOffset c \<Longrightarrow> unit_before u w"
  by (simp add: unit_ok_def unit_before_def)

lemma split_blocks_units:
  assumes "2 * v < m" "blocks_ordered bs"
  shows "\<exists>us. split_blocks m v bs = Some us \<and> (\<forall>u\<in>set us. \<exists>b\<in>set bs. unit_ok m b u) \<and>
     sorted_wrt unit_before us \<and>
     (\<forall>b\<in>set bs. \<forall>p < length (eb_text b). \<not> js_space (eb_text b ! p) \<longrightarrow>
        (\<exists>u\<in>set us. cu_startOffset u \<le> eb_startOffset b + p \<and> eb_startOffset b + p < cu_endOffset u))"
  using assms(2)
proof (induction bs)
  case (Cons b bs)
  have ok: "block_offsets_ok b" using Cons.prems by (simp add: blocks_ordered_def)
  obtain us where us: "splitBlock b m v = Some us" "\<forall>u\<in>set us. unit_ok m b u" "sorted_wrt unit_before us"
    "\<forall>p < length (eb_text b). \<not> js_space (eb_text b ! p) \<longrightarrow>
        (\<exists>u\<in>set us. cu_startOffset u \<le> eb_startOffset b + p \<and> eb_startOffset b + p < cu_endOffset u)"
    using splitBlock_units[OF assms(1) ok] by blast
  obtain ws where ws: "split_blocks m v bs = Some ws" "\<forall>u\<in>set ws. \<exists>b\<in>set bs. unit_ok m b u" "sorted_wrt unit_before ws"
    "\<forall>b\<in>set bs. \<forall>p < length (eb_text b). \<not> js_space (eb_text b ! p) \<longrightarrow>
        (\<exists>u\<in>set ws. cu_startOffset u \<le> eb_startOffset b + p \<and> eb_startOffset b + p < cu_endOffset u)"
    using Cons by (auto simp: blocks_ordered_def)
  have "unit_before u w" if "u \<in> set us" "w \<in> set ws" for u w
    using that us(2) ws(2) Cons.prems unit_ok_order[of m b u _ w] by (auto simp: blocks_ordered_def)
  then have "sorted_wrt unit_before (us @ ws)" using us(3) ws(3) by (simp add: sorted_wrt_append)
  moreover have "split_blocks m v (b # bs) = Some (us @ ws)" using us(1) ws(1) by simp
  moreover have "\<forall>u\<in>set (us @ ws). \<exists>c\<in>set (b # bs). unit_ok m c u" using us(2) ws(2) by auto
  moreover have "\<forall>c\<in>set (b # bs). \<forall>p < length (eb_text c). \<not> js_space (eb_text c ! p) \<longrightarrow>
      (\<exists>u\<in>set (us @ ws). cu_startOffset u \<le> eb_startOffset c + p \<and> eb_startOffset c + p < cu_endOffset u)"
    using us(4) ws(4) by (simp add: bex_Un)
  ultimately show ?case by blast
qed simp

definition chunk_chars :: "chunk_unit list \<Rightarrow> nat" where
  "chunk_chars grp = length (join blank_line (map cu_text grp))"

lemma chunk_chars_Nil: "chunk_chars [] = 0"
  by (simp add: chunk_chars_def)

lemma chunk_chars_snoc: "chunk_chars (grp @ [u]) = chunk_chars grp + (if grp = [] then 0 else 2) + length (cu_text u)"
  by (simp add: chunk_chars_def join_snoc blank_line_def)

lemma group_units_ok:
  assumes "\<forall>u\<in>set us. length (cu_text u) \<le> m" "chars = chunk_chars cur" "chars \<le> m"
    "\<forall>g\<in>set done. g \<noteq> [] \<and> chunk_chars g \<le> m"
  shows "concat (group_units m us done cur chars) = concat done @ cur @ us \<and>
     (\<forall>g\<in>set (group_units m us done cur chars). g \<noteq> [] \<and> chunk_chars g \<le> m)"
  using assms
proof (induction m us "done" cur chars rule: group_units.induct)
  case (2 m u rest grouped cur chars)
  let ?cut = "length cur > 0 \<and> (\<not> chars + (if length cur > 0 then 2 else 0) + length (cu_text u) \<le> m \<or>
      \<not> sameStructure (last cur) u)"
  show ?case
  proof (cases ?cut)
    case True
    have one: "chunk_chars [u] = length (cu_text u)" by (simp add: chunk_chars_def)
    have "concat (group_units m rest (grouped @ [cur]) [u] (length (cu_text u))) = concat (grouped @ [cur]) @ [u] @ rest \<and>
      (\<forall>g\<in>set (group_units m rest (grouped @ [cur]) [u] (length (cu_text u))). g \<noteq> [] \<and> chunk_chars g \<le> m)"
      by (rule 2(1)[OF refl refl True _ one[symmetric]]) (use 2(3-6) True in auto)
    then show ?thesis unfolding group_units.simps Let_def if_P[OF True] by simp
  next
    case False
    let ?n = "chars + (if length (cur @ [u]) > 1 then 2 else 0) + length (cu_text u)"
    have n1: "?n = chunk_chars (cur @ [u])" unfolding chunk_chars_snoc 2(4) by simp
    have n2: "?n \<le> m"
    proof (cases "cur = []")
      case True
      then show ?thesis using 2(3,4) by (simp add: chunk_chars_Nil)
    next
      case ne: False
      then show ?thesis using False by simp
    qed
    note n = n1 n2
    have main: "concat (group_units m rest grouped (cur @ [u]) ?n) = concat grouped @ (cur @ [u]) @ rest \<and>
      (\<forall>g\<in>set (group_units m rest grouped (cur @ [u]) ?n). g \<noteq> [] \<and> chunk_chars g \<le> m)"
      by (rule 2(2)[OF refl refl False _ n]) (use 2(3,6) in simp_all)
    have eq: "group_units m (u # rest) grouped cur chars = group_units m rest grouped (cur @ [u]) ?n"
      unfolding group_units.simps Let_def by (rule if_not_P[OF False])
    from main[unfolded append_assoc append_Cons append_Nil] show ?thesis unfolding eq .
  qed
qed auto

section \<open>Chunking an extraction\<close>

lemma validateOptions_Inr:
  "validateOptions q = Inr (m, v, n) \<Longrightarrow> 100 \<le> m \<and> 2 * v < m \<and> 1 \<le> n"
  by (auto simp: validateOptions_def split: option.splits if_splits)

lemma finalize_blocks_ordered:
  assumes "finalizeExtraction sha i = Inr ex"
  shows "blocks_ordered (er_blocks ex)" "er_status ex = EX_READY"
    "\<forall>p < length (er_text ex). \<not> js_space (er_text ex ! p) \<longrightarrow>
       (\<exists>b\<in>set (er_blocks ex). \<exists>q < length (eb_text b). p = eb_startOffset b + q \<and> eb_text b ! q = er_text ex ! p)"
proof -
  obtain n where n: "assembled (lim_maxTextChars (fi_limits i)) n (er_blocks ex)"
    "er_text ex = join blank_line (map eb_text (er_blocks ex))" "er_status ex = EX_READY"
    using assms by (rule finalizeExtraction_Inr)
  then show "blocks_ordered (er_blocks ex)" "er_status ex = EX_READY"
    by (auto simp: assembled_def blocks_ordered_def block_offsets_ok_def Let_def)
  show "\<forall>p < length (er_text ex). \<not> js_space (er_text ex ! p) \<longrightarrow>
       (\<exists>b\<in>set (er_blocks ex). \<exists>q < length (eb_text b). p = eb_startOffset b + q \<and> eb_text b ! q = er_text ex ! p)"
  proof (intro allI impI)
    fix p assume p: "p < length (er_text ex)" "\<not> js_space (er_text ex ! p)"
    then obtain b where b: "b \<in> set (er_blocks ex)" "eb_startOffset b \<le> p" "p < eb_endOffset b"
      using n(1,2) by (auto simp: assembled_def Let_def)
    then have slice: "js_slice (eb_startOffset b) (eb_endOffset b) (er_text ex) = eb_text b"
      and len: "eb_endOffset b = eb_startOffset b + length (eb_text b)"
      using n(1,2) by (auto simp: assembled_def Let_def)
    have "eb_text b ! (p - eb_startOffset b) = er_text ex ! p"
      unfolding slice[symmetric] using b p by (subst js_slice_nth) auto
    with b len show "\<exists>b\<in>set (er_blocks ex). \<exists>q < length (eb_text b). p = eb_startOffset b + q \<and> eb_text b ! q = er_text ex ! p"
      by (intro bexI[of _ b] exI[of _ "p - eb_startOffset b"]) auto
  qed
qed

text \<open>What a call that got past the checks computes: units, groups and one chunk per group.\<close>

lemma chunkExtraction_groups:
  assumes r: "chunkExtraction sha src doc eid ex q = Some (Inr (chunks, anchors))" and ok: "blocks_ordered (er_blocks ex)"
  obtains m v n us gs where "validateOptions q = Inr (m, v, n)" "concat gs = us" "length gs \<le> n"
    "\<forall>g\<in>set gs. g \<noteq> [] \<and> chunk_chars g \<le> m" "sorted_wrt unit_before us"
    "\<forall>u\<in>set us. \<exists>b\<in>set (er_blocks ex). unit_ok m b u"
    "\<forall>b\<in>set (er_blocks ex). \<forall>p < length (eb_text b). \<not> js_space (eb_text b ! p) \<longrightarrow>
        (\<exists>u\<in>set us. cu_startOffset u \<le> eb_startOffset b + p \<and> eb_startOffset b + p < cu_endOffset u)"
    "chunks = map (\<lambda>(k, g). chunk_of_group sha eid ex k g) (zip [0..<length gs] gs)"
    "anchors = map (anchor_of_chunk sha src doc eid) chunks"
proof -
  obtain m v n where opt: "validateOptions q = Inr (m, v, n)"
    using r by (auto simp: chunkExtraction_def split: if_splits sum.splits)
  obtain us where us: "split_blocks m v (er_blocks ex) = Some us" "\<forall>u\<in>set us. \<exists>b\<in>set (er_blocks ex). unit_ok m b u"
    "sorted_wrt unit_before us" "\<forall>b\<in>set (er_blocks ex). \<forall>p < length (eb_text b). \<not> js_space (eb_text b ! p) \<longrightarrow>
        (\<exists>u\<in>set us. cu_startOffset u \<le> eb_startOffset b + p \<and> eb_startOffset b + p < cu_endOffset u)"
    using split_blocks_units[OF _ ok] validateOptions_Inr[OF opt] by blast
  let ?gs = "group_units m us [] [] 0"
  have "\<forall>u\<in>set us. length (cu_text u) \<le> m" using us(2) by (auto simp: unit_ok_def)
  from group_units_ok[OF this, of 0 "[]" "[]"]
  have gs: "concat ?gs = us" "\<forall>g\<in>set ?gs. g \<noteq> [] \<and> chunk_chars g \<le> m"
    by (simp_all add: chunk_chars_Nil del: group_units.simps)
  have "length ?gs \<le> n \<and> chunks = map (\<lambda>(k, g). chunk_of_group sha eid ex k g) (zip [0..<length ?gs] ?gs) \<and>
      anchors = map (anchor_of_chunk sha src doc eid) chunks"
    using r opt us(1) by (auto simp: chunkExtraction_def Let_def split: if_splits simp del: group_units.simps)
  with opt gs us(2-4) that show thesis by blast
qed

lemma sorted_last: "sorted_wrt R xs \<Longrightarrow> (\<And>x. R x x) \<Longrightarrow> x \<in> set xs \<Longrightarrow> R (hd xs) x \<and> R x (last xs)"
  by (induction xs) auto

lemma concat_sorted: "sorted_wrt R (concat gs) \<Longrightarrow> g \<in> set gs \<Longrightarrow> sorted_wrt R g"
  by (induction gs) (auto simp: sorted_wrt_append)

text \<open>
  \<^bold>\<open>C32.\<close> Chunking an extraction always returns: for every choice of options the split loop ends, and the
  result is a list of chunks or one of the documented errors.
\<close>

theorem chunkExtraction_returns:
  assumes "finalizeExtraction sha i = Inr ex"
  shows "\<exists>r. chunkExtraction sha src doc eid ex q = Some r"
proof (cases "validateOptions q")
  case (Inl e)
  then show ?thesis by (simp add: chunkExtraction_def)
next
  case (Inr z)
  obtain m v n where z: "z = (m, v, n)" by (cases z)
  obtain us where "split_blocks m v (er_blocks ex) = Some us"
    using split_blocks_units[of v m "er_blocks ex"] finalize_blocks_ordered(1)[OF assms] validateOptions_Inr Inr z by blast
  then show ?thesis using Inr z by (simp add: chunkExtraction_def Let_def)
qed

text \<open>
  Chunks respect the limits: between one and \<open>maxChars\<close> characters each, at most \<open>maxChunks\<close> of
  them, numbered in order, with one current anchor per chunk at the same offsets.
\<close>

theorem chunkExtraction_limits:
  assumes ex: "finalizeExtraction sha i = Inr ex"
    and r: "chunkExtraction sha src doc eid ex q = Some (Inr (chunks, anchors))"
  shows "\<exists>m v n. validateOptions q = Inr (m, v, n) \<and> length chunks \<le> n \<and>
     map dc_ordinal chunks = [0..<length chunks] \<and>
     (\<forall>c\<in>set chunks. 1 \<le> dc_charCount c \<and> dc_charCount c \<le> m \<and> dc_charCount c = length (dc_text c) \<and>
        dc_startOffset c < dc_endOffset c) \<and>
     map (\<lambda>a. (ca_chunkId a, ca_startOffset a, ca_endOffset a, ca_status a)) anchors =
     map (\<lambda>c. (dc_id c, dc_startOffset c, dc_endOffset c, ANCHOR_CURRENT)) chunks"
proof -
  obtain m v n us gs where g: "validateOptions q = Inr (m, v, n)" "concat gs = us" "length gs \<le> n"
      "\<forall>g\<in>set gs. g \<noteq> [] \<and> chunk_chars g \<le> m" "sorted_wrt unit_before us"
      "\<forall>u\<in>set us. \<exists>b\<in>set (er_blocks ex). unit_ok m b u"
      "chunks = map (\<lambda>(k, g). chunk_of_group sha eid ex k g) (zip [0..<length gs] gs)"
      "anchors = map (anchor_of_chunk sha src doc eid) chunks"
    using chunkExtraction_groups[OF r finalize_blocks_ordered(1)[OF ex]] by metis
  have "1 \<le> dc_charCount c \<and> dc_charCount c \<le> m \<and> dc_charCount c = length (dc_text c) \<and> dc_startOffset c < dc_endOffset c"
    if "c \<in> set chunks" for c
  proof -
    obtain k grp where c: "c = chunk_of_group sha eid ex k grp" and grp: "grp \<in> set gs"
      using \<open>c \<in> set chunks\<close> g(7) by (auto dest: set_zip_rightD)
    have first: "hd grp \<in> set us" "hd grp \<in> set grp" using grp g(2,4) by force+
    then obtain b where u: "unit_ok m b (hd grp)" using g(6) by blast
    have "unit_before (hd grp) (last grp)"
      using sorted_last[OF concat_sorted[of unit_before gs grp] unit_before_refl first(2)] g(2,5) grp by simp
    moreover have "0 < chunk_chars grp"
      using u first(2) by (cases grp; cases "tl grp") (auto simp: chunk_chars_def unit_ok_def)
    ultimately show ?thesis using u g(4) grp by (auto simp: c chunk_of_group_def Let_def chunk_chars_def unit_before_def unit_ok_def Suc_le_eq)
  qed
  moreover have "map dc_ordinal chunks = [0..<length chunks]"
  proof -
    have "dc_ordinal (chunk_of_group sha eid ex k grp) = k" for k grp by (simp add: chunk_of_group_def Let_def)
    then have "map dc_ordinal chunks = map fst (zip [0..<length gs] gs)" unfolding g(7) map_map by (intro map_cong) auto
    then show ?thesis by (simp add: g(7))
  qed
  moreover have "length chunks \<le> n" using g(3,7) by simp
  moreover have "map (\<lambda>a. (ca_chunkId a, ca_startOffset a, ca_endOffset a, ca_status a)) anchors =
     map (\<lambda>c. (dc_id c, dc_startOffset c, dc_endOffset c, ANCHOR_CURRENT)) chunks"
    by (simp add: g(8) anchor_of_chunk_def)
  ultimately show ?thesis using g(1) by blast
qed

text \<open>
  \<^bold>\<open>C31.\<close> No text is lost: every visible character of the extracted text lies between the offsets of some
  chunk, so everything a source says can be cited.
\<close>

theorem chunkExtraction_covers:
  assumes ex: "finalizeExtraction sha i = Inr ex"
    and r: "chunkExtraction sha src doc eid ex q = Some (Inr (chunks, anchors))"
    and p: "p < length (er_text ex)" "\<not> js_space (er_text ex ! p)"
  shows "\<exists>c\<in>set chunks. dc_startOffset c \<le> p \<and> p < dc_endOffset c"
proof -
  note f = finalize_blocks_ordered[OF ex]
  obtain m v n us gs where g: "concat gs = us" "sorted_wrt unit_before us"
      "\<forall>b\<in>set (er_blocks ex). \<forall>p < length (eb_text b). \<not> js_space (eb_text b ! p) \<longrightarrow>
        (\<exists>u\<in>set us. cu_startOffset u \<le> eb_startOffset b + p \<and> eb_startOffset b + p < cu_endOffset u)"
      "chunks = map (\<lambda>(k, g). chunk_of_group sha eid ex k g) (zip [0..<length gs] gs)"
    using chunkExtraction_groups[OF r f(1)] by metis
  obtain u where u: "u \<in> set us" "cu_startOffset u \<le> p" "p < cu_endOffset u"
    using f(3) p g(3) by metis
  then obtain grp where grp: "grp \<in> set gs" "u \<in> set grp" using g(1) by auto
  have "sorted_wrt unit_before grp" using concat_sorted[of unit_before gs grp] g(1,2) grp by simp
  then have "unit_before (hd grp) u \<and> unit_before u (last grp)"
    using sorted_last[of unit_before grp u, OF _ unit_before_refl grp(2)] by blast
  moreover obtain k where "(k, grp) \<in> set (zip [0..<length gs] gs)"
    using grp(1) by (metis in_set_impl_in_set_zip2 length_upt minus_nat.diff_0)
  ultimately show ?thesis
    using u by (intro bexI[of _ "chunk_of_group sha eid ex k grp"])
      (force simp: g(4) chunk_of_group_def Let_def unit_before_def)+
qed

definition demo_options :: chunking_options where
  "demo_options = \<lparr>co_maxChars = Some (js_int 100), co_overlapChars = Some (js_int 20), co_maxChunks = None\<rparr>"

lemma demo_chunked:
  obtains ex chunks anchors where "finalizeExtraction (\<lambda>_. ''h'') (demo_finalize [''ab'', ''cd'']) = Inr ex"
    "chunkExtraction (\<lambda>_. ''h'') ''s'' ''d'' ''e'' ex demo_options = Some (Inr (chunks, anchors))"
    "map dc_text chunks = [[CHR ''a'', CHR ''b'', CHR 0x0A, CHR 0x0A, CHR ''c'', CHR ''d'']]"
    "length (er_text ex) = 6" "\<not> js_space (er_text ex ! 5)"
proof -
  let ?p = "\<lambda>r. case r of Inl e \<Rightarrow> False | Inr ex \<Rightarrow>
     (case chunkExtraction (\<lambda>_. ''h'') ''s'' ''d'' ''e'' ex demo_options of
        Some (Inr (chunks, anchors)) \<Rightarrow>
          map dc_text chunks = [[CHR ''a'', CHR ''b'', CHR 0x0A, CHR 0x0A, CHR ''c'', CHR ''d'']] \<and>
          length (er_text ex) = 6 \<and> \<not> js_space (er_text ex ! 5) | _ \<Rightarrow> False)"
  have p: "?p (finalizeExtraction (\<lambda>_. ''h'') (demo_finalize [''ab'', ''cd'']))" by code_simp
  then obtain ex where ex: "finalizeExtraction (\<lambda>_. ''h'') (demo_finalize [''ab'', ''cd'']) = Inr ex"
    by (auto split: sum.splits)
  with p obtain r where r: "chunkExtraction (\<lambda>_. ''h'') ''s'' ''d'' ''e'' ex demo_options = Some r"
    by (auto split: option.splits)
  with p ex obtain chunks anchors where "r = Inr (chunks, anchors)" by (cases r) auto
  with p ex r that show thesis by auto
qed

theorem chunkExtraction_returns_witness:
  "\<exists>ex r. finalizeExtraction (\<lambda>_. ''h'') (demo_finalize [''ab'', ''cd'']) = Inr ex \<and>
     chunkExtraction (\<lambda>_. ''h'') ''s'' ''d'' ''e'' ex demo_options = Some r"
  by (rule demo_chunked) (metis chunkExtraction_returns)

theorem chunkExtraction_limits_witness:
  "\<exists>ex chunks anchors. chunkExtraction (\<lambda>_. ''h'') ''s'' ''d'' ''e'' ex demo_options = Some (Inr (chunks, anchors)) \<and>
     length chunks = 1 \<and> (\<forall>c\<in>set chunks. 1 \<le> dc_charCount c \<and> dc_charCount c = length (dc_text c))"
proof -
  obtain ex chunks anchors where d: "finalizeExtraction (\<lambda>_. ''h'') (demo_finalize [''ab'', ''cd'']) = Inr ex"
    "chunkExtraction (\<lambda>_. ''h'') ''s'' ''d'' ''e'' ex demo_options = Some (Inr (chunks, anchors))"
    "map dc_text chunks = [[CHR ''a'', CHR ''b'', CHR 0x0A, CHR 0x0A, CHR ''c'', CHR ''d'']]"
    by (rule demo_chunked)
  have "length chunks = 1" using arg_cong[OF d(3), of length] by simp
  with chunkExtraction_limits[OF d(1,2)] d(2) show ?thesis by blast
qed

theorem chunkExtraction_covers_witness:
  "\<exists>ex chunks anchors. chunkExtraction (\<lambda>_. ''h'') ''s'' ''d'' ''e'' ex demo_options = Some (Inr (chunks, anchors)) \<and>
     (\<exists>c\<in>set chunks. dc_startOffset c \<le> 5 \<and> 5 < dc_endOffset c)"
proof (rule demo_chunked)
  fix ex chunks anchors
  assume d: "finalizeExtraction (\<lambda>_. ''h'') (demo_finalize [''ab'', ''cd'']) = Inr ex"
    "chunkExtraction (\<lambda>_. ''h'') ''s'' ''d'' ''e'' ex demo_options = Some (Inr (chunks, anchors))"
    "length (er_text ex) = 6" "\<not> js_space (er_text ex ! 5)"
  have "\<exists>c\<in>set chunks. dc_startOffset c \<le> 5 \<and> 5 < dc_endOffset c"
    by (rule chunkExtraction_covers[OF d(1,2) _ d(4)]) (simp add: d(3))
  with d(2) show ?thesis by blast
qed

end
