(* ===== verification/Ip_Addresses.thy ===== *)
theory Ip_Addresses
  imports Document_Extraction "HOL-Library.Word"
begin

text \<open>
  IP address classification of \<open>lib/security/url.ts\<close>: textual addresses to numbers, CIDR membership and
  the lists of blocked networks. An IPv4 address is a 32-bit word, as the bitwise operators of the source
  treat it; an IPv6 address is a \<open>bigint\<close>.
\<close>

unbundle bit_operations_syntax

datatype safe_fetch_error =
    INVALID_URL
  | DISALLOWED_ADDRESS
  | DNS_FAILURE
  | TOO_MANY_REDIRECTS
  | REDIRECT_LOOP
  | INVALID_REDIRECT
  | TIMEOUT
  | RESPONSE_TOO_LARGE
  | UNSUPPORTED_MIME_TYPE
  | HTTP_ERROR
  | FETCH_FAILED

section \<open>\<open>isIP\<close> of \<open>node:net\<close>\<close>

definition is_hex :: "char \<Rightarrow> bool" where
  "is_hex c \<longleftrightarrow> is_digit c \<or> (let n = (of_char (ascii_lower c) :: nat) in 97 \<le> n \<and> n \<le> 102)"

text \<open>A decimal octet without leading zeros.\<close>

definition ip_octet :: "string \<Rightarrow> bool" where
  "ip_octet s \<longleftrightarrow> s \<noteq> [] \<and> length s \<le> 3 \<and> list_all is_digit s \<and> (hd s = CHR ''0'' \<longrightarrow> length s = 1) \<and>
     digits_value 0 s \<le> 255"

definition is_ipv4 :: "string \<Rightarrow> bool" where
  "is_ipv4 s \<longleftrightarrow> length (split_on CHR ''.'' s) = 4 \<and> list_all ip_octet (split_on CHR ''.'' s)"

definition hex_group :: "string \<Rightarrow> bool" where
  "hex_group s \<longleftrightarrow> s \<noteq> [] \<and> length s \<le> 4 \<and> list_all is_hex s"

text \<open>\<open>value.split("::")\<close>\<close>

fun split_double_colon :: "string \<Rightarrow> string list" where
  "split_double_colon (c # d # cs) =
     (if c = CHR '':'' \<and> d = CHR '':'' then [] # split_double_colon cs
      else (case split_double_colon (d # cs) of [] \<Rightarrow> [[c]] | x # xs \<Rightarrow> (c # x) # xs))"
| "split_double_colon s = [s]"

text \<open>The number of 16-bit groups a part of the address stands for, if it is well formed.\<close>

definition group_count :: "bool \<Rightarrow> string \<Rightarrow> nat option" where
  "group_count dotted s =
     (if s = [] then Some 0
      else (let ps = split_on CHR '':'' s in
        if list_all hex_group ps then Some (length ps)
        else if dotted \<and> list_all hex_group (butlast ps) \<and> is_ipv4 (last ps) then Some (length ps + 1)
        else None))"

definition ip_zone :: "string \<Rightarrow> bool" where
  "ip_zone s \<longleftrightarrow> s \<noteq> [] \<and> list_all (\<lambda>c. is_alnum c \<or> c \<in> set ''-.:'') s"

definition is_ipv6 :: "string \<Rightarrow> bool" where
  "is_ipv6 s \<longleftrightarrow>
     (let a = takeWhile (\<lambda>c. c \<noteq> CHR ''%'') s; z = dropWhile (\<lambda>c. c \<noteq> CHR ''%'') s in
      (z = [] \<or> ip_zone (tl z)) \<and>
      (case split_double_colon a of
         [x] \<Rightarrow> group_count True x = Some 8
       | [x, y] \<Rightarrow>
           (case (group_count False x, group_count True y) of
              (Some m, Some n) \<Rightarrow> m + n \<le> 7 | _ \<Rightarrow> False)
       | _ \<Rightarrow> False))"

definition isIP :: "string \<Rightarrow> nat" where
  "isIP s = (if is_ipv4 s then 4 else if is_ipv6 s then 6 else 0)"

section \<open>IPv4\<close>

text \<open>Only called on dotted decimals, whose octets \<open>Number\<close> reads in base ten.\<close>

definition ipv4ToNumber :: "string \<Rightarrow> 32 word" where
  "ipv4ToNumber address =
     word_of_nat (foldl (\<lambda>v octet. v * 256 + digits_value 0 octet) 0 (split_on CHR ''.'' address))"

definition ipv4InCidr :: "32 word \<Rightarrow> 32 word \<Rightarrow> nat \<Rightarrow> bool" where
  "ipv4InCidr address network prefix =
     (if prefix = 0 then True
      else (let m = push_bit (32 - prefix) (0xffffffff :: 32 word) in (address AND m) = (network AND m)))"

definition blocked_ipv4 :: "(string \<times> nat) list" where
  "blocked_ipv4 =
     [(''0.0.0.0'', 8), (''10.0.0.0'', 8), (''100.64.0.0'', 10), (''127.0.0.0'', 8), (''169.254.0.0'', 16),
      (''172.16.0.0'', 12), (''192.0.0.0'', 24), (''192.0.2.0'', 24), (''192.88.99.0'', 24),
      (''192.168.0.0'', 16), (''198.18.0.0'', 15), (''198.51.100.0'', 24), (''203.0.113.0'', 24),
      (''224.0.0.0'', 4), (''240.0.0.0'', 4)]"

definition isPublicIpv4 :: "string \<Rightarrow> bool" where
  "isPublicIpv4 address =
     (let v = ipv4ToNumber address in
      \<not> list_ex (\<lambda>(network, prefix). ipv4InCidr v (ipv4ToNumber network) prefix) blocked_ipv4)"

section \<open>IPv6\<close>

fun hex_value :: "nat \<Rightarrow> string \<Rightarrow> nat" where
  "hex_value acc [] = acc"
| "hex_value acc (c # cs) =
     hex_value (acc * 16 + (let n = (of_char c :: nat) in if n \<le> 57 then n - 48 else n - 87)) cs"

text \<open>\<open>n.toString(16)\<close>\<close>

fun hex_text :: "nat \<Rightarrow> string" where
  "hex_text n = (if n < 16 then [hex_digit n] else hex_text (n div 16) @ [hex_digit (n mod 16)])"

declare hex_text.simps [simp del]

text \<open>The pattern \<open>/^\d{1,3}(\.\d{1,3}){3}$/\<close> and the test \<open>/^[0-9a-f]{1,4}$/\<close>.\<close>

definition dotted_quad :: "string \<Rightarrow> bool" where
  "dotted_quad s \<longleftrightarrow> length (split_on CHR ''.'' s) = 4 \<and>
     list_all (\<lambda>p. p \<noteq> [] \<and> length p \<le> 3 \<and> list_all is_digit p) (split_on CHR ''.'' s)"

definition lower_hex_group :: "string \<Rightarrow> bool" where
  "lower_hex_group s \<longleftrightarrow> s \<noteq> [] \<and> length s \<le> 4 \<and>
     list_all (\<lambda>c. is_digit c \<or> (let n = (of_char c :: nat) in 97 \<le> n \<and> n \<le> 102)) s"

text \<open>
  \<open>/(?:^|:)(\d{1,3}(?:\.\d{1,3}){3})$/\<close> can only match what follows the last colon; it becomes two
  groups of hexadecimal digits.
\<close>

definition embed_ipv4 :: "string \<Rightarrow> safe_fetch_error + string" where
  "embed_ipv4 normalized =
     (let ipv4 = last (split_on CHR '':'' normalized) in
      if dotted_quad ipv4 then
        (if isIP ipv4 \<noteq> 4 then Inl INVALID_URL
         else
           (let v = ipv4ToNumber ipv4 in
            Inr (take (length normalized - length ipv4) normalized @
                 hex_text (unat (drop_bit 16 v AND 0xffff)) @ '':'' @ hex_text (unat (v AND 0xffff)))))
      else Inr normalized)"

definition colon_groups :: "string \<Rightarrow> string list" where
  "colon_groups s = (if s = [] then [] else split_on CHR '':'' s)"

definition ipv6ToBigInt :: "string \<Rightarrow> safe_fetch_error + nat" where
  "ipv6ToBigInt address =
     (if CHR ''%'' \<in> set address then Inl DISALLOWED_ADDRESS
      else
        xbind (embed_ipv4 (js_lower address)) (\<lambda>normalized.
        (let halves = split_double_colon normalized in
         if length halves > 2 then Inl INVALID_URL
         else
           (let left = colon_groups (hd halves);
                right = (if length halves = 2 then colon_groups (halves ! 1) else []) in
            if length left + length right > 8 \<or> (length halves = 1 \<and> length left + length right \<noteq> 8)
            then Inl INVALID_URL
            else
              (let groups = left @ replicate (8 - length left - length right) ''0'' @ right in
               if length groups \<noteq> 8 \<or> list_ex (\<lambda>g. \<not> lower_hex_group g) groups then Inl INVALID_URL
               else Inr (foldl (\<lambda>v g. v * 65536 + hex_value 0 g) 0 groups))))))"

definition ipv6InCidr :: "nat \<Rightarrow> nat \<Rightarrow> nat \<Rightarrow> bool" where
  "ipv6InCidr address network prefix =
     (if prefix = 0 then True
      else (let shift = 128 - prefix in address div 2 ^ shift = network div 2 ^ shift))"

definition blocked_ipv6 :: "(string \<times> nat) list" where
  "blocked_ipv6 =
     [(''::'', 96), (''::1'', 128), (''::ffff:0:0'', 96), (''64:ff9b::'', 96), (''64:ff9b:1::'', 48),
      (''100::'', 64), (''2001::'', 23), (''2001:db8::'', 32), (''2002::'', 16), (''fc00::'', 7),
      (''fe80::'', 10), (''fec0::'', 10), (''ff00::'', 8)]"

text \<open>\<open>blocked.some(...)\<close>, whose callback may throw.\<close>

fun in_blocked6 :: "nat \<Rightarrow> (string \<times> nat) list \<Rightarrow> safe_fetch_error + bool" where
  "in_blocked6 v [] = Inr False"
| "in_blocked6 v ((network, prefix) # rest) =
     xbind (ipv6ToBigInt network) (\<lambda>n. if ipv6InCidr v n prefix then Inr True else in_blocked6 v rest)"

definition isPublicIpv6 :: "string \<Rightarrow> safe_fetch_error + bool" where
  "isPublicIpv6 address =
     xbind (ipv6ToBigInt address) (\<lambda>v. xbind (in_blocked6 v blocked_ipv6) (\<lambda>b. Inr (\<not> b)))"

definition isPublicIpAddress :: "string \<Rightarrow> safe_fetch_error + bool" where
  "isPublicIpAddress address =
     (let family = isIP address in
      if family = 4 then Inr (isPublicIpv4 address)
      else if family = 6 then isPublicIpv6 address
      else Inr False)"

section \<open>CIDR membership\<close>

text \<open>The masked comparison of the source is equality of the leading bits.\<close>

lemma and_high_mask_eq_iff:
  fixes a b :: "'w::len word"
  shows "(a AND push_bit k (- 1)) = (b AND push_bit k (- 1)) \<longleftrightarrow> drop_bit k a = drop_bit k b"
proof
  assume eq: "(a AND push_bit k (- 1)) = (b AND push_bit k (- 1))"
  show "drop_bit k a = drop_bit k b"
  proof (rule bit_word_eqI)
    fix n assume "n < LENGTH('w)"
    have "bit (a AND push_bit k (- 1)) (k + n) = bit (b AND push_bit k (- 1)) (k + n)" by (simp only: eq)
    then show "bit (drop_bit k a) n = bit (drop_bit k b) n"
      by (auto simp: bit_simps dest: bit_imp_le_length)
  qed
next
  assume eq: "drop_bit k a = drop_bit k b"
  show "(a AND push_bit k (- 1)) = (b AND push_bit k (- 1))"
  proof (rule bit_word_eqI)
    fix n assume n: "n < LENGTH('w)"
    have "bit (drop_bit k a) (n - k) = bit (drop_bit k b) (n - k)" by (simp only: eq)
    then show "bit (a AND push_bit k (- 1)) n = bit (b AND push_bit k (- 1)) n"
      using n by (auto simp: bit_simps)
  qed
qed

lemma ipv4InCidr_iff:
  assumes "prefix \<le> 32"
  shows "ipv4InCidr a n prefix \<longleftrightarrow> unat a div 2 ^ (32 - prefix) = unat n div 2 ^ (32 - prefix)"
proof (cases "prefix = 0")
  case True
  have "unat x div 2 ^ 32 = 0" for x :: "32 word" using unsigned_less[of x, where ?'a = nat] by simp
  then show ?thesis using True by (simp add: ipv4InCidr_def)
next
  case False
  have ones: "(0xffffffff :: 32 word) = - 1" by simp
  then have "ipv4InCidr a n prefix \<longleftrightarrow> drop_bit (32 - prefix) a = drop_bit (32 - prefix) n"
    by (simp only: ipv4InCidr_def Let_def False if_False ones and_high_mask_eq_iff)
  also have "\<dots> \<longleftrightarrow> unat (drop_bit (32 - prefix) a) = unat (drop_bit (32 - prefix) n)"
    by (simp add: word_unat_eq_iff)
  finally show ?thesis unfolding unat_drop_bit_eq by (simp only: drop_bit_eq_div)
qed

section \<open>Dotted decimals\<close>

lemma digit_char: "d < 10 \<Longrightarrow> (of_char (char_of (48 + d)) :: nat) = 48 + d"
  by simp

lemma digits_value_append: "digits_value acc (s @ t) = digits_value (digits_value acc s) t"
  by (induction s arbitrary: acc) auto

lemma nat_text_value [simp]: "digits_value 0 (nat_text n) = n"
proof (induction n rule: nat_text.induct)
  case (1 n)
  show ?case
  proof (cases "n < 10")
    case True
    then show ?thesis by (simp add: nat_text.simps[of n])
  next
    case False
    then show ?thesis using 1 by (simp add: nat_text.simps[of n] digits_value_append)
  qed
qed

lemma nat_text_digits [simp]: "list_all is_digit (nat_text n)"
proof (induction n rule: nat_text.induct)
  case (1 n)
  then show ?case by (cases "n < 10") (simp_all add: nat_text.simps[of n] is_digit_def)
qed

lemma nat_text_nonempty [simp]: "nat_text n \<noteq> []"
  by (subst nat_text.simps) simp

lemma nat_text_octet: "n \<le> 255 \<Longrightarrow> ip_octet (nat_text n)"
proof -
  assume n: "n \<le> 255"
  have "length (nat_text n) \<le> 3 \<and> (hd (nat_text n) = CHR ''0'' \<longrightarrow> length (nat_text n) = 1)"
  proof -
    have zero: "char_of (48 + d) = CHR ''0'' \<longleftrightarrow> d = 0" if "d < 10" for d :: nat
    proof -
      have "(of_char (CHR ''0'') :: nat) = 48" by simp
      then show ?thesis using digit_char[OF that] by (metis add_cancel_left_right char_of_char)
    qed
    consider "n < 10" | "10 \<le> n" "n < 100" | "100 \<le> n" "n \<le> 255" using n by linarith
    then show ?thesis
    proof cases
      case 1 then show ?thesis by (simp add: nat_text.simps[of n])
    next
      case 2
      then have "nat_text n = [char_of (48 + n div 10), char_of (48 + n mod 10)]"
        by (simp add: nat_text.simps[of n] nat_text.simps[of "n div 10"])
      then show ?thesis using 2 zero[of "n div 10"] by simp
    next
      case 3
      have "10 \<le> n div 10" "n div 10 div 10 < 10" using 3 by linarith+
      with 3 have "nat_text n = [char_of (48 + n div 100), char_of (48 + n div 10 mod 10), char_of (48 + n mod 10)]"
        by (simp add: nat_text.simps[of n] nat_text.simps[of "n div 10"] nat_text.simps[of "n div 100"] div_mult2_eq[symmetric])
      then show ?thesis using 3 zero[of "n div 100"] by simp
    qed
  qed
  then show ?thesis using n by (simp add: ip_octet_def)
qed

definition dotted :: "nat \<Rightarrow> nat \<Rightarrow> nat \<Rightarrow> nat \<Rightarrow> string" where
  "dotted w x y z = join ''.'' (map nat_text [w, x, y, z])"

lemma nat_text_plain: "\<not> is_digit c \<Longrightarrow> c \<notin> set (nat_text n)"
  using nat_text_digits[of n] by (auto simp: list_all_iff)

lemma split_dotted: "split_on CHR ''.'' (dotted w x y z) = map nat_text [w, x, y, z]"
proof -
  have "\<not> is_digit CHR ''.''" by (simp add: is_digit_def)
  then show ?thesis unfolding dotted_def by (intro split_on_join) (auto simp: nat_text_plain)
qed

definition quad :: "nat \<Rightarrow> nat \<Rightarrow> nat \<Rightarrow> nat \<Rightarrow> nat" where
  "quad w x y z = ((w * 256 + x) * 256 + y) * 256 + z"

lemma isIP_dotted: "w \<le> 255 \<Longrightarrow> x \<le> 255 \<Longrightarrow> y \<le> 255 \<Longrightarrow> z \<le> 255 \<Longrightarrow> isIP (dotted w x y z) = 4"
  by (simp add: isIP_def is_ipv4_def split_dotted nat_text_octet)

lemma ipv4ToNumber_dotted: "ipv4ToNumber (dotted w x y z) = word_of_nat (quad w x y z)"
  by (simp add: ipv4ToNumber_def split_dotted quad_def)

lemma unat_quad:
  assumes "w \<le> 255" "x \<le> 255" "y \<le> 255" "z \<le> 255"
  shows "unat (word_of_nat (quad w x y z) :: 32 word) = quad w x y z"
proof -
  have "quad w x y z < 2 ^ 32" using assms by (simp add: quad_def)
  then show ?thesis by (simp add: unat_of_nat)
qed

lemma quad_div:
  assumes "x \<le> 255" "y \<le> 255" "z \<le> 255"
  shows "quad w x y z div 2 ^ 8 = (w * 256 + x) * 256 + y" "quad w x y z div 2 ^ 16 = w * 256 + x"
    "quad w x y z div 2 ^ 24 = w" "quad w x y z div 2 ^ 22 = (w * 256 + x) div 64"
    "quad w x y z div 2 ^ 20 = (w * 256 + x) div 16" "quad w x y z div 2 ^ 17 = (w * 256 + x) div 2"
    "quad w x y z div 2 ^ 28 = w div 16"
proof -
  show a: "quad w x y z div 2 ^ 8 = (w * 256 + x) * 256 + y" using assms by (simp add: quad_def)
  have "quad w x y z div 2 ^ 16 = quad w x y z div 2 ^ 8 div 256" by (simp add: div_mult2_eq[symmetric])
  then show b: "quad w x y z div 2 ^ 16 = w * 256 + x" using assms by (simp only: a; simp)
  have "quad w x y z div 2 ^ 24 = quad w x y z div 2 ^ 16 div 256" by (simp add: div_mult2_eq[symmetric])
  then show c: "quad w x y z div 2 ^ 24 = w" using assms by (simp only: b; simp)
  have "quad w x y z div 2 ^ 22 = quad w x y z div 2 ^ 16 div 64" by (simp add: div_mult2_eq[symmetric])
  then show "quad w x y z div 2 ^ 22 = (w * 256 + x) div 64" by (simp only: b)
  have "quad w x y z div 2 ^ 20 = quad w x y z div 2 ^ 16 div 16" by (simp add: div_mult2_eq[symmetric])
  then show "quad w x y z div 2 ^ 20 = (w * 256 + x) div 16" by (simp only: b)
  have "quad w x y z div 2 ^ 17 = quad w x y z div 2 ^ 16 div 2" by (simp add: div_mult2_eq[symmetric])
  then show "quad w x y z div 2 ^ 17 = (w * 256 + x) div 2" by (simp only: b)
  have "quad w x y z div 2 ^ 28 = quad w x y z div 2 ^ 24 div 16" by (simp add: div_mult2_eq[symmetric])
  then show "quad w x y z div 2 ^ 28 = w div 16" by (simp only: c)
qed

text \<open>The networks as numbers.\<close>

lemma blocked_numbers:
  "map (\<lambda>(n, p). (unat (ipv4ToNumber n) div 2 ^ (32 - p), p)) blocked_ipv4 =
   [(0, 8), (10, 8), (401, 10), (127, 8), (43518, 16), (2753, 12), (12582912, 24), (12582914, 24),
    (12605539, 24), (49320, 16), (25353, 15), (12989284, 24), (13303921, 24), (14, 4), (15, 4)]"
  by code_simp

text \<open>The same check on the number, without word arithmetic, for evaluation.\<close>

lemma isPublicIpv4_code [code]:
  "isPublicIpv4 address =
     (let v = foldl (\<lambda>v octet. v * 256 + digits_value 0 octet) 0 (split_on CHR ''.'' address) mod 4294967296 in
      \<not> list_ex (\<lambda>(c, p). v div 2 ^ (32 - p) = c)
        [(0, 8), (10, 8), (401, 10), (127, 8), (43518, 16), (2753, 12), (12582912, 24), (12582914, 24),
         (12605539, 24), (49320, 16), (25353, 15), (12989284, 24), (13303921, 24), (14, 4), (15, 4)])"
proof -
  let ?v = "ipv4ToNumber address"
  have "unat ?v = foldl (\<lambda>v octet. v * 256 + digits_value 0 octet) 0 (split_on CHR ''.'' address) mod 4294967296"
    by (simp add: ipv4ToNumber_def unat_of_nat)
  moreover have "list_ex (\<lambda>(n, p). ipv4InCidr ?v (ipv4ToNumber n) p) blocked_ipv4 \<longleftrightarrow>
      list_ex (\<lambda>(c, p). unat ?v div 2 ^ (32 - p) = c)
        (map (\<lambda>(n, p). (unat (ipv4ToNumber n) div 2 ^ (32 - p), p)) blocked_ipv4)"
    by (simp add: blocked_ipv4_def ipv4InCidr_iff)
  ultimately show ?thesis unfolding isPublicIpv4_def Let_def blocked_numbers by simp
qed

lemma base256_eq:
  fixes w x a c :: nat
  assumes "x \<le> 255" "c \<le> 255"
  shows "w * 256 + x = a * 256 + c \<longleftrightarrow> w = a \<and> x = c"
proof
  assume h: "w * 256 + x = a * 256 + c"
  have "(w * 256 + x) div 256 = w" "(a * 256 + c) div 256 = a" using assms by simp_all
  with h show "w = a \<and> x = c" by simp
qed simp

lemma block_pairs:
  fixes w x :: nat
  assumes "x \<le> 255"
  shows "w * 256 + x = 43518 \<longleftrightarrow> w = 169 \<and> x = 254" "w * 256 + x = 49320 \<longleftrightarrow> w = 192 \<and> x = 168"
  using base256_eq[OF assms, of 254 w 169] base256_eq[OF assms, of 168 w 192] by simp_all

lemma block_triples:
  fixes w x y :: nat
  assumes "x \<le> 255" "y \<le> 255"
  shows "(w * 256 + x) * 256 + y = 12582912 \<longleftrightarrow> w = 192 \<and> x = 0 \<and> y = 0"
    "(w * 256 + x) * 256 + y = 12582914 \<longleftrightarrow> w = 192 \<and> x = 0 \<and> y = 2"
    "(w * 256 + x) * 256 + y = 12605539 \<longleftrightarrow> w = 192 \<and> x = 88 \<and> y = 99"
    "(w * 256 + x) * 256 + y = 12989284 \<longleftrightarrow> w = 198 \<and> x = 51 \<and> y = 100"
    "(w * 256 + x) * 256 + y = 13303921 \<longleftrightarrow> w = 203 \<and> x = 0 \<and> y = 113"
proof -
  have pick: "(w * 256 + x) * 256 + y = (a * 256 + c) * 256 + d \<longleftrightarrow> w = a \<and> x = c \<and> y = d"
    if "c \<le> 255" "d \<le> 255" for a c d
    using base256_eq[OF assms(2) that(2), of "w * 256 + x" "a * 256 + c"] base256_eq[OF assms(1) that(1), of w a] by blast
  show "(w * 256 + x) * 256 + y = 12582912 \<longleftrightarrow> w = 192 \<and> x = 0 \<and> y = 0" using pick[of 0 0 192] by simp
  show "(w * 256 + x) * 256 + y = 12582914 \<longleftrightarrow> w = 192 \<and> x = 0 \<and> y = 2" using pick[of 0 2 192] by simp
  show "(w * 256 + x) * 256 + y = 12605539 \<longleftrightarrow> w = 192 \<and> x = 88 \<and> y = 99" using pick[of 88 99 192] by simp
  show "(w * 256 + x) * 256 + y = 12989284 \<longleftrightarrow> w = 198 \<and> x = 51 \<and> y = 100" using pick[of 51 100 198] by simp
  show "(w * 256 + x) * 256 + y = 13303921 \<longleftrightarrow> w = 203 \<and> x = 0 \<and> y = 113" using pick[of 0 113 203] by simp
qed

lemma block_divs:
  fixes w x :: nat
  assumes "w \<le> 255" "x \<le> 255"
  shows "(w * 256 + x) div 64 = 401 \<longleftrightarrow> w = 100 \<and> 64 \<le> x \<and> x < 128"
    "(w * 256 + x) div 16 = 2753 \<longleftrightarrow> w = 172 \<and> 16 \<le> x \<and> x < 32"
    "(w * 256 + x) div 2 = 25353 \<longleftrightarrow> w = 198 \<and> (x = 18 \<or> x = 19)"
    "w div 16 = 14 \<or> w div 16 = 15 \<longleftrightarrow> w \<ge> 224"
proof -
  have parts: "(w * 256 + x) div 64 = w * 4 + x div 64" "(w * 256 + x) div 16 = w * 16 + x div 16"
    "(w * 256 + x) div 2 = w * 128 + x div 2"
    using div_mult_self2[of 64 x "w * 4"] div_mult_self2[of 16 x "w * 16"] div_mult_self2[of 2 x "w * 128"]
    by (simp_all add: algebra_simps)
  have "x div 64 < 4" "x div 16 < 16" "x div 2 < 128" using assms(2) by simp_all
  moreover have "x div 64 = 1 \<longleftrightarrow> 64 \<le> x \<and> x < 128" "x div 16 = 1 \<longleftrightarrow> 16 \<le> x \<and> x < 32"
    "x div 2 = 9 \<longleftrightarrow> x = 18 \<or> x = 19" by linarith+
  moreover have "w * 4 + a = 401 \<longleftrightarrow> w = 100 \<and> a = 1" if "a < 4" for a using that by presburger
  moreover have "w * 16 + a = 2753 \<longleftrightarrow> w = 172 \<and> a = 1" if "a < 16" for a using that by presburger
  moreover have "w * 128 + a = 25353 \<longleftrightarrow> w = 198 \<and> a = 9" if "a < 128" for a using that by presburger
  ultimately show "(w * 256 + x) div 64 = 401 \<longleftrightarrow> w = 100 \<and> 64 \<le> x \<and> x < 128"
    "(w * 256 + x) div 16 = 2753 \<longleftrightarrow> w = 172 \<and> 16 \<le> x \<and> x < 32"
    "(w * 256 + x) div 2 = 25353 \<longleftrightarrow> w = 198 \<and> (x = 18 \<or> x = 19)"
    unfolding parts by blast+
  show "w div 16 = 14 \<or> w div 16 = 15 \<longleftrightarrow> w \<ge> 224" using assms(1) by linarith
qed

text \<open>
  \<^bold>\<open>C27.\<close> For an IPv4 address the mask arithmetic of the source decides exactly the documented list of special
  networks: an address \<open>w.x.y.z\<close> is public iff it lies in none of them.
\<close>

theorem isPublicIpAddress_ipv4:
  assumes b: "w \<le> 255" "x \<le> 255" "y \<le> 255" "z \<le> 255"
  shows "isPublicIpAddress (dotted w x y z) = Inr (\<not>
     (w = 0 \<or> w = 10 \<or> w = 127 \<or> w \<ge> 224 \<or> (w = 100 \<and> 64 \<le> x \<and> x < 128) \<or> (w = 169 \<and> x = 254) \<or>
      (w = 172 \<and> 16 \<le> x \<and> x < 32) \<or> (w = 192 \<and> x = 168) \<or> (w = 192 \<and> x = 0 \<and> (y = 0 \<or> y = 2)) \<or>
      (w = 192 \<and> x = 88 \<and> y = 99) \<or> (w = 198 \<and> (x = 18 \<or> x = 19)) \<or> (w = 198 \<and> x = 51 \<and> y = 100) \<or>
      (w = 203 \<and> x = 0 \<and> y = 113)))"
proof -
  let ?v = "ipv4ToNumber (dotted w x y z)"
  note qd = quad_div[OF b(2-4), of w, simplified]
  have v: "unat ?v = quad w x y z" by (simp add: ipv4ToNumber_dotted unat_quad[OF b])
  have "list_ex (\<lambda>(n, p). ipv4InCidr ?v (ipv4ToNumber n) p) blocked_ipv4 \<longleftrightarrow>
      list_ex (\<lambda>(c, p). quad w x y z div 2 ^ (32 - p) = c)
        (map (\<lambda>(n, p). (unat (ipv4ToNumber n) div 2 ^ (32 - p), p)) blocked_ipv4)"
    by (simp add: blocked_ipv4_def ipv4InCidr_iff v)
  also have "\<dots> \<longleftrightarrow> w = 0 \<or> w = 10 \<or> (w * 256 + x) div 64 = 401 \<or> w = 127 \<or> w * 256 + x = 43518 \<or>
      (w * 256 + x) div 16 = 2753 \<or> (w * 256 + x) * 256 + y = 12582912 \<or> (w * 256 + x) * 256 + y = 12582914 \<or>
      (w * 256 + x) * 256 + y = 12605539 \<or> w * 256 + x = 49320 \<or> (w * 256 + x) div 2 = 25353 \<or>
      (w * 256 + x) * 256 + y = 12989284 \<or> (w * 256 + x) * 256 + y = 13303921 \<or> w div 16 = 14 \<or> w div 16 = 15"
    unfolding blocked_numbers by (simp add: qd)
  also have "\<dots> \<longleftrightarrow> w = 0 \<or> w = 10 \<or> w = 127 \<or> w \<ge> 224 \<or> (w = 100 \<and> 64 \<le> x \<and> x < 128) \<or> (w = 169 \<and> x = 254) \<or>
      (w = 172 \<and> 16 \<le> x \<and> x < 32) \<or> (w = 192 \<and> x = 168) \<or> (w = 192 \<and> x = 0 \<and> (y = 0 \<or> y = 2)) \<or>
      (w = 192 \<and> x = 88 \<and> y = 99) \<or> (w = 198 \<and> (x = 18 \<or> x = 19)) \<or> (w = 198 \<and> x = 51 \<and> y = 100) \<or>
      (w = 203 \<and> x = 0 \<and> y = 113)"
    unfolding block_divs[OF b(1,2)] block_pairs[OF b(2)] block_triples[OF b(2,3)] by argo
  finally show ?thesis
    unfolding isPublicIpAddress_def Let_def isIP_dotted[OF b] isPublicIpv4_def by simp
qed

theorem isPublicIpAddress_ipv4_witness:
  "isPublicIpAddress (dotted 172 31 0 1) = Inr False \<and> isPublicIpAddress (dotted 8 8 8 8) = Inr True"
  using isPublicIpAddress_ipv4[of 172 31 0 1] isPublicIpAddress_ipv4[of 8 8 8 8] by simp

section \<open>Hexadecimal groups\<close>

lemma hex_value_append: "hex_value acc (s @ t) = hex_value (hex_value acc s) t"
  by (induction s arbitrary: acc) auto

lemma hex_digit_value: "d < 16 \<Longrightarrow> hex_value acc [hex_digit d] = acc * 16 + d"
  by (simp add: hex_digit_def Let_def)

lemma hex_text_value [simp]: "hex_value 0 (hex_text n) = n"
proof (induction n rule: hex_text.induct)
  case (1 n)
  show ?case
  proof (cases "n < 16")
    case True
    then show ?thesis using hex_digit_value[of n 0] by (simp add: hex_text.simps[of n])
  next
    case False
    then show ?thesis using 1 hex_digit_value[of "n mod 16"] by (simp add: hex_text.simps[of n] hex_value_append)
  qed
qed

definition lower_hex :: "char \<Rightarrow> bool" where
  "lower_hex c \<longleftrightarrow> is_digit c \<or> (let n = (of_char c :: nat) in 97 \<le> n \<and> n \<le> 102)"

lemma hex_digit_lower: "d < 16 \<Longrightarrow> lower_hex (hex_digit d)"
  by (auto simp: hex_digit_def lower_hex_def is_digit_def Let_def)

lemma hex_text_lower: "list_all lower_hex (hex_text n)"
proof (induction n rule: hex_text.induct)
  case (1 n)
  then show ?case
    by (cases "n < 16") (simp_all add: hex_text.simps[of n] hex_digit_lower)
qed

lemma hex_text_length_pow: "n < 16 ^ Suc k \<Longrightarrow> length (hex_text n) \<le> Suc k"
proof (induction k arbitrary: n)
  case 0
  then show ?case by (simp add: hex_text.simps[of n])
next
  case (Suc k)
  have "n div 16 < 16 ^ Suc k" using Suc.prems by (simp add: less_mult_imp_div_less)
  then have "length (hex_text (n div 16)) \<le> Suc k" by (rule Suc.IH)
  then show ?case by (simp add: hex_text.simps[of n])
qed

lemma hex_text_length: "n < 65536 \<Longrightarrow> length (hex_text n) \<le> 4"
  using hex_text_length_pow[of n 3] by simp

lemma hex_text_nonempty [simp]: "hex_text n \<noteq> []"
  by (subst hex_text.simps) simp

lemma hex_text_group: "n < 65536 \<Longrightarrow> lower_hex_group (hex_text n)"
  using hex_text_length[of n] hex_text_lower[of n] by (simp add: lower_hex_group_def lower_hex_def[abs_def])

lemma lower_hex_plain: "\<not> lower_hex CHR '':''" "\<not> lower_hex CHR ''.''" "\<not> lower_hex CHR ''%''"
  by (simp_all add: lower_hex_def is_digit_def)

lemma hex_text_chars: "CHR '':'' \<notin> set (hex_text n)" "CHR ''.'' \<notin> set (hex_text n)" "CHR ''%'' \<notin> set (hex_text n)"
  using hex_text_lower[of n] lower_hex_plain by (auto simp: list_all_iff)

lemma lower_hex_ascii: "lower_hex c \<Longrightarrow> ascii_lower c = c"
  by (auto simp: lower_hex_def is_digit_def ascii_lower_def is_upper_def Let_def)

lemma ascii_lower_colon: "ascii_lower CHR '':'' = CHR '':''"
  by (simp add: ascii_lower_def is_upper_def)

section \<open>Splitting at double colons\<close>

abbreviation single_colons :: "string \<Rightarrow> bool" where
  "single_colons \<equiv> successively (\<lambda>c d. \<not> (c = CHR '':'' \<and> d = CHR '':''))"

lemma split_double_colon_single: "single_colons s \<Longrightarrow> split_double_colon s = [s]"
  by (induction s rule: split_double_colon.induct) auto

lemma single_colons_plain: "CHR '':'' \<notin> set s \<Longrightarrow> single_colons s"
  by (induction s rule: induct_list012) auto

lemma single_colons_join:
  "\<forall>x\<in>set xs. x \<noteq> [] \<and> CHR '':'' \<notin> set x \<Longrightarrow> single_colons (join '':'' xs) \<and> (xs \<noteq> [] \<longrightarrow> join '':'' xs \<noteq> [] \<and> hd (join '':'' xs) \<noteq> CHR '':'')"
proof (induction xs rule: induct_list012)
  case (2 x)
  have "hd x \<noteq> CHR '':''" using 2 hd_in_set[of x] by force
  then show ?case using 2 single_colons_plain[of x] by auto
next
  case (3 x y zs)
  have "last x \<noteq> CHR '':''" "hd x \<noteq> CHR '':''" "x \<noteq> []" using 3(3) last_in_set hd_in_set by fastforce+
  moreover have "single_colons x" using 3(3) by (intro single_colons_plain) simp
  moreover have "single_colons (join '':'' (y # zs))" "join '':'' (y # zs) \<noteq> []" "hd (join '':'' (y # zs)) \<noteq> CHR '':''"
    using 3(2,3) by auto
  ultimately show ?case by (cases "join '':'' (y # zs)") (auto simp: successively_append_iff)
qed simp

section \<open>IPv6 notation\<close>

text \<open>
  Parsing undoes printing: eight 16-bit groups written in hexadecimal, separated by colons, are read
  back as the 128-bit number they stand for.
\<close>

theorem ipv6ToBigInt_roundtrip:
  assumes "length gs = 8" "\<forall>g\<in>set gs. g < 65536"
  shows "ipv6ToBigInt (join '':'' (map hex_text gs)) = Inr (foldl (\<lambda>v g. v * 65536 + g) 0 gs)"
proof -
  let ?s = "join '':'' (map hex_text gs)"
  have gs: "gs \<noteq> []" "map hex_text gs \<noteq> []" using assms by auto
  have pieces: "split_on CHR '':'' ?s = map hex_text gs"
    using gs by (intro split_on_join) (auto simp: hex_text_chars)
  have chars: "lower_hex c \<or> c = CHR '':''" if "c \<in> set ?s" for c
  proof -
    have "set (join '':'' xs) \<subseteq> \<Union> (set (map set xs)) \<union> {CHR '':''}" for xs :: "string list"
      by (induction xs rule: induct_list012) auto
    from subsetD[OF this that] show ?thesis using hex_text_lower by (auto simp: list_all_iff)
  qed
  have pct: "CHR ''%'' \<notin> set ?s" using chars lower_hex_plain by blast
  have lower: "js_lower ?s = ?s"
    unfolding js_lower_def by (rule map_idI) (use chars lower_hex_ascii ascii_lower_colon in metis)
  have "last (map hex_text gs) = hex_text (last gs)" using gs by (simp add: last_map)
  then have "\<not> dotted_quad (last (split_on CHR '':'' ?s))"
    unfolding pieces by (simp add: dotted_quad_def split_on_plain hex_text_chars)
  then have embed: "embed_ipv4 ?s = Inr ?s" by (simp add: embed_ipv4_def Let_def)
  have single: "split_double_colon ?s = [?s]" "?s \<noteq> []"
    using single_colons_join[of "map hex_text gs"] gs by (auto simp: hex_text_chars intro: split_double_colon_single)
  have "foldl (\<lambda>v g. v * 65536 + hex_value 0 g) v (map hex_text xs) = foldl (\<lambda>v g. v * 65536 + g) v xs" for v xs
    by (induction xs arbitrary: v) auto
  moreover have "\<not> list_ex (\<lambda>g. \<not> lower_hex_group g) (map hex_text gs)"
    using assms(2) by (auto simp: list_ex_iff hex_text_group)
  ultimately show ?thesis
    using assms(1) single by (simp add: ipv6ToBigInt_def pct lower embed xbind_def colon_groups_def pieces Let_def)
qed

theorem ipv6ToBigInt_roundtrip_witness:
  "ipv6ToBigInt (join '':'' (map hex_text [8193, 3512, 0, 0, 0, 0, 0, 1])) = Inr (foldl (\<lambda>v g. v * 65536 + g) 0 [8193, 3512, 0, 0, 0, 0, 0, 1])"
  by (rule ipv6ToBigInt_roundtrip) simp_all

section \<open>Embedded IPv4 addresses\<close>

definition mapped :: "nat \<Rightarrow> nat \<Rightarrow> nat \<Rightarrow> nat \<Rightarrow> string" where
  "mapped w x y z = ''::ffff:'' @ dotted w x y z"

lemma dotted_chars: "c \<in> set (dotted w x y z) \<Longrightarrow> is_digit c \<or> c = CHR ''.''"
  unfolding dotted_def using nat_text_digits by (auto simp: list_all_iff)

lemma dotted_nonempty [simp]: "dotted w x y z \<noteq> []"
  by (simp add: dotted_def)

lemma dotted_plain: "CHR '':'' \<notin> set (dotted w x y z)" "CHR ''%'' \<notin> set (dotted w x y z)"
  by (auto dest!: dotted_chars simp: is_digit_def)

lemma dotted_lower: "js_lower (dotted w x y z) = dotted w x y z"
  unfolding js_lower_def by (rule map_idI) (auto dest!: dotted_chars simp: ascii_lower_def is_upper_def is_digit_def Let_def)

lemma mapped_split: "split_double_colon (mapped w x y z) = [[], ''ffff:'' @ dotted w x y z]"
proof -
  obtain c cs where d: "dotted w x y z = c # cs" "c \<noteq> CHR '':''" "CHR '':'' \<notin> set cs"
    using dotted_plain(1)[of w x y z] by (cases "dotted w x y z") auto
  then have "split_double_colon (c # cs) = [c # cs]"
    by (intro split_double_colon_single single_colons_plain) simp
  then show ?thesis using d by (simp add: mapped_def)
qed

lemma dotted_quad_dotted:
  "w \<le> 255 \<Longrightarrow> x \<le> 255 \<Longrightarrow> y \<le> 255 \<Longrightarrow> z \<le> 255 \<Longrightarrow> dotted_quad (dotted w x y z)"
  using nat_text_octet by (simp add: dotted_quad_def split_dotted ip_octet_def)

lemma is_ipv4_dotted: "w \<le> 255 \<Longrightarrow> x \<le> 255 \<Longrightarrow> y \<le> 255 \<Longrightarrow> z \<le> 255 \<Longrightarrow> is_ipv4 (dotted w x y z)"
  by (simp add: is_ipv4_def split_dotted nat_text_octet)

lemma isIP_mapped:
  assumes "w \<le> 255" "x \<le> 255" "y \<le> 255" "z \<le> 255"
  shows "isIP (mapped w x y z) = 6"
proof -
  have "split_on CHR ''.'' (mapped w x y z) = (''::ffff:'' @ nat_text w) # map nat_text [x, y, z]"
    using split_dotted[of w x y z] by (simp add: mapped_def)
  then have not4: "\<not> is_ipv4 (mapped w x y z)" by (simp add: is_ipv4_def ip_octet_def is_digit_def)
  have t: "takeWhile (\<lambda>c. c \<noteq> CHR ''%'') (mapped w x y z) = mapped w x y z"
    and d: "dropWhile (\<lambda>c. c \<noteq> CHR ''%'') (mapped w x y z) = []"
    using dotted_plain(2)[of w x y z] by (auto simp: mapped_def takeWhile_eq_all_conv dropWhile_eq_Nil_conv)
  have "\<not> hex_group (dotted w x y z)"
    by (simp add: hex_group_def dotted_def is_hex_def is_digit_def ascii_lower_def is_upper_def)
  then have g: "group_count True (''ffff:'' @ dotted w x y z) = Some 3"
    using is_ipv4_dotted[OF assms] dotted_plain(1)[of w x y z]
    by (simp add: group_count_def Let_def split_on_plain hex_group_def is_hex_def is_digit_def ascii_lower_def is_upper_def)
  have "group_count False [] = Some 0" by (simp add: group_count_def)
  then have "is_ipv6 (mapped w x y z)" unfolding is_ipv6_def Let_def t d mapped_split using g by simp
  with not4 show ?thesis by (simp add: isIP_def)
qed

lemma group_word_less: "unat (a AND 0xffff) < 65536" for a :: "32 word"
proof -
  have "a AND 0xffff \<le> 0xffff" by (rule word_and_le1)
  then have "unat (a AND 0xffff) \<le> unat (0xffff :: 32 word)" by (simp add: word_le_nat_alt)
  then show ?thesis by simp
qed

lemma ipv6ToBigInt_compressed:
  assumes "CHR ''%'' \<notin> set a" "embed_ipv4 (js_lower a) = Inr n" "split_double_colon n = [[], r]"
    "length (colon_groups r) \<le> 8" "list_all lower_hex_group (colon_groups r)"
  shows "ipv6ToBigInt a = Inr (foldl (\<lambda>v g. v * 65536 + hex_value 0 g) 0
    (replicate (8 - length (colon_groups r)) ''0'' @ colon_groups r))"
proof -
  have "lower_hex_group ''0''" by code_simp
  then have "\<not> list_ex (\<lambda>g. \<not> lower_hex_group g) (replicate (8 - length (colon_groups r)) ''0'' @ colon_groups r)"
    using assms(5) by (auto simp: list_ex_iff list_all_iff)
  moreover have "colon_groups [] = []" by (simp add: colon_groups_def)
  ultimately show ?thesis using assms(1-4) by (simp add: ipv6ToBigInt_def xbind_def Let_def)
qed

lemma mapped_number:
  assumes b: "w \<le> 255" "x \<le> 255" "y \<le> 255" "z \<le> 255"
  shows "\<exists>n < 2 ^ 32. ipv6ToBigInt (mapped w x y z) = Inr (65535 * 2 ^ 32 + n)"
proof -
  let ?v = "ipv4ToNumber (dotted w x y z)"
  let ?hi = "unat (drop_bit 16 ?v AND 0xffff)" and ?lo = "unat (?v AND 0xffff)"
  note less = group_word_less[of "drop_bit 16 ?v"] group_word_less[of ?v]
  have pct: "CHR ''%'' \<notin> set (mapped w x y z)" using dotted_plain(2) by (simp add: mapped_def)
  have lower: "js_lower (mapped w x y z) = mapped w x y z"
    using dotted_lower[of w x y z] by (simp add: mapped_def js_lower_def ascii_lower_def is_upper_def)
  have "split_on CHR '':'' (mapped w x y z) = [[], [], ''ffff'', dotted w x y z]"
    using dotted_plain(1)[of w x y z] by (simp add: mapped_def split_on_plain)
  then have embed: "embed_ipv4 (mapped w x y z) = Inr (''::ffff:'' @ hex_text ?hi @ '':'' @ hex_text ?lo)"
    by (simp add: embed_ipv4_def dotted_quad_dotted[OF b] isIP_dotted[OF b] Let_def mapped_def)
  let ?r = "join '':'' [''ffff'', hex_text ?hi, hex_text ?lo]"
  have r: "''::ffff:'' @ hex_text ?hi @ '':'' @ hex_text ?lo = '':'' @ '':'' @ ?r" by simp
  have groups: "colon_groups ?r = [''ffff'', hex_text ?hi, hex_text ?lo]"
    unfolding colon_groups_def by (subst split_on_join) (simp_all add: hex_text_chars)
  have "single_colons ?r \<and> hd ?r \<noteq> CHR '':''"
    using single_colons_join[of "[''ffff'', hex_text ?hi, hex_text ?lo]"] by (simp add: hex_text_chars)
  then have halves: "split_double_colon ('':'' @ '':'' @ ?r) = [[], ?r]"
    using split_double_colon_single[of ?r] by simp
  have "lower_hex_group ''ffff''" by code_simp
  then have "ipv6ToBigInt (mapped w x y z) = Inr (foldl (\<lambda>v g. v * 65536 + hex_value 0 g) 0
      (replicate 5 ''0'' @ [''ffff'', hex_text ?hi, hex_text ?lo]))"
    using ipv6ToBigInt_compressed[OF pct _ halves] embed lower r groups hex_text_group[OF less(1)] hex_text_group[OF less(2)]
    by simp
  moreover have "hex_value 0 ''ffff'' = 65535" "hex_value 0 ''0'' = 0" by code_simp+
  moreover have "replicate 5 ''0'' = [''0'', ''0'', ''0'', ''0'', ''0'']" by (simp add: eval_nat_numeral)
  ultimately have "ipv6ToBigInt (mapped w x y z) = Inr (65535 * 2 ^ 32 + (?hi * 65536 + ?lo))"
    by (simp del: hex_value.simps)
  moreover have "?hi * 65536 + ?lo < 2 ^ 32" using less by simp
  ultimately show ?thesis by blast
qed

text \<open>
  An IPv4 address embedded in IPv6 notation is never treated as public, whatever it is: the check
  cannot be side-stepped by writing a private IPv4 address as \<open>::ffff:w.x.y.z\<close>.
\<close>

theorem isPublicIpAddress_mapped:
  assumes b: "w \<le> 255" "x \<le> 255" "y \<le> 255" "z \<le> 255"
  shows "isPublicIpAddress (mapped w x y z) = Inr False"
proof -
  obtain n where n: "n < 2 ^ 32" "ipv6ToBigInt (mapped w x y z) = Inr (65535 * 2 ^ 32 + n)"
    using mapped_number[OF b] by blast
  let ?v = "65535 * 2 ^ 32 + n"
  have nets: "ipv6ToBigInt ''::'' = Inr 0" "ipv6ToBigInt ''::1'' = Inr 1" "ipv6ToBigInt ''::ffff:0:0'' = Inr (65535 * 2 ^ 32)"
    by code_simp+
  have "ipv6InCidr ?v (65535 * 2 ^ 32) 96" using n(1) by (simp add: ipv6InCidr_def)
  then have "in_blocked6 ?v blocked_ipv6 = Inr True"
    by (simp add: blocked_ipv6_def nets xbind_def del: power_numeral)
  then show ?thesis by (simp add: isPublicIpAddress_def isIP_mapped[OF b] isPublicIpv6_def n(2) xbind_def Let_def)
qed

theorem isPublicIpAddress_mapped_witness: "isPublicIpAddress (mapped 127 0 0 1) = Inr False"
  by (rule isPublicIpAddress_mapped) simp_all

end
