(* ===== verification/Safe_Fetch.thy ===== *)
theory Safe_Fetch
  imports Ip_Addresses
begin

text \<open>
  The guarded HTTP client of \<open>lib/security/url.ts\<close>: URL validation, resolution with pinned addresses and
  the redirect loop. The platform is a parameter: \<open>web_lib\<close> holds the URL parser, \<open>Number\<close>, the text decoder
  and the HTML sanitiser, and \<open>fetch_world\<close> what the clock, the DNS resolver and the HTTP requester answer,
  possibly differently at every hop.
\<close>

section \<open>The platform\<close>

record url =
  url_protocol :: string
  url_username :: string
  url_password :: string
  url_hostname :: string
  url_tail :: string
  url_hash :: string

record web_lib =
  parse_url :: "string \<Rightarrow> url option"
  resolve_url :: "string \<Rightarrow> url \<Rightarrow> url option"
  url_text :: "url \<Rightarrow> string"
  js_number :: "string \<Rightarrow> jsnum"
  decode_text :: "string \<Rightarrow> string"
  sanitize_html :: "string \<Rightarrow> string"
  html_text :: "string \<Rightarrow> string"

record resolved_address =
  ra_address :: string
  ra_family :: nat

record pinned_request =
  pr_url :: url
  pr_hostname :: string
  pr_addresses :: "resolved_address list"
  pr_timeoutMs :: int
  pr_maxBytes :: int
  pr_userAgent :: string
  pr_allowedMimeTypes :: "string list"

record pinned_response =
  resp_status :: int
  resp_headers :: "(string \<times> string) list"
  resp_body :: string

text \<open>What a requester throws: an error of this module, an abort or time-out error, or another error.\<close>

datatype request_failure = RF_Safe safe_fetch_error | RF_Abort | RF_Other

record fetch_world =
  fw_elapsed :: "nat \<Rightarrow> int"
  fw_resolver :: "nat \<Rightarrow> string \<Rightarrow> safe_fetch_error + resolved_address list"
  fw_resolve_late :: "nat \<Rightarrow> bool"
  fw_requester :: "nat \<Rightarrow> pinned_request \<Rightarrow> request_failure + pinned_response"
  fw_request_late :: "nat \<Rightarrow> bool"
  fw_now :: string

section \<open>URL validation\<close>

definition normalizeHostname :: "string \<Rightarrow> string" where
  "normalizeHostname hostname =
     (let withoutBrackets = (if starts_with ''['' hostname \<and> ends_with '']'' hostname
            then js_slice 1 (length hostname - 1) hostname else hostname);
          undotted = (if ends_with ''.'' withoutBrackets then butlast withoutBrackets else withoutBrackets)
      in js_lower undotted)"

definition local_name :: "string \<Rightarrow> bool" where
  "local_name hostname \<longleftrightarrow> hostname = ''localhost'' \<or> ends_with ''.localhost'' hostname \<or>
     hostname = ''localhost.localdomain'' \<or> ends_with ''.localhost.localdomain'' hostname"

text \<open>The part of \<open>validateExternalUrl\<close> after parsing.\<close>

definition check_url :: "url \<Rightarrow> safe_fetch_error + url" where
  "check_url u =
     (if url_protocol u \<noteq> ''http:'' \<and> url_protocol u \<noteq> ''https:'' then Inl INVALID_URL
      else if url_username u \<noteq> [] \<or> url_password u \<noteq> [] then Inl INVALID_URL
      else
        (let hostname = normalizeHostname (url_hostname u) in
         if hostname = [] then Inl INVALID_URL
         else if local_name hostname then Inl DISALLOWED_ADDRESS
         else if isIP hostname \<noteq> 0 then
           xbind (isPublicIpAddress hostname) (\<lambda>public.
             if public then Inr (u\<lparr>url_hash := []\<rparr>) else Inl DISALLOWED_ADDRESS)
         else Inr (u\<lparr>url_hash := []\<rparr>)))"

definition validateExternalUrl :: "web_lib \<Rightarrow> string \<Rightarrow> safe_fetch_error + url" where
  "validateExternalUrl L v = (case parse_url L v of None \<Rightarrow> Inl INVALID_URL | Some u \<Rightarrow> check_url u)"

text \<open>The loop over the resolved records: each must be a public address of its family; duplicates go.\<close>

fun pin_addresses ::
  "resolved_address list \<Rightarrow> resolved_address list \<Rightarrow> safe_fetch_error + resolved_address list" where
  "pin_addresses [] addresses = Inr addresses"
| "pin_addresses (r # rest) addresses =
     (let detected = isIP (ra_address r) in
      if (detected \<noteq> 4 \<and> detected \<noteq> 6) \<or> detected \<noteq> ra_family r then Inl DNS_FAILURE
      else xbind (isPublicIpAddress (ra_address r)) (\<lambda>public.
        if \<not> public then Inl DISALLOWED_ADDRESS
        else pin_addresses rest (if r \<in> set addresses then addresses else addresses @ [r])))"

definition resolveAndValidateExternalUrl ::
  "web_lib \<Rightarrow> (string \<Rightarrow> safe_fetch_error + resolved_address list) \<Rightarrow> string \<Rightarrow>
   safe_fetch_error + url \<times> string \<times> resolved_address list" where
  "resolveAndValidateExternalUrl L resolver v =
     xbind (validateExternalUrl L v) (\<lambda>u.
     (let hostname = normalizeHostname (url_hostname u); literalFamily = isIP hostname in
      xbind (if literalFamily \<noteq> 0 then Inr [\<lparr>ra_address = hostname, ra_family = literalFamily\<rparr>]
             else resolver hostname) (\<lambda>resolved.
      if resolved = [] then Inl DNS_FAILURE
      else xbind (pin_addresses resolved []) (\<lambda>addresses. Inr (u, hostname, addresses)))))"

text \<open>The lookup function handed to the HTTP agent; a family of 0 means any.\<close>

datatype lookup_answer =
    Lookup_Error string
  | Lookup_All "(string \<times> nat) list"
  | Lookup_One string nat

definition pinnedLookup ::
  "string \<Rightarrow> resolved_address list \<Rightarrow> string \<Rightarrow> bool \<Rightarrow> nat \<Rightarrow> lookup_answer" where
  "pinnedLookup expectedHostname addresses hostname all requestedFamily =
     (if normalizeHostname hostname \<noteq> expectedHostname then Lookup_Error ''EAI_FAIL''
      else if all then Lookup_All (map (\<lambda>a. (ra_address a, ra_family a)) addresses)
      else (case find (\<lambda>a. requestedFamily = 0 \<or> requestedFamily = ra_family a) addresses of
              None \<Rightarrow> Lookup_Error ''EAI_ADDRFAMILY''
            | Some a \<Rightarrow> Lookup_One (ra_address a) (ra_family a)))"

text \<open>The body loop of \<open>systemPinnedRequester\<close>.\<close>

fun collect_body :: "int \<Rightarrow> string list \<Rightarrow> string \<Rightarrow> safe_fetch_error + string" where
  "collect_body maxBytes [] collected = Inr collected"
| "collect_body maxBytes (chunk # rest) collected =
     (if int (length collected + length chunk) > maxBytes then Inl RESPONSE_TOO_LARGE
      else collect_body maxBytes rest (collected @ chunk))"

datatype header_value = Header_Text string | Header_List "string list" | Header_Absent

definition normalizeHeaders :: "(string \<times> header_value) list \<Rightarrow> (string \<times> string) list" where
  "normalizeHeaders headers =
     concat (map (\<lambda>(name, v). case v of
         Header_Absent \<Rightarrow> []
       | Header_Text t \<Rightarrow> [(js_lower name, t)]
       | Header_List ts \<Rightarrow> [(js_lower name, join '', '' ts)]) headers)"

section \<open>The fetch\<close>

definition DEFAULT_ALLOWED_MIME_TYPES :: "string list" where
  "DEFAULT_ALLOWED_MIME_TYPES =
     [''application/json'', ''application/pdf'', ''application/xhtml+xml'', ''text/csv'', ''text/html'',
      ''text/markdown'', ''text/plain'']"

definition REDIRECT_STATUSES :: "int list" where
  "REDIRECT_STATUSES = [301, 302, 303, 307, 308]"

definition DEFAULT_USER_AGENT :: string where
  "DEFAULT_USER_AGENT = ''ai-research-workbench/0.1 research-source-fetcher''"

record safe_fetch_options =
  so_timeoutMs :: "jsv option"
  so_maxBytes :: "jsv option"
  so_maxRedirects :: "jsv option"
  so_allowedMimeTypes :: "string list option"
  so_userAgent :: "string option"

record fetch_hop =
  hop_url :: string
  hop_resolvedAddresses :: "string list"
  hop_status :: int

record safe_fetch_result =
  sf_requestedUrl :: string
  sf_finalUrl :: string
  sf_status :: int
  sf_contentType :: string
  sf_body :: string
  sf_text :: "string option"
  sf_sanitized :: bool
  sf_promptInjection :: "prompt_injection_assessment option"
  sf_fetchedAt :: string
  sf_userAgent :: string
  sf_redirectCount :: nat
  sf_hops :: "fetch_hop list"
  sf_hostname :: string
  sf_protocol :: string

definition url_positiveInteger :: "jsv \<Rightarrow> int \<Rightarrow> safe_fetch_error + int" where
  "url_positiveInteger v maximum =
     (case safe_integer v of
        None \<Rightarrow> Inl FETCH_FAILED
      | Some n \<Rightarrow> if n \<le> 0 \<or> n > maximum then Inl FETCH_FAILED else Inr n)"

definition url_nonNegativeInteger :: "jsv \<Rightarrow> int \<Rightarrow> safe_fetch_error + int" where
  "url_nonNegativeInteger v maximum =
     (case safe_integer v of
        None \<Rightarrow> Inl FETCH_FAILED
      | Some n \<Rightarrow> if n < 0 \<or> n > maximum then Inl FETCH_FAILED else Inr n)"

definition mimeType :: "(string \<times> string) list \<Rightarrow> string" where
  "mimeType headers =
     js_lower (js_trim (hd (split_on CHR '';'' (case_option [] id (map_of headers ''content-type'')))))"

text \<open>\<open>Object.fromEntries\<close> over lower-cased names: the last header of a name counts.\<close>

definition lower_headers :: "(string \<times> string) list \<Rightarrow> (string \<times> string) list" where
  "lower_headers headers = rev (map (\<lambda>(name, v). (js_lower name, v)) headers)"

record fetch_settings =
  fs_timeoutMs :: int
  fs_maxBytes :: int
  fs_maxRedirects :: nat
  fs_userAgent :: string
  fs_allowedMimeTypes :: "string list"

definition fetch_settings_of :: "safe_fetch_options \<Rightarrow> safe_fetch_error + fetch_settings" where
  "fetch_settings_of options =
     xbind (url_positiveInteger (case_option (js_int 10000) id (so_timeoutMs options)) 30000) (\<lambda>timeoutMs.
     xbind (url_positiveInteger (case_option (js_int 2097152) id (so_maxBytes options)) 10000000) (\<lambda>maxBytes.
     xbind (url_nonNegativeInteger (case_option (js_int 3) id (so_maxRedirects options)) 10) (\<lambda>maxRedirects.
     (let userAgent = js_trim (case_option DEFAULT_USER_AGENT id (so_userAgent options)) in
      if userAgent = [] \<or> length userAgent > 256 \<or> CHR 0x0D \<in> set userAgent \<or> CHR 0x0A \<in> set userAgent
      then Inl FETCH_FAILED
      else
        (let mimes = remdups (map js_lower (case_option DEFAULT_ALLOWED_MIME_TYPES id (so_allowedMimeTypes options))) in
         if mimes = [] then Inl FETCH_FAILED
         else Inr \<lparr>fs_timeoutMs = timeoutMs, fs_maxBytes = maxBytes, fs_maxRedirects = nat maxRedirects,
                   fs_userAgent = userAgent, fs_allowedMimeTypes = mimes\<rparr>)))))"

text \<open>\<open>withTimeout\<close>: the timer wins or the wrapped computation does.\<close>

definition withTimeout :: "bool \<Rightarrow> safe_fetch_error + 'a \<Rightarrow> safe_fetch_error + 'a" where
  "withTimeout late m = (if late then Inl TIMEOUT else m)"

definition request_error :: "request_failure \<Rightarrow> safe_fetch_error" where
  "request_error f = (case f of RF_Safe e \<Rightarrow> e | RF_Abort \<Rightarrow> TIMEOUT | RF_Other \<Rightarrow> FETCH_FAILED)"

definition oversized :: "web_lib \<Rightarrow> int \<Rightarrow> pinned_response \<Rightarrow> bool" where
  "oversized L maxBytes response \<longleftrightarrow>
     int (length (resp_body response)) > maxBytes \<or>
     (case map_of (lower_headers (resp_headers response)) ''content-length'' of
        None \<Rightarrow> False
      | Some t \<Rightarrow> (case js_number L t of Fin r \<Rightarrow> r > of_int maxBytes | _ \<Rightarrow> False))"

text \<open>The next URL of a redirect.\<close>

definition redirect_target :: "web_lib \<Rightarrow> url \<Rightarrow> pinned_response \<Rightarrow> safe_fetch_error + string" where
  "redirect_target L u response =
     (case map_of (lower_headers (resp_headers response)) ''location'' of
        None \<Rightarrow> Inl INVALID_REDIRECT
      | Some location \<Rightarrow>
          if location = [] then Inl INVALID_REDIRECT
          else (case resolve_url L location u of
              None \<Rightarrow> Inl INVALID_REDIRECT
            | Some target \<Rightarrow>
                xbind (check_url target) (\<lambda>nextUrl.
                if url_protocol u = ''https:'' \<and> url_protocol nextUrl = ''http:'' then Inl INVALID_REDIRECT
                else Inr (url_text L nextUrl))))"

definition html_type :: "string \<Rightarrow> bool" where
  "html_type contentType \<longleftrightarrow> contentType = ''text/html'' \<or> contentType = ''application/xhtml+xml''"

definition fetch_result ::
  "web_lib \<Rightarrow> fetch_world \<Rightarrow> fetch_settings \<Rightarrow> string \<Rightarrow> url \<Rightarrow> string \<Rightarrow> pinned_response \<Rightarrow> nat \<Rightarrow>
   fetch_hop list \<Rightarrow> safe_fetch_error + safe_fetch_result" where
  "fetch_result L W S requestedUrl u hostname response redirectCount hops =
     (if resp_status response < 200 \<or> resp_status response \<ge> 300 then Inl HTTP_ERROR
      else
        (let contentType = mimeType (lower_headers (resp_headers response)) in
         if contentType = [] \<or> contentType \<notin> set (fs_allowedMimeTypes S) then Inl UNSUPPORTED_MIME_TYPE
         else
           (let html = html_type contentType;
                textual = (starts_with ''text/'' contentType \<or> contentType = ''application/json'');
                sanitizedHtml = sanitize_html L (decode_text L (resp_body response));
                body = (if html then utf8_encode sanitizedHtml else resp_body response);
                text = (if html then Some (html_text L sanitizedHtml)
                        else if textual then Some (decode_text L (resp_body response)) else None)
            in Inr \<lparr>sf_requestedUrl = requestedUrl, sf_finalUrl = url_text L u, sf_status = resp_status response,
                    sf_contentType = contentType, sf_body = body, sf_text = text, sf_sanitized = html,
                    sf_promptInjection = map_option assessPromptInjection text, sf_fetchedAt = fw_now W,
                    sf_userAgent = fs_userAgent S, sf_redirectCount = redirectCount, sf_hops = hops,
                    sf_hostname = hostname, sf_protocol = url_protocol u\<rparr>)))"

text \<open>
  The loop. It also returns the requests it issued, in order, whether it succeeds or throws.
\<close>

function fetch_loop ::
  "web_lib \<Rightarrow> fetch_world \<Rightarrow> fetch_settings \<Rightarrow> string \<Rightarrow> string \<Rightarrow> string list \<Rightarrow> fetch_hop list \<Rightarrow> nat \<Rightarrow>
   (safe_fetch_error + safe_fetch_result) \<times> pinned_request list" where
  "fetch_loop L W S requestedUrl current visited hops redirectCount =
     (if current \<in> set visited then (Inl REDIRECT_LOOP, [])
      else
        (let remaining = fs_timeoutMs S - fw_elapsed W redirectCount in
         if remaining \<le> 0 then (Inl TIMEOUT, [])
         else
           (case withTimeout (fw_resolve_late W redirectCount)
                   (resolveAndValidateExternalUrl L (fw_resolver W redirectCount) current) of
              Inl e \<Rightarrow> (Inl e, [])
            | Inr (u, hostname, addresses) \<Rightarrow>
                (let req = \<lparr>pr_url = u, pr_hostname = hostname, pr_addresses = addresses, pr_timeoutMs = remaining,
                            pr_maxBytes = fs_maxBytes S, pr_userAgent = fs_userAgent S,
                            pr_allowedMimeTypes = fs_allowedMimeTypes S\<rparr> in
                 if fw_request_late W redirectCount then (Inl TIMEOUT, [req])
                 else
                   (case fw_requester W redirectCount req of
                      Inl f \<Rightarrow> (Inl (request_error f), [req])
                    | Inr response \<Rightarrow>
                        if oversized L (fs_maxBytes S) response then (Inl RESPONSE_TOO_LARGE, [req])
                        else
                          (let hops' = hops @ [\<lparr>hop_url = url_text L u, hop_resolvedAddresses = map ra_address addresses,
                                                hop_status = resp_status response\<rparr>] in
                           if resp_status response \<in> set REDIRECT_STATUSES then
                             (if redirectCount \<ge> fs_maxRedirects S then (Inl TOO_MANY_REDIRECTS, [req])
                              else
                                (case redirect_target L u response of
                                   Inl e \<Rightarrow> (Inl e, [req])
                                 | Inr target \<Rightarrow>
                                     (case fetch_loop L W S requestedUrl target (current # visited) hops' (redirectCount + 1) of
                                        (r, later) \<Rightarrow> (r, req # later))))
                           else (fetch_result L W S requestedUrl u hostname response redirectCount hops', [req])))))))"
  by pat_completeness auto
termination by (relation "measure (\<lambda>(L, W, S, q, c, v, h, n). fs_maxRedirects S - n)") auto

declare fetch_loop.simps [simp del]

definition safeFetch ::
  "web_lib \<Rightarrow> fetch_world \<Rightarrow> string \<Rightarrow> safe_fetch_options \<Rightarrow>
   (safe_fetch_error + safe_fetch_result) \<times> pinned_request list" where
  "safeFetch L W v options =
     (case fetch_settings_of options of
        Inl e \<Rightarrow> (Inl e, [])
      | Inr S \<Rightarrow>
          (case validateExternalUrl L v of
             Inl e \<Rightarrow> (Inl e, [])
           | Inr u \<Rightarrow> fetch_loop L W S (url_text L u) (url_text L u) [] [] 0))"

section \<open>One round of the loop\<close>

definition issued :: "web_lib \<Rightarrow> fetch_world \<Rightarrow> fetch_settings \<Rightarrow> string \<Rightarrow> nat \<Rightarrow> pinned_request \<Rightarrow> bool" where
  "issued L W S current n req \<longleftrightarrow>
     resolveAndValidateExternalUrl L (fw_resolver W n) current = Inr (pr_url req, pr_hostname req, pr_addresses req) \<and>
     pr_timeoutMs req = fs_timeoutMs S - fw_elapsed W n \<and> 0 < pr_timeoutMs req \<and> pr_maxBytes req = fs_maxBytes S"

lemma fetch_loop_round:
  obtains (stop) e where "fetch_loop L W S q current visited hops n = (Inl e, [])"
  | (failed) e req where "issued L W S current n req" "fetch_loop L W S q current visited hops n = (Inl e, [req])"
  | (final) req response hop where "issued L W S current n req" "fw_requester W n req = Inr response"
      "\<not> oversized L (fs_maxBytes S) response"
      "fetch_loop L W S q current visited hops n =
         (fetch_result L W S q (pr_url req) (pr_hostname req) response n (hops @ [hop]), [req])"
  | (redirect) req response target hop where "issued L W S current n req" "n < fs_maxRedirects S"
      "redirect_target L (pr_url req) response = Inr target"
      "fetch_loop L W S q current visited hops n =
         (let (r, later) = fetch_loop L W S q target (current # visited) (hops @ [hop]) (n + 1) in (r, req # later))"
proof -
  let ?rem = "fs_timeoutMs S - fw_elapsed W n"
  let ?res = "withTimeout (fw_resolve_late W n) (resolveAndValidateExternalUrl L (fw_resolver W n) current)"
  note unfold = fetch_loop.simps[of L W S q current visited hops n]
  show thesis
  proof (cases "current \<in> set visited \<or> ?rem \<le> 0 \<or> (\<exists>e. ?res = Inl e)")
    case True
    then have "\<exists>e. fetch_loop L W S q current visited hops n = (Inl e, [])" by (auto simp: unfold Let_def)
    then show thesis using stop by blast
  next
    case False
    then obtain u hostname addresses where r: "?res = Inr (u, hostname, addresses)" by (cases ?res) auto
    define req where "req = \<lparr>pr_url = u, pr_hostname = hostname, pr_addresses = addresses, pr_timeoutMs = ?rem,
      pr_maxBytes = fs_maxBytes S, pr_userAgent = fs_userAgent S, pr_allowedMimeTypes = fs_allowedMimeTypes S\<rparr>"
    have iss: "issued L W S current n req"
      using False r by (auto simp: issued_def req_def withTimeout_def split: if_splits)
    have eq: "pr_url req = u" "pr_hostname req = hostname" by (simp_all add: req_def)
    show thesis
    proof (cases "fw_request_late W n \<or> (\<exists>f. fw_requester W n req = Inl f)")
      case True
      then have "\<exists>e. fetch_loop L W S q current visited hops n = (Inl e, [req])"
        using False r by (auto simp: unfold Let_def req_def)
      then show thesis using failed[OF iss] by blast
    next
      case go: False
      then obtain response where resp: "fw_requester W n req = Inr response" by (cases "fw_requester W n req") auto
      let ?hop = "\<lparr>hop_url = url_text L u, hop_resolvedAddresses = map ra_address addresses, hop_status = resp_status response\<rparr>"
      show thesis
      proof (cases "oversized L (fs_maxBytes S) response \<or> (resp_status response \<in> set REDIRECT_STATUSES \<and>
          (fs_maxRedirects S \<le> n \<or> (\<exists>e. redirect_target L u response = Inl e)))")
        case True
        then have "\<exists>e. fetch_loop L W S q current visited hops n = (Inl e, [req])"
          using False go r resp by (auto simp: unfold Let_def req_def)
        then show thesis using failed[OF iss] by blast
      next
        case ok: False
        show thesis
        proof (cases "resp_status response \<in> set REDIRECT_STATUSES")
          case False
          then show thesis
            using \<open>\<not> (current \<in> set visited \<or> ?rem \<le> 0 \<or> (\<exists>e. ?res = Inl e))\<close> go r resp ok
            by (intro final[OF iss resp, of ?hop]) (auto simp: unfold Let_def req_def)
        next
          case True
          then obtain target where target: "redirect_target L u response = Inr target" "n < fs_maxRedirects S"
            using ok by (cases "redirect_target L u response") auto
          then show thesis
            using False go r resp ok True
            by (intro redirect[OF iss, of response target ?hop]) (auto simp: unfold Let_def req_def)
        qed
      qed
    qed
  qed
qed

section \<open>Requests\<close>

definition public_address :: "resolved_address \<Rightarrow> bool" where
  "public_address a \<longleftrightarrow> ra_family a \<in> {4, 6} \<and> isIP (ra_address a) = ra_family a \<and> isPublicIpAddress (ra_address a) = Inr True"

lemma pin_addresses_public:
  "pin_addresses rs acc = Inr out \<Longrightarrow> \<forall>a\<in>set acc. public_address a \<Longrightarrow> \<forall>a\<in>set out. public_address a"
proof (induction rs arbitrary: acc)
  case (Cons r rs)
  from Cons.prems(1) have r: "public_address r"
    and rest: "pin_addresses rs (if r \<in> set acc then acc else acc @ [r]) = Inr out"
    by (auto simp: Let_def xbind_Inr public_address_def split: if_splits)
  show ?case by (rule Cons.IH[OF rest]) (use Cons.prems(2) r in auto)
qed simp

lemma pin_addresses_nonempty: "pin_addresses rs acc = Inr out \<Longrightarrow> rs \<noteq> [] \<or> acc \<noteq> [] \<Longrightarrow> out \<noteq> []"
proof (induction rs arbitrary: acc)
  case (Cons r rs)
  from Cons.prems(1) have rest: "pin_addresses rs (if r \<in> set acc then acc else acc @ [r]) = Inr out"
    by (auto simp: Let_def xbind_Inr split: if_splits)
  show ?case by (rule Cons.IH[OF rest]) auto
qed auto

lemma check_url_Inr:
  assumes "check_url u = Inr v"
  shows "v = u\<lparr>url_hash := []\<rparr> \<and> url_protocol v \<in> {''http:'', ''https:''} \<and> url_username v = [] \<and> url_password v = [] \<and>
    normalizeHostname (url_hostname v) \<noteq> [] \<and> \<not> local_name (normalizeHostname (url_hostname v)) \<and>
    (isIP (normalizeHostname (url_hostname v)) \<noteq> 0 \<longrightarrow> isPublicIpAddress (normalizeHostname (url_hostname v)) = Inr True)"
  using assms by (auto simp: check_url_def Let_def xbind_Inr split: if_splits)

definition safe_request :: "pinned_request \<Rightarrow> bool" where
  "safe_request req \<longleftrightarrow>
     url_protocol (pr_url req) \<in> {''http:'', ''https:''} \<and> url_username (pr_url req) = [] \<and> url_password (pr_url req) = [] \<and>
     pr_hostname req = normalizeHostname (url_hostname (pr_url req)) \<and> \<not> local_name (pr_hostname req) \<and>
     pr_addresses req \<noteq> [] \<and> (\<forall>a\<in>set (pr_addresses req). public_address a)"

lemma resolve_Inr:
  assumes "resolveAndValidateExternalUrl L resolver v = Inr (u, h, as)"
  obtains p rs where "parse_url L v = Some p" "check_url p = Inr u" "h = normalizeHostname (url_hostname u)"
    "rs \<noteq> []" "pin_addresses rs [] = Inr as"
proof -
  obtain w rs where w: "validateExternalUrl L v = Inr w" "rs \<noteq> []" "pin_addresses rs [] = Inr as"
    "u = w" "h = normalizeHostname (url_hostname w)"
    using assms unfolding resolveAndValidateExternalUrl_def Let_def xbind_Inr
    by (elim exE conjE) (simp add: xbind_Inr split: if_splits del: pin_addresses.simps)
  obtain p where "parse_url L v = Some p" "check_url p = Inr w"
    using w(1) by (cases "parse_url L v") (simp_all add: validateExternalUrl_def)
  with w that show thesis by simp
qed

lemma issued_safe: "issued L W S current n req \<Longrightarrow> safe_request req"
proof -
  assume "issued L W S current n req"
  then have "resolveAndValidateExternalUrl L (fw_resolver W n) current = Inr (pr_url req, pr_hostname req, pr_addresses req)"
    by (simp add: issued_def)
  then show ?thesis
  proof (rule resolve_Inr)
    fix p rs
    assume c: "check_url p = Inr (pr_url req)" "pr_hostname req = normalizeHostname (url_hostname (pr_url req))"
      and rs: "rs \<noteq> []" "pin_addresses rs [] = Inr (pr_addresses req)"
    show ?thesis
      using check_url_Inr[OF c(1), THEN conjunct2] c(2) pin_addresses_public[OF rs(2)] pin_addresses_nonempty[OF rs(2)] rs(1)
      by (simp add: safe_request_def)
  qed
qed

lemma fetch_loop_log:
  assumes "n \<le> fs_maxRedirects S"
  shows "(\<forall>req\<in>set (snd (fetch_loop L W S q current visited hops n)). \<exists>c k. issued L W S c k req) \<and>
     length (snd (fetch_loop L W S q current visited hops n)) \<le> fs_maxRedirects S + 1 - n"
  using assms
proof (induction "fs_maxRedirects S - n" arbitrary: current visited hops n rule: less_induct)
  case less
  show ?case
  proof (cases rule: fetch_loop_round[of L W S q current visited hops n])
    case (redirect req response target hop)
    obtain r later where rl: "fetch_loop L W S q target (current # visited) (hops @ [hop]) (n + 1) = (r, later)" by force
    then have log: "snd (fetch_loop L W S q current visited hops n) = req # later" by (simp add: redirect(4))
    have "(\<forall>req\<in>set later. \<exists>c k. issued L W S c k req) \<and> length later \<le> fs_maxRedirects S + 1 - (n + 1)"
      using less.hyps[of "n + 1" target "current # visited" "hops @ [hop]"] redirect(2) rl by auto
    then show ?thesis using redirect(1,2) unfolding log by auto
  qed (use less.prems in auto)
qed

lemma fetch_settings_Inr:
  "fetch_settings_of options = Inr S \<Longrightarrow>
     0 < fs_timeoutMs S \<and> fs_timeoutMs S \<le> 30000 \<and> 0 < fs_maxBytes S \<and> fs_maxBytes S \<le> 10000000 \<and> fs_maxRedirects S \<le> 10"
  by (auto simp: fetch_settings_of_def xbind_Inr url_positiveInteger_def url_nonNegativeInteger_def Let_def
      split: option.splits if_splits)

lemma safeFetch_cases:
  obtains (refused) e where "safeFetch L W v options = (Inl e, [])"
  | (looped) S u where "fetch_settings_of options = Inr S" "validateExternalUrl L v = Inr u"
      "safeFetch L W v options = fetch_loop L W S (url_text L u) (url_text L u) [] [] 0"
  by (cases "fetch_settings_of options"; cases "validateExternalUrl L v") (auto simp: safeFetch_def)

text \<open>
  \<^bold>\<open>C15.\<close> Whatever the DNS resolver and the servers answer, and however often they change their answer, a fetch
  only ever connects to addresses that were checked: each request it issues, redirects included, is pinned to a
  non-empty list of public addresses, has no credentials and no local host name, and speaks HTTP or HTTPS.
\<close>

theorem safeFetch_public_only: "\<forall>req\<in>set (snd (safeFetch L W v options)). safe_request req"
proof (cases rule: safeFetch_cases[of L W v options])
  case (looped S u)
  then show ?thesis using issued_safe fetch_loop_log[of 0 S] by fastforce
qed simp

text \<open>
  A fetch ends after at most eleven requests, each with a positive time budget of at most thirty seconds
  and a byte limit of at most ten million; the DNS and server answers cannot keep it going.
\<close>

theorem safeFetch_bounds:
  assumes "\<forall>n. 0 \<le> fw_elapsed W n"
  shows "length (snd (safeFetch L W v options)) \<le> 11 \<and>
     (\<forall>req\<in>set (snd (safeFetch L W v options)). 0 < pr_timeoutMs req \<and> pr_timeoutMs req \<le> 30000 \<and> pr_maxBytes req \<le> 10000000)"
proof (cases rule: safeFetch_cases[of L W v options])
  case (looped S u)
  note b = fetch_settings_Inr[OF looped(1)]
  note log = fetch_loop_log[of 0 S L W "url_text L u" "url_text L u" "[]" "[]"]
  have "0 < pr_timeoutMs req \<and> pr_timeoutMs req \<le> 30000 \<and> pr_maxBytes req \<le> 10000000"
    if "issued L W S c k req" for c k req
    using that b spec[OF assms, of k] by (auto simp: issued_def)
  then show ?thesis using log b unfolding looped(3) by fastforce
qed simp

section \<open>Transport and result\<close>

text \<open>A documented law of the URL parser: a serialised HTTP or HTTPS URL keeps its scheme when parsed again.\<close>

definition scheme_stable :: "web_lib \<Rightarrow> bool" where
  "scheme_stable L \<longleftrightarrow> (\<forall>u u'. url_protocol u \<in> {''http:'', ''https:''} \<longrightarrow> parse_url L (url_text L u) = Some u' \<longrightarrow>
     url_protocol u' = url_protocol u)"

definition parses_secure :: "web_lib \<Rightarrow> string \<Rightarrow> bool" where
  "parses_secure L s \<longleftrightarrow> (\<forall>u. parse_url L s = Some u \<longrightarrow> url_protocol u = ''https:'')"

lemma issued_secure:
  assumes "issued L W S current n req" "parses_secure L current"
  shows "url_protocol (pr_url req) = ''https:''"
proof -
  have "resolveAndValidateExternalUrl L (fw_resolver W n) current = Inr (pr_url req, pr_hostname req, pr_addresses req)"
    using assms(1) by (simp add: issued_def)
  then show ?thesis
  proof (rule resolve_Inr)
    fix p assume p: "parse_url L current = Some p" "check_url p = Inr (pr_url req)"
    have "url_protocol p = ''https:''" using assms(2) p(1) unfolding parses_secure_def by blast
    moreover have "pr_url req = p\<lparr>url_hash := []\<rparr>" using check_url_Inr[OF p(2)] by blast
    ultimately show ?thesis by simp
  qed
qed

lemma redirect_target_secure:
  assumes "redirect_target L u response = Inr target" "url_protocol u = ''https:''" "scheme_stable L"
  shows "parses_secure L target"
proof -
  obtain location where loc: "map_of (lower_headers (resp_headers response)) ''location'' = Some location"
    using assms(1) by (cases "map_of (lower_headers (resp_headers response)) ''location''") (simp_all add: redirect_target_def)
  have ne: "location \<noteq> []" using assms(1) loc by (cases "location = []") (simp_all add: redirect_target_def)
  obtain p where p: "resolve_url L location u = Some p"
    using assms(1) loc ne by (cases "resolve_url L location u") (simp_all add: redirect_target_def)
  obtain nextUrl where n: "check_url p = Inr nextUrl" "url_protocol nextUrl \<noteq> ''http:''" "target = url_text L nextUrl"
    using assms(1,2) loc ne p by (cases "check_url p") (simp_all add: redirect_target_def xbind_def split: if_splits)
  have secure: "url_protocol nextUrl = ''https:''" using check_url_Inr[OF n(1)] n(2) by blast
  have "url_protocol u' = url_protocol nextUrl" if "parse_url L target = Some u'" for u'
    using assms(3) that secure n(3) unfolding scheme_stable_def by blast
  then show ?thesis using secure unfolding parses_secure_def by metis
qed

lemma fetch_loop_secure:
  assumes "parses_secure L current" "scheme_stable L"
  shows "\<forall>req\<in>set (snd (fetch_loop L W S q current visited hops n)). url_protocol (pr_url req) = ''https:''"
  using assms(1)
proof (induction "fs_maxRedirects S - n" arbitrary: current visited hops n rule: less_induct)
  case less
  show ?case
  proof (cases rule: fetch_loop_round[of L W S q current visited hops n])
    case (redirect req response target hop)
    obtain r later where rl: "fetch_loop L W S q target (current # visited) (hops @ [hop]) (n + 1) = (r, later)" by force
    then have log: "snd (fetch_loop L W S q current visited hops n) = req # later" by (simp add: redirect(4))
    note sec = issued_secure[OF redirect(1) less.prems]
    have "\<forall>req\<in>set later. url_protocol (pr_url req) = ''https:''"
      using less.hyps[OF _ redirect_target_secure[OF redirect(3) sec assms(2)], of "n + 1" "current # visited" "hops @ [hop]"]
        redirect(2) rl by auto
    then show ?thesis using sec unfolding log by simp
  qed (use less.prems issued_secure in auto)
qed

text \<open>
  A fetch that starts over HTTPS never leaves HTTPS: no redirect, however long the chain, makes it send a
  request in the clear.
\<close>

theorem safeFetch_no_downgrade:
  assumes "scheme_stable L" "validateExternalUrl L v = Inr u" "url_protocol u = ''https:''"
  shows "\<forall>req\<in>set (snd (safeFetch L W v options)). url_protocol (pr_url req) = ''https:''"
proof (cases rule: safeFetch_cases[of L W v options])
  case (looped S w)
  have "parses_secure L (url_text L u)"
    using assms(1)[unfolded scheme_stable_def, rule_format, of u] by (simp add: assms(3) parses_secure_def)
  with looped assms(2) fetch_loop_secure[OF _ assms(1)] show ?thesis by auto
qed simp

lemma fetch_result_Inr:
  assumes "fetch_result L W S q u h response n hops = Inr r"
  shows "200 \<le> sf_status r \<and> sf_status r < 300 \<and> sf_contentType r \<in> set (fs_allowedMimeTypes S) \<and> sf_redirectCount r = n \<and>
    sf_hops r = hops \<and>
    sf_body r = (if html_type (sf_contentType r) then utf8_encode (sanitize_html L (decode_text L (resp_body response)))
      else resp_body response)"
proof -
  let ?t = "mimeType (lower_headers (resp_headers response))"
  have ok: "\<not> (resp_status response < 200 \<or> resp_status response \<ge> 300)" "\<not> (?t = [] \<or> ?t \<notin> set (fs_allowedMimeTypes S))"
    using assms by (auto simp: fetch_result_def Let_def split: if_splits)
  note r = assms[unfolded fetch_result_def Let_def if_not_P[OF ok(1)] if_not_P[OF ok(2)] sum.inject, symmetric]
  show ?thesis using ok by (simp add: r)
qed

lemma fetch_loop_result:
  assumes "fetch_loop L W S q current visited hops n = (Inr r, reqs)" "n \<le> fs_maxRedirects S"
  shows "200 \<le> sf_status r \<and> sf_status r < 300 \<and> sf_contentType r \<in> set (fs_allowedMimeTypes S) \<and>
    sf_redirectCount r \<le> fs_maxRedirects S \<and> length reqs + n = sf_redirectCount r + 1 \<and>
    length (sf_hops r) = length hops + length reqs \<and>
    (if html_type (sf_contentType r)
     then \<exists>raw. int (length raw) \<le> fs_maxBytes S \<and> sf_body r = utf8_encode (sanitize_html L (decode_text L raw))
     else int (length (sf_body r)) \<le> fs_maxBytes S)"
  using assms
proof (induction "fs_maxRedirects S - n" arbitrary: current visited hops n reqs rule: less_induct)
  case less
  show ?case
  proof (cases rule: fetch_loop_round[of L W S q current visited hops n])
    case (final req response hop)
    then have f: "fetch_result L W S q (pr_url req) (pr_hostname req) response n (hops @ [hop]) = Inr r" "reqs = [req]"
      using less.prems by auto
    have "int (length (resp_body response)) \<le> fs_maxBytes S" using final(3) by (simp add: oversized_def)
    with fetch_result_Inr[OF f(1)] f(2) less.prems(2) show ?thesis by auto
  next
    case (redirect req response target hop)
    obtain r' later where rl: "fetch_loop L W S q target (current # visited) (hops @ [hop]) (n + 1) = (r', later)" by force
    then have "r' = Inr r" "reqs = req # later" using less.prems(1) by (simp_all add: redirect(4))
    with less.hyps[of "n + 1" target "current # visited" "hops @ [hop]" later] redirect(2) rl show ?thesis by auto
  qed (use less.prems in auto)
qed

text \<open>
  What a successful fetch returns: a 2xx answer of an allowed MIME type, one hop per request and as many
  redirects as it reports, within the limit; HTML only after sanitising, and every other body within the byte limit.
\<close>

theorem safeFetch_result:
  assumes "safeFetch L W v options = (Inr r, reqs)" "fetch_settings_of options = Inr S"
  shows "200 \<le> sf_status r \<and> sf_status r < 300 \<and> sf_contentType r \<in> set (fs_allowedMimeTypes S) \<and>
    sf_redirectCount r \<le> fs_maxRedirects S \<and> length reqs = sf_redirectCount r + 1 \<and> length (sf_hops r) = length reqs \<and>
    (if html_type (sf_contentType r)
     then \<exists>raw. int (length raw) \<le> fs_maxBytes S \<and> sf_body r = utf8_encode (sanitize_html L (decode_text L raw))
     else int (length (sf_body r)) \<le> fs_maxBytes S)"
proof (cases rule: safeFetch_cases[of L W v options])
  case (looped T u)
  then have "fetch_loop L W S (url_text L u) (url_text L u) [] [] 0 = (Inr r, reqs)" using assms by simp
  from fetch_loop_result[OF this] show ?thesis by simp
qed (use assms in simp)

section \<open>Evaluation\<close>

definition demo_url :: "string \<Rightarrow> string \<Rightarrow> url" where
  "demo_url protocol hostname = \<lparr>url_protocol = protocol, url_username = [], url_password = [],
     url_hostname = hostname, url_tail = [], url_hash = []\<rparr>"

definition demo_parse :: "string \<Rightarrow> url option" where
  "demo_parse s =
     (if starts_with ''https://'' s then Some (demo_url ''https:'' (drop 8 s))
      else if starts_with ''http://'' s then Some (demo_url ''http:'' (drop 7 s)) else None)"

definition demo_lib :: web_lib where
  "demo_lib = \<lparr>parse_url = demo_parse, resolve_url = (\<lambda>s u. demo_parse s),
     url_text = (\<lambda>u. url_protocol u @ ''//'' @ url_hostname u), js_number = (\<lambda>_. NaN), decode_text = id,
     sanitize_html = id, html_text = id\<rparr>"

text \<open>The first answer redirects, the second delivers.\<close>

definition demo_world :: fetch_world where
  "demo_world = \<lparr>fw_elapsed = int, fw_resolver = (\<lambda>n h. Inr [\<lparr>ra_address = ''8.8.8.8'', ra_family = 4\<rparr>]),
     fw_resolve_late = (\<lambda>_. False),
     fw_requester = (\<lambda>n r. Inr (if n = 0 then \<lparr>resp_status = 302, resp_headers = [(''Location'', ''https://b'')], resp_body = []\<rparr>
        else \<lparr>resp_status = 200, resp_headers = [(''Content-Type'', ''application/pdf'')], resp_body = ''x''\<rparr>)),
     fw_request_late = (\<lambda>_. False), fw_now = ''t''\<rparr>"

definition no_options :: safe_fetch_options where
  "no_options = \<lparr>so_timeoutMs = None, so_maxBytes = None, so_maxRedirects = None, so_allowedMimeTypes = None, so_userAgent = None\<rparr>"

lemma demo_fetch: "\<exists>r reqs. safeFetch demo_lib demo_world ''https://a'' no_options = (Inr r, reqs) \<and> length reqs = 2"
proof -
  have "(case safeFetch demo_lib demo_world ''https://a'' no_options of (Inr r, reqs) \<Rightarrow> length reqs = 2 | _ \<Rightarrow> False)"
    by code_simp
  then show ?thesis by (auto split: prod.splits sum.splits)
qed

lemma demo_stable: "scheme_stable demo_lib"
  unfolding scheme_stable_def
  by (auto simp: demo_lib_def demo_parse_def demo_url_def starts_with_def)

theorem safeFetch_public_only_witness:
  "\<exists>req\<in>set (snd (safeFetch demo_lib demo_world ''https://a'' no_options)). safe_request req"
proof -
  obtain r reqs where d: "safeFetch demo_lib demo_world ''https://a'' no_options = (Inr r, reqs)" "length reqs = 2"
    using demo_fetch by blast
  then obtain req where "req \<in> set reqs" by (cases reqs) auto
  with safeFetch_public_only[of demo_lib demo_world "''https://a''" no_options] d(1) show ?thesis by auto
qed

theorem safeFetch_bounds_witness:
  "length (snd (safeFetch demo_lib demo_world ''https://a'' no_options)) \<le> 11 \<and>
   (\<exists>req\<in>set (snd (safeFetch demo_lib demo_world ''https://a'' no_options)). pr_timeoutMs req \<le> 30000)"
proof -
  obtain r reqs where d: "safeFetch demo_lib demo_world ''https://a'' no_options = (Inr r, reqs)" "length reqs = 2"
    using demo_fetch by blast
  then obtain req where "req \<in> set reqs" by (cases reqs) auto
  moreover have "\<forall>n. 0 \<le> fw_elapsed demo_world n" by (simp add: demo_world_def)
  ultimately show ?thesis using safeFetch_bounds[of demo_world demo_lib "''https://a''" no_options] d(1) by auto
qed

theorem safeFetch_no_downgrade_witness:
  "list_all (\<lambda>req. url_protocol (pr_url req) = ''https:'') (snd (safeFetch demo_lib demo_world ''https://a'' no_options))"
proof -
  have u: "validateExternalUrl demo_lib ''https://a'' = Inr (demo_url ''https:'' ''a'')" by code_simp
  have "url_protocol (demo_url ''https:'' ''a'') = ''https:''" by (simp add: demo_url_def)
  from safeFetch_no_downgrade[OF demo_stable u this] show ?thesis by (simp add: list_all_iff)
qed

theorem safeFetch_result_witness:
  "\<exists>r reqs. safeFetch demo_lib demo_world ''https://a'' no_options = (Inr r, reqs) \<and> length (sf_hops r) = 2 \<and>
     sf_redirectCount r = 1"
proof -
  obtain r reqs where d: "safeFetch demo_lib demo_world ''https://a'' no_options = (Inr r, reqs)" "length reqs = 2"
    using demo_fetch by blast
  have "\<not> isl (fetch_settings_of no_options)" by code_simp
  then obtain S where "fetch_settings_of no_options = Inr S" by (cases "fetch_settings_of no_options") auto
  from safeFetch_result[OF d(1) this] d show ?thesis by auto
qed

end
