(* ===== verification/Budget_Properties.thy ===== *)
theory Budget_Properties
  imports Budgets
begin

text \<open>Validation and enforcement of run budgets (\<open>Budgets\<close>).\<close>

section \<open>Validation\<close>

definition budget_ok :: "budget_snapshot \<Rightarrow> bool" where
  "budget_ok b \<longleftrightarrow>
     (\<forall>n\<in>set [maxProviderRequests b, maxSearchRequests b, maxInputTokens b, maxOutputTokens b, maxSources b, maxDocumentChunks b].
        0 \<le> n \<and> is_safe n) \<and>
     1 \<le> maxElapsedMs b \<and> is_safe (maxElapsedMs b) \<and> 1 \<le> maxStageAttempts b \<and> is_safe (maxStageAttempts b) \<and>
     0 \<le> maxEstimatedCostUsd b"

lemma nonNegative_iff: "nonNegativeBudgetInteger v = Inr n \<longleftrightarrow> v = js_int n \<and> 0 \<le> n \<and> is_safe n"
  by (auto simp: nonNegativeBudgetInteger_def split: option.splits if_splits dest: safe_integer_Some)

lemma positive_iff: "positiveBudgetInteger v = Inr n \<longleftrightarrow> v = js_int n \<and> 1 \<le> n \<and> is_safe n"
  by (auto simp: positiveBudgetInteger_def split: option.splits if_splits dest: safe_integer_Some)

lemma finite_number_iff: "finite_number v = Some r \<longleftrightarrow> v = JNum (Fin r)"
  by (auto simp: finite_number_def split: jsv.splits jsnum.splits)

lemma cost_Inr:
  "(case finite_number v of None \<Rightarrow> Inl e | Some c \<Rightarrow> if c < 0 then Inl e else Inr (f c)) = Inr b \<longleftrightarrow>
     (\<exists>c. v = JNum (Fin c) \<and> 0 \<le> c \<and> b = f c)"
  by (cases v rule: safe_integer.cases) (auto simp: finite_number_def)

lemma validateBudget_complete: "budget_ok b \<Longrightarrow> validateBudget (budget_as_request b) = Inr b"
proof -
  assume ok: "budget_ok b"
  have n: "nonNegativeBudgetInteger (js_int k) = Inr k" if "0 \<le> k" "is_safe k" for k using that nonNegative_iff by blast
  have p: "positiveBudgetInteger (js_int k) = Inr k" if "1 \<le> k" "is_safe k" for k using that positive_iff by blast
  show ?thesis using ok unfolding validateBudget_def budget_as_request_def budget_ok_def
    by (simp add: n p finite_number_def)
qed

lemma validateBudget_sound: "validateBudget q = Inr b \<Longrightarrow> q = budget_as_request b \<and> budget_ok b"
  unfolding validateBudget_def ebind_Inr_iff nonNegative_iff positive_iff cost_Inr
  by (elim exE conjE, hypsubst) (simp add: budget_as_request_def budget_ok_def)

lemma validateBudget_iff: "validateBudget q = Inr b \<longleftrightarrow> q = budget_as_request b \<and> budget_ok b"
  using validateBudget_sound validateBudget_complete by blast

text \<open>
  \<^bold>\<open>C30.\<close> Validation is exact: a requested budget is accepted iff its eight counters are safe integers in range and its
  cost is a finite non-negative number, and the accepted budget is the requested one, unchanged. In particular a budget
  that was accepted is accepted again, and whatever is accepted has the type the rest of the program relies on.
\<close>

theorem validateBudget_exact:
  "validateBudget q = Inr b \<longleftrightarrow> q = budget_as_request b \<and> budget_ok b"
  by (rule validateBudget_iff)

section \<open>Enforcement\<close>



text \<open>A sequence of steps, each checked against the budget before it is counted.\<close>

fun run_checked :: "budget_snapshot \<Rightarrow> run_usage \<Rightarrow> next_usage list \<Rightarrow> run_usage option" where
  "run_checked b u [] = Some u"
| "run_checked b u (n # ns) = (if fst (checkRunBudget b u n) then run_checked b (projected_usage u n) ns else None)"

lemma run_checked_snoc:
  "run_checked b u (ns @ [n]) = (case run_checked b u ns of None \<Rightarrow> None
     | Some w \<Rightarrow> if fst (checkRunBudget b w n) then Some (projected_usage w n) else None)"
  by (induction ns arbitrary: u) auto




end
