(* ===== verification/Provider_Store.thy ===== *)
theory Provider_Store
  imports Budgets
begin

text \<open>
  What the worker keeps about calls to providers, next to the tables of \<open>Database\<close>: the rate windows and permits of
  \<open>lib/services/provider-limits.ts\<close> and the executions of \<open>lib/services/provider-executions.ts\<close>. \<open>world\<close> is the whole
  durable state a worker sees.
\<close>

record rate_window =
  rw_provider :: string
  rw_operation :: string
  rw_window_started_at :: int
  rw_window_seconds :: int
  rw_request_limit :: int
  rw_request_count :: int
  rw_concurrency_limit :: int
  rw_in_flight :: int
  rw_updated_at :: int

record provider_permit =
  pp_id :: string
  pp_provider :: string
  pp_operation :: string
  pp_owner_id :: string
  pp_job_id :: "string option"
  pp_acquired_at :: int
  pp_expires_at :: int
  pp_released_at :: "int option"

text \<open>\<open>STARTED\<close> is the status of the row before \<open>ProviderExecutionStatus\<close> applies.\<close>

datatype provider_execution_status = PX_STARTED | PX_SUCCEEDED | PX_FAILED | PX_CANCELLED | PX_TIMED_OUT | PX_REJECTED

text \<open>The attempt a call belongs to is named by its job and number, the unique key of \<open>job_attempts\<close>.\<close>

record provider_execution =
  px_id :: string
  px_project_id :: "string option"
  px_run_id :: "string option"
  px_run_stage_id :: "string option"
  px_job_id :: "string option"
  px_job_attempt :: "(string \<times> int) option"
  px_provider :: string
  px_model :: "string option"
  px_operation :: string
  px_request_id :: "string option"
  px_client_request_id :: string
  px_provider_response_id :: "string option"
  px_prompt_template_version :: "string option"
  px_structured_schema_version :: "string option"
  px_input_hash :: string
  px_output_hash :: "string option"
  px_status :: provider_execution_status
  px_retry_count :: int
  px_input_tokens :: "int option"
  px_output_tokens :: "int option"
  px_total_tokens :: "int option"
  px_cost_status :: cost_status
  px_estimated_cost :: "rat option"
  px_error_class :: "job_error_class option"
  px_sanitized_error :: "string option"
  px_started_at :: int
  px_completed_at :: "int option"
  px_latency_ms :: "int option"
  px_updated_at :: int

record world =
  w_db :: database
  w_windows :: "rate_window list"
  w_permits :: "provider_permit list"
  w_executions :: "provider_execution list"

type_synonym 'a world_tx = "(world, 'a) tx"

text \<open>A transaction on the tables of \<open>Database\<close>, seen as one on the world.\<close>

definition in_db :: "'a db_tx \<Rightarrow> 'a world_tx" where
  "in_db m w = (case m (w_db w) of Inl e \<Rightarrow> Inl e | Inr (a, db) \<Rightarrow> Inr (a, w\<lparr>w_db := db\<rparr>))"

lemma in_db_Inr [tx_simps]:
  "in_db m w = Inr (a, w') \<longleftrightarrow> (\<exists>db. m (w_db w) = Inr (a, db) \<and> w' = w\<lparr>w_db := db\<rparr>)"
  by (auto simp: in_db_def split: sum.splits)

lemma in_db_frame:
  assumes "in_db m w = Inr (a, w')"
  shows "w_windows w' = w_windows w \<and> w_permits w' = w_permits w \<and> w_executions w' = w_executions w"
  using assms by (auto simp: in_db_Inr)

interpretation permits_tbl: keyed_table pp_id .

interpretation executions_tbl: keyed_table px_id .

definition find_execution :: "string \<Rightarrow> world \<Rightarrow> provider_execution option" where
  "find_execution k w = find (\<lambda>x. px_id x = k) (w_executions w)"

lemma find_execution_tbl: "find_execution k w = executions_tbl.lookup k (w_executions w)"
  by (simp add: find_execution_def executions_tbl.lookup_def)

definition upd_permits :: "(provider_permit \<Rightarrow> bool) \<Rightarrow> (provider_permit \<Rightarrow> provider_permit) \<Rightarrow> world \<Rightarrow> world" where
  "upd_permits P f w = w\<lparr>w_permits := update_where P f (w_permits w)\<rparr>"

definition upd_windows :: "(rate_window \<Rightarrow> bool) \<Rightarrow> (rate_window \<Rightarrow> rate_window) \<Rightarrow> world \<Rightarrow> world" where
  "upd_windows P f w = w\<lparr>w_windows := update_where P f (w_windows w)\<rparr>"

definition upd_execution :: "string \<Rightarrow> (provider_execution \<Rightarrow> provider_execution) \<Rightarrow> world \<Rightarrow> world" where
  "upd_execution k f w = w\<lparr>w_executions := update_where (\<lambda>x. px_id x = k) f (w_executions w)\<rparr>"

lemma upd_frames [simp]:
  "w_permits (upd_permits P f w) = update_where P f (w_permits w)"
  "w_windows (upd_permits P f w) = w_windows w" "w_executions (upd_permits P f w) = w_executions w"
  "w_db (upd_permits P f w) = w_db w"
  "w_windows (upd_windows Q g w) = update_where Q g (w_windows w)"
  "w_permits (upd_windows Q g w) = w_permits w" "w_executions (upd_windows Q g w) = w_executions w"
  "w_db (upd_windows Q g w) = w_db w"
  "w_executions (upd_execution k h w) = update_where (\<lambda>x. px_id x = k) h (w_executions w)"
  "w_permits (upd_execution k h w) = w_permits w" "w_windows (upd_execution k h w) = w_windows w"
  "w_db (upd_execution k h w) = w_db w"
  by (simp_all add: upd_permits_def upd_windows_def upd_execution_def)

end
