(* ===== verification/Provider_Limits.thy ===== *)
theory Provider_Limits
  imports Provider_Store
begin

text \<open>
  Rate windows and concurrency permits, \<open>lib/services/provider-limits.ts\<close>. The row of \<open>provider_rate_windows\<close> of a
  provider and operation is locked first, so the transactions of one key are serial; \<open>now\<close> is \<open>NOW()\<close>, the start of
  the transaction, which is not the order in which the transactions take the lock.
\<close>

section \<open>The policy\<close>

record provider_limit_policy =
  lp_requestLimit :: jsv
  lp_windowSeconds :: jsv
  lp_concurrencyLimit :: jsv
  lp_permitTtlMs :: jsv

text \<open>The four numbers of a policy that passed the check.\<close>

record checked_policy =
  cp_requestLimit :: int
  cp_windowSeconds :: int
  cp_concurrencyLimit :: int
  cp_permitTtlMs :: int

text \<open>\<open>Number.isInteger\<close>\<close>

fun js_integer :: "jsv \<Rightarrow> int option" where
  "js_integer (JNum (Fin r)) = (if r = of_int \<lfloor>r\<rfloor> then Some \<lfloor>r\<rfloor> else None)"
| "js_integer _ = None"

definition limit_in :: "jsv \<Rightarrow> int \<Rightarrow> app_error + int" where
  "limit_in v maximum =
     (case js_integer v of
        None \<Rightarrow> Inl (GenericError ''must be an integer'')
      | Some n \<Rightarrow> if n < 1 \<or> n > maximum then Inl (GenericError ''must be an integer'') else Inr n)"

definition validatePolicy :: "provider_limit_policy \<Rightarrow> app_error + checked_policy" where
  "validatePolicy p =
     ebind (limit_in (lp_requestLimit p) 1000000) (\<lambda>requests.
     ebind (limit_in (lp_windowSeconds p) 86400) (\<lambda>seconds.
     ebind (limit_in (lp_concurrencyLimit p) 10000) (\<lambda>concurrency.
     ebind (limit_in (lp_permitTtlMs p) 3600000) (\<lambda>ttl.
     Inr \<lparr>cp_requestLimit = requests, cp_windowSeconds = seconds, cp_concurrencyLimit = concurrency,
          cp_permitTtlMs = ttl\<rparr>))))"

lemma limit_in_Inr: "limit_in v m = Inr n \<Longrightarrow> 1 \<le> n \<and> n \<le> m"
  by (auto simp: limit_in_def split: option.splits if_splits)

lemma validatePolicy_Inr:
  assumes "validatePolicy p = Inr c"
  shows "1 \<le> cp_requestLimit c \<and> 1 \<le> cp_windowSeconds c \<and> 1 \<le> cp_concurrencyLimit c \<and> 1 \<le> cp_permitTtlMs c"
  using assms unfolding validatePolicy_def ebind_Inr_iff by (elim exE conjE) (auto dest!: limit_in_Inr)

section \<open>Acquiring a permit\<close>

datatype permit_refusal = REQUEST_WINDOW | CONCURRENCY

datatype provider_permit_decision = Permit_allowed string | Permit_refused permit_refusal int

definition window_of :: "string \<Rightarrow> string \<Rightarrow> rate_window \<Rightarrow> bool" where
  "window_of provider operation r \<longleftrightarrow> rw_provider r = provider \<and> rw_operation r = operation"

definition permit_of :: "string \<Rightarrow> string \<Rightarrow> provider_permit \<Rightarrow> bool" where
  "permit_of provider operation p \<longleftrightarrow> pp_provider p = provider \<and> pp_operation p = operation"

text \<open>\<open>INSERT ... ON CONFLICT (provider, operation) DO NOTHING\<close>\<close>

definition ensure_window :: "int \<Rightarrow> string \<Rightarrow> string \<Rightarrow> checked_policy \<Rightarrow> world \<Rightarrow> world" where
  "ensure_window now provider operation c w =
     (if list_ex (window_of provider operation) (w_windows w) then w
      else w\<lparr>w_windows := w_windows w @
        [\<lparr>rw_provider = provider, rw_operation = operation, rw_window_started_at = now,
          rw_window_seconds = cp_windowSeconds c, rw_request_limit = cp_requestLimit c, rw_request_count = 0,
          rw_concurrency_limit = cp_concurrencyLimit c, rw_in_flight = 0, rw_updated_at = now\<rparr>]\<rparr>)"

definition window_expired :: "int \<Rightarrow> checked_policy \<Rightarrow> rate_window \<Rightarrow> bool" where
  "window_expired now c r \<longleftrightarrow> rw_window_started_at r + cp_windowSeconds c * 1000 \<le> now"

definition retry_after_ms :: "int \<Rightarrow> checked_policy \<Rightarrow> rate_window \<Rightarrow> int" where
  "retry_after_ms now c r = max 0 (rw_window_started_at r + cp_windowSeconds c * 1000 - now)"

definition reset_window_row :: "int \<Rightarrow> checked_policy \<Rightarrow> rate_window \<Rightarrow> rate_window" where
  "reset_window_row now c r =
     r\<lparr>rw_window_started_at := now, rw_request_count := 0, rw_window_seconds := cp_windowSeconds c,
       rw_request_limit := cp_requestLimit c, rw_concurrency_limit := cp_concurrencyLimit c, rw_updated_at := now\<rparr>"

definition in_flight_row :: "int \<Rightarrow> int \<Rightarrow> rate_window \<Rightarrow> rate_window" where
  "in_flight_row now n r = r\<lparr>rw_in_flight := n, rw_updated_at := now\<rparr>"

definition grant_row :: "int \<Rightarrow> checked_policy \<Rightarrow> int \<Rightarrow> rate_window \<Rightarrow> rate_window" where
  "grant_row now c n r =
     r\<lparr>rw_request_count := rw_request_count r + 1, rw_in_flight := n, rw_updated_at := now,
       rw_window_seconds := cp_windowSeconds c, rw_request_limit := cp_requestLimit c,
       rw_concurrency_limit := cp_concurrencyLimit c\<rparr>"

definition release_permit_row :: "int \<Rightarrow> provider_permit \<Rightarrow> provider_permit" where
  "release_permit_row now p = p\<lparr>pp_released_at := Some now\<rparr>"

definition lapsed :: "int \<Rightarrow> string \<Rightarrow> string \<Rightarrow> provider_permit \<Rightarrow> bool" where
  "lapsed now provider operation p \<longleftrightarrow>
     permit_of provider operation p \<and> pp_released_at p = None \<and> pp_expires_at p \<le> now"

definition live :: "int \<Rightarrow> string \<Rightarrow> string \<Rightarrow> provider_permit \<Rightarrow> bool" where
  "live now provider operation p \<longleftrightarrow>
     permit_of provider operation p \<and> pp_released_at p = None \<and> pp_expires_at p > now"

definition count_live :: "int \<Rightarrow> string \<Rightarrow> string \<Rightarrow> world \<Rightarrow> int" where
  "count_live now provider operation w = int (length (filter (live now provider operation) (w_permits w)))"

text \<open>The \<open>CHECK\<close> constraints of \<open>provider_permits\<close>.\<close>

definition permit_row_ok :: "provider_permit \<Rightarrow> bool" where
  "permit_row_ok p \<longleftrightarrow>
     pp_expires_at p > pp_acquired_at p \<and>
     (case pp_released_at p of None \<Rightarrow> True | Some t \<Rightarrow> t \<ge> pp_acquired_at p)"

definition check_permits :: "unit world_tx" where
  "check_permits = tbind (gets (\<lambda>w. list_all permit_row_ok (w_permits w))) (\<lambda>ok. require ok (DbError ''check_violation''))"

definition insert_permit :: "provider_permit \<Rightarrow> unit world_tx" where
  "insert_permit p =
     tbind (gets (\<lambda>w. list_ex (\<lambda>q. pp_id q = pp_id p) (w_permits w))) (\<lambda>dup.
     tbind (require (\<not> dup) (DbError ''unique_violation'')) (\<lambda>_.
     tbind (gets (\<lambda>w. case pp_job_id p of None \<Rightarrow> True | Some j \<Rightarrow> find_job j (w_db w) \<noteq> None)) (\<lambda>ref.
     tbind (require ref (DbError ''foreign_key_violation'')) (\<lambda>_.
     tbind (require (permit_row_ok p) (DbError ''check_violation'')) (\<lambda>_.
     modify (\<lambda>w. w\<lparr>w_permits := w_permits w @ [p]\<rparr>))))))"

definition acquireProviderPermit ::
  "int \<Rightarrow> string \<Rightarrow> string \<Rightarrow> string \<Rightarrow> string \<Rightarrow> string option \<Rightarrow> provider_limit_policy \<Rightarrow>
   provider_permit_decision world_tx" where
  "acquireProviderPermit now uuid provider operation ownerId jobId policy =
     tbind (lift_res (validatePolicy policy)) (\<lambda>c.
     tbind (modify (ensure_window now provider operation c)) (\<lambda>_.
     tbind (gets (\<lambda>w. find (window_of provider operation) (w_windows w))) (\<lambda>locked.
     tbind (from_some locked (GenericError ''Provider rate window could not be locked'')) (\<lambda>window.
     (let expired = window_expired now c window;
          request_count = (if expired then 0 else rw_request_count window) in
      tbind (if expired then modify (upd_windows (window_of provider operation) (reset_window_row now c)) else ret ()) (\<lambda>_.
      tbind (modify (upd_permits (lapsed now provider operation) (release_permit_row now))) (\<lambda>_.
      tbind check_permits (\<lambda>_.
      tbind (gets (count_live now provider operation)) (\<lambda>inFlight.
      if inFlight \<ge> cp_concurrencyLimit c then
        tbind (modify (upd_windows (window_of provider operation) (in_flight_row now inFlight))) (\<lambda>_.
        ret (Permit_refused CONCURRENCY 250))
      else if request_count \<ge> cp_requestLimit c then
        ret (Permit_refused REQUEST_WINDOW
          (if expired then cp_windowSeconds c * 1000 else retry_after_ms now c window))
      else
        tbind (insert_permit
          \<lparr>pp_id = uuid, pp_provider = provider, pp_operation = operation, pp_owner_id = ownerId, pp_job_id = jobId,
           pp_acquired_at = now, pp_expires_at = now + cp_permitTtlMs c, pp_released_at = None\<rparr>) (\<lambda>_.
        tbind (modify (upd_windows (window_of provider operation) (grant_row now c (inFlight + 1)))) (\<lambda>_.
        ret (Permit_allowed uuid))))))))))))"

section \<open>Extending and releasing\<close>

definition held_by :: "string \<Rightarrow> string \<Rightarrow> provider_permit \<Rightarrow> bool" where
  "held_by permitId ownerId p \<longleftrightarrow> pp_id p = permitId \<and> pp_owner_id p = ownerId \<and> pp_released_at p = None"

definition extendProviderPermit :: "int \<Rightarrow> string \<Rightarrow> string \<Rightarrow> jsv \<Rightarrow> bool world_tx" where
  "extendProviderPermit now permitId ownerId ttlMs =
     tbind (lift_res (limit_in ttlMs 3600000)) (\<lambda>ttl.
     tbind (gets (\<lambda>w. length (filter (\<lambda>p. held_by permitId ownerId p \<and> pp_expires_at p > now) (w_permits w)))) (\<lambda>rowCount.
     tbind (modify (upd_permits (\<lambda>p. held_by permitId ownerId p \<and> pp_expires_at p > now)
              (\<lambda>p. p\<lparr>pp_expires_at := now + ttl\<rparr>))) (\<lambda>_.
     tbind check_permits (\<lambda>_.
     ret (rowCount = 1)))))"

definition releaseProviderPermit :: "int \<Rightarrow> string \<Rightarrow> string \<Rightarrow> bool world_tx" where
  "releaseProviderPermit now permitId ownerId =
     tbind (gets (\<lambda>w. find (held_by permitId ownerId) (w_permits w))) (\<lambda>released.
     tbind (modify (upd_permits (held_by permitId ownerId) (release_permit_row now))) (\<lambda>_.
     tbind check_permits (\<lambda>_.
     (case released of
        None \<Rightarrow> ret False
      | Some p \<Rightarrow>
          tbind (gets (count_live now (pp_provider p) (pp_operation p))) (\<lambda>n.
          tbind (modify (upd_windows (window_of (pp_provider p) (pp_operation p)) (in_flight_row now n))) (\<lambda>_.
          ret True))))))"

end
