(* ===== verification/Provider_Limit_Properties.thy ===== *)
theory Provider_Limit_Properties
  imports Provider_Limits
begin

text \<open>
  What the permits of \<open>Provider_Limits\<close> guarantee: at no time more than the configured number of calls hold a permit, and
  no interval of one window length sees more than twice the configured number of grants.
\<close>

section \<open>The two views of the permits of one key\<close>

interpretation windows_tbl: keyed_table "\<lambda>r. (rw_provider r, rw_operation r)" .

lemma window_of_key: "window_of P Op r \<longleftrightarrow> (rw_provider r, rw_operation r) = (P, Op)"
  by (simp add: window_of_def)

definition window_row :: "string \<Rightarrow> string \<Rightarrow> world \<Rightarrow> rate_window option" where
  "window_row P Op w = find (window_of P Op) (w_windows w)"

text \<open>The permits that were not released yet, and the times at which permits were granted.\<close>

definition open_permits :: "string \<Rightarrow> string \<Rightarrow> world \<Rightarrow> provider_permit list" where
  "open_permits P Op w = filter (\<lambda>p. permit_of P Op p \<and> pp_released_at p = None) (w_permits w)"

definition grants :: "string \<Rightarrow> string \<Rightarrow> world \<Rightarrow> int list" where
  "grants P Op w = map pp_acquired_at (filter (permit_of P Op) (w_permits w))"

definition count_in :: "int \<Rightarrow> int \<Rightarrow> int list \<Rightarrow> nat" where
  "count_in a b ts = length (filter (\<lambda>t. a \<le> t \<and> t < b) ts)"

lemma window_row_tbl: "window_row P Op w = windows_tbl.lookup (P, Op) (w_windows w)"
  by (simp add: window_row_def windows_tbl.lookup_def window_of_key[abs_def])

lemma window_row_upd:
  assumes "\<And>r. rw_provider (f r) = rw_provider r" "\<And>r. rw_operation (f r) = rw_operation r"
  shows "window_row P Op (upd_windows (window_of Q R) f w) =
    (if (P, Op) = (Q, R) then map_option f (window_row P Op w) else window_row P Op w)"
proof -
  have "(rw_provider (f r), rw_operation (f r)) = (rw_provider r, rw_operation r)" for r using assms by simp
  from windows_tbl.lookup_update_key[of f, OF this, of "(P, Op)" "(Q, R)"] show ?thesis
    unfolding window_row_tbl window_of_key[abs_def] upd_frames .
qed

lemma filter_update_where:
  "(\<And>r. r \<in> set t \<Longrightarrow> P r \<Longrightarrow> Q (f r) = Q r) \<Longrightarrow> (\<And>r. r \<in> set t \<Longrightarrow> P r \<Longrightarrow> g (f r) = g r) \<Longrightarrow>
   map g (filter Q (update_where P f t)) = map g (filter Q t)"
  by (induction t) (auto simp: update_where_def)

lemma grants_upd_permits:
  assumes "\<And>p. pp_provider (f p) = pp_provider p" "\<And>p. pp_operation (f p) = pp_operation p"
    "\<And>p. pp_acquired_at (f p) = pp_acquired_at p"
  shows "grants P Op (upd_permits Q f w) = grants P Op w"
  unfolding grants_def upd_frames by (rule filter_update_where) (simp_all add: permit_of_def assms)

lemma grants_frame [simp]: "grants P Op (upd_windows Q f w) = grants P Op w"
  by (simp add: grants_def)

lemma open_permits_frame [simp]: "open_permits P Op (upd_windows Q f w) = open_permits P Op w"
  by (simp add: open_permits_def)

lemma window_row_frame [simp]: "window_row P Op (upd_permits Q f w) = window_row P Op w"
  by (simp add: window_row_def)

lemma length_filter_update_where_le:
  "(\<And>r. r \<in> set t \<Longrightarrow> P r \<Longrightarrow> Q (f r) \<Longrightarrow> Q r) \<Longrightarrow> length (filter Q (update_where P f t)) \<le> length (filter Q t)"
  by (induction t) (auto simp: update_where_def intro: le_SucI)

lemma open_permits_upd_le:
  assumes "\<And>p. pp_provider (f p) = pp_provider p" "\<And>p. pp_operation (f p) = pp_operation p"
    "\<And>p. pp_released_at (f p) = None \<Longrightarrow> pp_released_at p = None"
  shows "length (open_permits P Op (upd_permits Q f w)) \<le> length (open_permits P Op w)"
  unfolding open_permits_def upd_frames
  by (rule length_filter_update_where_le) (auto simp: permit_of_def assms dest: assms(3))

text \<open>After the lapsed permits were released, the open ones are the live ones.\<close>

lemma open_after_lapse:
  "int (length (open_permits P Op (upd_permits (lapsed now P Op) (release_permit_row now) w))) =
   count_live now P Op (upd_permits (lapsed now P Op) (release_permit_row now) w)"
proof -
  have "filter (\<lambda>p. permit_of P Op p \<and> pp_released_at p = None) (update_where (lapsed now P Op) (release_permit_row now) ps) =
        filter (live now P Op) (update_where (lapsed now P Op) (release_permit_row now) ps)" for ps
    by (induction ps) (auto simp: update_where_def lapsed_def live_def release_permit_row_def)
  then show ?thesis by (simp add: open_permits_def count_live_def)
qed

section \<open>What an acquisition does\<close>

definition lapse :: "int \<Rightarrow> string \<Rightarrow> string \<Rightarrow> world \<Rightarrow> world" where
  "lapse now P Op w = upd_permits (lapsed now P Op) (release_permit_row now) w"

definition roll_window :: "int \<Rightarrow> string \<Rightarrow> string \<Rightarrow> checked_policy \<Rightarrow> world \<Rightarrow> world" where
  "roll_window now P Op c w =
     (let w0 = ensure_window now P Op c w in
      (case window_row P Op w0 of
         None \<Rightarrow> w0
       | Some r \<Rightarrow> if window_expired now c r then upd_windows (window_of P Op) (reset_window_row now c) w0 else w0))"

definition new_permit :: "int \<Rightarrow> string \<Rightarrow> string \<Rightarrow> string \<Rightarrow> string \<Rightarrow> string option \<Rightarrow> int \<Rightarrow> provider_permit" where
  "new_permit now uuid P Op owner job ttl =
     \<lparr>pp_id = uuid, pp_provider = P, pp_operation = Op, pp_owner_id = owner, pp_job_id = job,
      pp_acquired_at = now, pp_expires_at = now + ttl, pp_released_at = None\<rparr>"

lemma ensure_window_row: "\<exists>r. window_row P Op (ensure_window now P Op c w) = Some r"
proof -
  have "\<exists>r\<in>set (w_windows (ensure_window now P Op c w)). window_of P Op r"
    by (auto simp: ensure_window_def list_ex_iff window_of_def)
  then have "window_row P Op (ensure_window now P Op c w) \<noteq> None" by (auto simp: window_row_def find_None_iff)
  then show ?thesis by blast
qed

lemma roll_window_row:
  assumes "window_row P Op (ensure_window now P Op c w) = Some r"
  shows "window_row P Op (roll_window now P Op c w) = Some (if window_expired now c r then reset_window_row now c r else r)"
    "roll_window now P Op c w = (if window_expired now c r
       then upd_windows (window_of P Op) (reset_window_row now c) (ensure_window now P Op c w) else ensure_window now P Op c w)"
  using assms by (auto simp: roll_window_def Let_def window_row_upd reset_window_row_def)

lemma acquire_Inr:
  assumes "acquireProviderPermit now uuid P Op owner job policy w = Inr (d, w')"
  shows "\<exists>c r n. validatePolicy policy = Inr c \<and> window_row P Op (roll_window now P Op c w) = Some r \<and>
    n = count_live now P Op (lapse now P Op (roll_window now P Op c w)) \<and>
    (cp_concurrencyLimit c \<le> n \<and> d = Permit_refused CONCURRENCY 250 \<and>
       w' = upd_windows (window_of P Op) (in_flight_row now n) (lapse now P Op (roll_window now P Op c w)) \<or>
     (\<exists>ms. n < cp_concurrencyLimit c \<and> cp_requestLimit c \<le> rw_request_count r \<and> d = Permit_refused REQUEST_WINDOW ms \<and>
       w' = lapse now P Op (roll_window now P Op c w)) \<or>
     n < cp_concurrencyLimit c \<and> rw_request_count r < cp_requestLimit c \<and> d = Permit_allowed uuid \<and>
       w' = upd_windows (window_of P Op) (grant_row now c (n + 1))
              (lapse now P Op (roll_window now P Op c w)
                 \<lparr>w_permits := w_permits (lapse now P Op (roll_window now P Op c w)) @
                    [new_permit now uuid P Op owner job (cp_permitTtlMs c)]\<rparr>))"
proof -
  from assms obtain c where c: "validatePolicy policy = Inr c" by (auto simp: acquireProviderPermit_def tx_simps)
  obtain r where r: "window_row P Op (ensure_window now P Op c w) = Some r" using ensure_window_row by blast
  note roll = roll_window_row[OF r]
  define w1 where "w1 = roll_window now P Op c w"
  define w2 where "w2 = lapse now P Op w1"
  define r1 where "r1 = (if window_expired now c r then reset_window_row now c r else r)"
  define n where "n = count_live now P Op w2"
  have cnt: "rw_request_count r1 = (if window_expired now c r then 0 else rw_request_count r)"
    by (simp add: r1_def reset_window_row_def)
  from assms c r have rest: "(if cp_concurrencyLimit c \<le> n then
        tbind (modify (upd_windows (window_of P Op) (in_flight_row now n))) (\<lambda>_. ret (Permit_refused CONCURRENCY 250))
      else if cp_requestLimit c \<le> rw_request_count r1 then
        ret (Permit_refused REQUEST_WINDOW (if window_expired now c r then cp_windowSeconds c * 1000 else retry_after_ms now c r))
      else tbind (insert_permit (new_permit now uuid P Op owner job (cp_permitTtlMs c))) (\<lambda>_.
        tbind (modify (upd_windows (window_of P Op) (grant_row now c (n + 1)))) (\<lambda>_. ret (Permit_allowed uuid)))) w2 = Inr (d, w')"
    unfolding acquireProviderPermit_def Let_def cnt new_permit_def
    by (elim tx_elims) (auto simp: tx_simps window_row_def roll w1_def w2_def n_def lapse_def check_permits_def split: if_splits)
  have row: "window_row P Op w1 = Some r1" using roll by (simp add: w1_def r1_def)
  show ?thesis unfolding w1_def[symmetric] w2_def[symmetric]
  proof (intro exI[of _ c] exI[of _ r1] exI[of _ n] conjI, rule c, unfold w1_def[symmetric] w2_def[symmetric], rule row, rule n_def)
    show "cp_concurrencyLimit c \<le> n \<and> d = Permit_refused CONCURRENCY 250 \<and>
       w' = upd_windows (window_of P Op) (in_flight_row now n) w2 \<or>
     (\<exists>ms. n < cp_concurrencyLimit c \<and> cp_requestLimit c \<le> rw_request_count r1 \<and> d = Permit_refused REQUEST_WINDOW ms \<and> w' = w2) \<or>
     n < cp_concurrencyLimit c \<and> rw_request_count r1 < cp_requestLimit c \<and> d = Permit_allowed uuid \<and>
       w' = upd_windows (window_of P Op) (grant_row now c (n + 1))
              (w2\<lparr>w_permits := w_permits w2 @ [new_permit now uuid P Op owner job (cp_permitTtlMs c)]\<rparr>)"
      using rest by (auto simp: insert_permit_def tx_simps split: if_splits)
  qed
qed

lemma roll_frames [simp]:
  "grants P Op (roll_window now Q R c w) = grants P Op w" "open_permits P Op (roll_window now Q R c w) = open_permits P Op w"
  "grants P Op (lapse now Q R w) = grants P Op w" "window_row P Op (lapse now Q R w) = window_row P Op w"
proof -
  have "w_permits (roll_window now Q R c w) = w_permits w"
    by (auto simp: roll_window_def Let_def ensure_window_def split: option.splits)
  then show "grants P Op (roll_window now Q R c w) = grants P Op w" "open_permits P Op (roll_window now Q R c w) = open_permits P Op w"
    by (simp_all add: grants_def open_permits_def)
  show "grants P Op (lapse now Q R w) = grants P Op w" "window_row P Op (lapse now Q R w) = window_row P Op w"
    by (simp_all add: lapse_def grants_upd_permits release_permit_row_def)
qed

lemma roll_window_other: "(Q, R) \<noteq> (P, Op) \<Longrightarrow> window_row P Op (roll_window now Q R c w) = window_row P Op w"
  by (auto simp: roll_window_def Let_def ensure_window_def window_row_upd reset_window_row_def split: option.splits)
    (auto simp: window_row_tbl windows_tbl.lookup_append split: option.splits)

section \<open>Concurrency\<close>

text \<open>
  One transaction at time \<open>now\<close>. Every process acquires permits for the key \<open>(P, Op)\<close> under the same policy \<open>c\<close>; other
  keys may use any policy.
\<close>

inductive permit_op :: "string \<Rightarrow> string \<Rightarrow> checked_policy \<Rightarrow> int \<Rightarrow> world \<Rightarrow> world \<Rightarrow> bool"
  for P Op c now w w' where
  acquire: "acquireProviderPermit now uuid P' Op' owner job policy w = Inr (d, w') \<Longrightarrow>
     ((P', Op') = (P, Op) \<longrightarrow> validatePolicy policy = Inr c) \<Longrightarrow> permit_op P Op c now w w'"
| extend: "extendProviderPermit now permitId owner ttlMs w = Inr (b, w') \<Longrightarrow> permit_op P Op c now w w'"
| release: "releaseProviderPermit now permitId owner w = Inr (b, w') \<Longrightarrow> permit_op P Op c now w w'"

lemma lapse_open_le: "length (open_permits P Op (lapse now Q R w)) \<le> length (open_permits P Op w)"
  unfolding lapse_def by (rule open_permits_upd_le) (simp_all add: release_permit_row_def)

lemma acquire_open:
  assumes "acquireProviderPermit now uuid Q R owner job policy w = Inr (d, w')"
    and "(Q, R) = (P, Op) \<longrightarrow> validatePolicy policy = Inr c"
    and "int (length (open_permits P Op w)) \<le> cp_concurrencyLimit c"
  shows "int (length (open_permits P Op w')) \<le> cp_concurrencyLimit c"
proof -
  from acquire_Inr[OF assms(1)] obtain k where k: "validatePolicy policy = Inr k" by blast
  define v where "v = lapse now Q R (roll_window now Q R k w)"
  have le: "length (open_permits P Op v) \<le> length (open_permits P Op w)"
    using lapse_open_le[of P Op now Q R "roll_window now Q R k w"] by (simp add: v_def)
  have cnt: "count_live now Q R v = int (length (open_permits Q R v))"
    unfolding v_def lapse_def by (rule open_after_lapse[symmetric])
  have new: "length (open_permits P Op (v\<lparr>w_permits := w_permits v @ [new_permit now uuid Q R owner job ttl]\<rparr>)) =
      length (open_permits P Op v) + (if (Q, R) = (P, Op) then 1 else 0)" for ttl
    by (auto simp: open_permits_def new_permit_def permit_of_def)
  show ?thesis using acquire_Inr[OF assms(1)] k le cnt assms(2,3) unfolding v_def[symmetric]
    by (auto simp: new v_def[symmetric] split: if_splits)
qed

lemma permit_op_open:
  assumes "permit_op P Op c now w w'" "int (length (open_permits P Op w)) \<le> cp_concurrencyLimit c"
  shows "int (length (open_permits P Op w')) \<le> cp_concurrencyLimit c"
  using assms(1)
proof (cases rule: permit_op.cases)
  case acquire
  then show ?thesis using acquire_open assms(2) by blast
next
  case (extend permitId owner ttlMs b)
  then obtain ttl where "w' = upd_permits (\<lambda>p. held_by permitId owner p \<and> pp_expires_at p > now) (\<lambda>p. p\<lparr>pp_expires_at := now + ttl\<rparr>) w"
    by (auto simp: extendProviderPermit_def check_permits_def tx_simps)
  then show ?thesis
    using open_permits_upd_le[of "\<lambda>p. p\<lparr>pp_expires_at := now + ttl\<rparr>" P Op "\<lambda>p. held_by permitId owner p \<and> pp_expires_at p > now" w] assms(2)
    by simp
next
  case (release permitId owner b)
  then have "open_permits P Op w' = open_permits P Op (upd_permits (held_by permitId owner) (release_permit_row now) w)"
    by (auto simp: releaseProviderPermit_def check_permits_def tx_simps split: option.splits)
  then show ?thesis
    using open_permits_upd_le[of "release_permit_row now" P Op "held_by permitId owner" w] assms(2)
    by (simp add: release_permit_row_def)
qed

lemma count_live_le_open: "count_live now P Op w \<le> int (length (open_permits P Op w))"
proof -
  have "length (filter (live now P Op) ps) \<le> length (filter (\<lambda>p. permit_of P Op p \<and> pp_released_at p = None) ps)" for ps
    by (induction ps) (auto simp: live_def)
  then show ?thesis by (simp add: count_live_def open_permits_def)
qed

interpretation concurrency: step_invariant "\<lambda>w w'. \<exists>now. permit_op P Op c now w w'"
  "\<lambda>w. int (length (open_permits P Op w)) \<le> cp_concurrencyLimit c" for P Op c
  by unfold_locales (blast intro: permit_op_open)

section \<open>Rate\<close>

definition count_from :: "int \<Rightarrow> int list \<Rightarrow> nat" where
  "count_from a ts = length (filter (\<lambda>t. a \<le> t) ts)"

lemma count_in_split:
  assumes "lo \<le> a"
  shows "count_in a b ts \<le> count_in lo m ts + count_from m ts"
  unfolding count_in_def count_from_def using assms by (induction ts) auto

lemma count_in_from: "m \<le> a \<Longrightarrow> count_in a b ts \<le> count_from m ts"
  unfolding count_in_def count_from_def by (induction ts) auto

lemma count_in_append: "count_in a b (ts @ [t]) = count_in a b ts + (if a \<le> t \<and> t < b then 1 else 0)"
  by (simp add: count_in_def)

lemma count_from_append: "count_from a (ts @ [t]) = count_from a ts + (if a \<le> t then 1 else 0)"
  by (simp add: count_from_def)

lemma count_from_future: "\<forall>x\<in>set ts. x < a \<Longrightarrow> count_from a ts = 0"
  by (auto simp: count_from_def filter_empty_conv)

text \<open>
  The fixed-window counter, abstractly: a window that started at \<open>ws\<close> with \<open>n\<close> grants so far, under limit \<open>L\<close> and length
  \<open>ms\<close>, among the grant times \<open>ts\<close>.
\<close>

definition spread_ok :: "int \<Rightarrow> int \<Rightarrow> int list \<Rightarrow> bool" where
  "spread_ok L ms ts \<longleftrightarrow> (\<forall>a. int (count_in a (a + ms) ts) \<le> 2 * L)"

definition window_ok :: "int \<Rightarrow> int \<Rightarrow> int \<Rightarrow> int \<Rightarrow> int list \<Rightarrow> bool" where
  "window_ok L ms ws n ts \<longleftrightarrow>
     int (count_from ws ts) \<le> n \<and> n \<le> L \<and> int (count_in (ws - ms) ws ts) \<le> L \<and> (\<forall>x\<in>set ts. x < ws + ms) \<and> spread_ok L ms ts"

lemma window_start: "0 \<le> L \<Longrightarrow> window_ok L ms ws 0 []"
  by (simp add: window_ok_def count_from_def count_in_def spread_ok_def)

lemma window_roll:
  assumes "window_ok L ms ws n ts" "ws + ms \<le> now" "0 < ms" "0 \<le> L"
  shows "window_ok L ms now 0 ts"
proof -
  have before: "\<forall>x\<in>set ts. x < now" using assms(1,2) by (auto simp: window_ok_def)
  have "count_in (now - ms) now ts \<le> count_from ws ts" using assms(2) by (intro count_in_from) simp
  then show ?thesis using assms before count_from_future[OF before] by (auto simp: window_ok_def)
qed

lemma window_grant:
  assumes "window_ok L ms ws n ts" "ws \<le> now" "now < ws + ms" "n < L"
  shows "window_ok L ms ws (n + 1) (ts @ [now])"
proof -
  have "int (count_in a (a + ms) (ts @ [now])) \<le> 2 * L" for a
  proof (cases "a \<le> now \<and> now < a + ms")
    case True
    then have "count_in a (a + ms) ts \<le> count_in (ws - ms) ws ts + count_from ws ts"
      using assms(2) by (intro count_in_split) simp
    then show ?thesis using True assms(1,4) by (simp add: count_in_append window_ok_def)
  next
    case False
    then show ?thesis using assms(1) by (auto simp: count_in_append window_ok_def spread_ok_def)
  qed
  then show ?thesis using assms by (auto simp: window_ok_def count_in_append count_from_append spread_ok_def)
qed

text \<open>The tables implement that counter.\<close>

definition rate_ok :: "string \<Rightarrow> string \<Rightarrow> checked_policy \<Rightarrow> int \<times> world \<Rightarrow> bool" where
  "rate_ok P Op c tw \<longleftrightarrow>
     (case window_row P Op (snd tw) of
        None \<Rightarrow> grants P Op (snd tw) = []
      | Some r \<Rightarrow> rw_window_started_at r \<le> fst tw \<and>
          window_ok (cp_requestLimit c) (cp_windowSeconds c * 1000) (rw_window_started_at r) (rw_request_count r) (grants P Op (snd tw)))"

definition policy_ok :: "checked_policy \<Rightarrow> bool" where
  "policy_ok c \<longleftrightarrow> 1 \<le> cp_requestLimit c \<and> 1 \<le> cp_windowSeconds c \<and> 1 \<le> cp_concurrencyLimit c \<and> 1 \<le> cp_permitTtlMs c"

lemma roll_window_ok:
  assumes "rate_ok P Op c (t, w)" "t \<le> now" "policy_ok c" "window_row P Op (roll_window now P Op c w) = Some r"
  shows "rw_window_started_at r \<le> now \<and> now < rw_window_started_at r + cp_windowSeconds c * 1000 \<and>
    window_ok (cp_requestLimit c) (cp_windowSeconds c * 1000) (rw_window_started_at r) (rw_request_count r) (grants P Op w)"
proof -
  obtain r0 where r0: "window_row P Op (ensure_window now P Op c w) = Some r0" using ensure_window_row by blast
  have fresh: "window_row P Op w = None \<Longrightarrow> rw_window_started_at r0 = now \<and> rw_request_count r0 = 0"
    using r0 by (auto simp: ensure_window_def window_row_def list_ex_iff find_None_iff windows_tbl.lookup_append
        window_row_tbl[unfolded window_row_def] split: if_splits option.splits)
  have old: "window_row P Op w = Some r0" if "window_row P Op w \<noteq> None"
    using that r0 by (auto simp: ensure_window_def window_row_def list_ex_iff find_Some_iff split: if_splits)
  have ok0: "rw_window_started_at r0 \<le> now \<and>
      window_ok (cp_requestLimit c) (cp_windowSeconds c * 1000) (rw_window_started_at r0) (rw_request_count r0) (grants P Op w)"
    using assms(1-3) fresh old by (cases "window_row P Op w") (auto simp: rate_ok_def policy_ok_def window_start)
  show ?thesis
  proof (cases "window_expired now c r0")
    case True
    then have "r = reset_window_row now c r0" using roll_window_row(1)[OF r0] assms(4) by simp
    then show ?thesis using True ok0 assms(3)
      by (auto simp: reset_window_row_def window_expired_def policy_ok_def intro: window_roll)
  next
    case False
    then show ?thesis using roll_window_row(1)[OF r0] assms(4) ok0 by (auto simp: window_expired_def)
  qed
qed

lemma rate_ok_cong:
  assumes "grants P Op w' = grants P Op w" "window_row P Op w' = map_option f (window_row P Op w)"
    "\<And>r. rw_window_started_at (f r) = rw_window_started_at r" "\<And>r. rw_request_count (f r) = rw_request_count r"
    "rate_ok P Op c (t, w)" "t \<le> now"
  shows "rate_ok P Op c (now, w')"
  using assms by (auto simp: rate_ok_def split: option.splits)

lemma rate_ok_same:
  "grants P Op w' = grants P Op w \<Longrightarrow> window_row P Op w' = window_row P Op w \<Longrightarrow> rate_ok P Op c (t, w) \<Longrightarrow> t \<le> now \<Longrightarrow>
   rate_ok P Op c (now, w')"
  by (rule rate_ok_cong[of P Op w' w "\<lambda>r. r"]) (simp_all add: option.map_ident)

lemma acquire_rate_same:
  assumes "acquireProviderPermit now uuid P Op owner job policy w = Inr (d, w')"
    and "validatePolicy policy = Inr c" "rate_ok P Op c (t, w)" "t \<le> now" "policy_ok c"
  shows "rate_ok P Op c (now, w')"
proof -
  define v where "v = lapse now P Op (roll_window now P Op c w)"
  from acquire_Inr[OF assms(1)] assms(2) obtain r n where r: "window_row P Op (roll_window now P Op c w) = Some r"
    and out: "w' = upd_windows (window_of P Op) (in_flight_row now n) v \<or> w' = v \<or>
      rw_request_count r < cp_requestLimit c \<and>
      w' = upd_windows (window_of P Op) (grant_row now c (n + 1))
        (v\<lparr>w_permits := w_permits v @ [new_permit now uuid P Op owner job (cp_permitTtlMs c)]\<rparr>)"
    unfolding v_def by auto
  note ok = roll_window_ok[OF assms(3-5) r]
  have v: "grants P Op v = grants P Op w" "window_row P Op v = Some r" using r by (simp_all add: v_def)
  have g: "grants P Op (v\<lparr>w_permits := w_permits v @ [new_permit now uuid P Op owner job ttl]\<rparr>) = grants P Op w @ [now]" for ttl
    using v(1) by (simp add: grants_def new_permit_def permit_of_def)
  have row: "window_row P Op (v\<lparr>w_permits := x\<rparr>) = Some r" for x using v(2) by (simp add: window_row_def)
  from out show ?thesis
  proof (elim disjE conjE)
    assume "w' = upd_windows (window_of P Op) (in_flight_row now n) v"
    then show ?thesis using ok v by (simp add: rate_ok_def window_row_upd in_flight_row_def)
  next
    assume "w' = v"
    then show ?thesis using ok v by (simp add: rate_ok_def)
  next
    assume "rw_request_count r < cp_requestLimit c"
      "w' = upd_windows (window_of P Op) (grant_row now c (n + 1))
        (v\<lparr>w_permits := w_permits v @ [new_permit now uuid P Op owner job (cp_permitTtlMs c)]\<rparr>)"
    then show ?thesis using ok v window_grant by (simp add: rate_ok_def window_row_upd grant_row_def g row)
  qed
qed

lemma acquire_rate_other:
  assumes "acquireProviderPermit now uuid Q R owner job policy w = Inr (d, w')" "(Q, R) \<noteq> (P, Op)"
  shows "grants P Op w' = grants P Op w \<and> window_row P Op w' = window_row P Op w"
proof -
  from acquire_Inr[OF assms(1)] obtain k where k: "validatePolicy policy = Inr k" by blast
  define v where "v = lapse now Q R (roll_window now Q R k w)"
  have v: "grants P Op v = grants P Op w" "window_row P Op v = window_row P Op w"
    using assms(2) by (simp_all add: v_def roll_window_other)
  have g: "grants P Op (v\<lparr>w_permits := w_permits v @ [new_permit now uuid Q R owner job ttl]\<rparr>) = grants P Op v" for ttl
    using assms(2) by (auto simp: grants_def new_permit_def permit_of_def)
  have row: "window_row P Op (v\<lparr>w_permits := x\<rparr>) = window_row P Op v" for x by (simp add: window_row_def)
  show ?thesis using acquire_Inr[OF assms(1)] k assms(2) v unfolding v_def[symmetric]
    by (auto simp: v_def[symmetric] g row window_row_upd in_flight_row_def grant_row_def)
qed

lemma permit_op_rate:
  assumes "permit_op P Op c now w w'" "rate_ok P Op c (t, w)" "t \<le> now" "policy_ok c"
  shows "rate_ok P Op c (now, w')"
  using assms(1)
proof (cases rule: permit_op.cases)
  case (acquire uuid Q R owner job policy d)
  show ?thesis
  proof (cases "(Q, R) = (P, Op)")
    case True
    then show ?thesis using acquire acquire_rate_same assms(2-4) by auto
  next
    case False
    then show ?thesis using acquire_rate_other[OF acquire(1)] rate_ok_same assms(2,3) by blast
  qed
next
  case (extend permitId owner ttlMs b)
  then obtain ttl where "w' = upd_permits (\<lambda>p. held_by permitId owner p \<and> pp_expires_at p > now) (\<lambda>p. p\<lparr>pp_expires_at := now + ttl\<rparr>) w"
    by (auto simp: extendProviderPermit_def check_permits_def tx_simps)
  then have "grants P Op w' = grants P Op w" "window_row P Op w' = window_row P Op w" by (simp_all add: grants_upd_permits)
  then show ?thesis using rate_ok_same assms(2,3) by blast
next
  case (release permitId owner b)
  define v where "v = upd_permits (held_by permitId owner) (release_permit_row now) w"
  have v: "grants P Op v = grants P Op w" "window_row P Op v = window_row P Op w"
    by (simp_all add: v_def grants_upd_permits release_permit_row_def)
  from release have "w' = v \<or> (\<exists>Q R n. w' = upd_windows (window_of Q R) (in_flight_row now n) v)"
    unfolding v_def by (auto simp: releaseProviderPermit_def check_permits_def tx_simps split: option.splits)
  then show ?thesis
  proof (elim disjE exE)
    assume "w' = v"
    then show ?thesis using v rate_ok_same assms(2,3) by blast
  next
    fix Q R n assume w': "w' = upd_windows (window_of Q R) (in_flight_row now n) v"
    define f where "f = (if (P, Op) = (Q, R) then in_flight_row now n else (\<lambda>r. r))"
    have "window_row P Op w' = map_option f (window_row P Op w)"
      unfolding w' f_def using v(2) by (auto simp: window_row_upd in_flight_row_def option.map_ident)
    moreover have "rw_window_started_at (f r) = rw_window_started_at r" "rw_request_count (f r) = rw_request_count r" for r
      by (simp_all add: f_def in_flight_row_def)
    ultimately show ?thesis using rate_ok_cong[of P Op w' w f] assms(2,3) v(1) w' by simp
  qed
qed

interpretation rate: step_invariant "\<lambda>s s'. fst s \<le> fst s' \<and> permit_op P Op c (fst s') (snd s) (snd s')"
  "\<lambda>s. policy_ok c \<and> rate_ok P Op c s" for P Op c
  by unfold_locales (metis permit_op_rate prod.collapse)

section \<open>The guarantees\<close>

text \<open>
  \<^bold>\<open>C16.\<close> Whatever the processes do, in whatever order their transactions take the lock (the times \<open>NOW()\<close> need not
  increase along the run), the number of unreleased permits of a provider and operation never exceeds the concurrency limit,
  hence neither does, at any time \<open>now\<close>, the number of live ones; and an acquisition that is granted left room before it.
\<close>

theorem permit_concurrency:
  assumes "(\<lambda>w w'. \<exists>now. permit_op P Op c now w w')\<^sup>*\<^sup>* w w'" "open_permits P Op w = []" "1 \<le> cp_concurrencyLimit c"
  shows "int (length (open_permits P Op w')) \<le> cp_concurrencyLimit c \<and> count_live now P Op w' \<le> cp_concurrencyLimit c"
  using concurrency.run_keeps[OF assms(1)] assms(2,3) count_live_le_open[of now P Op w'] by fastforce

text \<open>
  \<^bold>\<open>C17.\<close> As long as the transactions of the processes are ordered by their start times, no half-open interval as long as
  the window, wherever it starts, contains more than twice \<open>requestLimit\<close> grants for a provider and operation, although
  only a fixed window is counted; and within the current window at most \<open>requestLimit\<close> were granted.
\<close>

theorem permit_rate:
  assumes "(\<lambda>s s'. fst s \<le> fst s' \<and> permit_op P Op c (fst s') (snd s) (snd s'))\<^sup>*\<^sup>* (t, w) (t', w')"
    and "grants P Op w = []" "window_row P Op w = None" "policy_ok c"
  shows "int (count_in a (a + cp_windowSeconds c * 1000) (grants P Op w')) \<le> 2 * cp_requestLimit c \<and>
    (case window_row P Op w' of None \<Rightarrow> grants P Op w' = []
     | Some r \<Rightarrow> int (count_from (rw_window_started_at r) (grants P Op w')) \<le> cp_requestLimit c)"
proof -
  have "rate_ok P Op c (t, w)" using assms(2,3) by (simp add: rate_ok_def)
  with rate.run_keeps[OF assms(1)] assms(4) have "rate_ok P Op c (t', w')" by blast
  then show ?thesis using assms(4)
    by (auto simp: rate_ok_def window_ok_def spread_ok_def policy_ok_def count_in_def split: option.splits)
qed

section \<open>An example: two processes under a limit of one call\<close>

definition demo_policy :: provider_limit_policy where
  "demo_policy = \<lparr>lp_requestLimit = js_int 1, lp_windowSeconds = js_int 1, lp_concurrencyLimit = js_int 1, lp_permitTtlMs = js_int 500\<rparr>"

definition demo_checked :: checked_policy where
  "demo_checked = \<lparr>cp_requestLimit = 1, cp_windowSeconds = 1, cp_concurrencyLimit = 1, cp_permitTtlMs = 500\<rparr>"

definition empty_world :: "database \<Rightarrow> world" where
  "empty_world db = \<lparr>w_db = db, w_windows = [], w_permits = [], w_executions = []\<rparr>"

definition demo_window :: "int \<Rightarrow> int \<Rightarrow> int \<Rightarrow> int \<Rightarrow> rate_window" where
  "demo_window started n flight updated = \<lparr>rw_provider = ''p'', rw_operation = ''o'', rw_window_started_at = started, rw_window_seconds = 1,
     rw_request_limit = 1, rw_request_count = n, rw_concurrency_limit = 1, rw_in_flight = flight, rw_updated_at = updated\<rparr>"

definition demo_world :: "database \<Rightarrow> world" where
  "demo_world db = \<lparr>w_db = db, w_windows = [demo_window 1500 1 1 1500],
     w_permits = [(new_permit 0 ''a'' ''p'' ''o'' ''x'' None 500)\<lparr>pp_released_at := Some 1500\<rparr>, new_permit 1500 ''b'' ''p'' ''o'' ''y'' None 500],
     w_executions = []\<rparr>"

definition demo_mid :: "database \<Rightarrow> world" where
  "demo_mid db = \<lparr>w_db = db, w_windows = [demo_window 0 1 1 0], w_permits = [new_permit 0 ''a'' ''p'' ''o'' ''x'' None 500], w_executions = []\<rparr>"

lemma demo_policy_checked: "validatePolicy demo_policy = Inr demo_checked"
  by (simp add: validatePolicy_def demo_policy_def demo_checked_def limit_in_def js_int_def)

lemmas acquire_eval = acquireProviderPermit_def tx_defs demo_policy_checked demo_checked_def empty_world_def ensure_window_def
  window_of_def window_expired_def Let_def upd_permits_def upd_windows_def update_where_def check_permits_def count_live_def
  live_def lapsed_def permit_of_def insert_permit_def permit_row_ok_def grant_row_def new_permit_def demo_window_def
  release_permit_row_def reset_window_row_def

lemma demo_first: "acquireProviderPermit 0 ''a'' ''p'' ''o'' ''x'' None demo_policy (empty_world db) = Inr (Permit_allowed ''a'', demo_mid db)"
  by (simp add: acquire_eval demo_mid_def)

lemma demo_second: "acquireProviderPermit 1500 ''b'' ''p'' ''o'' ''y'' None demo_policy (demo_mid db) = Inr (Permit_allowed ''b'', demo_world db)"
  by (simp add: acquire_eval demo_mid_def demo_world_def)

lemma demo_third: "acquireProviderPermit 1600 ''c'' ''p'' ''o'' ''z'' None demo_policy (demo_world db) =
    Inr (Permit_refused CONCURRENCY 250, demo_world db\<lparr>w_windows := [demo_window 1500 1 1 1600]\<rparr>)"
  by (simp add: acquire_eval demo_world_def in_flight_row_def)

lemma demo_ops: "permit_op ''p'' ''o'' demo_checked 0 (empty_world db) (demo_mid db)"
  "permit_op ''p'' ''o'' demo_checked 1500 (demo_mid db) (demo_world db)"
  using permit_op.acquire[OF demo_first, of "''p''" "''o''"] permit_op.acquire[OF demo_second, of "''p''" "''o''"] demo_policy_checked
  by blast+

theorem permit_concurrency_witness:
  "(\<lambda>w w'. \<exists>now. permit_op ''p'' ''o'' demo_checked now w w')\<^sup>*\<^sup>* (empty_world empty_database) (demo_world empty_database) \<and>
   int (length (open_permits ''p'' ''o'' (demo_world empty_database))) \<le> 1 \<and>
   acquireProviderPermit 1600 ''c'' ''p'' ''o'' ''z'' None demo_policy (demo_world empty_database) =
    Inr (Permit_refused CONCURRENCY 250, demo_world empty_database\<lparr>w_windows := [demo_window 1500 1 1 1600]\<rparr>)"
proof -
  have run: "(\<lambda>w w'. \<exists>now. permit_op ''p'' ''o'' demo_checked now w w')\<^sup>*\<^sup>* (empty_world empty_database) (demo_world empty_database)"
    using demo_ops by (blast intro: rtranclp.rtrancl_into_rtrancl rtranclp.rtrancl_refl)
  have "open_permits ''p'' ''o'' (empty_world empty_database) = []" by (simp add: open_permits_def empty_world_def)
  then show ?thesis using permit_concurrency[OF run] run demo_third by (simp add: demo_checked_def)
qed

theorem permit_rate_witness:
  "(\<lambda>s s'. fst s \<le> fst s' \<and> permit_op ''p'' ''o'' demo_checked (fst s') (snd s) (snd s'))\<^sup>*\<^sup>* (0, empty_world empty_database) (1500, demo_world empty_database) \<and>
   grants ''p'' ''o'' (demo_world empty_database) = [0, 1500] \<and>
   int (count_in 501 1501 (grants ''p'' ''o'' (demo_world empty_database))) \<le> 2"
proof -
  have "(\<lambda>s s'. fst s \<le> fst s' \<and> permit_op ''p'' ''o'' demo_checked (fst s') (snd s) (snd s')) (0, empty_world empty_database) (0, demo_mid empty_database)"
    "(\<lambda>s s'. fst s \<le> fst s' \<and> permit_op ''p'' ''o'' demo_checked (fst s') (snd s) (snd s')) (0, demo_mid empty_database) (1500, demo_world empty_database)"
    using demo_ops by simp_all
  then have run: "(\<lambda>s s'. fst s \<le> fst s' \<and> permit_op ''p'' ''o'' demo_checked (fst s') (snd s) (snd s'))\<^sup>*\<^sup>* (0, empty_world empty_database) (1500, demo_world empty_database)"
    by (blast intro: rtranclp.rtrancl_into_rtrancl rtranclp.rtrancl_refl)
  have "grants ''p'' ''o'' (empty_world empty_database) = []" "window_row ''p'' ''o'' (empty_world empty_database) = None" "policy_ok demo_checked"
    by (simp_all add: grants_def window_row_def empty_world_def policy_ok_def demo_checked_def)
  from permit_rate[OF run this, of 501] run show ?thesis
    by (simp add: demo_checked_def demo_world_def grants_def permit_of_def new_permit_def)
qed

end
