(* ===== verification/Provider_Executions.thy ===== *)
theory Provider_Executions
  imports Provider_Store
begin

text \<open>
  The provenance of provider calls, \<open>lib/services/provider-executions.ts\<close>. \<open>estimated_cost\<close> is kept exact, where the
  column rounds to eight decimals.
\<close>

section \<open>The error text of an execution\<close>

definition key_char :: "char \<Rightarrow> bool" where
  "key_char c \<longleftrightarrow> is_alnum c \<or> c \<in> set ''._-''"

text \<open>\<open>(?:sk-|bearer\s+)[A-Za-z0-9._-]+\<close>, returning the rest of the input; the classes are disjoint where they meet.\<close>

definition match_key :: "string \<Rightarrow> string option" where
  "match_key s =
     (let after = (\<lambda>r. if r \<noteq> [] \<and> key_char (hd r) then Some (dropWhile key_char r) else None) in
      case match_ci ''sk-'' s of
        Some r \<Rightarrow> after r
      | None \<Rightarrow>
          (case match_ci ''bearer'' s of
             None \<Rightarrow> None
           | Some r \<Rightarrow> if r \<noteq> [] \<and> js_space (hd r) then after (dropWhile js_space r) else None))"

lemma match_key_length: "match_key s = Some r \<Longrightarrow> length r < length s"
proof -
  have d: "length (dropWhile key_char x) \<le> length x" for x by (rule length_dropWhile_le)
  have e: "length (dropWhile key_char (dropWhile js_space x)) \<le> length x" for x
    by (meson le_trans length_dropWhile_le)
  assume "match_key s = Some r"
  then consider r1 where "match_ci ''sk-'' s = Some r1" "r = dropWhile key_char r1"
    | r1 where "match_ci ''bearer'' s = Some r1" "r = dropWhile key_char (dropWhile js_space r1)"
    by (auto simp: match_key_def Let_def split: option.splits if_splits)
  then show ?thesis
  proof cases
    case 1
    then show ?thesis using match_ci_length[of "''sk-''" s r1] d[of r1] by simp
  next
    case 2
    then show ?thesis using match_ci_length[of "''bearer''" s r1] e[of r1] by simp
  qed
qed

function redact_keys :: "string \<Rightarrow> string" where
  "redact_keys s =
     (case s of
        [] \<Rightarrow> []
      | c # cs \<Rightarrow> (case match_key s of Some r \<Rightarrow> ''[REDACTED]'' @ redact_keys r | None \<Rightarrow> c # redact_keys cs))"
  by pat_completeness auto
termination
  by (relation "measure length") (auto dest: match_key_length)

declare redact_keys.simps [simp del]

definition line_char :: "char \<Rightarrow> bool" where
  "line_char c \<longleftrightarrow> (let n = (of_char c :: nat) in n = 9 \<or> n = 10 \<or> n = 13)"

text \<open>\<open>[\r\n\t]+\<close>, each maximal run replaced by one space.\<close>

fun squash_lines :: "string \<Rightarrow> string" where
  "squash_lines [] = []"
| "squash_lines [c] = (if line_char c then '' '' else [c])"
| "squash_lines (c # d # s) =
     (if line_char c then (if line_char d then squash_lines (d # s) else CHR '' '' # squash_lines (d # s))
      else c # squash_lines (d # s))"

definition safeError :: "string option \<Rightarrow> string option" where
  "safeError v = (case truthy v of None \<Rightarrow> None | Some s \<Rightarrow> Some (take 1000 (squash_lines (redact_keys s))))"

section \<open>Starting an execution\<close>

record start_execution_input =
  sx_projectId :: "string option"
  sx_runId :: "string option"
  sx_runStageId :: "string option"
  sx_jobId :: "string option"
  sx_jobAttempt :: "(string \<times> int) option"
  sx_provider :: string
  sx_model :: "string option"
  sx_operation :: string
  sx_clientRequestId :: string
  sx_promptTemplateVersion :: "string option"
  sx_structuredSchemaVersion :: "string option"
  sx_inputHash :: string
  sx_retryCount :: int

definition execution_refs_ok :: "start_execution_input \<Rightarrow> database \<Rightarrow> bool" where
  "execution_refs_ok i db \<longleftrightarrow>
     (case sx_projectId i of None \<Rightarrow> True | Some k \<Rightarrow> find_project k db \<noteq> None) \<and>
     (case sx_runId i of None \<Rightarrow> True | Some k \<Rightarrow> find_run k db \<noteq> None) \<and>
     (case sx_runStageId i of None \<Rightarrow> True | Some k \<Rightarrow> find_stage k db \<noteq> None) \<and>
     (case sx_jobId i of None \<Rightarrow> True | Some k \<Rightarrow> find_job k db \<noteq> None) \<and>
     (case sx_jobAttempt i of None \<Rightarrow> True
      | Some (k, n) \<Rightarrow> list_ex (\<lambda>a. a_job_id a = k \<and> a_attempt_number a = n) (job_attempts db))"

definition started_execution :: "int \<Rightarrow> string \<Rightarrow> start_execution_input \<Rightarrow> provider_execution" where
  "started_execution now uuid i =
     \<lparr>px_id = uuid, px_project_id = sx_projectId i, px_run_id = sx_runId i, px_run_stage_id = sx_runStageId i,
      px_job_id = sx_jobId i, px_job_attempt = sx_jobAttempt i, px_provider = sx_provider i, px_model = sx_model i,
      px_operation = sx_operation i, px_request_id = None, px_client_request_id = sx_clientRequestId i,
      px_provider_response_id = None, px_prompt_template_version = sx_promptTemplateVersion i,
      px_structured_schema_version = sx_structuredSchemaVersion i, px_input_hash = sx_inputHash i,
      px_output_hash = None, px_status = PX_STARTED, px_retry_count = sx_retryCount i, px_input_tokens = None,
      px_output_tokens = None, px_total_tokens = None, px_cost_status = COST_UNKNOWN, px_estimated_cost = None,
      px_error_class = None, px_sanitized_error = None, px_started_at = now, px_completed_at = None,
      px_latency_ms = None, px_updated_at = now\<rparr>"

definition startProviderExecution :: "int \<Rightarrow> string \<Rightarrow> start_execution_input \<Rightarrow> string world_tx" where
  "startProviderExecution now uuid i =
     tbind (gets (find_execution uuid)) (\<lambda>dup.
     tbind (require (dup = None) (DbError ''unique_violation'')) (\<lambda>_.
     tbind (gets (\<lambda>w. execution_refs_ok i (w_db w))) (\<lambda>refs.
     tbind (require refs (DbError ''foreign_key_violation'')) (\<lambda>_.
     tbind (require (0 \<le> sx_retryCount i) (DbError ''check_violation'')) (\<lambda>_.
     tbind (modify (\<lambda>w. w\<lparr>w_executions := w_executions w @ [started_execution now uuid i]\<rparr>)) (\<lambda>_.
     ret uuid))))))"

section \<open>Finishing an execution\<close>

record finish_execution_input =
  fx_id :: string
  fx_status :: provider_execution_status
  fx_requestId :: "string option"
  fx_providerResponseId :: "string option"
  fx_outputHash :: "string option"
  fx_inputTokens :: "int option"
  fx_outputTokens :: "int option"
  fx_totalTokens :: "int option"
  fx_costStatus :: cost_status
  fx_estimatedCostUsd :: "rat option"
  fx_errorClass :: "job_error_class option"
  fx_sanitizedError :: "string option"

definition execution_latency :: "int \<Rightarrow> provider_execution \<Rightarrow> int" where
  "execution_latency now x = max 0 (now - px_started_at x)"

definition duplicate_row :: "int \<Rightarrow> string option \<Rightarrow> provider_execution \<Rightarrow> provider_execution" where
  "duplicate_row now requestId x =
     x\<lparr>px_status := PX_REJECTED, px_request_id := requestId, px_error_class := Some NON_RETRYABLE_VALIDATION,
       px_sanitized_error := Some ''Duplicate provider response ID'', px_completed_at := Some now,
       px_latency_ms := Some (execution_latency now x), px_updated_at := now\<rparr>"

definition finished_row :: "int \<Rightarrow> finish_execution_input \<Rightarrow> provider_execution \<Rightarrow> provider_execution" where
  "finished_row now i x =
     x\<lparr>px_status := fx_status i, px_request_id := fx_requestId i, px_provider_response_id := fx_providerResponseId i,
       px_output_hash := fx_outputHash i, px_input_tokens := fx_inputTokens i, px_output_tokens := fx_outputTokens i,
       px_total_tokens := fx_totalTokens i, px_cost_status := fx_costStatus i, px_estimated_cost := fx_estimatedCostUsd i,
       px_error_class := fx_errorClass i, px_sanitized_error := safeError (fx_sanitizedError i),
       px_completed_at := Some now, px_latency_ms := Some (execution_latency now x), px_updated_at := now\<rparr>"

text \<open>The \<open>CHECK\<close> constraints of \<open>provider_executions\<close>, and the range of an \<open>INTEGER\<close> column.\<close>

definition opt_nonneg :: "'a::linordered_idom option \<Rightarrow> bool" where
  "opt_nonneg v = (case v of None \<Rightarrow> True | Some n \<Rightarrow> 0 \<le> n)"

definition execution_row_ok :: "provider_execution \<Rightarrow> bool" where
  "execution_row_ok x \<longleftrightarrow>
     0 \<le> px_retry_count x \<and> opt_nonneg (px_input_tokens x) \<and> opt_nonneg (px_output_tokens x) \<and> opt_nonneg (px_total_tokens x) \<and>
     (case px_latency_ms x of None \<Rightarrow> True | Some n \<Rightarrow> 0 \<le> n \<and> n \<le> 2147483647) \<and>
     opt_nonneg (px_estimated_cost x) \<and> (px_cost_status x = COST_UNKNOWN \<longrightarrow> px_estimated_cost x = None)"

definition same_response :: "string \<Rightarrow> string \<Rightarrow> string \<Rightarrow> provider_execution \<Rightarrow> bool" where
  "same_response provider responseId k x \<longleftrightarrow>
     px_provider x = provider \<and> px_provider_response_id x = Some responseId \<and> px_id x \<noteq> k"

text \<open>\<open>UPDATE provider_executions ... WHERE id = $1\<close> under the constraints and the unique index on response identifiers.\<close>

definition write_execution :: "string \<Rightarrow> (provider_execution \<Rightarrow> provider_execution) \<Rightarrow> provider_execution \<Rightarrow> unit world_tx" where
  "write_execution k f row =
     tbind (require (execution_row_ok (f row)) (DbError ''check_violation'')) (\<lambda>_.
     tbind (gets (\<lambda>w. case px_provider_response_id (f row) of None \<Rightarrow> False
              | Some rid \<Rightarrow> list_ex (same_response (px_provider row) rid k) (w_executions w))) (\<lambda>taken.
     tbind (require (\<not> taken) (DbError ''unique_violation'')) (\<lambda>_.
     modify (upd_execution k f))))"

definition finishProviderExecution :: "int \<Rightarrow> finish_execution_input \<Rightarrow> string option world_tx" where
  "finishProviderExecution now i =
     tbind (gets (find_execution (fx_id i))) (\<lambda>current.
     tbind (from_some current (GenericError ''Provider execution was not found'')) (\<lambda>row.
     tbind (require (px_status row = PX_STARTED) (GenericError ''Provider execution is already terminal'')) (\<lambda>_.
     tbind (gets (\<lambda>w. case truthy (fx_providerResponseId i) of
                None \<Rightarrow> None
              | Some rid \<Rightarrow> find (same_response (px_provider row) rid (fx_id i)) (w_executions w))) (\<lambda>duplicate.
     (case duplicate of
        Some d \<Rightarrow>
          tbind (write_execution (fx_id i) (duplicate_row now (fx_requestId i)) row) (\<lambda>_.
          ret (Some (px_id d)))
      | None \<Rightarrow>
          tbind (write_execution (fx_id i) (finished_row now i) row) (\<lambda>_.
          ret None))))))"

section \<open>What the table keeps\<close>

text \<open>Distinct identifiers, and no response identifier of a provider twice.\<close>

definition responses_unique :: "provider_execution list \<Rightarrow> bool" where
  "responses_unique xs \<longleftrightarrow>
     distinct (map px_id xs) \<and>
     (\<forall>x\<in>set xs. \<forall>y\<in>set xs. px_provider x = px_provider y \<longrightarrow> px_provider_response_id x \<noteq> None \<longrightarrow>
        px_provider_response_id x = px_provider_response_id y \<longrightarrow> px_id x = px_id y)"

inductive execution_step :: "world \<Rightarrow> world \<Rightarrow> bool" where
  start: "startProviderExecution now uuid i w = Inr (k, w') \<Longrightarrow> execution_step w w'"
| finish: "fx_status i \<noteq> PX_STARTED \<Longrightarrow> finishProviderExecution now i w = Inr (d, w') \<Longrightarrow> execution_step w w'"
| other: "w_executions w' = w_executions w \<Longrightarrow> execution_step w w'"

text \<open>A row that stays where it is once it is terminal, and whose identity never changes.\<close>

definition row_grows :: "provider_execution \<Rightarrow> provider_execution \<Rightarrow> bool" where
  "row_grows x y \<longleftrightarrow> px_id y = px_id x \<and> px_provider y = px_provider x \<and> px_input_hash y = px_input_hash x \<and>
     px_client_request_id y = px_client_request_id x \<and> (px_status x \<noteq> PX_STARTED \<longrightarrow> y = x)"

definition table_grows :: "world \<Rightarrow> world \<Rightarrow> bool" where
  "table_grows w w' \<longleftrightarrow> (\<exists>old new. w_executions w' = old @ new \<and> list_all2 row_grows (w_executions w) old)"

lemma row_grows_refl: "row_grows x x"
  by (simp add: row_grows_def)

lemma row_grows_trans: "row_grows x y \<Longrightarrow> row_grows y z \<Longrightarrow> row_grows x z"
  unfolding row_grows_def by metis

lemma table_grows_trans: "table_grows u v \<Longrightarrow> table_grows v w \<Longrightarrow> table_grows u w"
proof -
  assume "table_grows u v" "table_grows v w"
  then obtain o1 n1 o2 n2 where 1: "w_executions v = o1 @ n1" "list_all2 row_grows (w_executions u) o1"
    and 2: "w_executions w = o2 @ n2" "list_all2 row_grows (o1 @ n1) o2" by (auto simp: table_grows_def)
  from 2(2) obtain p q where "o2 = p @ q" "list_all2 row_grows o1 p" by (auto simp: list_all2_append1)
  moreover have "list_all2 row_grows (w_executions u) p"
    by (rule list_all2_trans[OF _ 1(2) calculation(2)]) (rule row_grows_trans)
  ultimately show ?thesis using 2(1) unfolding table_grows_def by (intro exI[of _ p] exI[of _ "q @ n2"]) simp
qed

lemma update_rows_grow:
  assumes "distinct (map px_id xs)" "find (\<lambda>x. px_id x = k) xs = Some row" "row_grows row (f row)"
  shows "list_all2 row_grows xs (update_where (\<lambda>x. px_id x = k) f xs)"
  using assms(1,2)
proof (induction xs)
  case (Cons x xs)
  show ?case
  proof (cases "px_id x = k")
    case True
    then have "k \<notin> px_id ` set xs" using Cons.prems(1) by simp
    then have "\<forall>y\<in>set xs. px_id y \<noteq> k" by auto
    then have "update_where (\<lambda>x. px_id x = k) f xs = xs" by (intro update_where_None) auto
    then show ?thesis using True Cons.prems(2) assms(3) by (simp add: update_where_def list_all2_same row_grows_refl)
  next
    case False
    then show ?thesis using Cons by (auto simp: update_where_def row_grows_refl)
  qed
qed simp

text \<open>What a successful finish does to the table.\<close>

lemma write_execution_Inr:
  "write_execution k f row w = Inr (u, w') \<longleftrightarrow> execution_row_ok (f row) \<and>
     (\<forall>rid. px_provider_response_id (f row) = Some rid \<longrightarrow> \<not> list_ex (same_response (px_provider row) rid k) (w_executions w)) \<and>
     w' = upd_execution k f w"
  by (cases "px_provider_response_id (f row)") (auto simp: write_execution_def tx_simps)

lemma finish_Inr:
  assumes "finishProviderExecution now i w = Inr (d, w')"
  shows "\<exists>row f. find_execution (fx_id i) w = Some row \<and> px_status row = PX_STARTED \<and> w' = upd_execution (fx_id i) f w \<and>
    (\<forall>x. px_id (f x) = px_id x \<and> px_provider (f x) = px_provider x) \<and> row_grows row (f row) \<and>
    (\<forall>rid. px_provider_response_id (f row) = Some rid \<longrightarrow> \<not> list_ex (same_response (px_provider row) rid (fx_id i)) (w_executions w)) \<and>
    (f = duplicate_row now (fx_requestId i) \<and> d \<noteq> None \<or> f = finished_row now i \<and> d = None)"
proof -
  from assms obtain row where row: "find_execution (fx_id i) w = Some row" "px_status row = PX_STARTED"
    by (auto simp: finishProviderExecution_def tx_simps)
  have g: "row_grows row (duplicate_row now r row)" "row_grows row (finished_row now i row)" for r
    using row(2) by (simp_all add: row_grows_def duplicate_row_def finished_row_def)
  define dup where "dup = (case truthy (fx_providerResponseId i) of
                None \<Rightarrow> None
              | Some rid \<Rightarrow> find (same_response (px_provider row) rid (fx_id i)) (w_executions w))"
  from assms row have body: "(case dup of
        Some d \<Rightarrow> tbind (write_execution (fx_id i) (duplicate_row now (fx_requestId i)) row) (\<lambda>_. ret (Some (px_id d)))
      | None \<Rightarrow> tbind (write_execution (fx_id i) (finished_row now i) row) (\<lambda>_. ret None)) w = Inr (d, w')"
    unfolding finishProviderExecution_def dup_def by (elim tx_elims) (simp add: tx_simps)
  have "\<exists>f. execution_row_ok (f row) \<and> w' = upd_execution (fx_id i) f w \<and>
      (\<forall>rid. px_provider_response_id (f row) = Some rid \<longrightarrow> \<not> list_ex (same_response (px_provider row) rid (fx_id i)) (w_executions w)) \<and>
      (f = duplicate_row now (fx_requestId i) \<and> d \<noteq> None \<or> f = finished_row now i \<and> d = None)"
  proof (cases dup)
    case None
    then show ?thesis using body by (intro exI[of _ "finished_row now i"]) (simp add: tbind_Inr_iff ret_Inr_iff write_execution_Inr)
  next
    case (Some x)
    then show ?thesis using body
      by (intro exI[of _ "duplicate_row now (fx_requestId i)"]) (simp add: tbind_Inr_iff ret_Inr_iff write_execution_Inr)
  qed
  then obtain f where f: "w' = upd_execution (fx_id i) f w"
      "\<forall>rid. px_provider_response_id (f row) = Some rid \<longrightarrow> \<not> list_ex (same_response (px_provider row) rid (fx_id i)) (w_executions w)"
      "f = duplicate_row now (fx_requestId i) \<and> d \<noteq> None \<or> f = finished_row now i \<and> d = None" by blast
  have "(\<forall>x. px_id (f x) = px_id x \<and> px_provider (f x) = px_provider x) \<and> row_grows row (f row)"
    using f(3) g by (auto simp: duplicate_row_def finished_row_def)
  with f row show ?thesis by blast
qed

lemma start_Inr:
  assumes "startProviderExecution now uuid i w = Inr (k, w')"
  shows "k = uuid \<and> find_execution uuid w = None \<and> execution_refs_ok i (w_db w) \<and>
    w' = w\<lparr>w_executions := w_executions w @ [started_execution now uuid i]\<rparr>"
  using assms by (auto simp: startProviderExecution_def tx_simps)

lemma start_keeps:
  assumes "startProviderExecution now uuid i w = Inr (k, w')" "responses_unique (w_executions w)"
  shows "responses_unique (w_executions w') \<and> table_grows w w'"
proof -
  define n where "n = started_execution now uuid i"
  from start_Inr[OF assms(1)] have w': "w_executions w' = w_executions w @ [n]" and free: "find_execution uuid w = None"
    by (simp_all add: n_def)
  have n: "px_id n = uuid" "px_provider_response_id n = None" by (simp_all add: n_def started_execution_def)
  have "\<forall>x\<in>set (w_executions w). px_id x \<noteq> uuid" using free by (auto simp: find_execution_def find_None_iff)
  then have d: "distinct (map px_id (w_executions w @ [n]))"
    using conjunct1[OF assms(2)[unfolded responses_unique_def]] n(1) by auto
  have "px_id x = px_id y" if xy: "x \<in> set (w_executions w @ [n])" "y \<in> set (w_executions w @ [n])" "px_provider x = px_provider y"
      "px_provider_response_id x \<noteq> None" "px_provider_response_id x = px_provider_response_id y" for x y
  proof -
    have "x \<noteq> n" "y \<noteq> n" using xy(4,5) n(2) by metis+
    then have "x \<in> set (w_executions w)" "y \<in> set (w_executions w)" using xy(1,2) by simp_all
    then show ?thesis using assms(2) xy(3-5) unfolding responses_unique_def by blast
  qed
  then have "responses_unique (w_executions w')" using d unfolding w' responses_unique_def by blast
  moreover have "list_all2 row_grows (w_executions w) (w_executions w)" by (simp add: list_all2_same row_grows_refl)
  then have "table_grows w w'" using w' unfolding table_grows_def by blast
  ultimately show ?thesis by blast
qed

lemma finish_keeps:
  assumes "finishProviderExecution now i w = Inr (d, w')" "responses_unique (w_executions w)"
  shows "responses_unique (w_executions w') \<and> table_grows w w'"
proof -
  from finish_Inr[OF assms(1)] obtain row f where row: "find (\<lambda>x. px_id x = fx_id i) (w_executions w) = Some row"
    and w': "w_executions w' = update_where (\<lambda>x. px_id x = fx_id i) f (w_executions w)"
    and f: "\<And>x. px_id (f x) = px_id x" "\<And>x. px_provider (f x) = px_provider x" and g: "row_grows row (f row)"
    and free: "\<And>rid. px_provider_response_id (f row) = Some rid \<Longrightarrow> \<not> list_ex (same_response (px_provider row) rid (fx_id i)) (w_executions w)"
    unfolding find_execution_def by auto
  have d: "distinct (map px_id (w_executions w))" by (rule conjunct1[OF assms(2)[unfolded responses_unique_def]])
  have only: "x = row" if "x \<in> set (w_executions w)" "px_id x = fx_id i" for x
    using d that row executions_tbl.lookup_mem[of "w_executions w" x]
    by (simp add: executions_tbl.keys_distinct_def executions_tbl.lookup_def)
  have ids: "map px_id (w_executions w') = map px_id (w_executions w)"
    unfolding w' by (rule executions_tbl.keys_update_where) (simp add: f)
  have "px_id x = px_id y"
    if xy: "x \<in> set (w_executions w')" "y \<in> set (w_executions w')" "px_provider x = px_provider y"
      "px_provider_response_id x = Some rid" "px_provider_response_id y = Some rid" for x y rid
  proof -
    have img: "x = f row \<or> x \<in> set (w_executions w) \<and> px_id x \<noteq> fx_id i" if "x \<in> set (w_executions w')" for x
      using that only unfolding w' set_update_where by (auto split: if_splits)
    have clash: False if "px_provider_response_id (f row) = Some rid" "z \<in> set (w_executions w)" "px_id z \<noteq> fx_id i"
      "px_provider z = px_provider row" "px_provider_response_id z = Some rid" for z
      using free[OF that(1)] that(2-5) by (auto simp: list_ex_iff same_response_def)
    show ?thesis using img[OF xy(1)] img[OF xy(2)] xy(3-5) clash assms(2) f(2)
      by (metis responses_unique_def option.distinct(1))
  qed
  then have "responses_unique (w_executions w')" using d ids unfolding responses_unique_def by (metis not_None_eq)
  moreover have "table_grows w w'" unfolding table_grows_def w'
    using update_rows_grow[of "w_executions w" "fx_id i" row f, OF d row g] by (intro exI[of _ "update_where (\<lambda>x. px_id x = fx_id i) f (w_executions w)"] exI[of _ "[]"]) simp
  ultimately show ?thesis by blast
qed

lemma execution_step_keeps:
  assumes "execution_step w w'" "responses_unique (w_executions w)"
  shows "responses_unique (w_executions w') \<and> table_grows w w'"
  using assms
proof (induction rule: execution_step.induct)
  case (other w' w)
  then have "w_executions w' = w_executions w @ []" "list_all2 row_grows (w_executions w) (w_executions w)"
    by (simp_all add: list_all2_same row_grows_refl)
  then show ?case using other unfolding table_grows_def by auto
qed (use start_keeps finish_keeps in blast)+

interpretation executions: step_invariant "execution_step" "\<lambda>w'. responses_unique (w_executions w') \<and> table_grows w w'" for w
  by unfold_locales (metis execution_step_keeps table_grows_trans)

lemma find_grows:
  assumes "list_all2 row_grows xs ys" "find (\<lambda>x. px_id x = k) xs = Some x"
  shows "\<exists>y. find (\<lambda>x. px_id x = k) ys = Some y \<and> row_grows x y"
  using assms
proof (induction xs ys rule: list_all2_induct)
  case (Cons x xs y ys)
  then show ?case by (cases "px_id x = k") (auto simp: row_grows_def)
qed simp

lemma find_append_Some: "find P xs = Some x \<Longrightarrow> find P (xs @ ys) = Some x"
  by (induction xs) (auto split: if_splits)

text \<open>
  \<^bold>\<open>C19.\<close> However calls are started and finished, no two executions of a provider ever carry the same response identifier,
  so a response that was committed once is not counted again; an execution keeps its identity and input hash for ever, and once
  it is terminal its row never changes and finishing it again is refused.
\<close>

theorem provider_provenance:
  assumes "execution_step\<^sup>*\<^sup>* w w'" "responses_unique (w_executions w)" "find_execution k w = Some x"
  shows "responses_unique (w_executions w') \<and>
    (\<exists>y. find_execution k w' = Some y \<and> row_grows x y \<and>
      (px_status x = PX_STARTED \<or> y = x \<and>
         finishProviderExecution now (i\<lparr>fx_id := k\<rparr>) w' = Inl (GenericError ''Provider execution is already terminal'')))"
proof -
  have "table_grows w w" unfolding table_grows_def by (intro exI[of _ "w_executions w"] exI[of _ "[]"]) (simp add: list_all2_same row_grows_refl)
  with executions.run_keeps[OF assms(1), of w] assms(2) have u: "responses_unique (w_executions w')" and g: "table_grows w w'" by simp_all
  from g obtain old new where o: "w_executions w' = old @ new" "list_all2 row_grows (w_executions w) old" by (auto simp: table_grows_def)
  from find_grows[OF o(2) assms(3)[unfolded find_execution_def]] obtain y where
    y: "find_execution k w' = Some y" "row_grows x y" using o(1) find_append_Some unfolding find_execution_def by metis
  have "finishProviderExecution now (i\<lparr>fx_id := k\<rparr>) w' = Inl (GenericError ''Provider execution is already terminal'')"
    if "px_status x \<noteq> PX_STARTED" using y that by (simp add: finishProviderExecution_def tx_defs row_grows_def)
  then show ?thesis using u y by (auto simp: row_grows_def)
qed

section \<open>An example: one response claimed by two calls\<close>

definition demo_start :: "string \<Rightarrow> start_execution_input" where
  "demo_start op = \<lparr>sx_projectId = None, sx_runId = None, sx_runStageId = None, sx_jobId = None, sx_jobAttempt = None, sx_provider = ''p'',
     sx_model = None, sx_operation = op, sx_clientRequestId = ''c'', sx_promptTemplateVersion = None,
     sx_structuredSchemaVersion = None, sx_inputHash = ''h'', sx_retryCount = 0\<rparr>"

definition demo_finish :: "string \<Rightarrow> finish_execution_input" where
  "demo_finish k = \<lparr>fx_id = k, fx_status = PX_SUCCEEDED, fx_requestId = None, fx_providerResponseId = Some ''r'', fx_outputHash = None,
     fx_inputTokens = None, fx_outputTokens = None, fx_totalTokens = None, fx_costStatus = COST_UNKNOWN, fx_estimatedCostUsd = None,
     fx_errorClass = None, fx_sanitizedError = None\<rparr>"

definition demo_exec :: "database \<Rightarrow> provider_execution list \<Rightarrow> world" where
  "demo_exec db xs = \<lparr>w_db = db, w_windows = [], w_permits = [], w_executions = xs\<rparr>"

definition demo_a :: provider_execution where "demo_a = started_execution 0 ''a'' (demo_start ''x'')"

definition demo_b :: provider_execution where "demo_b = started_execution 0 ''b'' (demo_start ''y'')"

definition demo_a_done :: provider_execution where "demo_a_done = finished_row 5 (demo_finish ''a'') demo_a"

lemmas execution_eval = startProviderExecution_def finishProviderExecution_def tx_defs find_execution_def demo_exec_def demo_finish_def
  demo_start_def execution_refs_ok_def started_execution_def write_execution_def execution_row_ok_def finished_row_def duplicate_row_def
  same_response_def truthy_def upd_execution_def update_where_def execution_latency_def safeError_def opt_nonneg_def

lemma demo_execution_runs:
  "startProviderExecution 0 ''b'' (demo_start ''y'') (demo_exec db [demo_a]) = Inr (''b'', demo_exec db [demo_a, demo_b])"
  "finishProviderExecution 5 (demo_finish ''a'') (demo_exec db [demo_a, demo_b]) = Inr (None, demo_exec db [demo_a_done, demo_b])"
  "finishProviderExecution 9 (demo_finish ''b'') (demo_exec db [demo_a_done, demo_b]) =
     Inr (Some ''a'', demo_exec db [demo_a_done, duplicate_row 9 None demo_b])"
  by (simp_all add: execution_eval demo_a_def demo_b_def demo_a_done_def)

theorem provider_provenance_witness:
  "\<exists>db. execution_step\<^sup>*\<^sup>* (demo_exec db [demo_a_done, demo_b]) (demo_exec db [demo_a_done, duplicate_row 9 None demo_b]) \<and>
     responses_unique [demo_a_done, duplicate_row 9 None demo_b] \<and>
     finishProviderExecution 9 (demo_finish ''a'') (demo_exec db [demo_a_done, duplicate_row 9 None demo_b]) =
       Inl (GenericError ''Provider execution is already terminal'')"
proof -
  fix db
  have "execution_step (demo_exec db [demo_a_done, demo_b]) (demo_exec db [demo_a_done, duplicate_row 9 None demo_b])"
    by (rule execution_step.finish[OF _ demo_execution_runs(3)]) (simp add: demo_finish_def)
  then have run: "execution_step\<^sup>*\<^sup>* (demo_exec db [demo_a_done, demo_b]) (demo_exec db [demo_a_done, duplicate_row 9 None demo_b])" by blast
  have ok: "responses_unique (w_executions (demo_exec db [demo_a_done, demo_b]))"
    by (simp add: responses_unique_def demo_exec_def demo_a_done_def demo_a_def demo_b_def started_execution_def finished_row_def)
  have f: "find_execution ''a'' (demo_exec db [demo_a_done, demo_b]) = Some demo_a_done"
    by (simp add: find_execution_def demo_exec_def demo_a_done_def demo_a_def finished_row_def started_execution_def)
  have s: "px_status demo_a_done \<noteq> PX_STARTED" by (simp add: demo_a_done_def finished_row_def demo_finish_def)
  have "(demo_finish ''a'')\<lparr>fx_id := ''a''\<rparr> = demo_finish ''a''" by (simp add: demo_finish_def)
  then show ?thesis using provider_provenance[OF run ok f, of 9 "demo_finish ''a''"] run s
    by (intro exI[of _ db]) (auto simp: demo_exec_def)
qed

end
