(* ===== verification/Stage_Outputs.thy ===== *)
theory Stage_Outputs
  imports Js_Text Run_Domain Approval_Revisions
begin

text \<open>
  The outputs of the pipeline stages, \<open>lib/providers/types.ts\<close>, and the source references found in them,
  \<open>lib/providers/ai-shared.ts\<close>. The schemas are checked by the package zod: \<open>parse_output\<close> and \<open>parse_input\<close> of the
  record \<open>stage_schemas\<close> stand for \<open>aiStageOutputSchemas[stage].parse\<close> and \<open>aiStageInputSchemas[stage].parse\<close>; \<open>None\<close> is
  a thrown \<open>ZodError\<close>.
\<close>

section \<open>Outputs\<close>

record question_out =
  qo_id :: string
  qo_question :: string
  qo_priority :: string
  qo_completionCriteria :: "string list"

record plan_step_out =
  so_step_id :: string
  so_questionId :: string
  so_searchStrategy :: string
  so_queries :: "string list"
  so_primarySourceTypes :: "string list"
  so_secondarySourceTypes :: "string list"
  so_comparisonTargets :: "string list"
  so_expectedOutput :: string
  so_completionCondition :: string
  so_risks :: "string list"
  so_researchGap :: "string option"

record evidence_out =
  eo_sourceId :: string
  eo_summary :: string
  eo_minimalQuote :: string
  eo_location :: string
  eo_stance :: string
  eo_confidence :: string

record claim_out =
  co_id :: string
  co_text :: string
  co_type :: string
  co_importance :: string
  co_sourceIds :: "string list"

record gap_out =
  go_questionId :: string
  go_description :: string
  go_severity :: finding_severity
  go_nextSearches :: "string list"

record conflict_out =
  xo_description :: string
  xo_sourceIds :: "string list"
  xo_materiality :: finding_severity
  xo_resolutionNeeded :: bool

record outline_section_out =
  oo_title :: string
  oo_purpose :: string
  oo_claimIds :: "string list"
  oo_sourceIds :: "string list"

record qa_issue_out =
  io_severity :: finding_severity
  io_location :: string
  io_problem :: string
  io_suggestion :: string
  io_sourceIds :: "string list"

record draft_out =
  do_title :: string
  do_markdown :: string
  do_citationSourceIds :: "string list"
  do_limitations :: "string list"

record intake_out =
  no_refinedQuestion :: string
  no_ambiguousTerms :: "string list"
  no_exclusions :: "string list"
  no_freshnessRequirement :: string
  no_expectedSources :: "string list"
  no_completionCriteria :: "string list"
  no_risks :: "string list"

record summary_out =
  uo_sourceId :: string
  uo_summary :: string
  uo_keyPoints :: "string list"
  uo_limitations :: "string list"
  uo_promptInjectionSuspected :: bool

datatype stage_output =
    Intake_output intake_out
  | Questions_output "question_out list"
  | Plan_output "plan_step_out list"
  | Summary_output summary_out
  | Evidence_output "evidence_out list"
  | Claims_output "claim_out list"
  | Gaps_output "gap_out list"
  | Conflicts_output "conflict_out list"
  | Outline_output "outline_section_out list"
  | Draft_output draft_out
  | Qa_output "qa_issue_out list" string

fun output_stage :: "stage_output \<Rightarrow> ai_stage" where
  "output_stage (Intake_output _) = intake_analysis"
| "output_stage (Questions_output _) = question_decomposition"
| "output_stage (Plan_output _) = research_plan"
| "output_stage (Summary_output _) = source_summary"
| "output_stage (Evidence_output _) = evidence_extraction"
| "output_stage (Claims_output _) = claim_generation"
| "output_stage (Gaps_output _) = gap_detection"
| "output_stage (Conflicts_output _) = conflict_detection"
| "output_stage (Outline_output _) = report_outline"
| "output_stage (Draft_output _) = draft_generation"
| "output_stage (Qa_output _ _) = qa_revision"

fun severity_name :: "finding_severity \<Rightarrow> string" where
  "severity_name SEV_BLOCKER = ''BLOCKER''"
| "severity_name SEV_HIGH = ''HIGH''"
| "severity_name SEV_MEDIUM = ''MEDIUM''"
| "severity_name SEV_LOW = ''LOW''"

text \<open>The object an output is.\<close>

definition question_out_json :: "question_out \<Rightarrow> jsv" where
  "question_out_json q =
     JObj [(''id'', JStr (qo_id q)), (''question'', JStr (qo_question q)), (''priority'', JStr (qo_priority q)),
           (''completionCriteria'', js_texts (qo_completionCriteria q))]"

definition plan_step_out_json :: "plan_step_out \<Rightarrow> jsv" where
  "plan_step_out_json s =
     JObj [(''id'', JStr (so_step_id s)), (''questionId'', JStr (so_questionId s)),
           (''searchStrategy'', JStr (so_searchStrategy s)), (''queries'', js_texts (so_queries s)),
           (''primarySourceTypes'', js_texts (so_primarySourceTypes s)),
           (''secondarySourceTypes'', js_texts (so_secondarySourceTypes s)),
           (''comparisonTargets'', js_texts (so_comparisonTargets s)), (''expectedOutput'', JStr (so_expectedOutput s)),
           (''completionCondition'', JStr (so_completionCondition s)), (''risks'', js_texts (so_risks s)),
           (''researchGap'', js_text (so_researchGap s))]"

definition evidence_out_json :: "evidence_out \<Rightarrow> jsv" where
  "evidence_out_json e =
     JObj [(''sourceId'', JStr (eo_sourceId e)), (''summary'', JStr (eo_summary e)), (''minimalQuote'', JStr (eo_minimalQuote e)),
           (''location'', JStr (eo_location e)), (''stance'', JStr (eo_stance e)), (''confidence'', JStr (eo_confidence e))]"

definition claim_out_json :: "claim_out \<Rightarrow> jsv" where
  "claim_out_json c =
     JObj [(''id'', JStr (co_id c)), (''text'', JStr (co_text c)), (''type'', JStr (co_type c)),
           (''importance'', JStr (co_importance c)), (''sourceIds'', js_texts (co_sourceIds c))]"

definition gap_out_json :: "gap_out \<Rightarrow> jsv" where
  "gap_out_json g =
     JObj [(''questionId'', JStr (go_questionId g)), (''description'', JStr (go_description g)),
           (''severity'', JStr (severity_name (go_severity g))), (''nextSearches'', js_texts (go_nextSearches g))]"

definition conflict_out_json :: "conflict_out \<Rightarrow> jsv" where
  "conflict_out_json x =
     JObj [(''description'', JStr (xo_description x)), (''sourceIds'', js_texts (xo_sourceIds x)),
           (''materiality'', JStr (severity_name (xo_materiality x))), (''resolutionNeeded'', JBool (xo_resolutionNeeded x))]"

definition outline_section_out_json :: "outline_section_out \<Rightarrow> jsv" where
  "outline_section_out_json s =
     JObj [(''title'', JStr (oo_title s)), (''purpose'', JStr (oo_purpose s)), (''claimIds'', js_texts (oo_claimIds s)),
           (''sourceIds'', js_texts (oo_sourceIds s))]"

definition qa_issue_out_json :: "qa_issue_out \<Rightarrow> jsv" where
  "qa_issue_out_json i =
     JObj [(''severity'', JStr (severity_name (io_severity i))), (''location'', JStr (io_location i)),
           (''problem'', JStr (io_problem i)), (''suggestion'', JStr (io_suggestion i)), (''sourceIds'', js_texts (io_sourceIds i))]"

fun output_json :: "stage_output \<Rightarrow> jsv" where
  "output_json (Intake_output n) =
     JObj [(''refinedQuestion'', JStr (no_refinedQuestion n)), (''ambiguousTerms'', js_texts (no_ambiguousTerms n)),
           (''exclusions'', js_texts (no_exclusions n)), (''freshnessRequirement'', JStr (no_freshnessRequirement n)),
           (''expectedSources'', js_texts (no_expectedSources n)), (''completionCriteria'', js_texts (no_completionCriteria n)),
           (''risks'', js_texts (no_risks n))]"
| "output_json (Questions_output qs) = JObj [(''questions'', JArr (map question_out_json qs))]"
| "output_json (Plan_output ss) = JObj [(''steps'', JArr (map plan_step_out_json ss))]"
| "output_json (Summary_output u) =
     JObj [(''sourceId'', JStr (uo_sourceId u)), (''summary'', JStr (uo_summary u)), (''keyPoints'', js_texts (uo_keyPoints u)),
           (''limitations'', js_texts (uo_limitations u)), (''promptInjectionSuspected'', JBool (uo_promptInjectionSuspected u))]"
| "output_json (Evidence_output es) = JObj [(''evidence'', JArr (map evidence_out_json es))]"
| "output_json (Claims_output cs) = JObj [(''claims'', JArr (map claim_out_json cs))]"
| "output_json (Gaps_output gs) = JObj [(''gaps'', JArr (map gap_out_json gs))]"
| "output_json (Conflicts_output xs) = JObj [(''conflicts'', JArr (map conflict_out_json xs))]"
| "output_json (Outline_output ss) = JObj [(''sections'', JArr (map outline_section_out_json ss))]"
| "output_json (Draft_output d) =
     JObj [(''title'', JStr (do_title d)), (''markdown'', JStr (do_markdown d)),
           (''citationSourceIds'', js_texts (do_citationSourceIds d)), (''limitations'', js_texts (do_limitations d))]"
| "output_json (Qa_output is revised) =
     JObj [(''issues'', JArr (map qa_issue_out_json is)), (''revisedText'', JStr revised)]"

record stage_schemas =
  parse_output :: "ai_stage \<Rightarrow> jsv \<Rightarrow> stage_output option"
  parse_input :: "ai_stage \<Rightarrow> jsv \<Rightarrow> jsv option"

section \<open>Source references\<close>

text \<open>\<open>[...new Set(values)]\<close>: the first occurrence of every value.\<close>

definition js_unique :: "'a list \<Rightarrow> 'a list" where
  "js_unique xs = rev (remdups (rev xs))"

lemma set_js_unique [simp]: "set (js_unique xs) = set xs"
  by (simp add: js_unique_def)

lemma distinct_js_unique [simp]: "distinct (js_unique xs)"
  by (simp add: js_unique_def)

lemma js_unique_Nil [simp]: "js_unique xs = [] \<longleftrightarrow> xs = []"
  by (metis set_js_unique set_empty)

definition citation_char :: "char \<Rightarrow> bool" where
  "citation_char c \<longleftrightarrow> is_alnum c \<or> c \<in> set ''._:-''"

text \<open>
  \<open>([A-Za-z0-9][A-Za-z0-9._:-]{0,127})\](?!\()\<close>: the identifier and the rest of the input. The bracket is not a character
  of the class, so only the longest run can match.
\<close>

definition match_citation_id :: "string \<Rightarrow> (string \<times> string) option" where
  "match_citation_id r =
     (let run = takeWhile citation_char r; rest = dropWhile citation_char r in
      if run \<noteq> [] \<and> is_alnum (hd run) \<and> length run \<le> 128 \<and> rest \<noteq> [] \<and> hd rest = CHR '']'' \<and>
         \<not> starts_with ''('' (tl rest)
      then Some (run, tl rest) else None)"

text \<open>\<open>\[(?:source:|@)?\<close> before it, with the backtracking to no prefix.\<close>

definition match_citation :: "string \<Rightarrow> (string \<times> string) option" where
  "match_citation s =
     (case s of
        [] \<Rightarrow> None
      | c # r \<Rightarrow>
          if c \<noteq> CHR ''['' then None
          else
            (let prefixed =
               (case match_ci ''source:'' r of
                  Some r1 \<Rightarrow> match_citation_id r1
                | None \<Rightarrow> (case r of d # r1 \<Rightarrow> if d = CHR ''@'' then match_citation_id r1 else None | [] \<Rightarrow> None))
             in case prefixed of Some x \<Rightarrow> Some x | None \<Rightarrow> match_citation_id r))"

lemma match_citation_id_length: "match_citation_id r = Some (i, rest) \<Longrightarrow> length rest < length r"
proof -
  assume "match_citation_id r = Some (i, rest)"
  then have "rest = tl (dropWhile citation_char r)" "dropWhile citation_char r \<noteq> []"
    by (auto simp: match_citation_id_def Let_def split: if_splits)
  then have "length rest < length (dropWhile citation_char r)" by (cases "dropWhile citation_char r") simp_all
  with length_dropWhile_le[of citation_char r] show ?thesis by linarith
qed

lemma match_citation_length: "match_citation s = Some (i, rest) \<Longrightarrow> length rest < length s"
  by (auto simp: match_citation_def Let_def split: list.splits option.splits if_splits
      dest!: match_citation_id_length match_ci_length)

text \<open>\<open>matchAll\<close>: scan from the left, each match starting after the one before.\<close>

function citations :: "string \<Rightarrow> string list" where
  "citations s =
     (case s of
        [] \<Rightarrow> []
      | c # cs \<Rightarrow> (case match_citation s of Some (i, rest) \<Rightarrow> i # citations rest | None \<Rightarrow> citations cs))"
  by pat_completeness auto
termination
  by (relation "measure length") (auto dest: match_citation_length)

declare citations.simps [simp del]

fun js_string :: "jsv \<Rightarrow> string option" where
  "js_string (JStr s) = Some s"
| "js_string _ = None"

text \<open>\<open>visit\<close> of \<open>sourceIdsIn\<close>, with the key the value was found under.\<close>

function visit_sources :: "string option \<Rightarrow> jsv \<Rightarrow> string list" where
  "visit_sources k (JStr s) = (if k = Some ''markdown'' \<or> k = Some ''revisedText'' then citations s else [])"
| "visit_sources k (JArr vs) =
     (if k = Some ''sourceIds'' \<or> k = Some ''citationSourceIds'' then List.map_filter js_string vs
      else concat (map (visit_sources None) vs))"
| "visit_sources k (JObj kvs) =
     concat (map (\<lambda>kv. if fst kv = ''sourceId'' \<and> js_string (snd kv) \<noteq> None then [the (js_string (snd kv))]
                       else visit_sources (Some (fst kv)) (snd kv)) kvs)"
| "visit_sources k JUndefined = []"
| "visit_sources k JNull = []"
| "visit_sources k (JBool b) = []"
| "visit_sources k (JNum n) = []"
  by pat_completeness auto
termination
proof (relation "measure (\<lambda>(k, v). size v)", goal_cases)
  case 1
  then show ?case by simp
next
  case (2 k vs x)
  then show ?case using size_list_estimation'[of x vs "size x" size] by simp
next
  case (3 k kvs x)
  moreover have "size (snd x) \<le> size_prod (\<lambda>x. 0) size x" by (cases x) simp
  ultimately have "size (snd x) \<le> size_list (size_prod (\<lambda>x. 0) size) kvs"
    by (intro size_list_estimation'[of x]) auto
  then show ?case by simp
qed

definition sourceIdsIn :: "jsv \<Rightarrow> string list" where
  "sourceIdsIn v = visit_sources None v"

definition unknownSourceIds :: "jsv \<Rightarrow> string list \<Rightarrow> string list" where
  "unknownSourceIds v allowed = js_unique (filter (\<lambda>s. s \<notin> set allowed) (sourceIdsIn v))"

definition validateAllowedSourceIds :: "string list \<Rightarrow> app_error + unit" where
  "validateAllowedSourceIds allowed =
     (let normalized = map js_trim allowed in
      if [] \<in> set normalized \<or> \<not> distinct normalized
      then Inl (GenericError ''allowedSourceIds must contain unique, non-blank IDs'') else Inr ())"

definition parseStageOutput :: "stage_schemas \<Rightarrow> ai_stage \<Rightarrow> jsv \<Rightarrow> app_error + stage_output" where
  "parseStageOutput Z stage v =
     (case parse_output Z stage v of
        None \<Rightarrow> Inl (GenericError ''ZodError'')
      | Some parsed \<Rightarrow>
          (case parsed of
             Draft_output d \<Rightarrow>
               (let cited = sourceIdsIn (JObj [(''markdown'', JStr (do_markdown d))]) in
                if stage = draft_generation \<and> set cited \<noteq> set (do_citationSourceIds d)
                then Inl (GenericError ''Draft citations must exactly match citationSourceIds'') else Inr parsed)
           | _ \<Rightarrow> Inr parsed))"

text \<open>The sources an output refers to, by kind of output.\<close>

lemma concat_map_cong: "(\<And>x. x \<in> set xs \<Longrightarrow> f x = g x) \<Longrightarrow> concat (map f xs) = concat (map g xs)"
  by (metis map_cong)

lemma sources_of_evidence: "sourceIdsIn (output_json (Evidence_output es)) = map eo_sourceId es"
  by (simp add: sourceIdsIn_def evidence_out_json_def concat_map_singleton comp_def)

lemma map_filter_texts: "List.map_filter js_string (map JStr xs) = xs"
  by (induction xs) (simp_all add: List.map_filter_simps)

lemma visit_texts: "concat (map (\<lambda>s. visit_sources None (JStr s)) xs) = []"
  by (simp add: concat_eq_Nil_conv)

lemma sources_of_claims: "sourceIdsIn (output_json (Claims_output cs)) = concat (map co_sourceIds cs)"
  by (simp add: sourceIdsIn_def claim_out_json_def js_texts_def map_filter_texts comp_def)

end
