(* ===== verification/Worker_Io.thy ===== *)
theory Worker_Io
  imports Provider_Limits Provider_Executions Research_Bundle
begin

text \<open>
  The code of a worker between its transactions: an asynchronous function that reads and writes the shared state only in
  transactions, each of which commits or rolls back on its own. Other processes act in between. An \<open>io\<close> computation takes an
  environment, which says for the \<open>n\<close>-th call what the others did before it, what time it is, which identifiers are drawn,
  whether the database can be reached and whether the abort signal has fired, and keeps the log of its calls. An error keeps
  the state: what was committed before a throw stays committed.
\<close>

section \<open>Providers\<close>

text \<open>The results and errors of \<open>AIProvider.run\<close>, \<open>lib/providers/types.ts\<close>.\<close>

record ai_request =
  aq_stage :: ai_stage
  aq_projectId :: string
  aq_promptTemplateVersion :: string
  aq_input :: jsv
  aq_allowedSourceIds :: "string list"

record ai_usage =
  au_inputTokens :: "int option"
  au_outputTokens :: "int option"
  au_totalTokens :: "int option"

record ai_metadata =
  am_durationMs :: int
  am_requestId :: "string option"
  am_providerResponseId :: "string option"
  am_usage :: "ai_usage option"

datatype provider_error_code =
    NOT_CONFIGURED | PROVIDER_ERROR | INVALID_RESPONSE | UNKNOWN_SOURCE_ID | PROVIDER_TIMEOUT | PROVIDER_CANCELLED
  | RATE_LIMITED | SERVER_ERROR | REFUSED | CONTENT_FILTERED | TRUNCATED | RESPONSE_TOO_LARGE

record ai_error =
  ax_code :: provider_error_code
  ax_message :: string
  ax_classification :: "job_error_class option"
  ax_retryable :: "bool option"
  ax_retryAfterMs :: "int option"

datatype ai_result = Ai_success jsv ai_metadata | Ai_failure ai_error ai_metadata

fun result_metadata :: "ai_result \<Rightarrow> ai_metadata" where
  "result_metadata (Ai_success v m) = m"
| "result_metadata (Ai_failure e m) = m"

text \<open>\<open>ap_run\<close> is told the number of the call, so that it need not answer the same way twice.\<close>

record ai_provider =
  ap_id :: string
  ap_model :: string
  ap_run :: "nat \<Rightarrow> ai_request \<Rightarrow> worker_error + ai_result"

section \<open>Calls, environments and states\<close>

datatype worker_call =
    Call_load | Call_start | Call_permit | Call_fence | Call_attempt | Call_begin | Call_provider ai_request
  | Call_finish provider_execution_status | Call_record | Call_release string | Call_commit | Call_block job_error_class
  | Call_boundary research_run_status | Call_queue

text \<open>
  An entry of the log: the call, its number, the world it found, and whether it returned. \<open>ie_signal n\<close> is the reason the abort signal
  carries after \<open>n\<close> calls, \<open>None\<close> while it has not fired; \<open>ie_fault n\<close> a failure to reach the database; \<open>ie_message\<close> the
  message of an error, which \<open>app_error\<close> leaves out.
\<close>

type_synonym call_entry = "worker_call \<times> nat \<times> world \<times> bool"

record io_env =
  ie_now :: "nat \<Rightarrow> int"
  ie_clock :: "nat \<Rightarrow> int"
  ie_uuids :: "nat \<Rightarrow> string \<times> string"
  ie_others :: "nat \<Rightarrow> world \<Rightarrow> world"
  ie_fault :: "nat \<Rightarrow> app_error option"
  ie_signal :: "nat \<Rightarrow> worker_error option"
  ie_message :: "app_error \<Rightarrow> string"

record io_state =
  io_world :: world
  io_step :: nat
  io_log :: "call_entry list"

type_synonym 'a io = "io_env \<Rightarrow> io_state \<Rightarrow> 'a work \<times> io_state"

definition iret :: "'a \<Rightarrow> 'a io" where
  "iret a E s = (Inr a, s)"

definition ithrow :: "worker_error \<Rightarrow> 'a io" where
  "ithrow e E s = (Inl e, s)"

definition ibind :: "'a io \<Rightarrow> ('a \<Rightarrow> 'b io) \<Rightarrow> 'b io" where
  "ibind m f E s = (case m E s of (Inl e, t) \<Rightarrow> (Inl e, t) | (Inr a, t) \<Rightarrow> f a E t)"

text \<open>\<open>try { m } catch (e) { h(e) }\<close> and \<open>try { m } finally { f }\<close>: a throw of the second replaces the outcome.\<close>

definition icatch :: "'a io \<Rightarrow> (worker_error \<Rightarrow> 'a io) \<Rightarrow> 'a io" where
  "icatch m h E s = (case m E s of (Inl e, t) \<Rightarrow> h e E t | (Inr a, t) \<Rightarrow> (Inr a, t))"

definition ifinally :: "'a io \<Rightarrow> 'b io \<Rightarrow> 'a io" where
  "ifinally m f E s = (case m E s of (r, t) \<Rightarrow> (case f E t of (Inl e, u) \<Rightarrow> (Inl e, u) | (Inr _, u) \<Rightarrow> (r, u)))"

definition ilift :: "'a work \<Rightarrow> 'a io" where
  "ilift r E s = (r, s)"

definition isignal :: "worker_error option io" where
  "isignal E s = (Inr (ie_signal E (io_step s)), s)"

definition iclock :: "int io" where
  "iclock E s = (Inr (ie_clock E (io_step s)), s)"

definition imessage :: "worker_error \<Rightarrow> string io" where
  "imessage e E s = (Inr (case e of WE_App a \<Rightarrow> ie_message E a | WE_Blocked _ m _ \<Rightarrow> m | WE_Job m _ _ \<Rightarrow> m), s)"

text \<open>\<open>await\<close> of a transaction, and of a provider. The world of the entry is the one the call found.\<close>

definition await :: "worker_call \<Rightarrow> (int \<Rightarrow> string \<times> string \<Rightarrow> 'a world_tx) \<Rightarrow> 'a io" where
  "await c m E s =
     (let n = io_step s; w = ie_others E n (io_world s);
          outcome = (case ie_fault E n of Some e \<Rightarrow> Inl e | None \<Rightarrow> m (ie_now E n) (ie_uuids E n) w) in
      case outcome of
        Inl e \<Rightarrow> (Inl (WE_App e), \<lparr>io_world = w, io_step = Suc n, io_log = io_log s @ [(c, n, w, False)]\<rparr>)
      | Inr (a, w') \<Rightarrow> (Inr a, \<lparr>io_world = w', io_step = Suc n, io_log = io_log s @ [(c, n, w, True)]\<rparr>))"

definition run_provider :: "ai_provider \<Rightarrow> ai_request \<Rightarrow> ai_result io" where
  "run_provider P request E s =
     (let n = io_step s; w = ie_others E n (io_world s); outcome = ap_run P n request in
      (outcome, \<lparr>io_world = w, io_step = Suc n,
        io_log = io_log s @ [(Call_provider request, n, w, (case outcome of Inl _ \<Rightarrow> False | Inr _ \<Rightarrow> True))]\<rparr>))"

section \<open>What a computation adds to the log\<close>

text \<open>Every entry \<open>m\<close> adds satisfies \<open>P\<close>.\<close>

definition emits :: "(call_entry \<Rightarrow> bool) \<Rightarrow> 'a io \<Rightarrow> bool" where
  "emits P m \<longleftrightarrow> (\<forall>E s r t. m E s = (r, t) \<longrightarrow> (\<exists>new. io_log t = io_log s @ new \<and> list_all P new))"

named_theorems io_emits \<open>rules for what a computation adds to the log\<close>

lemma emitsD: "emits P m \<Longrightarrow> m E s = (r, t) \<Longrightarrow> \<exists>new. io_log t = io_log s @ new \<and> list_all P new"
  by (auto simp: emits_def)

lemma emitsI: "(\<And>E s r t. m E s = (r, t) \<Longrightarrow> \<exists>new. io_log t = io_log s @ new \<and> list_all P new) \<Longrightarrow> emits P m"
  by (auto simp: emits_def)

lemma emits_basic [io_emits]:
  "emits P (iret a)" "emits P (ithrow e)" "emits P (ilift r)" "emits P isignal" "emits P iclock" "emits P (imessage e)"
  by (auto simp: emits_def iret_def ithrow_def ilift_def isignal_def iclock_def imessage_def)

lemma ibind_cases:
  assumes "ibind m f E s = (r, t)"
  obtains (throws) e where "m E s = (Inl e, t)" "r = Inl e"
  | (returns) a u where "m E s = (Inr a, u)" "f a E u = (r, t)"
  using assms by (auto simp: ibind_def split: prod.splits sum.splits)

lemma icatch_cases:
  assumes "icatch m h E s = (r, t)"
  obtains (throws) e u where "m E s = (Inl e, u)" "h e E u = (r, t)"
  | (returns) a where "m E s = (Inr a, t)" "r = Inr a"
  using assms by (auto simp: icatch_def split: prod.splits sum.splits)

lemma ifinally_cases:
  assumes "ifinally m f E s = (r, t)"
  obtains q u x where "m E s = (q, u)" "f E u = (x, t)" "r = (case x of Inl e \<Rightarrow> Inl e | Inr _ \<Rightarrow> q)"
  using assms by (auto simp: ifinally_def split: prod.splits sum.splits)

lemma emits_step:
  assumes "emits P m" "m E s = (q, u)" "\<exists>new. io_log t = io_log u @ new \<and> list_all P new"
  shows "\<exists>new. io_log t = io_log s @ new \<and> list_all P new"
  using emitsD[OF assms(1,2)] assms(3) by (metis append.assoc list_all_append)

lemma emits_ibind [io_emits]:
  assumes "emits P m" "\<And>a. emits P (f a)"
  shows "emits P (ibind m f)"
proof (rule emitsI)
  fix E s r t assume "ibind m f E s = (r, t)"
  then show "\<exists>new. io_log t = io_log s @ new \<and> list_all P new"
    by (cases rule: ibind_cases) (auto intro: emitsD[OF assms(1)] emits_step[OF assms(1)] emitsD[OF assms(2)])
qed

lemma emits_icatch [io_emits]:
  assumes "emits P m" "\<And>e. emits P (h e)"
  shows "emits P (icatch m h)"
proof (rule emitsI)
  fix E s r t assume "icatch m h E s = (r, t)"
  then show "\<exists>new. io_log t = io_log s @ new \<and> list_all P new"
    by (cases rule: icatch_cases) (auto intro: emitsD[OF assms(1)] emits_step[OF assms(1)] emitsD[OF assms(2)])
qed

lemma emits_ifinally [io_emits]:
  assumes "emits P m" "emits P f"
  shows "emits P (ifinally m f)"
proof (rule emitsI)
  fix E s r t assume "ifinally m f E s = (r, t)"
  then show "\<exists>new. io_log t = io_log s @ new \<and> list_all P new"
    by (cases rule: ifinally_cases) (auto intro: emits_step[OF assms(1)] emitsD[OF assms(2)])
qed

lemma emits_if [io_emits]: "(b \<Longrightarrow> emits P m) \<Longrightarrow> (\<not> b \<Longrightarrow> emits P n) \<Longrightarrow> emits P (if b then m else n)"
  by simp

lemma emits_option [io_emits]: "emits P m \<Longrightarrow> (\<And>a. emits P (f a)) \<Longrightarrow> emits P (case v of None \<Rightarrow> m | Some a \<Rightarrow> f a)"
  by (cases v) auto

lemma emits_sum [io_emits]: "(\<And>a. emits P (f a)) \<Longrightarrow> (\<And>b. emits P (g b)) \<Longrightarrow> emits P (case v of Inl a \<Rightarrow> f a | Inr b \<Rightarrow> g b)"
  by (cases v) auto

lemma emits_prod [io_emits]: "(\<And>a b. emits P (f a b)) \<Longrightarrow> emits P (case v of (a, b) \<Rightarrow> f a b)"
  by (cases v) auto

lemma emits_error [io_emits]:
  "(\<And>a. emits P (f a)) \<Longrightarrow> (\<And>k m c. emits P (g k m c)) \<Longrightarrow> (\<And>m c n. emits P (h m c n)) \<Longrightarrow>
   emits P (case e of WE_App a \<Rightarrow> f a | WE_Blocked k m c \<Rightarrow> g k m c | WE_Job m c n \<Rightarrow> h m c n)"
  by (cases e) auto

lemma emits_Let [io_emits]: "(\<And>x. emits P (f x)) \<Longrightarrow> emits P (let x = v in f x)"
  by simp

lemma await_cases:
  assumes "await c m E s = (r, t)"
  obtains (throws) e w where "r = Inl (WE_App e)" "w = ie_others E (io_step s) (io_world s)" "io_world t = w"
      "io_log t = io_log s @ [(c, io_step s, w, False)]"
  | (returns) a w where "r = Inr a" "w = ie_others E (io_step s) (io_world s)" "io_log t = io_log s @ [(c, io_step s, w, True)]"
      "m (ie_now E (io_step s)) (ie_uuids E (io_step s)) w = Inr (a, io_world t)" "io_step t = Suc (io_step s)"
  using assms by (auto simp: await_def Let_def split: option.splits sum.splits prod.splits)

lemma emits_await [io_emits]: "(\<And>x. P (c, x)) \<Longrightarrow> emits P (await c m)"
  by (rule emitsI) (erule await_cases; simp)

lemma emits_provider [io_emits]: "(\<And>x. P (Call_provider q, x)) \<Longrightarrow> emits P (run_provider p q)"
  by (auto simp: emits_def run_provider_def Let_def)

text \<open>A computation that always throws.\<close>

definition always_throws :: "'a io \<Rightarrow> bool" where
  "always_throws m \<longleftrightarrow> (\<forall>E s a t. m E s \<noteq> (Inr a, t))"

lemma always_throws_rules [intro]:
  "always_throws (ithrow e)" "(\<And>a. always_throws (f a)) \<Longrightarrow> always_throws (ibind m f)"
  by (auto simp: always_throws_def ithrow_def ibind_def split: prod.splits sum.splits)

text \<open>Every value \<open>m\<close> returns satisfies \<open>Q\<close>.\<close>

definition yields :: "('a \<Rightarrow> bool) \<Rightarrow> 'a io \<Rightarrow> bool" where
  "yields Q m \<longleftrightarrow> (\<forall>E s a t. m E s = (Inr a, t) \<longrightarrow> Q a)"

lemma yieldsD: "yields Q m \<Longrightarrow> m E s = (Inr a, t) \<Longrightarrow> Q a"
  by (auto simp: yields_def)

lemma yields_basic: "yields Q (ithrow e)" "Q a \<Longrightarrow> yields Q (iret a)" "always_throws m \<Longrightarrow> yields Q m"
  by (auto simp: yields_def ithrow_def iret_def always_throws_def)

lemma yields_ibind: "(\<And>a. yields Q (f a)) \<Longrightarrow> yields Q (ibind m f)"
  by (auto simp: yields_def ibind_def split: prod.splits sum.splits)

lemma yields_if: "(b \<Longrightarrow> yields Q m) \<Longrightarrow> (\<not> b \<Longrightarrow> yields Q n) \<Longrightarrow> yields Q (if b then m else n)"
  by simp

lemma yields_prod: "(\<And>a b. yields Q (f a b)) \<Longrightarrow> yields Q (case v of (a, b) \<Rightarrow> f a b)"
  by (cases v) auto

lemmas yields_rules = yields_basic(1,2) yields_ibind yields_if yields_prod

text \<open>A call of the handler made of transactions only.\<close>

definition local_call :: "call_entry \<Rightarrow> bool" where
  "local_call x \<longleftrightarrow> (\<nexists>q. fst x = Call_provider q)"

lemma local_calls [simp]:
  "local_call (Call_load, x)" "local_call (Call_start, x)" "local_call (Call_permit, x)" "local_call (Call_fence, x)"
  "local_call (Call_attempt, x)" "local_call (Call_begin, x)" "local_call (Call_finish p, x)" "local_call (Call_record, x)"
  "local_call (Call_release k, x)" "local_call (Call_commit, x)" "local_call (Call_block c, x)"
  "local_call (Call_boundary st, x)" "local_call (Call_queue, x)" "\<not> local_call (Call_provider q, x)"
  by (simp_all add: local_call_def)

end
