(* ===== verification/Domain_Effects.thy ===== *)
theory Domain_Effects
  imports Research_Bundle
begin

text \<open>
  What the commit of a stage writes to the domain tables, the second half of \<open>lib/services/research-orchestrator.ts\<close>:
  evidence, claims, research gaps, source conflicts, the draft of the report and the findings of the QA stage. All of it
  runs inside the transaction of \<open>commitRunStage\<close>, as its callback. \<open>uuids\<close> are the identifiers drawn by \<open>randomUUID()\<close>.
\<close>

section \<open>The sources are still eligible\<close>

definition source_ready :: "database \<Rightarrow> source_row \<Rightarrow> bool" where
  "source_ready db s \<longleftrightarrow>
     (let ds = filter (\<lambda>d. do_source_id d = Some (so_id s) \<and> do_project_id d = so_project_id s) (document_rows db) in
      ds = [] \<or> list_ex (\<lambda>d. do_deleted_at d = None \<and> do_status d = DOC_READY) ds)"

definition still_eligible :: "string \<Rightarrow> string list \<Rightarrow> database \<Rightarrow> source_row list" where
  "still_eligible projectId referenced db =
     filter (\<lambda>s. so_project_id s = projectId \<and> so_id s \<in> set referenced \<and> source_ready db s) (source_rows db)"

definition assertReferencedSourcesStillEligible :: "research_bundle \<Rightarrow> stage_output \<Rightarrow> unit db_tx" where
  "assertReferencedSourcesStillEligible b out =
     (let referenced = js_unique (sourceIdsIn (output_json out)) in
      if referenced = [] then ret ()
      else
        tbind (gets (still_eligible (r_project_id (b_run b)) referenced)) (\<lambda>eligible.
        require (length eligible = length referenced) (conflict ''SOURCE_ELIGIBILITY_CHANGED'')))"

section \<open>Inserting rows\<close>

text \<open>A loop over \<open>entries()\<close>; the rows are numbered from 1.\<close>

fun for_each_from :: "nat \<Rightarrow> (nat \<Rightarrow> 'a \<Rightarrow> unit db_tx) \<Rightarrow> 'a list \<Rightarrow> unit db_tx" where
  "for_each_from n f [] = ret ()"
| "for_each_from n f (x # xs) = tbind (f n x) (\<lambda>_. for_each_from (Suc n) f xs)"

definition row_id :: "string \<Rightarrow> research_bundle \<Rightarrow> nat \<Rightarrow> string" where
  "row_id prefix b n = prefix @ s_id (b_stage b) @ ''-'' @ int_text (int n)"

definition ref_ok :: "('r \<Rightarrow> string) \<Rightarrow> 'r list \<Rightarrow> string option \<Rightarrow> bool" where
  "ref_ok key rows r = (case r of None \<Rightarrow> True | Some k \<Rightarrow> list_ex (\<lambda>x. key x = k) rows)"

definition insert_evidence :: "evidence_row \<Rightarrow> unit db_tx" where
  "insert_evidence e =
     tbind (gets (\<lambda>db. list_ex (\<lambda>x. g_id x = g_id e) (evidence_rows db))) (\<lambda>dup.
     tbind (require (\<not> dup) (DbError ''unique_violation'')) (\<lambda>_.
     tbind (gets (\<lambda>db. ref_ok so_id (source_rows db) (Some (ev_source_id e)) \<and> ref_ok do_id (document_rows db) (ev_document_id e) \<and>
              ref_ok ch_id (chunk_rows db) (ev_chunk_id e) \<and> ref_ok an_id (anchor_rows db) (ev_citation_anchor_id e))) (\<lambda>refs.
     tbind (require refs (DbError ''foreign_key_violation'')) (\<lambda>_.
     modify (\<lambda>db. db\<lparr>evidence_rows := evidence_rows db @ [e]\<rparr>)))))"

definition insert_claim :: "claim_row \<Rightarrow> unit db_tx" where
  "insert_claim c =
     tbind (gets (\<lambda>db. list_ex (\<lambda>x. g_id x = g_id c) (claim_rows db))) (\<lambda>dup.
     tbind (require (\<not> dup) (DbError ''unique_violation'')) (\<lambda>_.
     tbind (gets (\<lambda>db. ref_ok q_id (research_questions db) (cl_question_id c))) (\<lambda>refs.
     tbind (require refs (DbError ''foreign_key_violation'')) (\<lambda>_.
     modify (\<lambda>db. db\<lparr>claim_rows := claim_rows db @ [c]\<rparr>)))))"

definition insert_qa_finding :: "qa_finding_row \<Rightarrow> unit db_tx" where
  "insert_qa_finding q =
     tbind (gets (\<lambda>db. list_ex (\<lambda>x. g_id x = g_id q) (qa_finding_rows db))) (\<lambda>dup.
     tbind (require (\<not> dup) (DbError ''unique_violation'')) (\<lambda>_.
     tbind (gets (\<lambda>db. ref_ok de_id (deliverables db) (qf_deliverable_id q))) (\<lambda>refs.
     tbind (require refs (DbError ''foreign_key_violation'')) (\<lambda>_.
     modify (\<lambda>db. db\<lparr>qa_finding_rows := qa_finding_rows db @ [q]\<rparr>)))))"

section \<open>Evidence\<close>

definition text_or_null :: "string \<Rightarrow> string option" where
  "text_or_null s = (if s = [] then None else Some s)"

definition evidence_row_of :: "int \<Rightarrow> research_bundle \<Rightarrow> nat \<Rightarrow> eligible_source \<Rightarrow> evidence_out \<Rightarrow> evidence_row" where
  "evidence_row_of now b n source e =
     \<lparr>g_id = row_id ''ai-evidence-'' b n, g_generated_by = Some (s_id (b_stage b)), g_is_current = True, g_updated_at = now,
      ev_source_id = eo_sourceId e, ev_summary = eo_summary e, ev_minimal_quote = text_or_null (eo_minimalQuote e),
      ev_original_location = Some (eo_location e), ev_page_or_section = Some (eo_location e), ev_confidence = eo_confidence e,
      ev_verification_status = V_PENDING, ev_document_id = es_documentId source, ev_chunk_id = es_firstChunkId source,
      ev_citation_anchor_id = es_firstCitationAnchorId source,
      ev_citation_status = (if truthy (es_firstCitationAnchorId source) \<noteq> None then ''CURRENT'' else ''LEGACY''),
      ev_created_at = now\<rparr>"

text \<open>The \<open>Map\<close> of the eligible sources; the last entry of an identifier counts.\<close>

definition eligible_source_of :: "research_bundle \<Rightarrow> string \<Rightarrow> eligible_source option" where
  "eligible_source_of b k = find (\<lambda>s. es_id s = k) (rev (b_eligibleSources b))"

definition commit_evidence_item :: "int \<Rightarrow> research_bundle \<Rightarrow> nat \<Rightarrow> evidence_out \<Rightarrow> unit db_tx" where
  "commit_evidence_item now b n e =
     tbind (from_some (eligible_source_of b (eo_sourceId e)) (conflict ''UNKNOWN_SOURCE_ID'')) (\<lambda>source.
     insert_evidence (evidence_row_of now b n source e))"

definition commitEvidence :: "int \<Rightarrow> research_bundle \<Rightarrow> evidence_out list \<Rightarrow> unit db_tx" where
  "commitEvidence now b items = for_each_from 1 (commit_evidence_item now b) items"

section \<open>Claims\<close>

definition claim_row_of :: "int \<Rightarrow> research_bundle \<Rightarrow> string option \<Rightarrow> nat \<Rightarrow> claim_out \<Rightarrow> claim_row" where
  "claim_row_of now b questionId n c =
     \<lparr>g_id = row_id ''ai-claim-'' b n, g_generated_by = Some (s_id (b_stage b)), g_is_current = True, g_updated_at = now,
      cl_project_id = r_project_id (b_run b), cl_question_id = questionId, cl_content = co_text c, cl_claim_type = co_type c,
      cl_importance = co_importance c, cl_support_status = SUP_UNSUPPORTED,
      cl_fact_or_inference = (if co_type c = ''FACT'' then ''FACT'' else ''INFERENCE''), cl_include_in_report = False,
      cl_verification_possible = True, cl_within_scope = True, cl_created_at = now\<rparr>"

definition supporting_evidence :: "string \<Rightarrow> string list \<Rightarrow> database \<Rightarrow> evidence_row list" where
  "supporting_evidence projectId ids db =
     sort_key (\<lambda>e. (ev_created_at e, g_id e))
       (filter (\<lambda>e. source_in db projectId (ev_source_id e) \<and> g_is_current e \<and> ev_source_id e \<in> set ids) (evidence_rows db))"

text \<open>\<open>ON CONFLICT (claim_id, evidence_id) DO NOTHING\<close>\<close>

definition link_evidence :: "string \<Rightarrow> evidence_row \<Rightarrow> database \<Rightarrow> database" where
  "link_evidence claimId e db =
     (if list_ex (\<lambda>ce. ce_claim_id ce = claimId \<and> ce_evidence_id ce = g_id e) (claim_evidence_rows db) then db
      else db\<lparr>claim_evidence_rows := claim_evidence_rows db @
        [\<lparr>ce_claim_id = claimId, ce_evidence_id = g_id e, ce_relationship = ''SUPPORTS'',
          ce_notes = Some ''AI-proposed support; human verification remains required.''\<rparr>]\<rparr>)"

definition support_claim :: "int \<Rightarrow> string \<Rightarrow> database \<Rightarrow> database" where
  "support_claim now claimId db =
     db\<lparr>claim_rows := update_where (\<lambda>c. g_id c = claimId) (\<lambda>c. c\<lparr>cl_support_status := SUP_SUPPORTED, g_updated_at := now\<rparr>) (claim_rows db)\<rparr>"

definition commit_claim_item :: "int \<Rightarrow> research_bundle \<Rightarrow> string option \<Rightarrow> nat \<Rightarrow> claim_out \<Rightarrow> unit db_tx" where
  "commit_claim_item now b questionId n c =
     tbind (insert_claim (claim_row_of now b questionId n c)) (\<lambda>_.
     if co_sourceIds c = [] then ret ()
     else
       (let claimId = row_id ''ai-claim-'' b n in
        tbind (gets (supporting_evidence (r_project_id (b_run b)) (co_sourceIds c))) (\<lambda>evidence.
        tbind (for_each (\<lambda>e. modify (link_evidence claimId e)) evidence) (\<lambda>_.
        if list_ex (\<lambda>e. ev_verification_status e = V_VERIFIED) evidence then modify (support_claim now claimId) else ret ()))))"

definition commitClaims :: "int \<Rightarrow> research_bundle \<Rightarrow> claim_out list \<Rightarrow> unit db_tx" where
  "commitClaims now b items =
     (let questionId = (case approvedQuestions b of [] \<Rightarrow> None | q # _ \<Rightarrow> Some (aq_id q)) in
      for_each_from 1 (commit_claim_item now b questionId) items)"

section \<open>Research gaps\<close>

definition gap_line :: "gap_out \<Rightarrow> string" where
  "gap_line g =
     ''['' @ severity_name (go_severity g) @ ''] '' @ go_description g @
     (if go_nextSearches g \<noteq> [] then '' Next searches: '' @ join ''; '' (go_nextSearches g) else [])"

definition gap_description :: "gap_out list \<Rightarrow> string option" where
  "gap_description gaps = (if gaps = [] then None else Some (take 20000 (join [nl] (map gap_line gaps))))"

text \<open>\<open>COALESCE(BTRIM(research_gap), '') = ''\<close>: only spaces.\<close>

definition blank_gap :: "string option \<Rightarrow> bool" where
  "blank_gap g = (case g of None \<Rightarrow> True | Some s \<Rightarrow> list_all (\<lambda>c. c = CHR '' '') s)"

definition gap_writable :: "string \<Rightarrow> string \<Rightarrow> question_row \<Rightarrow> bool" where
  "gap_writable projectId questionId q \<longleftrightarrow>
     q_id q = questionId \<and> q_project_id q = projectId \<and> q_gap_status q \<noteq> GAP_ACCEPTED \<and> q_gap_status q \<noteq> GAP_RESOLVED \<and>
     (q_gap_generated_by q \<noteq> None \<or> q_gap_status q = GAP_NONE \<and> blank_gap (q_research_gap q))"

definition write_gap_row :: "int \<Rightarrow> string \<Rightarrow> string option \<Rightarrow> question_row \<Rightarrow> question_row" where
  "write_gap_row now stageId description q =
     q\<lparr>q_research_gap := description, q_gap_status := (if description = None then GAP_NONE else GAP_OPEN),
       q_gap_generated_by := (if description = None then None else Some stageId), q_updated_at := now\<rparr>"

definition commit_gap_item :: "int \<Rightarrow> research_bundle \<Rightarrow> gap_out list \<Rightarrow> approved_question \<Rightarrow> unit db_tx" where
  "commit_gap_item now b gaps question =
     modify (\<lambda>db. db\<lparr>research_questions :=
       update_where (gap_writable (r_project_id (b_run b)) (aq_id question))
         (write_gap_row now (s_id (b_stage b)) (gap_description (filter (\<lambda>g. go_questionId g = aq_id question) gaps)))
         (research_questions db)\<rparr>)"

definition commitResearchGaps :: "int \<Rightarrow> research_bundle \<Rightarrow> gap_out list \<Rightarrow> unit db_tx" where
  "commitResearchGaps now b gaps = for_each (commit_gap_item now b gaps) (approvedQuestions b)"

section \<open>Conflicts and QA findings\<close>

definition finding_metadata :: "research_bundle \<Rightarrow> string list \<Rightarrow> (string \<times> jsv) list \<Rightarrow> jsv" where
  "finding_metadata b ids extra =
     JObj ([(''generatedBy'', JStr ''research-pipeline''), (''runId'', JStr (r_id (b_run b))),
            (''runStageId'', JStr (s_id (b_stage b))), (''sourceIds'', js_texts ids)] @ extra)"

definition conflict_row_of :: "int \<Rightarrow> research_bundle \<Rightarrow> nat \<Rightarrow> conflict_out \<Rightarrow> qa_finding_row" where
  "conflict_row_of now b n x =
     \<lparr>g_id = row_id ''ai-conflict-'' b n, g_generated_by = Some (s_id (b_stage b)), g_is_current = True, g_updated_at = now,
      qf_project_id = r_project_id (b_run b), qf_deliverable_id = map_option de_id (b_deliverable b),
      qf_rule_code = ''AI_SOURCE_CONFLICT'', qf_severity = xo_materiality x,
      qf_location = ''research:conflict:'' @ int_text (int n), qf_problem = xo_description x,
      qf_remediation = (if xo_resolutionNeeded x then ''Resolve the source disagreement or document its effect before approval.''
        else ''Review and record why this disagreement does not require resolution.''),
      qf_resolution_status = RES_OPEN,
      qf_metadata = finding_metadata b (xo_sourceIds x) [(''materiality'', JStr (severity_name (xo_materiality x))),
        (''resolutionNeeded'', JBool (xo_resolutionNeeded x))],
      qf_created_at = now\<rparr>"

definition commitSourceConflicts :: "int \<Rightarrow> research_bundle \<Rightarrow> conflict_out list \<Rightarrow> unit db_tx" where
  "commitSourceConflicts now b items = for_each_from 1 (\<lambda>n x. insert_qa_finding (conflict_row_of now b n x)) items"

definition issue_row_of :: "int \<Rightarrow> research_bundle \<Rightarrow> nat \<Rightarrow> qa_issue_out \<Rightarrow> qa_finding_row" where
  "issue_row_of now b n i =
     \<lparr>g_id = row_id ''ai-qa-'' b n, g_generated_by = Some (s_id (b_stage b)), g_is_current = True, g_updated_at = now,
      qf_project_id = r_project_id (b_run b), qf_deliverable_id = map_option de_id (b_deliverable b),
      qf_rule_code = ''AI_QA_REVISION'', qf_severity = io_severity i, qf_location = io_location i, qf_problem = io_problem i,
      qf_remediation = io_suggestion i, qf_resolution_status = RES_OPEN,
      qf_metadata = finding_metadata b (io_sourceIds i) [], qf_created_at = now\<rparr>"

definition commitQaSuggestions :: "int \<Rightarrow> research_bundle \<Rightarrow> qa_issue_out list \<Rightarrow> unit db_tx" where
  "commitQaSuggestions now b items = for_each_from 1 (\<lambda>n i. insert_qa_finding (issue_row_of now b n i)) items"

section \<open>The draft\<close>

definition reportSectionKeys :: "string list" where
  "reportSectionKeys =
     [''researchPurpose'', ''executiveSummary'', ''researchScope'', ''methodology'', ''keyFindings'', ''detailedAnalysis'',
      ''comparisonTable'', ''risksAndLimitations'', ''recommendations'', ''references'', ''appendix'']"

definition cite :: "string \<Rightarrow> string" where
  "cite k = ''[@'' @ k @ '']''"

definition or_text :: "string \<Rightarrow> string \<Rightarrow> string" where
  "or_text s fallback = (if s = [] then fallback else s)"

definition claim_line :: "draft_out \<Rightarrow> domain_claim \<Rightarrow> string" where
  "claim_line out c =
     (let cited = join '' '' (map cite (filter (\<lambda>k. k \<in> set (do_citationSourceIds out)) (case_option [] id (dc_source_ids c)))) in
      ''- '' @ dc_content c @ (if cited \<noteq> [] then '' '' @ cited else []))"

definition generatedReportSections :: "research_bundle \<Rightarrow> draft_out \<Rightarrow> (string \<times> string) list" where
  "generatedReportSections b out =
     (let scope = js_record (r_scope_snapshot (b_run b));
          citations = join [nl] (map cite (do_citationSourceIds out));
          claims = join [nl] (map (claim_line out) (b_domainClaims b)) in
      [(''researchPurpose'', js_text_or (js_get scope ''purpose'') ''Human review of the approved research purpose is required.''),
       (''executiveSummary'', do_markdown out),
       (''researchScope'', js_text_or (js_get scope ''scope'') ''Use the frozen approved scope for this run.''),
       (''methodology'', ''Generated from the frozen approved scope and plan using evidence restricted to this project.''),
       (''keyFindings'', or_text claims ''No AI-proposed finding is ready for human inclusion.''),
       (''detailedAnalysis'', do_markdown out),
       (''comparisonTable'', []),
       (''risksAndLimitations'', or_text (join [nl] (do_limitations out)) ''Provider output requires human review.''),
       (''recommendations'', ''Review all AI suggestions and evidence before approval.''),
       (''references'', or_text citations ''No source citation was proposed.''),
       (''appendix'', [])])"

definition section_of :: "(string \<times> string) list \<Rightarrow> string \<Rightarrow> string" where
  "section_of kvs k = (case map_of kvs k of None \<Rightarrow> [] | Some s \<Rightarrow> s)"

text \<open>Assignment of a member of an object: in place, or a new member at the end.\<close>

fun set_member :: "string \<Rightarrow> 'v \<Rightarrow> (string \<times> 'v) list \<Rightarrow> (string \<times> 'v) list" where
  "set_member k v [] = [(k, v)]"
| "set_member k v ((k', v') # kvs) = (if k' = k then (k, v) # kvs else (k', v') # set_member k v kvs)"

text \<open>The sections some revision of the deliverable by \<open>actor\<close> changed.\<close>

definition owned_sections :: "actor_type \<Rightarrow> string \<Rightarrow> database \<Rightarrow> string list" where
  "owned_sections actor deliverableId db =
     concat (map dr_changed_sections
       (filter (\<lambda>r. dr_deliverable_id r = deliverableId \<and> dr_actor_type r = actor) (deliverable_revisions db)))"

definition may_write :: "string list \<Rightarrow> string list \<Rightarrow> (string \<times> string) list \<Rightarrow> (string \<times> string) list \<Rightarrow> string \<Rightarrow> bool" where
  "may_write protectedSections aiOwned generated sections k \<longleftrightarrow>
     k \<notin> set protectedSections \<and> (js_trim (section_of sections k) = [] \<or> k \<in> set aiOwned) \<and>
     section_of sections k \<noteq> section_of generated k"

fun merge_sections ::
  "string list \<Rightarrow> string list \<Rightarrow> (string \<times> string) list \<Rightarrow> string list \<Rightarrow> (string \<times> string) list \<Rightarrow> string list \<Rightarrow>
   (string \<times> string) list \<times> string list" where
  "merge_sections protectedSections aiOwned generated [] sections changed = (sections, changed)"
| "merge_sections protectedSections aiOwned generated (k # ks) sections changed =
     (if may_write protectedSections aiOwned generated sections k
      then merge_sections protectedSections aiOwned generated ks (set_member k (section_of generated k) sections) (changed @ [k])
      else merge_sections protectedSections aiOwned generated ks sections changed)"

definition insert_revision :: "deliverable_revision_row \<Rightarrow> unit db_tx" where
  "insert_revision r =
     tbind (gets (\<lambda>db. list_ex (\<lambda>x. dr_id x = dr_id r) (deliverable_revisions db))) (\<lambda>dup.
     tbind (require (\<not> dup) (DbError ''unique_violation'')) (\<lambda>_.
     modify (\<lambda>db. db\<lparr>deliverable_revisions := deliverable_revisions db @ [r]\<rparr>)))"

definition first_draft :: "int \<Rightarrow> string \<Rightarrow> string \<Rightarrow> research_bundle \<Rightarrow> draft_out \<Rightarrow> unit db_tx" where
  "first_draft now draftUuid revisionUuid b out =
     (let generated = generatedReportSections b out in
      tbind (gets (\<lambda>db. list_ex (\<lambda>d. de_id d = draftUuid) (deliverables db))) (\<lambda>dup.
      tbind (require (\<not> dup) (DbError ''unique_violation'')) (\<lambda>_.
      tbind (modify (\<lambda>db. db\<lparr>deliverables := deliverables db @
        [\<lparr>de_id = draftUuid, de_project_id = r_project_id (b_run b), de_version = 1, de_title = do_title out,
          de_sections = generated, de_generated_at = Some now, de_approval_status = ''DRAFT'', de_updated_at = now\<rparr>]\<rparr>)) (\<lambda>_.
      insert_revision
        \<lparr>dr_id = revisionUuid, dr_deliverable_id = draftUuid, dr_actor_type = AI,
         dr_changed_sections = filter (\<lambda>k. js_trim (section_of generated k) \<noteq> []) reportSectionKeys,
         dr_previous_sections = [], dr_new_sections = generated\<rparr>))))"

definition update_draft :: "int \<Rightarrow> string \<Rightarrow> research_bundle \<Rightarrow> draft_out \<Rightarrow> deliverable_row \<Rightarrow> unit db_tx" where
  "update_draft now revisionUuid b out d =
     tbind (gets (owned_sections USER (de_id d))) (\<lambda>protectedSections.
     tbind (gets (owned_sections AI (de_id d))) (\<lambda>aiOwned.
     (let (nextSections, changed) =
            merge_sections protectedSections aiOwned (generatedReportSections b out) reportSectionKeys (de_sections d) [] in
      if changed = [] then ret ()
      else
        tbind (modify (\<lambda>db. db\<lparr>deliverables := update_where (\<lambda>x. de_id x = de_id d)
          (\<lambda>x. x\<lparr>de_sections := nextSections, de_generated_at := Some now, de_updated_at := now\<rparr>) (deliverables db)\<rparr>)) (\<lambda>_.
        insert_revision
          \<lparr>dr_id = revisionUuid, dr_deliverable_id = de_id d, dr_actor_type = AI, dr_changed_sections = changed,
           dr_previous_sections = de_sections d, dr_new_sections = nextSections\<rparr>))))"

definition commitDraftSuggestion :: "int \<Rightarrow> string \<times> string \<Rightarrow> research_bundle \<Rightarrow> draft_out \<Rightarrow> unit db_tx" where
  "commitDraftSuggestion now uuids b out =
     tbind (gets (latest_deliverable (r_project_id (b_run b)))) (\<lambda>current.
     (case current of
        None \<Rightarrow> first_draft now (fst uuids) (snd uuids) b out
      | Some d \<Rightarrow> update_draft now (snd uuids) b out d))"

section \<open>The callback\<close>

definition superseding_stages :: "ai_stage list" where
  "superseding_stages = [evidence_extraction, claim_generation, gap_detection, conflict_detection, qa_revision]"

text \<open>The \<open>switch\<close> on the stage; an output that is not of the stage would be read as an object without the fields.\<close>

definition commit_switch :: "int \<Rightarrow> string \<times> string \<Rightarrow> research_bundle \<Rightarrow> stage_output \<Rightarrow> ai_stage \<Rightarrow> unit db_tx" where
  "commit_switch now uuids b out stage =
     (case stage of
        evidence_extraction \<Rightarrow> (case out of Evidence_output es \<Rightarrow> commitEvidence now b es | _ \<Rightarrow> raise (GenericError ''TypeError''))
      | gap_detection \<Rightarrow> (case out of Gaps_output gs \<Rightarrow> commitResearchGaps now b gs | _ \<Rightarrow> raise (GenericError ''TypeError''))
      | conflict_detection \<Rightarrow> (case out of Conflicts_output xs \<Rightarrow> commitSourceConflicts now b xs | _ \<Rightarrow> raise (GenericError ''TypeError''))
      | claim_generation \<Rightarrow> (case out of Claims_output cs \<Rightarrow> commitClaims now b cs | _ \<Rightarrow> raise (GenericError ''TypeError''))
      | draft_generation \<Rightarrow> (case out of Draft_output d \<Rightarrow> commitDraftSuggestion now uuids b d | _ \<Rightarrow> raise (GenericError ''TypeError''))
      | qa_revision \<Rightarrow> (case out of Qa_output is _ \<Rightarrow> commitQaSuggestions now b is | _ \<Rightarrow> raise (GenericError ''TypeError''))
      | _ \<Rightarrow> ret ())"

definition commitResearchStageDomainEffects ::
  "int \<Rightarrow> string \<times> string \<Rightarrow> research_bundle \<Rightarrow> stage_output \<Rightarrow> unit db_tx" where
  "commitResearchStageDomainEffects now uuids b out =
     tbind (assertReferencedSourcesStillEligible b out) (\<lambda>_.
     (let stage = s_stage_id (b_stage b) in
      tbind (if stage \<in> set superseding_stages
             then supersedeCurrentGeneratedDomainEffects now (r_project_id (b_run b)) stage (s_id (b_stage b)) else ret ()) (\<lambda>_.
      commit_switch now uuids b out stage)))"

end
