(* ===== verification/Stage_Advance.thy ===== *)
theory Stage_Advance
  imports Worker_Io Domain_Effects Research_Runs
begin

text \<open>
  What follows a committed stage, \<open>advanceResearchPipelineStage\<close> of \<open>lib/services/research-orchestrator.ts\<close>: the decision,
  which reads only the bundle, and the three transactions around it.
\<close>

section \<open>The decision\<close>

datatype advance_decision =
    Stay
  | Reach research_run_status "string option"
  | Already string
  | Queue_next research_run_stage_row

definition closed_run_statuses :: "research_run_status list" where
  "closed_run_statuses = [R_CANCELLING, R_CANCELLED, R_FAILED, R_BLOCKED]"

definition following_stage :: "ai_stage \<Rightarrow> pipeline_stage_definition option" where
  "following_stage stage =
     (let current = find (\<lambda>d. sd_id d = stage) PIPELINE_STAGE_CATALOG in
      find (\<lambda>d. sd_ordinal d = case_option 0 sd_ordinal current + 1) PIPELINE_STAGE_CATALOG)"

definition qa_blocked :: "research_bundle \<Rightarrow> qa_issue_out list \<Rightarrow> bool" where
  "qa_blocked b is \<longleftrightarrow>
     list_ex (\<lambda>q. qn_severity q = SEV_BLOCKER) (b_qaFindings b) \<or> list_ex (\<lambda>i. io_severity i = SEV_BLOCKER) is"

definition advance_qa :: "research_bundle \<Rightarrow> qa_issue_out list \<Rightarrow> advance_decision" where
  "advance_qa b is =
     (if qa_blocked b is then Reach R_BLOCKED (Some ''QA blocker findings require human resolution before approval.'')
      else Reach R_APPROVAL_REQUIRED None)"

definition advance_next :: "research_bundle \<Rightarrow> ai_stage \<Rightarrow> app_error + advance_decision" where
  "advance_next b stage =
     (case following_stage stage of
        None \<Rightarrow> Inr (Reach R_QA_REQUIRED None)
      | Some d \<Rightarrow>
          (case latest_stage b (sd_id d) of
             None \<Rightarrow> Inl (conflict ''MISSING_RUN_STAGE'')
           | Some n \<Rightarrow>
               if s_status n \<in> {S_QUEUED, S_RUNNING, S_SUCCEEDED} then Inr (Already (s_id n)) else Inr (Queue_next n)))"

definition advance_decision :: "research_bundle \<Rightarrow> stage_output \<Rightarrow> app_error + advance_decision" where
  "advance_decision b out =
     (let stage = s_stage_id (b_stage b) in
      if s_status (b_stage b) \<noteq> S_SUCCEEDED then Inl (conflict ''STAGE_NOT_SUCCEEDED'')
      else if r_status (b_run b) \<in> set closed_run_statuses then Inr Stay
      else if stage = qa_revision then
        (case out of Qa_output is _ \<Rightarrow> Inr (advance_qa b is) | _ \<Rightarrow> Inl (GenericError ''TypeError''))
      else if r_mode (b_run b) = DRAFT_ONLY \<and> stage = draft_generation then
        Inr (Reach R_QA_REQUIRED (Some ''Draft-only mode stops before QA revision and human approval.''))
      else if r_mode (b_run b) = ASSISTED then
        Inr (Reach R_PAUSED (Some (''Assisted mode requires review after '' @ ai_stage_name stage @ ''.'')))
      else advance_next b stage)"

text \<open>The generation the queued job works on.\<close>

definition queued_generation :: "research_run_stage_row \<Rightarrow> int" where
  "queued_generation n = (if s_status n = S_STALE then s_generation n + 1 else s_generation n)"

definition next_job_key :: "js_env \<Rightarrow> research_bundle \<Rightarrow> research_run_stage_row \<Rightarrow> string" where
  "next_job_key J b n = stage_job_key (r_id (b_run b)) (s_stage_id n) (num_text J (of_int (queued_generation n)))"

section \<open>The transactions\<close>

text \<open>The result, \<open>{ boundary?, queuedStageId? }\<close>.\<close>

datatype advancement = No_advancement | Boundary research_run_status | Queued_stage string

definition carry_out ::
  "js_env \<Rightarrow> run_stage_job_fence \<Rightarrow> research_bundle \<Rightarrow> advance_decision \<Rightarrow> advancement io" where
  "carry_out J fence b decision =
     (case decision of
        Stay \<Rightarrow> iret No_advancement
      | Reach status reason \<Rightarrow>
          ibind (await (Call_boundary status)
                  (\<lambda>now _. in_db (setResearchRunBoundary now (s_id (b_stage b)) fence status reason))) (\<lambda>_.
          iret (Boundary status))
      | Already k \<Rightarrow> iret (Queued_stage k)
      | Queue_next n \<Rightarrow>
          ibind (await Call_queue (\<lambda>now uuids. in_db (queueRunStage J now (fst uuids) (snd uuids) (s_id n) fence
                  (safeStageJobInput (b_run b) n (Some (b_stage b))) (next_job_key J b n)))) (\<lambda>(stage, _, _).
          iret (Queued_stage (s_id stage))))"

definition to_work :: "app_error + 'a \<Rightarrow> 'a work" where
  "to_work r = (case r of Inl e \<Rightarrow> Inl (WE_App e) | Inr a \<Rightarrow> Inr a)"

definition advanceResearchPipelineStage ::
  "js_env \<Rightarrow> string \<Rightarrow> run_stage_job_fence \<Rightarrow> stage_output \<Rightarrow> advancement io" where
  "advanceResearchPipelineStage J runStageId fence out =
     ibind (await Call_fence (\<lambda>now _. in_db (assertRunStageJobFence now runStageId fence))) (\<lambda>_.
     ibind (await Call_load (\<lambda>_ _. in_db (loadResearchOrchestrationBundle runStageId))) (\<lambda>b.
     ibind (ilift (to_work (advance_decision b out))) (carry_out J fence b)))"

lemma advance_emits:
  "emits local_call (advanceResearchPipelineStage J k fence out)"
  unfolding advanceResearchPipelineStage_def carry_out_def
  by (intro io_emits local_calls) (auto split: advance_decision.split intro!: io_emits)

section \<open>What the decision can be\<close>

lemma following_stage_ordinal:
  assumes "following_stage stage = Some d"
  shows "d \<in> set PIPELINE_STAGE_CATALOG \<and> sd_ordinal d = sd_ordinal (stage_definitions stage) + 1"
proof -
  have "find (\<lambda>d. sd_id d = stage) PIPELINE_STAGE_CATALOG = Some (stage_definitions stage)"
    by (cases stage) (simp_all add: PIPELINE_STAGE_CATALOG_def AI_STAGES_def)
  then show ?thesis using assms by (auto simp: following_stage_def Let_def dest: find_SomeD)
qed

lemma advance_decision_cases:
  assumes "advance_decision b out = Inr d" "r_status (b_run b) \<notin> set closed_run_statuses"
  shows "s_status (b_stage b) = S_SUCCEEDED \<and>
    (case d of
       Stay \<Rightarrow> False
     | Reach status _ \<Rightarrow> status \<in> {R_PAUSED, R_QA_REQUIRED, R_APPROVAL_REQUIRED, R_BLOCKED} \<and>
         (status = R_APPROVAL_REQUIRED \<longrightarrow> s_stage_id (b_stage b) = qa_revision \<and>
            list_all (\<lambda>q. qn_severity q \<noteq> SEV_BLOCKER) (b_qaFindings b))
     | Already k \<Rightarrow> (\<exists>n\<in>set (b_latestStages b). s_id n = k \<and> r_mode (b_run b) \<noteq> ASSISTED)
     | Queue_next n \<Rightarrow> n \<in> set (b_latestStages b) \<and> r_mode (b_run b) \<noteq> ASSISTED \<and> s_stage_id (b_stage b) \<noteq> qa_revision \<and>
         (r_mode (b_run b) = DRAFT_ONLY \<longrightarrow> s_stage_id n \<noteq> qa_revision) \<and>
         sd_ordinal (stage_definitions (s_stage_id n)) = sd_ordinal (stage_definitions (s_stage_id (b_stage b))) + 1)"
proof -
  have next_case: "case d of Stay \<Rightarrow> False | Reach status _ \<Rightarrow> status = R_QA_REQUIRED
      | Already k \<Rightarrow> (\<exists>n\<in>set (b_latestStages b). s_id n = k)
      | Queue_next n \<Rightarrow> n \<in> set (b_latestStages b) \<and>
         sd_ordinal (stage_definitions (s_stage_id n)) = sd_ordinal (stage_definitions (s_stage_id (b_stage b))) + 1"
    if nx: "advance_next b (s_stage_id (b_stage b)) = Inr d"
  proof (cases "following_stage (s_stage_id (b_stage b))")
    case None
    then show ?thesis using nx by (auto simp: advance_next_def)
  next
    case (Some f)
    then obtain n where n: "latest_stage b (sd_id f) = Some n" using nx by (auto simp: advance_next_def split: option.splits)
    then have mem: "n \<in> set (b_latestStages b)" "s_stage_id n = sd_id f" by (auto simp: latest_stage_def dest: find_SomeD)
    have "stage_definitions (sd_id f) = f" using following_stage_ordinal[OF Some]
      by (auto simp: PIPELINE_STAGE_CATALOG_def AI_STAGES_def)
    then show ?thesis using nx Some n mem following_stage_ordinal[OF Some]
      by (auto simp: advance_next_def split: if_splits)
  qed
  have qa: "list_all (\<lambda>q. qn_severity q \<noteq> SEV_BLOCKER) (b_qaFindings b)" if "\<not> qa_blocked b is" for "is"
    using that by (simp add: qa_blocked_def list_ex_iff list_all_iff)
  have ord: "sd_ordinal (stage_definitions qa_revision) \<noteq> sd_ordinal (stage_definitions x) + 1" if "x \<noteq> draft_generation" for x
    using that by (cases x) simp_all
  show ?thesis
    using assms next_case ord unfolding advance_decision_def Let_def advance_qa_def
    by (auto split: if_splits stage_output.splits advance_decision.splits intro: qa)
qed

end
