(* ===== verification/Pipeline_Handler.thy ===== *)
theory Pipeline_Handler
  imports Stage_Advance
begin

text \<open>
  The worker's handler of a pipeline stage, \<open>worker/research-pipeline-handler.ts\<close>: load the bundle, start the stage, check
  the budget, take a permit, call the provider, record what happened, commit the output and move the run on. The budget
  snapshot of a run is a validated one (\<open>budget_snapshot\<close>), so the branch for a snapshot without a maximum cost is left out.
\<close>

section \<open>The permit a run works under\<close>

definition hex_at :: "string \<Rightarrow> nat \<Rightarrow> bool" where
  "hex_at s i \<longleftrightarrow> (let c = ascii_lower (s ! i) in is_digit c \<or> c \<in> set ''abcdef'')"

text \<open>\<open>UUID_V4_PATTERN\<close>\<close>

definition is_uuid_v4 :: "string \<Rightarrow> bool" where
  "is_uuid_v4 s \<longleftrightarrow>
     length s = 36 \<and>
     list_all (\<lambda>i.
       if i = 8 \<or> i = 13 \<or> i = 18 \<or> i = 23 then s ! i = CHR ''-''
       else if i = 14 then s ! i = CHR ''4''
       else if i = 19 then ascii_lower (s ! i) \<in> set ''89ab''
       else hex_at s i) [0..<36]"

definition SYNTHETIC_EVALUATION_PROFILE :: string where
  "SYNTHETIC_EVALUATION_PROFILE = ''synthetic-evaluation-v2''"

definition syntheticEvaluationProviderConfig :: "string \<Rightarrow> app_error + jsv" where
  "syntheticEvaluationProviderConfig scopeId =
     (if \<not> is_uuid_v4 scopeId then Inl (GenericError ''Synthetic evaluation permit scope must be a UUIDv4.'')
      else Inr (JObj [(''aiProvider'', JStr ''mock-ai''),
        (''internalExecutionProfile'', JObj [(''kind'', JStr SYNTHETIC_EVALUATION_PROFILE), (''scopeId'', JStr scopeId)])]))"

text \<open>The scope of a synthetic profile, \<open>None\<close> when the run has none or it is not well formed.\<close>

definition synthetic_scope :: "research_run_row \<Rightarrow> string option" where
  "synthetic_scope run =
     (let snapshot = js_record (r_provider_config_snapshot run) in
      if js_get snapshot ''aiProvider'' \<noteq> JStr ''mock-ai'' then None
      else
        (case js_get snapshot ''internalExecutionProfile'' of
           JObj profile \<Rightarrow>
             (if sort (map fst profile) \<noteq> [''kind'', ''scopeId''] \<or>
                 js_get profile ''kind'' \<noteq> JStr SYNTHETIC_EVALUATION_PROFILE then None
              else
                (case js_get profile ''scopeId'' of
                   JStr scope \<Rightarrow> if is_uuid_v4 scope \<and> is_uuid_v4 (r_id run) then Some scope else None
                 | _ \<Rightarrow> None))
         | _ \<Rightarrow> None))"

definition researchProviderPermitOperation :: "string \<Rightarrow> research_run_row \<Rightarrow> string" where
  "researchProviderPermitOperation providerId run =
     (case (if providerId \<noteq> ''mock-ai'' then None else synthetic_scope run) of
        None \<Rightarrow> ''ai.run''
      | Some scope \<Rightarrow> ''ai.run.synthetic-evaluation:'' @ scope @ '':'' @ r_id run)"

section \<open>The provider, the prices and the usage of a run\<close>

text \<open>The configuration and the constructors of the two providers.\<close>

record handler_config =
  hc_demoMode :: bool
  hc_openAiApiKey :: "string option"
  hc_openAiModel :: string
  hc_mock :: ai_provider
  hc_openai :: "string \<Rightarrow> ai_provider"
  hc_openai_configured :: bool
  hc_providerRequestLimit :: int
  hc_providerRequestWindowSeconds :: int
  hc_providerConcurrency :: int
  hc_jobLeaseDurationMs :: int
  hc_jobDefaultTimeoutMs :: int

fun snapshotText :: "(string \<times> jsv) list \<Rightarrow> string list \<Rightarrow> string option" where
  "snapshotText snapshot [] = None"
| "snapshotText snapshot (k # ks) =
     (case js_get snapshot k of
        JStr v \<Rightarrow> if js_trim v \<noteq> [] then Some (js_trim v) else snapshotText snapshot ks
      | _ \<Rightarrow> snapshotText snapshot ks)"

definition defaultProviderForRun :: "handler_config \<Rightarrow> research_run_row \<Rightarrow> ai_provider work" where
  "defaultProviderForRun C run =
     (let provider = (case snapshotText (js_record (r_provider_config_snapshot run)) [''aiProvider'', ''provider'', ''ai''] of
            Some p \<Rightarrow> p
          | None \<Rightarrow> if hc_demoMode C \<or> truthy (hc_openAiApiKey C) = None then ''mock-ai'' else ''openai-responses'');
          model = (case snapshotText (js_record (r_model_config_snapshot run)) [''aiModel'', ''model''] of
            Some m \<Rightarrow> m | None \<Rightarrow> hc_openAiModel C)
      in
      if provider = ''mock-ai'' then Inr (hc_mock C)
      else if provider = ''openai-responses'' then
        (if hc_openai_configured C then Inr (hc_openai C model)
         else Inl (WE_Blocked ''PROVIDER_NOT_CONFIGURED'' ''The provider frozen for this run is no longer configured.''
           NON_RETRYABLE_USER_INPUT))
      else Inl (WE_Blocked ''UNKNOWN_FROZEN_PROVIDER''
        (''The provider frozen for this run is not supported: '' @ provider @ ''.'') NON_RETRYABLE_VALIDATION))"

definition defaultPermitPolicy :: "handler_config \<Rightarrow> provider_limit_policy" where
  "defaultPermitPolicy C =
     \<lparr>lp_requestLimit = js_int (hc_providerRequestLimit C), lp_windowSeconds = js_int (hc_providerRequestWindowSeconds C),
      lp_concurrencyLimit = js_int (hc_providerConcurrency C),
      lp_permitTtlMs = js_int (min 3600000 (max 1000 (max (hc_jobLeaseDurationMs C) (hc_jobDefaultTimeoutMs C))))\<rparr>"

definition numberValue :: "'a::linordered_idom option \<Rightarrow> 'a" where
  "numberValue v = max 0 (case_option 0 id v)"

text \<open>\<open>now\<close> is \<open>Date.now()\<close> of the worker.\<close>

definition runUsage :: "int \<Rightarrow> research_bundle \<Rightarrow> run_usage" where
  "runUsage now b =
     \<lparr>ru_providerRequests = r_total_provider_requests (b_run b), ru_searchRequests = r_total_search_requests (b_run b),
      ru_inputTokens = numberValue (Some (r_total_input_tokens (b_run b))),
      ru_outputTokens = numberValue (Some (r_total_output_tokens (b_run b))),
      ru_estimatedCostUsd = numberValue (r_estimated_cost (b_run b)), ru_costStatus = r_cost_status (b_run b),
      ru_elapsedMs = (case r_started_at (b_run b) of None \<Rightarrow> 0 | Some t \<Rightarrow> max 0 (now - t)),
      ru_stageAttempts = s_attempt_count (b_stage b), ru_sources = int (length (b_eligibleSources b)),
      ru_documentChunks = b_documentChunkCount b\<rparr>"

definition configuredCostStatus :: "ai_provider \<Rightarrow> model_price list \<Rightarrow> cost_status" where
  "configuredCostStatus P prices =
     (case find (\<lambda>p. mp_provider p = ap_id P \<and> mp_model p = ap_model P) prices of
        None \<Rightarrow> COST_UNKNOWN | Some p \<Rightarrow> mp_status p)"

section \<open>Errors of the provider\<close>

definition providerErrorClass :: "ai_error \<Rightarrow> job_error_class" where
  "providerErrorClass e =
     (case ax_classification e of
        Some c \<Rightarrow> c
      | None \<Rightarrow>
          (case ax_code e of
             RATE_LIMITED \<Rightarrow> RETRYABLE_PROVIDER_RATE_LIMIT
           | SERVER_ERROR \<Rightarrow> RETRYABLE_PROVIDER_SERVER_ERROR
           | PROVIDER_TIMEOUT \<Rightarrow> RETRYABLE_TIMEOUT
           | PROVIDER_CANCELLED \<Rightarrow> EC_CANCELLED
           | UNKNOWN_SOURCE_ID \<Rightarrow> NON_RETRYABLE_SECURITY
           | INVALID_RESPONSE \<Rightarrow> NON_RETRYABLE_VALIDATION
           | REFUSED \<Rightarrow> NON_RETRYABLE_VALIDATION
           | CONTENT_FILTERED \<Rightarrow> NON_RETRYABLE_VALIDATION
           | TRUNCATED \<Rightarrow> NON_RETRYABLE_VALIDATION
           | RESPONSE_TOO_LARGE \<Rightarrow> NON_RETRYABLE_VALIDATION
           | NOT_CONFIGURED \<Rightarrow> NON_RETRYABLE_USER_INPUT
           | PROVIDER_ERROR \<Rightarrow> if ax_retryable e = Some True then RETRYABLE_NETWORK else EC_UNKNOWN))"

definition providerExecutionStatus :: "ai_error \<Rightarrow> provider_execution_status" where
  "providerExecutionStatus e =
     (case ax_code e of
        PROVIDER_CANCELLED \<Rightarrow> PX_CANCELLED
      | PROVIDER_TIMEOUT \<Rightarrow> PX_TIMED_OUT
      | INVALID_RESPONSE \<Rightarrow> PX_REJECTED
      | UNKNOWN_SOURCE_ID \<Rightarrow> PX_REJECTED
      | REFUSED \<Rightarrow> PX_REJECTED
      | CONTENT_FILTERED \<Rightarrow> PX_REJECTED
      | TRUNCATED \<Rightarrow> PX_REJECTED
      | RESPONSE_TOO_LARGE \<Rightarrow> PX_REJECTED
      | _ \<Rightarrow> PX_FAILED)"

fun is_job_error :: "worker_error \<Rightarrow> bool" where
  "is_job_error (WE_Job _ _ _) = True"
| "is_job_error _ = False"

fun job_error_class_of :: "worker_error \<Rightarrow> job_error_class" where
  "job_error_class_of (WE_Job _ c _) = c"
| "job_error_class_of _ = EC_UNKNOWN"

text \<open>\<open>message\<close> is the message of \<open>fallback\<close>; every thrown value of the model is an \<open>Error\<close>.\<close>

definition abortedError :: "worker_error \<Rightarrow> worker_error \<Rightarrow> string \<Rightarrow> worker_error" where
  "abortedError reason fallback message =
     (if is_job_error reason then reason else if is_job_error fallback then fallback else WE_Job message EC_CANCELLED None)"

definition abortedProviderExecutionStatus :: "job_error_class \<Rightarrow> provider_execution_status" where
  "abortedProviderExecutionStatus c = (if c = RETRYABLE_TIMEOUT then PX_TIMED_OUT else PX_CANCELLED)"

definition providerProvenanceErrorClass :: "job_error_class \<Rightarrow> job_error_class" where
  "providerProvenanceErrorClass c = (if c = RETRYABLE_STORAGE \<or> c = RETRYABLE_TIMEOUT then EC_UNKNOWN else c)"

section \<open>The parts of the handler\<close>

text \<open>What a run of the handler knows from its start: the job, the fence and the dependencies.\<close>

record handler_context =
  hx_js :: js_env
  hx_schemas :: stage_schemas
  hx_job :: job_row
  hx_fence :: run_stage_job_fence
  hx_providerForRun :: "research_run_row \<Rightarrow> ai_provider work"
  hx_prices :: "model_price list work"
  hx_policy :: provider_limit_policy

definition load_bundle :: "string \<Rightarrow> research_bundle io" where
  "load_bundle runStageId = await Call_load (\<lambda>_ _. in_db (loadResearchOrchestrationBundle runStageId))"

definition block_stage :: "handler_context \<Rightarrow> research_bundle \<Rightarrow> job_error_class \<Rightarrow> string \<Rightarrow> unit io" where
  "block_stage X b c reason =
     ibind (await (Call_block c) (\<lambda>now _. in_db (blockRunStage now (s_id (b_stage b)) (hx_fence X) c reason))) (\<lambda>_. iret ())"

definition blockForBudget :: "handler_context \<Rightarrow> research_bundle \<Rightarrow> string list \<Rightarrow> 'a io" where
  "blockForBudget X b violations =
     (let reason = ''Run budget prevents another provider call: '' @ join '', '' violations @ ''.'' in
      ibind (block_stage X b NON_RETRYABLE_BUDGET reason) (\<lambda>_. ithrow (WE_Job reason NON_RETRYABLE_BUDGET None)))"

definition failTerminalProviderAttempt :: "handler_context \<Rightarrow> research_bundle \<Rightarrow> job_error_class \<Rightarrow> string \<Rightarrow> unit io" where
  "failTerminalProviderAttempt X b c message =
     (if (\<not> isRetryableJobError c \<or> j_attempts (hx_job X) \<ge> j_max_attempts (hx_job X)) \<and> c = NON_RETRYABLE_BUDGET
      then block_stage X b c message else iret ())"

definition stage_result :: "research_bundle \<Rightarrow> (string \<times> jsv) list \<Rightarrow> jsv" where
  "stage_result b extra =
     JObj ([(''runId'', JStr (r_id (b_run b))), (''runStageId'', JStr (s_id (b_stage b))),
            (''stage'', JStr (ai_stage_name (s_stage_id (b_stage b)))), (''generation'', js_int (s_generation (b_stage b)))] @ extra)"

fun advancement_fields :: "advancement \<Rightarrow> (string \<times> jsv) list" where
  "advancement_fields No_advancement = []"
| "advancement_fields (Boundary st) = [(''boundary'', JStr (run_status_name st))]"
| "advancement_fields (Queued_stage k) = [(''queuedStageId'', JStr k)]"

definition stage_commit_key :: "js_env \<Rightarrow> research_bundle \<Rightarrow> string" where
  "stage_commit_key J b =
     stage_job_key (r_id (b_run b)) (s_stage_id (b_stage b)) (num_text J (of_int (s_generation (b_stage b)))) @ '':commit''"

definition reuseOrCommitOutput :: "handler_context \<Rightarrow> research_bundle \<Rightarrow> stage_output \<Rightarrow> jsv io" where
  "reuseOrCommitOutput X b out =
     ibind (await Call_commit (\<lambda>now uuids. in_db (commitRunStage (hx_js X) now (s_id (b_stage b)) (hx_fence X)
              (stage_commit_key (hx_js X) b) (output_json out) (commitResearchStageDomainEffects now uuids b out)))) (\<lambda>_.
     ibind (advanceResearchPipelineStage (hx_js X) (s_id (b_stage b)) (hx_fence X) out) (\<lambda>advancement.
     ibind (ilift (to_work (inputHash (hx_js X) (output_json out)))) (\<lambda>outputHash.
     iret (stage_result b ((''outputHash'', JStr outputHash) # advancement_fields advancement)))))"

section \<open>The provider call\<close>

text \<open>What the handler knows once a permit has been granted.\<close>

record call_context =
  cc_bundle :: research_bundle
  cc_built :: built_input
  cc_provider :: ai_provider
  cc_prices :: "model_price list"
  cc_inputHash :: string
  cc_beforeUsage :: run_usage
  cc_startedAt :: int

definition stage_key_of :: "call_context \<Rightarrow> string" where
  "stage_key_of K = s_id (b_stage (cc_bundle K))"

definition permit_owner :: "handler_context \<Rightarrow> string" where
  "permit_owner X = j_id (hx_job X) @ '':'' @ num_text (hx_js X) (of_int (j_attempts (hx_job X)))"

definition client_request_id :: "handler_context \<Rightarrow> research_bundle \<Rightarrow> string" where
  "client_request_id X b =
     join '':'' [r_id (b_run b), s_id (b_stage b), num_text (hx_js X) (of_int (s_generation (b_stage b))),
                 num_text (hx_js X) (of_int (j_attempts (hx_job X)))]"

definition no_usage :: ai_usage where
  "no_usage = \<lparr>au_inputTokens = None, au_outputTokens = None, au_totalTokens = None\<rparr>"

definition finish_execution ::
  "string \<Rightarrow> provider_execution_status \<Rightarrow> string option \<Rightarrow> string option \<Rightarrow> string option \<Rightarrow> ai_usage \<Rightarrow>
   cost_status \<times> rat option \<Rightarrow> (job_error_class \<times> string) option \<Rightarrow> string option io" where
  "finish_execution executionId status requestId responseId outputHash usage cost failure =
     await (Call_finish status) (\<lambda>now _. finishProviderExecution now
       \<lparr>fx_id = executionId, fx_status = status, fx_requestId = requestId, fx_providerResponseId = responseId,
        fx_outputHash = outputHash, fx_inputTokens = au_inputTokens usage, fx_outputTokens = au_outputTokens usage,
        fx_totalTokens = au_totalTokens usage, fx_costStatus = fst cost, fx_estimatedCostUsd = snd cost,
        fx_errorClass = map_option fst failure, fx_sanitizedError = map_option snd failure\<rparr>)"

definition record_attempt ::
  "handler_context \<Rightarrow> call_context \<Rightarrow> string \<Rightarrow> ai_usage \<Rightarrow> cost_status \<times> rat option \<Rightarrow> int \<Rightarrow> jsv \<Rightarrow>
   (job_error_class \<times> string) option \<Rightarrow> unit io" where
  "record_attempt X K executionId usage cost durationMs outputReference failure =
     ibind (await Call_record (\<lambda>now _. in_db (recordRunStageProviderAttempt (hx_js X) now (stage_key_of K) (hx_fence X)
       \<lparr>pa_providerExecutionId = executionId, pa_inputHash = cc_inputHash K, pa_provider = ap_id (cc_provider K),
        pa_model = ap_model (cc_provider K), pa_inputTokens = au_inputTokens usage, pa_outputTokens = au_outputTokens usage,
        pa_totalTokens = au_totalTokens usage, pa_costStatus = fst cost, pa_estimatedCostUsd = snd cost,
        pa_durationMs = durationMs, pa_outputReference = outputReference, pa_errorClass = map_option fst failure,
        pa_error = map_option snd failure\<rparr>))) (\<lambda>_. iret ())"

definition abort_check :: "unit io" where
  "abort_check =
     ibind isignal (\<lambda>sig.
     (case sig of
        None \<Rightarrow> iret ()
      | Some reason \<Rightarrow> ibind (imessage reason) (\<lambda>m. ithrow (abortedError reason reason m))))"

text \<open>\<open>jobAttemptId\<close>: the row of the attempt, named by its key.\<close>

definition jobAttemptId :: "string \<Rightarrow> int \<Rightarrow> (string \<times> int) option world_tx" where
  "jobAttemptId jobId attempt =
     gets (\<lambda>w. if list_ex (\<lambda>a. a_job_id a = jobId \<and> a_attempt_number a = attempt) (job_attempts (w_db w))
               then Some (jobId, attempt) else None)"

definition execution_start :: "handler_context \<Rightarrow> call_context \<Rightarrow> (string \<times> int) option \<Rightarrow> start_execution_input" where
  "execution_start X K attempt =
     (let b = cc_bundle K; job = hx_job X in
      \<lparr>sx_projectId = Some (r_project_id (b_run b)), sx_runId = Some (r_id (b_run b)), sx_runStageId = Some (s_id (b_stage b)),
       sx_jobId = Some (j_id job), sx_jobAttempt = attempt, sx_provider = ap_id (cc_provider K),
       sx_model = Some (ap_model (cc_provider K)), sx_operation = ''ai.'' @ ai_stage_name (bi_stage (cc_built K)),
       sx_clientRequestId = client_request_id X b, sx_promptTemplateVersion = Some (s_prompt_template_version (b_stage b)),
       sx_structuredSchemaVersion = Some (s_structured_schema_version (b_stage b)), sx_inputHash = cc_inputHash K,
       sx_retryCount = max 0 (j_attempts job - 1)\<rparr>)"

definition open_execution :: "handler_context \<Rightarrow> call_context \<Rightarrow> string io" where
  "open_execution X K =
     ibind (await Call_fence (\<lambda>now _. in_db (assertRunStageJobFence now (stage_key_of K) (hx_fence X)))) (\<lambda>_.
     ibind abort_check (\<lambda>_.
     ibind (await Call_attempt (\<lambda>_ _. jobAttemptId (j_id (hx_job X)) (j_attempts (hx_job X)))) (\<lambda>attempt.
     await Call_begin (\<lambda>now uuids. startProviderExecution now (fst uuids) (execution_start X K attempt)))))"

definition request_of :: "call_context \<Rightarrow> ai_request" where
  "request_of K =
     \<lparr>aq_stage = bi_stage (cc_built K), aq_projectId = r_project_id (b_run (cc_bundle K)),
      aq_promptTemplateVersion = s_prompt_template_version (b_stage (cc_bundle K)), aq_input = bi_input (cc_built K),
      aq_allowedSourceIds = bi_allowedSourceIds (cc_built K)\<rparr>"

definition ask_provider :: "call_context \<Rightarrow> ai_result io" where
  "ask_provider K =
     ibind (run_provider (cc_provider K) (request_of K)) (\<lambda>result.
     ibind abort_check (\<lambda>_. iret result))"

text \<open>The \<open>catch\<close> around the call; \<open>executionId\<close> is set once the execution has started.\<close>

definition call_failed :: "handler_context \<Rightarrow> call_context \<Rightarrow> string option \<Rightarrow> worker_error \<Rightarrow> 'a io" where
  "call_failed X K executionId cause =
     ibind isignal (\<lambda>sig.
     ibind (imessage cause) (\<lambda>m.
     (let error = (case sig of
            Some reason \<Rightarrow> abortedError reason cause m
          | None \<Rightarrow> if is_job_error cause then cause else WE_Job m RETRYABLE_NETWORK None);
          c = job_error_class_of error
      in
      ibind (imessage error) (\<lambda>message.
      ibind (case truthy executionId of
               None \<Rightarrow> iret ()
             | Some k \<Rightarrow>
                 ibind (finish_execution k (if sig \<noteq> None then abortedProviderExecutionStatus c else PX_FAILED) None None None
                          no_usage (COST_UNKNOWN, None) (Some (providerProvenanceErrorClass c, message))) (\<lambda>_.
                 ibind iclock (\<lambda>now.
                 record_attempt X K k no_usage (COST_UNKNOWN, None) (max 0 (now - cc_startedAt K)) JUndefined
                   (Some (c, message))))) (\<lambda>_.
      ibind (failTerminalProviderAttempt X (cc_bundle K) c message) (\<lambda>_.
      ithrow error))))))"

definition release_permit :: "handler_context \<Rightarrow> string \<Rightarrow> bool io" where
  "release_permit X permitId =
     await (Call_release permitId) (\<lambda>now _. releaseProviderPermit now permitId (permit_owner X))"

text \<open>\<open>try { ... } catch { ... } finally { releaseProviderPermit }\<close>\<close>

definition call_with_permit :: "handler_context \<Rightarrow> call_context \<Rightarrow> string \<Rightarrow> (string \<times> ai_result) io" where
  "call_with_permit X K permitId =
     ifinally
       (ibind (icatch (open_execution X K) (call_failed X K None)) (\<lambda>executionId.
        ibind (icatch (ask_provider K) (call_failed X K (Some executionId))) (\<lambda>result.
        iret (executionId, result))))
       (release_permit X permitId)"

section \<open>After the call\<close>

text \<open>How the body ends: with a promise of the budget block, or of the commit. Neither is awaited inside the \<open>try\<close>.\<close>

datatype pipeline_tail = Tail_blocked research_bundle "string list" | Tail_commit research_bundle stage_output

definition reported_usage :: "ai_provider \<Rightarrow> ai_metadata \<Rightarrow> ai_usage" where
  "reported_usage P m =
     (case am_usage m of
        Some u \<Rightarrow> u
      | None \<Rightarrow> if ap_id P = ''mock-ai''
          then \<lparr>au_inputTokens = Some 0, au_outputTokens = Some 0, au_totalTokens = Some 0\<rparr> else no_usage)"

definition call_cost :: "call_context \<Rightarrow> ai_usage \<Rightarrow> cost_status \<times> rat option" where
  "call_cost K u =
     estimateProviderCost (ap_id (cc_provider K)) (ap_model (cc_provider K)) (au_inputTokens u) (au_outputTokens u) (cc_prices K)"

definition check_output :: "handler_context \<Rightarrow> call_context \<Rightarrow> jsv \<Rightarrow> app_error + stage_output" where
  "check_output X K v =
     (case parse_output (hx_schemas X) (bi_stage (cc_built K)) v of
        None \<Rightarrow> Inl (GenericError ''ZodError'')
      | Some out \<Rightarrow> ebind (validateResearchStageOutputReferences (cc_bundle K) out) (\<lambda>_. Inr out))"

text \<open>The provider answered that it failed.\<close>

definition provider_refused :: "handler_context \<Rightarrow> call_context \<Rightarrow> string \<Rightarrow> ai_error \<Rightarrow> ai_metadata \<Rightarrow> 'a io" where
  "provider_refused X K executionId e m =
     (let u = reported_usage (cc_provider K) m; cost = call_cost K u; c = providerErrorClass e in
      ibind (finish_execution executionId (providerExecutionStatus e) (am_requestId m) (am_providerResponseId m) None u cost
               (Some (providerProvenanceErrorClass c, ax_message e))) (\<lambda>_.
      ibind (record_attempt X K executionId u cost (am_durationMs m) JUndefined (Some (c, ax_message e))) (\<lambda>_.
      ibind (failTerminalProviderAttempt X (cc_bundle K) c (ax_message e)) (\<lambda>_.
      ithrow (WE_Job (ax_message e) c (ax_retryAfterMs e))))))"

text \<open>The output does not parse, or refers to something the stage was not given.\<close>

definition output_rejected :: "handler_context \<Rightarrow> call_context \<Rightarrow> string \<Rightarrow> jsv \<Rightarrow> ai_metadata \<Rightarrow> app_error \<Rightarrow> 'a io" where
  "output_rejected X K executionId v m cause =
     (let u = reported_usage (cc_provider K) m; cost = call_cost K u; c = NON_RETRYABLE_VALIDATION in
      ibind (imessage (WE_App cause)) (\<lambda>message.
      ibind (ilift (to_work (inputHash (hx_js X) v))) (\<lambda>outputHash.
      ibind (finish_execution executionId PX_REJECTED (am_requestId m) (am_providerResponseId m) (Some outputHash) u cost
               (Some (c, message))) (\<lambda>_.
      ibind (record_attempt X K executionId u cost (am_durationMs m) JUndefined (Some (c, message))) (\<lambda>_.
      ibind (failTerminalProviderAttempt X (cc_bundle K) c message) (\<lambda>_.
      ithrow (WE_Job message c None)))))))"

definition duplicate_response :: "handler_context \<Rightarrow> call_context \<Rightarrow> string \<Rightarrow> ai_metadata \<Rightarrow> 'a io" where
  "duplicate_response X K executionId m =
     (let u = reported_usage (cc_provider K) m; c = NON_RETRYABLE_VALIDATION;
          message = ''The provider response ID was already committed by another execution.'' in
      ibind (record_attempt X K executionId u (call_cost K u) (am_durationMs m) JUndefined (Some (c, message))) (\<lambda>_.
      ibind (failTerminalProviderAttempt X (cc_bundle K) c message) (\<lambda>_.
      ithrow (WE_Job message c None))))"

definition after_usage :: "ai_metadata \<Rightarrow> ai_usage \<Rightarrow> cost_status \<times> rat option \<Rightarrow> next_usage" where
  "after_usage m u cost =
     no_next\<lparr>nx_providerRequests := Some 1, nx_inputTokens := Some (case_option 0 id (au_inputTokens u)),
       nx_outputTokens := Some (case_option 0 id (au_outputTokens u)), nx_estimatedCostUsd := Some (case_option 0 id (snd cost)),
       nx_elapsedMs := Some (am_durationMs m), nx_costStatus := Some (fst cost)\<rparr>"

definition output_accepted ::
  "handler_context \<Rightarrow> call_context \<Rightarrow> string \<Rightarrow> stage_output \<Rightarrow> ai_metadata \<Rightarrow> pipeline_tail io" where
  "output_accepted X K executionId out m =
     (let u = reported_usage (cc_provider K) m; cost = call_cost K u; b = cc_bundle K in
      ibind (ilift (to_work (inputHash (hx_js X) (output_json out)))) (\<lambda>outputHash.
      ibind (finish_execution executionId PX_SUCCEEDED (am_requestId m) (am_providerResponseId m) (Some outputHash) u cost None)
        (\<lambda>duplicateOf.
      if truthy duplicateOf \<noteq> None then duplicate_response X K executionId m
      else
        ibind (record_attempt X K executionId u cost (am_durationMs m) (output_json out) None) (\<lambda>_.
        (let (allowed, violations) = checkRunBudget (r_budget_snapshot (b_run b)) (cc_beforeUsage K) (after_usage m u cost) in
         iret (if allowed then Tail_commit b out else Tail_blocked b violations))))))"

definition after_call :: "handler_context \<Rightarrow> call_context \<Rightarrow> string \<times> ai_result \<Rightarrow> pipeline_tail io" where
  "after_call X K = (\<lambda>(executionId, result).
     if executionId = [] then ithrow (WE_Job ''Provider provenance was not created.'' EC_UNKNOWN None)
     else
       (case result of
          Ai_failure e m \<Rightarrow> provider_refused X K executionId e m
        | Ai_success v m \<Rightarrow>
            (case check_output X K v of
               Inl cause \<Rightarrow> output_rejected X K executionId v m cause
             | Inr out \<Rightarrow> output_accepted X K executionId out m)))"

section \<open>The handler\<close>

fun refusal_name :: "permit_refusal \<Rightarrow> string" where
  "refusal_name REQUEST_WINDOW = ''REQUEST_WINDOW''"
| "refusal_name CONCURRENCY = ''CONCURRENCY''"

definition permit_refused :: "handler_context \<Rightarrow> research_bundle \<Rightarrow> permit_refusal \<Rightarrow> int \<Rightarrow> 'a io" where
  "permit_refused X b reason retryAfterMs =
     (let message = ''Provider capacity is temporarily unavailable ('' @ refusal_name reason @ '').'' in
      ibind (failTerminalProviderAttempt X b RETRYABLE_PROVIDER_RATE_LIMIT message) (\<lambda>_.
      ithrow (WE_Job message RETRYABLE_PROVIDER_RATE_LIMIT (Some retryAfterMs))))"

definition preflight_usage :: "cost_status \<Rightarrow> next_usage" where
  "preflight_usage costStatus = no_next\<lparr>nx_providerRequests := Some 1, nx_costStatus := Some costStatus\<rparr>"

definition call_granted ::
  "handler_context \<Rightarrow> research_bundle \<Rightarrow> built_input \<Rightarrow> ai_provider \<Rightarrow> model_price list \<Rightarrow> run_usage \<Rightarrow> string \<Rightarrow>
   pipeline_tail io" where
  "call_granted X b built P prices beforeUsage permitId =
     ibind (ilift (to_work (inputHash (hx_js X) (bi_input built)))) (\<lambda>providerInputHash.
     ibind iclock (\<lambda>startedAt.
     (let K = \<lparr>cc_bundle = b, cc_built = built, cc_provider = P, cc_prices = prices, cc_inputHash = providerInputHash,
               cc_beforeUsage = beforeUsage, cc_startedAt = startedAt\<rparr> in
      ibind (call_with_permit X K permitId) (after_call X K))))"

definition fresh_attempt :: "handler_context \<Rightarrow> research_bundle \<Rightarrow> pipeline_tail io" where
  "fresh_attempt X b =
     ibind (ilift (buildResearchStageInput (hx_schemas X) b)) (\<lambda>built.
     ibind (ilift (hx_providerForRun X (b_run b))) (\<lambda>P.
     ibind (ilift (hx_prices X)) (\<lambda>prices.
     ibind iclock (\<lambda>now.
     (let beforeUsage = runUsage now b;
          (allowed, violations) = checkRunBudget (r_budget_snapshot (b_run b)) beforeUsage
             (preflight_usage (configuredCostStatus P prices)) in
      if \<not> allowed then iret (Tail_blocked b violations)
      else
        ibind (await Call_permit (\<lambda>now uuids. acquireProviderPermit now (fst uuids) (ap_id P)
                 (researchProviderPermitOperation (ap_id P) (b_run b)) (permit_owner X) (Some (j_id (hx_job X))) (hx_policy X)))
          (\<lambda>permit.
        (case permit of
           Permit_refused reason retryAfterMs \<Rightarrow> permit_refused X b reason retryAfterMs
         | Permit_allowed permitId \<Rightarrow> call_granted X b built P prices beforeUsage permitId)))))))"

definition parsed_output :: "handler_context \<Rightarrow> research_bundle \<Rightarrow> jsv \<Rightarrow> stage_output work" where
  "parsed_output X b v =
     (case parse_output (hx_schemas X) (s_stage_id (b_stage b)) v of
        None \<Rightarrow> Inl (WE_App (GenericError ''ZodError'')) | Some out \<Rightarrow> Inr out)"

definition stage_body :: "handler_context \<Rightarrow> research_bundle \<Rightarrow> pipeline_tail io" where
  "stage_body X b0 =
     ibind (await Call_start (\<lambda>now _. in_db (startRunStage now (s_id (b_stage b0)) (hx_fence X)))) (\<lambda>_.
     ibind (load_bundle (s_id (b_stage b0))) (\<lambda>b.
     (case (s_output_reference (b_stage b), truthy (s_output_hash (b_stage b))) of
        (Some v, Some _) \<Rightarrow> ibind (ilift (parsed_output X b v)) (\<lambda>out. iret (Tail_commit b out))
      | _ \<Rightarrow> fresh_attempt X b)))"

definition body_failed :: "handler_context \<Rightarrow> research_bundle \<Rightarrow> worker_error \<Rightarrow> 'a io" where
  "body_failed X b e =
     (case e of
        WE_Blocked code message c \<Rightarrow>
          ibind (block_stage X b c (code @ '': '' @ message)) (\<lambda>_. ithrow (WE_Job message c None))
      | _ \<Rightarrow> ithrow e)"

definition run_tail :: "handler_context \<Rightarrow> pipeline_tail \<Rightarrow> jsv io" where
  "run_tail X ending =
     (case ending of Tail_blocked b violations \<Rightarrow> blockForBudget X b violations | Tail_commit b out \<Rightarrow> reuseOrCommitOutput X b out)"

definition replay_stage :: "handler_context \<Rightarrow> research_bundle \<Rightarrow> jsv \<Rightarrow> jsv io" where
  "replay_stage X b v =
     ibind (ilift (parsed_output X b v)) (\<lambda>out.
     ibind (advanceResearchPipelineStage (hx_js X) (s_id (b_stage b)) (hx_fence X) out) (\<lambda>_.
     iret (stage_result b [(''outputHash'', js_text (s_output_hash (b_stage b))), (''replayed'', JBool True)])))"

definition handle_bundle :: "handler_context \<Rightarrow> string \<Rightarrow> string \<Rightarrow> string \<Rightarrow> research_bundle \<Rightarrow> jsv io" where
  "handle_bundle X runId runStageId stage b =
     (if r_id (b_run b) \<noteq> runId \<or> ai_stage_name (s_stage_id (b_stage b)) \<noteq> stage \<or> s_id (b_stage b) \<noteq> runStageId
      then ithrow (WE_Job ''The job references do not match the stored research run stage.'' NON_RETRYABLE_SECURITY None)
      else
        (case (if s_status (b_stage b) = S_SUCCEEDED then s_output_reference (b_stage b) else None) of
           Some v \<Rightarrow> replay_stage X b v
         | None \<Rightarrow> ibind (icatch (stage_body X b) (body_failed X b)) (run_tail X)))"

definition pipeline_fence :: "job_row \<Rightarrow> string \<Rightarrow> string \<Rightarrow> run_stage_job_fence" where
  "pipeline_fence job runStageId workerId =
     \<lparr>f_jobId = j_id job, f_runStageId = runStageId, f_attempt = j_attempts job, f_workerId = workerId\<rparr>"

definition context_of ::
  "js_env \<Rightarrow> stage_schemas \<Rightarrow> (research_run_row \<Rightarrow> ai_provider work) \<Rightarrow> model_price list work \<Rightarrow> provider_limit_policy \<Rightarrow>
   job_row \<Rightarrow> string \<Rightarrow> string \<Rightarrow> handler_context" where
  "context_of J Z providerForRun prices policy job runStageId workerId =
     \<lparr>hx_js = J, hx_schemas = Z, hx_job = job, hx_fence = pipeline_fence job runStageId workerId,
      hx_providerForRun = providerForRun, hx_prices = prices, hx_policy = policy\<rparr>"

text \<open>The dependencies are \<open>providerForRun\<close>, the prices and the permit policy, with the defaults already filled in.\<close>

definition createResearchPipelineStageHandler ::
  "js_env \<Rightarrow> stage_schemas \<Rightarrow> (research_run_row \<Rightarrow> ai_provider work) \<Rightarrow> model_price list work \<Rightarrow> provider_limit_policy \<Rightarrow>
   job_row \<Rightarrow> string \<Rightarrow> jsv io" where
  "createResearchPipelineStageHandler J Z providerForRun prices policy job workerId =
     (case (truthy (j_run_id job), truthy (j_run_stage_id job), truthy (j_stage job)) of
        (Some runId, Some runStageId, Some stage) \<Rightarrow>
          (let X = context_of J Z providerForRun prices policy job runStageId workerId in
           ibind (load_bundle runStageId) (handle_bundle X runId runStageId stage))
      | _ \<Rightarrow> ithrow (WE_Job ''A research pipeline job must reference a run and stage.'' NON_RETRYABLE_VALIDATION None))"

end
