(* ===== verification/Domain_Properties.thy ===== *)
theory Domain_Properties
  imports Domain_Effects Run_Properties
begin

text \<open>
  What a stage commit does to the domain tables (\<open>Domain_Effects\<close>): it touches nothing of the queue, it never overwrites what
  people wrote, and every row it writes can be traced to the stage and to eligible sources.
\<close>

section \<open>The callback is a domain callback\<close>

lemma for_each_from_frame [tx_frames]:
  "(\<And>n x. tx_frame P (f n x)) \<Longrightarrow> tx_frame P (for_each_from n f xs)"
  by (induction xs arbitrary: n) (auto intro: tx_frames)

definition queue_view :: "database \<Rightarrow> ledger \<times> research_run_stage_row list \<times> research_run_row list \<times> stage_domain_commit list" where
  "queue_view db = (ledger_of db, research_run_stages db, research_runs db, stage_domain_commits db)"

lemma queue_view_update [simp]:
  "queue_view (db\<lparr>evidence_rows := a\<rparr>) = queue_view db" "queue_view (db\<lparr>claim_rows := b\<rparr>) = queue_view db"
  "queue_view (db\<lparr>claim_evidence_rows := c\<rparr>) = queue_view db" "queue_view (db\<lparr>qa_finding_rows := d\<rparr>) = queue_view db"
  "queue_view (db\<lparr>research_questions := e\<rparr>) = queue_view db" "queue_view (db\<lparr>deliverables := f\<rparr>) = queue_view db"
  "queue_view (db\<lparr>deliverable_revisions := g\<rparr>) = queue_view db" "queue_view (retire_generated now ids db) = queue_view db"
  by (simp_all add: queue_view_def ledger_of_def retire_generated_def)

lemma insert_frames:
  "tx_frame queue_view (insert_evidence x)" "tx_frame queue_view (insert_claim y)" "tx_frame queue_view (insert_qa_finding z)"
  "tx_frame queue_view (insert_revision r)"
  unfolding insert_evidence_def insert_claim_def insert_qa_finding_def insert_revision_def
  by (intro tx_frames; simp)+

lemma commit_frames:
  "tx_frame queue_view (commitEvidence now b es)" "tx_frame queue_view (commitClaims now b cs)"
  "tx_frame queue_view (commitResearchGaps now b gs)" "tx_frame queue_view (commitSourceConflicts now b xs)"
  "tx_frame queue_view (commitQaSuggestions now b is)" "tx_frame queue_view (commitDraftSuggestion now uuids b d)"
proof -
  show "tx_frame queue_view (commitEvidence now b es)"
    unfolding commitEvidence_def commit_evidence_item_def by (intro tx_frames insert_frames)
  have link: "queue_view (link_evidence k e s) = queue_view s" "queue_view (support_claim now k s) = queue_view s" for k e s
    by (simp_all add: link_evidence_def support_claim_def)
  show "tx_frame queue_view (commitClaims now b cs)"
    unfolding commitClaims_def commit_claim_item_def Let_def by (intro tx_frames insert_frames; simp add: link)
  show "tx_frame queue_view (commitResearchGaps now b gs)"
    unfolding commitResearchGaps_def commit_gap_item_def by (intro tx_frames; simp)
  show "tx_frame queue_view (commitSourceConflicts now b xs)" "tx_frame queue_view (commitQaSuggestions now b is)"
    unfolding commitSourceConflicts_def commitQaSuggestions_def by (intro tx_frames insert_frames)+
  show "tx_frame queue_view (commitDraftSuggestion now uuids b d)"
    unfolding commitDraftSuggestion_def first_draft_def update_draft_def Let_def
    by (intro tx_frames insert_frames; simp)
qed

lemma commit_switch_frame: "tx_frame queue_view (commit_switch now uuids b out stage)"
  unfolding commit_switch_def by (cases stage; cases out) (simp_all add: commit_frames tx_frame_basic)

lemma assert_eligible_frame: "tx_frame P (assertReferencedSourcesStillEligible b out)"
  unfolding assertReferencedSourcesStillEligible_def Let_def by (intro tx_frames)

lemma supersede_frame: "tx_frame queue_view (supersedeCurrentGeneratedDomainEffects now p stage k)"
  unfolding supersedeCurrentGeneratedDomainEffects_def markGeneratedDomainEffectsNonCurrent_def by (intro tx_frames; simp)

lemma commitEffects_frame: "tx_frame queue_view (commitResearchStageDomainEffects now uuids b out)"
  unfolding commitResearchStageDomainEffects_def Let_def
  by (intro tx_frames assert_eligible_frame supersede_frame commit_switch_frame)

lemma commitEffects_domain_callback: "domain_callback (commitResearchStageDomainEffects now uuids b out)"
  using commitEffects_frame unfolding domain_callback_def queue_view_def by simp

section \<open>The draft leaves the sections of people alone\<close>

lemma section_of_set_member: "section_of (set_member k v kvs) k' = (if k' = k then v else section_of kvs k')"
  by (induction k v kvs rule: set_member.induct) (auto simp: section_of_def)

lemma may_write_other:
  "k \<noteq> k' \<Longrightarrow> may_write p a g (set_member k v secs) k' = may_write p a g secs k'"
  by (simp add: may_write_def section_of_set_member)

lemma merge_sections_spec:
  assumes "distinct ks"
  shows "merge_sections p a g ks secs changed = (secs', changed') \<Longrightarrow>
    changed' = changed @ filter (may_write p a g secs) ks \<and>
    section_of secs' k = (if k \<in> set ks \<and> may_write p a g secs k then section_of g k else section_of secs k)"
  using assms
proof (induction ks arbitrary: secs changed)
  case (Cons x ks)
  have same: "filter (may_write p a g (set_member x v secs)) ks = filter (may_write p a g secs) ks" for v
    using Cons.prems(2) by (intro filter_cong refl may_write_other) auto
  show ?case
  proof (cases "may_write p a g secs x")
    case True
    then have "merge_sections p a g ks (set_member x (section_of g x) secs) (changed @ [x]) = (secs', changed')"
      using Cons.prems(1) by simp
    from Cons.IH[OF this] Cons.prems(2) show ?thesis using True
      by (auto simp: same section_of_set_member may_write_other)
  next
    case False
    then show ?thesis using Cons by auto
  qed
qed simp

lemma distinct_report_keys: "distinct reportSectionKeys"
  by (simp add: reportSectionKeys_def)

lemma latest_deliverable_Some: "latest_deliverable p db = Some d \<Longrightarrow> d \<in> set (deliverables db) \<and> de_project_id d = p"
proof -
  let ?ds = "sort_key (\<lambda>d. - de_version d) (filter (\<lambda>d. de_project_id d = p) (deliverables db))"
  assume "latest_deliverable p db = Some d"
  then have "d \<in> set ?ds" unfolding latest_deliverable_def by (cases ?ds) (auto simp del: set_sort)
  then show ?thesis by simp
qed

lemma update_draft_spec:
  assumes "update_draft now u b out d db = Inr ((), db')"
  shows "\<exists>secs. (\<forall>k. section_of secs k = section_of (de_sections d) k \<or>
        may_write (owned_sections USER (de_id d) db) (owned_sections AI (de_id d) db) (generatedReportSections b out) (de_sections d) k \<and>
        k \<in> set reportSectionKeys \<and> section_of secs k = section_of (generatedReportSections b out) k) \<and>
      (db' = db \<or> (\<exists>r. dr_actor_type r = AI \<and>
        deliverables db' = update_where (\<lambda>x. de_id x = de_id d)
          (\<lambda>x. x\<lparr>de_sections := secs, de_generated_at := Some now, de_updated_at := now\<rparr>) (deliverables db) \<and>
        deliverable_revisions db' = deliverable_revisions db @ [r]))"
proof -
  let ?U = "owned_sections USER (de_id d) db" and ?A = "owned_sections AI (de_id d) db" and ?g = "generatedReportSections b out"
  obtain secs changed where m: "merge_sections ?U ?A ?g reportSectionKeys (de_sections d) [] = (secs, changed)" by fastforce
  have spec: "section_of secs k = section_of (de_sections d) k \<or>
      may_write ?U ?A ?g (de_sections d) k \<and> k \<in> set reportSectionKeys \<and> section_of secs k = section_of ?g k" for k
    using merge_sections_spec[OF distinct_report_keys m, of k] by auto
  show ?thesis
    using assms spec by (intro exI[of _ secs]) (auto simp: update_draft_def tx_simps m insert_revision_def split: if_splits)
qed

text \<open>
  \<^bold>\<open>C20.\<close> A generated draft never overwrites what a person wrote: after the draft of a run was committed every deliverable
  is still there with its title and approval status, and a section of it differs from before only if no revision by a user ever
  changed that section, it was blank or the section of an earlier generated draft, it is one of the sections of the report, and
  its new text is the generated one; the sections users own are still theirs.
\<close>

theorem draft_respects_people:
  assumes "commitDraftSuggestion now uuids b out db = Inr ((), db')" "d \<in> set (deliverables db)"
    "distinct (map de_id (deliverables db))"
  shows "\<exists>d'\<in>set (deliverables db'). de_id d' = de_id d \<and> de_title d' = de_title d \<and> de_approval_status d' = de_approval_status d \<and>
    (\<forall>k. section_of (de_sections d') k = section_of (de_sections d) k \<or>
       k \<notin> set (owned_sections USER (de_id d) db) \<and> k \<in> set reportSectionKeys \<and>
       (js_trim (section_of (de_sections d) k) = [] \<or> k \<in> set (owned_sections AI (de_id d) db)) \<and>
       section_of (de_sections d') k = section_of (generatedReportSections b out) k) \<and>
    owned_sections USER (de_id d) db' = owned_sections USER (de_id d) db"
proof (cases "latest_deliverable (r_project_id (b_run b)) db")
  case None
  then have "first_draft now (fst uuids) (snd uuids) b out db = Inr ((), db')"
    using assms(1) by (simp add: commitDraftSuggestion_def tx_simps)
  then show ?thesis using assms(2) unfolding first_draft_def Let_def insert_revision_def
    by (elim tx_elims) (auto simp: tx_simps owned_sections_def intro!: bexI[of _ d])
next
  case (Some c)
  then have run: "update_draft now (snd uuids) b out c db = Inr ((), db')"
    using assms(1) by (simp add: commitDraftSuggestion_def tx_simps)
  from update_draft_spec[OF run] obtain secs where
    secs: "\<And>k. section_of secs k = section_of (de_sections c) k \<or>
        may_write (owned_sections USER (de_id c) db) (owned_sections AI (de_id c) db) (generatedReportSections b out) (de_sections c) k \<and>
        k \<in> set reportSectionKeys \<and> section_of secs k = section_of (generatedReportSections b out) k"
    and out: "db' = db \<or> (\<exists>r. dr_actor_type r = AI \<and>
        deliverables db' = update_where (\<lambda>x. de_id x = de_id c)
          (\<lambda>x. x\<lparr>de_sections := secs, de_generated_at := Some now, de_updated_at := now\<rparr>) (deliverables db) \<and>
        deliverable_revisions db' = deliverable_revisions db @ [r])" by blast
  from out show ?thesis
  proof
    assume "db' = db"
    then show ?thesis using assms(2) by auto
  next
    assume "\<exists>r. dr_actor_type r = AI \<and>
        deliverables db' = update_where (\<lambda>x. de_id x = de_id c)
          (\<lambda>x. x\<lparr>de_sections := secs, de_generated_at := Some now, de_updated_at := now\<rparr>) (deliverables db) \<and>
        deliverable_revisions db' = deliverable_revisions db @ [r]"
    then obtain r where r: "dr_actor_type r = AI" "deliverable_revisions db' = deliverable_revisions db @ [r]"
      and D: "deliverables db' = update_where (\<lambda>x. de_id x = de_id c)
          (\<lambda>x. x\<lparr>de_sections := secs, de_generated_at := Some now, de_updated_at := now\<rparr>) (deliverables db)" by blast
    have owned: "owned_sections USER (de_id d) db' = owned_sections USER (de_id d) db" using r by (simp add: owned_sections_def)
    show ?thesis
    proof (cases "de_id d = de_id c")
      case True
      then have "d = c" using latest_deliverable_Some[OF Some] assms(2,3) by (auto simp: distinct_map inj_on_def)
      then have "d\<lparr>de_sections := secs, de_generated_at := Some now, de_updated_at := now\<rparr> \<in> set (deliverables db')"
        using assms(2) unfolding D set_update_where by force
      then show ?thesis using secs owned \<open>d = c\<close>
        by (intro bexI[of _ "d\<lparr>de_sections := secs, de_generated_at := Some now, de_updated_at := now\<rparr>"])
          (auto simp: may_write_def)
    next
      case False
      then have "d \<in> set (deliverables db')" using assms(2) unfolding D set_update_where by force
      then show ?thesis using owned by auto
    qed
  qed
qed

section \<open>Every row can be traced\<close>







text \<open>The four tables the generations of a stage live in.\<close>

definition tables_view :: "database \<Rightarrow> evidence_row list \<times> claim_row list \<times> finding_row list \<times> qa_finding_row list" where
  "tables_view db = (evidence_rows db, claim_rows db, finding_rows db, qa_finding_rows db)"

lemma tables_view_update [simp]:
  "tables_view (db\<lparr>research_questions := a\<rparr>) = tables_view db" "tables_view (db\<lparr>deliverables := d\<rparr>) = tables_view db"
  "tables_view (db\<lparr>deliverable_revisions := c\<rparr>) = tables_view db" "tables_view (db\<lparr>claim_evidence_rows := e\<rparr>) = tables_view db"
  by (simp_all add: tables_view_def)














section \<open>An example: a second generation of evidence, and a draft over a person's text\<close>

definition demo_source :: source_row where
  "demo_source = \<lparr>so_id = ''s1'', so_project_id = ''p'', so_title = ''T'', so_publisher = None, so_author = None, so_published_at = None,
     so_source_type = ''WEB'', so_language = ''en'', so_ingestion_method = ''MANUAL'', so_content_hash = None,
     so_content_summary = Some ''text'', so_sanitized_content = None, so_prompt_injection_flag = False, so_created_at = 0\<rparr>"

definition demo_old_evidence :: evidence_row where
  "demo_old_evidence = \<lparr>g_id = ''e0'', g_generated_by = Some ''old'', g_is_current = True, g_updated_at = 0, ev_source_id = ''s1'',
     ev_summary = ''x'', ev_minimal_quote = None, ev_original_location = None, ev_page_or_section = None, ev_confidence = ''LOW'',
     ev_verification_status = V_PENDING, ev_document_id = None, ev_chunk_id = None, ev_citation_anchor_id = None,
     ev_citation_status = ''LEGACY'', ev_created_at = 0\<rparr>"

definition demo_deliverable :: deliverable_row where
  "demo_deliverable = \<lparr>de_id = ''d1'', de_project_id = ''p'', de_version = 1, de_title = ''R'',
     de_sections = [(''methodology'', ''mine''), (''keyFindings'', ''old draft'')], de_generated_at = None,
     de_approval_status = ''DRAFT'', de_updated_at = 0\<rparr>"

definition demo_revision :: "string \<Rightarrow> actor_type \<Rightarrow> string list \<Rightarrow> deliverable_revision_row" where
  "demo_revision k actor secs = \<lparr>dr_id = k, dr_deliverable_id = ''d1'', dr_actor_type = actor, dr_changed_sections = secs,
     dr_previous_sections = [], dr_new_sections = []\<rparr>"

definition demo_research :: "ai_stage \<Rightarrow> database" where
  "demo_research x = demo_db\<lparr>research_runs := [demo_run],
     research_run_stages := [(demo_stage x S_STALE)\<lparr>s_id := ''old''\<rparr>, (demo_stage x S_RUNNING)\<lparr>s_id := ''now'', s_generation := 2\<rparr>],
     source_rows := [demo_source], evidence_rows := [demo_old_evidence], deliverables := [demo_deliverable],
     deliverable_revisions := [demo_revision ''v1'' USER [''methodology''], demo_revision ''v2'' AI [''keyFindings'']]\<rparr>"

definition demo_eligible :: eligible_source where
  "demo_eligible = \<lparr>es_id = ''s1'', es_title = ''T'', es_publisher = None, es_author = None, es_publishedAt = None, es_sourceType = ''WEB'',
     es_language = ''en'', es_ingestionMethod = ''MANUAL'', es_contentHash = None, es_documentId = None, es_extractionId = None,
     es_firstChunkId = None, es_firstCitationAnchorId = None, es_documentChunkCount = 0, es_content = ''text'',
     es_promptInjectionSuspected = False, es_securitySignals = []\<rparr>"

definition demo_bundle :: "ai_stage \<Rightarrow> research_bundle" where
  "demo_bundle x =
     \<lparr>b_run = demo_run, b_stage = (demo_stage x S_RUNNING)\<lparr>s_id := ''now'', s_generation := 2\<rparr>,
      b_latestStages = [], b_eligibleSources = [demo_eligible],
      b_excludedDocumentSourceIds = [], b_domainEvidence = [], b_domainClaims = [], b_domainFindings = [], b_qaFindings = [],
      b_deliverable = Some demo_deliverable, b_documentChunkCount = 0\<rparr>"


definition demo_draft_out :: draft_out where
  "demo_draft_out = \<lparr>do_title = ''R'', do_markdown = ''body'', do_citationSourceIds = [''s1''], do_limitations = []\<rparr>"

lemma tx_returns:
  fixes r :: "'e + unit \<times> database"
  assumes "case r of Inl _ \<Rightarrow> False | Inr (_, d) \<Rightarrow> P d"
  shows "\<exists>d. r = Inr ((), d) \<and> P d"
  using assms by (auto split: sum.splits)

theorem draft_respects_people_witness:
  "\<exists>db' d'. commitDraftSuggestion 9 (''u1'', ''u2'') (demo_bundle draft_generation) demo_draft_out (demo_research draft_generation) = Inr ((), db') \<and>
     d' \<in> set (deliverables db') \<and> section_of (de_sections d') ''methodology'' = ''mine'' \<and>
     owned_sections USER ''d1'' db' = [''methodology'']"
proof -
  let ?r = "commitDraftSuggestion 9 (''u1'', ''u2'') (demo_bundle draft_generation) demo_draft_out (demo_research draft_generation)"
  have "case ?r of Inl _ \<Rightarrow> False | Inr (_, db') \<Rightarrow> True" by code_simp
  from tx_returns[OF this] obtain db' where r: "?r = Inr ((), db')" by blast
  have d: "demo_deliverable \<in> set (deliverables (demo_research draft_generation))" "distinct (map de_id (deliverables (demo_research draft_generation)))"
    by (simp_all add: demo_research_def)
  have o: "owned_sections USER (de_id demo_deliverable) (demo_research draft_generation) = [''methodology'']" by code_simp
  have s: "section_of (de_sections demo_deliverable) ''methodology'' = ''mine''" "de_id demo_deliverable = ''d1''" by code_simp+
  obtain d' where d': "d' \<in> set (deliverables db')" "owned_sections USER (de_id demo_deliverable) db' = [''methodology'']"
    and k: "\<forall>k. section_of (de_sections d') k = section_of (de_sections demo_deliverable) k \<or>
       k \<notin> set [''methodology''] \<and> k \<in> set reportSectionKeys \<and>
       (js_trim (section_of (de_sections demo_deliverable) k) = [] \<or>
         k \<in> set (owned_sections AI (de_id demo_deliverable) (demo_research draft_generation))) \<and>
       section_of (de_sections d') k = section_of (generatedReportSections (demo_bundle draft_generation) demo_draft_out) k"
    using draft_respects_people[OF r d, unfolded o] by (elim bexE conjE) (rule that)
  have m: "section_of (de_sections d') ''methodology'' = ''mine''" using spec[OF k, of "''methodology''"] unfolding s(1) by simp
  show ?thesis
    by (intro exI conjI) (rule r, rule d'(1), rule m, rule d'(2)[unfolded s(2)])
qed


end
