(* ===== verification/Handler_Properties.thy ===== *)
theory Handler_Properties
  imports Pipeline_Handler Domain_Properties
begin

text \<open>
  What the handler of a pipeline stage does, whatever other processes do between its calls, whether or not the database can
  be reached and whenever the abort signal fires: the order of its calls, and what its success means.
\<close>

section \<open>Calls that are not the provider's\<close>

lemma local_parts [io_emits]:
  "emits local_call (load_bundle k)" "emits local_call (block_stage X b c m)" "emits local_call (release_permit X k)"
  "emits local_call abort_check" "emits local_call (failTerminalProviderAttempt X b c m)"
  "emits local_call (finish_execution x st rq rs oh u cost fl)" "emits local_call (record_attempt X K x u cost d v fl)"
  "emits local_call (advanceResearchPipelineStage J k fence out)"
  unfolding load_bundle_def block_stage_def release_permit_def abort_check_def failTerminalProviderAttempt_def
    finish_execution_def record_attempt_def
  by (intro io_emits local_calls advance_emits)+

lemma local_failures [io_emits]:
  "emits local_call (blockForBudget X b vs)" "emits local_call (call_failed X K x e)" "emits local_call (permit_refused X b p n)"
  "emits local_call (provider_refused X K k pe m)" "emits local_call (output_rejected X K k v m ae)"
  "emits local_call (duplicate_response X K k m)" "emits local_call (body_failed X b e)"
  unfolding blockForBudget_def call_failed_def permit_refused_def provider_refused_def output_rejected_def
    duplicate_response_def body_failed_def Let_def
  by (intro io_emits)+

lemma local_rest [io_emits]:
  "emits local_call (output_accepted X K k out m)" "emits local_call (after_call X K kr)"
  "emits local_call (reuseOrCommitOutput X b out)" "emits local_call (run_tail X ending)"
  "emits local_call (replay_stage X b v)" "emits local_call (open_execution X K)"
proof -
  show 1: "emits local_call (output_accepted X K k out m)" for k out m
    unfolding output_accepted_def Let_def by (intro io_emits)
  show "emits local_call (after_call X K kr)"
    unfolding after_call_def by (auto split: prod.split ai_result.split sum.split intro!: io_emits 1)
  show 2: "emits local_call (reuseOrCommitOutput X b out)" for b out
    unfolding reuseOrCommitOutput_def by (intro io_emits local_calls)
  show "emits local_call (run_tail X ending)" unfolding run_tail_def by (cases ending) (auto intro!: io_emits 2)
  show "emits local_call (replay_stage X b v)" unfolding replay_stage_def by (intro io_emits)
  show "emits local_call (open_execution X K)" unfolding open_execution_def by (intro io_emits local_calls)
qed

section \<open>The provider call and what comes before it\<close>

lemma abort_check_state: "abort_check E s = (r, t) \<Longrightarrow> t = s"
  by (auto simp: abort_check_def ibind_def isignal_def imessage_def ithrow_def iret_def split: option.splits)

text \<open>The fence of the stage held in the world \<open>w\<close>, at the time of call \<open>n\<close>.\<close>

definition fence_held :: "handler_context \<Rightarrow> string \<Rightarrow> io_env \<Rightarrow> nat \<Rightarrow> world \<Rightarrow> bool" where
  "fence_held X runStageId E n w \<longleftrightarrow>
     (\<exists>db. assertRunStageJobFence (ie_now E n) runStageId (hx_fence X) (w_db w) = Inr ((), db))"

lemma open_execution_Inr:
  assumes "open_execution X K E s = (Inr k, u)"
  shows "\<exists>wf wa wb. io_log u = io_log s @ [(Call_fence, io_step s, wf, True), (Call_attempt, Suc (io_step s), wa, True),
      (Call_begin, Suc (Suc (io_step s)), wb, True)] \<and> fence_held X (stage_key_of K) E (io_step s) wf"
  using assms unfolding open_execution_def
proof (cases rule: ibind_cases)
  case (returns a s1)
  then obtain wf where f: "io_log s1 = io_log s @ [(Call_fence, io_step s, wf, True)]" "io_step s1 = Suc (io_step s)"
      "fence_held X (stage_key_of K) E (io_step s) wf"
    by (auto elim!: await_cases simp: fence_held_def in_db_Inr)
  from returns(2) obtain att s2 where a: "await Call_attempt (\<lambda>_ _. jobAttemptId (j_id (hx_job X)) (j_attempts (hx_job X))) E s1 = (Inr att, s2)"
    and b: "await Call_begin (\<lambda>now uuids. startProviderExecution now (fst uuids) (execution_start X K att)) E s2 = (Inr k, u)"
    by (elim ibind_cases) (auto dest: abort_check_state)
  from a obtain wa where "io_log s2 = io_log s1 @ [(Call_attempt, io_step s1, wa, True)]" "io_step s2 = Suc (io_step s1)"
    by (auto elim!: await_cases)
  moreover from b obtain wb where "io_log u = io_log s2 @ [(Call_begin, io_step s2, wb, True)]" by (auto elim!: await_cases)
  ultimately show ?thesis using f by auto
qed simp

lemma ask_provider_log:
  assumes "ask_provider K E s = (r, u)"
  shows "\<exists>w b. io_log u = io_log s @ [(Call_provider (request_of K), io_step s, w, b)]"
proof -
  have p: "\<exists>w b. io_log t = io_log s @ [(Call_provider (request_of K), io_step s, w, b)]"
    if "run_provider (cc_provider K) (request_of K) E s = (q, t)" for q t
    using that by (auto simp: run_provider_def Let_def)
  show ?thesis using assms unfolding ask_provider_def
  proof (cases rule: ibind_cases)
    case (returns a s1)
    then have "u = s1" by (elim ibind_cases) (auto dest: abort_check_state simp: iret_def)
    then show ?thesis using p[OF returns(1)] by simp
  qed (auto dest: p)
qed

text \<open>A list of entries with no call of the provider, or one, right after a passed fence and a recorded start.\<close>

definition guarded_call :: "handler_context \<Rightarrow> call_context \<Rightarrow> io_env \<Rightarrow> call_entry list \<Rightarrow> bool" where
  "guarded_call X K E new \<longleftrightarrow>
     list_all local_call new \<or>
     (\<exists>n wf wa wb p rest. new = [(Call_fence, n, wf, True), (Call_attempt, Suc n, wa, True), (Call_begin, Suc (Suc n), wb, True),
         (Call_provider (request_of K), p)] @ rest \<and> list_all local_call rest \<and> fence_held X (stage_key_of K) E n wf)"

lemma guarded_call_append: "guarded_call X K E new \<Longrightarrow> list_all local_call ys \<Longrightarrow> guarded_call X K E (new @ ys)"
  unfolding guarded_call_def by fastforce

lemma call_failed_throws: "always_throws (call_failed X K x e)"
  unfolding call_failed_def Let_def by (intro always_throws_rules)

lemma call_failed_never:
  fixes a :: 'a
  assumes "call_failed X K x e E s = (Inr a, t)"
  shows False
proof -
  have "always_throws (call_failed X K x e :: 'a io)" by (rule call_failed_throws)
  then show False using assms by (auto simp: always_throws_def)
qed

lemma call_body_log:
  assumes "ibind (icatch (open_execution X K) (call_failed X K None)) (\<lambda>executionId.
        ibind (icatch (ask_provider K) (call_failed X K (Some executionId))) (\<lambda>result. iret (executionId, result))) E s = (r, t)"
  shows "\<exists>new. io_log t = io_log s @ new \<and> guarded_call X K E new"
  using assms
proof (cases rule: ibind_cases)
  case (throws e)
  then have "\<exists>new. io_log t = io_log s @ new \<and> list_all local_call new"
    using emitsD[of local_call "icatch (open_execution X K) (call_failed X K None)"] by (simp add: io_emits)
  then show ?thesis by (auto simp: guarded_call_def)
next
  case (returns k s1)
  note opened = returns(1) and asked = returns(2)
  from opened have "open_execution X K E s = (Inr k, s1)"
    by (cases rule: icatch_cases) (auto dest: call_failed_never)
  from open_execution_Inr[OF this] obtain wf wa wb where
    pre: "io_log s1 = io_log s @ [(Call_fence, io_step s, wf, True), (Call_attempt, Suc (io_step s), wa, True),
      (Call_begin, Suc (Suc (io_step s)), wb, True)]" "fence_held X (stage_key_of K) E (io_step s) wf" by blast
  from asked obtain q u where c: "icatch (ask_provider K) (call_failed X K (Some k)) E s1 = (q, u)" and t: "io_log t = io_log u"
    by (cases rule: ibind_cases) (auto simp: iret_def)
  from c obtain p rest where "io_log u = io_log s1 @ (Call_provider (request_of K), p) # rest" "list_all local_call rest"
  proof (cases rule: icatch_cases)
    case (throws e v)
    obtain w b where "io_log v = io_log s1 @ [(Call_provider (request_of K), io_step s1, w, b)]" using ask_provider_log[OF throws(1)] by blast
    moreover obtain new where "io_log u = io_log v @ new" "list_all local_call new"
      using emitsD[OF local_failures(2) throws(2)] by blast
    ultimately show ?thesis using that by simp
  next
    case (returns a)
    then show ?thesis using that[of _ "[]"] ask_provider_log[OF returns(1)] by auto
  qed
  then show ?thesis using pre t unfolding guarded_call_def by fastforce
qed

lemma call_with_permit_log:
  assumes "call_with_permit X K permitId E s = (r, t)"
  shows "\<exists>new x. io_log t = io_log s @ new @ [(Call_release permitId, x)] \<and> guarded_call X K E new"
  using assms unfolding call_with_permit_def
proof (cases rule: ifinally_cases)
  case (1 q u x)
  obtain y where "io_log t = io_log u @ [(Call_release permitId, y)]"
    using 1(2) by (auto simp: release_permit_def elim!: await_cases)
  moreover obtain new where "io_log u = io_log s @ new" "guarded_call X K E new" using call_body_log[OF 1(1)] by blast
  ultimately show ?thesis by (intro exI conjI) (simp, assumption)
qed

section \<open>The permit, the budget and the stage\<close>

lemma inputHash_record: "is_record v \<Longrightarrow> \<exists>h. inputHash J v = Inr h"
  by (cases v) (auto simp: inputHash_def stableJson_def)

definition schemas_ok :: "stage_schemas \<Rightarrow> bool" where
  "schemas_ok Z \<longleftrightarrow> (\<forall>stage v p. parse_input Z stage v = Some p \<longrightarrow> is_record p)"

lemma built_input:
  assumes "buildResearchStageInput Z b = Inr built"
  shows "bi_stage built = s_stage_id (b_stage b) \<and> bi_allowedSourceIds built = map es_id (b_eligibleSources b) \<and>
    (schemas_ok Z \<longrightarrow> is_record (bi_input built))"
  using assms unfolding buildResearchStageInput_def Let_def wbind_Inr_iff
  by (auto simp: schemas_ok_def split: option.splits)

definition within_budget :: "handler_context \<Rightarrow> research_bundle \<Rightarrow> ai_provider \<Rightarrow> io_env \<Rightarrow> nat \<Rightarrow> bool" where
  "within_budget X b P E n \<longleftrightarrow>
     (\<exists>prices. hx_prices X = Inr prices \<and>
        fst (checkRunBudget (r_budget_snapshot (b_run b)) (runUsage (ie_clock E n) b)
          (preflight_usage (configuredCostStatus P prices))))"

definition permit_call ::
  "handler_context \<Rightarrow> research_bundle \<Rightarrow> ai_provider \<Rightarrow> io_env \<Rightarrow> nat \<Rightarrow> provider_permit_decision world_tx" where
  "permit_call X b P E n =
     acquireProviderPermit (ie_now E n) (fst (ie_uuids E n)) (ap_id P) (researchProviderPermitOperation (ap_id P) (b_run b))
       (permit_owner X) (Some (j_id (hx_job X))) (hx_policy X)"

text \<open>The entries of a fresh attempt, from the permit on.\<close>

definition permit_story :: "handler_context \<Rightarrow> research_bundle \<Rightarrow> io_env \<Rightarrow> call_entry list \<Rightarrow> bool" where
  "permit_story X b E new \<longleftrightarrow>
     new = [] \<or>
     (\<exists>n w rest. new = (Call_permit, n, w, False) # rest \<and> list_all local_call rest \<and> Call_permit \<notin> fst ` set rest) \<or>
     (\<exists>n w rest P p ms w'. new = (Call_permit, n, w, True) # rest \<and> list_all local_call rest \<and> Call_permit \<notin> fst ` set rest \<and>
        permit_call X b P E n w = Inr (Permit_refused p ms, w')) \<or>
     (\<exists>n w inner x rest P k w' K. new = (Call_permit, n, w, True) # inner @ (Call_release k, x) # rest \<and>
        guarded_call X K E inner \<and> list_all local_call rest \<and> Call_permit \<notin> fst ` set (inner @ rest) \<and>
        permit_call X b P E n w = Inr (Permit_allowed k, w') \<and> within_budget X b P E n \<and>
        cc_bundle K = b \<and> cc_provider K = P \<and> bi_allowedSourceIds (cc_built K) = map es_id (b_eligibleSources b))"

text \<open>Only a fresh attempt asks for a permit.\<close>

definition no_permit :: "call_entry \<Rightarrow> bool" where
  "no_permit x \<longleftrightarrow> fst x \<noteq> Call_permit"

lemma no_permits [simp]:
  "no_permit (Call_load, x)" "no_permit (Call_start, x)" "no_permit (Call_fence, x)"
  "no_permit (Call_attempt, x)" "no_permit (Call_begin, x)" "no_permit (Call_finish p, x)" "no_permit (Call_record, x)"
  "no_permit (Call_release k, x)" "no_permit (Call_commit, x)" "no_permit (Call_block c, x)"
  "no_permit (Call_boundary st, x)" "no_permit (Call_queue, x)" "no_permit (Call_provider q, x)"
  by (simp_all add: no_permit_def)

lemma no_permit_all: "list_all no_permit xs \<longleftrightarrow> Call_permit \<notin> fst ` set xs"
  by (force simp: list_all_iff no_permit_def)

lemma permit_free [io_emits]:
  "emits no_permit (load_bundle k)" "emits no_permit (block_stage X b c m)" "emits no_permit (release_permit X k)"
  "emits no_permit abort_check" "emits no_permit (failTerminalProviderAttempt X b c m)"
  "emits no_permit (finish_execution x st rq rs oh u cost fl)" "emits no_permit (record_attempt X K x u cost d v fl)"
  unfolding load_bundle_def block_stage_def release_permit_def abort_check_def failTerminalProviderAttempt_def
    finish_execution_def record_attempt_def
  by (intro io_emits no_permits)+

lemma permit_free_rest [io_emits]:
  "emits no_permit (blockForBudget X b vs)" "emits no_permit (call_failed X K x e)" "emits no_permit (permit_refused X b p n)"
  "emits no_permit (provider_refused X K k pe m)" "emits no_permit (output_rejected X K k v m ae)"
  "emits no_permit (duplicate_response X K k m)" "emits no_permit (body_failed X b e)"
  "emits no_permit (output_accepted X K k out m)" "emits no_permit (open_execution X K)" "emits no_permit (ask_provider K)"
  unfolding blockForBudget_def call_failed_def permit_refused_def provider_refused_def output_rejected_def
    duplicate_response_def body_failed_def output_accepted_def open_execution_def ask_provider_def Let_def
  by (intro io_emits permit_free no_permits)+

lemma permit_free_call [io_emits]:
  "emits no_permit (call_with_permit X K k)" "emits no_permit (after_call X K kr)"
proof -
  show "emits no_permit (call_with_permit X K k)" unfolding call_with_permit_def by (intro io_emits)
  show "emits no_permit (after_call X K kr)"
    unfolding after_call_def by (auto split: prod.split ai_result.split sum.split intro!: io_emits permit_free_rest)
qed

lemma call_granted_log:
  assumes run: "call_granted X b built P prices u0 k E s = (r, t)" and hash: "is_record (bi_input built)"
  shows "\<exists>inner x rest K. io_log t = io_log s @ inner @ (Call_release k, x) # rest \<and> guarded_call X K E inner \<and>
    list_all local_call rest \<and> Call_permit \<notin> fst ` set (inner @ rest) \<and> cc_bundle K = b \<and> cc_provider K = P \<and> cc_built K = built"
proof -
  obtain h where h: "inputHash (hx_js X) (bi_input built) = Inr h" using inputHash_record[OF hash] by blast
  define K where "K = \<lparr>cc_bundle = b, cc_built = built, cc_provider = P, cc_prices = prices, cc_inputHash = h,
               cc_beforeUsage = u0, cc_startedAt = ie_clock E (io_step s)\<rparr>"
  have body: "ibind (call_with_permit X K k) (after_call X K) E s = (r, t)"
    using run h by (simp add: call_granted_def ibind_def ilift_def to_work_def iclock_def K_def Let_def)
  have free: "emits no_permit (ibind (call_with_permit X K k) (after_call X K))" by (intro io_emits)
  obtain new where new: "io_log t = io_log s @ new" "Call_permit \<notin> fst ` set new"
    using emitsD[OF free body] unfolding no_permit_all by blast
  obtain inner x rest where "io_log t = io_log s @ inner @ (Call_release k, x) # rest" "guarded_call X K E inner" "list_all local_call rest"
    using body
  proof (cases rule: ibind_cases)
    case (throws e)
    then show ?thesis using that[of _ _ "[]"] call_with_permit_log[OF throws(1)] by auto
  next
    case (returns a u)
    obtain rest where "io_log t = io_log u @ rest" "list_all local_call rest" using emitsD[OF local_rest(2) returns(2)] by blast
    then show ?thesis using that call_with_permit_log[OF returns(1)] by fastforce
  qed
  with new show ?thesis by (intro exI[of _ inner] exI[of _ x] exI[of _ rest] exI[of _ K]) (auto simp: K_def)
qed

lemma permit_story_granted:
  assumes "guarded_call X K E inner" "list_all local_call rest" "Call_permit \<notin> fst ` set (inner @ rest)"
    "permit_call X b P E n w = Inr (Permit_allowed k, w')" "within_budget X b P E n"
    "cc_bundle K = b" "cc_provider K = P" "bi_allowedSourceIds (cc_built K) = map es_id (b_eligibleSources b)"
  shows "permit_story X b E ((Call_permit, n, w, True) # inner @ (Call_release k, x) # rest)"
  unfolding permit_story_def by (rule disjI2, rule disjI2, rule disjI2, intro exI conjI) (rule refl | fact)+

lemma permit_step:
  assumes step: "ibind (await Call_permit (\<lambda>now uuids. acquireProviderPermit now (fst uuids) (ap_id P)
                 (researchProviderPermitOperation (ap_id P) (b_run b)) (permit_owner X) (Some (j_id (hx_job X))) (hx_policy X)))
          (\<lambda>permit.
        (case permit of
           Permit_refused reason retryAfterMs \<Rightarrow> permit_refused X b reason retryAfterMs
         | Permit_allowed permitId \<Rightarrow> call_granted X b built P prices u0 permitId)) E s = (r, t)"
    and ok: "within_budget X b P E (io_step s)"
    and allowed: "bi_allowedSourceIds built = map es_id (b_eligibleSources b)" and rec: "is_record (bi_input built)"
  shows "\<exists>new. io_log t = io_log s @ new \<and> permit_story X b E new"
  using step
proof (cases rule: ibind_cases)
  case (throws e)
  then obtain w where "io_log t = io_log s @ [(Call_permit, io_step s, w, False)]" by (auto elim!: await_cases)
  then show ?thesis by (auto simp: permit_story_def)
next
  case (returns d u)
  then obtain w where w: "io_log u = io_log s @ [(Call_permit, io_step s, w, True)]"
      "permit_call X b P E (io_step s) w = Inr (d, io_world u)"
    by (auto elim!: await_cases simp: permit_call_def)
  show ?thesis
  proof (cases d)
    case (Permit_allowed k)
    then have "call_granted X b built P prices u0 k E u = (r, t)" using returns(2) by simp
    from call_granted_log[OF this rec] obtain inner x rest K where c: "io_log t = io_log u @ inner @ (Call_release k, x) # rest"
      "guarded_call X K E inner" "list_all local_call rest" "Call_permit \<notin> fst ` set (inner @ rest)"
      "cc_bundle K = b" "cc_provider K = P" "cc_built K = built" by blast
    have "permit_story X b E ((Call_permit, io_step s, w, True) # inner @ (Call_release k, x) # rest)"
      by (rule permit_story_granted[OF c(2-4) w(2)[unfolded Permit_allowed] ok c(5,6)]) (simp add: c(7) allowed)
    then show ?thesis using c(1) w(1) by auto
  next
    case (Permit_refused p ms)
    then have t: "permit_refused X b p ms E u = (r, t)" using returns(2) by simp
    obtain rest where "io_log t = io_log u @ rest" "list_all local_call rest"
      using emitsD[OF local_failures(3) t] by blast
    moreover from this have "Call_permit \<notin> fst ` set rest"
      using emitsD[OF permit_free_rest(3) t] by (auto simp: no_permit_all)
    ultimately show ?thesis using w Permit_refused
      by (intro exI[of _ "(Call_permit, io_step s, w, True) # rest"]) (auto simp: permit_story_def)
  qed
qed

lemma fresh_attempt_log:
  assumes run: "fresh_attempt X b E s = (r, t)" and schemas: "schemas_ok (hx_schemas X)"
  shows "\<exists>new. io_log t = io_log s @ new \<and> permit_story X b E new"
  using run unfolding fresh_attempt_def
proof (cases rule: ibind_cases)
  case throws
  then show ?thesis by (auto simp: ilift_def permit_story_def)
next
  case (returns built s1)
  then have built: "buildResearchStageInput (hx_schemas X) b = Inr built" and s1: "s1 = s" by (auto simp: ilift_def)
  note facts = built_input[OF built]
  from returns(2) show ?thesis
  proof (cases rule: ibind_cases)
    case throws
    then show ?thesis by (auto simp: ilift_def permit_story_def s1)
  next
    case (returns P s2)
    then have s2: "s2 = s" by (auto simp: ilift_def s1)
    from returns(2) show ?thesis
    proof (cases rule: ibind_cases)
      case throws
      then show ?thesis by (auto simp: ilift_def permit_story_def s2)
    next
      case (returns prices s3)
      then have prices: "hx_prices X = Inr prices" and s3: "s3 = s" by (auto simp: ilift_def s2)
      let ?n = "io_step s" and ?u = "runUsage (ie_clock E (io_step s)) b"
      obtain allowed vs where c: "checkRunBudget (r_budget_snapshot (b_run b)) ?u
          (preflight_usage (configuredCostStatus P prices)) = (allowed, vs)" by fastforce
      show ?thesis
      proof (cases allowed)
        case False
        then show ?thesis using returns(2) c
          by (auto simp: ibind_def iclock_def Let_def iret_def s3 permit_story_def)
      next
        case True
        then have ok: "within_budget X b P E ?n" using prices c by (auto simp: within_budget_def)
        have step: "ibind (await Call_permit (\<lambda>now uuids. acquireProviderPermit now (fst uuids) (ap_id P)
                 (researchProviderPermitOperation (ap_id P) (b_run b)) (permit_owner X) (Some (j_id (hx_job X))) (hx_policy X)))
          (\<lambda>permit.
        (case permit of
           Permit_refused reason retryAfterMs \<Rightarrow> permit_refused X b reason retryAfterMs
         | Permit_allowed permitId \<Rightarrow> call_granted X b built P prices ?u permitId)) E s = (r, t)"
          using returns(2) c True unfolding ibind_def[of iclock] by (simp add: iclock_def Let_def s3)
        show ?thesis
          by (rule permit_step[OF step ok conjunct2[OF facts, THEN conjunct1] mp[OF conjunct2[OF facts, THEN conjunct2] schemas]])
      qed
    qed
  qed
qed

section \<open>The whole handler\<close>

definition plain :: "call_entry \<Rightarrow> bool" where
  "plain x \<longleftrightarrow> local_call x \<and> no_permit x"

lemma plain_all: "list_all plain xs \<longleftrightarrow> list_all local_call xs \<and> Call_permit \<notin> fst ` set xs"
  by (induction xs) (auto simp: plain_def no_permit_def)

lemma plains [simp]:
  "plain (Call_load, x)" "plain (Call_start, x)" "plain (Call_fence, x)" "plain (Call_commit, x)" "plain (Call_block c, x)"
  "plain (Call_boundary st, x)" "plain (Call_queue, x)"
  by (simp_all add: plain_def)

lemma emits_both: "emits local_call m \<Longrightarrow> emits no_permit m \<Longrightarrow> emits plain m"
  unfolding emits_def plain_def by (simp add: list_all_iff) (metis same_append_eq)

lemma plain_parts [io_emits]:
  "emits plain (load_bundle k)" "emits plain (blockForBudget X b vs)" "emits plain (body_failed X b e)"
  "emits plain (advanceResearchPipelineStage J k fence out)" "emits plain (reuseOrCommitOutput X b out)"
  "emits plain (replay_stage X b v)" "emits plain (run_tail X ending)"
proof -
  show "emits plain (load_bundle k)" "emits plain (blockForBudget X b vs)" "emits plain (body_failed X b e)"
    by (intro emits_both io_emits)+
  show 1: "emits plain (advanceResearchPipelineStage J k fence out)" for J k fence out
    unfolding advanceResearchPipelineStage_def carry_out_def
    by (intro io_emits plains) (auto split: advance_decision.split intro!: io_emits)
  show 2: "emits plain (reuseOrCommitOutput X b out)" for b out
    unfolding reuseOrCommitOutput_def by (intro io_emits plains 1)
  show "emits plain (replay_stage X b v)" unfolding replay_stage_def by (intro io_emits 1)
  show "emits plain (run_tail X ending)"
    unfolding run_tail_def by (cases ending) (auto intro!: 2 emits_both io_emits)
qed

text \<open>The bundle \<open>b\<close> of the stage was loaded in the world \<open>w\<close>.\<close>

definition loaded :: "string \<Rightarrow> research_bundle \<Rightarrow> world \<Rightarrow> bool" where
  "loaded runStageId b w \<longleftrightarrow> (\<exists>db. loadResearchOrchestrationBundle runStageId (w_db w) = Inr (b, db))"

lemma load_bundle_cases:
  assumes "load_bundle k E s = (r, t)"
  obtains (throws) e w where "r = Inl e" "io_log t = io_log s @ [(Call_load, io_step s, w, False)]"
  | (returns) b w where "r = Inr b" "io_log t = io_log s @ [(Call_load, io_step s, w, True)]" "loaded k b w"
      "io_step t = Suc (io_step s)"
  using assms unfolding load_bundle_def
  by (cases rule: await_cases) (auto simp: loaded_def in_db_Inr)

text \<open>The entries of \<open>stage_body\<close>: the start, the load, and what a fresh attempt adds.\<close>

definition body_story :: "handler_context \<Rightarrow> string \<Rightarrow> io_env \<Rightarrow> call_entry list \<Rightarrow> bool" where
  "body_story X k E new \<longleftrightarrow>
     list_all plain new \<or>
     (\<exists>n w m w2 b more. new = (Call_start, n, w, True) # (Call_load, m, w2, True) # more \<and> loaded k b w2 \<and> permit_story X b E more)"

lemma stage_body_log:
  assumes run: "stage_body X b0 E s = (r, t)" and schemas: "schemas_ok (hx_schemas X)"
  shows "\<exists>new. io_log t = io_log s @ new \<and> body_story X (s_id (b_stage b0)) E new"
  using run unfolding stage_body_def
proof (cases rule: ibind_cases)
  case throws
  then show ?thesis by (auto simp: body_story_def elim!: await_cases)
next
  case (returns a u)
  then obtain w where w: "io_log u = io_log s @ [(Call_start, io_step s, w, True)]" by (auto elim!: await_cases)
  from returns(2) show ?thesis
  proof (cases rule: ibind_cases)
    case throws
    then show ?thesis using w by (auto simp: body_story_def elim!: load_bundle_cases)
  next
    case (returns b v)
    then obtain w2 where v: "io_log v = io_log u @ [(Call_load, io_step u, w2, True)]" "loaded (s_id (b_stage b0)) b w2"
      by (auto elim!: load_bundle_cases)
    have "\<exists>new. io_log t = io_log v @ new \<and> permit_story X b E new"
    proof (cases "\<exists>v0 h. s_output_reference (b_stage b) = Some v0 \<and> truthy (s_output_hash (b_stage b)) = Some h")
      case True
      then show ?thesis using returns(2)
        by (auto simp: permit_story_def ibind_def ilift_def iret_def split: sum.splits)
    next
      case False
      then have "fresh_attempt X b E v = (r, t)" using returns(2) by (auto split: option.splits)
      then show ?thesis by (rule fresh_attempt_log[OF _ schemas])
    qed
    then show ?thesis using w v unfolding body_story_def by fastforce
  qed
qed

lemma handle_bundle_log:
  assumes run: "handle_bundle X runId k stage b E s = (r, t)" and schemas: "schemas_ok (hx_schemas X)"
  shows "\<exists>new post. io_log t = io_log s @ new @ post \<and> body_story X k E new \<and> list_all plain post"
proof (cases "r_id (b_run b) \<noteq> runId \<or> ai_stage_name (s_stage_id (b_stage b)) \<noteq> stage \<or> s_id (b_stage b) \<noteq> k")
  case True
  then have "t = s" using run by (auto simp: handle_bundle_def ithrow_def)
  then show ?thesis by (auto simp: body_story_def)
next
  case False
  show ?thesis
  proof (cases "if s_status (b_stage b) = S_SUCCEEDED then s_output_reference (b_stage b) else None")
    case (Some v)
    then have "replay_stage X b v E s = (r, t)" using run False by (simp add: handle_bundle_def)
    from emitsD[OF plain_parts(6) this] show ?thesis by (auto simp: body_story_def intro: exI[of _ "[]"])
  next
    case None
    then have "ibind (icatch (stage_body X b) (body_failed X b)) (run_tail X) E s = (r, t)"
      using run False by (simp add: handle_bundle_def)
    then obtain q u where q: "icatch (stage_body X b) (body_failed X b) E s = (q, u)"
      and ut: "\<exists>post. io_log t = io_log u @ post \<and> list_all plain post"
      by (cases rule: ibind_cases) (auto dest: emitsD[OF plain_parts(7)])
    from q obtain x v where x: "stage_body X b E s = (x, v)" and vu: "\<exists>post. io_log u = io_log v @ post \<and> list_all plain post"
      by (cases rule: icatch_cases) (auto dest: emitsD[OF plain_parts(3)])
    obtain new where "io_log v = io_log s @ new" "body_story X k E new" using stage_body_log[OF x schemas] False by auto
    then show ?thesis using ut vu by fastforce
  qed
qed

section \<open>The properties\<close>

lemma loaded_stage: "loaded k b w \<Longrightarrow> s_id (b_stage b) = k"
  unfolding loaded_def loadResearchOrchestrationBundle_def Let_def
  by (auto simp: tx_simps case_prod_beta dest: find_stage_SomeD)

text \<open>The entries a run of the handler adds to the log.\<close>

definition calls_of :: "io_state \<Rightarrow> io_state \<Rightarrow> call_entry list" where
  "calls_of s t = drop (length (io_log s)) (io_log t)"

lemma handler_log:
  assumes run: "createResearchPipelineStageHandler J Z pf prices policy job workerId E s = (r, t)" and schemas: "schemas_ok Z"
  obtains (plain) "list_all plain (calls_of s t)"
  | (fresh) k n0 w0 n1 w1 n2 w2 b more post where "truthy (j_run_stage_id job) = Some k"
      "calls_of s t = (Call_load, n0, w0, True) # (Call_start, n1, w1, True) # (Call_load, n2, w2, True) # more @ post"
      "loaded k b w2" "permit_story (context_of J Z pf prices policy job k workerId) b E more" "list_all plain post"
proof -
  consider "t = s" | runId k stage where "truthy (j_run_stage_id job) = Some k"
      "ibind (load_bundle k) (handle_bundle (context_of J Z pf prices policy job k workerId) runId k stage) E s = (r, t)"
    using run by (auto simp: createResearchPipelineStageHandler_def Let_def ithrow_def split: option.splits)
  then show thesis
  proof cases
    case 1
    then show ?thesis by (auto simp: calls_of_def intro: plain)
  next
    case (2 runId k stage)
    let ?X = "context_of J Z pf prices policy job k workerId"
    from 2(2) show ?thesis
    proof (cases rule: ibind_cases)
      case throws
      then show ?thesis by (auto simp: calls_of_def intro!: plain elim!: load_bundle_cases)
    next
      case (returns b u)
      obtain w where u: "io_log u = io_log s @ [(Call_load, io_step s, w, True)]" using returns(1) by (auto elim!: load_bundle_cases)
      have "schemas_ok (hx_schemas ?X)" using schemas by (simp add: context_of_def)
      from handle_bundle_log[OF returns(2) this] obtain new post where
        t: "io_log t = io_log u @ new @ post" "body_story ?X k E new" "list_all plain post" by blast
      have calls: "calls_of s t = (Call_load, io_step s, w, True) # new @ post" using t(1) u by (simp add: calls_of_def)
      show ?thesis
      proof (cases "list_all plain new")
        case True
        then show ?thesis using calls t(3) by (intro plain) simp
      next
        case False
        then obtain n1 w1 n2 w2 b2 more where "new = (Call_start, n1, w1, True) # (Call_load, n2, w2, True) # more"
            "loaded k b2 w2" "permit_story ?X b2 E more" using t(2) by (auto simp: body_story_def)
        then show ?thesis using fresh[OF 2(1)] calls t(3) by simp
      qed
    qed
  qed
qed

lemma permit_story_cases:
  assumes "permit_story X b E new"
  obtains (quiet) "list_all local_call new" "\<And>n w. (Call_permit, n, w, True) \<in> set new \<Longrightarrow>
      \<exists>P p ms w'. permit_call X b P E n w = Inr (Permit_refused p ms, w')"
  | (granted) n w inner x rest P k w' K where "new = (Call_permit, n, w, True) # inner @ (Call_release k, x) # rest"
      "guarded_call X K E inner" "list_all local_call rest" "Call_permit \<notin> fst ` set (inner @ rest)"
      "permit_call X b P E n w = Inr (Permit_allowed k, w')" "within_budget X b P E n"
      "cc_bundle K = b" "bi_allowedSourceIds (cc_built K) = map es_id (b_eligibleSources b)"
proof -
  have out: "(Call_permit, n, w, True) \<notin> set rest" if "Call_permit \<notin> fst ` set rest" for n w and rest :: "call_entry list"
    using that by force
  from assms[unfolded permit_story_def] show thesis
  proof (elim disjE exE conjE, goal_cases)
    case 1
    then show ?case by (intro quiet) simp_all
  next
    case (2 n w rest)
    then show ?case using out[OF 2(3)] by (intro quiet) simp_all
  next
    case (3 n w rest P p ms w')
    then show ?case using out[OF 3(3)] by (intro quiet) auto
  next
    case (4 n w inner x rest P k w' K)
    show ?case by (rule granted[OF 4(1-6) 4(7) 4(9)])
  qed
qed

text \<open>
  \<^bold>\<open>C23.\<close> The provider is called at most once in a run of the handler, and only when everything before it held: the bundle of
  the job's own stage was loaded, the stage was started, the budget of the run allowed one more request at the current
  usage, a permit was granted, the fence of the job held after that, and the start of the execution was recorded. The
  request names exactly the eligible sources of that bundle, and the permit is given back afterwards. All of it holds for any
  behaviour of other processes between the calls, any failure of the database and any moment of an abort.
\<close>

theorem provider_call_guarded:
  assumes run: "createResearchPipelineStageHandler J Z pf prices policy job workerId E s = (r, t)"
    and schemas: "\<forall>stage v p. parse_input Z stage v = Some p \<longrightarrow> is_record p"
    and call: "(Call_provider q, c) \<in> set (calls_of s t)"
  shows "\<exists>k X b P n0 w0 n1 w1 n2 w2 np wp nf wf na wa nb wb permitId w' rest.
    truthy (j_run_stage_id job) = Some k \<and> X = context_of J Z pf prices policy job k workerId \<and>
    calls_of s t =
      [(Call_load, n0, w0, True), (Call_start, n1, w1, True), (Call_load, n2, w2, True), (Call_permit, np, wp, True),
       (Call_fence, nf, wf, True), (Call_attempt, na, wa, True), (Call_begin, nb, wb, True), (Call_provider q, c)] @ rest \<and>
    list_all local_call rest \<and> Call_release permitId \<in> fst ` set rest \<and>
    loaded k b w2 \<and> within_budget X b P E np \<and> permit_call X b P E np wp = Inr (Permit_allowed permitId, w') \<and>
    fence_held X k E nf wf \<and> aq_allowedSourceIds q = map es_id (b_eligibleSources b)"
proof -
  have ok: "schemas_ok Z" using schemas by (simp add: schemas_ok_def)
  have remote: "\<not> list_all local_call xs" if "(Call_provider q, c) \<in> set xs" for xs
    using that local_calls(14) unfolding list_all_iff by blast
  from run ok show ?thesis
  proof (cases rule: handler_log)
    case plain
    then show ?thesis using remote[OF call] by (simp add: plain_all)
  next
    case (fresh k n0 w0 n1 w1 n2 w2 b more post)
    let ?X = "context_of J Z pf prices policy job k workerId"
    have c: "(Call_provider q, c) \<in> set more" using call fresh(2,5) remote by (auto simp: plain_all)
    from fresh(4) show ?thesis
    proof (cases rule: permit_story_cases)
      case quiet
      then show ?thesis using remote[OF c] by simp
    next
      case (granted np wp inner x rest P permitId w' K)
      have "(Call_provider q, c) \<in> set inner" using c granted(1,3) remote by auto
      then obtain nf wf wa wb p rest2 where inner: "inner = [(Call_fence, nf, wf, True), (Call_attempt, Suc nf, wa, True),
          (Call_begin, Suc (Suc nf), wb, True), (Call_provider (request_of K), p)] @ rest2"
          "list_all local_call rest2" "fence_held ?X (stage_key_of K) E nf wf"
        using granted(2) remote unfolding guarded_call_def by blast
      have q: "q = request_of K" "p = c" using \<open>(Call_provider q, c) \<in> set inner\<close> inner(1,2) remote[of rest2] by auto
      have key: "stage_key_of K = k" using granted(7) loaded_stage[OF fresh(3)] by (simp add: stage_key_of_def)
      let ?rest = "rest2 @ (Call_release permitId, x) # rest @ post"
      have "calls_of s t = [(Call_load, n0, w0, True), (Call_start, n1, w1, True), (Call_load, n2, w2, True), (Call_permit, np, wp, True),
          (Call_fence, nf, wf, True), (Call_attempt, Suc nf, wa, True), (Call_begin, Suc (Suc nf), wb, True), (Call_provider q, c)] @ ?rest"
        using fresh(2) granted(1) inner(1) q by simp
      moreover have "list_all local_call ?rest" using inner(2) granted(3) fresh(5) by (simp add: plain_all)
      moreover have "Call_release permitId \<in> fst ` set ?rest" by simp
      moreover have "fence_held ?X k E nf wf" using inner(3) key by simp
      moreover have "aq_allowedSourceIds q = map es_id (b_eligibleSources b)" using q granted(8) by (simp add: request_of_def)
      ultimately show ?thesis using fresh(1,3) granted(5,6) by - (intro exI conjI, (assumption | rule refl)+)
    qed
  qed
qed


lemma commit_recorded:
  assumes run: "commitRunStage J now k fc key v dc db = Inr (x, db')" and dc: "domain_callback dc"
  shows "\<exists>c\<in>set (stage_domain_commits db'). c_run_stage_id c = k \<and> c_idempotency_key c = key \<and> inputHash J v = Inr (c_output_hash c)"
proof -
  obtain r st created where x: "x = (r, st, created)" by (cases x)
  show ?thesis
  proof (cases created)
    case True
    then have "commitRunStage J now k fc key v dc db = Inr ((r, st, True), db')" using run x by simp
    then obtain s0 h where s0: "find_stage k db = Some s0" "inputHash J v = Inr h"
      and rec: "\<forall>x cs. s_id x = s_id s0 \<and> s_generation x = s_generation s0 \<longrightarrow>
       (\<exists>c. find (commit_of x key) (stage_domain_commits db' @ cs) = Some c \<and> c_output_hash c = h)"
      using commit_record[OF _ dc] by blast
    obtain c where "find (commit_of s0 key) (stage_domain_commits db') = Some c" "c_output_hash c = h"
      using rec[rule_format, of s0 "[]"] by auto
    moreover from this have "c \<in> set (stage_domain_commits db')" "commit_of s0 key c" using find_SomeD by metis+
    ultimately show ?thesis using s0 find_stage_SomeD[OF s0(1)] by (intro bexI[of _ c]) (auto simp: commit_of_def)
  next
    case False
    have no: "commit_output now run0 s0 key v h dc d \<noteq> Inr ((r, st, False), db')" for run0 s0 h d
      by (auto simp: commit_output_def tx_simps)
    show ?thesis using run[unfolded x] False unfolding commitRunStage_def
    proof (elim tx_elims, goal_cases)
      case (1 h y d)
      obtain run0 s0 where y: "y = (run0, s0)" by (cases y)
      have l: "find_stage k db = Some s0" "s_id s0 = k" "d = db" using lock_stageD 1(3) y by blast+
      from 1 y no obtain c where "find (commit_of s0 key) (stage_domain_commits d) = Some c" "c_output_hash c = h" "db' = d"
        by (auto simp: tx_simps split: option.splits)
      then show ?case using 1(2) l by (intro bexI[of _ c]) (auto simp: commit_of_def dest: find_SomeD)
    qed
  qed
qed


lemma reuse_or_commit:
  assumes "reuseOrCommitOutput X b out E s = (Inr v, t)"
  shows "\<exists>n w x db' rest. io_log t = io_log s @ (Call_commit, n, w, True) # rest \<and>
    commitRunStage (hx_js X) (ie_now E n) (s_id (b_stage b)) (hx_fence X) (stage_commit_key (hx_js X) b) (output_json out)
      (commitResearchStageDomainEffects (ie_now E n) (ie_uuids E n) b out) (w_db w) = Inr (x, db')"
  using assms unfolding reuseOrCommitOutput_def
proof (cases rule: ibind_cases)
  case (returns x u)
  let ?rest = "\<lambda>_::research_run_row \<times> research_run_stage_row \<times> bool.
     ibind (advanceResearchPipelineStage (hx_js X) (s_id (b_stage b)) (hx_fence X) out) (\<lambda>advancement.
     ibind (ilift (to_work (inputHash (hx_js X) (output_json out)))) (\<lambda>outputHash.
     iret (stage_result b ((''outputHash'', JStr outputHash) # advancement_fields advancement))))"
  have "emits plain (?rest x)" by (intro io_emits)
  from emitsD[OF this returns(2)] obtain more where "io_log t = io_log u @ more" by blast
  with returns(1) show ?thesis by (auto elim!: await_cases simp: in_db_Inr)
qed simp

definition succeeded_by_commit ::
  "js_env \<Rightarrow> run_stage_job_fence \<Rightarrow> string \<Rightarrow> io_env \<Rightarrow> call_entry list \<Rightarrow> bool" where
  "succeeded_by_commit J fence k E calls \<longleftrightarrow>
     (\<exists>n w b out x db'. (Call_commit, n, w, True) \<in> set calls \<and> s_id (b_stage b) = k \<and>
        commitRunStage J (ie_now E n) k fence (stage_commit_key J b) (output_json out)
          (commitResearchStageDomainEffects (ie_now E n) (ie_uuids E n) b out) (w_db w) = Inr (x, db') \<and>
        (\<exists>c\<in>set (stage_domain_commits db'). c_run_stage_id c = k \<and> c_idempotency_key c = stage_commit_key J b \<and>
           inputHash J (output_json out) = Inr (c_output_hash c)))"

definition tail_of :: "string \<Rightarrow> pipeline_tail \<Rightarrow> bool" where
  "tail_of k ending \<longleftrightarrow> (case ending of Tail_blocked b _ \<Rightarrow> s_id (b_stage b) = k | Tail_commit b _ \<Rightarrow> s_id (b_stage b) = k)"

lemma failures_throw:
  "always_throws (blockForBudget X b vs)" "always_throws (permit_refused X b p n)" "always_throws (provider_refused X K x pe m)"
  "always_throws (output_rejected X K x v m ae)" "always_throws (duplicate_response X K x m)"
  unfolding blockForBudget_def permit_refused_def provider_refused_def output_rejected_def duplicate_response_def Let_def
  by (intro always_throws_rules)+

lemmas failures_yield = failures_throw[THEN yields_basic(3)]

lemma after_call_tail: "yields (tail_of (stage_key_of K)) (after_call X K kr)"
proof -
  have acc: "yields (tail_of (stage_key_of K)) (output_accepted X K x out m)" for x out m
    unfolding output_accepted_def Let_def
    by (intro yields_rules failures_yield) (auto simp: tail_of_def stage_key_of_def)
  show ?thesis unfolding after_call_def
    by (auto split: prod.split ai_result.split sum.split intro!: yields_rules failures_yield acc)
qed

lemma fresh_attempt_tail: "yields (tail_of (s_id (b_stage b))) (fresh_attempt X b)"
proof -
  have granted: "yields (tail_of (s_id (b_stage b))) (call_granted X b built P prices u0 k)" for built P prices u0 k
    unfolding call_granted_def Let_def
    by (intro yields_ibind) (use after_call_tail in \<open>fastforce simp: stage_key_of_def yields_def\<close>)
  show ?thesis unfolding fresh_attempt_def Let_def
    by (intro yields_rules) (auto simp: tail_of_def split: provider_permit_decision.split intro!: failures_yield granted)
qed

lemma stage_body_tail:
  assumes "stage_body X b0 E s = (Inr ending, t)"
  shows "tail_of (s_id (b_stage b0)) ending"
  using assms unfolding stage_body_def
proof (cases rule: ibind_cases)
  case (returns a u)
  from returns(2) show ?thesis
  proof (cases rule: ibind_cases)
    case (returns b v)
    have key: "s_id (b_stage b) = s_id (b_stage b0)" using returns(1) by (auto elim!: load_bundle_cases dest: loaded_stage)
    then show ?thesis using returns(2) yieldsD[OF fresh_attempt_tail, of X b E v ending t]
      by (auto simp: ibind_def ilift_def iret_def tail_of_def split: option.splits sum.splits)
  qed simp
qed simp

lemma emits_any: "emits P m \<Longrightarrow> emits (\<lambda>_. True) m"
  by (auto simp: emits_def list_all_iff) blast

lemma stage_body_emits: "emits (\<lambda>_. True) (stage_body X b)"
proof -
  have granted: "emits (\<lambda>_. True) (call_granted X b built P prices u0 k)" for built P prices u0 k and b :: research_bundle
    unfolding call_granted_def by (intro io_emits permit_free_call[THEN emits_any])
  have fresh: "emits (\<lambda>_. True) (fresh_attempt X b)" for b
    unfolding fresh_attempt_def Let_def
    by (intro io_emits) (auto split: provider_permit_decision.split intro!: granted permit_free_rest(3)[THEN emits_any])
  show ?thesis unfolding stage_body_def
    by (intro io_emits plain_parts(1)[THEN emits_any]) (auto split: option.split intro!: io_emits fresh)
qed

text \<open>
  \<^bold>\<open>C25.\<close> A pipeline job succeeds only through a commit. When the handler returns a value, either the stage had already
  succeeded when the job loaded it, or one of its calls was the commit of that stage, made by the transaction
  \<open>commitRunStage\<close> under the fence of the job and the key of the stage, with the domain effects of the output; and the commit
  record of the stage under that key carries the hash of the output.
\<close>

theorem handler_success_committed:
  assumes run: "createResearchPipelineStageHandler J Z pf prices policy job workerId E s = (Inr v, t)"
  shows "\<exists>k. truthy (j_run_stage_id job) = Some k \<and>
    ((\<exists>n w b rest. calls_of s t = (Call_load, n, w, True) # rest \<and> loaded k b w \<and> s_status (b_stage b) = S_SUCCEEDED) \<or>
     succeeded_by_commit J (pipeline_fence job k workerId) k E (calls_of s t))"
proof -
  obtain runId k stage where k: "truthy (j_run_stage_id job) = Some k"
    and body: "ibind (load_bundle k) (handle_bundle (context_of J Z pf prices policy job k workerId) runId k stage) E s = (Inr v, t)"
    using run by (auto simp: createResearchPipelineStageHandler_def Let_def ithrow_def split: option.splits)
  let ?X = "context_of J Z pf prices policy job k workerId"
  from body obtain b u where l: "load_bundle k E s = (Inr b, u)" and h: "handle_bundle ?X runId k stage b E u = (Inr v, t)"
    by (cases rule: ibind_cases) auto
  obtain w where u: "io_log u = io_log s @ [(Call_load, io_step s, w, True)]" "loaded k b w" using l by (auto elim!: load_bundle_cases)
  show ?thesis
  proof (cases "s_status (b_stage b) = S_SUCCEEDED \<and> s_output_reference (b_stage b) \<noteq> None")
    case True
    then obtain val where "replay_stage ?X b val E u = (Inr v, t)" using h
      by (auto simp: handle_bundle_def ithrow_def split: if_splits)
    from emitsD[OF plain_parts(6) this] obtain rest where "io_log t = io_log u @ rest" by blast
    then have "calls_of s t = (Call_load, io_step s, w, True) # rest" using u(1) by (simp add: calls_of_def)
    then show ?thesis using k u(2) True by blast
  next
    case False
    then have none: "(if s_status (b_stage b) = S_SUCCEEDED then s_output_reference (b_stage b) else None) = None" by auto
    have key: "s_id (b_stage b) = k" by (rule loaded_stage[OF u(2)])
    have "ibind (icatch (stage_body ?X b) (body_failed ?X b)) (run_tail ?X) E u = (Inr v, t)"
      using h unfolding handle_bundle_def none by (auto simp: ithrow_def split: if_splits)
    then obtain ending x where c: "icatch (stage_body ?X b) (body_failed ?X b) E u = (Inr ending, x)"
      and tl: "run_tail ?X ending E x = (Inr v, t)"
      by (cases rule: ibind_cases) auto
    have thrown: "always_throws (body_failed ?X b e :: pipeline_tail io)" for e
      unfolding body_failed_def by (cases e) auto
    have sb: "stage_body ?X b E u = (Inr ending, x)"
      using c by (cases rule: icatch_cases) (use thrown in \<open>auto simp: always_throws_def\<close>)
    obtain b2 out where e: "ending = Tail_commit b2 out"
      using tl failures_throw(1)[unfolded always_throws_def] by (cases ending) (fastforce simp: run_tail_def)+
    then have key2: "s_id (b_stage b2) = k" using stage_body_tail[OF sb] key by (simp add: tail_of_def)
    have "reuseOrCommitOutput ?X b2 out E x = (Inr v, t)" using tl e by (simp add: run_tail_def)
    from reuse_or_commit[OF this] obtain n w2 y db' rest where cm: "io_log t = io_log x @ (Call_commit, n, w2, True) # rest"
      "commitRunStage J (ie_now E n) k (pipeline_fence job k workerId) (stage_commit_key J b2) (output_json out)
        (commitResearchStageDomainEffects (ie_now E n) (ie_uuids E n) b2 out) (w_db w2) = Inr (y, db')"
      by (auto simp: context_of_def key2)
    obtain more where "io_log x = io_log u @ more" using emitsD[OF stage_body_emits sb] by blast
    then have "(Call_commit, n, w2, True) \<in> set (calls_of s t)" using cm(1) u(1) by (simp add: calls_of_def)
    then show ?thesis using k key2 cm(2) commit_recorded[OF cm(2) commitEffects_domain_callback]
      unfolding succeeded_by_commit_def by blast
  qed
qed

section \<open>An example: a stage of a run, worked on alone\<close>

definition demo_worker_job :: job_row where
  "demo_worker_job = \<lparr>j_id = ''j'', j_project_id = Some ''p'', j_run_id = Some ''r1'',
     j_run_stage_id = Some ''question_decomposition'', j_stage = Some ''question_decomposition'', j_job_type = ''t'',
     j_payload = JNull, j_status = J_RUNNING, j_priority = 0, j_idempotency_key = ''k'', j_input_reference = JNull,
     j_input_hash = ''h'', j_output_reference = None, j_output_hash = None, j_attempts = 1, j_max_attempts = 3,
     j_scheduled_at = 0, j_claimed_at = Some 0, j_started_at = Some 0, j_completed_at = None, j_lease_owner = Some ''w'',
     j_lease_expires_at = Some 100, j_heartbeat_at = None, j_timeout_ms = 1000, j_retry_policy = JNull, j_error_class = None,
     j_sanitized_error = None, j_cancellation_requested_at = None, j_parent_job_id = None, j_correlation_id = ''c'',
     j_created_at = 0, j_updated_at = 0, j_version = 1\<rparr>"

definition demo_worker_db :: database where
  "demo_worker_db = demo_db\<lparr>jobs := [demo_worker_job], research_runs := [demo_run], research_run_stages :=
     [(demo_stage intake_analysis S_SUCCEEDED)\<lparr>s_output_reference := Some JNull\<rparr>, demo_stage question_decomposition S_QUEUED]\<rparr>"

definition demo_worker_state :: io_state where
  "demo_worker_state = \<lparr>io_world = \<lparr>w_db = demo_worker_db, w_windows = [], w_permits = [], w_executions = []\<rparr>, io_step = 0, io_log = []\<rparr>"

definition demo_worker_env :: io_env where
  "demo_worker_env = \<lparr>ie_now = (\<lambda>_. 3), ie_clock = (\<lambda>_. 3), ie_uuids = (\<lambda>_. (''u'', ''v'')), ie_others = (\<lambda>_ w. w), ie_fault = (\<lambda>_. None),
     ie_signal = (\<lambda>_. None), ie_message = (\<lambda>_. ''e'')\<rparr>"

definition demo_intake :: intake_out where
  "demo_intake = \<lparr>no_refinedQuestion = ''q'', no_ambiguousTerms = [], no_exclusions = [], no_freshnessRequirement = ''f'',
     no_expectedSources = [], no_completionCriteria = [], no_risks = []\<rparr>"

definition demo_schemas :: stage_schemas where
  "demo_schemas = \<lparr>parse_output = (\<lambda>stage v. if stage = intake_analysis then Some (Intake_output demo_intake) else Some (Questions_output [])),
     parse_input = (\<lambda>stage v. if is_record v then Some v else None)\<rparr>"

definition demo_ai :: ai_provider where
  "demo_ai = \<lparr>ap_id = ''mock-ai'', ap_model = ''deterministic-fixture-v1'', ap_run = (\<lambda>_ _. Inr (Ai_success (JObj [])
     \<lparr>am_durationMs = 1, am_requestId = None, am_providerResponseId = None, am_usage = None\<rparr>))\<rparr>"

definition demo_permits :: provider_limit_policy where
  "demo_permits = \<lparr>lp_requestLimit = js_int 5, lp_windowSeconds = js_int 60, lp_concurrencyLimit = js_int 1, lp_permitTtlMs = js_int 1000\<rparr>"

definition demo_handler :: "jsv io" where
  "demo_handler = createResearchPipelineStageHandler plain_env demo_schemas (\<lambda>_. Inr demo_ai) (Inr BUILT_IN_PRICES) demo_permits
     demo_worker_job ''w''"

fun is_provider_call :: "worker_call \<Rightarrow> bool" where
  "is_provider_call (Call_provider q) = True"
| "is_provider_call _ = False"

fun is_permit_call :: "worker_call \<Rightarrow> bool" where
  "is_permit_call Call_permit = True"
| "is_permit_call _ = False"

lemma demo_handler_run:
  obtains v t q c n w where "demo_handler demo_worker_env demo_worker_state = (Inr v, t)"
    "(Call_provider q, c) \<in> set (calls_of demo_worker_state t)" "(Call_permit, n, w, True) \<in> set (calls_of demo_worker_state t)"
proof -
  have "case demo_handler demo_worker_env demo_worker_state of (Inl _, _) \<Rightarrow> False
    | (Inr v, t) \<Rightarrow> list_ex (\<lambda>x. is_provider_call (fst x)) (io_log t) \<and>
        list_ex (\<lambda>x. is_permit_call (fst x) \<and> snd (snd (snd x))) (io_log t)"
    by code_simp
  moreover obtain r t where r: "demo_handler demo_worker_env demo_worker_state = (r, t)" by fastforce
  ultimately obtain v x y where v: "r = Inr v" "x \<in> set (io_log t)" "is_provider_call (fst x)"
      "y \<in> set (io_log t)" "is_permit_call (fst y)" "snd (snd (snd y))"
    unfolding list_ex_iff by (cases r) auto
  obtain q c where x: "x = (Call_provider q, c)" using v(3) by (cases x rule: prod.exhaust) (auto elim: is_provider_call.elims)
  obtain n w where y: "y = (Call_permit, n, w, True)"
    using v(5,6) by (cases y rule: prod_cases4) (auto elim: is_permit_call.elims)
  show thesis
    by (rule that[OF r[unfolded v(1)]]) (use v(2,4) x y in \<open>simp_all add: calls_of_def demo_worker_state_def\<close>)
qed

lemma demo_schemas_records: "\<forall>stage v p. parse_input demo_schemas stage v = Some p \<longrightarrow> is_record p"
  by (simp add: demo_schemas_def)

theorem provider_call_guarded_witness:
  "\<exists>t q c permitId pre rest. calls_of demo_worker_state t = pre @ rest \<and> (Call_provider q, c) \<in> set pre \<and>
     list_all local_call rest \<and> Call_release permitId \<in> fst ` set rest"
proof -
  obtain v t q c n w where d: "demo_handler demo_worker_env demo_worker_state = (Inr v, t)"
    "(Call_provider q, c) \<in> set (calls_of demo_worker_state t)" by (rule demo_handler_run)
  from provider_call_guarded[OF d(1)[unfolded demo_handler_def] demo_schemas_records d(2)]
  obtain n0 w0 n1 w1 n2 w2 np wp nf wf na wa nb wb permitId rest where
    r: "calls_of demo_worker_state t =
      [(Call_load, n0, w0, True), (Call_start, n1, w1, True), (Call_load, n2, w2, True), (Call_permit, np, wp, True),
       (Call_fence, nf, wf, True), (Call_attempt, na, wa, True), (Call_begin, nb, wb, True), (Call_provider q, c)] @ rest"
      "list_all local_call rest" "Call_release permitId \<in> fst ` set rest" by (elim exE conjE)
  have "(Call_provider q, c) \<in> set [(Call_load, n0, w0, True), (Call_start, n1, w1, True), (Call_load, n2, w2, True), (Call_permit, np, wp, True),
       (Call_fence, nf, wf, True), (Call_attempt, na, wa, True), (Call_begin, nb, wb, True), (Call_provider q, c)]"
    by (simp only: list.set insert_iff simp_thms)
  then show ?thesis by - (intro exI conjI, rule r(1), assumption, rule r(2), rule r(3))
qed


theorem handler_success_committed_witness:
  "\<exists>t. (\<exists>n w b rest. calls_of demo_worker_state t = (Call_load, n, w, True) # rest \<and>
        loaded ''question_decomposition'' b w \<and> s_status (b_stage b) = S_SUCCEEDED) \<or>
     succeeded_by_commit plain_env (pipeline_fence demo_worker_job ''question_decomposition'' ''w'') ''question_decomposition''
       demo_worker_env (calls_of demo_worker_state t)"
proof -
  obtain v t q c n w where d: "demo_handler demo_worker_env demo_worker_state = (Inr v, t)"
    "(Call_provider q, c) \<in> set (calls_of demo_worker_state t)" by (rule demo_handler_run)
  have key: "truthy (j_run_stage_id demo_worker_job) = Some ''question_decomposition''"
    by (simp add: demo_worker_job_def truthy_def)
  from handler_success_committed[OF d(1)[unfolded demo_handler_def], unfolded key option.inject]
  show ?thesis by (elim exE conjE) (rule exI, simp only:)
qed

end
