(* ===== verification/Durable_Worker.thy ===== *)
theory Durable_Worker
  imports Job_Properties Research_Bundle
begin

text \<open>
  The worker process, \<open>worker/durable-worker.ts\<close> and \<open>worker/handlers.ts\<close>: its options, the polling loop that recovers and
  claims jobs, and the life of an execution from \<open>startJob\<close> to the call that settles the job, with its timers. The process
  is a step relation: one step per continuation between two \<open>await\<close>s, or per transaction. Handlers are not run here; any
  outcome of one is a step, and so is anything other processes do to the database through the queue. Logging is left out.
\<close>

section \<open>The registry of handlers\<close>

text \<open>The registered job types, in order; the functions are looked up elsewhere.\<close>

definition registerJobHandler :: "string \<Rightarrow> string list \<Rightarrow> app_error + string list" where
  "registerJobHandler jobType handlers =
     (let normalized = js_trim jobType in
      if normalized = [] then Inl (GenericError ''jobType must not be blank.'')
      else if normalized \<in> set handlers then Inl (GenericError ''A handler is already registered'')
      else Inr (handlers @ [normalized]))"

section \<open>Options\<close>

definition classifyJobExecutionError :: "worker_error \<Rightarrow> job_error_class" where
  "classifyJobExecutionError e =
     (case e of
        WE_Job _ c _ \<Rightarrow> c
      | WE_App (AppError _ code) \<Rightarrow>
          if code \<in> set [''INVALID_JOB_OUTPUT'', ''JOB_OUTPUT_TOO_LARGE''] then NON_RETRYABLE_VALIDATION else EC_UNKNOWN
      | _ \<Rightarrow> EC_UNKNOWN)"

record worker_options =
  wo_workerId :: "string option"
  wo_concurrency :: jsv
  wo_pollIntervalMs :: jsv
  wo_leaseDurationMs :: jsv
  wo_heartbeatIntervalMs :: jsv
  wo_recoveryBatchSize :: jsv
  wo_shutdownGraceMs :: jsv
  wo_jobTypeConcurrency :: "(string \<times> jsv) list"
  wo_runIds :: "string list option"

definition integerOption :: "jsv \<Rightarrow> string \<Rightarrow> int \<Rightarrow> int \<Rightarrow> app_error + int" where
  "integerOption v name minimum maximum =
     (case safe_integer v of
        None \<Rightarrow> Inl (GenericError name)
      | Some n \<Rightarrow> if n < minimum \<or> n > maximum then Inl (GenericError name) else Inr n)"

definition runIdOption :: "string list option \<Rightarrow> app_error + string list option" where
  "runIdOption ids =
     (case ids of
        None \<Rightarrow> Inr None
      | Some vs \<Rightarrow>
          if length vs > 1000 then Inl (GenericError ''runIds must contain at most 1000 entries.'')
          else
            (let runIds = map js_trim vs in
             if list_ex (\<lambda>v. v = [] \<or> length v > 500) runIds then Inl (GenericError ''Each runId must contain 1-500 characters.'')
             else if \<not> distinct runIds then Inl (GenericError ''runIds must not contain duplicates.'')
             else Inr (Some runIds)))"

text \<open>The fields of the class that the constructor fixes; \<open>wc_message\<close> is the message of an error.\<close>

record worker_config =
  wc_handlers :: "string list"
  wc_workerId :: string
  wc_concurrency :: int
  wc_pollIntervalMs :: int
  wc_leaseDurationMs :: int
  wc_heartbeatIntervalMs :: int
  wc_recoveryBatchSize :: int
  wc_shutdownGraceMs :: int
  wc_jobTypeConcurrency :: "(string \<times> int) list"
  wc_runIds :: "string list option"

text \<open>The loop over \<open>jobTypeConcurrency\<close>; the newest entry of a type comes first.\<close>

fun job_type_limits :: "string list \<Rightarrow> int \<Rightarrow> (string \<times> jsv) list \<Rightarrow> (string \<times> int) list \<Rightarrow> app_error + (string \<times> int) list" where
  "job_type_limits handlers concurrency [] acc = Inr acc"
| "job_type_limits handlers concurrency ((rawJobType, rawLimit) # rest) acc =
     (let jobType = js_trim rawJobType in
      if jobType = [] \<or> jobType \<notin> set handlers then Inl (GenericError ''jobTypeConcurrency contains an unregistered job type'')
      else
        ebind (integerOption rawLimit (jobType @ '' concurrency'') 1 100) (\<lambda>limit.
        job_type_limits handlers concurrency rest ((jobType, min limit concurrency) # acc)))"

text \<open>The constructor; \<open>defaultId\<close> is the identifier drawn for a worker without a name.\<close>

definition createWorker :: "string list \<Rightarrow> string \<Rightarrow> worker_options \<Rightarrow> app_error + worker_config" where
  "createWorker handlers defaultId W =
     ebind (integerOption (js_default (wo_concurrency W) (js_int 2)) ''concurrency'' 1 100) (\<lambda>concurrency.
     ebind (integerOption (js_default (wo_pollIntervalMs W) (js_int 1000)) ''pollIntervalMs'' 10 60000) (\<lambda>pollIntervalMs.
     ebind (integerOption (js_default (wo_leaseDurationMs W) (js_int 30000)) ''leaseDurationMs'' 1000 3600000) (\<lambda>leaseDurationMs.
     ebind (integerOption (js_default (wo_heartbeatIntervalMs W) (js_int 10000)) ''heartbeatIntervalMs'' 100 1200000)
       (\<lambda>heartbeatIntervalMs.
     if heartbeatIntervalMs \<ge> leaseDurationMs
     then Inl (GenericError ''heartbeatIntervalMs must be shorter than leaseDurationMs.'')
     else
       ebind (integerOption (js_default (wo_recoveryBatchSize W) (js_int 100)) ''recoveryBatchSize'' 1 1000) (\<lambda>recoveryBatchSize.
       ebind (integerOption (js_default (wo_shutdownGraceMs W) (js_int 30000)) ''shutdownGraceMs'' 0 3600000) (\<lambda>shutdownGraceMs.
       ebind (job_type_limits handlers concurrency (wo_jobTypeConcurrency W) []) (\<lambda>limits.
       ebind (runIdOption (wo_runIds W)) (\<lambda>runIds.
       Inr \<lparr>wc_handlers = handlers,
            wc_workerId = (case truthy (map_option js_trim (wo_workerId W)) of Some k \<Rightarrow> k | None \<Rightarrow> defaultId),
            wc_concurrency = concurrency, wc_pollIntervalMs = pollIntervalMs, wc_leaseDurationMs = leaseDurationMs,
            wc_heartbeatIntervalMs = heartbeatIntervalMs, wc_recoveryBatchSize = recoveryBatchSize,
            wc_shutdownGraceMs = shutdownGraceMs, wc_jobTypeConcurrency = limits, wc_runIds = runIds\<rparr>))))))))"

definition configuredJobTypeConcurrency :: "worker_config \<Rightarrow> string \<Rightarrow> int" where
  "configuredJobTypeConcurrency C jobType =
     (case map_of (wc_jobTypeConcurrency C) jobType of None \<Rightarrow> wc_concurrency C | Some n \<Rightarrow> n)"

section \<open>An execution\<close>

datatype settle_action =
    Act_acknowledge
  | Act_release
  | Act_complete jsv
  | Act_fail job_error_class string "int option"

text \<open>
  Where \<open>execute\<close> stands: \<open>Raced r\<close> when \<open>Promise.race\<close> has settled with \<open>r\<close>, \<open>Acting caught a\<close> while the call that settles the
  job is awaited, in the \<open>try\<close> or in the \<open>catch\<close> around the race, \<open>Outer\<close> in the outer \<open>catch\<close>.
\<close>

datatype exec_phase =
    Starting
  | No_handler
  | Working
  | Raced "worker_error + jsv"
  | Acting bool settle_action
  | Caught worker_error
  | Outer
  | Acknowledging
  | Finished

text \<open>\<open>ActiveExecution\<close> with the local variables of \<open>execute\<close>; \<open>x_signal\<close> is the reason of the abort, \<open>x_token\<close> the identity of the object.\<close>

record execution =
  x_token :: nat
  x_job :: job_row
  x_signal :: "worker_error option"
  x_shutdownRequested :: bool
  x_heartbeatBusy :: bool
  x_cancellationRequested :: bool
  x_leaseLost :: bool
  x_timedOut :: bool
  x_phase :: exec_phase

definition new_execution :: "nat \<Rightarrow> job_row \<Rightarrow> execution" where
  "new_execution token job =
     \<lparr>x_token = token, x_job = job, x_signal = None, x_shutdownRequested = False, x_heartbeatBusy = False,
      x_cancellationRequested = False, x_leaseLost = False, x_timedOut = False, x_phase = Starting\<rparr>"

text \<open>\<open>controller.abort(reason)\<close>: only the first reason counts.\<close>

definition abort_with :: "worker_error \<Rightarrow> execution \<Rightarrow> execution" where
  "abort_with reason x = x\<lparr>x_signal := (case x_signal x of None \<Rightarrow> Some reason | Some r \<Rightarrow> Some r)\<rparr>"

text \<open>The timers run until the \<open>finally\<close> of the inner \<open>try\<close>.\<close>

definition timers_on :: "execution \<Rightarrow> bool" where
  "timers_on x \<longleftrightarrow> (case x_phase x of Working \<Rightarrow> True | Raced _ \<Rightarrow> True | Acting _ _ \<Rightarrow> True | Caught _ \<Rightarrow> True | _ \<Rightarrow> False)"

definition timeout_fires :: "execution \<Rightarrow> execution" where
  "timeout_fires x = abort_with (WE_Job ''Job execution timed out.'' RETRYABLE_TIMEOUT None) (x\<lparr>x_timedOut := True\<rparr>)"

definition heartbeat_due :: "execution \<Rightarrow> bool" where
  "heartbeat_due x \<longleftrightarrow> timers_on x \<and> \<not> x_heartbeatBusy x \<and> x_signal x = None"

definition heartbeat_sent :: "execution \<Rightarrow> execution" where
  "heartbeat_sent x = x\<lparr>x_heartbeatBusy := True\<rparr>"

definition heartbeat_answered :: "app_error + job_row \<Rightarrow> execution \<Rightarrow> execution" where
  "heartbeat_answered r x =
     (case r of
        Inr updated \<Rightarrow>
          if j_status updated = J_CANCELLATION_REQUESTED
          then abort_with (WE_Job ''Job cancellation was requested.'' EC_CANCELLED None) (x\<lparr>x_cancellationRequested := True\<rparr>)
          else x
      | Inl _ \<Rightarrow> abort_with (WE_App (GenericError ''Job lease was lost.'')) (x\<lparr>x_leaseLost := True\<rparr>))\<lparr>x_heartbeatBusy := False\<rparr>"

definition shut_down :: "execution \<Rightarrow> execution" where
  "shut_down x = abort_with (WE_App (GenericError ''Worker is shutting down.'')) (x\<lparr>x_shutdownRequested := True\<rparr>)"

text \<open>After the race: the branch of the \<open>try\<close>, and of the \<open>catch\<close>; \<open>None\<close> is a \<open>return\<close> without a call.\<close>

definition after_output :: "execution \<Rightarrow> jsv \<Rightarrow> settle_action" where
  "after_output x output =
     (if x_cancellationRequested x then Act_acknowledge
      else if x_shutdownRequested x then Act_release
      else Act_complete (js_default output JNull))"

definition error_message :: "(app_error \<Rightarrow> string) \<Rightarrow> worker_error \<Rightarrow> string" where
  "error_message msg e = (case e of WE_App a \<Rightarrow> msg a | WE_Blocked _ m _ \<Rightarrow> m | WE_Job m _ _ \<Rightarrow> m)"

definition after_error :: "(app_error \<Rightarrow> string) \<Rightarrow> execution \<Rightarrow> worker_error \<Rightarrow> settle_action option" where
  "after_error msg x e =
     (if x_leaseLost x then None
      else if x_shutdownRequested x then Some Act_release
      else if x_cancellationRequested x then Some Act_acknowledge
      else Some (Act_fail (if x_timedOut x then RETRYABLE_TIMEOUT else classifyJobExecutionError e)
             (sanitizeJobError (error_message msg e)) (case e of WE_Job _ _ ms \<Rightarrow> ms | _ \<Rightarrow> None)))"

definition delay_argument :: "int option \<Rightarrow> jsv" where
  "delay_argument ms = (case ms of None \<Rightarrow> JUndefined | Some n \<Rightarrow> js_int n)"

definition perform_action ::
  "js_env \<Rightarrow> worker_config \<Rightarrow> int \<Rightarrow> jsv \<Rightarrow> string \<Rightarrow> settle_action \<Rightarrow> job_row db_tx" where
  "perform_action J C now random jobId a =
     (case a of
        Act_acknowledge \<Rightarrow> acknowledgeJobCancellation now jobId (wc_workerId C)
      | Act_release \<Rightarrow> releaseJobLease now jobId (wc_workerId C)
      | Act_complete output \<Rightarrow> completeJob J now jobId (wc_workerId C) output
      | Act_fail c message ms \<Rightarrow> failJob now jobId (wc_workerId C) c message (delay_argument ms) random)"

text \<open>
  The next continuation or transaction of an execution that is not waiting for its handler. The environment of a step is the
  time, the random number, and the failure of the connection, if there is one.
\<close>

record step_env =
  se_now :: int
  se_random :: jsv
  se_fault :: "app_error option"

definition try_tx :: "step_env \<Rightarrow> 'a db_tx \<Rightarrow> database \<Rightarrow> (app_error + 'a) \<times> database" where
  "try_tx V m db = (case se_fault V of Some e \<Rightarrow> (Inl e, db) | None \<Rightarrow> withTransaction m db)"

definition advance ::
  "js_env \<Rightarrow> (app_error \<Rightarrow> string) \<Rightarrow> worker_config \<Rightarrow> step_env \<Rightarrow> database \<Rightarrow> execution \<Rightarrow> execution \<times> database" where
  "advance J msg C V db x =
     (let job = x_job x; goto = (\<lambda>p. x\<lparr>x_phase := p\<rparr>) in
      case x_phase x of
        Starting \<Rightarrow>
          (case try_tx V (startJob (se_now V) (j_id job) (wc_workerId C) (Some (j_version job))) db of
             (Inl e, db') \<Rightarrow> (goto Outer, db')
           | (Inr _, db') \<Rightarrow> (goto (if j_job_type job \<in> set (wc_handlers C) then Working else No_handler), db'))
      | No_handler \<Rightarrow>
          (case try_tx V (perform_action J C (se_now V) (se_random V) (j_id job)
                  (Act_fail NON_RETRYABLE_VALIDATION (''No handler is registered for '' @ j_job_type job @ ''.'') None)) db of
             (Inl e, db') \<Rightarrow> (goto Outer, db')
           | (Inr _, db') \<Rightarrow> (goto Finished, db'))
      | Working \<Rightarrow> (case x_signal x of None \<Rightarrow> (x, db) | Some reason \<Rightarrow> (goto (Raced (Inl reason)), db))
      | Raced (Inr output) \<Rightarrow> (goto (Acting False (after_output x output)), db)
      | Raced (Inl e) \<Rightarrow> (goto (Caught e), db)
      | Acting caught a \<Rightarrow>
          (case try_tx V (perform_action J C (se_now V) (se_random V) (j_id job) a) db of
             (Inl e, db') \<Rightarrow> (goto (if caught then Outer else Caught (WE_App e)), db')
           | (Inr _, db') \<Rightarrow> (goto Finished, db'))
      | Caught e \<Rightarrow>
          (case after_error msg x e of None \<Rightarrow> (goto Finished, db) | Some a \<Rightarrow> (goto (Acting True a), db))
      | Outer \<Rightarrow>
          (if x_leaseLost x then (goto Finished, db)
           else
             (case try_tx V (getJob (j_id job)) db of
                (Inl e, db') \<Rightarrow> (goto Finished, db')
              | (Inr current, db') \<Rightarrow>
                  (goto (if j_status current = J_CANCELLATION_REQUESTED \<and> j_lease_owner current = Some (wc_workerId C)
                         then Acknowledging else Finished), db')))
      | Acknowledging \<Rightarrow>
          (case try_tx V (acknowledgeJobCancellation (se_now V) (j_id job) (wc_workerId C)) db of
             (_, db') \<Rightarrow> (goto Finished, db'))
      | Finished \<Rightarrow> (x, db))"

section \<open>The process\<close>

text \<open>Where \<open>pollOnce\<close> stands.\<close>

datatype poll_phase =
    Idle
  | Recovered
  | Claiming int int
  | Asking int int "string list"
  | Handed int int job_row
  | Releasing job_row

text \<open>
  \<open>ws_active\<close> is the map \<open>active\<close>, from the id of a job to its execution; \<open>ws_running\<close> are the executions whose promise has not
  settled, whether the map still leads to them or not.
\<close>

record worker_state =
  ws_db :: database
  ws_active :: "(string \<times> job_row \<times> nat) list"
  ws_running :: "execution list"
  ws_stopping :: bool
  ws_poll :: poll_phase
  ws_fresh :: nat

definition initial_worker :: "database \<Rightarrow> worker_state" where
  "initial_worker db = \<lparr>ws_db = db, ws_active = [], ws_running = [], ws_stopping = False, ws_poll = Idle, ws_fresh = 0\<rparr>"

definition active_of_type :: "string \<Rightarrow> worker_state \<Rightarrow> int" where
  "active_of_type t s = int (length (filter (\<lambda>(_, job, _). j_job_type job = t) (ws_active s)))"

definition eligible_job_types :: "worker_config \<Rightarrow> worker_state \<Rightarrow> string list" where
  "eligible_job_types C s = filter (\<lambda>t. active_of_type t s < configuredJobTypeConcurrency C t) (wc_handlers C)"

definition set_entry :: "string \<Rightarrow> 'v \<Rightarrow> (string \<times> 'v) list \<Rightarrow> (string \<times> 'v) list" where
  "set_entry k v m = (if k \<in> fst ` set m then map (\<lambda>(l, w). if l = k then (l, v) else (l, w)) m else m @ [(k, v)])"

text \<open>The continuations of \<open>pollOnce\<close> that call nothing.\<close>

definition poll_continues :: "worker_config \<Rightarrow> worker_state \<Rightarrow> worker_state" where
  "poll_continues C s =
     (case ws_poll s of
        Recovered \<Rightarrow>
          (let capacity = wc_concurrency C - int (length (ws_active s)) in
           if ws_stopping s \<or> wc_handlers C = [] \<or> capacity \<le> 0 then s\<lparr>ws_poll := Idle\<rparr>
           else s\<lparr>ws_poll := Claiming 0 capacity\<rparr>)
      | Claiming claimed capacity \<Rightarrow>
          (let types = eligible_job_types C s in
           if claimed < capacity \<and> types \<noteq> [] then s\<lparr>ws_poll := Asking claimed capacity types\<rparr> else s\<lparr>ws_poll := Idle\<rparr>)
      | Handed claimed capacity job \<Rightarrow>
          (if ws_stopping s then s\<lparr>ws_poll := Releasing job\<rparr>
           else s\<lparr>ws_active := set_entry (j_id job) (job, ws_fresh s) (ws_active s),
                  ws_running := ws_running s @ [new_execution (ws_fresh s) job], ws_fresh := Suc (ws_fresh s),
                  ws_poll := Claiming (claimed + 1) capacity\<rparr>)
      | _ \<Rightarrow> s)"

definition answer_claim :: "int \<Rightarrow> int \<Rightarrow> app_error + job_row list \<Rightarrow> poll_phase" where
  "answer_claim claimed capacity r = (case r of Inr (job # _) \<Rightarrow> Handed claimed capacity job | _ \<Rightarrow> Idle)"

definition with_execution :: "execution \<Rightarrow> execution list \<Rightarrow> execution list" where
  "with_execution x xs = map (\<lambda>y. if x_token y = x_token x then x else y) xs"

inductive worker_step :: "js_env \<Rightarrow> (app_error \<Rightarrow> string) \<Rightarrow> worker_config \<Rightarrow> worker_state \<Rightarrow> worker_state \<Rightarrow> bool"
  for J msg C where
  others: "queue_step\<^sup>*\<^sup>* (ws_db s) db' \<Longrightarrow> worker_step J msg C s (s\<lparr>ws_db := db'\<rparr>)"
| recovers: "ws_poll s = Idle \<Longrightarrow> \<not> ws_stopping s \<Longrightarrow>
    recoverExpiredJobs clock random (js_int (wc_recoveryBatchSize C)) (wc_runIds C) (ws_db s) = (r, db') \<Longrightarrow>
    worker_step J msg C s (s\<lparr>ws_db := db', ws_poll := (case r of Inl _ \<Rightarrow> Idle | Inr _ \<Rightarrow> Recovered)\<rparr>)"
| continues: "worker_step J msg C s (poll_continues C s)"
| claims: "ws_poll s = Asking claimed capacity types \<Longrightarrow>
    try_tx V (claimJobs (se_now V) (wc_workerId C) (js_int 1) (js_int (wc_leaseDurationMs C)) (Some types) (wc_runIds C)) (ws_db s) =
      (r, db') \<Longrightarrow>
    worker_step J msg C s (s\<lparr>ws_db := db', ws_poll := answer_claim claimed capacity r\<rparr>)"
| releases: "ws_poll s = Releasing job \<Longrightarrow>
    try_tx V (releaseJobLease (se_now V) (j_id job) (wc_workerId C)) (ws_db s) = (r, db') \<Longrightarrow>
    worker_step J msg C s (s\<lparr>ws_db := db', ws_poll := Idle\<rparr>)"
| advances: "x \<in> set (ws_running s) \<Longrightarrow> advance J msg C V (ws_db s) x = (x', db') \<Longrightarrow>
    worker_step J msg C s (s\<lparr>ws_db := db', ws_running := with_execution x' (ws_running s)\<rparr>)"
| handles: "x \<in> set (ws_running s) \<Longrightarrow> x_phase x = Working \<Longrightarrow> x_signal x = None \<Longrightarrow>
    worker_step J msg C s (s\<lparr>ws_running := with_execution (x\<lparr>x_phase := Raced r\<rparr>) (ws_running s)\<rparr>)"
| times_out: "x \<in> set (ws_running s) \<Longrightarrow> timers_on x \<Longrightarrow>
    worker_step J msg C s (s\<lparr>ws_running := with_execution (timeout_fires x) (ws_running s)\<rparr>)"
| beats: "x \<in> set (ws_running s) \<Longrightarrow> heartbeat_due x \<Longrightarrow>
    worker_step J msg C s (s\<lparr>ws_running := with_execution (heartbeat_sent x) (ws_running s)\<rparr>)"
| answered: "x \<in> set (ws_running s) \<Longrightarrow> x_heartbeatBusy x \<Longrightarrow>
    try_tx V (heartbeatJob (se_now V) (j_id (x_job x)) (wc_workerId C) (js_int (wc_leaseDurationMs C))) (ws_db s) = (r, db') \<Longrightarrow>
    worker_step J msg C s (s\<lparr>ws_db := db', ws_running := with_execution (heartbeat_answered r x) (ws_running s)\<rparr>)"
| stops: "worker_step J msg C s (s\<lparr>ws_stopping := True\<rparr>)"
| aborts: "ws_stopping s \<Longrightarrow> ws_poll s = Idle \<Longrightarrow>
    worker_step J msg C s
      (s\<lparr>ws_running := map (\<lambda>x. if x_token x \<in> (\<lambda>(_, _, k). k) ` set (ws_active s) then shut_down x else x) (ws_running s)\<rparr>)"
| settles: "x \<in> set (ws_running s) \<Longrightarrow> x_phase x = Finished \<Longrightarrow>
    worker_step J msg C s
      (s\<lparr>ws_running := filter (\<lambda>y. x_token y \<noteq> x_token x) (ws_running s),
         ws_active := filter (\<lambda>(k, _). k \<noteq> j_id (x_job x)) (ws_active s)\<rparr>)"

end
