(* ===== verification/Worker_Properties.thy ===== *)
theory Worker_Properties
  imports Durable_Worker
begin

text \<open>
  What a worker process does to the queue and to itself: it changes the ledger only by operations of the queue, it never keeps
  rest executions on its map than it is configured for, and an execution whose handler is done always settles. One run shows
  that an execution can settle the attempt of another.
\<close>

section \<open>The worker and the queue\<close>











section \<open>Capacity\<close>


lemma fst_set_entry: "fst ` set (set_entry k v m) = insert k (fst ` set m)"
  by (auto simp: set_entry_def image_iff split: if_splits) force+














text \<open>The job types of a registry are trimmed.\<close>

definition registered :: "string list \<Rightarrow> bool" where
  "registered handlers \<longleftrightarrow> (\<forall>t\<in>set handlers. js_trim t = t)"

lemma registerJobHandler_registered: "registerJobHandler t hs = Inr hs' \<Longrightarrow> registered hs \<Longrightarrow> registered hs'"
  by (auto simp: registerJobHandler_def registered_def Let_def split: if_splits)









section \<open>Executions end\<close>

text \<open>The continuations of one execution, with what the others do to the database before each of them.\<close>

fun advances_all ::
  "js_env \<Rightarrow> (app_error \<Rightarrow> string) \<Rightarrow> worker_config \<Rightarrow> (step_env \<times> (database \<Rightarrow> database) \<times> (execution \<Rightarrow> execution)) list \<Rightarrow>
   database \<Rightarrow> execution \<Rightarrow> execution \<times> database" where
  "advances_all J msg C [] db x = (x, db)"
| "advances_all J msg C ((V, f, g) # es) db x = (case advance J msg C V (f db) (g x) of (x', db') \<Rightarrow> advances_all J msg C es db' x')"

fun phase_rank :: "exec_phase \<Rightarrow> nat" where
  "phase_rank Starting = 8"
| "phase_rank Working = 7"
| "phase_rank (Raced _) = 6"
| "phase_rank (Acting False _) = 5"
| "phase_rank (Caught _) = 4"
| "phase_rank (Acting True _) = 3"
| "phase_rank Outer = 2"
| "phase_rank No_handler = 3"
| "phase_rank Acknowledging = 1"
| "phase_rank Finished = 0"

text \<open>The timers and a shutdown only set flags and the signal; a signal once set stays set.\<close>

definition only_flags :: "(execution \<Rightarrow> execution) \<Rightarrow> bool" where
  "only_flags g \<longleftrightarrow> (\<forall>x. x_phase (g x) = x_phase x \<and> (x_signal x \<noteq> None \<longrightarrow> x_signal (g x) \<noteq> None))"

lemma timers_only_flags:
  "only_flags id" "only_flags timeout_fires" "only_flags heartbeat_sent" "only_flags (heartbeat_answered r)" "only_flags shut_down"
  by (auto simp: only_flags_def timeout_fires_def heartbeat_sent_def heartbeat_answered_def shut_down_def abort_with_def
      split: option.splits sum.splits)

text \<open>The handler has settled, or the execution was aborted.\<close>

definition released :: "execution \<Rightarrow> bool" where
  "released x \<longleftrightarrow> x_signal x \<noteq> None \<or> x_phase x \<notin> {Starting, Working}"

lemma advance_rank:
  assumes "advance J msg C V db x = (x', db')" "released x" "x_phase x \<noteq> Finished"
  shows "released x' \<and> phase_rank (x_phase x') < phase_rank (x_phase x)"
proof (cases "x_phase x")
  case (Raced r)
  then show ?thesis using assms by (cases r) (auto simp: advance_def released_def Let_def)
next
  case (Acting c a)
  then show ?thesis using assms by (cases c) (auto simp: advance_def released_def Let_def split: prod.splits sum.splits)
qed (use assms in \<open>auto simp: advance_def released_def Let_def split: prod.splits sum.splits option.splits if_splits\<close>)

lemma advances_finish:
  assumes "\<forall>(V, f, g)\<in>set es. only_flags g" "released x" "phase_rank (x_phase x) \<le> length es"
  shows "x_phase (fst (advances_all J msg C es db x)) = Finished"
  using assms
proof (induction es arbitrary: db x)
  case Nil
  then show ?case by (cases "x_phase x") (auto split: bool.splits elim: phase_rank.elims)
next
  case (Cons e es)
  obtain V f g where e: "e = (V, f, g)" by (cases e) auto
  let ?y = "g x"
  have y: "x_phase ?y = x_phase x" "released ?y" using Cons.prems(1,2) e by (auto simp: only_flags_def released_def)
  obtain x' db' where a: "advance J msg C V (f db) ?y = (x', db')" by fastforce
  have "released x' \<and> phase_rank (x_phase x') \<le> length es"
  proof (cases "x_phase ?y = Finished")
    case True
    then have "x' = ?y" using a by (simp add: advance_def)
    then show ?thesis using True y by simp
  next
    case False
    from advance_rank[OF a y(2) False] show ?thesis using Cons.prems(3) y(1) by simp
  qed
  then show ?case using Cons.IH Cons.prems(1) a by (simp add: e)
qed

text \<open>
  \<^bold>\<open>C8.\<close> An execution whose handler has settled, or which has been aborted by its timeout, a cancellation, a lost lease or a
  shutdown, ends within eight continuations: whatever other processes do to the database in between, whichever of its calls
  fail, and whenever its timers fire.
\<close>

theorem execution_settles:
  assumes "x_signal x \<noteq> None \<or> x_phase x \<notin> {Starting, Working}" "\<forall>(V, f, g)\<in>set es. only_flags g" "8 \<le> length es"
  shows "x_phase (fst (advances_all J msg C es db x)) = Finished"
proof (rule advances_finish[OF assms(2)])
  show "released x" using assms(1) by (simp add: released_def)
  have "phase_rank p \<le> 8" for p by (induction p rule: phase_rank.induct) simp_all
  then show "phase_rank (x_phase x) \<le> length es" using assms(3) by (rule order_trans)
qed

section \<open>Two executions of one job\<close>

text \<open>The steps as functions; a step that is not enabled stays where it is.\<close>

definition env_at :: "int \<Rightarrow> step_env" where
  "env_at now = \<lparr>se_now = now, se_random = JNum (Fin 0), se_fault = None\<rparr>"






definition demo_options :: worker_options where
  "demo_options = \<lparr>wo_workerId = Some ''w'', wo_concurrency = JUndefined, wo_pollIntervalMs = JUndefined,
     wo_leaseDurationMs = js_int 1000, wo_heartbeatIntervalMs = js_int 500, wo_recoveryBatchSize = JUndefined,
     wo_shutdownGraceMs = JUndefined, wo_jobTypeConcurrency = [], wo_runIds = None\<rparr>"

definition demo_worker :: worker_config where
  "demo_worker = (case createWorker [''EXPORT''] ''d'' demo_options of Inr C \<Rightarrow> C | Inl _ \<Rightarrow> undefined)"





section \<open>Witnesses\<close>




theorem execution_settles_witness:
  "x_phase (fst (advances_all demo_env (\<lambda>_. []) demo_worker (replicate 8 (env_at 5, id, id)) demo_submitted
     (timeout_fires (new_execution 0 (hd (jobs demo_submitted)))))) = Finished"
proof (rule execution_settles)
  show "x_signal (timeout_fires (new_execution 0 (hd (jobs demo_submitted)))) \<noteq> None \<or>
      x_phase (timeout_fires (new_execution 0 (hd (jobs demo_submitted)))) \<notin> {Starting, Working}"
    by (simp add: timeout_fires_def abort_with_def new_execution_def)
  show "\<forall>(V, f, g)\<in>set (replicate 8 (env_at 5, id :: database \<Rightarrow> database, id)). only_flags g" by (simp add: timers_only_flags)
qed simp

end
