(* ===== verification/Research_Rules.thy ===== *)
theory Research_Rules
  imports Stage_Outputs
begin

text \<open>
  The pure rules of \<open>lib/domain/research.ts\<close>: progress, the freshness of a source, the support of a claim, citation
  identifiers and research gaps, with the part of the \<open>Date\<close> object the dates go through.
\<close>

section \<open>Progress\<close>

record workflow_gate_state =
  scopeConfirmed :: bool
  planApproved :: bool
  questionsResearched :: bool
  claimsLinkedToEvidence :: bool
  reportWritten :: bool
  qaPassed :: bool
  humanApproved :: bool
  deliverablesGenerated :: bool

definition WORKFLOW_GATES :: "(workflow_gate_state \<Rightarrow> bool) list" where
  "WORKFLOW_GATES =
     [scopeConfirmed, planApproved, questionsResearched, claimsLinkedToEvidence, reportWritten, qaPassed, humanApproved,
      deliverablesGenerated]"

definition calculateWorkflowProgress :: "workflow_gate_state \<Rightarrow> int" where
  "calculateWorkflowProgress gates =
     (let completed = length (filter (\<lambda>gate. gate gates) WORKFLOW_GATES) in
      js_round (of_nat completed / of_nat (length WORKFLOW_GATES) * 100))"

section \<open>Dates\<close>

text \<open>
  \<open>Date.UTC\<close> and the UTC fields of a \<open>Date\<close>, after the ECMAScript abstract operations: days count from 1970, months from
  0, and a year from 0 to 99 given to \<open>Date.UTC\<close> means one of the twentieth century.
\<close>

definition day_from_year :: "int \<Rightarrow> int" where
  "day_from_year y = 365 * (y - 1970) + (y - 1969) div 4 - (y - 1901) div 100 + (y - 1601) div 400"

definition leap_year :: "int \<Rightarrow> bool" where
  "leap_year y \<longleftrightarrow> y mod 4 = 0 \<and> y mod 100 \<noteq> 0 \<or> y mod 400 = 0"

definition month_start :: "bool \<Rightarrow> int \<Rightarrow> int" where
  "month_start leap m =
     (if m \<le> 0 then 0 else if m = 1 then 31
      else [59, 90, 120, 151, 181, 212, 243, 273, 304, 334, 365] ! nat (min m 12 - 2) + (if leap then 1 else 0))"

definition make_day :: "int \<Rightarrow> int \<Rightarrow> int \<Rightarrow> int" where
  "make_day y m d = (let ym = y + m div 12 in day_from_year ym + month_start (leap_year ym) (m mod 12) + d - 1)"

definition MILLISECONDS_PER_DAY :: int where
  "MILLISECONDS_PER_DAY = 86400000"

definition date_utc :: "int \<Rightarrow> int \<Rightarrow> int \<Rightarrow> int" where
  "date_utc y m d = make_day (if 0 \<le> y \<and> y \<le> 99 then 1900 + y else y) m d * MILLISECONDS_PER_DAY"

definition year_of_day :: "int \<Rightarrow> int" where
  "year_of_day day =
     (let y = 1970 + day * 400 div 146097 in
      if day_from_year (y + 1) \<le> day then y + 1 else if day < day_from_year y then y - 1 else y)"

definition month_of_day :: "int \<Rightarrow> int" where
  "month_of_day day =
     (let y = year_of_day day in
      int (length (filter (\<lambda>m. month_start (leap_year y) m \<le> day - day_from_year y) [1, 2, 3, 4, 5, 6, 7, 8, 9, 10, 11])))"

definition date_of_day :: "int \<Rightarrow> int" where
  "date_of_day day =
     (let y = year_of_day day in day - day_from_year y - month_start (leap_year y) (month_of_day day) + 1)"

text \<open>\<open>DateInput\<close>: a \<open>Date\<close>, by its time value, \<open>None\<close> for \<open>NaN\<close>, or a text.\<close>

datatype date_input = Js_date "int option" | Date_text string

text \<open>\<open>/^\d{4}-\d{2}-\d{2}$/\<close>\<close>

definition iso_date_shape :: "string \<Rightarrow> bool" where
  "iso_date_shape s \<longleftrightarrow>
     length s = 10 \<and> list_all (\<lambda>i. if i = 4 \<or> i = 7 then s ! i = CHR ''-'' else is_digit (s ! i)) [0..<10]"

definition digits_number :: "string \<Rightarrow> int" where
  "digits_number s = foldl (\<lambda>n c. n * 10 + (of_char c - 48)) 0 s"

text \<open>The label of the message is left out.\<close>

definition utcDay :: "date_input \<Rightarrow> app_error + int" where
  "utcDay v =
     (case v of
        Js_date None \<Rightarrow> Inl (GenericError ''TypeError'')
      | Js_date (Some t) \<Rightarrow>
          (let day = t div MILLISECONDS_PER_DAY in Inr (date_utc (year_of_day day) (month_of_day day) (date_of_day day)))
      | Date_text s \<Rightarrow>
          if \<not> iso_date_shape s then Inl (GenericError ''TypeError'')
          else
            (let year = digits_number (js_slice 0 4 s); month = digits_number (js_slice 5 7 s);
                 dayOfMonth = digits_number (js_slice 8 10 s);
                 parsed = date_utc year (month - 1) dayOfMonth;
                 day = parsed div MILLISECONDS_PER_DAY in
             if year_of_day day \<noteq> year \<or> month_of_day day \<noteq> month - 1 \<or> date_of_day day \<noteq> dayOfMonth
             then Inl (GenericError ''TypeError'') else Inr parsed))"

section \<open>The freshness of a source\<close>

datatype freshness_status = FR_CURRENT | FR_AGING | FR_OUTDATED | FR_UNKNOWN

text \<open>The age is exact, in days; \<open>Math.ceil(maxAgeDays * 0.8)\<close> is the exact ceiling.\<close>

definition aging_threshold :: "int \<Rightarrow> int" where
  "aging_threshold maxAgeDays = - ((- (4 * maxAgeDays)) div 5)"

definition freshness_of_age :: "int \<Rightarrow> int \<Rightarrow> freshness_status" where
  "freshness_of_age ageDays maxAgeDays =
     (if ageDays < 0 then FR_UNKNOWN
      else if ageDays > maxAgeDays then FR_OUTDATED
      else if maxAgeDays > 0 \<and> ageDays \<ge> aging_threshold maxAgeDays then FR_AGING
      else FR_CURRENT)"

text \<open>\<open>Number.isInteger\<close>\<close>

definition js_whole :: "jsnum \<Rightarrow> int option" where
  "js_whole n = (case n of Fin r \<Rightarrow> (if of_int \<lfloor>r\<rfloor> = r then Some \<lfloor>r\<rfloor> else None) | _ \<Rightarrow> None)"

definition assessSourceFreshness :: "date_input option \<Rightarrow> date_input \<Rightarrow> jsnum \<Rightarrow> app_error + freshness_status" where
  "assessSourceFreshness publishedAt researchDate maxAge =
     (case js_whole maxAge of
        None \<Rightarrow> Inl (GenericError ''RangeError'')
      | Some maxAgeDays \<Rightarrow>
          if maxAgeDays < 0 then Inl (GenericError ''RangeError'')
          else
            (case publishedAt of
               None \<Rightarrow> Inr FR_UNKNOWN
             | Some p \<Rightarrow>
                 ebind (utcDay p) (\<lambda>publishedDay.
                 ebind (utcDay researchDate) (\<lambda>researchDay.
                 Inr (freshness_of_age ((researchDay - publishedDay) div MILLISECONDS_PER_DAY) maxAgeDays)))))"

section \<open>The support of a claim\<close>

datatype evidence_relationship = SUPPORTS | REFUTES | CONTEXT

datatype support_extent = FULL | PARTIAL

record claim_assessment =
  as_relationship :: evidence_relationship
  as_verificationStatus :: verification_status
  as_sourceFreshness :: freshness_status
  as_supportExtent :: "support_extent option"

definition calculateClaimSupportStatus :: "claim_assessment list \<Rightarrow> bool option \<Rightarrow> support_status" where
  "calculateClaimSupportStatus evidence verificationPossible =
     (if \<not> case_option True id verificationPossible then SUP_NOT_VERIFIABLE
      else
        (let verified = filter (\<lambda>i. as_verificationStatus i = V_VERIFIED \<and> as_relationship i \<noteq> CONTEXT) evidence;
             supporting = filter (\<lambda>i. as_relationship i = SUPPORTS) verified;
             refuting = filter (\<lambda>i. as_relationship i = REFUTES) verified in
         if length supporting > 0 \<and> length refuting > 0 then SUP_CONTESTED
         else if length supporting = 0 then SUP_UNSUPPORTED
         else if list_all (\<lambda>i. as_sourceFreshness i = FR_OUTDATED) supporting then SUP_OUTDATED
         else if list_ex (\<lambda>i. case_option FULL id (as_supportExtent i) = FULL \<and>
                   (as_sourceFreshness i = FR_CURRENT \<or> as_sourceFreshness i = FR_AGING)) supporting
         then SUP_SUPPORTED else SUP_PARTIALLY_SUPPORTED))"

section \<open>Citation identifiers\<close>

text \<open>\<open>/^[A-Za-z0-9][A-Za-z0-9._:-]{0,127}$/\<close>\<close>

fun isCitationId :: "jsv \<Rightarrow> bool" where
  "isCitationId (JStr s) = (s \<noteq> [] \<and> is_alnum (hd s) \<and> list_all citation_char (tl s) \<and> length s \<le> 128)"
| "isCitationId _ = False"

datatype citation_issue_code = MALFORMED | DUPLICATE | UNKNOWN_ID

record citation_issue =
  ci_code :: citation_issue_code
  ci_index :: nat
  ci_citationId :: "string option"

text \<open>The loop of \<open>findCitationIdIssues\<close> from an index on, with the identifiers seen before.\<close>

fun citation_issues_from :: "string list \<Rightarrow> string list \<Rightarrow> nat \<Rightarrow> jsv list \<Rightarrow> citation_issue list" where
  "citation_issues_from known seen i [] = []"
| "citation_issues_from known seen i (v # vs) =
     (case (isCitationId v, js_string v) of
        (True, Some s) \<Rightarrow>
          (if s \<in> set seen then [\<lparr>ci_code = DUPLICATE, ci_index = i, ci_citationId = Some s\<rparr>] else []) @
          (if s \<notin> set known then [\<lparr>ci_code = UNKNOWN_ID, ci_index = i, ci_citationId = Some s\<rparr>] else []) @
          citation_issues_from known (if s \<in> set seen then seen else s # seen) (Suc i) vs
      | (_, text) \<Rightarrow> \<lparr>ci_code = MALFORMED, ci_index = i, ci_citationId = text\<rparr> # citation_issues_from known seen (Suc i) vs)"

definition findCitationIdIssues :: "jsv list \<Rightarrow> string list \<Rightarrow> citation_issue list" where
  "findCitationIdIssues citationIds knownCitationIds = citation_issues_from knownCitationIds [] 0 citationIds"

text \<open>The error carries the issues.\<close>

definition validateCitationIds :: "jsv list \<Rightarrow> string list \<Rightarrow> citation_issue list + jsv list" where
  "validateCitationIds citationIds knownCitationIds =
     (let issues = findCitationIdIssues citationIds knownCitationIds in
      if length issues > 0 then Inl issues else Inr citationIds)"

section \<open>Research gaps\<close>

definition countOpenResearchGaps :: "research_gap_status list \<Rightarrow> nat" where
  "countOpenResearchGaps gaps = length (filter (\<lambda>g. g = GAP_OPEN) gaps)"

section \<open>The calendar\<close>

text \<open>The year of a day is the one it lies in.\<close>

lemma div_next: "0 < n \<Longrightarrow> (x + 1) div n = x div n + (if (x + 1) mod n = 0 then 1 else 0)" for x n :: int
proof -
  assume n: "0 < n"
  have x: "x = n * (x div n) + x mod n" "0 \<le> x mod n" "x mod n < n" using n by simp_all
  show ?thesis
  proof (cases "x mod n + 1 = n")
    case True
    have "x + 1 = n * (x div n) + (x mod n + 1)" using x(1) by linarith
    also have "\<dots> = n * (x div n + 1)" unfolding True by (simp add: distrib_left)
    finally have "x + 1 = n * (x div n + 1)" .
    then show ?thesis using n by simp
  next
    case False
    then have r: "0 < x mod n + 1" "x mod n + 1 < n" using x(2,3) by simp_all
    have e: "x + 1 = n * (x div n) + (x mod n + 1)" using x(1) by simp
    have "(x + 1) div n = x div n" by (subst e, subst div_mult_self4) (use n r in simp_all)
    moreover have "(x + 1) mod n = x mod n + 1" by (subst e, subst mod_mult_self4) (use n r in simp_all)
    ultimately show ?thesis using r by simp
  qed
qed

lemma dvd_shift: "n dvd k \<Longrightarrow> (y - k) mod n = 0 \<longleftrightarrow> y mod n = 0" for n k y :: int
  using dvd_diff[of n y k] dvd_add[of n "y - k" k] by (auto simp: mod_eq_0_iff_dvd)

lemma day_from_year_step: "day_from_year (y + 1) = day_from_year y + (if leap_year y then 366 else 365)"
proof -
  have step: "(y - k) div n = (y - k - 1) div n + (if y mod n = 0 then 1 else 0)" if "0 < n" "n dvd k" for n k
    using div_next[OF that(1), of "y - k - 1"] by (simp only: diff_add_cancel dvd_shift[OF that(2)])
  have e: "y - 1969 = y - 1968 - 1" "y - 1901 = y - 1900 - 1" "y - 1601 = y - 1600 - 1" by simp_all
  have d: "(y - 1968) div 4 = (y - 1969) div 4 + (if y mod 4 = 0 then 1 else 0)"
    "(y - 1900) div 100 = (y - 1901) div 100 + (if y mod 100 = 0 then 1 else 0)"
    "(y - 1600) div 400 = (y - 1601) div 400 + (if y mod 400 = 0 then 1 else 0)"
    unfolding e by (rule step; simp)+
  have m: "y mod 400 = 0 \<Longrightarrow> y mod 100 = 0" "y mod 100 = 0 \<Longrightarrow> y mod 4 = 0"
    using dvd_trans[of 100 400 y] dvd_trans[of 4 100 y] by (simp_all add: mod_eq_0_iff_dvd)
  have n: "y + 1 - 1970 = y - 1970 + 1" "y + 1 - 1969 = y - 1968" "y + 1 - 1901 = y - 1900" "y + 1 - 1601 = y - 1600" by simp_all
  have key: "365 * (t + 1) + (a + (if A then 1 else 0)) - (b + (if B then 1 else 0)) + (c + (if C then 1 else 0)) =
      365 * t + a - b + c + (if A \<and> \<not> B \<or> C then 366 else 365)" if "C \<Longrightarrow> B" "B \<Longrightarrow> A" for A B C and t a b c :: int
    using that by (cases A; cases B; cases C) simp_all
  show ?thesis unfolding day_from_year_def leap_year_def n d by (rule key) (erule m)+
qed

lemma day_from_year_mono: "x < y \<Longrightarrow> day_from_year x < day_from_year y"
proof (induction y rule: int_gr_induct)
  case base then show ?case using day_from_year_step[of x] by simp
next
  case (step i) then show ?case using day_from_year_step[of i] by simp
qed

lemma div_bounds: "0 < n \<Longrightarrow> n * (x div n) \<le> x \<and> x < n * (x div n) + n" for x n :: int
  using minus_mod_eq_mult_div[of x n] pos_mod_sign[of n x] pos_mod_bound[of n x] by linarith

lemma year_of_day_bounds: "day_from_year (year_of_day d) \<le> d \<and> d < day_from_year (year_of_day d + 1)"
proof -
  define y where "y = 1970 + d * 400 div 146097"
  have q: "146097 * (y - 1970) \<le> d * 400" "d * 400 < 146097 * (y - 1970) + 146097"
    using div_bounds[of 146097 "d * 400"] unfolding y_def by simp_all
  have lin: "400 * day_from_year x \<le> 146097 * (x - 1970) + 600" "146097 * (x - 1970) - 700 < 400 * day_from_year x" for x
    using div_bounds[of 4 "x - 1969"] div_bounds[of 100 "x - 1901"] div_bounds[of 400 "x - 1601"]
    unfolding day_from_year_def by simp_all
  have "day_from_year (y - 1) \<le> d" using lin(1)[of "y - 1"] q by simp
  moreover have "d < day_from_year (y + 2)" using lin(2)[of "y + 2"] q by simp
  moreover have "y + 1 + 1 = 2 + y" "y + 2 = 2 + y" "y - 1 + 1 = y" by simp_all
  ultimately show ?thesis unfolding year_of_day_def Let_def y_def[symmetric] by (auto simp only: split: if_splits)
qed

lemma year_of_dayI:
  assumes "day_from_year y \<le> d" "d < day_from_year (y + 1)"
  shows "year_of_day d = y"
proof (rule ccontr)
  assume "year_of_day d \<noteq> y"
  then consider "year_of_day d + 1 \<le> y" | "y + 1 \<le> year_of_day d" by linarith
  then show False
    using assms year_of_day_bounds[of d] day_from_year_mono[of "year_of_day d + 1" y] day_from_year_mono[of "y + 1" "year_of_day d"]
    by cases (auto simp: order_le_less)
qed

definition month_length :: "bool \<Rightarrow> int \<Rightarrow> int" where
  "month_length leap m = month_start leap (m + 1) - month_start leap m"

definition calendar_date :: "int \<Rightarrow> int \<Rightarrow> int \<Rightarrow> bool" where
  "calendar_date y m d \<longleftrightarrow> 1 \<le> m \<and> m \<le> 12 \<and> 1 \<le> d \<and> d \<le> month_length (leap_year y) (m - 1)"

lemma month_cases:
  assumes "0 \<le> m" "m \<le> (11 :: int)"
  obtains "m = 0" | "m = 1" | "m = 2" | "m = 3" | "m = 4" | "m = 5" | "m = 6" | "m = 7" | "m = 8" | "m = 9" | "m = 10" | "m = 11"
proof -
  have "m = 0 \<or> m = 1 \<or> m = 2 \<or> m = 3 \<or> m = 4 \<or> m = 5 \<or> m = 6 \<or> m = 7 \<or> m = 8 \<or> m = 9 \<or> m = 10 \<or> m = 11"
    using assms by presburger
  then show thesis using that by argo
qed

lemma month_starts [simp]:
  "month_start leap 0 = 0" "month_start leap 1 = 31" "month_start leap 2 = (if leap then 60 else 59)"
  "month_start leap 3 = (if leap then 91 else 90)" "month_start leap 4 = (if leap then 121 else 120)"
  "month_start leap 5 = (if leap then 152 else 151)" "month_start leap 6 = (if leap then 182 else 181)"
  "month_start leap 7 = (if leap then 213 else 212)" "month_start leap 8 = (if leap then 244 else 243)"
  "month_start leap 9 = (if leap then 274 else 273)" "month_start leap 10 = (if leap then 305 else 304)"
  "month_start leap 11 = (if leap then 335 else 334)" "month_start leap 12 = (if leap then 366 else 365)"
  by (simp_all add: month_start_def)

text \<open>The month a day of the year lies in.\<close>

lemma month_count:
  assumes "0 \<le> m" "m \<le> 11" "month_start leap m \<le> k" "k < month_start leap (m + 1)"
  shows "int (length (filter (\<lambda>i. month_start leap i \<le> k) [1, 2, 3, 4, 5, 6, 7, 8, 9, 10, 11])) = m"
  using assms(1,2) by (cases rule: month_cases) (use assms(3,4) in \<open>simp_all split: if_splits\<close>)

lemma month_of_year_day:
  assumes "0 \<le> k" "k < month_start leap 12"
  obtains m where "0 \<le> m" "m \<le> 11" "month_start leap m \<le> k" "k < month_start leap (m + 1)"
proof -
  have "\<exists>m\<in>{0,1,2,3,4,5,6,7,8,9,10,11}. month_start leap m \<le> k \<and> k < month_start leap (m + 1)"
    using assms by (simp split: if_splits) linarith+
  then obtain m where m: "m \<in> {0,1,2,3,4,5,6,7,8,9,10,11}" "month_start leap m \<le> k" "k < month_start leap (m + 1)" by blast
  from m(1) have "0 \<le> m" "m \<le> 11" by fastforce+
  then show thesis using m(2,3) by (rule that)
qed

lemma month_start_range: "0 \<le> m \<Longrightarrow> m \<le> 11 \<Longrightarrow> 0 \<le> month_start leap m \<and> month_start leap (m + 1) \<le> (if leap then 366 else 365)"
  by (cases m rule: month_cases) (assumption | simp)+

lemma fields_of_make_day:
  assumes "calendar_date y m d"
  shows "year_of_day (make_day y (m - 1) d) = y \<and> month_of_day (make_day y (m - 1) d) = m - 1 \<and> date_of_day (make_day y (m - 1) d) = d"
proof -
  let ?m = "m - 1" and ?leap = "leap_year y"
  let ?day = "make_day y ?m d"
  have m: "0 \<le> ?m" "?m \<le> 11" and d: "1 \<le> d" "month_start ?leap ?m + d \<le> month_start ?leap (?m + 1)"
    using assms by (auto simp: calendar_date_def month_length_def)
  have day: "?day = day_from_year y + month_start ?leap ?m + d - 1" using m by (simp add: make_day_def Let_def)
  have y: "year_of_day ?day = y"
    by (rule year_of_dayI) (use day d month_start_range[OF m, of ?leap] day_from_year_step[of y] in \<open>auto split: if_splits\<close>)
  have "month_of_day ?day = ?m"
    unfolding month_of_day_def Let_def y by (rule month_count[OF m]) (use day d in simp_all)
  then show ?thesis using y day by (simp add: date_of_day_def Let_def)
qed

lemma fields_valid: "calendar_date (year_of_day day) (month_of_day day + 1) (date_of_day day)"
proof -
  let ?y = "year_of_day day" let ?leap = "leap_year ?y" let ?k = "day - day_from_year ?y"
  have "0 \<le> ?k" "?k < month_start ?leap 12"
    using year_of_day_bounds[of day] day_from_year_step[of ?y] by (auto split: if_splits)
  then obtain m where m: "0 \<le> m" "m \<le> 11" "month_start ?leap m \<le> ?k" "?k < month_start ?leap (m + 1)"
    by (rule month_of_year_day)
  have "month_of_day day = m" unfolding month_of_day_def Let_def by (rule month_count[OF m])
  then show ?thesis using m by (simp add: calendar_date_def month_length_def date_of_day_def Let_def)
qed

text \<open>A text is accepted exactly when it names a day of the calendar after the year 99, and stands for that day.\<close>

definition text_date :: "string \<Rightarrow> int \<times> int \<times> int" where
  "text_date s = (digits_number (js_slice 0 4 s), digits_number (js_slice 5 7 s), digits_number (js_slice 8 10 s))"

lemma utcDay_text:
  "utcDay (Date_text s) = Inr v \<longleftrightarrow>
     (\<exists>y m d. iso_date_shape s \<and> text_date s = (y, m, d) \<and> \<not> (0 \<le> y \<and> y \<le> 99) \<and> calendar_date y m d \<and>
        v = make_day y (m - 1) d * MILLISECONDS_PER_DAY)"
proof -
  obtain y m d where t: "text_date s = (y, m, d)" by (cases "text_date s")
  let ?Y = "if 0 \<le> y \<and> y \<le> 99 then 1900 + y else y"
  let ?day = "make_day ?Y (m - 1) d"
  have u: "utcDay (Date_text s) =
      (if \<not> iso_date_shape s then Inl (GenericError ''TypeError'')
       else if year_of_day ?day \<noteq> y \<or> month_of_day ?day \<noteq> m - 1 \<or> date_of_day ?day \<noteq> d then Inl (GenericError ''TypeError'')
       else Inr (?day * MILLISECONDS_PER_DAY))"
    using t by (simp add: utcDay_def text_date_def date_utc_def Let_def MILLISECONDS_PER_DAY_def)
  show ?thesis
  proof (cases "0 \<le> y \<and> y \<le> 99")
    case True
    have "\<not> (year_of_day ?day = y \<and> month_of_day ?day = m - 1 \<and> date_of_day ?day = d)"
    proof
      assume f: "year_of_day ?day = y \<and> month_of_day ?day = m - 1 \<and> date_of_day ?day = d"
      then have "0 \<le> m - 1" "m - 1 \<le> 11" "1 \<le> d"
        using fields_valid[of ?day] by (simp_all add: calendar_date_def)
      then have "day_from_year ?Y \<le> ?day" using month_start_range[of "m - 1" "leap_year ?Y"] by (simp add: make_day_def Let_def)
      moreover have "day_from_year (y + 1) \<le> day_from_year ?Y"
        using day_from_year_mono[of "y + 1" ?Y] True by auto
      ultimately show False using year_of_day_bounds[of ?day] f by simp
    qed
    then show ?thesis using u t True by auto
  next
    case False
    then have "?Y = y" by simp
    moreover have "(year_of_day (make_day y (m - 1) d) = y \<and> month_of_day (make_day y (m - 1) d) = m - 1 \<and>
        date_of_day (make_day y (m - 1) d) = d) \<longleftrightarrow> calendar_date y m d"
      using fields_of_make_day[of y m d] fields_valid[of "make_day y (m - 1) d"] by auto
    ultimately show ?thesis using u t False by auto
  qed
qed

text \<open>A \<open>Date\<close> stands for the day it lies in; in the first century \<open>Date.UTC\<close> moves it to the twentieth.\<close>

lemma utcDay_date:
  assumes "\<not> (0 \<le> year_of_day (t div MILLISECONDS_PER_DAY) \<and> year_of_day (t div MILLISECONDS_PER_DAY) \<le> 99)"
  shows "utcDay (Js_date (Some t)) = Inr (t div MILLISECONDS_PER_DAY * MILLISECONDS_PER_DAY)"
proof -
  let ?day = "t div MILLISECONDS_PER_DAY"
  have "0 \<le> month_of_day ?day" "month_of_day ?day \<le> 11" using fields_valid[of ?day] by (simp_all add: calendar_date_def)
  then have "make_day (year_of_day ?day) (month_of_day ?day) (date_of_day ?day) = ?day"
    by (simp add: make_day_def date_of_day_def Let_def)
  then show ?thesis unfolding utcDay_def date_utc_def Let_def date_input.case option.case if_not_P[OF assms] by simp
qed

end
