(* ===== verification/Qa_Rules.thy ===== *)
theory Qa_Rules
  imports Research_Rules
begin

text \<open>
  The quality rules of a report, \<open>lib/domain/qa.ts\<close>: fourteen checks, each of which adds findings, and the approval they
  block. One definition per loop of \<open>runQaRules\<close>; their results are concatenated in the order of the source.
\<close>

section \<open>Findings\<close>

datatype qa_rule_code =
    UNSOURCED_KEY_CLAIM | INVALID_CITATION_ID | OUTDATED_SOURCE | DUPLICATE_SOURCE | SOURCE_CONCENTRATION
  | UNRESOLVED_SOURCE_CONFLICT | FACT_INFERENCE_MIX | UNSUPPORTED_NUMBER | DATE_OR_UNIT_MISMATCH | OUT_OF_SCOPE_CONTENT
  | UNREFERENCED_SOURCE | SOURCE_NUMBER_MISMATCH | OPEN_RESEARCH_GAP | EMPTY_REQUIRED_SECTION

fun rule_name :: "qa_rule_code \<Rightarrow> string" where
  "rule_name UNSOURCED_KEY_CLAIM = ''UNSOURCED_KEY_CLAIM''"
| "rule_name INVALID_CITATION_ID = ''INVALID_CITATION_ID''"
| "rule_name OUTDATED_SOURCE = ''OUTDATED_SOURCE''"
| "rule_name DUPLICATE_SOURCE = ''DUPLICATE_SOURCE''"
| "rule_name SOURCE_CONCENTRATION = ''SOURCE_CONCENTRATION''"
| "rule_name UNRESOLVED_SOURCE_CONFLICT = ''UNRESOLVED_SOURCE_CONFLICT''"
| "rule_name FACT_INFERENCE_MIX = ''FACT_INFERENCE_MIX''"
| "rule_name UNSUPPORTED_NUMBER = ''UNSUPPORTED_NUMBER''"
| "rule_name DATE_OR_UNIT_MISMATCH = ''DATE_OR_UNIT_MISMATCH''"
| "rule_name OUT_OF_SCOPE_CONTENT = ''OUT_OF_SCOPE_CONTENT''"
| "rule_name UNREFERENCED_SOURCE = ''UNREFERENCED_SOURCE''"
| "rule_name SOURCE_NUMBER_MISMATCH = ''SOURCE_NUMBER_MISMATCH''"
| "rule_name OPEN_RESEARCH_GAP = ''OPEN_RESEARCH_GAP''"
| "rule_name EMPTY_REQUIRED_SECTION = ''EMPTY_REQUIRED_SECTION''"

text \<open>\<open>QA_RULE_DEFINITIONS\<close>\<close>

fun rule_severity :: "qa_rule_code \<Rightarrow> finding_severity" where
  "rule_severity UNSOURCED_KEY_CLAIM = SEV_BLOCKER"
| "rule_severity INVALID_CITATION_ID = SEV_BLOCKER"
| "rule_severity OUTDATED_SOURCE = SEV_HIGH"
| "rule_severity DUPLICATE_SOURCE = SEV_MEDIUM"
| "rule_severity SOURCE_CONCENTRATION = SEV_HIGH"
| "rule_severity UNRESOLVED_SOURCE_CONFLICT = SEV_BLOCKER"
| "rule_severity FACT_INFERENCE_MIX = SEV_HIGH"
| "rule_severity UNSUPPORTED_NUMBER = SEV_BLOCKER"
| "rule_severity DATE_OR_UNIT_MISMATCH = SEV_HIGH"
| "rule_severity OUT_OF_SCOPE_CONTENT = SEV_HIGH"
| "rule_severity UNREFERENCED_SOURCE = SEV_LOW"
| "rule_severity SOURCE_NUMBER_MISMATCH = SEV_BLOCKER"
| "rule_severity OPEN_RESEARCH_GAP = SEV_BLOCKER"
| "rule_severity EMPTY_REQUIRED_SECTION = SEV_BLOCKER"

record qa_finding =
  fd_id :: string
  fd_ruleCode :: qa_rule_code
  fd_severity :: finding_severity
  fd_location :: string
  fd_problem :: string
  fd_remediation :: string
  fd_resolutionStatus :: resolution_status
  fd_metadata :: "(string \<times> jsv) list"

definition qaFinding :: "qa_rule_code \<Rightarrow> string \<Rightarrow> string \<Rightarrow> string \<Rightarrow> string \<Rightarrow> (string \<times> jsv) list \<Rightarrow> qa_finding" where
  "qaFinding ruleCode key location problem remediation metadata =
     \<lparr>fd_id = rule_name ruleCode @ '':'' @ key, fd_ruleCode = ruleCode, fd_severity = rule_severity ruleCode,
      fd_location = location, fd_problem = problem, fd_remediation = remediation, fd_resolutionStatus = RES_OPEN,
      fd_metadata = metadata\<rparr>"

section \<open>The context\<close>

record qa_source =
  qs_id :: string
  qs_title :: string
  qs_publisher :: "string option"
  qs_publishedAt :: "date_input option"
  qs_contentHash :: "string option"
  qs_duplicateOfSourceId :: "string option"

record qa_evidence =
  qe_id :: string
  qe_sourceId :: string
  qe_verificationStatus :: verification_status

record qa_claim_link =
  ql_claimId :: string
  ql_evidenceId :: string
  ql_relationship :: evidence_relationship
  ql_supportExtent :: "support_extent option"

datatype claim_importance = IMP_CRITICAL | IMP_HIGH | IMP_MEDIUM | IMP_LOW

record qa_claim =
  qc_id :: string
  qc_content :: string
  qc_importance :: claim_importance
  qc_includeInReport :: bool
  qc_verificationPossible :: "bool option"

record qa_source_conflict =
  qx_id :: string
  qx_claimId :: "string option"
  qx_location :: string
  qx_description :: string
  qx_resolved :: bool

datatype statement_classification = CL_FACT | CL_INFERENCE | CL_MIXED

record qa_statement =
  qt_id :: string
  qt_location :: string
  qt_text :: string
  qt_classification :: statement_classification
  qt_withinScope :: bool

record qa_assertion =
  qq_id :: string
  qq_location :: string
  qq_text :: string
  qq_evidenceId :: "string option"
  qq_dateMatchesSource :: "bool option"
  qq_unitMatchesSource :: "bool option"
  qq_valueMatchesSource :: "bool option"

record qa_section =
  qr_id :: string
  qr_title :: string
  qr_required :: bool
  qr_content :: string

record qa_gap =
  qg_id :: string
  qg_gapStatus :: research_gap_status
  qg_location :: string
  qg_description :: string

record qa_report =
  rp_citationIds :: "jsv list"
  rp_sections :: "qa_section list"
  rp_statements :: "qa_statement list"
  rp_quantitativeAssertions :: "qa_assertion list"

record qa_context =
  qa_researchDate :: date_input
  qa_sourceMaxAgeDays :: jsnum
  qa_sources :: "qa_source list"
  qa_evidence_items :: "qa_evidence list"
  qa_claims :: "qa_claim list"
  qa_claimEvidence :: "qa_claim_link list"
  qa_conflicts :: "qa_source_conflict list"
  qa_researchGaps :: "qa_gap list"
  qa_the_report :: qa_report

text \<open>\<open>new Map(rows.map((row) => [row.id, row])).get(id)\<close>: the last row of an identifier.\<close>

definition by_id :: "('r \<Rightarrow> string) \<Rightarrow> 'r list \<Rightarrow> string \<Rightarrow> 'r option" where
  "by_id key rows k = find (\<lambda>r. key r = k) (rev rows)"

definition sourceById :: "qa_context \<Rightarrow> string \<Rightarrow> qa_source option" where
  "sourceById C = by_id qs_id (qa_sources C)"

definition evidenceById :: "qa_context \<Rightarrow> string \<Rightarrow> qa_evidence option" where
  "evidenceById C = by_id qe_id (qa_evidence_items C)"

definition sourceFreshness :: "qa_source \<Rightarrow> qa_context \<Rightarrow> app_error + freshness_status" where
  "sourceFreshness source C = assessSourceFreshness (qs_publishedAt source) (qa_researchDate C) (qa_sourceMaxAgeDays C)"

section \<open>Claims\<close>

text \<open>The links of a claim that lead to an evidence with a source, with the evidence and the source.\<close>

definition usable_links :: "qa_context \<Rightarrow> string \<Rightarrow> (qa_claim_link \<times> qa_evidence \<times> qa_source) list" where
  "usable_links C claimId =
     List.map_filter (\<lambda>l.
       case evidenceById C (ql_evidenceId l) of
         None \<Rightarrow> None
       | Some e \<Rightarrow> (case sourceById C (qe_sourceId e) of None \<Rightarrow> None | Some s \<Rightarrow> Some (l, e, s)))
       (filter (\<lambda>l. ql_claimId l = claimId) (qa_claimEvidence C))"

definition assessment :: "qa_context \<Rightarrow> qa_claim_link \<times> qa_evidence \<times> qa_source \<Rightarrow> app_error + claim_assessment" where
  "assessment C = (\<lambda>(l, e, s).
     ebind (sourceFreshness s C) (\<lambda>fresh.
     Inr \<lparr>as_relationship = ql_relationship l, as_verificationStatus = qe_verificationStatus e, as_sourceFreshness = fresh,
          as_supportExtent = ql_supportExtent l\<rparr>))"

definition assessments :: "qa_context \<Rightarrow> string \<Rightarrow> app_error + claim_assessment list" where
  "assessments C claimId = map_res (assessment C) (usable_links C claimId)"

fun support_status_name :: "support_status \<Rightarrow> string" where
  "support_status_name SUP_SUPPORTED = ''SUPPORTED''"
| "support_status_name SUP_PARTIALLY_SUPPORTED = ''PARTIALLY_SUPPORTED''"
| "support_status_name SUP_CONTESTED = ''CONTESTED''"
| "support_status_name SUP_UNSUPPORTED = ''UNSUPPORTED''"
| "support_status_name SUP_OUTDATED = ''OUTDATED''"
| "support_status_name SUP_NOT_VERIFIABLE = ''NOT_VERIFIABLE''"

definition key_importance :: "claim_importance \<Rightarrow> bool" where
  "key_importance i \<longleftrightarrow> i = IMP_CRITICAL \<or> i = IMP_HIGH"

text \<open>The identifier and support of a claim, and its finding.\<close>

definition check_claim :: "qa_context \<Rightarrow> qa_claim \<Rightarrow> app_error + (string \<times> support_status) \<times> qa_finding list" where
  "check_claim C claim =
     ebind (assessments C (qc_id claim)) (\<lambda>items.
     (let supportStatus = calculateClaimSupportStatus items (qc_verificationPossible claim);
          hasVerifiedSupport = list_ex (\<lambda>a. as_relationship a = SUPPORTS \<and> as_verificationStatus a = V_VERIFIED) items in
      Inr ((qc_id claim, supportStatus),
           if qc_includeInReport claim \<and> key_importance (qc_importance claim) \<and> \<not> hasVerifiedSupport
           then [qaFinding UNSOURCED_KEY_CLAIM (qc_id claim) (''claim:'' @ qc_id claim)
                   ''A key report claim has no verified supporting evidence.''
                   ''Link and verify supporting evidence, or remove the claim from the report.''
                   [(''claimId'', JStr (qc_id claim)), (''supportStatus'', JStr (support_status_name supportStatus))]]
           else [])))"

section \<open>Citations and sources\<close>

fun issue_name :: "citation_issue_code \<Rightarrow> string" where
  "issue_name MALFORMED = ''MALFORMED''"
| "issue_name DUPLICATE = ''DUPLICATE''"
| "issue_name UNKNOWN_ID = ''UNKNOWN''"

definition citation_findings :: "qa_context \<Rightarrow> qa_finding list" where
  "citation_findings C =
     map (\<lambda>i. qaFinding INVALID_CITATION_ID (int_text (int (ci_index i)) @ ''-'' @ issue_name (ci_code i))
            (''report:citations['' @ int_text (int (ci_index i)) @ '']'')
            (''A report citation ID is '' @ js_lower (issue_name (ci_code i)) @ ''.'')
            ''Use one unique, well-formed citation ID that matches an existing source.''
            [(''citationId'', (case ci_citationId i of None \<Rightarrow> JNull | Some s \<Rightarrow> JStr s)),
             (''issueType'', JStr (issue_name (ci_code i))), (''citationIndex'', js_int (int (ci_index i)))])
       (findCitationIdIssues (rp_citationIds (qa_the_report C)) (map qs_id (qa_sources C)))"

definition citedSourceIds :: "qa_context \<Rightarrow> string list" where
  "citedSourceIds C =
     js_unique (List.map_filter (\<lambda>v. if isCitationId v then
         (case js_string v of Some s \<Rightarrow> if sourceById C s \<noteq> None then Some s else None | None \<Rightarrow> None) else None)
       (rp_citationIds (qa_the_report C)))"

definition cited_sources :: "qa_context \<Rightarrow> qa_source list" where
  "cited_sources C = List.map_filter (sourceById C) (citedSourceIds C)"

definition outdated_findings :: "qa_context \<Rightarrow> app_error + qa_finding list" where
  "outdated_findings C =
     ebind (map_res (\<lambda>s.
       ebind (sourceFreshness s C) (\<lambda>fresh.
       Inr (if fresh = FR_OUTDATED
            then [qaFinding OUTDATED_SOURCE (qs_id s) (''source:'' @ qs_id s)
                    ''A source cited by the report is older than the project's maximum age.''
                    ''Replace it with a current source or document why the older source remains necessary.''
                    [(''sourceId'', JStr (qs_id s))]]
            else []))) (cited_sources C)) (\<lambda>fs. Inr (concat fs))"

definition duplicate_finding :: "string \<Rightarrow> qa_source \<Rightarrow> string \<Rightarrow> qa_finding" where
  "duplicate_finding problem s canonical =
     qaFinding DUPLICATE_SOURCE (qs_id s) (''source:'' @ qs_id s) problem
       ''Keep one canonical source record and relink its evidence before removing the duplicate.''
       [(''sourceId'', JStr (qs_id s)), (''duplicateOfSourceId'', JStr canonical)]"

definition marked_duplicates :: "qa_source list \<Rightarrow> qa_finding list" where
  "marked_duplicates sources =
     List.map_filter (\<lambda>s.
       case truthy (qs_duplicateOfSourceId s) of
         None \<Rightarrow> None
       | Some k \<Rightarrow> Some (duplicate_finding ''A source is marked as a duplicate of another project source.'' s k)) sources"

text \<open>\<open>firsts\<close> is \<open>firstSourceByHash\<close> and \<open>dups\<close> \<open>duplicateSourceIds\<close>.\<close>

fun hash_duplicates :: "(string \<times> string) list \<Rightarrow> string list \<Rightarrow> qa_source list \<Rightarrow> qa_finding list" where
  "hash_duplicates firsts dups [] = []"
| "hash_duplicates firsts dups (s # ss) =
     (case truthy (map_option js_trim (qs_contentHash s)) of
        None \<Rightarrow> hash_duplicates firsts dups ss
      | Some h \<Rightarrow>
          (case map_of firsts h of
             None \<Rightarrow> hash_duplicates ((h, qs_id s) # firsts) dups ss
           | Some canonical \<Rightarrow>
               if qs_id s \<in> set dups then hash_duplicates firsts dups ss
               else duplicate_finding ''Two source records have the same content hash.'' s canonical #
                    hash_duplicates firsts (qs_id s # dups) ss))"

definition duplicate_findings :: "qa_context \<Rightarrow> qa_finding list" where
  "duplicate_findings C =
     marked_duplicates (qa_sources C) @
     hash_duplicates [] (map qs_id (filter (\<lambda>s. truthy (qs_duplicateOfSourceId s) \<noteq> None) (qa_sources C))) (qa_sources C)"

text \<open>The publishers of the cited sources that name one, in the order of first use.\<close>

definition cited_publishers :: "qa_context \<Rightarrow> string list" where
  "cited_publishers C = List.map_filter (\<lambda>s. truthy (map_option js_trim (qs_publisher s))) (cited_sources C)"

definition concentration_findings :: "qa_context \<Rightarrow> qa_finding list" where
  "concentration_findings C =
     (let publishers = cited_publishers C; total = length publishers in
      if total < 3 then []
      else
        List.map_filter (\<lambda>p.
          (let count = length (filter (\<lambda>q. q = p) publishers); share = of_nat count / of_nat total :: rat in
           if share > 1 / 2
           then Some (qaFinding SOURCE_CONCENTRATION p ''report:sources''
                   ''The report relies on one publishing organization for a majority of cited sources.''
                   ''Add independent sources or explain why this concentration is unavoidable.''
                   [(''publisher'', JStr p), (''sourceCount'', js_int (int count)), (''sourceShare'', JNum (Fin share))])
           else None)) (js_unique publishers))"

section \<open>Conflicts\<close>

definition open_conflicts :: "qa_context \<Rightarrow> qa_finding list" where
  "open_conflicts C =
     map (\<lambda>x. qaFinding UNRESOLVED_SOURCE_CONFLICT (qx_id x) (qx_location x)
            ''Conflicting source evidence has not been resolved or explained.''
            ''Resolve the conflict or document its effect on the finding and report conclusion.''
            [(''conflictId'', JStr (qx_id x)), (''claimId'', (case qx_claimId x of None \<Rightarrow> JNull | Some k \<Rightarrow> JStr k))])
       (filter (\<lambda>x. \<not> qx_resolved x) (qa_conflicts C))"

text \<open>\<open>claimSupportById\<close> is the list of the statuses of the claims; a later claim of the same identifier replaces an earlier one.\<close>

definition unrecorded_conflicts :: "qa_context \<Rightarrow> (string \<times> support_status) list \<Rightarrow> qa_finding list" where
  "unrecorded_conflicts C claimSupportById =
     map (\<lambda>c. qaFinding UNRESOLVED_SOURCE_CONFLICT (''claim-'' @ qc_id c) (''claim:'' @ qc_id c)
            ''Verified evidence both supports and refutes this claim, but no conflict resolution is recorded.''
            ''Record the conflict and resolve it or explain its effect on the report conclusion.''
            [(''claimId'', JStr (qc_id c))])
       (filter (\<lambda>c. map_of (rev claimSupportById) (qc_id c) = Some SUP_CONTESTED \<and>
            \<not> list_ex (\<lambda>x. qx_claimId x \<noteq> Some [] \<and> qx_claimId x = Some (qc_id c)) (qa_conflicts C)) (qa_claims C))"

section \<open>Statements and numbers\<close>

definition statement_findings :: "qa_statement \<Rightarrow> qa_finding list" where
  "statement_findings t =
     (if qt_classification t = CL_MIXED
      then [qaFinding FACT_INFERENCE_MIX (qt_id t) (qt_location t)
              ''A report statement mixes fact and inference without distinguishing them.''
              ''Split the factual statement from the inference and label each explicitly.''
              [(''statementId'', JStr (qt_id t))]] else []) @
     (if \<not> qt_withinScope t
      then [qaFinding OUT_OF_SCOPE_CONTENT (qt_id t) (qt_location t)
              ''Report content falls outside the approved research scope.''
              ''Remove the content or obtain explicit approval to expand the scope.''
              [(''statementId'', JStr (qt_id t))]] else [])"

definition number_findings :: "qa_context \<Rightarrow> qa_assertion \<Rightarrow> qa_finding list" where
  "number_findings C a =
     (let evidence = (case truthy (qq_evidenceId a) of None \<Rightarrow> None | Some k \<Rightarrow> evidenceById C k);
          evidenceText = (case qq_evidenceId a of None \<Rightarrow> JNull | Some k \<Rightarrow> JStr k);
          mismatches = (if qq_dateMatchesSource a = Some False then [''date''] else []) @
            (if qq_unitMatchesSource a = Some False then [''unit''] else []) in
      (if (case evidence of None \<Rightarrow> True | Some e \<Rightarrow> qe_verificationStatus e \<noteq> V_VERIFIED)
       then [qaFinding UNSUPPORTED_NUMBER (qq_id a) (qq_location a)
               ''A numeric statement has no verified supporting evidence.''
               ''Link the number to verified evidence or remove it from the report.''
               [(''assertionId'', JStr (qq_id a)), (''evidenceId'', evidenceText)]] else []) @
      (if length mismatches > 0
       then [qaFinding DATE_OR_UNIT_MISMATCH (qq_id a) (qq_location a)
               ''A numeric statement uses a date or unit that does not match its source.''
               ''Correct the date and unit to match the cited evidence.''
               [(''assertionId'', JStr (qq_id a)), (''mismatches'', JStr (join '','' mismatches))]] else []) @
      (if qq_valueMatchesSource a = Some False
       then [qaFinding SOURCE_NUMBER_MISMATCH (qq_id a) (qq_location a)
               ''A number in the report does not match the value in its source evidence.''
               ''Correct the reported value and recheck any calculation based on it.''
               [(''assertionId'', JStr (qq_id a)), (''evidenceId'', evidenceText)]] else []))"

section \<open>Completeness\<close>

definition unreferenced_findings :: "qa_context \<Rightarrow> qa_finding list" where
  "unreferenced_findings C =
     map (\<lambda>s. qaFinding UNREFERENCED_SOURCE (qs_id s) (''source:'' @ qs_id s)
            ''A project source is not referenced by the report.''
            ''Cite the source where it is used or remove it from the delivery source list.''
            [(''sourceId'', JStr (qs_id s))])
       (filter (\<lambda>s. qs_id s \<notin> set (citedSourceIds C)) (qa_sources C))"

definition gap_findings :: "qa_context \<Rightarrow> qa_finding list" where
  "gap_findings C =
     (let openGapCount = countOpenResearchGaps (map qg_gapStatus (qa_researchGaps C)) in
      map (\<lambda>g. qaFinding OPEN_RESEARCH_GAP (qg_id g) (qg_location g) ''A research gap remains unresolved.''
             ''Resolve the gap or explicitly accept and disclose the limitation before approval.''
             [(''gapId'', JStr (qg_id g)), (''openGapCount'', js_int (int openGapCount))])
        (filter (\<lambda>g. qg_gapStatus g = GAP_OPEN) (qa_researchGaps C)))"

definition section_findings :: "qa_context \<Rightarrow> qa_finding list" where
  "section_findings C =
     map (\<lambda>s. qaFinding EMPTY_REQUIRED_SECTION (qr_id s) (''report:section:'' @ qr_id s) ''A required report section is empty.''
            ''Complete the section before requesting approval.''
            [(''sectionId'', JStr (qr_id s)), (''sectionTitle'', JStr (qr_title s))])
       (filter (\<lambda>s. qr_required s \<and> length (js_trim (qr_content s)) = 0) (rp_sections (qa_the_report C)))"

section \<open>All rules, and the approval\<close>

definition runQaRules :: "qa_context \<Rightarrow> app_error + qa_finding list" where
  "runQaRules C =
     ebind (map_res (check_claim C) (qa_claims C)) (\<lambda>claims.
     ebind (outdated_findings C) (\<lambda>outdated.
     Inr (concat (map snd claims) @ citation_findings C @ outdated @ duplicate_findings C @ concentration_findings C @
          open_conflicts C @ unrecorded_conflicts C (map fst claims) @
          concat (map statement_findings (rp_statements (qa_the_report C))) @
          concat (map (number_findings C) (rp_quantitativeAssertions (qa_the_report C))) @
          unreferenced_findings C @ gap_findings C @ section_findings C)))"

definition isBlockingQaFinding :: "qa_finding \<Rightarrow> bool" where
  "isBlockingQaFinding f \<longleftrightarrow> fd_severity f = SEV_BLOCKER \<and> fd_resolutionStatus f \<noteq> RES_RESOLVED"

definition hasBlockingQaFindings :: "qa_finding list \<Rightarrow> bool" where
  "hasBlockingQaFindings fs = list_ex isBlockingQaFinding fs"

definition isQaApprovalAllowed :: "qa_finding list \<Rightarrow> bool" where
  "isQaApprovalAllowed fs \<longleftrightarrow> \<not> hasBlockingQaFindings fs"

text \<open>The error carries the blockers.\<close>

definition assertQaApprovalAllowed :: "qa_finding list \<Rightarrow> qa_finding list + unit" where
  "assertQaApprovalAllowed fs =
     (let blockers = filter isBlockingQaFinding fs in if length blockers > 0 then Inl blockers else Inr ())"

end
