(* ===== verification/Qa_Properties.thy ===== *)
theory Qa_Properties
  imports Qa_Rules
begin

text \<open>
  What the quality rules decide: a report may be approved exactly when it meets every condition a blocking rule stands for.
\<close>

section \<open>The conditions\<close>

text \<open>A verified evidence of a known source that stands in a relationship to a claim.\<close>

definition verified_link :: "qa_context \<Rightarrow> evidence_relationship \<Rightarrow> string \<Rightarrow> bool" where
  "verified_link C rel claimId \<longleftrightarrow>
     (\<exists>l\<in>set (qa_claimEvidence C). ql_claimId l = claimId \<and> ql_relationship l = rel \<and>
        (\<exists>e s. evidenceById C (ql_evidenceId l) = Some e \<and> sourceById C (qe_sourceId e) = Some s \<and>
           qe_verificationStatus e = V_VERIFIED))"

definition contested :: "qa_context \<Rightarrow> string \<Rightarrow> bool" where
  "contested C claimId \<longleftrightarrow>
     (\<exists>c. by_id qc_id (qa_claims C) claimId = Some c \<and> qc_verificationPossible c \<noteq> Some False) \<and>
     verified_link C SUPPORTS claimId \<and> verified_link C REFUTES claimId"

definition citations_ready :: "qa_context \<Rightarrow> bool" where
  "citations_ready C \<longleftrightarrow>
     distinct (rp_citationIds (qa_the_report C)) \<and>
     (\<forall>v\<in>set (rp_citationIds (qa_the_report C)). isCitationId v \<and> v \<in> JStr ` qs_id ` set (qa_sources C))"

definition claims_ready :: "qa_context \<Rightarrow> bool" where
  "claims_ready C \<longleftrightarrow>
     (\<forall>c\<in>set (qa_claims C). qc_includeInReport c \<and> key_importance (qc_importance c) \<longrightarrow> verified_link C SUPPORTS (qc_id c))"

definition conflicts_ready :: "qa_context \<Rightarrow> bool" where
  "conflicts_ready C \<longleftrightarrow>
     (\<forall>x\<in>set (qa_conflicts C). qx_resolved x) \<and>
     (\<forall>c\<in>set (qa_claims C). contested C (qc_id c) \<longrightarrow>
        qc_id c \<noteq> [] \<and> (\<exists>x\<in>set (qa_conflicts C). qx_claimId x = Some (qc_id c)))"

definition numbers_ready :: "qa_context \<Rightarrow> bool" where
  "numbers_ready C \<longleftrightarrow>
     (\<forall>a\<in>set (rp_quantitativeAssertions (qa_the_report C)).
        qq_valueMatchesSource a \<noteq> Some False \<and>
        (\<exists>k e. qq_evidenceId a = Some k \<and> k \<noteq> [] \<and> evidenceById C k = Some e \<and> qe_verificationStatus e = V_VERIFIED))"

definition report_ready :: "qa_context \<Rightarrow> bool" where
  "report_ready C \<longleftrightarrow>
     claims_ready C \<and> citations_ready C \<and> conflicts_ready C \<and> numbers_ready C \<and>
     (\<forall>g\<in>set (qa_researchGaps C). qg_gapStatus g \<noteq> GAP_OPEN) \<and>
     (\<forall>s\<in>set (rp_sections (qa_the_report C)). qr_required s \<longrightarrow> js_trim (qr_content s) \<noteq> [])"

text \<open>The dates and the maximum age can be read.\<close>

definition dates_ok :: "qa_context \<Rightarrow> bool" where
  "dates_ok C \<longleftrightarrow>
     (\<exists>m\<ge>0. js_whole (qa_sourceMaxAgeDays C) = Some m) \<and> (\<exists>d. utcDay (qa_researchDate C) = Inr d) \<and>
     (\<forall>s\<in>set (qa_sources C). \<forall>p. qs_publishedAt s = Some p \<longrightarrow> (\<exists>d. utcDay p = Inr d))"

section \<open>Lookups\<close>

lemma by_id_Some: "by_id key rows k = Some r \<Longrightarrow> r \<in> set rows \<and> key r = k"
  by (auto simp: by_id_def dest: find_SomeD)

lemma by_id_exists: "r \<in> set rows \<Longrightarrow> \<exists>q. by_id key rows (key r) = Some q"
  by (cases "by_id key rows (key r)") (auto simp: by_id_def find_None_iff)

lemma by_id_map: "map_of (rev (map (\<lambda>r. (key r, f r)) rows)) k = map_option f (by_id key rows k)"
proof -
  have "map_of (map (\<lambda>r. (key r, f r)) rs) k = map_option f (find (\<lambda>r. key r = k) rs)" for rs
    by (induction rs) auto
  then show ?thesis by (simp add: by_id_def rev_map)
qed

lemma map_filter_mem: "y \<in> set (List.map_filter f xs) \<longleftrightarrow> (\<exists>x\<in>set xs. f x = Some y)"
  by (induction xs) (auto simp: List.map_filter_simps split: option.splits)

lemma map_res_total: "(\<And>x. x \<in> set xs \<Longrightarrow> \<exists>y. f x = Inr y) \<Longrightarrow> \<exists>ys. map_res f xs = Inr ys"
  by (induction xs) (fastforce)+

lemma map_res_eq: "map_res f xs = Inr ys \<Longrightarrow> (\<And>x y. x \<in> set xs \<Longrightarrow> f x = Inr y \<Longrightarrow> g x = h y) \<Longrightarrow> map g xs = map h ys"
proof -
  assume a: "map_res f xs = Inr ys" "\<And>x y. x \<in> set xs \<Longrightarrow> f x = Inr y \<Longrightarrow> g x = h y"
  from map_res_Inr[OF a(1)] a(2) show ?thesis by (induction rule: list_all2_induct) auto
qed

lemma map_all_eq: "map g xs = map h ys \<Longrightarrow> (\<forall>x\<in>set xs. g x) \<longleftrightarrow> (\<forall>y\<in>set ys. h y)"
  by (drule arg_cong[of _ _ "list_all id"]) (simp add: list_all_iff)

section \<open>Dates\<close>

lemma freshness_total: "dates_ok C \<Longrightarrow> s \<in> set (qa_sources C) \<Longrightarrow> \<exists>f. sourceFreshness s C = Inr f"
  unfolding dates_ok_def sourceFreshness_def assessSourceFreshness_def
  by (auto split: option.split) (metis ebind_simps(1))

lemma source_known: "sourceById C k = Some s \<Longrightarrow> s \<in> set (qa_sources C) \<and> qs_id s = k"
  unfolding sourceById_def by (rule by_id_Some)

lemma usable_link_mem:
  "(l, e, s) \<in> set (usable_links C k) \<longleftrightarrow>
     l \<in> set (qa_claimEvidence C) \<and> ql_claimId l = k \<and> evidenceById C (ql_evidenceId l) = Some e \<and>
     sourceById C (qe_sourceId e) = Some s"
  by (auto simp: usable_links_def map_filter_mem split: option.splits)

lemma assessments_total: "dates_ok C \<Longrightarrow> \<exists>items. assessments C k = Inr items"
  unfolding assessments_def
proof (rule map_res_total)
  fix x assume "dates_ok C" "x \<in> set (usable_links C k)"
  then show "\<exists>y. assessment C x = Inr y"
    using freshness_total[of C] source_known[of C] by (cases x) (fastforce simp: assessment_def usable_link_mem)
qed

section \<open>The support of a claim\<close>

lemma assessments_link:
  assumes "assessments C k = Inr items"
  shows "list_ex (\<lambda>a. as_relationship a = rel \<and> as_verificationStatus a = V_VERIFIED) items \<longleftrightarrow> verified_link C rel k"
proof -
  have e: "map (\<lambda>(l, e, s). ql_relationship l = rel \<and> qe_verificationStatus e = V_VERIFIED) (usable_links C k) =
      map (\<lambda>a. as_relationship a = rel \<and> as_verificationStatus a = V_VERIFIED) items"
    by (rule map_res_eq[OF assms[unfolded assessments_def]]) (auto simp: assessment_def ebind_Inr_iff)
  have "list_ex (\<lambda>a. as_relationship a = rel \<and> as_verificationStatus a = V_VERIFIED) items \<longleftrightarrow>
      True \<in> set (map (\<lambda>a. as_relationship a = rel \<and> as_verificationStatus a = V_VERIFIED) items)"
    by (auto simp: list_ex_iff)
  also have "\<dots> \<longleftrightarrow> (\<exists>l e s. (l, e, s) \<in> set (usable_links C k) \<and> ql_relationship l = rel \<and> qe_verificationStatus e = V_VERIFIED)"
    unfolding e[symmetric] by force
  also have "\<dots> \<longleftrightarrow> verified_link C rel k" unfolding usable_link_mem verified_link_def by blast
  finally show ?thesis .
qed

lemma contested_iff:
  "calculateClaimSupportStatus items possible = SUP_CONTESTED \<longleftrightarrow>
     possible \<noteq> Some False \<and>
     list_ex (\<lambda>a. as_relationship a = SUPPORTS \<and> as_verificationStatus a = V_VERIFIED) items \<and>
     list_ex (\<lambda>a. as_relationship a = REFUTES \<and> as_verificationStatus a = V_VERIFIED) items"
proof -
  have n: "0 < length (filter P xs) \<longleftrightarrow> list_ex P xs" for P :: "claim_assessment \<Rightarrow> bool" and xs
    by (auto simp: list_ex_iff filter_empty_conv)
  have r: "evidence_relationship.SUPPORTS \<noteq> CONTEXT" "REFUTES \<noteq> CONTEXT" by simp_all
  show ?thesis
    unfolding calculateClaimSupportStatus_def Let_def filter_filter n
    by (cases possible) (auto simp: list_ex_iff filter_empty_conv)
qed

section \<open>Citations\<close>

lemma citation_issues_none:
  "citation_issues_from known seen i vs = [] \<longleftrightarrow>
     distinct vs \<and> (\<forall>v\<in>set vs. isCitationId v \<and> v \<in> JStr ` set known \<and> v \<notin> JStr ` set seen)"
proof (induction vs arbitrary: seen i)
  case (Cons v vs)
  show ?case
  proof (cases "isCitationId v")
    case True
    then obtain s where "v = JStr s" by (cases v) auto
    then show ?thesis using True Cons.IH by auto
  qed (simp split: option.splits)
qed simp

lemma citations_iff: "findCitationIdIssues (rp_citationIds (qa_the_report C)) (map qs_id (qa_sources C)) = [] \<longleftrightarrow> citations_ready C"
  unfolding findCitationIdIssues_def citation_issues_none citations_ready_def by auto

section \<open>Blocking findings\<close>

lemma blocking_qaFinding [simp]: "isBlockingQaFinding (qaFinding c k l p r m) \<longleftrightarrow> rule_severity c = SEV_BLOCKER"
  by (simp add: isBlockingQaFinding_def qaFinding_def)

lemma allowed_append [simp]: "isQaApprovalAllowed (xs @ ys) \<longleftrightarrow> isQaApprovalAllowed xs \<and> isQaApprovalAllowed ys"
  by (simp add: isQaApprovalAllowed_def hasBlockingQaFindings_def)

lemma allowed_basic [simp]:
  "isQaApprovalAllowed []" "isQaApprovalAllowed (f # fs) \<longleftrightarrow> \<not> isBlockingQaFinding f \<and> isQaApprovalAllowed fs"
  by (simp_all add: isQaApprovalAllowed_def hasBlockingQaFindings_def)

lemma allowed_if [simp]: "isQaApprovalAllowed (if b then xs else ys) \<longleftrightarrow> (b \<longrightarrow> isQaApprovalAllowed xs) \<and> (\<not> b \<longrightarrow> isQaApprovalAllowed ys)"
  by simp

lemma allowed_concat: "isQaApprovalAllowed (concat fss) \<longleftrightarrow> (\<forall>fs\<in>set fss. isQaApprovalAllowed fs)"
  by (induction fss) auto

lemma allowed_mem: "isQaApprovalAllowed fs \<longleftrightarrow> (\<forall>f\<in>set fs. \<not> isBlockingQaFinding f)"
  by (simp add: isQaApprovalAllowed_def hasBlockingQaFindings_def list_ex_iff)

lemma advisory_rules:
  "isQaApprovalAllowed (duplicate_findings C)" "isQaApprovalAllowed (concentration_findings C)"
  "isQaApprovalAllowed (statement_findings t)" "isQaApprovalAllowed (unreferenced_findings C)"
proof -
  have "isQaApprovalAllowed (hash_duplicates firsts dups ss)" for firsts dups ss
    by (induction firsts dups ss rule: hash_duplicates.induct) (auto simp: duplicate_finding_def split: option.splits)
  moreover have "isQaApprovalAllowed (marked_duplicates ss)" for ss
    by (auto simp: allowed_mem marked_duplicates_def map_filter_mem duplicate_finding_def split: option.splits)
  ultimately show "isQaApprovalAllowed (duplicate_findings C)" by (simp add: duplicate_findings_def)
  show "isQaApprovalAllowed (concentration_findings C)"
    by (auto simp: allowed_mem concentration_findings_def map_filter_mem Let_def split: if_splits)
  show "isQaApprovalAllowed (statement_findings t)" by (simp add: statement_findings_def)
  show "isQaApprovalAllowed (unreferenced_findings C)" by (auto simp: allowed_mem unreferenced_findings_def)
qed

lemma outdated_advisory: "outdated_findings C = Inr fs \<Longrightarrow> isQaApprovalAllowed fs"
proof -
  assume "outdated_findings C = Inr fs"
  then obtain fss where m: "map_res (\<lambda>s. ebind (sourceFreshness s C) (\<lambda>fresh.
       Inr (if fresh = FR_OUTDATED
            then [qaFinding OUTDATED_SOURCE (qs_id s) (''source:'' @ qs_id s)
                    ''A source cited by the report is older than the project's maximum age.''
                    ''Replace it with a current source or document why the older source remains necessary.''
                    [(''sourceId'', JStr (qs_id s))]]
            else []))) (cited_sources C) = Inr fss" and fs: "fs = concat fss"
    by (auto simp: outdated_findings_def ebind_Inr_iff)
  have "map (\<lambda>_. True) (cited_sources C) = map isQaApprovalAllowed fss"
    by (rule map_res_eq[OF m]) (auto simp: ebind_Inr_iff)
  then have "\<forall>x\<in>set fss. isQaApprovalAllowed x" by (metis (full_types) list.set_map image_iff)
  then show ?thesis by (simp add: fs allowed_concat)
qed

lemma blocking_rules:
  "isQaApprovalAllowed (citation_findings C) \<longleftrightarrow> citations_ready C"
  "isQaApprovalAllowed (open_conflicts C) \<longleftrightarrow> (\<forall>x\<in>set (qa_conflicts C). qx_resolved x)"
  "isQaApprovalAllowed (gap_findings C) \<longleftrightarrow> (\<forall>g\<in>set (qa_researchGaps C). qg_gapStatus g \<noteq> GAP_OPEN)"
  "isQaApprovalAllowed (section_findings C) \<longleftrightarrow>
     (\<forall>s\<in>set (rp_sections (qa_the_report C)). qr_required s \<longrightarrow> js_trim (qr_content s) \<noteq> [])"
  "isQaApprovalAllowed (concat (map (number_findings C) (rp_quantitativeAssertions (qa_the_report C)))) \<longleftrightarrow> numbers_ready C"
proof -
  show "isQaApprovalAllowed (citation_findings C) \<longleftrightarrow> citations_ready C"
    unfolding citations_iff[symmetric] citation_findings_def
    by (cases "findCitationIdIssues (rp_citationIds (qa_the_report C)) (map qs_id (qa_sources C))") simp_all
  show "isQaApprovalAllowed (open_conflicts C) \<longleftrightarrow> (\<forall>x\<in>set (qa_conflicts C). qx_resolved x)"
    by (auto simp: allowed_mem open_conflicts_def)
  show "isQaApprovalAllowed (gap_findings C) \<longleftrightarrow> (\<forall>g\<in>set (qa_researchGaps C). qg_gapStatus g \<noteq> GAP_OPEN)"
    by (auto simp: allowed_mem gap_findings_def Let_def)
  show "isQaApprovalAllowed (section_findings C) \<longleftrightarrow>
     (\<forall>s\<in>set (rp_sections (qa_the_report C)). qr_required s \<longrightarrow> js_trim (qr_content s) \<noteq> [])"
    by (auto simp: allowed_mem section_findings_def)
  have "isQaApprovalAllowed (number_findings C a) \<longleftrightarrow> qq_valueMatchesSource a \<noteq> Some False \<and>
      (\<exists>k e. qq_evidenceId a = Some k \<and> k \<noteq> [] \<and> evidenceById C k = Some e \<and> qe_verificationStatus e = V_VERIFIED)" for a
    by (auto simp: number_findings_def Let_def truthy_def split: option.splits)
  then show "isQaApprovalAllowed (concat (map (number_findings C) (rp_quantitativeAssertions (qa_the_report C)))) \<longleftrightarrow> numbers_ready C"
    by (simp add: allowed_concat numbers_ready_def)
qed

lemma outdated_total:
  assumes "dates_ok C"
  shows "\<exists>fs. outdated_findings C = Inr fs"
proof -
  have "\<exists>f. sourceFreshness s C = Inr f" if "s \<in> set (cited_sources C)" for s
    using that freshness_total[OF assms] source_known[of C] by (auto simp: cited_sources_def map_filter_mem)
  then have "\<exists>fss. map_res (\<lambda>s. ebind (sourceFreshness s C) (\<lambda>fresh.
       Inr (if fresh = FR_OUTDATED
            then [qaFinding OUTDATED_SOURCE (qs_id s) (''source:'' @ qs_id s)
                    ''A source cited by the report is older than the project's maximum age.''
                    ''Replace it with a current source or document why the older source remains necessary.''
                    [(''sourceId'', JStr (qs_id s))]]
            else []))) (cited_sources C) = Inr fss"
    by (intro map_res_total) (metis ebind_simps(1))
  then show ?thesis unfolding outdated_findings_def by (elim exE) simp
qed

section \<open>The approval\<close>

lemma claims_checked:
  assumes "map_res (check_claim C) (qa_claims C) = Inr out"
  shows "isQaApprovalAllowed (concat (map snd out)) \<longleftrightarrow> claims_ready C"
    and "isQaApprovalAllowed (unrecorded_conflicts C (map fst out)) \<longleftrightarrow>
      (\<forall>c\<in>set (qa_claims C). contested C (qc_id c) \<longrightarrow>
        qc_id c \<noteq> [] \<and> (\<exists>x\<in>set (qa_conflicts C). qx_claimId x = Some (qc_id c)))"
proof -
  have "map (\<lambda>c. qc_includeInReport c \<and> key_importance (qc_importance c) \<longrightarrow> verified_link C SUPPORTS (qc_id c)) (qa_claims C) =
      map (isQaApprovalAllowed \<circ> snd) out"
    by (rule map_res_eq[OF assms]) (auto simp: check_claim_def ebind_Inr_iff Let_def assessments_link)
  then have "(\<forall>c\<in>set (qa_claims C). qc_includeInReport c \<and> key_importance (qc_importance c) \<longrightarrow> verified_link C SUPPORTS (qc_id c)) \<longleftrightarrow>
      (\<forall>x\<in>set out. isQaApprovalAllowed (snd x))"
    by (drule_tac map_all_eq) simp
  then show "isQaApprovalAllowed (concat (map snd out)) \<longleftrightarrow> claims_ready C"
    by (simp add: allowed_concat claims_ready_def)
  define st where "st c = (case assessments C (qc_id c) of Inl _ \<Rightarrow> SUP_UNSUPPORTED
      | Inr items \<Rightarrow> calculateClaimSupportStatus items (qc_verificationPossible c))" for c :: qa_claim
  have "map (\<lambda>c. (qc_id c, st c)) (qa_claims C) = map fst out"
    by (rule map_res_eq[OF assms]) (auto simp: check_claim_def ebind_Inr_iff Let_def st_def)
  then have m: "map_of (rev (map fst out)) k = map_option st (by_id qc_id (qa_claims C) k)" for k
    using by_id_map[of qc_id st] by metis
  have items: "\<exists>items. assessments C (qc_id c) = Inr items" if "c \<in> set (qa_claims C)" for c
    using that map_res_Inr[OF assms] by (auto simp: list_all2_conv_all_nth in_set_conv_nth check_claim_def ebind_Inr_iff)
  have s: "st c = SUP_CONTESTED \<longleftrightarrow> qc_verificationPossible c \<noteq> Some False \<and>
      verified_link C SUPPORTS (qc_id c) \<and> verified_link C REFUTES (qc_id c)" if "c \<in> set (qa_claims C)" for c
    using items[OF that] by (auto simp: st_def contested_iff assessments_link)
  have c: "map_of (rev (map fst out)) k = Some SUP_CONTESTED \<longleftrightarrow> contested C k" for k
    unfolding m contested_def using s by (auto dest: by_id_Some)
  show "isQaApprovalAllowed (unrecorded_conflicts C (map fst out)) \<longleftrightarrow>
      (\<forall>c\<in>set (qa_claims C). contested C (qc_id c) \<longrightarrow>
        qc_id c \<noteq> [] \<and> (\<exists>x\<in>set (qa_conflicts C). qx_claimId x = Some (qc_id c)))"
    unfolding unrecorded_conflicts_def allowed_mem c by (auto simp: list_ex_iff) (metis option.inject)
qed

text \<open>
  \<^bold>\<open>C21.\<close> The quality gate decides exactly what it stands for: when the dates can be read, the rules return, and approval
  is allowed if and only if every key claim of the report has verified support, the citations are well formed, distinct and known,
  every conflict is resolved and every contested claim has one on record, every number rests on verified evidence it does not
  contradict, no research gap is open and no required section is empty.
\<close>

theorem qa_gate_exact:
  assumes "dates_ok C"
  shows "\<exists>fs. runQaRules C = Inr fs \<and> (isQaApprovalAllowed fs \<longleftrightarrow> report_ready C)"
proof -
  have "\<exists>y. check_claim C c = Inr y" for c
    using assessments_total[OF assms, of "qc_id c"] by (auto simp: check_claim_def Let_def)
  then obtain out where claims: "map_res (check_claim C) (qa_claims C) = Inr out" using map_res_total by metis
  obtain outdated where old: "outdated_findings C = Inr outdated" using outdated_total[OF assms] by blast
  have "runQaRules C = Inr (concat (map snd out) @ citation_findings C @ outdated @ duplicate_findings C @ concentration_findings C @
      open_conflicts C @ unrecorded_conflicts C (map fst out) @
      concat (map statement_findings (rp_statements (qa_the_report C))) @
      concat (map (number_findings C) (rp_quantitativeAssertions (qa_the_report C))) @
      unreferenced_findings C @ gap_findings C @ section_findings C)"
    by (simp add: runQaRules_def claims old)
  moreover have "isQaApprovalAllowed (concat (map statement_findings ts))" for ts
    by (simp add: allowed_concat advisory_rules)
  ultimately show ?thesis
    using claims_checked[OF claims] outdated_advisory[OF old] blocking_rules[of C]
    by (simp add: report_ready_def conflicts_ready_def advisory_rules)
qed

section \<open>An example\<close>

definition demo_qa :: qa_context where
  "demo_qa =
     \<lparr>qa_researchDate = Date_text ''2024-03-01'', qa_sourceMaxAgeDays = Fin 365,
      qa_sources = [\<lparr>qs_id = ''s1'', qs_title = ''t'', qs_publisher = None, qs_publishedAt = Some (Date_text ''2024-02-29''),
        qs_contentHash = None, qs_duplicateOfSourceId = None\<rparr>],
      qa_evidence_items = [\<lparr>qe_id = ''e1'', qe_sourceId = ''s1'', qe_verificationStatus = V_VERIFIED\<rparr>],
      qa_claims = [\<lparr>qc_id = ''c1'', qc_content = ''c'', qc_importance = IMP_HIGH, qc_includeInReport = True,
        qc_verificationPossible = None\<rparr>],
      qa_claimEvidence = [\<lparr>ql_claimId = ''c1'', ql_evidenceId = ''e1'', ql_relationship = SUPPORTS, ql_supportExtent = None\<rparr>],
      qa_conflicts = [], qa_researchGaps = [],
      qa_the_report = \<lparr>rp_citationIds = [JStr ''s1''], rp_sections = [], rp_statements = [], rp_quantitativeAssertions = []\<rparr>\<rparr>"

theorem qa_gate_exact_witness:
  "runQaRules demo_qa = Inr [] \<and> (isQaApprovalAllowed [] \<longleftrightarrow> report_ready demo_qa)"
proof -
  have d: "utcDay (Date_text ''2024-03-01'') = Inr 1709251200000" "utcDay (Date_text ''2024-02-29'') = Inr 1709164800000"
    by code_simp+
  have "js_whole (Fin 365) = Some 365" by code_simp
  then have ok: "dates_ok demo_qa" by (simp add: dates_ok_def demo_qa_def d)
  have "runQaRules demo_qa = Inr []" by code_simp
  then show ?thesis using qa_gate_exact[OF ok] by simp
qed

end
