(* ===== verification/Operator_Auth.thy ===== *)
theory Operator_Auth
  imports Stage_Outputs
begin

text \<open>
  Operators and their sessions: \<open>lib/services/auth.ts\<close> with the pure parts of \<open>lib/auth\<close> (login throttling, CSRF, the
  requirements on the runtime, the gate of an API request). The cryptography is a parameter: HMAC and SHA-256 as functions,
  Argon2 as a verifier and a hash that is given its salt. \<open>clock_timestamp()\<close> is one value per transaction.
\<close>

section \<open>Tables\<close>

record operator_row =
  op_id :: string
  op_username :: string
  op_normalized_username :: string
  op_display_name :: string
  op_password_hash :: string
  op_password_version :: int
  op_is_active :: bool
  op_last_login_at :: "int option"
  op_password_changed_at :: int
  op_updated_at :: int

record session_row =
  os_id :: string
  os_operator_id :: string
  os_token_hash :: string
  os_csrf_token_hash :: string
  os_client_label :: "string option"
  os_client_fingerprint :: "string option"
  os_expires_at :: int
  os_last_seen_at :: int
  os_revoked_at :: "int option"
  os_revoke_reason :: "string option"
  os_created_at :: int

record rate_state =
  rs_attemptCount :: int
  rs_windowStartedAt :: int
  rs_blockedUntil :: "int option"

text \<open>\<open>operator_login_rate_limits\<close> maps the hash of a key to its state.\<close>

record auth_db =
  ad_operators :: "operator_row list"
  ad_sessions :: "session_row list"
  ad_rates :: "(string \<times> rate_state) list"
  ad_audit :: "audit_event list"

type_synonym 'a auth_tx = "(auth_db, 'a) tx"

record rate_config =
  rc_maximumAttempts :: int
  rc_windowSeconds :: int
  rc_blockSeconds :: int

record auth_env =
  ae_hashOpaqueToken :: "string \<Rightarrow> string"
  ae_sha256 :: "string \<Rightarrow> string"
  ae_verify :: "string \<Rightarrow> string \<Rightarrow> bool"
  ae_argon2 :: "string \<Rightarrow> string \<Rightarrow> string"
  ae_needsRehash :: "string \<Rightarrow> bool"
  ae_sessionTtlSeconds :: int
  ae_rate :: rate_config

text \<open>What an operation draws: an identifier, two tokens and a salt.\<close>

record auth_draws =
  dw_uuid :: string
  dw_sessionToken :: string
  dw_csrfToken :: string
  dw_salt :: string

section \<open>Login throttling\<close>

text \<open>The argument is \<open>Number(value)\<close>, when the variable is set.\<close>

definition boundedEnvironmentInteger :: "jsv option \<Rightarrow> int \<Rightarrow> int \<Rightarrow> int \<Rightarrow> app_error + int" where
  "boundedEnvironmentInteger value fallback minimum maximum =
     (let parsed = (case value of
                      None \<Rightarrow> Some fallback
                    | Some (JNum (Fin r)) \<Rightarrow> if of_int \<lfloor>r\<rfloor> = r then Some \<lfloor>r\<rfloor> else None
                    | Some _ \<Rightarrow> None) in
      case parsed of
        None \<Rightarrow> Inl (GenericError ''Login rate-limit value'')
      | Some n \<Rightarrow> if n < minimum \<or> n > maximum then Inl (GenericError ''Login rate-limit value'') else Inr n)"

definition getLoginRateLimitConfig :: "jsv option \<Rightarrow> jsv option \<Rightarrow> jsv option \<Rightarrow> app_error + rate_config" where
  "getLoginRateLimitConfig maxAttempts windowSeconds blockSeconds =
     ebind (boundedEnvironmentInteger maxAttempts 5 2 100) (\<lambda>m.
     ebind (boundedEnvironmentInteger windowSeconds 900 60 86400) (\<lambda>w.
     ebind (boundedEnvironmentInteger blockSeconds 900 60 86400) (\<lambda>b.
     Inr \<lparr>rc_maximumAttempts = m, rc_windowSeconds = w, rc_blockSeconds = b\<rparr>)))"

definition normalizeLoginRateLimitState :: "rate_state \<Rightarrow> int \<Rightarrow> rate_config \<Rightarrow> rate_state" where
  "normalizeLoginRateLimitState st now c =
     (if now - rs_windowStartedAt st \<ge> rc_windowSeconds c * 1000
      then \<lparr>rs_attemptCount = 0, rs_windowStartedAt = now, rs_blockedUntil = None\<rparr> else st)"

text \<open>\<open>Math.max(1, Math.ceil(ms / 1000))\<close>\<close>

definition loginRetryAfterSeconds :: "rate_state \<Rightarrow> int \<Rightarrow> int option" where
  "loginRetryAfterSeconds st now =
     (case rs_blockedUntil st of
        None \<Rightarrow> None
      | Some t \<Rightarrow> if t \<le> now then None else Some (max 1 (- ((- (t - now)) div 1000))))"

definition registerLoginFailure :: "rate_state \<Rightarrow> int \<Rightarrow> rate_config \<Rightarrow> rate_state" where
  "registerLoginFailure st now c =
     (let normalized = normalizeLoginRateLimitState st now c; attemptCount = rs_attemptCount normalized + 1 in
      \<lparr>rs_attemptCount = attemptCount, rs_windowStartedAt = rs_windowStartedAt normalized,
       rs_blockedUntil = (if attemptCount \<ge> rc_maximumAttempts c then Some (now + rc_blockSeconds c * 1000) else None)\<rparr>)"

definition loginRateLimitKey :: "auth_env \<Rightarrow> string \<Rightarrow> string" where
  "loginRateLimitKey A normalizedUsername = ae_hashOpaqueToken A (''operator-login'' @ [CHR 0x00] @ normalizedUsername)"

definition lockRateLimit :: "int \<Rightarrow> string \<Rightarrow> rate_state auth_tx" where
  "lockRateLimit now keyHash =
     tbind (gets (\<lambda>d. map_of (ad_rates d) keyHash)) (\<lambda>row.
     (case row of
        Some st \<Rightarrow> ret st
      | None \<Rightarrow>
          (let st = \<lparr>rs_attemptCount = 0, rs_windowStartedAt = now, rs_blockedUntil = None\<rparr> in
           tbind (modify (\<lambda>d. d\<lparr>ad_rates := ad_rates d @ [(keyHash, st)]\<rparr>)) (\<lambda>_. ret st))))"

definition saveRateLimit :: "string \<Rightarrow> rate_state \<Rightarrow> unit auth_tx" where
  "saveRateLimit keyHash st =
     modify (\<lambda>d. d\<lparr>ad_rates := map (\<lambda>(k, v). if k = keyHash then (k, st) else (k, v)) (ad_rates d)\<rparr>)"

definition clearRateLimit :: "string \<Rightarrow> unit auth_tx" where
  "clearRateLimit keyHash = modify (\<lambda>d. d\<lparr>ad_rates := filter (\<lambda>(k, _). k \<noteq> keyHash) (ad_rates d)\<rparr>)"

section \<open>Names and passwords\<close>

definition zod_error :: app_error where
  "zod_error = GenericError ''ZodError''"

text \<open>\<open>/^[a-zA-Z0-9][a-zA-Z0-9._-]*$/\<close> after \<open>trim\<close>, \<open>min(3)\<close> and \<open>max(64)\<close>\<close>

definition operatorUsernameSchema :: "string \<Rightarrow> app_error + string" where
  "operatorUsernameSchema v =
     (let t = js_trim v in
      if length t < 3 \<or> length t > 64 \<or> \<not> is_alnum (hd t) \<or> \<not> list_all (\<lambda>c. is_alnum c \<or> c \<in> set ''._-'') t
      then Inl zod_error else Inr t)"

definition text_between :: "nat \<Rightarrow> nat \<Rightarrow> string \<Rightarrow> app_error + string" where
  "text_between minimum maximum v = (if length v < minimum \<or> length v > maximum then Inl zod_error else Inr v)"

definition operatorPasswordSchema :: "string \<Rightarrow> app_error + string" where
  "operatorPasswordSchema = text_between 12 1024"

definition loginPasswordSchema :: "string \<Rightarrow> app_error + string" where
  "loginPasswordSchema = text_between 1 1024"

definition displayNameSchema :: "string \<Rightarrow> app_error + string" where
  "displayNameSchema v = text_between 1 120 (js_trim v)"

definition normalizeOperatorUsername :: "string \<Rightarrow> app_error + string" where
  "normalizeOperatorUsername v = ebind (operatorUsernameSchema v) (\<lambda>u. Inr (js_lower u))"

definition hashOperatorPassword :: "auth_env \<Rightarrow> string \<Rightarrow> string \<Rightarrow> app_error + string" where
  "hashOperatorPassword A salt password = ebind (operatorPasswordSchema password) (\<lambda>p. Inr (ae_argon2 A salt p))"

definition DUMMY_PASSWORD_HASH :: string where
  "DUMMY_PASSWORD_HASH =
     ''$argon2id$v=19$m=19456,p=1,t=2$R/7d4QaklF8XnUs4zzlLNA$WQ9R9FWVgf4/ZBU1M1ZnX9j3NrRkmUwcQyfhexhfYjE''"

definition verifyOperatorPassword :: "auth_env \<Rightarrow> string option \<Rightarrow> string \<Rightarrow> bool" where
  "verifyOperatorPassword A passwordHash password =
     ae_verify A (case passwordHash of None \<Rightarrow> DUMMY_PASSWORD_HASH | Some h \<Rightarrow> h) password"

section \<open>Views, clients and tokens\<close>

record operator_view =
  ov_id :: string
  ov_username :: string
  ov_displayName :: string
  ov_passwordChangedAt :: int
  ov_lastLoginAt :: "int option"

definition operatorView :: "operator_row \<Rightarrow> operator_view" where
  "operatorView o1 =
     \<lparr>ov_id = op_id o1, ov_username = op_username o1, ov_displayName = op_display_name o1,
      ov_passwordChangedAt = op_password_changed_at o1, ov_lastLoginAt = op_last_login_at o1\<rparr>"

definition sanitizeClientLabel :: "string option \<Rightarrow> string option" where
  "sanitizeClientLabel v =
     (case truthy v of
        None \<Rightarrow> None
      | Some s \<Rightarrow> truthy (Some (take 200 (js_trim (map (\<lambda>c. if is_control c then CHR '' '' else c) s)))))"

definition fingerprintClient :: "auth_env \<Rightarrow> string option \<Rightarrow> string option" where
  "fingerprintClient A v = map_option (ae_hashOpaqueToken A) (sanitizeClientLabel v)"

record client_context =
  cx_userAgent :: "string option"
  cx_clientAddress :: "string option"

definition sanitizedClientContext :: "auth_env \<Rightarrow> client_context \<Rightarrow> string option \<times> string option" where
  "sanitizedClientContext A c =
     (let label = sanitizeClientLabel (cx_userAgent c);
          source = case_option [] id (cx_clientAddress c) @ [CHR 0x00] @ case_option [] id label in
      (label, if source = [CHR 0x00] then None else fingerprintClient A (Some source)))"

definition timingSafeStringEqual :: "auth_env \<Rightarrow> string \<Rightarrow> string \<Rightarrow> bool" where
  "timingSafeStringEqual A left right \<longleftrightarrow> ae_sha256 A left = ae_sha256 A right"

definition csrf_invalid :: app_error where
  "csrf_invalid = AppError 403 ''CSRF_INVALID''"

definition assertCsrfToken :: "auth_env \<Rightarrow> string \<Rightarrow> string option \<Rightarrow> string option \<Rightarrow> app_error + unit" where
  "assertCsrfToken A expectedHash cookieToken headerToken =
     (case (truthy cookieToken, truthy headerToken) of
        (Some cookie, Some header) \<Rightarrow>
          if \<not> timingSafeStringEqual A cookie header \<or> \<not> timingSafeStringEqual A expectedHash (ae_hashOpaqueToken A header)
          then Inl csrf_invalid else Inr ()
      | _ \<Rightarrow> Inl csrf_invalid)"

text \<open>The origins are those of the parsed URLs; a request without an \<open>Origin\<close> header has \<open>None\<close>.\<close>

definition assertSameOrigin :: "bool \<Rightarrow> string option \<Rightarrow> string \<Rightarrow> string option \<Rightarrow> app_error + unit" where
  "assertSameOrigin production origin requestOrigin appUrlOrigin =
     (case truthy origin of
        None \<Rightarrow> if production then Inl (AppError 403 ''ORIGIN_REQUIRED'') else Inr ()
      | Some p \<Rightarrow>
          if p \<noteq> requestOrigin \<and> p \<noteq> case_option requestOrigin id appUrlOrigin then Inl (AppError 403 ''ORIGIN_MISMATCH'') else Inr ())"

definition safeRedirectPath :: "string option \<Rightarrow> string" where
  "safeRedirectPath v =
     (case truthy v of
        None \<Rightarrow> ''/''
      | Some s \<Rightarrow>
          if length s > 2048 \<or> \<not> starts_with ''/'' s \<or> starts_with ''//'' s \<or> CHR 0x5C \<in> set s \<or> list_ex is_control s
          then ''/'' else s)"

section \<open>Sessions\<close>

record new_session =
  ns_sessionId :: string
  ns_sessionToken :: string
  ns_csrfToken :: string
  ns_expiresAt :: int
  ns_operator :: operator_view

definition audit :: "audit_event \<Rightarrow> unit auth_tx" where
  "audit e = modify (\<lambda>d. d\<lparr>ad_audit := ad_audit d @ [e]\<rparr>)"

definition auth_event :: "actor_type \<Rightarrow> string \<Rightarrow> string \<Rightarrow> string \<Rightarrow> string option \<Rightarrow> jsv \<Rightarrow> audit_event" where
  "auth_event actorType label action resourceType resourceId after =
     \<lparr>au_project_id = None, au_actor_type = actorType, au_actor_label = label, au_action = action, au_resource_type = resourceType,
      au_resource_id = resourceId, au_before_state = None, au_after_state = Some after\<rparr>"

text \<open>The unique keys of \<open>operator_sessions\<close>: the identifier and the hash of the token.\<close>

definition insertSession ::
  "auth_env \<Rightarrow> int \<Rightarrow> auth_draws \<Rightarrow> operator_row \<Rightarrow> client_context \<Rightarrow> (string \<times> string) option \<Rightarrow> new_session auth_tx" where
  "insertSession A now D operator context tokens =
     (let sessionToken = (case tokens of None \<Rightarrow> dw_sessionToken D | Some (t, _) \<Rightarrow> t);
          csrfToken = (case tokens of None \<Rightarrow> dw_csrfToken D | Some (_, t) \<Rightarrow> t);
          (label, fingerprint) = sanitizedClientContext A context;
          row = \<lparr>os_id = dw_uuid D, os_operator_id = op_id operator, os_token_hash = ae_hashOpaqueToken A sessionToken,
                 os_csrf_token_hash = ae_hashOpaqueToken A csrfToken, os_client_label = label, os_client_fingerprint = fingerprint,
                 os_expires_at = now + ae_sessionTtlSeconds A * 1000, os_last_seen_at = now, os_revoked_at = None,
                 os_revoke_reason = None, os_created_at = now\<rparr> in
      tbind (gets (\<lambda>d. list_ex (\<lambda>s. os_id s = os_id row \<or> os_token_hash s = os_token_hash row) (ad_sessions d))) (\<lambda>clash.
      tbind (require (\<not> clash) (DbError ''unique_violation'')) (\<lambda>_.
      tbind (modify (\<lambda>d. d\<lparr>ad_sessions := ad_sessions d @ [row]\<rparr>)) (\<lambda>_.
      ret \<lparr>ns_sessionId = os_id row, ns_sessionToken = sessionToken, ns_csrfToken = csrfToken, ns_expiresAt = os_expires_at row,
           ns_operator = operatorView operator\<rparr>))))"

definition operator_of :: "auth_db \<Rightarrow> string \<Rightarrow> operator_row option" where
  "operator_of d k = find (\<lambda>p. op_id p = k) (ad_operators d)"

text \<open>The condition of the joins, with or without \<open>s.revoked_at IS NULL\<close>.\<close>

definition usable_session :: "bool \<Rightarrow> int \<Rightarrow> string \<Rightarrow> auth_db \<Rightarrow> session_row \<Rightarrow> bool" where
  "usable_session revokedToo now tokenHash d s \<longleftrightarrow>
     os_token_hash s = tokenHash \<and> (revokedToo \<or> os_revoked_at s = None) \<and> os_expires_at s > now \<and>
     (case operator_of d (os_operator_id s) of None \<Rightarrow> False | Some p \<Rightarrow> op_is_active p)"

definition loadSession :: "auth_env \<Rightarrow> bool \<Rightarrow> int \<Rightarrow> string \<Rightarrow> (session_row \<times> operator_row) option auth_tx" where
  "loadSession A revokedToo now sessionToken =
     gets (\<lambda>d.
       case find (usable_session revokedToo now (ae_hashOpaqueToken A sessionToken) d) (ad_sessions d) of
         None \<Rightarrow> None
       | Some s \<Rightarrow> (case operator_of d (os_operator_id s) of None \<Rightarrow> None | Some p \<Rightarrow> Some (s, p)))"

definition authentication_required :: app_error where
  "authentication_required = AppError 401 ''AUTHENTICATION_REQUIRED''"

record mutation_credentials =
  mc_sessionToken :: "string option"
  mc_csrfCookie :: "string option"
  mc_csrfHeader :: "string option"

definition require_session :: "auth_env \<Rightarrow> bool \<Rightarrow> int \<Rightarrow> mutation_credentials \<Rightarrow> (session_row \<times> operator_row) auth_tx" where
  "require_session A revokedToo now m =
     (case truthy (mc_sessionToken m) of
        None \<Rightarrow> raise authentication_required
      | Some token \<Rightarrow>
          tbind (loadSession A revokedToo now token) (\<lambda>found.
          (case found of
             None \<Rightarrow> raise authentication_required
           | Some (s, p) \<Rightarrow>
               tbind (lift_res (assertCsrfToken A (os_csrf_token_hash s) (mc_csrfCookie m) (mc_csrfHeader m))) (\<lambda>_. ret (s, p)))))"

definition requireMutationSession :: "auth_env \<Rightarrow> int \<Rightarrow> mutation_credentials \<Rightarrow> (session_row \<times> operator_row) auth_tx" where
  "requireMutationSession A now m = require_session A False now m"

text \<open>For the receipts of mutations, which may be replayed after the session was revoked.\<close>

definition requireAuthMutationContext :: "auth_env \<Rightarrow> int \<Rightarrow> mutation_credentials \<Rightarrow> (string \<times> string) auth_tx" where
  "requireAuthMutationContext A now m = tbind (require_session A True now m) (\<lambda>(s, p). ret (os_operator_id s, os_id s))"

record authenticated_session =
  as_sessionId :: string
  as_operator :: operator_view
  as_csrfTokenHash :: string
  as_expiresAt :: int

definition upd_session :: "(session_row \<Rightarrow> bool) \<Rightarrow> (session_row \<Rightarrow> session_row) \<Rightarrow> unit auth_tx" where
  "upd_session P f = modify (\<lambda>d. d\<lparr>ad_sessions := update_where P f (ad_sessions d)\<rparr>)"

definition getAuthenticatedOperatorSession :: "auth_env \<Rightarrow> int \<Rightarrow> string option \<Rightarrow> authenticated_session option auth_tx" where
  "getAuthenticatedOperatorSession A now sessionToken =
     (case truthy sessionToken of
        None \<Rightarrow> ret None
      | Some token \<Rightarrow>
          tbind (loadSession A False now token) (\<lambda>found.
          (case found of
             None \<Rightarrow> ret None
           | Some (s, p) \<Rightarrow>
               tbind (upd_session (\<lambda>r. os_id r = os_id s \<and> os_last_seen_at r < now - 300000) (\<lambda>r. r\<lparr>os_last_seen_at := now\<rparr>)) (\<lambda>_.
               ret (Some \<lparr>as_sessionId = os_id s, as_operator = operatorView p, as_csrfTokenHash = os_csrf_token_hash s,
                          as_expiresAt = os_expires_at s\<rparr>)))))"

definition requireAuthenticatedOperatorSession :: "auth_env \<Rightarrow> int \<Rightarrow> string option \<Rightarrow> authenticated_session auth_tx" where
  "requireAuthenticatedOperatorSession A now sessionToken =
     tbind (getAuthenticatedOperatorSession A now sessionToken) (\<lambda>r. from_some r authentication_required)"

definition listOperatorSessions :: "auth_env \<Rightarrow> int \<Rightarrow> string option \<Rightarrow> (operator_view \<times> (session_row \<times> bool) list) auth_tx" where
  "listOperatorSessions A now sessionToken =
     tbind (requireAuthenticatedOperatorSession A now sessionToken) (\<lambda>current.
     gets (\<lambda>d. (as_operator current,
       map (\<lambda>s. (s, os_id s = as_sessionId current))
         (take 100 (sort_key (\<lambda>s. - os_created_at s)
           (filter (\<lambda>s. os_operator_id s = ov_id (as_operator current) \<and> os_revoked_at s = None \<and> os_expires_at s > now)
              (ad_sessions d)))))))"

section \<open>Operations\<close>

definition createOperator :: "auth_env \<Rightarrow> int \<Rightarrow> auth_draws \<Rightarrow> string \<Rightarrow> string option \<Rightarrow> string \<Rightarrow> operator_view auth_tx" where
  "createOperator A now D username0 displayName0 password =
     tbind (lift_res (operatorUsernameSchema username0)) (\<lambda>username.
     tbind (lift_res (normalizeOperatorUsername username)) (\<lambda>normalizedUsername.
     tbind (lift_res (displayNameSchema (case_option username id displayName0))) (\<lambda>displayName.
     tbind (lift_res (hashOperatorPassword A (dw_salt D) password)) (\<lambda>passwordHash.
     (let row = \<lparr>op_id = dw_uuid D, op_username = username, op_normalized_username = normalizedUsername,
                 op_display_name = displayName, op_password_hash = passwordHash, op_password_version = 1, op_is_active = True,
                 op_last_login_at = None, op_password_changed_at = now, op_updated_at = now\<rparr> in
      tbind (gets (\<lambda>d. list_ex (\<lambda>p. op_id p = op_id row \<or> op_normalized_username p = normalizedUsername) (ad_operators d))) (\<lambda>clash.
      tbind (require (\<not> clash) (conflict ''OPERATOR_EXISTS'')) (\<lambda>_.
      tbind (modify (\<lambda>d. d\<lparr>ad_operators := ad_operators d @ [row]\<rparr>)) (\<lambda>_.
      tbind (audit (auth_event SYSTEM ''Operator bootstrap'' ''OPERATOR_CREATED'' ''operator'' (Some (op_id row))
               (JObj [(''username'', JStr username), (''displayName'', JStr displayName)]))) (\<lambda>_.
      ret (operatorView row))))))))))"

datatype login_outcome = Login_invalid | Login_limited int | Login_ok new_session

record login_input =
  li_username :: string
  li_password :: string
  li_tokens :: "(string \<times> string) option"
  li_context :: client_context

definition upd_operator :: "string \<Rightarrow> (operator_row \<Rightarrow> operator_row) \<Rightarrow> unit auth_tx" where
  "upd_operator k f = modify (\<lambda>d. d\<lparr>ad_operators := update_where (\<lambda>p. op_id p = k) f (ad_operators d)\<rparr>)"

definition limited_event :: "int \<Rightarrow> audit_event" where
  "limited_event seconds =
     auth_event SYSTEM ''Authentication service'' ''OPERATOR_LOGIN_RATE_LIMITED'' ''operator_session'' None
       (JObj [(''retryAfterSeconds'', js_int seconds)])"

text \<open>The end of a login whose password is right.\<close>

definition complete_login ::
  "auth_env \<Rightarrow> int \<Rightarrow> auth_draws \<Rightarrow> string \<Rightarrow> login_input \<Rightarrow> operator_row \<Rightarrow> login_outcome auth_tx" where
  "complete_login A now D rateLimitKey i operator =
     tbind (if ae_needsRehash A (op_password_hash operator)
            then tbind (lift_res (hashOperatorPassword A (dw_salt D) (li_password i))) (\<lambda>h.
                 upd_operator (op_id operator) (\<lambda>p. p\<lparr>op_password_hash := h, op_updated_at := now\<rparr>))
            else ret ()) (\<lambda>_.
     tbind (clearRateLimit rateLimitKey) (\<lambda>_.
     tbind (insertSession A now D operator (li_context i) (li_tokens i)) (\<lambda>session.
     tbind (upd_operator (op_id operator) (\<lambda>p. p\<lparr>op_last_login_at := Some now, op_updated_at := now\<rparr>)) (\<lambda>_.
     tbind (audit (auth_event USER (op_display_name operator) ''OPERATOR_LOGIN_SUCCEEDED'' ''operator_session''
              (Some (ns_sessionId session))
              (JObj [(''operatorId'', JStr (op_id operator)), (''expiresAt'', js_int (ns_expiresAt session))]))) (\<lambda>_.
     ret (Login_ok (session\<lparr>ns_operator := (ns_operator session)\<lparr>ov_lastLoginAt := Some now\<rparr>\<rparr>)))))))"

definition login_failed :: "auth_env \<Rightarrow> int \<Rightarrow> string \<Rightarrow> rate_state \<Rightarrow> login_outcome auth_tx" where
  "login_failed A now rateLimitKey normalizedRate =
     (let failedRate = registerLoginFailure normalizedRate now (ae_rate A);
          retryAfterSeconds = loginRetryAfterSeconds failedRate now in
      tbind (saveRateLimit rateLimitKey failedRate) (\<lambda>_.
      tbind (audit (auth_event SYSTEM ''Authentication service''
               (if retryAfterSeconds \<noteq> None then ''OPERATOR_LOGIN_RATE_LIMITED'' else ''OPERATOR_LOGIN_FAILED'') ''operator_session'' None
               (JObj [(''outcome'', JStr ''DENIED''),
                      (''retryAfterSeconds'', (case retryAfterSeconds of None \<Rightarrow> JNull | Some n \<Rightarrow> js_int n))]))) (\<lambda>_.
      ret (case retryAfterSeconds of Some n \<Rightarrow> Login_limited n | None \<Rightarrow> Login_invalid))))"

text \<open>The transaction of a login.\<close>

definition attempt_login :: "auth_env \<Rightarrow> int \<Rightarrow> auth_draws \<Rightarrow> login_input \<Rightarrow> string \<Rightarrow> string \<Rightarrow> login_outcome auth_tx" where
  "attempt_login A now D i normalizedUsername password =
     (let rateLimitKey = loginRateLimitKey A normalizedUsername in
      tbind (lockRateLimit now rateLimitKey) (\<lambda>lockedRate.
      (let normalizedRate = normalizeLoginRateLimitState lockedRate now (ae_rate A) in
       case loginRetryAfterSeconds normalizedRate now of
         Some seconds \<Rightarrow>
           tbind (saveRateLimit rateLimitKey normalizedRate) (\<lambda>_.
           tbind (audit (limited_event seconds)) (\<lambda>_.
           ret (Login_limited seconds)))
       | None \<Rightarrow>
           tbind (gets (\<lambda>d. find (\<lambda>p. op_normalized_username p = normalizedUsername) (ad_operators d))) (\<lambda>found.
           (case found of
              None \<Rightarrow> login_failed A now rateLimitKey normalizedRate
            | Some operator \<Rightarrow>
                if \<not> op_is_active operator \<or> \<not> verifyOperatorPassword A (Some (op_password_hash operator)) password
                then login_failed A now rateLimitKey normalizedRate
                else complete_login A now D rateLimitKey i operator)))))"

definition authenticateOperatorOutcome :: "auth_env \<Rightarrow> int \<Rightarrow> auth_draws \<Rightarrow> login_input \<Rightarrow> login_outcome auth_tx" where
  "authenticateOperatorOutcome A now D i =
     tbind (lift_res (operatorUsernameSchema (li_username i))) (\<lambda>username.
     tbind (lift_res (normalizeOperatorUsername username)) (\<lambda>normalizedUsername.
     tbind (lift_res (loginPasswordSchema (li_password i))) (\<lambda>password.
     attempt_login A now D i normalizedUsername password)))"

definition authenticateOperator :: "auth_env \<Rightarrow> int \<Rightarrow> auth_draws \<Rightarrow> login_input \<Rightarrow> auth_db \<Rightarrow> (app_error + new_session) \<times> auth_db" where
  "authenticateOperator A now D i d =
     (case withTransaction (authenticateOperatorOutcome A now D i) d of
        (Inl e, d') \<Rightarrow> (Inl e, d')
      | (Inr Login_invalid, d') \<Rightarrow> (Inl (AppError 401 ''INVALID_CREDENTIALS''), d')
      | (Inr (Login_limited _), d') \<Rightarrow> (Inl (AppError 429 ''LOGIN_RATE_LIMITED''), d')
      | (Inr (Login_ok s), d') \<Rightarrow> (Inr s, d'))"

definition revoke_row :: "int \<Rightarrow> string \<Rightarrow> session_row \<Rightarrow> session_row" where
  "revoke_row now reason s = s\<lparr>os_revoked_at := Some now, os_revoke_reason := Some reason\<rparr>"

definition logoutOperator :: "auth_env \<Rightarrow> int \<Rightarrow> mutation_credentials \<Rightarrow> unit auth_tx" where
  "logoutOperator A now m =
     tbind (requireMutationSession A now m) (\<lambda>(s, p).
     tbind (upd_session (\<lambda>r. os_id r = os_id s \<and> os_revoked_at r = None) (revoke_row now ''LOGOUT'')) (\<lambda>_.
     audit (auth_event USER (op_display_name p) ''OPERATOR_LOGOUT'' ''operator_session'' (Some (os_id s))
       (JObj [(''revoked'', JBool True)]))))"

datatype password_outcome = Password_invalid_current | Password_reused | Password_changed new_session

record password_input =
  pi_credentials :: mutation_credentials
  pi_currentPassword :: string
  pi_newPassword :: string
  pi_tokens :: "(string \<times> string) option"
  pi_context :: client_context

definition change_password ::
  "auth_env \<Rightarrow> int \<Rightarrow> auth_draws \<Rightarrow> password_input \<Rightarrow> string \<Rightarrow> operator_row \<Rightarrow> password_outcome auth_tx" where
  "change_password A now D i newPassword operator =
     tbind (lift_res (hashOperatorPassword A (dw_salt D) newPassword)) (\<lambda>passwordHash.
     tbind (upd_operator (op_id operator) (\<lambda>p. p\<lparr>op_password_hash := passwordHash, op_password_version := op_password_version p + 1,
              op_password_changed_at := now, op_updated_at := now\<rparr>)) (\<lambda>_.
     tbind (gets (\<lambda>d. length (filter (\<lambda>r. os_operator_id r = op_id operator \<and> os_revoked_at r = None) (ad_sessions d)))) (\<lambda>revoked.
     tbind (upd_session (\<lambda>r. os_operator_id r = op_id operator \<and> os_revoked_at r = None) (revoke_row now ''PASSWORD_CHANGED'')) (\<lambda>_.
     tbind (insertSession A now D (operator\<lparr>op_password_hash := passwordHash, op_password_changed_at := now\<rparr>)
              (pi_context i) (pi_tokens i)) (\<lambda>replacement.
     tbind (audit (auth_event USER (op_display_name operator) ''OPERATOR_PASSWORD_CHANGED'' ''operator'' (Some (op_id operator))
              (JObj [(''replacementSessionId'', JStr (ns_sessionId replacement)), (''revokedSessionCount'', js_int (int revoked))]))) (\<lambda>_.
     ret (Password_changed replacement)))))))"

text \<open>The branches of the transaction, once the session and the operator were read.\<close>

definition change_branch ::
  "auth_env \<Rightarrow> int \<Rightarrow> auth_draws \<Rightarrow> password_input \<Rightarrow> string \<Rightarrow> string \<Rightarrow> session_row \<Rightarrow> operator_row \<Rightarrow> operator_row option \<Rightarrow>
   password_outcome auth_tx" where
  "change_branch A now D i currentPassword newPassword s p found =
     (case (case found of None \<Rightarrow> None
            | Some q \<Rightarrow> if verifyOperatorPassword A (Some (op_password_hash q)) currentPassword then Some q else None) of
        None \<Rightarrow>
          tbind (audit (auth_event USER (op_display_name p) ''OPERATOR_PASSWORD_CHANGE_DENIED'' ''operator'' (Some (os_operator_id s))
                   (JObj [(''reason'', JStr ''INVALID_CURRENT_PASSWORD'')]))) (\<lambda>_.
          ret Password_invalid_current)
      | Some operator \<Rightarrow>
          if verifyOperatorPassword A (Some (op_password_hash operator)) newPassword then ret Password_reused
          else change_password A now D i newPassword operator)"

definition changeOperatorPasswordOutcome :: "auth_env \<Rightarrow> int \<Rightarrow> auth_draws \<Rightarrow> password_input \<Rightarrow> password_outcome auth_tx" where
  "changeOperatorPasswordOutcome A now D i =
     tbind (lift_res (loginPasswordSchema (pi_currentPassword i))) (\<lambda>currentPassword.
     tbind (lift_res (operatorPasswordSchema (pi_newPassword i))) (\<lambda>newPassword.
     tbind (requireMutationSession A now (pi_credentials i)) (\<lambda>(s, p).
     tbind (gets (\<lambda>d. find (\<lambda>q. op_id q = os_operator_id s \<and> op_is_active q) (ad_operators d))) (\<lambda>found.
     change_branch A now D i currentPassword newPassword s p found))))"

definition changeOperatorPassword ::
  "auth_env \<Rightarrow> int \<Rightarrow> auth_draws \<Rightarrow> password_input \<Rightarrow> auth_db \<Rightarrow> (app_error + new_session) \<times> auth_db" where
  "changeOperatorPassword A now D i d =
     (case withTransaction (changeOperatorPasswordOutcome A now D i) d of
        (Inl e, d') \<Rightarrow> (Inl e, d')
      | (Inr Password_invalid_current, d') \<Rightarrow> (Inl (AppError 401 ''INVALID_CURRENT_PASSWORD''), d')
      | (Inr Password_reused, d') \<Rightarrow> (Inl (conflict ''PASSWORD_REUSE''), d')
      | (Inr (Password_changed s), d') \<Rightarrow> (Inr s, d'))"

definition revokeOperatorSession :: "auth_env \<Rightarrow> int \<Rightarrow> mutation_credentials \<Rightarrow> string \<Rightarrow> bool auth_tx" where
  "revokeOperatorSession A now m targetSessionId =
     tbind (requireMutationSession A now m) (\<lambda>(s, p).
     tbind (gets (\<lambda>d. find (\<lambda>r. os_id r = targetSessionId \<and> os_operator_id r = os_operator_id s \<and> os_revoked_at r = None \<and>
              os_expires_at r > now) (ad_sessions d))) (\<lambda>target.
     tbind (from_some target (notFound ''Session'')) (\<lambda>_.
     tbind (upd_session (\<lambda>r. os_id r = targetSessionId) (revoke_row now ''OPERATOR_REQUEST'')) (\<lambda>_.
     tbind (audit (auth_event USER (op_display_name p) ''OPERATOR_SESSION_REVOKED'' ''operator_session'' (Some targetSessionId)
              (JObj [(''revokedCurrentSession'', JBool (targetSessionId = os_id s))]))) (\<lambda>_.
     ret (targetSessionId = os_id s))))))"

section \<open>The runtime and the gate of an API request\<close>

text \<open>The variables of \<open>process.env\<close> that are read; \<open>AUTH_SESSION_TTL_SECONDS\<close> is \<open>Number\<close> of its text.\<close>

record auth_variables =
  av_NODE_ENV :: "string option"
  av_AUTH_ENABLED :: "string option"
  av_DEMO_MODE :: "string option"
  av_AUTH_DEMO_BYPASS :: "string option"
  av_AUTH_COOKIE_SECURE :: "string option"
  av_APP_URL :: "string option"
  av_APP_BIND_HOST :: "string option"
  av_AUTH_SESSION_SECRET :: "string option"
  av_AUTH_SESSION_TTL_SECONDS :: "jsv option"

text \<open>What is read of a URL; the parser is a parameter, and \<open>None\<close> is its exception.\<close>

record url_view =
  uv_hostname :: string
  uv_origin :: string

type_synonym url_parser = "string \<Rightarrow> url_view option"

record auth_runtime =
  ar_authEnabled :: bool
  ar_demoAuthBypass :: bool
  ar_cookieSecure :: bool
  ar_sessionTtlSeconds :: int

definition isLoopbackHost :: "string \<Rightarrow> bool" where
  "isLoopbackHost hostname \<longleftrightarrow> hostname = ''localhost'' \<or> hostname = ''127.0.0.1'' \<or> hostname = ''[::1]''"

definition booleanValue :: "string option \<Rightarrow> string \<Rightarrow> app_error + bool" where
  "booleanValue v fallback =
     (let s = case_option fallback id v in
      if s = ''true'' then Inr True else if s = ''false'' then Inr False else Inl zod_error)"

definition positiveInteger :: "jsv option \<Rightarrow> int \<Rightarrow> int \<Rightarrow> int \<Rightarrow> app_error + int" where
  "positiveInteger value fallback minimum maximum =
     (let parsed = (case value of
                      None \<Rightarrow> Some fallback
                    | Some (JNum (Fin r)) \<Rightarrow> if of_int \<lfloor>r\<rfloor> = r then Some \<lfloor>r\<rfloor> else None
                    | Some _ \<Rightarrow> None) in
      case parsed of
        None \<Rightarrow> Inl (GenericError ''Authentication duration'')
      | Some n \<Rightarrow> if n < minimum \<or> n > maximum then Inl (GenericError ''Authentication duration'') else Inr n)"

definition parse_url :: "url_parser \<Rightarrow> string \<Rightarrow> app_error + url_view" where
  "parse_url U s = (case U s of None \<Rightarrow> Inl (GenericError ''TypeError'') | Some u \<Rightarrow> Inr u)"

definition in_production :: "auth_variables \<Rightarrow> bool" where
  "in_production V \<longleftrightarrow> av_NODE_ENV V = Some ''production''"

text \<open>An \<open>if (b) throw\<close>.\<close>

definition fail_if :: "bool \<Rightarrow> string \<Rightarrow> app_error + unit" where
  "fail_if b message = (if b then Inl (GenericError message) else Inr ())"

definition validateAuthRuntime :: "url_parser \<Rightarrow> auth_variables \<Rightarrow> app_error + auth_runtime" where
  "validateAuthRuntime U V =
     (let production = in_production V in
      ebind (booleanValue (av_AUTH_ENABLED V) ''true'') (\<lambda>authEnabled.
      ebind (booleanValue (av_DEMO_MODE V) ''true'') (\<lambda>demoMode.
      ebind (booleanValue (av_AUTH_DEMO_BYPASS V) ''false'') (\<lambda>demoAuthBypass.
      ebind (booleanValue (av_AUTH_COOKIE_SECURE V) (if production then ''true'' else ''false'')) (\<lambda>cookieSecure.
      ebind (parse_url U (case_option ''http://localhost:3100'' id (av_APP_URL V))) (\<lambda>appUrl.
      let bindHost = case_option ''127.0.0.1'' id (av_APP_BIND_HOST V) in
      ebind (fail_if (production \<and> \<not> authEnabled) ''AUTH_ENABLED must be true in production.'') (\<lambda>_.
      ebind (fail_if (production \<and> \<not> cookieSecure) ''AUTH_COOKIE_SECURE must be true in production.'') (\<lambda>_.
      ebind (fail_if (production \<and> (case truthy (av_AUTH_SESSION_SECRET V) of None \<Rightarrow> True | Some k \<Rightarrow> length (js_trim k) < 32))
               ''AUTH_SESSION_SECRET must contain at least 32 characters in production.'') (\<lambda>_.
      ebind (fail_if (demoAuthBypass \<and> \<not> demoMode) ''AUTH_DEMO_BYPASS requires DEMO_MODE=true.'') (\<lambda>_.
      ebind (fail_if (demoAuthBypass \<and> production) ''Authentication bypass is forbidden in production.'') (\<lambda>_.
      ebind (fail_if (demoAuthBypass \<and> \<not> isLoopbackHost (uv_hostname appUrl))
               ''Authentication bypass is allowed only on a loopback APP_URL.'') (\<lambda>_.
      ebind (fail_if (demoAuthBypass \<and> \<not> isLoopbackHost bindHost)
               ''Authentication bypass is allowed only on a loopback bind host.'') (\<lambda>_.
      ebind (positiveInteger (av_AUTH_SESSION_TTL_SECONDS V) 43200 300 2592000) (\<lambda>ttl.
      Inr \<lparr>ar_authEnabled = authEnabled, ar_demoAuthBypass = demoAuthBypass, ar_cookieSecure = cookieSecure,
           ar_sessionTtlSeconds = ttl\<rparr>))))))))))))))"

record api_request =
  aq_method :: string
  aq_url :: string
  aq_origin :: "string option"
  aq_cookie :: "string option"
  aq_csrfHeader :: "string option"

definition assertSameOriginOf :: "url_parser \<Rightarrow> auth_variables \<Rightarrow> api_request \<Rightarrow> app_error + unit" where
  "assertSameOriginOf U V q =
     (case truthy (aq_origin q) of
        None \<Rightarrow> assertSameOrigin (in_production V) None [] None
      | Some _ \<Rightarrow>
          ebind (parse_url U (aq_url q)) (\<lambda>requestUrl.
          (case truthy (av_APP_URL V) of
             None \<Rightarrow> assertSameOrigin (in_production V) (aq_origin q) (uv_origin requestUrl) None
           | Some a \<Rightarrow> ebind (parse_url U a) (\<lambda>appUrl.
               assertSameOrigin (in_production V) (aq_origin q) (uv_origin requestUrl) (Some (uv_origin appUrl))))))"

text \<open>\<open>decodeURIComponent\<close> is a parameter, and \<open>None\<close> is its exception.\<close>

definition requestCookie :: "(string \<Rightarrow> string option) \<Rightarrow> api_request \<Rightarrow> string \<Rightarrow> string option" where
  "requestCookie decode q cname =
     (case aq_cookie q of
        None \<Rightarrow> None
      | Some header \<Rightarrow>
          (case truthy (find (starts_with (cname @ ''='')) (map js_trim (split_on (CHR '';'') header))) of
             None \<Rightarrow> None
           | Some entry \<Rightarrow> decode (drop (length cname + 1) entry)))"

definition ascii_upper :: "char \<Rightarrow> char" where
  "ascii_upper c = (if is_lower c then char_of ((of_char c :: nat) - 32) else c)"

definition isUnsafeMethod :: "string \<Rightarrow> bool" where
  "isUnsafeMethod method \<longleftrightarrow> map ascii_upper method \<notin> {''GET'', ''HEAD'', ''OPTIONS''}"

datatype request_principal = Operator authenticated_session | Demo_bypass

text \<open>The queries of a request commit one by one: \<open>last_seen_at\<close> stays written when the CSRF check fails after it.\<close>

definition requireAuthenticatedApiRequest ::
  "url_parser \<Rightarrow> auth_variables \<Rightarrow> (string \<Rightarrow> string option) \<Rightarrow> auth_env \<Rightarrow> int \<Rightarrow> api_request \<Rightarrow> bool option \<Rightarrow> auth_db \<Rightarrow>
   (app_error + request_principal) \<times> auth_db" where
  "requireAuthenticatedApiRequest U V decode A now q mutationOption d =
     (let mutation = case_option (isUnsafeMethod (aq_method q)) id mutationOption in
      case ebind (validateAuthRuntime U V) (\<lambda>runtime.
           ebind (if mutation then assertSameOriginOf U V q else Inr ()) (\<lambda>_. Inr runtime)) of
        Inl e \<Rightarrow> (Inl e, d)
      | Inr runtime \<Rightarrow>
          if ar_demoAuthBypass runtime then (Inr Demo_bypass, d)
          else
            (case withTransaction (requireAuthenticatedOperatorSession A now (requestCookie decode q ''arw_session'')) d of
               (Inl e, d') \<Rightarrow> (Inl e, d')
             | (Inr session, d') \<Rightarrow>
                 (ebind (if mutation
                         then assertCsrfToken A (as_csrfTokenHash session) (requestCookie decode q ''arw_csrf'') (aq_csrfHeader q)
                         else Inr ()) (\<lambda>_. Inr (Operator session)), d')))"

text \<open>\<open>None\<close> is the redirect to the login page.\<close>

definition requirePageOperator ::
  "url_parser \<Rightarrow> auth_variables \<Rightarrow> auth_env \<Rightarrow> int \<Rightarrow> string option \<Rightarrow> request_principal option auth_tx" where
  "requirePageOperator U V A now sessionCookie =
     tbind (lift_res (validateAuthRuntime U V)) (\<lambda>runtime.
     if ar_demoAuthBypass runtime then ret (Some Demo_bypass)
     else tbind (getAuthenticatedOperatorSession A now sessionCookie) (\<lambda>session. ret (map_option Operator session)))"

definition principalAuditActor :: "request_principal \<Rightarrow> actor_type \<times> string" where
  "principalAuditActor p =
     (case p of
        Operator s \<Rightarrow> (USER, ov_displayName (as_operator s) @ '' ('' @ ov_username (as_operator s) @ '')'')
      | Demo_bypass \<Rightarrow> (USER, ''Local demo operator''))"

definition authCookieSecure :: "auth_variables \<Rightarrow> bool" where
  "authCookieSecure V =
     (if av_AUTH_COOKIE_SECURE V = Some ''true'' then True
      else if av_AUTH_COOKIE_SECURE V = Some ''false'' then False else in_production V)"

end
