(* ===== verification/Mutation_Receipts.thy ===== *)
theory Mutation_Receipts
  imports Operator_Auth
begin

text \<open>
  Idempotent mutations: \<open>lib/services/mutation-receipts.ts\<close>, the wrapper of the routes in \<open>lib/http.ts\<close> and the key of
  \<open>lib/operations/request.ts\<close>. The operation of a mutation is any transaction on the rest of the database; it runs inside
  the transaction of the receipt (\<open>withTransaction\<close> joins an open one). \<open>JSON.parse\<close> is used as a check only, which is a
  parameter here.
\<close>

section \<open>Receipts\<close>

datatype mutation_method = POST | PUT | PATCH | DELETE

record receipt_scope =
  mr_principalScope :: string
  mr_method :: mutation_method
  mr_requestPath :: string
  mr_idempotencyKey :: string
  mr_requestHash :: string

record receipt_row =
  rr_principal_scope :: string
  rr_method :: mutation_method
  rr_request_path :: string
  rr_idempotency_key :: string
  rr_request_hash :: string
  rr_response_status :: "int option"
  rr_response_body :: "string option"
  rr_created_at :: int
  rr_completed_at :: "int option"

text \<open>The receipts, and the rest of the database.\<close>

type_synonym ('s, 'a) receipt_tx = "(receipt_row list \<times> 's, 'a) tx"

record mutation_response =
  ms_responseStatus :: int
  ms_responseBody :: string

record receipt_result =
  mx_responseStatus :: int
  mx_responseBody :: string
  mx_replayed :: bool

definition MAX_RECEIPT_RESPONSE_BYTES :: nat where
  "MAX_RECEIPT_RESPONSE_BYTES = 4 * 1024 * 1024"

definition reusedKey :: app_error where
  "reusedKey = AppError 409 ''IDEMPOTENCY_KEY_REUSED''"

definition validateResponse :: "(string \<Rightarrow> bool) \<Rightarrow> mutation_response \<Rightarrow> app_error + unit" where
  "validateResponse parses r =
     (if ms_responseStatus r < 200 \<or> ms_responseStatus r > 499 then Inl (AppError 500 ''IDEMPOTENCY_RESPONSE_INVALID'')
      else if length (utf8_encode (ms_responseBody r)) > MAX_RECEIPT_RESPONSE_BYTES
      then Inl (AppError 500 ''IDEMPOTENCY_RESPONSE_TOO_LARGE'')
      else if \<not> parses (ms_responseBody r) then Inl (AppError 500 ''IDEMPOTENCY_RESPONSE_INVALID'')
      else Inr ())"

text \<open>The primary key of \<open>mutation_receipts\<close>.\<close>

definition receipt_of :: "receipt_scope \<Rightarrow> receipt_row \<Rightarrow> bool" where
  "receipt_of k r \<longleftrightarrow>
     rr_principal_scope r = mr_principalScope k \<and> rr_method r = mr_method k \<and> rr_request_path r = mr_requestPath k \<and>
     rr_idempotency_key r = mr_idempotencyKey k"

definition new_receipt :: "int \<Rightarrow> receipt_scope \<Rightarrow> receipt_row" where
  "new_receipt now k =
     \<lparr>rr_principal_scope = mr_principalScope k, rr_method = mr_method k, rr_request_path = mr_requestPath k,
      rr_idempotency_key = mr_idempotencyKey k, rr_request_hash = mr_requestHash k, rr_response_status = None,
      rr_response_body = None, rr_created_at = now, rr_completed_at = None\<rparr>"

text \<open>The \<open>CHECK\<close> of the column \<open>request_hash\<close>.\<close>

definition hash_check :: "string \<Rightarrow> bool" where
  "hash_check h \<longleftrightarrow> length h = 64 \<and> list_all (\<lambda>c. is_digit c \<or> c \<in> set ''abcdef'') h"

definition on_receipts :: "(receipt_row list \<Rightarrow> receipt_row list) \<Rightarrow> ('s, unit) receipt_tx" where
  "on_receipts f = modify (\<lambda>(rs, s). (f rs, s))"

definition inside :: "('s, 'a) tx \<Rightarrow> ('s, 'a) receipt_tx" where
  "inside m = (\<lambda>(rs, s). case m s of Inl e \<Rightarrow> Inl e | Inr (a, s') \<Rightarrow> Inr (a, (rs, s')))"

definition replay :: "receipt_scope \<Rightarrow> receipt_row \<Rightarrow> app_error + receipt_result" where
  "replay k receipt =
     (if rr_request_hash receipt \<noteq> mr_requestHash k then Inl reusedKey
      else
        (case (rr_response_status receipt, rr_response_body receipt) of
           (Some status, Some body) \<Rightarrow> Inr \<lparr>mx_responseStatus = status, mx_responseBody = body, mx_replayed = True\<rparr>
         | _ \<Rightarrow> Inl (AppError 409 ''IDEMPOTENCY_REQUEST_INCOMPLETE'')))"

definition complete_receipt :: "int \<Rightarrow> mutation_response \<Rightarrow> receipt_row \<Rightarrow> receipt_row" where
  "complete_receipt now response r =
     r\<lparr>rr_response_status := Some (ms_responseStatus response), rr_response_body := Some (ms_responseBody response),
       rr_completed_at := Some now\<rparr>"

definition executeIdempotentResponse ::
  "(string \<Rightarrow> bool) \<Rightarrow> int \<Rightarrow> receipt_scope \<Rightarrow> ('s, mutation_response) tx \<Rightarrow> ('s, receipt_result) receipt_tx" where
  "executeIdempotentResponse parses now k operation =
     tbind (require (hash_check (mr_requestHash k)) (DbError ''check_violation'')) (\<lambda>_.
     tbind (gets (\<lambda>(rs, s). find (receipt_of k) rs)) (\<lambda>existing.
     (case existing of
        Some receipt \<Rightarrow> lift_res (replay k receipt)
      | None \<Rightarrow>
          tbind (on_receipts (\<lambda>rs. rs @ [new_receipt now k])) (\<lambda>_.
          tbind (inside operation) (\<lambda>response.
          tbind (lift_res (validateResponse parses response)) (\<lambda>_.
          tbind (on_receipts (update_where (receipt_of k) (complete_receipt now response))) (\<lambda>_.
          ret \<lparr>mx_responseStatus = ms_responseStatus response, mx_responseBody = ms_responseBody response, mx_replayed = False\<rparr>)))))))"

text \<open>\<open>JSON.stringify({ data: await operation() })\<close>\<close>

definition data_body :: "js_env \<Rightarrow> jsv \<Rightarrow> string" where
  "data_body E v = (case json_text E (JObj [(''data'', v)]) of None \<Rightarrow> '''' | Some t \<Rightarrow> t)"

definition executeIdempotentMutation ::
  "(string \<Rightarrow> bool) \<Rightarrow> js_env \<Rightarrow> int \<Rightarrow> receipt_scope \<Rightarrow> int \<Rightarrow> ('s, jsv) tx \<Rightarrow> ('s, receipt_result) receipt_tx" where
  "executeIdempotentMutation parses E now k responseStatus operation =
     executeIdempotentResponse parses now k
       (tbind operation (\<lambda>v. ret \<lparr>ms_responseStatus = responseStatus, ms_responseBody = data_body E v\<rparr>))"

section \<open>The routes\<close>

text \<open>\<open>hq_pathname\<close> and \<open>hq_search\<close> are those of the parsed URL; the body is the list of the chunks its reader gives.\<close>

record http_request = api_request +
  hq_pathname :: string
  hq_search :: string
  hq_contentType :: "string option"
  hq_contentLength :: "string option"
  hq_idempotencyKey :: "string option"
  hq_body :: "string list option"

definition idempotencyKeySchema :: "string option \<Rightarrow> app_error + string" where
  "idempotencyKeySchema v =
     (case v of
        None \<Rightarrow> Inl zod_error
      | Some s \<Rightarrow>
          (let t = js_trim s in
           if length t < 8 \<or> length t > 200 \<or> \<not> list_all (\<lambda>c. is_alnum c \<or> c \<in> set ''._:-'') t then Inl zod_error else Inr t))"

definition requestIdempotencyKey :: "http_request \<Rightarrow> app_error + string" where
  "requestIdempotencyKey q = idempotencyKeySchema (hq_idempotencyKey q)"

definition requestQueryScope :: "http_request \<Rightarrow> string" where
  "requestQueryScope q = hq_search q"

definition principalScope :: "request_principal \<Rightarrow> string" where
  "principalScope p = (case p of Operator s \<Rightarrow> ''operator:'' @ ov_id (as_operator s) | Demo_bypass \<Rightarrow> ''demo-bypass'')"

definition MAX_CENTRAL_MUTATION_BODY_BYTES :: nat where
  "MAX_CENTRAL_MUTATION_BODY_BYTES = 4 * 1024 * 1024"

definition body_too_large :: app_error where
  "body_too_large = AppError 413 ''MUTATION_BODY_TOO_LARGE''"

text \<open>The \<open>while\<close> loop over the chunks, with the bytes read so far.\<close>

fun read_chunks :: "string \<Rightarrow> string list \<Rightarrow> app_error + string" where
  "read_chunks sofar [] = Inr sofar"
| "read_chunks sofar (chunk # chunks) =
     (if length sofar + length chunk > MAX_CENTRAL_MUTATION_BODY_BYTES then Inl body_too_large
      else read_chunks (sofar @ chunk) chunks)"

definition decimal :: "string \<Rightarrow> nat" where
  "decimal s = foldl (\<lambda>n c. 10 * n + (of_char c - 48)) 0 s"

definition content_type :: "http_request \<Rightarrow> string" where
  "content_type q = (case hq_contentType q of None \<Rightarrow> [] | Some t \<Rightarrow> js_lower t)"

definition boundedMutationBody :: "http_request \<Rightarrow> app_error + string" where
  "boundedMutationBody q =
     (if starts_with ''multipart/form-data'' (content_type q) then Inl (AppError 500 ''IDEMPOTENCY_MODE_REQUIRED'')
      else if (case truthy (hq_contentLength q) of None \<Rightarrow> False
               | Some l \<Rightarrow> list_all is_digit l \<and> decimal l > MAX_CENTRAL_MUTATION_BODY_BYTES)
      then Inl body_too_large
      else (case hq_body q of None \<Rightarrow> Inr [] | Some chunks \<Rightarrow> read_chunks [] chunks))"

definition mutationRequestHash :: "js_env \<Rightarrow> http_request \<Rightarrow> app_error + string" where
  "mutationRequestHash E q =
     ebind (boundedMutationBody q) (\<lambda>body.
     Inr (sha256_hex E (requestQueryScope q @ [CHR 0x00] @ content_type q @ [CHR 0x00] @ body)))"

datatype route_response = Route_data int string | Route_error nat string

definition routeErrorResponse :: "app_error \<Rightarrow> route_response" where
  "routeErrorResponse e =
     (if e = zod_error then Route_error 400 ''VALIDATION_ERROR''
      else if e = GenericError ''SyntaxError'' then Route_error 400 ''INVALID_JSON''
      else (case e of AppError status code \<Rightarrow> Route_error status code | _ \<Rightarrow> Route_error 500 ''INTERNAL_ERROR''))"

definition mutation_method_of :: "string \<Rightarrow> mutation_method option" where
  "mutation_method_of s =
     (let u = map ascii_upper s in
      if u = ''POST'' then Some POST else if u = ''PUT'' then Some PUT else if u = ''PATCH'' then Some PATCH
      else if u = ''DELETE'' then Some DELETE else None)"

record route_options =
  ro_status :: "int option"
  ro_mutation :: "bool option"
  ro_dedicated :: bool

record route_env =
  re_urls :: url_parser
  re_variables :: auth_variables
  re_decode :: "string \<Rightarrow> string option"
  re_auth :: auth_env
  re_js :: js_env
  re_parses :: "string \<Rightarrow> bool"

text \<open>
  A route on the receipts, the tables of the operators and the rest. Its operation gives a result and the state it leaves,
  also when it throws: it may consist of several transactions. Inside the transaction of a receipt they all join it.
\<close>

definition joined :: "('s \<Rightarrow> (app_error + 'a) \<times> 's) \<Rightarrow> ('s, 'a) tx" where
  "joined m = (\<lambda>s. case m s of (Inl e, _) \<Rightarrow> Inl e | (Inr v, s') \<Rightarrow> Inr (v, s'))"

definition receipt_scope_of :: "route_env \<Rightarrow> http_request \<Rightarrow> request_principal \<Rightarrow> app_error + receipt_scope" where
  "receipt_scope_of R q p =
     (case mutation_method_of (aq_method q) of
        None \<Rightarrow> Inl (AppError 500 ''IDEMPOTENCY_METHOD_UNSUPPORTED'')
      | Some method \<Rightarrow>
          ebind (requestIdempotencyKey q) (\<lambda>key.
          ebind (mutationRequestHash (re_js R) q) (\<lambda>hash.
          Inr \<lparr>mr_principalScope = principalScope p, mr_method = method, mr_requestPath = hq_pathname q,
               mr_idempotencyKey = key, mr_requestHash = hash\<rparr>)))"

definition handleAuthenticatedRoute ::
  "route_env \<Rightarrow> int \<Rightarrow> http_request \<Rightarrow> route_options \<Rightarrow> 
   (request_principal \<Rightarrow> auth_db \<times> 's \<Rightarrow> (app_error + jsv) \<times> auth_db \<times> 's) \<Rightarrow>
   receipt_row list \<times> auth_db \<times> 's \<Rightarrow> route_response \<times> receipt_row list \<times> auth_db \<times> 's" where
  "handleAuthenticatedRoute R now q opts operation = (\<lambda>(rs, d, s).
     (let mutation = case_option (isUnsafeMethod (aq_method q)) id (ro_mutation opts);
          status = case_option 200 id (ro_status opts) in
      case requireAuthenticatedApiRequest (re_urls R) (re_variables R) (re_decode R) (re_auth R) now
             (api_request.truncate q) (Some mutation) d of
        (Inl e, d') \<Rightarrow> (routeErrorResponse e, rs, d', s)
      | (Inr p, d') \<Rightarrow>
          if \<not> mutation \<or> ro_dedicated opts
          then (case operation p (d', s) of
                  (Inl e, ds) \<Rightarrow> (routeErrorResponse e, rs, ds)
                | (Inr v, ds) \<Rightarrow> (Route_data status (data_body (re_js R) v), rs, ds))
          else
            (case receipt_scope_of R q p of
               Inl e \<Rightarrow> (routeErrorResponse e, rs, d', s)
             | Inr k \<Rightarrow>
                 (case withTransaction (executeIdempotentMutation (re_parses R) (re_js R) now k status (joined (operation p))) (rs, d', s) of
                    (Inl e, w) \<Rightarrow> (routeErrorResponse e, w)
                  | (Inr receipt, w) \<Rightarrow> (Route_data (mx_responseStatus receipt) (mx_responseBody receipt), w)))))"

text \<open>
  The route that logs out (\<open>app/api/auth/logout/route.ts\<close>), which has a receipt of its own. The tokens are those of the
  cookies and the header of the request; the cookies of its response are not modelled.
\<close>

definition logout_operation :: "auth_env \<Rightarrow> int \<Rightarrow> mutation_credentials \<Rightarrow> (auth_db, jsv) tx" where
  "logout_operation A now m = tbind (logoutOperator A now m) (\<lambda>_. ret (JObj [(''authenticated'', JBool False)]))"

definition logout_scope :: "route_env \<Rightarrow> http_request \<Rightarrow> string \<times> string \<Rightarrow> app_error + receipt_scope" where
  "logout_scope R q context =
     ebind (requestIdempotencyKey q) (\<lambda>key.
     Inr \<lparr>mr_principalScope = ''operator:'' @ fst context @ '':session:'' @ snd context, mr_method = POST,
          mr_requestPath = hq_pathname q, mr_idempotencyKey = key,
          mr_requestHash = ae_hashOpaqueToken (re_auth R) (''auth-logout-v1'' @ [CHR 0x00] @ requestQueryScope q)\<rparr>)"

definition logoutRoute ::
  "route_env \<Rightarrow> int \<Rightarrow> http_request \<Rightarrow> mutation_credentials \<Rightarrow> receipt_row list \<times> auth_db \<Rightarrow>
   route_response \<times> receipt_row list \<times> auth_db" where
  "logoutRoute R now q m = (\<lambda>(rs, d).
     (case ebind (assertSameOriginOf (re_urls R) (re_variables R) (api_request.truncate q)) (\<lambda>_.
           ebind (validateAuthRuntime (re_urls R) (re_variables R)) (\<lambda>_.
           ebind (map_sum id fst (requireAuthMutationContext (re_auth R) now m d)) (\<lambda>context.
           logout_scope R q context))) of
        Inl e \<Rightarrow> (routeErrorResponse e, rs, d)
      | Inr k \<Rightarrow>
          (case withTransaction (executeIdempotentMutation (re_parses R) (re_js R) now k 200 (logout_operation (re_auth R) now m)) (rs, d) of
             (Inl e, w) \<Rightarrow> (routeErrorResponse e, w)
           | (Inr receipt, w) \<Rightarrow> (Route_data (mx_responseStatus receipt) (mx_responseBody receipt), w))))"

section \<open>The rate of a route\<close>

record rate_bucket =
  rb_count :: int
  rb_resetAt :: int

text \<open>The first part of \<open>x-forwarded-for\<close>, trimmed, or \<open>local\<close>; the buckets are a map of the process.\<close>

definition client_of :: "string option \<Rightarrow> string" where
  "client_of forwarded =
     (case forwarded of
        None \<Rightarrow> ''local''
      | Some f \<Rightarrow> (case js_trim (hd (split_on (CHR '','') f)) of [] \<Rightarrow> ''local'' | c # cs \<Rightarrow> c # cs))"

definition enforceRateLimit ::
  "int \<Rightarrow> string option \<Rightarrow> string \<Rightarrow> int \<Rightarrow> int \<Rightarrow> (string \<rightharpoonup> rate_bucket) \<Rightarrow> (app_error + unit) \<times> (string \<rightharpoonup> rate_bucket)" where
  "enforceRateLimit now forwarded scope limit windowMs buckets =
     (let key = scope @ '':'' @ client_of forwarded;
          fresh = (Inr (), buckets(key \<mapsto> \<lparr>rb_count = 1, rb_resetAt = now + windowMs\<rparr>)) in
      case buckets key of
        None \<Rightarrow> fresh
      | Some b \<Rightarrow>
          if rb_resetAt b \<le> now then fresh
          else if rb_count b \<ge> limit then (Inl (AppError 429 ''RATE_LIMITED''), buckets)
          else (Inr (), buckets(key \<mapsto> b\<lparr>rb_count := rb_count b + 1\<rparr>)))"

end
