(* ===== verification/Auth_Properties.thy ===== *)
theory Auth_Properties
  imports Operator_Auth Provider_Limit_Properties
begin

text \<open>
  What the operator accounts of \<open>Operator_Auth\<close> guarantee: a session that was revoked or has expired never authenticates
  again, a change of the password revokes every other session, the passwords of a name are guessed at a bounded rate, and
  an API request is let through only with a live session or by the bypass of a local demo.
\<close>

section \<open>Sessions only grow, and revocations stay\<close>

interpretation session_tbl: keyed_table os_token_hash .

definition session_kept :: "session_row \<Rightarrow> session_row \<Rightarrow> bool" where
  "session_kept s r \<longleftrightarrow>
     os_id r = os_id s \<and> os_operator_id r = os_operator_id s \<and> os_token_hash r = os_token_hash s \<and>
     os_csrf_token_hash r = os_csrf_token_hash s \<and> os_expires_at r = os_expires_at s \<and> (os_revoked_at s \<noteq> None \<longrightarrow> os_revoked_at r \<noteq> None)"

lemma session_kept_refl [simp]: "session_kept s s"
  by (simp add: session_kept_def)

lemma session_kept_trans: "session_kept s r \<Longrightarrow> session_kept r q \<Longrightarrow> session_kept s q"
  by (simp add: session_kept_def)

lemma kept_all_refl [simp]: "list_all2 session_kept xs xs"
  by (rule list_all2_refl) simp

definition sessions_grow :: "auth_db \<Rightarrow> auth_db \<Rightarrow> bool" where
  "sessions_grow d d' \<longleftrightarrow>
     (\<exists>old new. ad_sessions d' = old @ new \<and> list_all2 session_kept (ad_sessions d) old) \<and>
     (session_tbl.keys_distinct (ad_sessions d) \<longrightarrow> session_tbl.keys_distinct (ad_sessions d'))"

lemma sessions_growI:
  assumes "ad_sessions d' = old @ new" "list_all2 session_kept (ad_sessions d) old"
    and "session_tbl.keys_distinct (ad_sessions d) \<Longrightarrow> session_tbl.keys_distinct (ad_sessions d')"
  shows "sessions_grow d d'"
  using assms unfolding sessions_grow_def by blast

lemma sessions_grow_same: "ad_sessions d' = ad_sessions d \<Longrightarrow> sessions_grow d d'"
  by (rule sessions_growI[of _ "ad_sessions d" "[]"]) simp_all

lemma sessions_grow_trans:
  assumes "sessions_grow d e" "sessions_grow e f"
  shows "sessions_grow d f"
proof -
  from assms obtain o1 n1 o2 n2 where e: "ad_sessions e = o1 @ n1" "list_all2 session_kept (ad_sessions d) o1"
    and f: "ad_sessions f = o2 @ n2" "list_all2 session_kept (o1 @ n1) o2"
    unfolding sessions_grow_def by metis
  from f(2) obtain p q where "o2 = p @ q" "list_all2 session_kept o1 p" by (auto simp: list_all2_append1)
  moreover from this(2) have "list_all2 session_kept (ad_sessions d) p"
    using list_all2_trans[of session_kept session_kept session_kept, OF _ e(2)] session_kept_trans by blast
  ultimately show ?thesis
    using assms f(1) by (intro sessions_growI[of f p "q @ n2"]) (simp_all add: sessions_grow_def)
qed

interpretation sessions: tx_preorder sessions_grow
  by unfold_locales (auto intro: sessions_grow_same sessions_grow_trans)

lemma rel_sessions_frame: "(\<And>d. ad_sessions (f d) = ad_sessions d) \<Longrightarrow> sessions.rel (modify f)"
  by (auto simp: sessions.rel_def tx_simps intro: sessions_grow_same)

lemma rel_upd_session:
  assumes "\<And>r. session_kept r (f r)"
  shows "sessions.rel (upd_session P f)"
proof -
  have "list_all2 session_kept xs (update_where P f xs)" for xs
    by (simp add: update_where_def list.rel_map list.rel_refl assms)
  moreover have "session_tbl.keys_distinct (update_where P f xs) = session_tbl.keys_distinct xs" for xs
    by (rule session_tbl.keys_distinct_update_where) (use assms in \<open>simp add: session_kept_def\<close>)
  ultimately show ?thesis
    by (auto simp: sessions.rel_def upd_session_def tx_simps intro!: sessions_growI[of _ "update_where P f xs" "[]" for xs])
qed

lemma revoke_kept [simp]: "session_kept r (revoke_row now reason r)" "session_kept r (r\<lparr>os_last_seen_at := now\<rparr>)"
  by (simp_all add: session_kept_def revoke_row_def)

lemma insertSession_Inr:
  assumes "insertSession A now D p c tokens d = Inr (n, d')"
  shows "\<exists>row. d' = d\<lparr>ad_sessions := ad_sessions d @ [row]\<rparr> \<and> os_id row = ns_sessionId n \<and> os_operator_id row = op_id p \<and>
    os_token_hash row = ae_hashOpaqueToken A (ns_sessionToken n) \<and> os_csrf_token_hash row = ae_hashOpaqueToken A (ns_csrfToken n) \<and>
    os_expires_at row = now + ae_sessionTtlSeconds A * 1000 \<and> os_revoked_at row = None \<and>
    (\<forall>s\<in>set (ad_sessions d). os_id s \<noteq> os_id row \<and> os_token_hash s \<noteq> os_token_hash row)"
  using assms unfolding insertSession_def Let_def
  by (auto simp: tx_simps list_ex_iff split: prod.splits)

lemma rel_insertSession: "sessions.rel (insertSession A now D p c tokens)"
proof -
  have "sessions_grow d d'" if "insertSession A now D p c tokens d = Inr (n, d')" for d n d'
  proof -
    from insertSession_Inr[OF that] obtain row where row: "ad_sessions d' = ad_sessions d @ [row]"
      "\<forall>s\<in>set (ad_sessions d). os_token_hash s \<noteq> os_token_hash row" by auto
    then have "session_tbl.keys_distinct (ad_sessions d) \<Longrightarrow> session_tbl.keys_distinct (ad_sessions d')"
      unfolding row(1) session_tbl.keys_distinct_append by (metis imageE)
    with row(1) show ?thesis by (intro sessions_growI[of d' "ad_sessions d" "[row]"]) simp_all
  qed
  then show ?thesis by (auto simp: sessions.rel_def)
qed

lemmas auth_rel = sessions.rel_rules rel_upd_session rel_insertSession rel_sessions_frame revoke_kept




lemma rel_lift: "sessions.rel (lift_res r)" "sessions.rel (gets f)" "sessions.rel (ret x)" "sessions.rel (raise e)"
  by (rule auth_rel)+









section \<open>Runs of the service\<close>

text \<open>Everything but a login that may happen at time \<open>now\<close>, and then every operation.\<close>

inductive account_op :: "auth_env \<Rightarrow> int \<Rightarrow> auth_db \<Rightarrow> auth_db \<Rightarrow> bool" for A now d d' where
  create: "createOperator A now D u n p d = Inr (v, d') \<Longrightarrow> account_op A now d d'"
| lookup: "getAuthenticatedOperatorSession A now token d = Inr (r, d') \<Longrightarrow> account_op A now d d'"
| sessions: "listOperatorSessions A now token d = Inr (l, d') \<Longrightarrow> account_op A now d d'"
| logout: "logoutOperator A now m d = Inr (u, d') \<Longrightarrow> account_op A now d d'"
| password: "changeOperatorPassword A now D i d = (o1, d') \<Longrightarrow> account_op A now d d'"
| revoke: "revokeOperatorSession A now m target d = Inr (b, d') \<Longrightarrow> account_op A now d d'"



lemma password_state: "changeOperatorPassword A now D i d = (r, d') \<Longrightarrow> snd (withTransaction (changeOperatorPasswordOutcome A now D i) d) = d'"
  unfolding changeOperatorPassword_def by (auto split: prod.splits sum.splits password_outcome.splits)





section \<open>A dead session stays out\<close>






definition demo_operator :: operator_row where
  "demo_operator = \<lparr>op_id = ''o1'', op_username = ''ana'', op_normalized_username = ''ana'', op_display_name = ''Ana'',
     op_password_hash = ''#correct-horse'', op_password_version = 1, op_is_active = True, op_last_login_at = None,
     op_password_changed_at = 0, op_updated_at = 0\<rparr>"

definition demo_session :: session_row where
  "demo_session = \<lparr>os_id = ''s1'', os_operator_id = ''o1'', os_token_hash = ''hT1'', os_csrf_token_hash = ''hC1'',
     os_client_label = None, os_client_fingerprint = None, os_expires_at = 100000, os_last_seen_at = 0, os_revoked_at = None,
     os_revoke_reason = None, os_created_at = 0\<rparr>"

definition demo_auth :: auth_env where
  "demo_auth = \<lparr>ae_hashOpaqueToken = (\<lambda>t. CHR ''h'' # t), ae_sha256 = (\<lambda>t. t), ae_verify = (\<lambda>h p. h = CHR ''#'' # p),
     ae_argon2 = (\<lambda>salt p. CHR ''#'' # p), ae_needsRehash = (\<lambda>h. False), ae_sessionTtlSeconds = 43200,
     ae_rate = \<lparr>rc_maximumAttempts = 5, rc_windowSeconds = 900, rc_blockSeconds = 900\<rparr>\<rparr>"

definition demo_auth_db :: auth_db where
  "demo_auth_db = \<lparr>ad_operators = [demo_operator], ad_sessions = [demo_session], ad_rates = [], ad_audit = []\<rparr>"

definition demo_credentials :: mutation_credentials where
  "demo_credentials = \<lparr>mc_sessionToken = Some ''T1'', mc_csrfCookie = Some ''C1'', mc_csrfHeader = Some ''C1''\<rparr>"

definition demo_draws :: auth_draws where
  "demo_draws = \<lparr>dw_uuid = ''s2'', dw_sessionToken = ''T2'', dw_csrfToken = ''C2'', dw_salt = ''salt''\<rparr>"

definition demo_login :: login_input where
  "demo_login = \<lparr>li_username = ''ana'', li_password = ''correct-horse'', li_tokens = None,
     li_context = \<lparr>cx_userAgent = None, cx_clientAddress = None\<rparr>\<rparr>"

definition demo_password :: password_input where
  "demo_password = \<lparr>pi_credentials = demo_credentials, pi_currentPassword = ''correct-horse'', pi_newPassword = ''battery-staple'',
     pi_tokens = None, pi_context = \<lparr>cx_userAgent = None, cx_clientAddress = None\<rparr>\<rparr>"

definition demo_logged_out :: auth_db where
  "demo_logged_out = (case logoutOperator demo_auth 10 demo_credentials demo_auth_db of Inr (u, d) \<Rightarrow> d)"

text \<open>The operator logs out and logs in again; the token of the first session is presented later.\<close>

lemma demo_logout: "logoutOperator demo_auth 10 demo_credentials demo_auth_db = Inr ((), demo_logged_out)"
  by code_simp






section \<open>A change of the password\<close>

lemma mutation_Inr:
  assumes "requireMutationSession A now m d = Inr ((s, p), d')"
  shows "d' = d \<and> (\<exists>token header. mc_sessionToken m = Some token \<and> s \<in> set (ad_sessions d) \<and>
    usable_session False now (ae_hashOpaqueToken A token) d s \<and> operator_of d (os_operator_id s) = Some p \<and>
    mc_csrfHeader m = Some header \<and> ae_sha256 A (os_csrf_token_hash s) = ae_sha256 A (ae_hashOpaqueToken A header))"
  using assms unfolding requireMutationSession_def require_session_def loadSession_def assertCsrfToken_def timingSafeStringEqual_def
  by (auto simp: tx_simps split: option.splits if_splits dest!: truthy_Some find_SomeD)

lemma operator_of_upd:
  assumes "\<And>p. op_id (f p) = op_id p" "operator_of d k = Some p"
  shows "find (\<lambda>p. op_id p = k) (update_where (\<lambda>p. op_id p = k) f (ad_operators d)) = Some (f p)"
proof -
  have "find (\<lambda>p. op_id p = k) (update_where (\<lambda>p. op_id p = k) f ps) = map_option f (find (\<lambda>p. op_id p = k) ps)" for ps
    by (induction ps) (auto simp: update_where_def assms(1))
  then show ?thesis using assms(2) by (simp add: operator_of_def)
qed

interpretation operator_tbl: keyed_table op_id .

lemma active_operator:
  assumes "find (\<lambda>q. op_id q = k \<and> op_is_active q) ps = Some q" "distinct (map op_id ps)"
  shows "find (\<lambda>p. op_id p = k) ps = Some q"
  using operator_tbl.lookup_mem[of ps q] assms find_SomeD[OF assms(1)]
  by (simp add: operator_tbl.lookup_def operator_tbl.keys_distinct_def)

text \<open>What is left of the sessions when those of one operator were revoked.\<close>

lemma revoked_sessions:
  "filter (\<lambda>r. os_operator_id r = k \<and> os_revoked_at r = None)
     (update_where (\<lambda>r. os_operator_id r = k \<and> os_revoked_at r = None) (revoke_row now reason) xs) = []"
  "filter (\<lambda>r. os_operator_id r \<noteq> k)
     (update_where (\<lambda>r. os_operator_id r = k \<and> os_revoked_at r = None) (revoke_row now reason) xs) =
   filter (\<lambda>r. os_operator_id r \<noteq> k) xs"
  by (induction xs) (auto simp: update_where_def revoke_row_def)

lemma change_password_Inr:
  assumes "change_password A now D i newPassword q d = Inr (o1, d')" "operator_of d (op_id q) = Some q"
  shows "\<exists>n. o1 = Password_changed n \<and> (\<exists>p'. operator_of d' (op_id q) = Some p' \<and>
      op_password_hash p' = ae_argon2 A (dw_salt D) newPassword \<and> op_password_version p' = op_password_version q + 1) \<and>
    map os_id (filter (\<lambda>r. os_operator_id r = op_id q \<and> os_revoked_at r = None) (ad_sessions d')) = [ns_sessionId n] \<and>
    filter (\<lambda>r. os_operator_id r \<noteq> op_id q) (ad_sessions d') = filter (\<lambda>r. os_operator_id r \<noteq> op_id q) (ad_sessions d)"
proof -
  let ?f = "\<lambda>p. p\<lparr>op_password_hash := ae_argon2 A (dw_salt D) newPassword, op_password_version := op_password_version p + 1,
      op_password_changed_at := now, op_updated_at := now\<rparr>"
  let ?e = "d\<lparr>ad_operators := update_where (\<lambda>p. op_id p = op_id q) ?f (ad_operators d)\<rparr>"
  let ?S = "update_where (\<lambda>r. os_operator_id r = op_id q \<and> os_revoked_at r = None) (revoke_row now ''PASSWORD_CHANGED'') (ad_sessions d)"
  have p': "find (\<lambda>p. op_id p = op_id q) (ad_operators ?e) = Some (?f q)"
    using operator_of_upd[of ?f d "op_id q" q] assms(2) by simp
  from assms(1) obtain n e where n: "o1 = Password_changed n"
    and e: "insertSession A now D (q\<lparr>op_password_hash := ae_argon2 A (dw_salt D) newPassword, op_password_changed_at := now\<rparr>)
        (pi_context i) (pi_tokens i) (?e\<lparr>ad_sessions := ?S\<rparr>) = Inr (n, e)"
    and d': "ad_operators d' = ad_operators e" "ad_sessions d' = ad_sessions e"
    unfolding change_password_def hashOperatorPassword_def operatorPasswordSchema_def text_between_def
    by (auto simp: tx_simps upd_operator_def upd_session_def audit_def split: if_splits)
  from insertSession_Inr[OF e] obtain row where row: "e = ?e\<lparr>ad_sessions := ?S @ [row]\<rparr>" "os_id row = ns_sessionId n"
    "os_operator_id row = op_id q" "os_revoked_at row = None" by auto
  show ?thesis using p' n d' row revoked_sessions[of "op_id q"] by (auto simp: operator_of_def)
qed

lemma change_branch_changed:
  assumes "change_branch A now D i currentPassword newPassword s p found d = Inr (Password_changed n, d')"
  obtains q where "found = Some q" "verifyOperatorPassword A (Some (op_password_hash q)) currentPassword"
    "\<not> verifyOperatorPassword A (Some (op_password_hash q)) newPassword"
    "change_password A now D i newPassword q d = Inr (Password_changed n, d')"
  using assms unfolding change_branch_def by (auto simp: tx_simps split: option.splits if_splits)

text \<open>\<^bold>\<open>C12.\<close> A password is changed only by the holder of a live session who presents its CSRF token and the current password,
  and for a different one. Then the stored hash is that of the new password, the version of the password goes up by one,
  every session of the operator, the calling one included, is revoked, and the only session it has left is the replacement
  that the call returns; the sessions of other operators are as they were.\<close>

theorem changeOperatorPassword_revokes:
  assumes "changeOperatorPassword A now D i d = (Inr n, d')" "distinct (map op_id (ad_operators d))"
  shows "\<exists>token header s q q'. mc_sessionToken (pi_credentials i) = Some token \<and> s \<in> set (ad_sessions d) \<and>
    usable_session False now (ae_hashOpaqueToken A token) d s \<and> os_operator_id s = op_id q \<and>
    mc_csrfHeader (pi_credentials i) = Some header \<and> ae_sha256 A (os_csrf_token_hash s) = ae_sha256 A (ae_hashOpaqueToken A header) \<and>
    operator_of d (op_id q) = Some q \<and> ae_verify A (op_password_hash q) (pi_currentPassword i) \<and>
    \<not> ae_verify A (op_password_hash q) (pi_newPassword i) \<and>
    operator_of d' (op_id q) = Some q' \<and> op_password_hash q' = ae_argon2 A (dw_salt D) (pi_newPassword i) \<and>
    op_password_version q' = op_password_version q + 1 \<and>
    map os_id (filter (\<lambda>r. os_operator_id r = op_id q \<and> os_revoked_at r = None) (ad_sessions d')) = [ns_sessionId n] \<and>
    filter (\<lambda>r. os_operator_id r \<noteq> op_id q) (ad_sessions d') = filter (\<lambda>r. os_operator_id r \<noteq> op_id q) (ad_sessions d)"
proof -
  have "changeOperatorPasswordOutcome A now D i d = Inr (Password_changed n, d')"
    using assms(1) unfolding changeOperatorPassword_def withTransaction_def
    by (auto split: sum.splits prod.splits password_outcome.splits)
  then obtain s p e where m0: "requireMutationSession A now (pi_credentials i) d = Inr ((s, p), e)"
    and body: "tbind (gets (\<lambda>d. find (\<lambda>q. op_id q = os_operator_id s \<and> op_is_active q) (ad_operators d)))
      (\<lambda>found. change_branch A now D i (pi_currentPassword i) (pi_newPassword i) s p found) e = Inr (Password_changed n, d')"
    unfolding changeOperatorPasswordOutcome_def loginPasswordSchema_def operatorPasswordSchema_def text_between_def
    by (auto elim!: tx_elims simp: tx_simps split: if_splits)
  have m: "requireMutationSession A now (pi_credentials i) d = Inr ((s, p), d)" and e: "e = d"
    using m0 mutation_Inr[OF m0] by simp_all
  from body obtain q where f: "find (\<lambda>q. op_id q = os_operator_id s \<and> op_is_active q) (ad_operators d) = Some q"
    and v: "verifyOperatorPassword A (Some (op_password_hash q)) (pi_currentPassword i)"
      "\<not> verifyOperatorPassword A (Some (op_password_hash q)) (pi_newPassword i)"
    and c: "change_password A now D i (pi_newPassword i) q d = Inr (Password_changed n, d')"
    unfolding e by (elim tbind_getsE change_branch_changed)
  from f have q: "op_id q = os_operator_id s" by (auto dest: find_SomeD)
  have "operator_of d (op_id q) = Some q" using active_operator[OF f assms(2)] q by (simp add: operator_of_def)
  from change_password_Inr[OF c this] obtain q' where outcome: "operator_of d' (op_id q) = Some q'"
    "op_password_hash q' = ae_argon2 A (dw_salt D) (pi_newPassword i)" "op_password_version q' = op_password_version q + 1"
    "map os_id (filter (\<lambda>r. os_operator_id r = op_id q \<and> os_revoked_at r = None) (ad_sessions d')) = [ns_sessionId n]"
    "filter (\<lambda>r. os_operator_id r \<noteq> op_id q) (ad_sessions d') = filter (\<lambda>r. os_operator_id r \<noteq> op_id q) (ad_sessions d)"
    by auto
  from mutation_Inr[OF m] obtain token header where "mc_sessionToken (pi_credentials i) = Some token" "s \<in> set (ad_sessions d)"
    "usable_session False now (ae_hashOpaqueToken A token) d s" "mc_csrfHeader (pi_credentials i) = Some header"
    "ae_sha256 A (os_csrf_token_hash s) = ae_sha256 A (ae_hashOpaqueToken A header)" by auto
  moreover have "ae_verify A (op_password_hash q) (pi_currentPassword i)" "\<not> ae_verify A (op_password_hash q) (pi_newPassword i)"
    using v by (simp_all add: verifyOperatorPassword_def)
  ultimately show ?thesis using \<open>operator_of d (op_id q) = Some q\<close> q[symmetric] outcome
    by (intro exI[of _ token] exI[of _ header] exI[of _ s] exI[of _ q] exI[of _ q'] conjI)
qed

lemma changeOperatorPassword_revokes_witness:
  "\<exists>n d' q'. changeOperatorPassword demo_auth 10 demo_draws demo_password demo_auth_db = (Inr n, d') \<and> ns_sessionId n = ''s2'' \<and>
    operator_of d' ''o1'' = Some q' \<and> op_password_version q' = 2 \<and>
    map os_id (filter (\<lambda>r. os_operator_id r = ''o1'' \<and> os_revoked_at r = None) (ad_sessions d')) = [''s2'']"
proof -
  obtain r d' where e: "changeOperatorPassword demo_auth 10 demo_draws demo_password demo_auth_db = (r, d')" by fastforce
  have "(case changeOperatorPassword demo_auth 10 demo_draws demo_password demo_auth_db of
      (Inr n, d') \<Rightarrow> ns_sessionId n = ''s2'' | _ \<Rightarrow> False)" by code_simp
  with e obtain n where r: "r = Inr n" and n: "ns_sessionId n = ''s2''" by (auto split: sum.splits)
  have d: "distinct (map op_id (ad_operators demo_auth_db))" by code_simp
  have one: "operator_of demo_auth_db k = Some q \<Longrightarrow> q = demo_operator" for k q
    by (auto simp: operator_of_def demo_auth_db_def split: if_splits)
  have "op_id demo_operator = ''o1''" "op_password_version demo_operator = 1" by (simp_all add: demo_operator_def)
  then show ?thesis
    using changeOperatorPassword_revokes[OF e[unfolded r] d] e r n one by fastforce
qed

section \<open>Guessing a password\<close>

text \<open>The key a login is counted under, and whether it is refused before its password is looked at.\<close>

definition login_key :: "auth_env \<Rightarrow> login_input \<Rightarrow> string option" where
  "login_key A i = (case ebind (operatorUsernameSchema (li_username i)) normalizeOperatorUsername of
     Inl e \<Rightarrow> None | Inr u \<Rightarrow> Some (loginRateLimitKey A u))"

definition current_rate :: "auth_env \<Rightarrow> int \<Rightarrow> string \<Rightarrow> auth_db \<Rightarrow> rate_state" where
  "current_rate A now key d =
     normalizeLoginRateLimitState
       (case map_of (ad_rates d) key of
          Some st \<Rightarrow> st | None \<Rightarrow> \<lparr>rs_attemptCount = 0, rs_windowStartedAt = now, rs_blockedUntil = None\<rparr>) now (ae_rate A)"

definition login_blocked :: "auth_env \<Rightarrow> int \<Rightarrow> string \<Rightarrow> auth_db \<Rightarrow> bool" where
  "login_blocked A now key d \<longleftrightarrow> loginRetryAfterSeconds (current_rate A now key d) now \<noteq> None"

fun refused_login :: "app_error + login_outcome \<Rightarrow> bool" where
  "refused_login (Inr Login_invalid) = True"
| "refused_login (Inr (Login_limited n)) = True"
| "refused_login r = False"

text \<open>
  A run of the service in which no login under \<open>key\<close> succeeds, with the times at which a password was checked under \<open>key\<close>
  and found wrong.
\<close>

inductive guess_step :: "auth_env \<Rightarrow> string \<Rightarrow> int \<times> auth_db \<times> int list \<Rightarrow> int \<times> auth_db \<times> int list \<Rightarrow> bool" for A key where
  account: "t \<le> now \<Longrightarrow> account_op A now d d' \<Longrightarrow> guess_step A key (t, d, ts) (now, d', ts)"
| login: "t \<le> now \<Longrightarrow> withTransaction (authenticateOperatorOutcome A now D i) d = (r, d') \<Longrightarrow>
     (login_key A i = Some key \<longrightarrow> (\<forall>s. r \<noteq> Inr (Login_ok s))) \<Longrightarrow>
     guess_step A key (t, d, ts)
       (now, d', if login_key A i = Some key \<and> refused_login r \<and> \<not> login_blocked A now key d then ts @ [now] else ts)"

lemma map_of_rates:
  "map_of (map (\<lambda>(k, v). if k = key then (k, st) else (k, v)) xs) k =
   (if k = key then map_option (\<lambda>_. st) (map_of xs k) else map_of xs k)"
  by (induction xs) auto

lemma map_of_cleared: "k \<noteq> key \<Longrightarrow> map_of (filter (\<lambda>(k, _). k \<noteq> key) xs) k = map_of xs k"
  by (induction xs) auto

lemma rate_frames:
  "(\<And>d. ad_rates (f d) = ad_rates d) \<Longrightarrow> tx_frame (\<lambda>d. map_of (ad_rates d) k) (modify f)"
  "tx_frame (\<lambda>d. map_of (ad_rates d) k) (audit e)" "tx_frame (\<lambda>d. map_of (ad_rates d) k) (upd_operator j g)"
  "tx_frame (\<lambda>d. map_of (ad_rates d) k) (upd_session P h)"
  by (auto simp: audit_def upd_operator_def upd_session_def intro: tx_frame_modify)

lemma rate_frame_insert: "tx_frame (\<lambda>d. map_of (ad_rates d) k) (insertSession A now D p c tokens)"
  by (auto simp: tx_frame_def dest!: insertSession_Inr)

lemma rate_frame_mutation: "tx_frame (\<lambda>d. map_of (ad_rates d) k) (requireMutationSession A now m)"
  unfolding requireMutationSession_def require_session_def loadSession_def by (intro tx_frames)

lemma rate_frame_lookup: "tx_frame (\<lambda>d. map_of (ad_rates d) k) (getAuthenticatedOperatorSession A now token)"
  unfolding getAuthenticatedOperatorSession_def loadSession_def by (intro tx_frames rate_frames)

lemma account_op_rates: "account_op A now d d' \<Longrightarrow> map_of (ad_rates d') k = map_of (ad_rates d) k"
proof (induction rule: account_op.induct)
  case (create D u n p v)
  have "tx_frame (\<lambda>d. map_of (ad_rates d) k) (createOperator A now D u n p)"
    unfolding createOperator_def by (intro tx_frames rate_frames) simp_all
  then show ?case using create by (rule tx_frameD)
next
  case (lookup token r)
  then show ?case by (rule tx_frameD[OF rate_frame_lookup])
next
  case (sessions token l)
  have "tx_frame (\<lambda>d. map_of (ad_rates d) k) (listOperatorSessions A now token)"
    unfolding listOperatorSessions_def requireAuthenticatedOperatorSession_def by (intro tx_frames rate_frame_lookup)
  then show ?case using sessions by (rule tx_frameD)
next
  case (logout m u)
  have "tx_frame (\<lambda>d. map_of (ad_rates d) k) (logoutOperator A now m)"
    unfolding logoutOperator_def by (intro tx_frames rate_frames rate_frame_mutation)
  then show ?case using logout by (rule tx_frameD)
next
  case (password D i o1)
  have f: "tx_frame (\<lambda>d. map_of (ad_rates d) k) (changeOperatorPasswordOutcome A now D i)"
    unfolding changeOperatorPasswordOutcome_def change_branch_def change_password_def
    by (intro tx_frames rate_frames rate_frame_mutation rate_frame_insert)
  show ?case using password_state[OF password] tx_frameD[OF f]
    by (auto simp: withTransaction_def split: sum.splits prod.splits)
next
  case (revoke m target b)
  have "tx_frame (\<lambda>d. map_of (ad_rates d) k) (revokeOperatorSession A now m target)"
    unfolding revokeOperatorSession_def by (intro tx_frames rate_frames rate_frame_mutation)
  then show ?case using revoke by (rule tx_frameD)
qed

text \<open>What a login leaves in the table of the limits.\<close>

lemma lockRateLimit_Inr:
  assumes "lockRateLimit now key d = Inr (st, d')"
  shows "st = (case map_of (ad_rates d) key of
           Some st \<Rightarrow> st | None \<Rightarrow> \<lparr>rs_attemptCount = 0, rs_windowStartedAt = now, rs_blockedUntil = None\<rparr>)"
    "map_of (ad_rates d') key = Some st" "k \<noteq> key \<Longrightarrow> map_of (ad_rates d') k = map_of (ad_rates d) k"
  using assms by (auto simp: lockRateLimit_def Let_def tx_simps map_add_def split: option.splits)

lemma saveRateLimit_Inr:
  "saveRateLimit key st d = Inr (u, d') \<Longrightarrow>
   map_of (ad_rates d') k = (if k = key then map_option (\<lambda>_. st) (map_of (ad_rates d) k) else map_of (ad_rates d) k)"
  by (auto simp: saveRateLimit_def tx_simps map_of_rates)

lemma login_failed_Inr:
  assumes "login_failed A now key st d = Inr (o1, d')"
  shows "refused_login (Inr o1)"
    "map_of (ad_rates d') k = (if k = key then map_option (\<lambda>_. registerLoginFailure st now (ae_rate A)) (map_of (ad_rates d) k)
       else map_of (ad_rates d) k)"
proof -
  from assms obtain u e where e: "saveRateLimit key (registerLoginFailure st now (ae_rate A)) d = Inr (u, e)" "ad_rates d' = ad_rates e"
    and o1: "o1 = Login_invalid \<or> (\<exists>n. o1 = Login_limited n)"
    unfolding login_failed_def Let_def audit_def by (auto simp: tx_simps split: option.splits)
  show "refused_login (Inr o1)" using o1 by auto
  show "map_of (ad_rates d') k = (if k = key then map_option (\<lambda>_. registerLoginFailure st now (ae_rate A)) (map_of (ad_rates d) k)
       else map_of (ad_rates d) k)"
    unfolding e(2) by (rule saveRateLimit_Inr[OF e(1)])
qed

lemma complete_login_Inr:
  assumes "complete_login A now D key i p d = Inr (o1, d')"
  shows "\<exists>s. o1 = Login_ok s" "k \<noteq> key \<Longrightarrow> map_of (ad_rates d') k = map_of (ad_rates d) k"
proof -
  show "\<exists>s. o1 = Login_ok s" using assms unfolding complete_login_def by (auto simp: tx_simps)
  assume k: "k \<noteq> key"
  have "tx_frame (\<lambda>d. map_of (ad_rates d) k) (clearRateLimit key)"
    unfolding clearRateLimit_def using k by (intro tx_frame_modify) (simp add: map_of_cleared)
  then have "tx_frame (\<lambda>d. map_of (ad_rates d) k) (complete_login A now D key i p)"
    unfolding complete_login_def by (intro tx_frames rate_frames rate_frame_insert)
  then show "map_of (ad_rates d') k = map_of (ad_rates d) k" using assms by (rule tx_frameD)
qed

lemma attempt_login_Inr:
  assumes "attempt_login A now D i nu p d = Inr (o1, d')" "key = loginRateLimitKey A nu"
  shows "(\<exists>s. o1 = Login_ok s) \<or> refused_login (Inr o1) \<and> map_of (ad_rates d') key =
      Some (if login_blocked A now key d then current_rate A now key d
            else registerLoginFailure (current_rate A now key d) now (ae_rate A))"
    "k \<noteq> key \<Longrightarrow> map_of (ad_rates d') k = map_of (ad_rates d) k"
proof -
  let ?st = "current_rate A now key d"
  let ?goal = "((\<exists>s. o1 = Login_ok s) \<or> refused_login (Inr o1) \<and> map_of (ad_rates d') key =
      Some (if login_blocked A now key d then ?st else registerLoginFailure ?st now (ae_rate A))) \<and>
    (k \<noteq> key \<longrightarrow> map_of (ad_rates d') k = map_of (ad_rates d) k)"
  from assms obtain st e where l: "lockRateLimit now key d = Inr (st, e)"
    and rest: "(case loginRetryAfterSeconds (normalizeLoginRateLimitState st now (ae_rate A)) now of
         Some seconds \<Rightarrow>
           tbind (saveRateLimit key (normalizeLoginRateLimitState st now (ae_rate A))) (\<lambda>_.
           tbind (audit (limited_event seconds)) (\<lambda>_.
           ret (Login_limited seconds)))
       | None \<Rightarrow>
           tbind (gets (\<lambda>d. find (\<lambda>p. op_normalized_username p = nu) (ad_operators d))) (\<lambda>found.
           (case found of
              None \<Rightarrow> login_failed A now key (normalizeLoginRateLimitState st now (ae_rate A))
            | Some operator \<Rightarrow>
                if \<not> op_is_active operator \<or> \<not> verifyOperatorPassword A (Some (op_password_hash operator)) p
                then login_failed A now key (normalizeLoginRateLimitState st now (ae_rate A))
                else complete_login A now D key i operator))) e = Inr (o1, d')"
    unfolding attempt_login_def Let_def by (auto elim: tbindE)
  note locked = lockRateLimit_Inr[OF l]
  have st: "normalizeLoginRateLimitState st now (ae_rate A) = ?st" by (simp add: current_rate_def locked(1))
  have "?goal"
  proof (cases "loginRetryAfterSeconds ?st now")
    case None
    then have nb: "\<not> login_blocked A now key d" by (simp add: login_blocked_def)
    have failed: ?goal if "login_failed A now key ?st e = Inr (o1, d')"
      using login_failed_Inr(1)[OF that] login_failed_Inr(2)[OF that] locked(2,3) nb by simp
    from rest[unfolded st None] show ?thesis
      using failed complete_login_Inr[of A now D key i _ e o1 d'] locked(3)
      by (auto simp: tx_simps split: option.splits if_splits)
  next
    case (Some n)
    then have "login_blocked A now key d" by (simp add: login_blocked_def)
    moreover from rest[unfolded st Some] obtain u f where save: "saveRateLimit key ?st e = Inr (u, f)"
      and f: "ad_rates d' = ad_rates f" "o1 = Login_limited n" by (auto simp: tx_simps audit_def)
    ultimately show ?thesis unfolding f saveRateLimit_Inr[OF save] using locked(2,3) by simp
  qed
  then show "(\<exists>s. o1 = Login_ok s) \<or> refused_login (Inr o1) \<and> map_of (ad_rates d') key =
      Some (if login_blocked A now key d then ?st else registerLoginFailure ?st now (ae_rate A))"
    "k \<noteq> key \<Longrightarrow> map_of (ad_rates d') k = map_of (ad_rates d) k" by blast+
qed

section \<open>The rate of wrong guesses\<close>

text \<open>
  In one window a name has \<open>maximumAttempts\<close> guesses, and after them one more each time a block has passed before the window
  ends.
\<close>

definition guess_limit :: "rate_config \<Rightarrow> int" where
  "guess_limit c = rc_maximumAttempts c + (rc_windowSeconds c - 1) div rc_blockSeconds c"

definition throttle_ok :: "rate_config \<Rightarrow> int list \<Rightarrow> rate_state \<Rightarrow> bool" where
  "throttle_ok c ts st \<longleftrightarrow>
     window_ok (guess_limit c) (rc_windowSeconds c * 1000) (rs_windowStartedAt st) (rs_attemptCount st) ts \<and>
     (rc_maximumAttempts c \<le> rs_attemptCount st \<longrightarrow>
        (\<exists>b. rs_blockedUntil st = Some b \<and>
           rs_windowStartedAt st + (rs_attemptCount st - rc_maximumAttempts c + 1) * (rc_blockSeconds c * 1000) \<le> b))"

definition config_ok :: "rate_config \<Rightarrow> bool" where
  "config_ok c \<longleftrightarrow> 2 \<le> rc_maximumAttempts c \<and> 60 \<le> rc_windowSeconds c \<and> 60 \<le> rc_blockSeconds c"

lemma config_ok_get: "getLoginRateLimitConfig a b c = Inr r \<Longrightarrow> config_ok r"
  unfolding getLoginRateLimitConfig_def boundedEnvironmentInteger_def config_ok_def Let_def
  by (auto simp: tx_simps split: option.splits if_splits)

lemma guess_limit_ge: "config_ok c \<Longrightarrow> rc_maximumAttempts c \<le> guess_limit c"
  unfolding guess_limit_def config_ok_def by (simp add: pos_imp_zdiv_nonneg_iff)

lemma normalize_ok:
  assumes "throttle_ok c ts st" "config_ok c" "rs_windowStartedAt st \<le> now"
  shows "throttle_ok c ts (normalizeLoginRateLimitState st now c)"
    "rs_windowStartedAt (normalizeLoginRateLimitState st now c) \<le> now"
    "now < rs_windowStartedAt (normalizeLoginRateLimitState st now c) + rc_windowSeconds c * 1000"
proof -
  have "window_ok (guess_limit c) (rc_windowSeconds c * 1000) now 0 ts" if "rs_windowStartedAt st + rc_windowSeconds c * 1000 \<le> now"
    using assms(1,2) that guess_limit_ge[OF assms(2)]
    by (intro window_roll[of _ _ "rs_windowStartedAt st" "rs_attemptCount st"]) (auto simp: throttle_ok_def config_ok_def)
  then show "throttle_ok c ts (normalizeLoginRateLimitState st now c)"
    using assms(1,2) by (auto simp: normalizeLoginRateLimitState_def throttle_ok_def config_ok_def)
  show "rs_windowStartedAt (normalizeLoginRateLimitState st now c) \<le> now"
    "now < rs_windowStartedAt (normalizeLoginRateLimitState st now c) + rc_windowSeconds c * 1000"
    using assms(2,3) by (auto simp: normalizeLoginRateLimitState_def config_ok_def)
qed

lemma block_room:
  assumes "config_ok c" "k * (rc_blockSeconds c * 1000) < rc_windowSeconds c * 1000"
  shows "k \<le> (rc_windowSeconds c - 1) div rc_blockSeconds c"
proof -
  have "k * rc_blockSeconds c \<le> rc_windowSeconds c - 1" using assms(2) by simp
  then have "(k * rc_blockSeconds c) div rc_blockSeconds c \<le> (rc_windowSeconds c - 1) div rc_blockSeconds c"
    using assms(1) by (intro zdiv_mono1) (simp_all add: config_ok_def)
  then show ?thesis using assms(1) by (simp add: config_ok_def)
qed

lemma register_ok:
  assumes "throttle_ok c ts st" "config_ok c" "rs_windowStartedAt st \<le> now" "now < rs_windowStartedAt st + rc_windowSeconds c * 1000"
    and "loginRetryAfterSeconds st now = None"
  shows "throttle_ok c (ts @ [now]) (registerLoginFailure st now c)" "rs_windowStartedAt (registerLoginFailure st now c) \<le> now"
proof -
  define n where "n = rs_attemptCount st"
  define ws where "ws = rs_windowStartedAt st"
  define B where "B = rc_blockSeconds c * 1000"
  have reg: "registerLoginFailure st now c = \<lparr>rs_attemptCount = n + 1, rs_windowStartedAt = ws,
      rs_blockedUntil = (if n + 1 \<ge> rc_maximumAttempts c then Some (now + B) else None)\<rparr>"
    using assms(4) by (simp add: registerLoginFailure_def normalizeLoginRateLimitState_def Let_def n_def ws_def B_def)
  have room: "ws + (n - rc_maximumAttempts c + 1) * B \<le> now" if "rc_maximumAttempts c \<le> n"
    using that assms(1,5) unfolding throttle_ok_def loginRetryAfterSeconds_def
    by (auto simp: n_def ws_def B_def split: if_splits)
  have "n < guess_limit c"
  proof (cases "rc_maximumAttempts c \<le> n")
    case True
    have "(n - rc_maximumAttempts c + 1) * (rc_blockSeconds c * 1000) < rc_windowSeconds c * 1000"
      using room[OF True] assms(4) by (simp add: B_def ws_def)
    from block_room[OF assms(2) this] show ?thesis by (simp add: guess_limit_def)
  next
    case False
    then show ?thesis using guess_limit_ge[OF assms(2)] by simp
  qed
  then have "window_ok (guess_limit c) (rc_windowSeconds c * 1000) ws (n + 1) (ts @ [now])"
    using assms(1,3,4) by (intro window_grant) (simp_all add: throttle_ok_def n_def ws_def)
  moreover have "ws + (n + 1 - rc_maximumAttempts c + 1) * B \<le> now + B" if "rc_maximumAttempts c \<le> n + 1"
  proof (cases "rc_maximumAttempts c \<le> n")
    case True
    then show ?thesis using room by (simp add: algebra_simps)
  next
    case False
    then have e: "n + 1 - rc_maximumAttempts c + 1 = 1" using that by linarith
    show ?thesis unfolding e using assms(3) by (simp add: ws_def)
  qed
  ultimately show "throttle_ok c (ts @ [now]) (registerLoginFailure st now c)" by (simp add: throttle_ok_def reg B_def)
  show "rs_windowStartedAt (registerLoginFailure st now c) \<le> now" using assms(3) by (simp add: reg ws_def)
qed

text \<open>The invariant of the runs.\<close>

fun guess_ok :: "rate_config \<Rightarrow> string \<Rightarrow> int \<times> auth_db \<times> int list \<Rightarrow> bool" where
  "guess_ok c key (t, d, ts) =
     (case map_of (ad_rates d) key of
        None \<Rightarrow> ts = []
      | Some st \<Rightarrow> rs_windowStartedAt st \<le> t \<and> throttle_ok c ts st)"

lemma current_rate_ok:
  assumes "guess_ok (ae_rate A) key (t, d, ts)" "config_ok (ae_rate A)" "t \<le> now"
  shows "throttle_ok (ae_rate A) ts (current_rate A now key d)" "rs_windowStartedAt (current_rate A now key d) \<le> now"
    "now < rs_windowStartedAt (current_rate A now key d) + rc_windowSeconds (ae_rate A) * 1000"
proof -
  define st where "st = (case map_of (ad_rates d) key of
      Some st \<Rightarrow> st | None \<Rightarrow> \<lparr>rs_attemptCount = 0, rs_windowStartedAt = now, rs_blockedUntil = None\<rparr>)"
  have "throttle_ok (ae_rate A) ts st \<and> rs_windowStartedAt st \<le> now"
    using assms guess_limit_ge[OF assms(2)]
    by (auto simp: st_def throttle_ok_def window_start config_ok_def split: option.splits)
  then have ok: "throttle_ok (ae_rate A) ts st" "rs_windowStartedAt st \<le> now" by simp_all
  show "throttle_ok (ae_rate A) ts (current_rate A now key d)" "rs_windowStartedAt (current_rate A now key d) \<le> now"
    "now < rs_windowStartedAt (current_rate A now key d) + rc_windowSeconds (ae_rate A) * 1000"
    unfolding current_rate_def st_def[symmetric] by (rule normalize_ok[OF ok(1) assms(2) ok(2)])+
qed

lemma guess_ok_same:
  "map_of (ad_rates d') key = map_of (ad_rates d) key \<Longrightarrow> guess_ok c key (t, d, ts) \<Longrightarrow> t \<le> now \<Longrightarrow> guess_ok c key (now, d', ts)"
  by (auto split: option.splits)

lemma outcome_peel:
  assumes "authenticateOperatorOutcome A now D i d = Inr (o1, d')"
  obtains nu p where "login_key A i = Some (loginRateLimitKey A nu)" "attempt_login A now D i nu p d = Inr (o1, d')"
  using assms unfolding authenticateOperatorOutcome_def login_key_def by (elim tx_elims) simp

lemma guess_login:
  assumes "withTransaction (authenticateOperatorOutcome A now D i) d = (r, d')" "guess_ok (ae_rate A) key (t, d, ts)"
    and "config_ok (ae_rate A)" "t \<le> now" "login_key A i = Some key \<longrightarrow> (\<forall>s. r \<noteq> Inr (Login_ok s))"
  shows "guess_ok (ae_rate A) key
    (now, d', if login_key A i = Some key \<and> refused_login r \<and> \<not> login_blocked A now key d then ts @ [now] else ts)"
proof (cases r)
  case (Inl e)
  then have "d' = d" using assms(1) withTransaction_rollback[of "authenticateOperatorOutcome A now D i" d e] by simp
  then show ?thesis using Inl guess_ok_same[OF _ assms(2,4)] by simp
next
  case (Inr o1)
  then have "authenticateOperatorOutcome A now D i d = Inr (o1, d')" using assms(1) withTransaction_Inr by fastforce
  then obtain nu p where k: "login_key A i = Some (loginRateLimitKey A nu)" and a: "attempt_login A now D i nu p d = Inr (o1, d')"
    by (rule outcome_peel)
  note rate = current_rate_ok[OF assms(2,3,4)]
  show ?thesis
  proof (cases "key = loginRateLimitKey A nu")
    case True
    note out = attempt_login_Inr(1)[OF a True]
    then have ref: "refused_login r" and row: "map_of (ad_rates d') key = Some (if login_blocked A now key d
        then current_rate A now key d else registerLoginFailure (current_rate A now key d) now (ae_rate A))"
      using assms(5) k True Inr by auto
    show ?thesis
    proof (cases "login_blocked A now key d")
      case True
      then show ?thesis using row rate by simp
    next
      case False
      then have "loginRetryAfterSeconds (current_rate A now key d) now = None" by (simp add: login_blocked_def)
      from register_ok[OF rate(1) assms(3) rate(2,3) this] False ref row k True show ?thesis by simp
    qed
  next
    case False
    then show ?thesis using guess_ok_same[OF attempt_login_Inr(2)[OF a refl False] assms(2,4)] k by simp
  qed
qed

lemma guess_step_ok: "guess_step A key s s' \<Longrightarrow> config_ok (ae_rate A) \<Longrightarrow> guess_ok (ae_rate A) key s \<Longrightarrow> guess_ok (ae_rate A) key s'"
proof (induction rule: guess_step.induct)
  case (account t now d d' ts)
  show ?case by (rule guess_ok_same[OF account_op_rates[OF account(2)] account(4,1)])
next
  case (login t now D i d r d' ts)
  show ?case by (rule guess_login[OF login(2,5,4,1,3)])
qed

lemma guess_run_ok:
  assumes "(guess_step A key)\<^sup>*\<^sup>* s s'" "config_ok (ae_rate A)" "guess_ok (ae_rate A) key s"
  shows "guess_ok (ae_rate A) key s'"
  using assms by (induction rule: rtranclp_induct) (auto intro: guess_step_ok)

text \<open>\<^bold>\<open>C11.\<close> However many logins are tried for a name, from wherever and in whatever order with the other operations, the
  passwords that are checked and found wrong are limited in every interval of one window length: with the limits that the
  configuration admits, to twice the attempts of a window plus one for each block that fits in it, as long as no login for
  that name succeeds. With the defaults (five attempts, window and block of fifteen minutes) that is ten in any fifteen
  minutes.\<close>

theorem login_guess_rate:
  assumes "(guess_step A key)\<^sup>*\<^sup>* (t0, d0, []) (t, d, ts)" "map_of (ad_rates d0) key = None"
    and "getLoginRateLimitConfig maxAttempts windowSeconds blockSeconds = Inr (ae_rate A)"
  shows "int (length (filter (\<lambda>x. a \<le> x \<and> x < a + rc_windowSeconds (ae_rate A) * 1000) ts)) \<le>
    2 * (rc_maximumAttempts (ae_rate A) + (rc_windowSeconds (ae_rate A) - 1) div rc_blockSeconds (ae_rate A))"
proof -
  have c: "config_ok (ae_rate A)" by (rule config_ok_get[OF assms(3)])
  have "guess_ok (ae_rate A) key (t, d, ts)" using guess_run_ok[OF assms(1) c] assms(2) by simp
  then have "spread_ok (guess_limit (ae_rate A)) (rc_windowSeconds (ae_rate A) * 1000) ts"
    using guess_limit_ge[OF c] c
    by (auto simp: throttle_ok_def window_ok_def spread_ok_def count_in_def config_ok_def split: option.splits)
  then show ?thesis by (simp add: spread_ok_def count_in_def guess_limit_def)
qed

text \<open>A guesser at the demo account: wrong passwords one after the other.\<close>

definition wrong_login :: login_input where
  "wrong_login = demo_login\<lparr>li_password := ''guess''\<rparr>"

definition demo_key :: string where
  "demo_key = loginRateLimitKey demo_auth ''ana''"

definition strict_auth :: auth_env where
  "strict_auth = demo_auth\<lparr>ae_rate := \<lparr>rc_maximumAttempts = 2, rc_windowSeconds = 60, rc_blockSeconds = 86400\<rparr>\<rparr>"

definition wrong_guess :: "auth_env \<Rightarrow> int \<Rightarrow> int \<times> auth_db \<times> int list \<Rightarrow> int \<times> auth_db \<times> int list" where
  "wrong_guess A now = (\<lambda>(t, d, ts).
     (let (r, d') = withTransaction (authenticateOperatorOutcome A now demo_draws wrong_login) d in
      (now, d', if login_key A wrong_login = Some demo_key \<and> refused_login r \<and> \<not> login_blocked A now demo_key d then ts @ [now] else ts)))"

lemma wrong_guess_step:
  assumes "fst s \<le> now" "refused_login (fst (withTransaction (authenticateOperatorOutcome A now demo_draws wrong_login) (fst (snd s))))"
  shows "guess_step A demo_key s (wrong_guess A now s)"
proof -
  obtain t d ts where s: "s = (t, d, ts)" by (cases s)
  obtain r d' where r: "withTransaction (authenticateOperatorOutcome A now demo_draws wrong_login) d = (r, d')" by fastforce
  have "\<forall>s. r \<noteq> Inr (Login_ok s)" using assms(2) by (auto simp: s r)
  then show ?thesis using guess_step.login[OF _ r, of t demo_key ts] assms(1) by (simp add: wrong_guess_def s r)
qed

definition six_guesses :: "int \<times> auth_db \<times> int list" where
  "six_guesses = fold (wrong_guess demo_auth) [1, 2, 3, 4, 5, 6] (0, demo_auth_db, [])"

primrec all_refused :: "auth_env \<Rightarrow> int list \<Rightarrow> int \<times> auth_db \<times> int list \<Rightarrow> bool" where
  "all_refused A [] s \<longleftrightarrow> True"
| "all_refused A (now # nows) s \<longleftrightarrow>
     fst s \<le> now \<and> refused_login (fst (withTransaction (authenticateOperatorOutcome A now demo_draws wrong_login) (fst (snd s)))) \<and>
     all_refused A nows (wrong_guess A now s)"

lemma all_refused_run: "all_refused A nows s \<Longrightarrow> (guess_step A demo_key)\<^sup>*\<^sup>* s (fold (wrong_guess A) nows s)"
proof (induction nows arbitrary: s)
  case Nil
  show ?case by simp
next
  case (Cons now nows)
  then have "guess_step A demo_key s (wrong_guess A now s)" by (intro wrong_guess_step) simp_all
  moreover have "(guess_step A demo_key)\<^sup>*\<^sup>* (wrong_guess A now s) (fold (wrong_guess A) nows (wrong_guess A now s))"
    using Cons by simp
  ultimately show ?case by (simp add: converse_rtranclp_into_rtranclp)
qed

lemma six_guesses_run: "(guess_step demo_auth demo_key)\<^sup>*\<^sup>* (0, demo_auth_db, []) six_guesses"
  unfolding six_guesses_def by (rule all_refused_run) code_simp

lemma login_guess_rate_witness:
  "\<exists>t d ts. six_guesses = (t, d, ts) \<and> ts = [1, 2, 3, 4, 5] \<and> login_blocked demo_auth t demo_key d \<and>
    int (length (filter (\<lambda>x. 0 \<le> x \<and> x < 0 + rc_windowSeconds (ae_rate demo_auth) * 1000) ts)) \<le>
    2 * (rc_maximumAttempts (ae_rate demo_auth) + (rc_windowSeconds (ae_rate demo_auth) - 1) div rc_blockSeconds (ae_rate demo_auth))"
proof -
  obtain t d ts where s: "six_guesses = (t, d, ts)" by (cases six_guesses)
  have now: "snd (snd six_guesses) = [1, 2, 3, 4, 5]" by code_simp
  have blocked: "login_blocked demo_auth (fst six_guesses) demo_key (fst (snd six_guesses))" by code_simp
  have fresh: "map_of (ad_rates demo_auth_db) demo_key = None" by code_simp
  have config: "getLoginRateLimitConfig None None None = Inr (ae_rate demo_auth)" by code_simp
  have "ts = [1, 2, 3, 4, 5]" "login_blocked demo_auth t demo_key d" using now blocked unfolding s by simp_all
  then show ?thesis
    using s login_guess_rate[OF six_guesses_run[unfolded s] fresh config, of 0]
    by (intro exI[of _ t] exI[of _ d] exI[of _ ts] conjI) simp_all
qed

text \<open>
  A block that is longer than the window is cut short: with two attempts, a window of a minute and a block of a day, two
  wrong guesses block the name for a day in the table, and a minute later its next guess is checked.
\<close>

theorem login_block_cut_short:
  "\<exists>d st. (guess_step strict_auth demo_key)\<^sup>*\<^sup>* (0, demo_auth_db, []) (2, d, [1, 2]) \<and>
    getLoginRateLimitConfig (Some (js_int 2)) (Some (js_int 60)) (Some (js_int 86400)) = Inr (ae_rate strict_auth) \<and>
    map_of (ad_rates d) demo_key = Some st \<and> rs_blockedUntil st = Some (2 + 86400 * 1000) \<and>
    \<not> login_blocked strict_auth (1 + 60 * 1000) demo_key d"
proof -
  let ?s = "fold (wrong_guess strict_auth) [1, 2] (0, demo_auth_db, [])"
  obtain t d ts where s: "?s = (t, d, ts)" by (cases ?s)
  have run: "(guess_step strict_auth demo_key)\<^sup>*\<^sup>* (0, demo_auth_db, []) ?s" by (rule all_refused_run) code_simp
  have ends: "fst ?s = 2" "snd (snd ?s) = [1, 2]" by code_simp+
  have row: "map_option rs_blockedUntil (map_of (ad_rates (fst (snd ?s))) demo_key) = Some (Some (2 + 86400 * 1000))" by code_simp
  have free: "\<not> login_blocked strict_auth (1 + 60 * 1000) demo_key (fst (snd ?s))" by code_simp
  have config: "getLoginRateLimitConfig (Some (js_int 2)) (Some (js_int 60)) (Some (js_int 86400)) = Inr (ae_rate strict_auth)"
    by code_simp
  from row obtain st where "map_of (ad_rates d) demo_key = Some st" "rs_blockedUntil st = Some (2 + 86400 * 1000)"
    unfolding s by (auto simp del: One_nat_def)
  moreover have "t = 2" "ts = [1, 2]" using ends unfolding s by simp_all
  ultimately show ?thesis using run free config unfolding s by (intro exI[of _ d] exI[of _ st] conjI) simp_all
qed

section \<open>The gate of an API request\<close>

lemma fail_if_Inr [tx_simps]: "fail_if b message = Inr u \<longleftrightarrow> \<not> b"
  by (simp add: fail_if_def)

lemma bypass_is_local:
  assumes "validateAuthRuntime U V = Inr r" "ar_demoAuthBypass r"
  shows "\<not> in_production V" "av_DEMO_MODE V \<noteq> Some ''false''"
    "isLoopbackHost (case_option ''127.0.0.1'' id (av_APP_BIND_HOST V))"
    "\<exists>u. U (case_option ''http://localhost:3100'' id (av_APP_URL V)) = Some u \<and> isLoopbackHost (uv_hostname u)"
proof -
  from assms obtain demo u where "booleanValue (av_DEMO_MODE V) ''true'' = Inr demo" "demo" "\<not> in_production V"
    "parse_url U (case_option ''http://localhost:3100'' id (av_APP_URL V)) = Inr u" "isLoopbackHost (uv_hostname u)"
    "isLoopbackHost (case_option ''127.0.0.1'' id (av_APP_BIND_HOST V))"
    unfolding validateAuthRuntime_def Let_def tx_simps by fastforce
  then show "\<not> in_production V" "av_DEMO_MODE V \<noteq> Some ''false''"
    "isLoopbackHost (case_option ''127.0.0.1'' id (av_APP_BIND_HOST V))"
    "\<exists>u. U (case_option ''http://localhost:3100'' id (av_APP_URL V)) = Some u \<and> isLoopbackHost (uv_hostname u)"
    by (auto simp: booleanValue_def parse_url_def split: option.splits)
qed

definition origin_allowed :: "url_parser \<Rightarrow> auth_variables \<Rightarrow> api_request \<Rightarrow> bool" where
  "origin_allowed U V q \<longleftrightarrow>
     (case truthy (aq_origin q) of
        None \<Rightarrow> \<not> in_production V
      | Some origin \<Rightarrow> \<exists>r. U (aq_url q) = Some r \<and>
          (origin = uv_origin r \<or> (\<exists>a u. av_APP_URL V = Some a \<and> U a = Some u \<and> origin = uv_origin u)))"

lemma same_origin_allowed: "assertSameOriginOf U V q = Inr () \<Longrightarrow> origin_allowed U V q"
  unfolding assertSameOriginOf_def assertSameOrigin_def origin_allowed_def parse_url_def
  by (auto simp: tx_simps split: option.splits if_splits dest: truthy_Some)

lemma lookup_Inr:
  assumes "requireAuthenticatedOperatorSession A now cookie d = Inr (session, d')"
  shows "\<exists>token s p. cookie = Some token \<and> s \<in> set (ad_sessions d) \<and>
    usable_session False now (ae_hashOpaqueToken A token) d s \<and> as_sessionId session = os_id s \<and>
    as_csrfTokenHash session = os_csrf_token_hash s \<and>
    operator_of d (os_operator_id s) = Some p \<and> op_is_active p \<and> as_operator session = operatorView p"
proof -
  from assms obtain token s p where t: "truthy cookie = Some token"
    and f: "find (usable_session False now (ae_hashOpaqueToken A token) d) (ad_sessions d) = Some s"
    and p: "operator_of d (os_operator_id s) = Some p"
    and v: "session = \<lparr>as_sessionId = os_id s, as_operator = operatorView p, as_csrfTokenHash = os_csrf_token_hash s,
        as_expiresAt = os_expires_at s\<rparr>"
    unfolding requireAuthenticatedOperatorSession_def getAuthenticatedOperatorSession_def loadSession_def
    by (auto simp: tx_simps split: option.splits)
  have "s \<in> set (ad_sessions d)" "usable_session False now (ae_hashOpaqueToken A token) d s" using find_SomeD[OF f] by simp_all
  then show ?thesis using truthy_Some[OF t] p v
    by (intro exI[of _ token] exI[of _ s] exI[of _ p]) (simp add: usable_session_def)
qed

lemma csrf_Inr:
  "assertCsrfToken A expected cookie header = Inr u \<Longrightarrow>
   \<exists>c h. cookie = Some c \<and> header = Some h \<and> ae_sha256 A c = ae_sha256 A h \<and>
     ae_sha256 A expected = ae_sha256 A (ae_hashOpaqueToken A h)"
  unfolding assertCsrfToken_def timingSafeStringEqual_def by (auto split: option.splits if_splits dest!: truthy_Some)

text \<open>\<^bold>\<open>C10.\<close> An API request is let through in two ways only. Either the bypass of a local demo is on, and then the process is not in
  production, runs in demo mode and has a loopback address both as its public URL and as its bind host; or the request
  carries the token of a session that is not revoked, has not expired and belongs to an active operator. A request that
  may change something has in either case an origin that is allowed (or none, outside production), and under a session
  also a CSRF header whose token is the one of the session and the one in the cookie.\<close>

theorem api_request_gate:
  assumes "requireAuthenticatedApiRequest U V decode A now q mutationOption d = (Inr who, d')"
  shows "(case who of
     Demo_bypass \<Rightarrow> \<not> in_production V \<and> av_DEMO_MODE V \<noteq> Some ''false'' \<and>
       isLoopbackHost (case_option ''127.0.0.1'' id (av_APP_BIND_HOST V)) \<and>
       (\<exists>u. U (case_option ''http://localhost:3100'' id (av_APP_URL V)) = Some u \<and> isLoopbackHost (uv_hostname u))
   | Operator session \<Rightarrow>
       (\<exists>token s p. requestCookie decode q ''arw_session'' = Some token \<and> s \<in> set (ad_sessions d) \<and>
          usable_session False now (ae_hashOpaqueToken A token) d s \<and> as_sessionId session = os_id s \<and>
          operator_of d (os_operator_id s) = Some p \<and> op_is_active p \<and> as_operator session = operatorView p \<and>
          (case_option (isUnsafeMethod (aq_method q)) id mutationOption \<longrightarrow>
             (\<exists>cookie header. requestCookie decode q ''arw_csrf'' = Some cookie \<and> aq_csrfHeader q = Some header \<and>
                ae_sha256 A cookie = ae_sha256 A header \<and>
                ae_sha256 A (os_csrf_token_hash s) = ae_sha256 A (ae_hashOpaqueToken A header))))) \<and>
   (case_option (isUnsafeMethod (aq_method q)) id mutationOption \<longrightarrow>
      origin_allowed U V q)"
proof -
  let ?mutation = "case_option (isUnsafeMethod (aq_method q)) id mutationOption"
  from assms obtain r where r: "validateAuthRuntime U V = Inr r" and o1: "?mutation \<longrightarrow> assertSameOriginOf U V q = Inr ()"
    and rest: "(if ar_demoAuthBypass r then (Inr Demo_bypass, d)
          else
            (case withTransaction (requireAuthenticatedOperatorSession A now (requestCookie decode q ''arw_session'')) d of
               (Inl e, d') \<Rightarrow> (Inl e, d')
             | (Inr session, d') \<Rightarrow>
                 (ebind (if ?mutation
                         then assertCsrfToken A (as_csrfTokenHash session) (requestCookie decode q ''arw_csrf'') (aq_csrfHeader q)
                         else Inr ()) (\<lambda>_. Inr (Operator session)), d'))) = (Inr who, d')"
    unfolding requireAuthenticatedApiRequest_def Let_def
    by (auto simp: tx_simps ebind_def split: sum.splits if_splits)
  have origin: "?mutation \<longrightarrow> origin_allowed U V q" using o1 same_origin_allowed by blast
  show ?thesis
  proof (cases "ar_demoAuthBypass r")
    case True
    then have "who = Demo_bypass" using rest by simp
    then show ?thesis using bypass_is_local[OF r True] origin by simp
  next
    case False
    with rest obtain session where l: "requireAuthenticatedOperatorSession A now (requestCookie decode q ''arw_session'') d = Inr (session, d')"
      and who: "who = Operator session"
      and csrf: "?mutation \<longrightarrow> assertCsrfToken A (as_csrfTokenHash session) (requestCookie decode q ''arw_csrf'') (aq_csrfHeader q) = Inr ()"
      by (auto simp: tx_simps withTransaction_def split: sum.splits prod.splits if_splits)
    from lookup_Inr[OF l] obtain token s p where s: "requestCookie decode q ''arw_session'' = Some token" "s \<in> set (ad_sessions d)"
      "usable_session False now (ae_hashOpaqueToken A token) d s" "as_sessionId session = os_id s"
      "as_csrfTokenHash session = os_csrf_token_hash s"
      "operator_of d (os_operator_id s) = Some p" "op_is_active p" "as_operator session = operatorView p" by blast
    have "?mutation \<longrightarrow> (\<exists>cookie header. requestCookie decode q ''arw_csrf'' = Some cookie \<and> aq_csrfHeader q = Some header \<and>
        ae_sha256 A cookie = ae_sha256 A header \<and> ae_sha256 A (os_csrf_token_hash s) = ae_sha256 A (ae_hashOpaqueToken A header))"
      using csrf csrf_Inr s(5) by metis
    then show ?thesis unfolding who request_principal.case
      using s origin by (intro conjI exI[of _ token] exI[of _ s] exI[of _ p])
  qed
qed

definition demo_variables :: auth_variables where
  "demo_variables = \<lparr>av_NODE_ENV = Some ''production'', av_AUTH_ENABLED = None, av_DEMO_MODE = Some ''false'',
     av_AUTH_DEMO_BYPASS = None, av_AUTH_COOKIE_SECURE = None, av_APP_URL = Some ''https://lab'', av_APP_BIND_HOST = None,
     av_AUTH_SESSION_SECRET = Some (replicate 32 (CHR ''k'')), av_AUTH_SESSION_TTL_SECONDS = None\<rparr>"

definition demo_request :: api_request where
  "demo_request = \<lparr>aq_method = ''post'', aq_url = ''https://lab'', aq_origin = Some ''https://lab'',
     aq_cookie = Some ''theme=dark; arw_session=T1; arw_csrf=C1'', aq_csrfHeader = Some ''C1''\<rparr>"

definition demo_urls :: url_parser where
  "demo_urls s = Some \<lparr>uv_hostname = s, uv_origin = s\<rparr>"

lemma api_request_gate_witness:
  "\<exists>session d'. requireAuthenticatedApiRequest demo_urls demo_variables Some demo_auth 10 demo_request None demo_auth_db =
      (Inr (Operator session), d') \<and> as_sessionId session = ''s1'' \<and> origin_allowed demo_urls demo_variables demo_request"
proof -
  obtain r d' where e: "requireAuthenticatedApiRequest demo_urls demo_variables Some demo_auth 10 demo_request None demo_auth_db = (r, d')"
    by fastforce
  have "(case requireAuthenticatedApiRequest demo_urls demo_variables Some demo_auth 10 demo_request None demo_auth_db of
      (Inr (Operator session), d') \<Rightarrow> as_sessionId session = ''s1'' | _ \<Rightarrow> False)" by code_simp
  with e obtain session where r: "r = Inr (Operator session)" and k: "as_sessionId session = ''s1''"
    by (auto split: sum.splits request_principal.splits)
  have "isUnsafeMethod (aq_method demo_request)" by code_simp
  then show ?thesis using api_request_gate[OF e[unfolded r]] e r k by auto
qed

end
