(* ===== verification/Mutation_Properties.thy ===== *)
theory Mutation_Properties
  imports Mutation_Receipts Auth_Properties
begin

text \<open>
  What the receipts of \<open>Mutation_Receipts\<close> guarantee: over any run a mutation takes effect at most once per key, and a request
  that is sent again gets the stored answer and changes nothing, also when it has ended its own session.
\<close>

section \<open>One request\<close>

definition scope_key :: "receipt_scope \<Rightarrow> string \<times> mutation_method \<times> string \<times> string" where
  "scope_key k = (mr_principalScope k, mr_method k, mr_requestPath k, mr_idempotencyKey k)"

definition row_key :: "receipt_row \<Rightarrow> string \<times> mutation_method \<times> string \<times> string" where
  "row_key r = (rr_principal_scope r, rr_method r, rr_request_path r, rr_idempotency_key r)"

interpretation receipts_tbl: keyed_table row_key .

lemma receipt_of_key: "receipt_of k r \<longleftrightarrow> row_key r = scope_key k"
  by (auto simp: receipt_of_def row_key_def scope_key_def)

lemma find_receipt: "find (receipt_of k) rs = receipts_tbl.lookup (scope_key k) rs"
  by (simp add: receipts_tbl.lookup_def receipt_of_key[abs_def])

definition stored_receipt :: "int \<Rightarrow> receipt_scope \<Rightarrow> mutation_response \<Rightarrow> receipt_row" where
  "stored_receipt now k response = complete_receipt now response (new_receipt now k)"

lemma stored_receipt_simps [simp]:
  "row_key (stored_receipt now k response) = scope_key k" "rr_request_hash (stored_receipt now k response) = mr_requestHash k"
  "rr_response_status (stored_receipt now k response) = Some (ms_responseStatus response)"
  "rr_response_body (stored_receipt now k response) = Some (ms_responseBody response)"
  by (simp_all add: stored_receipt_def complete_receipt_def new_receipt_def row_key_def scope_key_def)

text \<open>What a request does, in every case.\<close>

lemma execute_cases:
  assumes "hash_check (mr_requestHash k)"
  shows "withTransaction (executeIdempotentResponse parses now k operation) (rs, s) =
    (case find (receipt_of k) rs of
       Some receipt \<Rightarrow> (replay k receipt, (rs, s))
     | None \<Rightarrow>
         (case operation s of
            Inl e \<Rightarrow> (Inl e, (rs, s))
          | Inr (response, s') \<Rightarrow>
              (case validateResponse parses response of
                 Inl e \<Rightarrow> (Inl e, (rs, s))
               | Inr _ \<Rightarrow>
                   (Inr \<lparr>mx_responseStatus = ms_responseStatus response, mx_responseBody = ms_responseBody response, mx_replayed = False\<rparr>,
                    (rs @ [stored_receipt now k response], s')))))"
proof -
  have upd: "update_where (receipt_of k) (complete_receipt now response) (rs @ [new_receipt now k]) = rs @ [stored_receipt now k response]"
    if "find (receipt_of k) rs = None" for response
  proof -
    have "update_where (receipt_of k) (complete_receipt now response) rs = rs"
      using that by (intro update_where_None) (auto simp: find_None_iff)
    then show ?thesis by (simp add: update_where_def stored_receipt_def receipt_of_def new_receipt_def)
  qed
  show ?thesis
    using assms upd
    by (auto simp: executeIdempotentResponse_def withTransaction_def on_receipts_def inside_def tx_defs
        split: option.splits sum.splits prod.splits)
qed

section \<open>Runs\<close>

type_synonym served_entry = "(string \<times> mutation_method \<times> string \<times> string) \<times> string \<times> int \<times> string"

definition served :: "receipt_scope \<Rightarrow> app_error + receipt_result \<Rightarrow> served_entry list" where
  "served k r =
     (case r of
        Inl _ \<Rightarrow> []
      | Inr x \<Rightarrow> if mx_replayed x then [] else [(scope_key k, mr_requestHash k, mx_responseStatus x, mx_responseBody x)])"

text \<open>
  Requests of anybody with any operation, and any other change of the database that leaves the receipts alone; the log
  holds the answers of the operations that took effect.
\<close>

inductive receipt_step :: "(string \<Rightarrow> bool) \<Rightarrow> receipt_row list \<times> 's \<times> served_entry list \<Rightarrow> receipt_row list \<times> 's \<times> served_entry list \<Rightarrow> bool"
  for parses where
  request: "withTransaction (executeIdempotentResponse parses now k operation) (rs, s) = (r, (rs', s')) \<Longrightarrow>
     receipt_step parses (rs, s, served_log) (rs', s', served_log @ served k r)"
| other: "receipt_step parses (rs, s, served_log) (rs, s', served_log)"

definition served_row :: "served_entry \<Rightarrow> receipt_row \<Rightarrow> bool" where
  "served_row = (\<lambda>(key, hash, status, body) r.
     row_key r = key \<and> rr_request_hash r = hash \<and> rr_response_status r = Some status \<and> rr_response_body r = Some body)"

fun receipts_ok :: "receipt_row list \<times> 's \<times> served_entry list \<Rightarrow> bool" where
  "receipts_ok (rs, s, served_log) \<longleftrightarrow> list_all2 served_row served_log rs \<and> distinct (map fst served_log)"

lemma served_row_iff: "served_row (key, hash, status, body) r \<longleftrightarrow>
    row_key r = key \<and> rr_request_hash r = hash \<and> rr_response_status r = Some status \<and> rr_response_body r = Some body"
  by (simp add: served_row_def)

lemma lookup_Cons: "receipts_tbl.lookup key (r # rs) = (if row_key r = key then Some r else receipts_tbl.lookup key rs)"
  by (simp add: receipts_tbl.lookup_def)

lemma served_keys: "list_all2 served_row served_log rs \<Longrightarrow> map row_key rs = map fst served_log"
  by (induction rule: list_all2_induct) (auto simp: served_row_def)

lemma served_lookup_None:
  assumes "list_all2 served_row served_log rs" "map_of served_log key = None"
  shows "receipts_tbl.lookup key rs = None"
  using served_keys[OF assms(1)] assms(2) unfolding receipts_tbl.lookup_None map_of_eq_None_iff by (metis list.set_map)

lemma served_lookup_Some:
  "list_all2 served_row served_log rs \<Longrightarrow> map_of served_log key = Some e \<Longrightarrow>
   \<exists>r. receipts_tbl.lookup key rs = Some r \<and> served_row (key, e) r"
proof (induction rule: list_all2_induct)
  case Nil
  then show ?case by simp
next
  case (Cons x xs r rs)
  have r: "row_key r = fst x" using Cons(1) by (cases x) (simp add: served_row_iff)
  show ?case
  proof (cases "fst x = key")
    case True
    then have "x = (key, e)" using Cons(4) by (cases x) simp
    then show ?thesis using Cons(1) r by (simp add: lookup_Cons)
  next
    case False
    then show ?thesis using Cons(3,4) r by (simp add: lookup_Cons)
  qed
qed

lemma receipt_step_ok: "receipt_step parses w w' \<Longrightarrow> receipts_ok w \<Longrightarrow> receipts_ok w'"
proof (induction rule: receipt_step.induct)
  case (request now k operation rs s r rs' s' served_log)
  have ok: "list_all2 served_row served_log rs" "distinct (map fst served_log)" using request(2) by simp_all
  show ?case
  proof (cases "hash_check (mr_requestHash k)")
    case False
    then have "r = Inl (DbError ''check_violation'') \<and> rs' = rs"
      using request(1) by (simp add: executeIdempotentResponse_def withTransaction_def tx_defs)
    then show ?thesis using ok by (simp add: served_def)
  next
    case True
    have new: "\<forall>e\<in>set served_log. fst e \<noteq> scope_key k" if "find (receipt_of k) rs = None"
      using that served_keys[OF ok(1)] unfolding find_receipt receipts_tbl.lookup_None by (metis image_eqI list.set_map)
    show ?thesis
      using request(1)[unfolded execute_cases[OF True]] ok new
      by (auto simp: served_def replay_def served_row_iff intro!: list_all2_appendI split: option.splits sum.splits prod.splits if_splits)
  qed
next
  case (other rs s served_log s')
  then show ?case by simp
qed

interpretation receipt_run: step_invariant "receipt_step parses" receipts_ok for parses
  by unfold_locales (rule receipt_step_ok)

text \<open>\<^bold>\<open>C13.\<close> In any run of mutations and other changes that starts without receipts, at most one operation took effect for each
  principal, method, path and idempotency key. A request under a key that was served changes nothing: it gets the stored
  answer when its input is the same, and is refused when it differs. A request under another key takes effect as its
  operation does and is given its answer, unless the operation or the check of the answer fails; then nothing is changed,
  and the key is as free as before.\<close>

theorem mutation_exactly_once:
  assumes "(receipt_step parses)\<^sup>*\<^sup>* ([], s0, []) (rs, s, served_log)" "hash_check (mr_requestHash k)"
  shows "distinct (map fst served_log) \<and>
    (case map_of served_log (scope_key k) of
       Some (hash, status, body) \<Rightarrow>
         withTransaction (executeIdempotentResponse parses now k operation) (rs, s) =
           (if hash = mr_requestHash k
            then Inr \<lparr>mx_responseStatus = status, mx_responseBody = body, mx_replayed = True\<rparr> else Inl reusedKey, (rs, s))
     | None \<Rightarrow>
         (case operation s of
            Inl e \<Rightarrow> withTransaction (executeIdempotentResponse parses now k operation) (rs, s) = (Inl e, (rs, s))
          | Inr (response, s') \<Rightarrow>
              (case validateResponse parses response of
                 Inl e \<Rightarrow> withTransaction (executeIdempotentResponse parses now k operation) (rs, s) = (Inl e, (rs, s))
               | Inr _ \<Rightarrow> \<exists>rs'. withTransaction (executeIdempotentResponse parses now k operation) (rs, s) =
                   (Inr \<lparr>mx_responseStatus = ms_responseStatus response, mx_responseBody = ms_responseBody response,
                         mx_replayed = False\<rparr>, (rs', s')))))"
proof -
  have "receipts_ok ([], s0, [])" by simp
  then have "receipts_ok (rs, s, served_log)" by (rule receipt_run.run_keeps[OF assms(1)])
  then have ok: "list_all2 served_row served_log rs" "distinct (map fst served_log)" by simp_all
  show ?thesis
  proof (cases "map_of served_log (scope_key k)")
    case None
    then have "find (receipt_of k) rs = None" using served_lookup_None[OF ok(1)] by (simp add: find_receipt)
    then show ?thesis using ok(2) None unfolding execute_cases[OF assms(2)] by (auto split: sum.splits prod.splits)
  next
    case (Some e)
    obtain h st b where e: "e = (h, st, b)" by (cases e)
    from served_lookup_Some[OF ok(1) Some] obtain r where "find (receipt_of k) rs = Some r" "served_row (scope_key k, h, st, b) r"
      unfolding e find_receipt by blast
    then show ?thesis using ok(2) Some e unfolding execute_cases[OF assms(2)] by (simp add: replay_def served_row_iff)
  qed
qed

section \<open>A logout that is sent again\<close>

lemma find_unique: "s \<in> set xs \<Longrightarrow> P s \<Longrightarrow> (\<And>x. x \<in> set xs \<Longrightarrow> P x \<Longrightarrow> x = s) \<Longrightarrow> find P xs = Some s"
proof (induction xs)
  case Nil
  then show ?case by simp
next
  case (Cons a xs)
  show ?case
  proof (cases "P a")
    case True
    then show ?thesis using Cons.prems(3)[of a] by simp
  next
    case False
    then have "s \<in> set xs" using Cons.prems(1,2) by auto
    then show ?thesis using False Cons.IH[OF _ Cons.prems(2)] Cons.prems(3) by simp
  qed
qed

lemma find_update_where:
  assumes "\<And>r. Q (f r) = Q r"
  shows "find Q (update_where P f xs) = map_option (\<lambda>r. if P r then f r else r) (find Q xs)"
  by (induction xs) (auto simp: update_where_def assms)

lemma usable_frame: "ad_operators d' = ad_operators d \<Longrightarrow> usable_session b now H d' = usable_session b now H d"
  by (rule ext) (simp add: usable_session_def operator_of_def)

lemma usable_revoked: "usable_session True now H d (revoke_row t reason r) = usable_session True now H d r"
  by (simp add: usable_session_def revoke_row_def)

text \<open>Revoking sessions does not take the context of a mutation away: the receipts must still be found.\<close>

lemma context_kept:
  assumes "requireAuthMutationContext A now m d = Inr (c, e)" "session_tbl.keys_distinct (ad_sessions d)"
    and "mc_sessionToken m = Some token"
    and "\<forall>s\<in>set (ad_sessions d). os_token_hash s = ae_hashOpaqueToken A token \<longrightarrow> now' < os_expires_at s"
    and "ad_operators d' = ad_operators d" "ad_sessions d' = update_where P (revoke_row t reason) (ad_sessions d)"
  shows "requireAuthMutationContext A now' m d' = Inr (c, d')"
proof -
  let ?H = "ae_hashOpaqueToken A token"
  from assms(1,3) obtain s p where tok: "truthy (Some token) = Some token"
    and f: "find (usable_session True now ?H d) (ad_sessions d) = Some s" and p: "operator_of d (os_operator_id s) = Some p"
    and csrf: "assertCsrfToken A (os_csrf_token_hash s) (mc_csrfCookie m) (mc_csrfHeader m) = Inr ()"
    and c: "c = (os_operator_id s, os_id s)"
    unfolding requireAuthMutationContext_def require_session_def loadSession_def
    by (auto simp: tx_simps truthy_def split: option.splits if_splits)
  have s: "s \<in> set (ad_sessions d)" "usable_session True now ?H d s" using find_SomeD[OF f] by simp_all
  have "find (usable_session True now' ?H d) (ad_sessions d) = Some s"
  proof (rule find_unique[OF s(1)])
    show "usable_session True now' ?H d s" using s assms(4) by (auto simp: usable_session_def)
    fix x assume "x \<in> set (ad_sessions d)" "usable_session True now' ?H d x"
    then show "x = s" using session_tbl.lookup_mem[OF assms(2)] s by (metis usable_session_def option.inject)
  qed
  then have f': "find (usable_session True now' ?H d') (ad_sessions d') = Some (if P s then revoke_row t reason s else s)"
    unfolding assms(6) usable_frame[OF assms(5)] by (simp add: find_update_where usable_revoked)
  define s' where "s' = (if P s then revoke_row t reason s else s)"
  have s': "os_operator_id s' = os_operator_id s" "os_id s' = os_id s" "os_csrf_token_hash s' = os_csrf_token_hash s"
    by (simp_all add: s'_def revoke_row_def)
  have "operator_of d' (os_operator_id s) = Some p" using p assms(5) by (simp add: operator_of_def)
  then show ?thesis using f'[folded s'_def] csrf c tok assms(3) s'
    by (simp add: requireAuthMutationContext_def require_session_def loadSession_def tx_defs)
qed

lemma logout_Inr:
  assumes "logout_operation A now m d = Inr (v, d')"
  shows "\<exists>P. ad_operators d' = ad_operators d \<and> ad_sessions d' = update_where P (revoke_row now ''LOGOUT'') (ad_sessions d)"
  using assms unfolding logout_operation_def logoutOperator_def
  by (auto simp: tx_simps upd_session_def audit_def dest!: mutation_Inr split: prod.splits)

lemma update_where_never: "update_where (\<lambda>_. False) f xs = xs"
  by (simp add: update_where_def)

lemma executed_again:
  assumes "withTransaction (executeIdempotentResponse parses now k operation) (rs, s) = (Inr x, (rs', s'))"
  shows "withTransaction (executeIdempotentResponse parses now' k operation') (rs', s') = (Inr (x\<lparr>mx_replayed := True\<rparr>), (rs', s'))"
    "s' = s \<or> (\<exists>response. operation s = Inr (response, s'))"
proof -
  have h: "hash_check (mr_requestHash k)"
    using assms by (auto simp: executeIdempotentResponse_def withTransaction_def tx_defs split: if_splits)
  show "withTransaction (executeIdempotentResponse parses now' k operation') (rs', s') = (Inr (x\<lparr>mx_replayed := True\<rparr>), (rs', s'))"
  proof (cases "find (receipt_of k) rs")
    case None
    then have "find (receipt_of k) (rs @ [stored_receipt now k response]) = Some (stored_receipt now k response)" for response
      unfolding find_receipt receipts_tbl.lookup_append by simp
    then show ?thesis using assms None unfolding execute_cases[OF h]
      by (auto simp: replay_def split: sum.splits prod.splits)
  next
    case (Some r)
    then show ?thesis using assms unfolding execute_cases[OF h]
      by (auto simp: replay_def split: option.splits if_splits)
  qed
  show "s' = s \<or> (\<exists>response. operation s = Inr (response, s'))"
    using assms unfolding execute_cases[OF h] by (auto split: option.splits sum.splits prod.splits)
qed

lemma map_sum_Inr: "map_sum id fst r = Inr c \<longleftrightarrow> (\<exists>e. r = Inr (c, e))"
  by (cases r) auto

text \<open>\<^bold>\<open>C14.\<close> A logout whose answer was lost can be sent again: the second request, at any time before the session would have
  expired, is let through although the session is revoked, gets the very answer of the first, and changes nothing, neither
  the sessions nor the receipts.\<close>

theorem logout_sent_again:
  assumes "logoutRoute R now q m (rs, d) = (Route_data status body, rs', d')" "distinct (map os_token_hash (ad_sessions d))"
    and "mc_sessionToken m = Some token"
    and "\<forall>s\<in>set (ad_sessions d). os_token_hash s = ae_hashOpaqueToken (re_auth R) token \<longrightarrow> now' < os_expires_at s"
  shows "logoutRoute R now' q m (rs', d') = (Route_data status body, rs', d')"
proof -
  let ?execute = "\<lambda>now k. executeIdempotentMutation (re_parses R) (re_js R) now k 200 (logout_operation (re_auth R) now m)"
  have no_error: "routeErrorResponse e \<noteq> Route_data status body" for e
    by (auto simp: routeErrorResponse_def split: app_error.splits)
  from assms(1) no_error obtain a c e k where gate: "assertSameOriginOf (re_urls R) (re_variables R) (api_request.truncate q) = Inr ()"
      "validateAuthRuntime (re_urls R) (re_variables R) = Inr a"
    and c: "requireAuthMutationContext (re_auth R) now m d = Inr (c, e)" and k: "logout_scope R q c = Inr k"
    and rest: "(case withTransaction (?execute now k) (rs, d) of
        (Inl e, w) \<Rightarrow> (routeErrorResponse e, w)
      | (Inr receipt, w) \<Rightarrow> (Route_data (mx_responseStatus receipt) (mx_responseBody receipt), w)) = (Route_data status body, rs', d')"
    unfolding logoutRoute_def by (auto simp: tx_simps map_sum_Inr split: sum.splits)
  from rest no_error obtain x where x: "withTransaction (?execute now k) (rs, d) = (Inr x, (rs', d'))"
    "status = mx_responseStatus x" "body = mx_responseBody x"
    by (auto split: prod.splits sum.splits)
  note again = executed_again[OF x(1)[unfolded executeIdempotentMutation_def]]
  have "\<exists>P. ad_operators d' = ad_operators d \<and> ad_sessions d' = update_where P (revoke_row now ''LOGOUT'') (ad_sessions d)"
    using again(2) logout_Inr by (auto simp: tx_simps intro: exI[of _ "\<lambda>_. False"] simp: update_where_never)
  then obtain P where P: "ad_operators d' = ad_operators d" "ad_sessions d' = update_where P (revoke_row now ''LOGOUT'') (ad_sessions d)"
    by blast
  have "requireAuthMutationContext (re_auth R) now' m d' = Inr (c, d')"
    by (rule context_kept[OF c _ assms(3,4) P]) (use assms(2) in \<open>simp add: session_tbl.keys_distinct_def\<close>)
  then show ?thesis
    using gate k x(2,3) again(1)[of now' "tbind (logout_operation (re_auth R) now' m)
        (\<lambda>v. ret \<lparr>ms_responseStatus = 200, ms_responseBody = data_body (re_js R) v\<rparr>)"]
    unfolding logoutRoute_def executeIdempotentMutation_def by simp
qed

text \<open>The demo operator logs out, loses the answer and sends the request again.\<close>

definition demo_js_env :: js_env where
  "demo_js_env = \<lparr>num_text = (\<lambda>r. ''0''), locale_le = (\<lambda>a b. True), sha256_hex = (\<lambda>s. replicate 64 (CHR ''a''))\<rparr>"

definition demo_routes :: route_env where
  "demo_routes = \<lparr>re_urls = demo_urls, re_variables = demo_variables, re_decode = Some,
     re_auth = demo_auth\<lparr>ae_hashOpaqueToken := (\<lambda>t. if length t < 10 then CHR ''h'' # t else replicate 64 (CHR ''b''))\<rparr>,
     re_js = demo_js_env, re_parses = (\<lambda>s. s \<noteq> [])\<rparr>"

definition demo_http :: http_request where
  "demo_http = api_request.extend demo_request
     (http_request.fields ''/api/auth/logout'' [] None None (Some ''logout-0001'') None)"

definition demo_receipts :: "receipt_row list" where
  "demo_receipts = fst (snd (logoutRoute demo_routes 10 demo_http demo_credentials ([], demo_auth_db)))"

definition demo_after_logout :: auth_db where
  "demo_after_logout = snd (snd (logoutRoute demo_routes 10 demo_http demo_credentials ([], demo_auth_db)))"

lemma logout_sent_again_witness:
  "logoutRoute demo_routes 500 demo_http demo_credentials (demo_receipts, demo_after_logout) =
     (Route_data 200 (''{'' @ json_quote ''data'' @ '':{'' @ json_quote ''authenticated'' @ '':false}}''), demo_receipts, demo_after_logout) \<and>
   logoutOperator demo_auth 500 demo_credentials demo_after_logout = Inl authentication_required"
proof -
  have first: "logoutRoute demo_routes 10 demo_http demo_credentials ([], demo_auth_db) =
      (Route_data 200 (''{'' @ json_quote ''data'' @ '':{'' @ json_quote ''authenticated'' @ '':false}}''), demo_receipts, demo_after_logout)"
    by code_simp
  have facts: "distinct (map os_token_hash (ad_sessions demo_auth_db))" "mc_sessionToken demo_credentials = Some ''T1''"
    "logoutOperator demo_auth 500 demo_credentials demo_after_logout = Inl authentication_required"
    by code_simp+
  have "list_all (\<lambda>s. 500 < os_expires_at s) (ad_sessions demo_auth_db)" by code_simp
  then show ?thesis using logout_sent_again[OF first facts(1,2), of 500] facts(3) by (simp add: list_all_iff)
qed

definition demo_scope :: receipt_scope where
  "demo_scope = \<lparr>mr_principalScope = ''operator:o1'', mr_method = POST, mr_requestPath = ''/api/auth/logout'',
     mr_idempotencyKey = ''logout-0001'', mr_requestHash = replicate 64 (CHR ''b'')\<rparr>"

definition demo_answer :: "(auth_db, mutation_response) tx" where
  "demo_answer = tbind (logout_operation demo_auth 10 demo_credentials) (\<lambda>v.
     ret \<lparr>ms_responseStatus = 200, ms_responseBody = data_body demo_js_env v\<rparr>)"

definition demo_served :: "receipt_row list \<times> auth_db" where
  "demo_served = snd (withTransaction (executeIdempotentResponse (\<lambda>s. s \<noteq> []) 10 demo_scope demo_answer) ([], demo_auth_db))"

lemma mutation_exactly_once_witness:
  "\<exists>body. withTransaction (executeIdempotentResponse (\<lambda>s. s \<noteq> []) 20 demo_scope demo_answer) demo_served =
     (Inr \<lparr>mx_responseStatus = 200, mx_responseBody = body, mx_replayed = True\<rparr>, demo_served)"
proof -
  obtain r rs s where e: "withTransaction (executeIdempotentResponse (\<lambda>s. s \<noteq> []) 10 demo_scope demo_answer) ([], demo_auth_db) = (r, (rs, s))"
    by (metis surj_pair)
  have "case withTransaction (executeIdempotentResponse (\<lambda>s. s \<noteq> []) 10 demo_scope demo_answer) ([], demo_auth_db) of
      (Inr x, _) \<Rightarrow> mx_responseStatus x = 200 \<and> \<not> mx_replayed x | _ \<Rightarrow> False" by code_simp
  with e obtain x where x: "r = Inr x" "mx_responseStatus x = 200" "\<not> mx_replayed x" by (auto split: sum.splits)
  have "receipt_step (\<lambda>s. s \<noteq> []) ([], demo_auth_db, []) (rs, s, [] @ served demo_scope r)" by (rule receipt_step.request[OF e])
  then have run: "(receipt_step (\<lambda>s. s \<noteq> []))\<^sup>*\<^sup>* ([], demo_auth_db, []) (rs, s, served demo_scope r)" by simp
  have h: "hash_check (mr_requestHash demo_scope)" by code_simp
  have "demo_served = (rs, s)" using e by (simp add: demo_served_def)
  then show ?thesis using mutation_exactly_once[OF run h, where operation = demo_answer and now = 20] x by (simp add: served_def)
qed

end
