(* ===== verification/Spec2Isabelle.thy ===== *)
theory Spec2Isabelle
  imports Run_Properties Document_Chunks Safe_Fetch Budget_Properties Provider_Limit_Properties Provider_Executions Handler_Properties
    Worker_Properties Qa_Properties Mutation_Properties
begin

text \<open>
  Verification of the durable-execution core of the AI research workbench: the job queue, the research runs and their
  stages, the worker that calls a provider and commits its output, and the guards it works under (budgets, rate limits,
  provenance, the guarded HTTP client, extraction and chunking of documents).

  \<^bold>\<open>The program.\<close> The web process and the worker process share a PostgreSQL database. An operator creates a research run
  from an approved scope and plan (\<open>lib/services/research-runs.ts\<close>); the run has eleven stages, each of which is queued as a
  durable job (\<open>lib/services/run-stages.ts\<close>, \<open>lib/services/jobs.ts\<close>). A worker claims a job under a lease, and its handler
  (\<open>worker/research-pipeline-handler.ts\<close>) loads the stage's bundle, checks the budget (\<open>lib/budgets\<close>), takes a permit
  (\<open>lib/services/provider-limits.ts\<close>), opens an execution record (\<open>lib/services/provider-executions.ts\<close>), asks the
  provider, commits the output with its domain effects (\<open>lib/services/research-orchestrator.ts\<close>), and queues the next stage or
  stops at a boundary. Everything a worker writes is fenced by the identity of its lease: job, attempt, worker, expiry.

  \<^bold>\<open>Foundations.\<close>
  \<^item> \<open>Prelude\<close>: JavaScript numbers (\<open>jsnum\<close>, exact rationals with the three special values) and values (\<open>jsv\<close>), errors,
    transactions (\<open>tx\<close>: state to error or value and state, so that a throw rolls back, as \<open>withTransaction\<close> does), tables as
    lists of rows; the locales \<open>tx_preorder\<close> (a relation every part of a transaction respects), \<open>keyed_table\<close>,
    \<open>status_machine\<close>, \<open>step_invariant\<close> and \<open>step_preorder\<close>.
  \<^item> \<open>Database\<close>: the row types of the migrations, one record per table, and the shared accesses. \<open>Provider_Store\<close>: the
    tables of rate windows, permits and provider executions; a \<open>world\<close> is the database with these tables.
  \<^item> \<open>Stable_Json\<close> (\<open>lib/providers/ai-shared.ts\<close>): canonical JSON and the input hash. \<open>Js_Text\<close>: the string functions and
    regular expressions used. \<open>Worker_Io\<close>: asynchronous code as a function of an environment and a state; every \<open>await\<close> is
    one transaction, before which other processes may change the shared state at will, and is kept in a log.

  \<^bold>\<open>The job queue.\<close> \<open>Job_Domain\<close> (\<open>lib/domain/jobs.ts\<close>): statuses, retry policy and delay, the error sanitiser.
  \<open>Job_Queue\<close> (\<open>lib/services/jobs.ts\<close>): every exported operation as the body of its transaction, with its audit and event
  rows and its reconciliation of the linked run and stage. \<open>Job_Ledger\<close> states the contract as an abstract step relation on
  jobs, attempts and events, and shows that each operation is a sequence of such steps; \<open>Job_Invariants\<close> proves the
  invariants of the ledger (well-formed rows, unique keys, gapless attempts, an event log that replays to the table) and
  carries them to every interleaving; \<open>Job_Properties\<close> holds what follows for callers: a lost lease stays lost, a submission
  happens once, claims and recoveries do all they should, what a failure leads to.

  \<^bold>\<open>Runs and stages.\<close> \<open>Run_Domain\<close> (\<open>lib/domain/research-runs.ts\<close>, \<open>lib/execution/stages.ts\<close>): lifecycles and the
  catalogue. \<open>Approval_Revisions\<close>, \<open>Research_Runs\<close>, \<open>Run_Stages\<close>: the services of the same names. \<open>Stage_Ledger\<close> is the
  abstract contract of the stage table, \<open>Stage_Refinement\<close> and \<open>Stage_Queue\<close> prove that the stage operations and the queue
  implement it, \<open>Pipeline\<close> composes the operations of all three services into one step relation, and
  \<open>Pipeline_Properties\<close> and \<open>Run_Properties\<close> hold its invariant, its refinement of the ledgers, and the behaviour of commit,
  restart, resume and cancellation.

  \<^bold>\<open>A stage at work.\<close> \<open>Stage_Outputs\<close> (\<open>lib/providers/types.ts\<close>): the outputs of the stages and the references in them.
  \<open>Research_Bundle\<close>, \<open>Domain_Effects\<close>, \<open>Stage_Advance\<close> (\<open>lib/services/research-orchestrator.ts\<close>): what a stage is given,
  what its commit writes to the research tables, and where the run goes next. \<open>Domain_Properties\<close>: a commit keeps what a
  person revised, and what it writes can be traced to eligible sources. \<open>Pipeline_Handler\<close> is the handler itself, and
  \<open>Handler_Properties\<close> shows, over every environment, the order of its calls, that a permit is given back, and that success
  means a commit under the fence. \<open>Budgets\<close> and \<open>Budget_Properties\<close>, \<open>Provider_Limits\<close> and \<open>Provider_Limit_Properties\<close>,
  \<open>Provider_Executions\<close>: the guards and their guarantees.

  \<^bold>\<open>The worker process.\<close> \<open>Durable_Worker\<close> (\<open>worker/durable-worker.ts\<close>, \<open>worker/handlers.ts\<close>): the polling loop, the slots
  and the executions it starts, as a step relation of the worker and the database. \<open>Worker_Properties\<close>: every run of a worker
  is a sequence of queue operations, it never exceeds its capacity, and an execution settles its job by its outcome.

  \<^bold>\<open>Research and quality rules.\<close> \<open>Research_Rules\<close> (\<open>lib/domain/research.ts\<close>): dates, sources, claims, translation and
  review rules. \<open>Qa_Rules\<close> and \<open>Qa_Properties\<close> (\<open>lib/domain/qa.ts\<close>): the checks before publication and what the gate means.

  \<^bold>\<open>Operators.\<close> \<open>Operator_Auth\<close> (\<open>lib/services/auth.ts\<close>, \<open>lib/auth\<close>): accounts, sessions, login throttling and the gate of
  an API request. \<open>Auth_Properties\<close>: revoked and expired sessions stay out over every run, what a change of the password
  does, how often a password can be guessed, and who passes the gate. \<open>Mutation_Receipts\<close> (\<open>lib/services/mutation-receipts.ts\<close>,
  \<open>lib/http.ts\<close>): a mutation and its receipt in one transaction, and the routes around it; \<open>Mutation_Properties\<close>: it takes
  effect once per key, and what is sent again gets the stored answer.

  \<^bold>\<open>Documents and network.\<close> \<open>Content_Security\<close>, \<open>Document_Extraction\<close>, \<open>Document_Chunks\<close>: prompt-injection heuristics,
  the end of an extraction, and chunks with citation anchors. \<open>Ip_Addresses\<close> (IPv4 on \<open>32 word\<close>) and \<open>Safe_Fetch\<close>
  (\<open>lib/security/url.ts\<close>): the classification of addresses and the client that connects to public ones only.

  \<^bold>\<open>Conventions.\<close> Times are integers in milliseconds. A string is a list of UTF-16 code units below 256; others are
  outside the model.
  Machine integers of SQL are unbounded integers, costs are exact rationals. The row lock of \<open>FOR UPDATE\<close> and the isolation
  of transactions appear as the atomicity of a transaction: transactions run one at a time, and \<open>SKIP LOCKED\<close> finds no row to skip.
  \<open>AppError\<close>s are kept by code, other thrown values by a label; messages only where the code stores or parses them.

  \<^bold>\<open>Parameters.\<close> SHA-256, HMAC, Argon2, \<open>localeCompare\<close> and number formatting (\<open>js_env\<close>); the zod schemas of the stages
  (\<open>stage_schemas\<close>); \<open>randomUUID\<close> and the clocks; the provider's answers; the DNS resolver, the HTTP agent, the URL parser
  and the HTML sanitiser; the other processes, the abort signal and connection failures (\<open>io_env\<close>). A theorem names what it
  needs of them, and its witness instantiates them.

  \<^bold>\<open>Bounds.\<close> No definition takes fuel. Every recursion is structural or has a proved measure (the redirect loop of the client
  counts down the limit of the source), except the split of a long block, whose loop may not end for every choice of limits:
  it is a partial function into \<open>option\<close>, and \<open>chunkExtraction_returns\<close> shows that the limits the source admits always give
  a result.

  \<^bold>\<open>Not modelled.\<close> The zod schemas and the providers (packages and remote services); \<open>budgetSnapshot\<close> (a run keeps a
  validated snapshot here) and \<open>parseModelPrices\<close>; signal handling and process exit of the worker;
  object storage, exports, evaluation and the parsers of document formats (files and packages); the cookies of a response,
  the documents service, source searches and the editorial services (row-by-row edits by a person), metrics, the other routes
  and the user interface.
\<close>

end
